(* ===== verification/Prelude.thy ===== *)
theory Prelude
  imports
    Main
    "HOL-Library.AList"
    "HOL-Library.Char_ord"
    "HOL-Library.List_Lexorder"
    "HOL-Library.Product_Lexorder"
begin

text \<open>
  What every component theory shares: the exceptions of the Python code as a datatype and
  the result of a method that may raise, dictionaries as association lists in insertion
  order, the string functions of the Python library that the code calls, times, and the
  facts about them that the component proofs use.

  A method that reads and writes the state of its object becomes a function that returns
  its result and the new state. The result is a sum: \<open>Inl\<close> is the exception raised,
  \<open>Inr\<close> the value returned. The state is returned in both cases, because a mutation made
  before a \<^verbatim>\<open>raise\<close> stays made.
\<close>

section \<open>Exceptions and results\<close>

datatype error =
    ValueError string
  | ControlConflict string
  | ControlNotFound string
  | PermissionError string
  | AuthenticationError string
  | LookupError string
  | KeyError
  | RuntimeError string
  | ProvisioningConflict string
  | ProvisioningFailed string
  | ActiveMigrationConflict string
  | ActiveMigrationFailed string
  | TenantMemoryUnavailable string
  | DecommissionConflict string
  | DecommissionNotReady string
  | DecommissionOperationFailed string
  | AgentRunLeaseLost string
  | AgentRunCancellationRequested string
  | AgentCancellationRequested
  | AgentBudgetExceeded string
  | TypeError string
  | InvalidOperation
  | CancelledError
  | AdapterError string

text \<open>\<^verbatim>\<open>type(exc).__name__\<close>; an adapter's own exception carries its class name.\<close>

fun error_name :: "error \<Rightarrow> string" where
  "error_name (ValueError _) = ''ValueError''"
| "error_name (ControlConflict _) = ''ControlConflict''"
| "error_name (ControlNotFound _) = ''ControlNotFound''"
| "error_name (PermissionError _) = ''PermissionError''"
| "error_name (AuthenticationError _) = ''AuthenticationError''"
| "error_name (LookupError _) = ''LookupError''"
| "error_name KeyError = ''KeyError''"
| "error_name (RuntimeError _) = ''RuntimeError''"
| "error_name (ProvisioningConflict _) = ''ProvisioningConflict''"
| "error_name (ProvisioningFailed _) = ''ProvisioningFailed''"
| "error_name (ActiveMigrationConflict _) = ''ActiveMigrationConflict''"
| "error_name (ActiveMigrationFailed _) = ''ActiveMigrationFailed''"
| "error_name (TenantMemoryUnavailable _) = ''TenantMemoryUnavailable''"
| "error_name (DecommissionConflict _) = ''DecommissionConflict''"
| "error_name (DecommissionNotReady _) = ''DecommissionNotReady''"
| "error_name (DecommissionOperationFailed _) = ''DecommissionOperationFailed''"
| "error_name (AgentRunLeaseLost _) = ''AgentRunLeaseLost''"
| "error_name (AgentRunCancellationRequested _) = ''AgentRunCancellationRequested''"
| "error_name AgentCancellationRequested = ''_AgentCancellationRequested''"
| "error_name (AgentBudgetExceeded _) = ''AgentBudgetExceeded''"
| "error_name (TypeError _) = ''TypeError''"
| "error_name InvalidOperation = ''InvalidOperation''"
| "error_name CancelledError = ''CancelledError''"
| "error_name (AdapterError name) = name"

type_synonym 'a result = "error + 'a"
type_synonym ('a, 's) outcome = "'a result \<times> 's"

definition and_then ::
  "('a, 's) outcome \<Rightarrow> ('a \<Rightarrow> 's \<Rightarrow> ('b, 's) outcome) \<Rightarrow> ('b, 's) outcome" where
  "and_then m f = (case m of (Inl e, s) \<Rightarrow> (Inl e, s) | (Inr x, s) \<Rightarrow> f x s)"

definition is_ok :: "'a result \<Rightarrow> bool" where
  "is_ok r = (case r of Inl _ \<Rightarrow> False | Inr _ \<Rightarrow> True)"

lemma and_then_simps [simp]:
  "and_then (Inl e, s) f = (Inl e, s)"
  "and_then (Inr x, s) f = f x s"
  by (simp_all add: and_then_def)

lemma is_ok_simps [simp]: "\<not> is_ok (Inl e)" "is_ok (Inr x)"
  by (simp_all add: is_ok_def)

lemma is_ok_fst_E:
  assumes "is_ok (fst m)"
  obtains x s where "m = (Inr x, s)"
  using assms by (cases m) (auto simp: is_ok_def split: sum.splits)

lemma and_then_Inr_E:
  assumes "and_then m f = (Inr y, t)"
  obtains x s where "m = (Inr x, s)" and "f x s = (Inr y, t)"
  using assms by (auto simp: and_then_def split: prod.splits sum.splits)

lemma and_then_split:
  "P (and_then m f) \<longleftrightarrow>
     (\<forall>e s. m = (Inl e, s) \<longrightarrow> P (Inl e, s)) \<and> (\<forall>x s. m = (Inr x, s) \<longrightarrow> P (f x s))"
  by (cases m) (auto simp: and_then_def split: sum.splits)

section \<open>Dictionaries\<close>

text \<open>
  A Python dict keeps its keys in insertion order: storing under a present key replaces the
  value in place, storing under a new key appends it. This is \<^const>\<open>AList.update\<close> on an
  association list. \<^const>\<open>map_of\<close> is the \<open>get\<close> method.
\<close>

type_synonym ('k, 'v) dict = "('k \<times> 'v) list"

abbreviation dict_get :: "('k, 'v) dict \<Rightarrow> 'k \<Rightarrow> 'v option" where
  "dict_get d k \<equiv> map_of d k"

abbreviation dict_set :: "'k \<Rightarrow> 'v \<Rightarrow> ('k, 'v) dict \<Rightarrow> ('k, 'v) dict" where
  "dict_set k v d \<equiv> AList.update k v d"

abbreviation dict_pop :: "'k \<Rightarrow> ('k, 'v) dict \<Rightarrow> ('k, 'v) dict" where
  "dict_pop k d \<equiv> AList.delete k d"

definition dict_keys :: "('k, 'v) dict \<Rightarrow> 'k list" where
  "dict_keys d = map fst d"

definition dict_values :: "('k, 'v) dict \<Rightarrow> 'v list" where
  "dict_values d = map snd d"

definition dict_ok :: "('k, 'v) dict \<Rightarrow> bool" where
  "dict_ok d \<longleftrightarrow> distinct (map fst d)"

text \<open>
  \<^verbatim>\<open>for key, value in tuple(d.items()): if p(value): d[key] = f(value)\<close> is a map over
  the values. \<open>dict_update_loop\<close> is the loop as written, one assignment per item of the
  snapshot, and \<open>dict_update_loop_eq\<close> shows that the two agree.
\<close>

definition dict_map :: "('v \<Rightarrow> 'v) \<Rightarrow> ('k, 'v) dict \<Rightarrow> ('k, 'v) dict" where
  "dict_map f d = map (\<lambda>(k, v). (k, f v)) d"

fun dict_update_loop ::
  "('v \<Rightarrow> bool) \<Rightarrow> ('v \<Rightarrow> 'v) \<Rightarrow> ('k \<times> 'v) list \<Rightarrow> ('k, 'v) dict \<Rightarrow> ('k, 'v) dict" where
  "dict_update_loop p f [] d = d"
| "dict_update_loop p f ((k, v) # items) d =
     dict_update_loop p f items (if p v then dict_set k (f v) d else d)"

definition dict_map_keyed :: "('k \<Rightarrow> 'v \<Rightarrow> 'v) \<Rightarrow> ('k, 'v) dict \<Rightarrow> ('k, 'v) dict" where
  "dict_map_keyed f d = map (\<lambda>(k, v). (k, f k v)) d"

text \<open>\<^verbatim>\<open>{key for key, value in d.items() if p(value)}\<close>\<close>

definition keys_where :: "('v \<Rightarrow> bool) \<Rightarrow> ('k, 'v) dict \<Rightarrow> 'k set" where
  "keys_where p d = set (map fst (filter (\<lambda>(k, v). p v) d))"

lemma dict_get_map_keyed [simp]: "dict_get (dict_map_keyed f d) k = map_option (f k) (dict_get d k)"
  by (induction d) (auto simp: dict_map_keyed_def)

lemma dict_ok_map_keyed [simp]: "dict_ok (dict_map_keyed f d) = dict_ok d"
  by (simp add: dict_ok_def dict_map_keyed_def comp_def split_def)

lemma keys_where_iff:
  "dict_ok d \<Longrightarrow> k \<in> keys_where p d \<longleftrightarrow> (\<exists>v. dict_get d k = Some v \<and> p v)"
  by (force simp: keys_where_def dict_ok_def)

lemma dict_get_map [simp]: "dict_get (dict_map f d) k = map_option f (dict_get d k)"
  by (induction d) (auto simp: dict_map_def)

lemma dict_get_set: "dict_get (dict_set k v d) k' = (if k' = k then Some v else dict_get d k')"
  by (simp add: update_conv')

lemma dict_get_set_same [simp]: "dict_get (dict_set k v d) k = Some v"
  by (simp add: update_conv')

lemma dict_get_set_other [simp]: "k' \<noteq> k \<Longrightarrow> dict_get (dict_set k v d) k' = dict_get d k'"
  by (simp add: update_conv')

lemma dict_get_pop: "dict_get (dict_pop k d) k' = (if k' = k then None else dict_get d k')"
  by (simp add: delete_conv')

lemma dict_ok_empty [simp, intro]: "dict_ok []"
  by (simp add: dict_ok_def)

lemma dict_ok_set [simp, intro]: "dict_ok d \<Longrightarrow> dict_ok (dict_set k v d)"
  by (simp add: dict_ok_def distinct_update)

lemma dict_ok_pop [simp, intro]: "dict_ok d \<Longrightarrow> dict_ok (dict_pop k d)"
  by (simp add: dict_ok_def distinct_delete)

lemma dict_ok_map [simp]: "dict_ok (dict_map f d) = dict_ok d"
  by (simp add: dict_ok_def dict_map_def comp_def split_def)

lemma dict_values_mem: "dict_ok d \<Longrightarrow> v \<in> set (dict_values d) \<longleftrightarrow> (\<exists>k. dict_get d k = Some v)"
  by (force simp: dict_ok_def dict_values_def)

lemma dict_keys_mem: "k \<in> set (dict_keys d) \<longleftrightarrow> dict_get d k \<noteq> None"
  by (auto simp: dict_keys_def map_of_eq_None_iff)

lemma dict_values_memI: "dict_get d k = Some v \<Longrightarrow> v \<in> set (dict_values d)"
  by (force simp: dict_values_def dest: map_of_SomeD)

lemma dict_update_append:
  "k \<notin> set (map fst pre) \<Longrightarrow> dict_set k v (pre @ (k, w) # post) = pre @ (k, v) # post"
  by (induction pre) auto

lemma dict_update_loop_aux:
  "dict_ok (pre @ items) \<Longrightarrow>
   dict_update_loop p f items (pre @ items) = pre @ dict_map (\<lambda>v. if p v then f v else v) items"
proof (induction items arbitrary: pre)
  case Nil
  then show ?case by (simp add: dict_map_def)
next
  case (Cons item items)
  obtain k v where item: "item = (k, v)" by (cases item)
  from Cons.prems have fresh: "k \<notin> set (map fst pre)"
    by (auto simp: item dict_ok_def)
  let ?v = "if p v then f v else v"
  have "dict_ok ((pre @ [(k, ?v)]) @ items)"
    using Cons.prems by (simp add: item dict_ok_def)
  then have "dict_update_loop p f items ((pre @ [(k, ?v)]) @ items)
      = (pre @ [(k, ?v)]) @ dict_map (\<lambda>v. if p v then f v else v) items"
    by (rule Cons.IH)
  then show ?case
    using fresh by (auto simp: item dict_map_def dict_update_append)
qed

lemma dict_update_loop_eq:
  "dict_ok d \<Longrightarrow> dict_update_loop p f d d = dict_map (\<lambda>v. if p v then f v else v) d"
  using dict_update_loop_aux [of "[]" d] by simp

section \<open>Truthiness\<close>

text \<open>
  \<^verbatim>\<open>if x := d.get(k)\<close> tests the truth value of the string found, so an empty string
  counts as absent; \<^verbatim>\<open>x or y\<close> on an optional string or integer likewise passes over an
  empty string and over 0.
\<close>

definition truthy :: "string option \<Rightarrow> string option" where
  "truthy x = (case x of None \<Rightarrow> None | Some v \<Rightarrow> if v = [] then None else Some v)"

definition or_string :: "string option \<Rightarrow> string \<Rightarrow> string" where
  "or_string x y = (case x of None \<Rightarrow> y | Some v \<Rightarrow> if v = [] then y else v)"

definition or_int :: "int option \<Rightarrow> int \<Rightarrow> int" where
  "or_int x y = (case x of None \<Rightarrow> y | Some v \<Rightarrow> if v = 0 then y else v)"

lemma truthy_simps [simp]:
  "truthy None = None" "truthy (Some v) = (if v = [] then None else Some v)"
  by (simp_all add: truthy_def)

lemma or_string_simps [simp]:
  "or_string None y = y" "or_string (Some v) y = (if v = [] then y else v)"
  by (simp_all add: or_string_def)

lemma or_int_simps [simp]:
  "or_int None y = y" "or_int (Some v) y = (if v = 0 then y else v)"
  by (simp_all add: or_int_def)

lemma truthy_Some_iff: "truthy x = Some v \<longleftrightarrow> x = Some v \<and> v \<noteq> []"
  by (auto simp: truthy_def split: option.splits)

section \<open>Strings\<close>

text \<open>
  A Python string is a list of code points; \<^typ>\<open>string\<close> holds those below 256, which is
  enough for every identifier, role and message of the program.
\<close>

definition py_isspace :: "char \<Rightarrow> bool" where
  "py_isspace c = (let n = (of_char c :: nat) in
     (9 \<le> n \<and> n \<le> 13) \<or> (28 \<le> n \<and> n \<le> 32) \<or> n = 133 \<or> n = 160)"

definition py_strip :: "string \<Rightarrow> string" where
  "py_strip s = rev (dropWhile py_isspace (rev (dropWhile py_isspace s)))"

text \<open>\<open>s.isdecimal()\<close>: some character, and every character a decimal digit.\<close>

definition py_isdecimal :: "string \<Rightarrow> bool" where
  "py_isdecimal s \<longleftrightarrow> s \<noteq> [] \<and> list_all (\<lambda>c. CHR ''0'' \<le> c \<and> c \<le> CHR ''9'') s"

text \<open>\<open>s.split(c, maxsplit=n)\<close> for a one-character separator.\<close>

fun py_split :: "char \<Rightarrow> nat \<Rightarrow> string \<Rightarrow> string list" where
  "py_split c 0 s = [s]"
| "py_split c (Suc n) s =
     (case dropWhile (\<lambda>x. x \<noteq> c) s of
        [] \<Rightarrow> [s]
      | _ # rest \<Rightarrow> takeWhile (\<lambda>x. x \<noteq> c) s # py_split c n rest)"

text \<open>\<open>s.replace(c, d)\<close> for one-character arguments.\<close>

definition py_replace :: "char \<Rightarrow> char \<Rightarrow> string \<Rightarrow> string" where
  "py_replace c d s = map (\<lambda>x. if x = c then d else x) s"

fun py_join :: "string \<Rightarrow> string list \<Rightarrow> string" where
  "py_join sep [] = []"
| "py_join sep [x] = x"
| "py_join sep (x # y # ys) = x @ sep @ py_join sep (y # ys)"

lemma py_split_at:
  "c \<notin> set a \<Longrightarrow> py_split c (Suc n) (a @ c # b) = a # py_split c n b"
  by (auto simp: dropWhile_append takeWhile_append takeWhile_eq_all_conv split: list.splits)

lemma py_split_nonempty: "py_split c n s \<noteq> []"
  by (cases n) (auto split: list.splits)

section \<open>Sorting\<close>

text \<open>
  \<^verbatim>\<open>sorted(xs, key=k)\<close> is the stable \<^const>\<open>sort_key\<close>. With \<^verbatim>\<open>reverse=True\<close> Python
  sorts in descending order and keeps the order of equal elements.
\<close>

definition sorted_desc :: "('a \<Rightarrow> 'b::linorder) \<Rightarrow> 'a list \<Rightarrow> 'a list" where
  "sorted_desc k xs = rev (sort_key k (rev xs))"

lemma set_sorted_desc [simp]: "set (sorted_desc k xs) = set xs"
  by (simp add: sorted_desc_def)

section \<open>Times\<close>

text \<open>
  A timezone-aware \<^verbatim>\<open>datetime\<close> is its number of microseconds since the epoch, a
  \<^verbatim>\<open>timedelta\<close> a number of microseconds.
\<close>

type_synonym datetime = int
type_synonym timedelta = int

definition seconds :: "int \<Rightarrow> timedelta" where "seconds n = n * 1000000"
definition minutes :: "int \<Rightarrow> timedelta" where "minutes n = n * 60000000"
definition hours :: "int \<Rightarrow> timedelta" where "hours n = n * 3600000000"
definition days :: "int \<Rightarrow> timedelta" where "days n = n * 86400000000"

lemma timedelta_pos [simp]:
  "0 < days n \<longleftrightarrow> 0 < n" "0 < hours n \<longleftrightarrow> 0 < n" "0 < minutes n \<longleftrightarrow> 0 < n"
  by (simp_all add: days_def hours_def minutes_def)

lemma days_nonpos [simp]: "days n \<le> 0 \<longleftrightarrow> n \<le> 0"
  by (simp add: days_def)

lemma days_mono [simp]: "days m \<le> days n \<longleftrightarrow> m \<le> n"
  by (simp add: days_def)

end
