(* ===== verification/Pipeline.thy ===== *)
theory Pipeline
  imports Prelude
begin

text \<open>
  Resumable pipelines. Tenant provisioning and active-Tenant migration both run a fixed
  tuple of steps and persist the tuple of completed ones after each; a run resumes at the
  step after the recorded prefix. This theory has the two list functions they share and the
  specification of one run, \<open>run_pending\<close>: execute the steps in order from the world given,
  stop at the first that raises, and report the steps that completed.
\<close>

definition next_step :: "'a list \<Rightarrow> 'a list \<Rightarrow> 'a option" where
  "next_step steps completed =
     (if length steps \<le> length completed then None else Some (steps ! length completed))"

definition valid_prefix :: "'a list \<Rightarrow> 'a list \<Rightarrow> bool" where
  "valid_prefix steps completed \<longleftrightarrow> take (length completed) steps = completed"

fun run_pending ::
  "('a \<Rightarrow> 'w \<Rightarrow> (unit, 'w) outcome) \<Rightarrow> 'a list \<Rightarrow> 'w \<Rightarrow> 'a list \<times> ('a \<times> error) option \<times> 'w" where
  "run_pending exec [] w = ([], None, w)"
| "run_pending exec (x # xs) w =
     (case exec x w of
        (Inl e, w') \<Rightarrow> ([], Some (x, e), w')
      | (Inr _, w') \<Rightarrow>
          (case run_pending exec xs w' of (finished, failure, w'') \<Rightarrow> (x # finished, failure, w'')))"

text \<open>
  The contract of a pipeline: its steps are distinct. Everything a resumable run needs about
  prefixes follows.
\<close>

locale step_pipeline =
  fixes steps :: "'a list"
  assumes distinct_steps: "distinct steps"
begin

lemma valid_prefix_Nil: "valid_prefix steps []"
  by (simp add: valid_prefix_def)

lemma valid_prefix_all: "valid_prefix steps steps"
  by (simp add: valid_prefix_def)

lemma valid_prefix_pending:
  "valid_prefix steps completed \<Longrightarrow> steps = completed @ drop (length completed) steps"
  by (metis append_take_drop_id valid_prefix_def)

lemma valid_prefix_split: "steps = completed @ rest \<Longrightarrow> valid_prefix steps completed"
  by (simp add: valid_prefix_def)

lemma next_step_split:
  "steps = completed @ x # rest \<Longrightarrow> next_step steps completed = Some x"
  by (simp add: next_step_def)

lemma next_step_None:
  "valid_prefix steps completed \<Longrightarrow> next_step steps completed = None \<longleftrightarrow> completed = steps"
  by (auto simp: next_step_def valid_prefix_def)

lemma valid_prefix_next:
  assumes "valid_prefix steps completed" and "next_step steps completed = Some x"
  shows "valid_prefix steps (completed @ [x])" and "x \<notin> set completed" and "x \<in> set steps"
proof -
  let ?rest = "drop (length completed) steps"
  have s: "steps = completed @ ?rest" by (rule valid_prefix_pending [OF assms(1)])
  from assms(2) have "length completed < length steps" and x: "x = steps ! length completed"
    by (auto simp: next_step_def split: if_splits)
  then have "?rest = x # drop (Suc (length completed)) steps"
    by (simp add: Cons_nth_drop_Suc)
  with s have s': "steps = completed @ x # drop (Suc (length completed)) steps" by simp
  then show "valid_prefix steps (completed @ [x])" by (intro valid_prefix_split) simp
  from s' distinct_steps have "distinct (completed @ x # drop (Suc (length completed)) steps)"
    by simp
  then show "x \<notin> set completed" by simp
  from s' show "x \<in> set steps" by (metis in_set_conv_decomp)
qed

lemma split_disjoint: "steps = completed @ rest \<Longrightarrow> x \<in> set rest \<Longrightarrow> x \<notin> set completed"
  using distinct_steps by (metis distinct_append disjoint_iff)

end

lemma run_pending_prefix:
  "run_pending exec xs w = (finished, failure, w') \<Longrightarrow>
   (case failure of None \<Rightarrow> finished = xs | Some (x, e) \<Rightarrow> \<exists>rest. xs = finished @ x # rest)"
proof (induction xs arbitrary: w finished failure w')
  case Nil
  then show ?case by auto
next
  case (Cons x xs)
  show ?case
  proof (cases "exec x w")
    case (Pair r w1)
    then show ?thesis
      using Cons.prems
      by (cases r) (auto split: prod.splits option.splits dest!: Cons.IH)
  qed
qed

end
