(* ===== verification/Models.thy ===== *)
theory Models
  imports Prelude
begin

text \<open>
  The domain types that every component exchanges: the kinds of a Principal, the
  server-derived authorization context of a request (\<^verbatim>\<open>models.py\<close>), the context of an
  Operator (\<^verbatim>\<open>operator_auth.py\<close>) and the role constants (\<^verbatim>\<open>roles.py\<close>).
\<close>

section \<open>Principals and Tenant Sessions\<close>

datatype principal_kind = USER | AGENT

record tenant_session =
  ts_tenant_id :: string
  ts_actor_id :: string
  ts_actor_kind :: principal_kind
  ts_roles :: "string set"
  ts_subject_user_id :: "string option"
  ts_delegation_id :: "string option"
  ts_token_id :: "string option"

text \<open>\<^verbatim>\<open>TenantSession.__post_init__\<close>: the consistency checks of the constructor.\<close>

definition TenantSession :: "tenant_session \<Rightarrow> tenant_session result" where
  "TenantSession s =
     (if ts_subject_user_id s \<noteq> None \<and> ts_actor_kind s \<noteq> AGENT
      then Inl (ValueError ''Only an Agent session can have a Subject User'')
      else if (ts_subject_user_id s = None) \<noteq> (ts_delegation_id s = None)
      then Inl (ValueError ''Subject User and Delegation must be bound together'')
      else Inr s)"

definition session_wf :: "tenant_session \<Rightarrow> bool" where
  "session_wf s \<longleftrightarrow>
     (ts_subject_user_id s \<noteq> None \<longrightarrow> ts_actor_kind s = AGENT) \<and>
     (ts_subject_user_id s = None \<longleftrightarrow> ts_delegation_id s = None)"

lemma TenantSession_Inr [simp]: "TenantSession s = Inr s' \<longleftrightarrow> s' = s \<and> session_wf s"
  by (auto simp: TenantSession_def session_wf_def)

lemma TenantSession_ok: "session_wf s \<Longrightarrow> TenantSession s = Inr s"
  by simp

lemma TenantSession_bad: "\<not> session_wf s \<Longrightarrow> \<exists>e. TenantSession s = Inl e"
  by (auto simp: TenantSession_def session_wf_def)

lemma session_wf_autonomous [simp]:
  "ts_subject_user_id s = None \<Longrightarrow> ts_delegation_id s = None \<Longrightarrow> session_wf s"
  by (simp add: session_wf_def)

lemma session_wf_delegated [simp]:
  "ts_actor_kind s = AGENT \<Longrightarrow> ts_subject_user_id s = Some u \<Longrightarrow> ts_delegation_id s = Some d \<Longrightarrow>
   session_wf s"
  by (simp add: session_wf_def)

lemma session_wf_token [simp]: "session_wf (s\<lparr>ts_token_id := t\<rparr>) = session_wf s"
  by (simp add: session_wf_def)

section \<open>Operators\<close>

record operator_session =
  os_operator_id :: string
  os_roles :: "string set"
  os_token_id :: "string option"
  os_session_id :: "string option"

section \<open>Roles\<close>

definition VALID_ROLES :: "string set" where
  "VALID_ROLES = {''tenant_administrator'', ''knowledge_curator'', ''tenant_member''}"

definition VALID_OPERATOR_ROLES :: "string set" where
  "VALID_OPERATOR_ROLES =
     {''operator_admin'', ''identity_admin'', ''tenant_provisioner'', ''tenant_support'',
      ''knowledge_admin'', ''token_admin'', ''audit_viewer''}"

text \<open>\<^verbatim>\<open>', '.join(sorted(roles))\<close>, as the error messages list unknown roles.\<close>

definition sorted_roles :: "string set \<Rightarrow> string" where
  "sorted_roles roles = py_join '', '' (sorted_list_of_set roles)"

end
