(* ===== verification/Manifest.thy ===== *)
theory Manifest
  imports Models
begin

text \<open>
  Tenant Manifests (\<^verbatim>\<open>manifest.py\<close>): the declarative input of Tenant provisioning and the
  checks its models run on construction. A manifest document is a \<open>raw_manifest\<close>, whose
  infrastructure names may be absent; \<open>TenantManifest\<close> derives them, strips and checks every
  field, and checks the links between Principals and Memberships. All failures are
  \<^verbatim>\<open>ValueError\<close>s (pydantic's \<^verbatim>\<open>ValidationError\<close> is one).
\<close>

section \<open>Data\<close>

record manifest_principal =
  mp_principal_id :: string
  mp_name :: string
  mp_kind :: principal_kind

record manifest_membership =
  mm_principal_id :: string
  mm_roles :: "string list"

record tenant_policies =
  tp_user_token_lifetime_days :: int
  tp_delegated_agent_token_lifetime_days :: int
  tp_autonomous_agent_token_lifetime_days :: int
  tp_automatic_private_retention :: bool
  tp_promotion_requires_human_review :: bool
  tp_erasure_requires_admin_approval :: bool

record tenant_manifest =
  tm_version :: int
  tm_tenant_id :: string
  tm_name :: string
  tm_database_name :: string
  tm_database_role :: string
  tm_neo4j_service_name :: string
  tm_principals :: "manifest_principal list"
  tm_memberships :: "manifest_membership list"
  tm_policies :: tenant_policies

record raw_manifest =
  rm_version :: int
  rm_tenant_id :: string
  rm_name :: string
  rm_database_name :: "string option"
  rm_database_role :: "string option"
  rm_neo4j_service_name :: "string option"
  rm_principals :: "manifest_principal list"
  rm_memberships :: "manifest_membership list"
  rm_policies :: tenant_policies

section \<open>Field patterns\<close>

definition is_lower :: "char \<Rightarrow> bool" where
  "is_lower c \<longleftrightarrow> CHR ''a'' \<le> c \<and> c \<le> CHR ''z''"

definition is_digit :: "char \<Rightarrow> bool" where
  "is_digit c \<longleftrightarrow> CHR ''0'' \<le> c \<and> c \<le> CHR ''9''"

definition safe_id_pattern :: "string \<Rightarrow> bool" where
  "safe_id_pattern s \<longleftrightarrow>
     s \<noteq> [] \<and> (is_lower (hd s) \<or> is_digit (hd s)) \<and> (is_lower (last s) \<or> is_digit (last s)) \<and>
     list_all (\<lambda>c. is_lower c \<or> is_digit c \<or> c = CHR ''-'') s"

definition postgres_name_pattern :: "string \<Rightarrow> bool" where
  "postgres_name_pattern s \<longleftrightarrow>
     s \<noteq> [] \<and> is_lower (hd s) \<and> list_all (\<lambda>c. is_lower c \<or> is_digit c \<or> c = CHR ''_'') s"

definition length_between :: "nat \<Rightarrow> nat \<Rightarrow> 'a list \<Rightarrow> bool" where
  "length_between lo hi s \<longleftrightarrow> lo \<le> length s \<and> length s \<le> hi"

section \<open>Construction of the parts\<close>

definition ManifestPrincipal :: "manifest_principal \<Rightarrow> manifest_principal result" where
  "ManifestPrincipal p =
     (let pid = py_strip (mp_principal_id p); name = py_strip (mp_name p)
      in if \<not> (length_between 3 63 pid \<and> safe_id_pattern pid)
         then Inl (ValueError ''principal_id'')
         else if \<not> length_between 1 200 name then Inl (ValueError ''name'')
         else Inr \<lparr>mp_principal_id = pid, mp_name = name, mp_kind = mp_kind p\<rparr>)"

definition validate_roles :: "string list \<Rightarrow> string list result" where
  "validate_roles roles =
     (let unique = sorted_list_of_set (set roles)
      in if length unique \<noteq> length roles
         then Inl (ValueError ''Tenant Membership roles must not contain duplicates'')
         else if set unique - VALID_ROLES \<noteq> {}
         then Inl (ValueError ''Tenant Membership contains an unknown role'')
         else Inr unique)"

definition ManifestMembership :: "manifest_membership \<Rightarrow> manifest_membership result" where
  "ManifestMembership m =
     (let pid = py_strip (mm_principal_id m); roles = map py_strip (mm_roles m)
      in if \<not> (length_between 3 63 pid \<and> safe_id_pattern pid)
         then Inl (ValueError ''principal_id'')
         else if \<not> length_between 1 (card VALID_ROLES) roles then Inl (ValueError ''roles'')
         else (case validate_roles roles of
                 Inl e \<Rightarrow> Inl e
               | Inr unique \<Rightarrow> Inr \<lparr>mm_principal_id = pid, mm_roles = unique\<rparr>))"

definition TenantPolicies :: "tenant_policies \<Rightarrow> tenant_policies result" where
  "TenantPolicies p =
     (if \<not> (1 \<le> tp_user_token_lifetime_days p \<and> tp_user_token_lifetime_days p \<le> 90)
      then Inl (ValueError ''user_token_lifetime_days'')
      else if \<not> (1 \<le> tp_delegated_agent_token_lifetime_days p \<and>
                 tp_delegated_agent_token_lifetime_days p \<le> 90)
      then Inl (ValueError ''delegated_agent_token_lifetime_days'')
      else if \<not> (1 \<le> tp_autonomous_agent_token_lifetime_days p \<and>
                 tp_autonomous_agent_token_lifetime_days p \<le> 30)
      then Inl (ValueError ''autonomous_agent_token_lifetime_days'')
      else if \<not> tp_promotion_requires_human_review p
      then Inl (ValueError ''promotion_requires_human_review'')
      else if \<not> tp_erasure_requires_admin_approval p
      then Inl (ValueError ''erasure_requires_admin_approval'')
      else Inr p)"

fun validate_all :: "('a \<Rightarrow> 'b result) \<Rightarrow> 'a list \<Rightarrow> 'b list result" where
  "validate_all f [] = Inr []"
| "validate_all f (x # xs) =
     (case f x of Inl e \<Rightarrow> Inl e
      | Inr y \<Rightarrow> (case validate_all f xs of Inl e \<Rightarrow> Inl e | Inr ys \<Rightarrow> Inr (y # ys)))"

section \<open>Names derived from the Tenant identifier\<close>

definition tenant_database_name :: "string \<Rightarrow> string" where
  "tenant_database_name tenant_id = ''tenant_'' @ py_replace CHR ''-'' CHR ''_'' tenant_id"

definition tenant_database_role :: "string \<Rightarrow> string" where
  "tenant_database_role tenant_id = ''tenant_'' @ py_replace CHR ''-'' CHR ''_'' tenant_id @ ''_rw''"

definition tenant_neo4j_service_name :: "string \<Rightarrow> string" where
  "tenant_neo4j_service_name tenant_id = ''neo4j-'' @ tenant_id"

definition derive_infrastructure_names :: "raw_manifest \<Rightarrow> raw_manifest" where
  "derive_infrastructure_names value =
     (let setdefault = (\<lambda>v d. case v of None \<Rightarrow> Some d | Some x \<Rightarrow> Some x);
          tenant_id = rm_tenant_id value
      in value\<lparr>rm_database_name := setdefault (rm_database_name value) (tenant_database_name tenant_id),
               rm_database_role := setdefault (rm_database_role value) (tenant_database_role tenant_id),
               rm_neo4j_service_name :=
                 setdefault (rm_neo4j_service_name value) (tenant_neo4j_service_name tenant_id)\<rparr>)"

definition validate_manifest_links_and_names :: "tenant_manifest \<Rightarrow> tenant_manifest result" where
  "validate_manifest_links_and_names m =
     (let tid = tm_tenant_id m;
          ids = map mp_principal_id (tm_principals m);
          members = map mm_principal_id (tm_memberships m);
          principal_by_id = map_of (map (\<lambda>p. (mp_principal_id p, p)) (rev (tm_principals m)))
      in if tm_database_name m \<noteq> tenant_database_name tid
         then Inl (ValueError ''database_name must be derived from the immutable Tenant ID'')
         else if tm_database_role m \<noteq> tenant_database_role tid
         then Inl (ValueError ''database_role must be derived from the immutable Tenant ID'')
         else if tm_neo4j_service_name m \<noteq> tenant_neo4j_service_name tid
         then Inl (ValueError ''neo4j_service_name must be derived from the immutable Tenant ID'')
         else if card (set ids) \<noteq> length ids
         then Inl (ValueError ''Tenant Manifest Principal identifiers must be unique'')
         else if card (set members) \<noteq> length members
         then Inl (ValueError ''Tenant Manifest has duplicate Tenant Memberships'')
         else if set members - set ids \<noteq> {}
         then Inl (ValueError ''Tenant Membership refers to an undeclared Principal'')
         else if list_ex (\<lambda>mm. (case principal_by_id (mm_principal_id mm) of
                            None \<Rightarrow> False
                          | Some p \<Rightarrow> mp_kind p = AGENT) \<and>
                       list_ex (\<lambda>r. r \<noteq> ''tenant_member'') (mm_roles mm)) (tm_memberships m)
         then Inl (ValueError ''Agents cannot receive administrative or Curator roles'')
         else Inr m)"

section \<open>Construction of a manifest\<close>

definition TenantManifest :: "raw_manifest \<Rightarrow> tenant_manifest result" where
  "TenantManifest raw =
     (let v = derive_infrastructure_names raw;
          tid = py_strip (rm_tenant_id v); name = py_strip (rm_name v);
          dbn = py_strip (or_string (rm_database_name v) '''');
          dbr = py_strip (or_string (rm_database_role v) '''');
          neo = py_strip (or_string (rm_neo4j_service_name v) '''')
      in if rm_version v \<noteq> 1 then Inl (ValueError ''version'')
         else if \<not> (length_between 3 40 tid \<and> safe_id_pattern tid) then Inl (ValueError ''tenant_id'')
         else if \<not> length_between 1 200 name then Inl (ValueError ''name'')
         else if \<not> (length_between 3 63 dbn \<and> postgres_name_pattern dbn)
         then Inl (ValueError ''database_name'')
         else if \<not> (length_between 3 63 dbr \<and> postgres_name_pattern dbr)
         then Inl (ValueError ''database_role'')
         else if \<not> (length_between 3 63 neo \<and> safe_id_pattern neo)
         then Inl (ValueError ''neo4j_service_name'')
         else (case validate_all ManifestPrincipal (rm_principals v) of Inl e \<Rightarrow> Inl e
          | Inr ps \<Rightarrow> (case validate_all ManifestMembership (rm_memberships v) of Inl e \<Rightarrow> Inl e
          | Inr ms \<Rightarrow> (case TenantPolicies (rm_policies v) of Inl e \<Rightarrow> Inl e
          | Inr pol \<Rightarrow> validate_manifest_links_and_names
              \<lparr>tm_version = rm_version v, tm_tenant_id = tid, tm_name = name,
               tm_database_name = dbn, tm_database_role = dbr, tm_neo4j_service_name = neo,
               tm_principals = ps, tm_memberships = ms, tm_policies = pol\<rparr>))))"

end
