(* ===== verification/Provisioning.thy ===== *)
theory Provisioning
  imports Pipeline Manifest
begin

text \<open>
  Resumable Tenant provisioning (\<^verbatim>\<open>provisioning.py\<close>): the step tuple, the in-memory
  progress store with its guarded transitions, and the provisioner that plans and applies.

  The host adapters (Compose, the database, the migration runner, the verifier and the secret
  writer) are ports of the source: methods that act on the host and may raise. They are the
  record \<open>provisioning_ports\<close> over an arbitrary world \<open>'w\<close>. \<open>fp\<close> is the manifest's
  fingerprint property, the SHA-256 of its canonical JSON.
\<close>

section \<open>Steps and states\<close>

datatype provisioning_status = PS_NOT_STARTED | PS_PROVISIONING | PS_FAILED | PS_ACTIVE

datatype provisioning_step =
    RECORD_CONTROL_STATE
  | WRITE_SECRETS
  | START_NEO4J
  | CREATE_TENANT_DATABASE
  | MIGRATE_POSTGRES
  | MIGRATE_NEO4J
  | VERIFY_NEO4J_HEALTH
  | VERIFY_ROUTING
  | VERIFY_ISOLATION
  | ACTIVATE

definition PROVISIONING_STEPS :: "provisioning_step list" where
  "PROVISIONING_STEPS =
     [RECORD_CONTROL_STATE, WRITE_SECRETS, START_NEO4J, CREATE_TENANT_DATABASE,
      MIGRATE_POSTGRES, MIGRATE_NEO4J, VERIFY_NEO4J_HEALTH, VERIFY_ROUTING,
      VERIFY_ISOLATION, ACTIVATE]"

fun step_value :: "provisioning_step \<Rightarrow> string" where
  "step_value RECORD_CONTROL_STATE = ''record_control_state''"
| "step_value WRITE_SECRETS = ''write_secrets''"
| "step_value START_NEO4J = ''start_neo4j''"
| "step_value CREATE_TENANT_DATABASE = ''create_tenant_database''"
| "step_value MIGRATE_POSTGRES = ''migrate_postgres''"
| "step_value MIGRATE_NEO4J = ''migrate_neo4j''"
| "step_value VERIFY_NEO4J_HEALTH = ''verify_neo4j_health''"
| "step_value VERIFY_ROUTING = ''verify_routing''"
| "step_value VERIFY_ISOLATION = ''verify_isolation''"
| "step_value ACTIVATE = ''activate''"

record provisioning_state =
  st_tenant_id :: string
  st_manifest_fingerprint :: string
  st_database_name :: string
  st_database_role :: string
  st_neo4j_service_name :: string
  st_status :: provisioning_status
  st_completed_steps :: "provisioning_step list"
  st_failed_step :: "provisioning_step option"
  st_failure_code :: "string option"
  st_attempt :: int

type_synonym provisioning_states = "(string, provisioning_state) dict"

text \<open>\<open>_validate_completed_prefix\<close> and \<open>_require_matching_manifest\<close>: None when they return.\<close>

definition validate_completed_prefix :: "provisioning_state \<Rightarrow> error option" where
  "validate_completed_prefix state =
     (if take (length (st_completed_steps state)) PROVISIONING_STEPS \<noteq> st_completed_steps state
      then Some (ProvisioningConflict ''Provisioning progress is not a valid completed prefix'')
      else if (ACTIVATE \<in> set (st_completed_steps state)) \<noteq> (st_status state = PS_ACTIVE)
      then Some (ProvisioningConflict ''Provisioning activation state is inconsistent'')
      else None)"

definition require_matching_manifest :: "provisioning_state \<Rightarrow> string \<Rightarrow> error option" where
  "require_matching_manifest state fingerprint =
     (if st_manifest_fingerprint state \<noteq> fingerprint
      then Some (ProvisioningConflict ''Cannot resume Tenant provisioning with a changed manifest'')
      else None)"

section \<open>The progress store\<close>

definition prov_get :: "string \<Rightarrow> provisioning_states \<Rightarrow> provisioning_state option" where
  "prov_get tenant_id d = dict_get d tenant_id"

definition prov_start ::
  "(tenant_manifest \<Rightarrow> string) \<Rightarrow> tenant_manifest \<Rightarrow> provisioning_states \<Rightarrow>
   (provisioning_state, provisioning_states) outcome" where
  "prov_start fp manifest d =
     (case dict_get d (tm_tenant_id manifest) of
        None \<Rightarrow>
          let state = \<lparr>st_tenant_id = tm_tenant_id manifest, st_manifest_fingerprint = fp manifest,
                st_database_name = tm_database_name manifest,
                st_database_role = tm_database_role manifest,
                st_neo4j_service_name = tm_neo4j_service_name manifest,
                st_status = PS_PROVISIONING, st_completed_steps = [RECORD_CONTROL_STATE],
                st_failed_step = None, st_failure_code = None, st_attempt = 1\<rparr>
          in (Inr state, dict_set (tm_tenant_id manifest) state d)
      | Some current \<Rightarrow>
          (case require_matching_manifest current (fp manifest) of Some e \<Rightarrow> (Inl e, d)
           | None \<Rightarrow>
             if st_status current = PS_ACTIVE then (Inr current, d)
             else (case validate_completed_prefix current of Some e \<Rightarrow> (Inl e, d)
              | None \<Rightarrow>
                  let state = current\<lparr>st_status := PS_PROVISIONING, st_failed_step := None,
                        st_failure_code := None, st_attempt := st_attempt current + 1\<rparr>
                  in (Inr state, dict_set (tm_tenant_id manifest) state d))))"

definition require_provisioning :: "string \<Rightarrow> provisioning_states \<Rightarrow> provisioning_state result" where
  "require_provisioning tenant_id d =
     (case dict_get d tenant_id of
        None \<Rightarrow> Inl (ProvisioningConflict ''Tenant provisioning has not started'')
      | Some state \<Rightarrow>
          if st_status state \<noteq> PS_PROVISIONING
          then Inl (ProvisioningConflict ''Tenant is not in the provisioning state'')
          else (case validate_completed_prefix state of Some e \<Rightarrow> Inl e | None \<Rightarrow> Inr state))"

definition prov_mark_completed ::
  "string \<Rightarrow> provisioning_step \<Rightarrow> provisioning_states \<Rightarrow>
   (provisioning_state, provisioning_states) outcome" where
  "prov_mark_completed tenant_id step d =
     (case require_provisioning tenant_id d of Inl e \<Rightarrow> (Inl e, d)
      | Inr current \<Rightarrow>
          let expected = next_step PROVISIONING_STEPS (st_completed_steps current)
          in if step = ACTIVATE
             then (Inl (ProvisioningConflict ''Activation requires the final activation transition''), d)
             else if Some step \<noteq> expected
             then (Inl (ProvisioningConflict ''Provisioning steps must complete in order''), d)
             else let state = current\<lparr>st_completed_steps := st_completed_steps current @ [step]\<rparr>
                  in (Inr state, dict_set tenant_id state d))"

definition prov_mark_failed ::
  "string \<Rightarrow> provisioning_step \<Rightarrow> string \<Rightarrow> provisioning_states \<Rightarrow>
   (provisioning_state, provisioning_states) outcome" where
  "prov_mark_failed tenant_id step failure_code d =
     (case require_provisioning tenant_id d of Inl e \<Rightarrow> (Inl e, d)
      | Inr current \<Rightarrow>
          if Some step \<noteq> next_step PROVISIONING_STEPS (st_completed_steps current)
          then (Inl (ProvisioningConflict ''Only the current provisioning step can fail''), d)
          else let state = current\<lparr>st_status := PS_FAILED, st_failed_step := Some step,
                     st_failure_code := Some failure_code\<rparr>
               in (Inr state, dict_set tenant_id state d))"

definition prov_activate ::
  "string \<Rightarrow> provisioning_states \<Rightarrow> (provisioning_state, provisioning_states) outcome" where
  "prov_activate tenant_id d =
     (case require_provisioning tenant_id d of Inl e \<Rightarrow> (Inl e, d)
      | Inr current \<Rightarrow>
          if next_step PROVISIONING_STEPS (st_completed_steps current) \<noteq> Some ACTIVATE
          then (Inl (ProvisioningConflict ''Tenant cannot activate before every verification passes''), d)
          else let state = current\<lparr>st_status := PS_ACTIVE,
                     st_completed_steps := st_completed_steps current @ [ACTIVATE]\<rparr>
               in (Inr state, dict_set tenant_id state d))"

section \<open>Plans\<close>

fun step_action :: "provisioning_step \<Rightarrow> string" where
  "step_action RECORD_CONTROL_STATE =
     ''record the inactive Tenant, declared Principals, Memberships, policies, and route''"
| "step_action WRITE_SECRETS = ''create missing protected Tenant secret files''"
| "step_action START_NEO4J = ''start the isolated Neo4j Community Compose project''"
| "step_action CREATE_TENANT_DATABASE = ''create the Tenant database and distinct role''"
| "step_action MIGRATE_POSTGRES = ''apply Tenant PostgreSQL schema migrations''"
| "step_action MIGRATE_NEO4J = ''apply idempotent Neo4j schema migrations''"
| "step_action VERIFY_NEO4J_HEALTH = ''verify the Tenant Memory Store is healthy''"
| "step_action VERIFY_ROUTING = ''verify server-derived routing reaches this Tenant''"
| "step_action VERIFY_ISOLATION = ''verify this Tenant cannot observe another Tenant''"
| "step_action ACTIVATE = ''mark the Tenant active in the Control Store''"

record planned_step =
  pl_step :: provisioning_step
  pl_action :: string
  pl_completed :: bool

record provisioning_plan =
  pp_tenant_id :: string
  pp_manifest_fingerprint :: string
  pp_current_status :: provisioning_status
  pp_steps :: "planned_step list"

definition pending_steps :: "provisioning_plan \<Rightarrow> provisioning_step list" where
  "pending_steps plan = map pl_step (filter (\<lambda>item. \<not> pl_completed item) (pp_steps plan))"

definition is_noop :: "provisioning_plan \<Rightarrow> bool" where
  "is_noop plan \<longleftrightarrow> pending_steps plan = []"

definition prov_plan ::
  "(tenant_manifest \<Rightarrow> string) \<Rightarrow> tenant_manifest \<Rightarrow> provisioning_states \<Rightarrow>
   provisioning_plan result" where
  "prov_plan fp manifest d =
     (let plan = (\<lambda>status completed.
            \<lparr>pp_tenant_id = tm_tenant_id manifest, pp_manifest_fingerprint = fp manifest,
             pp_current_status = status,
             pp_steps = map (\<lambda>step. \<lparr>pl_step = step, pl_action = step_action step, pl_completed = step \<in> completed\<rparr>)
               PROVISIONING_STEPS\<rparr>)
      in case prov_get (tm_tenant_id manifest) d of
           None \<Rightarrow> Inr (plan PS_NOT_STARTED {})
         | Some state \<Rightarrow>
             (case require_matching_manifest state (fp manifest) of Some e \<Rightarrow> Inl e
              | None \<Rightarrow>
                (case validate_completed_prefix state of Some e \<Rightarrow> Inl e
                 | None \<Rightarrow> Inr (plan (st_status state) (set (st_completed_steps state))))))"

section \<open>Applying a plan\<close>

record 'w provisioning_ports =
  port_ensure_secret :: "string \<Rightarrow> string \<Rightarrow> string \<Rightarrow> 'w \<Rightarrow> (unit, 'w) outcome"
  port_ensure_tenant_running :: "tenant_manifest \<Rightarrow> 'w \<Rightarrow> (unit, 'w) outcome"
  port_ensure_database_and_role :: "tenant_manifest \<Rightarrow> string \<Rightarrow> 'w \<Rightarrow> (unit, 'w) outcome"
  port_migrate_postgres :: "tenant_manifest \<Rightarrow> 'w \<Rightarrow> (unit, 'w) outcome"
  port_migrate_neo4j :: "tenant_manifest \<Rightarrow> 'w \<Rightarrow> (unit, 'w) outcome"
  port_verify_neo4j_health :: "tenant_manifest \<Rightarrow> 'w \<Rightarrow> (unit, 'w) outcome"
  port_verify_routing :: "tenant_manifest \<Rightarrow> 'w \<Rightarrow> (unit, 'w) outcome"
  port_verify_isolation :: "tenant_manifest \<Rightarrow> 'w \<Rightarrow> (unit, 'w) outcome"

definition SECRET_NAMES :: "string list" where
  "SECRET_NAMES = [''neo4j_password'', ''postgres_password'']"

text \<open>
  \<open>drawn name\<close> is the value \<^verbatim>\<open>secrets.token_urlsafe(48)\<close> drawn for that secret; each call of
  the loop draws its own.
\<close>

fun ensure_secrets ::
  "'w provisioning_ports \<Rightarrow> (string \<Rightarrow> string) \<Rightarrow> string \<Rightarrow> string list \<Rightarrow> 'w \<Rightarrow>
   (unit, 'w) outcome" where
  "ensure_secrets ports drawn tenant_id [] w = (Inr (), w)"
| "ensure_secrets ports drawn tenant_id (name # names) w =
     and_then (port_ensure_secret ports tenant_id name (CHR ''c'' # drawn name) w)
       (\<lambda>_. ensure_secrets ports drawn tenant_id names)"

definition prov_execute ::
  "'w provisioning_ports \<Rightarrow> (string \<Rightarrow> string) \<Rightarrow> tenant_manifest \<Rightarrow> provisioning_step \<Rightarrow> 'w \<Rightarrow>
   (unit, 'w) outcome" where
  "prov_execute ports drawn manifest step w =
     (case step of
        WRITE_SECRETS \<Rightarrow> ensure_secrets ports drawn (tm_tenant_id manifest) SECRET_NAMES w
      | START_NEO4J \<Rightarrow> port_ensure_tenant_running ports manifest w
      | CREATE_TENANT_DATABASE \<Rightarrow>
          port_ensure_database_and_role ports manifest ''postgres_password'' w
      | MIGRATE_POSTGRES \<Rightarrow> port_migrate_postgres ports manifest w
      | MIGRATE_NEO4J \<Rightarrow> port_migrate_neo4j ports manifest w
      | VERIFY_NEO4J_HEALTH \<Rightarrow> port_verify_neo4j_health ports manifest w
      | VERIFY_ROUTING \<Rightarrow> port_verify_routing ports manifest w
      | VERIFY_ISOLATION \<Rightarrow> port_verify_isolation ports manifest w
      | _ \<Rightarrow> (Inl (ProvisioningConflict ''Unknown provisioning step''), w))"

text \<open>
  The loop of \<open>apply\<close>. The \<^verbatim>\<open>try\<close> block covers the activation, the execution and the
  recording of the step; its handler records the failure, and an exception of the handler
  replaces the original one.
\<close>

definition prov_step_failed ::
  "string \<Rightarrow> provisioning_step \<Rightarrow> error \<Rightarrow> provisioning_states \<Rightarrow> 'w \<Rightarrow>
   (provisioning_state, provisioning_states \<times> 'w) outcome" where
  "prov_step_failed tenant_id step e d w =
     (case prov_mark_failed tenant_id step (error_name e) d of
        (Inl e', d') \<Rightarrow> (Inl e', (d', w))
      | (Inr _, d') \<Rightarrow> (Inl (ProvisioningFailed (step_value step)), (d', w)))"

fun prov_apply_steps ::
  "'w provisioning_ports \<Rightarrow> (string \<Rightarrow> string) \<Rightarrow> tenant_manifest \<Rightarrow> provisioning_step list \<Rightarrow>
   provisioning_step set \<Rightarrow> provisioning_states \<Rightarrow> 'w \<Rightarrow>
   (provisioning_state, provisioning_states \<times> 'w) outcome" where
  "prov_apply_steps ports drawn manifest [] completed d w =
     (Inl (ProvisioningConflict ''Provisioning ended without activation''), (d, w))"
| "prov_apply_steps ports drawn manifest (step # steps) completed d w =
     (if step \<in> completed then prov_apply_steps ports drawn manifest steps completed d w
      else if step = ACTIVATE
      then (case prov_activate (tm_tenant_id manifest) d of
              (Inr state, d') \<Rightarrow> (Inr state, (d', w))
            | (Inl e, d') \<Rightarrow> prov_step_failed (tm_tenant_id manifest) step e d' w)
      else (case prov_execute ports drawn manifest step w of
              (Inl e, w') \<Rightarrow> prov_step_failed (tm_tenant_id manifest) step e d w'
            | (Inr _, w') \<Rightarrow>
                (case prov_mark_completed (tm_tenant_id manifest) step d of
                   (Inl e, d') \<Rightarrow> prov_step_failed (tm_tenant_id manifest) step e d' w'
                 | (Inr state, d') \<Rightarrow>
                     prov_apply_steps ports drawn manifest steps
                       (set (st_completed_steps state)) d' w')))"

definition prov_apply ::
  "(tenant_manifest \<Rightarrow> string) \<Rightarrow> 'w provisioning_ports \<Rightarrow> (string \<Rightarrow> string) \<Rightarrow>
   tenant_manifest \<Rightarrow> provisioning_states \<Rightarrow> 'w \<Rightarrow>
   (provisioning_state, provisioning_states \<times> 'w) outcome" where
  "prov_apply fp ports drawn manifest d w =
     (case prov_plan fp manifest d of
        Inl e \<Rightarrow> (Inl e, (d, w))
      | Inr plan \<Rightarrow>
          if is_noop plan
          then (case prov_get (tm_tenant_id manifest) d of
                  None \<Rightarrow> (Inl (ProvisioningConflict ''Completed plan has no provisioning state''), (d, w))
                | Some active \<Rightarrow> (Inr active, (d, w)))
          else
            (case prov_start fp manifest d of
               (Inl e, d') \<Rightarrow> (Inl e, (d', w))
             | (Inr state, d') \<Rightarrow>
                 if take 1 (st_completed_steps state) \<noteq> [RECORD_CONTROL_STATE]
                 then (Inl (ProvisioningConflict
                        ''Provisioning state did not record the Tenant manifest''), (d', w))
                 else prov_apply_steps ports drawn manifest PROVISIONING_STEPS
                        (set (st_completed_steps state)) d' w))"

end
