(* ===== verification/ProvisioningCorrect.thy ===== *)
theory ProvisioningCorrect
  imports Provisioning
begin

text \<open>
  Correctness of Tenant provisioning: the progress store only ever holds well-formed progress,
  and one call of \<open>apply\<close> is exactly one run of the pending steps (\<open>run_pending\<close>), recorded
  step by step, so that a later call resumes where the last one stopped.
\<close>

section \<open>The steps form a pipeline\<close>

interpretation prov: step_pipeline PROVISIONING_STEPS
  by unfold_locales (simp add: PROVISIONING_STEPS_def)

lemma steps_snoc: "PROVISIONING_STEPS = butlast PROVISIONING_STEPS @ [ACTIVATE]"
  by (simp add: PROVISIONING_STEPS_def)

lemma activate_not_butlast [simp]: "ACTIVATE \<notin> set (butlast PROVISIONING_STEPS)"
  by (simp add: PROVISIONING_STEPS_def)

lemma record_first: "take (Suc 0) PROVISIONING_STEPS = [RECORD_CONTROL_STATE]"
  by (simp add: PROVISIONING_STEPS_def)

section \<open>Well-formed progress\<close>

definition progress_wf :: "string \<Rightarrow> provisioning_state \<Rightarrow> bool" where
  "progress_wf tenant_id st \<longleftrightarrow>
     st_tenant_id st = tenant_id \<and> 1 \<le> st_attempt st \<and>
     valid_prefix PROVISIONING_STEPS (st_completed_steps st) \<and>
     take 1 (st_completed_steps st) = [RECORD_CONTROL_STATE] \<and>
     (st_status st = PS_ACTIVE \<longleftrightarrow> st_completed_steps st = PROVISIONING_STEPS) \<and>
     st_status st \<noteq> PS_NOT_STARTED \<and>
     (if st_status st = PS_FAILED
      then st_failed_step st = next_step PROVISIONING_STEPS (st_completed_steps st)
      else st_failed_step st = None \<and> st_failure_code st = None)"

definition prov_inv :: "provisioning_states \<Rightarrow> bool" where
  "prov_inv d \<longleftrightarrow> (\<forall>k st. dict_get d k = Some st \<longrightarrow> progress_wf k st)"

lemma prov_invD: "prov_inv d \<Longrightarrow> dict_get d k = Some st \<Longrightarrow> progress_wf k st"
  by (simp add: prov_inv_def)

lemma prov_inv_set [intro]: "prov_inv d \<Longrightarrow> progress_wf k st \<Longrightarrow> prov_inv (dict_set k st d)"
  by (simp add: prov_inv_def dict_get_set)

lemma activate_in_prefix:
  assumes "valid_prefix PROVISIONING_STEPS c"
  shows "ACTIVATE \<in> set c \<longleftrightarrow> c = PROVISIONING_STEPS"
proof
  assume "ACTIVATE \<in> set c"
  show "c = PROVISIONING_STEPS"
  proof (rule ccontr)
    assume "c \<noteq> PROVISIONING_STEPS"
    with assms have "length c < length PROVISIONING_STEPS"
      by (metis append_Nil2 leI prov.valid_prefix_pending drop_all)
    then have "take (length c) PROVISIONING_STEPS = take (length c) (butlast PROVISIONING_STEPS)"
      by (simp add: take_butlast)
    with assms have "set c \<subseteq> set (butlast PROVISIONING_STEPS)"
      by (metis set_take_subset valid_prefix_def)
    with \<open>ACTIVATE \<in> set c\<close> show False using activate_not_butlast by blast
  qed
next
  assume "c = PROVISIONING_STEPS"
  then show "ACTIVATE \<in> set c" by (simp add: PROVISIONING_STEPS_def)
qed

lemma validate_None_iff:
  "validate_completed_prefix st = None \<longleftrightarrow>
   valid_prefix PROVISIONING_STEPS (st_completed_steps st) \<and>
   (st_status st = PS_ACTIVE \<longleftrightarrow> st_completed_steps st = PROVISIONING_STEPS)"
  using activate_in_prefix [of "st_completed_steps st"]
  by (auto simp: validate_completed_prefix_def valid_prefix_def)

lemma progress_validates: "progress_wf k st \<Longrightarrow> validate_completed_prefix st = None"
  by (simp add: validate_None_iff progress_wf_def)

lemma require_provisioning_ok:
  "prov_inv d \<Longrightarrow> dict_get d k = Some st \<Longrightarrow> st_status st = PS_PROVISIONING \<Longrightarrow>
   require_provisioning k d = Inr st"
  using progress_validates [OF prov_invD] by (simp add: require_provisioning_def)

lemma require_provisioning_Inr:
  "require_provisioning k d = Inr st \<Longrightarrow>
   dict_get d k = Some st \<and> st_status st = PS_PROVISIONING \<and> validate_completed_prefix st = None"
  by (auto simp: require_provisioning_def split: option.splits if_splits)

section \<open>Every transition keeps progress well formed\<close>

lemma prefix_snoc_wf:
  assumes "valid_prefix PROVISIONING_STEPS c" and "take 1 c = [RECORD_CONTROL_STATE]"
    and "next_step PROVISIONING_STEPS c = Some x"
  shows "valid_prefix PROVISIONING_STEPS (c @ [x])" and "take 1 (c @ [x]) = [RECORD_CONTROL_STATE]"
    and "x = ACTIVATE \<longleftrightarrow> c @ [x] = PROVISIONING_STEPS"
proof -
  show v: "valid_prefix PROVISIONING_STEPS (c @ [x])"
    by (rule prov.valid_prefix_next(1) [OF assms(1,3)])
  show "take 1 (c @ [x]) = [RECORD_CONTROL_STATE]"
    using assms(2) by (cases c) auto
  have "ACTIVATE \<notin> set c \<or> x \<noteq> ACTIVATE"
    using prov.valid_prefix_next(2) [OF assms(1,3)] by auto
  moreover have "ACTIVATE \<notin> set c"
    using activate_in_prefix [OF assms(1)] assms(3) by (auto simp: next_step_def split: if_splits)
  ultimately show "x = ACTIVATE \<longleftrightarrow> c @ [x] = PROVISIONING_STEPS"
    using activate_in_prefix [OF v] by auto
qed

lemma prov_start_inv:
  assumes "prov_inv d" and "prov_start fp m d = (r, d')"
  shows "prov_inv d'"
proof (cases "dict_get d (tm_tenant_id m)")
  case None
  have "valid_prefix PROVISIONING_STEPS [RECORD_CONTROL_STATE]"
    and "[RECORD_CONTROL_STATE] \<noteq> PROVISIONING_STEPS"
    by (simp_all add: valid_prefix_def PROVISIONING_STEPS_def)
  with None assms show ?thesis
    by (auto simp: prov_start_def Let_def progress_wf_def)
next
  case (Some st)
  with assms(1) have "progress_wf (tm_tenant_id m) st" by (rule prov_invD)
  with Some assms show ?thesis
    by (auto simp: prov_start_def Let_def progress_wf_def split: option.splits if_splits)
qed

lemma prov_mark_completed_inv:
  assumes "prov_inv d" and "prov_mark_completed k x d = (r, d')"
  shows "prov_inv d'"
proof (cases "require_provisioning k d")
  case (Inl e)
  with assms show ?thesis by (simp add: prov_mark_completed_def)
next
  case (Inr st)
  note st = require_provisioning_Inr [OF Inr]
  with assms(1) have wf: "progress_wf k st" by (blast intro: prov_invD)
  show ?thesis
  proof (cases "x \<noteq> ACTIVATE \<and> Some x = next_step PROVISIONING_STEPS (st_completed_steps st)")
    case True
    then have "next_step PROVISIONING_STEPS (st_completed_steps st) = Some x" by simp
    note snoc = prefix_snoc_wf [OF _ _ this]
    from wf st True have "progress_wf k (st\<lparr>st_completed_steps := st_completed_steps st @ [x]\<rparr>)"
      by (simp add: progress_wf_def snoc) (use snoc wf in \<open>auto simp: progress_wf_def\<close>)
    with True Inr assms show ?thesis by (auto simp: prov_mark_completed_def Let_def)
  next
    case False
    with Inr assms show ?thesis by (auto simp: prov_mark_completed_def Let_def split: if_splits)
  qed
qed

lemma prov_mark_failed_inv:
  assumes "prov_inv d" and "prov_mark_failed k x code d = (r, d')"
  shows "prov_inv d'"
proof (cases "require_provisioning k d")
  case (Inl e)
  with assms show ?thesis by (simp add: prov_mark_failed_def)
next
  case (Inr st)
  note st = require_provisioning_Inr [OF Inr]
  with assms(1) have "progress_wf k st" by (blast intro: prov_invD)
  with st Inr assms show ?thesis
    by (auto simp: prov_mark_failed_def Let_def progress_wf_def split: if_splits)
qed

lemma prov_activate_inv:
  assumes "prov_inv d" and "prov_activate k d = (r, d')"
  shows "prov_inv d'"
proof (cases "require_provisioning k d")
  case (Inl e)
  with assms show ?thesis by (simp add: prov_activate_def)
next
  case (Inr st)
  note st = require_provisioning_Inr [OF Inr]
  with assms(1) have wf: "progress_wf k st" by (blast intro: prov_invD)
  show ?thesis
  proof (cases "next_step PROVISIONING_STEPS (st_completed_steps st) = Some ACTIVATE")
    case True
    note snoc = prefix_snoc_wf [OF _ _ True]
    from wf st have "progress_wf k
        (st\<lparr>st_status := PS_ACTIVE, st_completed_steps := st_completed_steps st @ [ACTIVATE]\<rparr>)"
      by (simp add: progress_wf_def snoc) (use snoc wf in \<open>auto simp: progress_wf_def\<close>)
    with True Inr assms show ?thesis by (auto simp: prov_activate_def Let_def)
  next
    case False
    with Inr assms show ?thesis by (auto simp: prov_activate_def Let_def)
  qed
qed

lemmas prov_transition_inv =
  prov_start_inv prov_mark_completed_inv prov_mark_failed_inv prov_activate_inv

lemma prov_step_failed_inv:
  "prov_inv d \<Longrightarrow> prov_step_failed k x e d w = (r, (d', w')) \<Longrightarrow> prov_inv d'"
  by (auto simp: prov_step_failed_def split: prod.splits sum.splits dest: prov_mark_failed_inv)

lemma prov_apply_steps_inv:
  "prov_inv d \<Longrightarrow> prov_apply_steps ports drawn m steps completed d w = (r, (d', w')) \<Longrightarrow> prov_inv d'"
proof (induction steps arbitrary: completed d w)
  case Nil
  then show ?case by simp
next
  case (Cons x xs)
  from Cons.prems show ?case
    by (auto split: if_splits prod.splits sum.splits
             dest: prov_activate_inv prov_mark_completed_inv prov_step_failed_inv Cons.IH)
qed

lemma prov_apply_inv:
  "prov_inv d \<Longrightarrow> prov_apply fp ports drawn m d w = (r, (d', w')) \<Longrightarrow> prov_inv d'"
  by (auto simp: prov_apply_def split: sum.splits if_splits option.splits prod.splits
           dest: prov_start_inv prov_apply_steps_inv)

section \<open>One call of apply is one run of the pending steps\<close>

lemma apply_steps_skip:
  "set xs \<subseteq> completed \<Longrightarrow>
   prov_apply_steps ports drawn m (xs @ ys) completed d w =
   prov_apply_steps ports drawn m ys completed d w"
  by (induction xs) auto

definition running :: "provisioning_states \<Rightarrow> string \<Rightarrow> provisioning_state \<Rightarrow> bool" where
  "running d k st \<longleftrightarrow> prov_inv d \<and> dict_get d k = Some st \<and> st_status st = PS_PROVISIONING"

lemma running_require: "running d k st \<Longrightarrow> require_provisioning k d = Inr st"
  by (simp add: running_def require_provisioning_ok)

lemma running_wf: "running d k st \<Longrightarrow> progress_wf k st"
  by (auto simp: running_def dest: prov_invD)

lemma running_mark:
  assumes "running d k st" and "next_step PROVISIONING_STEPS (st_completed_steps st) = Some x"
    and "x \<noteq> ACTIVATE"
  defines "st' \<equiv> st\<lparr>st_completed_steps := st_completed_steps st @ [x]\<rparr>"
  shows "prov_mark_completed k x d = (Inr st', dict_set k st' d)"
    and "running (dict_set k st' d) k st'"
proof -
  show eq: "prov_mark_completed k x d = (Inr st', dict_set k st' d)"
    using assms by (simp add: prov_mark_completed_def running_require Let_def)
  show "running (dict_set k st' d) k st'"
    using assms prov_mark_completed_inv [OF _ eq] by (simp add: running_def)
qed

lemma running_fail:
  assumes "running d k st" and "next_step PROVISIONING_STEPS (st_completed_steps st) = Some x"
  shows "prov_step_failed k x e d w =
    (Inl (ProvisioningFailed (step_value x)),
     (dict_set k (st\<lparr>st_status := PS_FAILED, st_failed_step := Some x,
        st_failure_code := Some (error_name e)\<rparr>) d, w))"
  using assms by (simp add: prov_step_failed_def prov_mark_failed_def running_require Let_def)

text \<open>
  The state a run of the steps \<open>rest\<close> leaves behind, by the outcome of \<open>run_pending\<close>.
\<close>

definition run_record ::
  "provisioning_state \<Rightarrow> provisioning_step list \<Rightarrow> (provisioning_step \<times> error) option \<Rightarrow>
   provisioning_state" where
  "run_record st finished failure =
     (case failure of
        None \<Rightarrow> st\<lparr>st_status := PS_ACTIVE, st_completed_steps := PROVISIONING_STEPS\<rparr>
      | Some (x, e) \<Rightarrow>
          st\<lparr>st_status := PS_FAILED, st_completed_steps := st_completed_steps st @ finished,
             st_failed_step := Some x, st_failure_code := Some (error_name e)\<rparr>)"

definition run_result ::
  "provisioning_state \<Rightarrow> (provisioning_step \<times> error) option \<Rightarrow> provisioning_state result" where
  "run_result st' failure =
     (case failure of None \<Rightarrow> Inr st' | Some (x, e) \<Rightarrow> Inl (ProvisioningFailed (step_value x)))"

lemma run_record_failed:
  "run_record st [] (Some (x, e)) =
     st\<lparr>st_status := PS_FAILED, st_failed_step := Some x, st_failure_code := Some (error_name e)\<rparr>"
  by (cases st) (simp add: run_record_def)

lemma apply_steps_run:
  assumes "running d k st" and k: "k = tm_tenant_id m"
    and "PROVISIONING_STEPS = st_completed_steps st @ rest @ [ACTIVATE]"
    and "run_pending (prov_execute ports drawn m) rest w = (finished, failure, w')"
  shows "\<exists>d'. prov_apply_steps ports drawn m (rest @ [ACTIVATE]) (set (st_completed_steps st)) d w =
              (run_result (run_record st finished failure) failure, (d', w')) \<and>
            (\<forall>j. dict_get d' j =
               (if j = k then Some (run_record st finished failure) else dict_get d j))"
  using assms(1,3,4)
proof (induction rest arbitrary: st d w finished)
  case Nil
  have steps: "PROVISIONING_STEPS = st_completed_steps st @ ACTIVATE # []" using Nil.prems by simp
  have nxt: "next_step PROVISIONING_STEPS (st_completed_steps st) = Some ACTIVATE"
    by (rule prov.next_step_split [OF steps])
  have "ACTIVATE \<notin> set (st_completed_steps st)"
    by (rule prov.split_disjoint [OF steps]) simp
  then show ?case
    using Nil.prems nxt running_require [OF Nil.prems(1)]
    by (simp add: k prov_activate_def run_result_def run_record_def steps [symmetric]
          dict_get_set Let_def)
next
  case (Cons x xs)
  let ?c = "st_completed_steps st"
  have steps: "PROVISIONING_STEPS = ?c @ x # (xs @ [ACTIVATE])" using Cons.prems by simp
  have nxt: "next_step PROVISIONING_STEPS ?c = Some x"
    by (rule prov.next_step_split [OF steps])
  have notin: "x \<notin> set ?c" by (rule prov.split_disjoint [OF steps]) simp
  have x: "x \<noteq> ACTIVATE"
    using prov.distinct_steps steps by (metis distinct.simps(2) distinct_append in_set_conv_decomp)
  show ?case
  proof (cases "prov_execute ports drawn m x w")
    case (Pair r w1)
    show ?thesis
    proof (cases r)
      case (Inl e)
      with Pair Cons.prems(3) have "finished = []" "failure = Some (x, e)" "w' = w1" by auto
      with Inl Pair show ?thesis
        using notin x running_fail [OF Cons.prems(1) nxt, of e w1]
        by (simp add: k run_result_def run_record_failed dict_get_set)
    next
      case (Inr u)
      let ?st = "st\<lparr>st_completed_steps := ?c @ [x]\<rparr>"
      note mark = running_mark [OF Cons.prems(1) nxt x]
      from Inr Pair Cons.prems(3) obtain fin where run:
        "run_pending (prov_execute ports drawn m) xs w1 = (fin, failure, w')" "finished = x # fin"
        by (auto split: prod.splits)
      have "PROVISIONING_STEPS = st_completed_steps ?st @ xs @ [ACTIVATE]" using steps by simp
      from Cons.IH [OF mark(2) this run(1)] obtain d' where
        d': "prov_apply_steps ports drawn m (xs @ [ACTIVATE]) (set (st_completed_steps ?st))
               (dict_set k ?st d) w1 =
             (run_result (run_record ?st fin failure) failure, (d', w'))"
          "\<forall>j. dict_get d' j = (if j = k then Some (run_record ?st fin failure)
                 else dict_get (dict_set k ?st d) j)"
        by blast
      have "run_record ?st fin failure = run_record st finished failure"
        by (simp add: run_record_def run(2) split: option.split prod.split)
      with d' show ?thesis
        using notin x mark(1) Pair Inr by (simp add: k dict_get_set)
    qed
  qed
qed

text \<open>
  What \<open>apply\<close> starts from: the record \<open>start\<close> writes, fresh or resumed, with one more attempt.
\<close>

definition started ::
  "(tenant_manifest \<Rightarrow> string) \<Rightarrow> tenant_manifest \<Rightarrow> provisioning_states \<Rightarrow> provisioning_state" where
  "started fp m d =
     (case dict_get d (tm_tenant_id m) of
        None \<Rightarrow>
          \<lparr>st_tenant_id = tm_tenant_id m, st_manifest_fingerprint = fp m,
           st_database_name = tm_database_name m, st_database_role = tm_database_role m,
           st_neo4j_service_name = tm_neo4j_service_name m, st_status = PS_PROVISIONING,
           st_completed_steps = [RECORD_CONTROL_STATE], st_failed_step = None,
           st_failure_code = None, st_attempt = 1\<rparr>
      | Some st \<Rightarrow> st\<lparr>st_status := PS_PROVISIONING, st_failed_step := None,
                      st_failure_code := None, st_attempt := st_attempt st + 1\<rparr>)"

text \<open>A manifest can be applied over the recorded progress: none, or its own and unfinished.\<close>

definition resumable ::
  "(tenant_manifest \<Rightarrow> string) \<Rightarrow> tenant_manifest \<Rightarrow> provisioning_states \<Rightarrow> bool" where
  "resumable fp m d =
     (case dict_get d (tm_tenant_id m) of
        None \<Rightarrow> True
      | Some st \<Rightarrow> st_manifest_fingerprint st = fp m \<and> st_status st \<noteq> PS_ACTIVE)"

lemma started_running:
  assumes "prov_inv d" and "resumable fp m d"
  shows "prov_start fp m d =
      (Inr (started fp m d), dict_set (tm_tenant_id m) (started fp m d) d)"
    and "running (dict_set (tm_tenant_id m) (started fp m d) d) (tm_tenant_id m) (started fp m d)"
proof -
  show eq: "prov_start fp m d =
      (Inr (started fp m d), dict_set (tm_tenant_id m) (started fp m d) d)"
  proof (cases "dict_get d (tm_tenant_id m)")
    case (Some st)
    with assms show ?thesis
      using progress_validates [OF prov_invD [OF assms(1) Some]]
      by (simp add: prov_start_def started_def resumable_def require_matching_manifest_def Let_def)
  qed (simp add: prov_start_def started_def Let_def)
  have "st_status (started fp m d) = PS_PROVISIONING"
    by (simp add: started_def split: option.split)
  with prov_start_inv [OF assms(1) eq]
  show "running (dict_set (tm_tenant_id m) (started fp m d) d) (tm_tenant_id m) (started fp m d)"
    by (simp add: running_def)
qed

definition steps_to_run ::
  "(tenant_manifest \<Rightarrow> string) \<Rightarrow> tenant_manifest \<Rightarrow> provisioning_states \<Rightarrow> provisioning_step list" where
  "steps_to_run fp m d =
     butlast (drop (length (st_completed_steps (started fp m d))) PROVISIONING_STEPS)"

lemma resumable_plan:
  assumes "prov_inv d" and "resumable fp m d"
  shows "\<exists>plan. prov_plan fp m d = Inr plan \<and> \<not> is_noop plan"
proof (cases "dict_get d (tm_tenant_id m)")
  case None
  then show ?thesis
    by (simp add: prov_plan_def prov_get_def Let_def is_noop_def pending_steps_def PROVISIONING_STEPS_def)
next
  case (Some st)
  note wf = prov_invD [OF assms(1) Some]
  with assms(2) Some have "st_completed_steps st \<noteq> PROVISIONING_STEPS"
    by (auto simp: resumable_def progress_wf_def)
  with wf have "ACTIVATE \<notin> set (st_completed_steps st)"
    by (auto simp: progress_wf_def activate_in_prefix)
  then have "filter (\<lambda>item. \<not> pl_completed item)
      (map (\<lambda>step. \<lparr>pl_step = step, pl_action = step_action step,
        pl_completed = step \<in> set (st_completed_steps st)\<rparr>) PROVISIONING_STEPS) \<noteq> []"
    by (auto simp: filter_empty_conv PROVISIONING_STEPS_def)
  with Some assms(2) progress_validates [OF wf] show ?thesis
    by (simp add: prov_plan_def prov_get_def Let_def is_noop_def pending_steps_def resumable_def
          require_matching_manifest_def)
qed

lemma prov_apply_run:
  assumes "prov_inv d" and "resumable fp m d"
    and "run_pending (prov_execute ports drawn m) (steps_to_run fp m d) w = (finished, failure, w')"
  shows "\<exists>d'. prov_apply fp ports drawn m d w =
              (run_result (run_record (started fp m d) finished failure) failure, (d', w')) \<and>
            (\<forall>j. dict_get d' j = (if j = tm_tenant_id m
               then Some (run_record (started fp m d) finished failure) else dict_get d j))"
proof -
  let ?k = "tm_tenant_id m" and ?st = "started fp m d"
  let ?d = "dict_set ?k ?st d" and ?c = "st_completed_steps ?st"
  note start = started_running [OF assms(1,2)]
  have wf: "progress_wf ?k ?st" by (rule running_wf [OF start(2)])
  have "?c \<noteq> PROVISIONING_STEPS"
    using wf start(2) by (auto simp: progress_wf_def running_def)
  then have "drop (length ?c) PROVISIONING_STEPS \<noteq> []"
    using prov.valid_prefix_pending [of ?c] wf by (auto simp: progress_wf_def)
  moreover have "last PROVISIONING_STEPS = ACTIVATE" by (simp add: PROVISIONING_STEPS_def)
  ultimately have "drop (length ?c) PROVISIONING_STEPS = steps_to_run fp m d @ [ACTIVATE]"
    by (metis append_butlast_last_id drop_eq_Nil last_drop leI steps_to_run_def)
  with prov.valid_prefix_pending [of ?c] wf
  have steps: "PROVISIONING_STEPS = ?c @ steps_to_run fp m d @ [ACTIVATE]"
    by (simp add: progress_wf_def)
  from apply_steps_run [OF start(2) refl steps assms(3)] obtain d' where
    d': "prov_apply_steps ports drawn m (steps_to_run fp m d @ [ACTIVATE]) (set ?c) ?d w =
           (run_result (run_record ?st finished failure) failure, (d', w'))"
      "\<forall>j. dict_get d' j = (if j = ?k then Some (run_record ?st finished failure)
             else dict_get ?d j)"
    by blast
  have "prov_apply_steps ports drawn m PROVISIONING_STEPS (set ?c) ?d w =
      prov_apply_steps ports drawn m (steps_to_run fp m d @ [ACTIVATE]) (set ?c) ?d w"
    by (subst steps) (rule apply_steps_skip, simp)
  with d' resumable_plan [OF assms(1,2)] start(1) wf show ?thesis
    by (auto simp: prov_apply_def progress_wf_def dict_get_set)
qed

end
