(* ===== verification/Samples.thy ===== *)
theory Samples
  imports Manifest
begin

text \<open>
  Concrete values that the witnesses of the properties evaluate on: a one-Principal Tenant
  Manifest, its document, and a stand-in for the digest.
\<close>

definition sample_policies :: tenant_policies where
  "sample_policies = \<lparr>tp_user_token_lifetime_days = 90, tp_delegated_agent_token_lifetime_days = 90,
     tp_autonomous_agent_token_lifetime_days = 30, tp_automatic_private_retention = True,
     tp_promotion_requires_human_review = True, tp_erasure_requires_admin_approval = True\<rparr>"

definition sample_raw_manifest :: raw_manifest where
  "sample_raw_manifest = \<lparr>rm_version = 1, rm_tenant_id = ''acme'', rm_name = ''Acme'',
     rm_database_name = None, rm_database_role = None, rm_neo4j_service_name = None,
     rm_principals = [\<lparr>mp_principal_id = ''alice'', mp_name = ''Alice'', mp_kind = USER\<rparr>],
     rm_memberships = [\<lparr>mm_principal_id = ''alice'', mm_roles = [''tenant_administrator'']\<rparr>],
     rm_policies = sample_policies\<rparr>"

definition sample_manifest :: tenant_manifest where
  "sample_manifest = \<lparr>tm_version = 1, tm_tenant_id = ''acme'', tm_name = ''Acme'',
     tm_database_name = ''tenant_acme'', tm_database_role = ''tenant_acme_rw'',
     tm_neo4j_service_name = ''neo4j-acme'',
     tm_principals = [\<lparr>mp_principal_id = ''alice'', mp_name = ''Alice'', mp_kind = USER\<rparr>],
     tm_memberships = [\<lparr>mm_principal_id = ''alice'', mm_roles = [''tenant_administrator'']\<rparr>],
     tm_policies = sample_policies\<rparr>"

definition sample_digest :: "string \<Rightarrow> nat" where
  "sample_digest s = length s"

definition sample_fingerprint :: "tenant_manifest \<Rightarrow> string" where
  "sample_fingerprint m = tm_name m"

end
