(* ===== verification/ProvisioningProperties.thy ===== *)
theory ProvisioningProperties
  imports ProvisioningCorrect Samples
begin

text \<open>
  What Tenant provisioning guarantees over any history of calls of \<^verbatim>\<open>apply\<close>, with any
  manifests, adapters and failures.
\<close>

section \<open>Histories of calls\<close>

inductive provisioned ::
  "'w itself \<Rightarrow> (tenant_manifest \<Rightarrow> string) \<Rightarrow> provisioning_states \<Rightarrow> bool" for world fp where
  init: "provisioned world fp []"
| applied: "provisioned world fp d \<Longrightarrow>
    provisioned world fp (fst (snd (prov_apply fp (ports :: 'w provisioning_ports) drawn m d w)))"

lemma provisioned_inv: "provisioned world fp d \<Longrightarrow> prov_inv d"
proof (induction rule: provisioned.induct)
  case init
  show ?case by (simp add: prov_inv_def)
next
  case (applied d ports drawn m w)
  then show ?case using prov_apply_inv [of d fp ports drawn m w] by (metis prod.collapse)
qed

section \<open>Properties\<close>

text \<open>
  C15. One call of \<^verbatim>\<open>apply\<close> refines one run of the abstract pipeline: it executes, in order and
  from the first step that is not recorded as completed, the remaining steps until one raises;
  the recorded state holds exactly the steps that completed, and the step and the name of the
  exception when one raised; no other Tenant's record changes.
\<close>

theorem apply_refines_pipeline_run:
  assumes "provisioned world fp d" and "resumable fp m d"
  shows "\<exists>d' w' finished failure.
    run_pending (prov_execute ports drawn m) (steps_to_run fp m d) w = (finished, failure, w') \<and>
    prov_apply fp ports drawn m d w =
      (run_result (run_record (started fp m d) finished failure) failure, (d', w')) \<and>
    (\<forall>j. dict_get d' j = (if j = tm_tenant_id m
       then Some (run_record (started fp m d) finished failure) else dict_get d j))"
proof -
  obtain finished failure w' where
    run: "run_pending (prov_execute ports drawn m) (steps_to_run fp m d) w = (finished, failure, w')"
    by (rule prod_cases3)
  then show ?thesis using prov_apply_run [OF provisioned_inv [OF assms(1)] assms(2) run] by blast
qed

lemma run_pending_ok:
  "(\<And>x w. x \<in> set xs \<Longrightarrow> is_ok (fst (exec x w))) \<Longrightarrow> \<exists>w'. run_pending exec xs w = (xs, None, w')"
proof (induction xs arbitrary: w)
  case (Cons x xs)
  have "is_ok (fst (exec x w))" using Cons.prems by simp
  then obtain u w1 where "exec x w = (Inr u, w1)" by (rule is_ok_fst_E)
  moreover obtain w' where "run_pending exec xs w1 = (xs, None, w')" using Cons.IH [of w1] Cons.prems by auto
  ultimately show ?case by simp
qed simp

lemma steps_to_run_adapters:
  assumes "prov_inv d" and "resumable fp m d"
  shows "set (steps_to_run fp m d) \<inter> {RECORD_CONTROL_STATE, ACTIVATE} = {}"
proof -
  let ?c = "st_completed_steps (started fp m d)"
  have "take 1 ?c = [RECORD_CONTROL_STATE]"
    using running_wf [OF started_running(2) [OF assms]] by (simp add: progress_wf_def)
  then have "1 \<le> length ?c" by (cases ?c) simp_all
  then have "set (steps_to_run fp m d) \<subseteq> set (drop 1 (butlast PROVISIONING_STEPS))"
    unfolding steps_to_run_def by (metis drop_butlast set_drop_subset_set_drop)
  then show ?thesis by (auto simp: PROVISIONING_STEPS_def)
qed

text \<open>
  C34. A Tenant can always be brought up: whatever failed before, one call with the same
  manifest in which no adapter raises completes every step and makes the Tenant active.
\<close>

theorem provisioning_resumes_to_active:
  assumes "provisioned world fp d" and "resumable fp m d"
    and "\<And>step w. step \<notin> {RECORD_CONTROL_STATE, ACTIVATE} \<Longrightarrow> is_ok (fst (prov_execute ports drawn m step w))"
  shows "\<exists>state d' w'. prov_apply fp ports drawn m d w = (Inr state, (d', w')) \<and>
    dict_get d' (tm_tenant_id m) = Some state \<and> st_status state = PS_ACTIVE \<and>
    st_completed_steps state = PROVISIONING_STEPS \<and> st_manifest_fingerprint state = fp m"
proof -
  obtain w' where run: "run_pending (prov_execute ports drawn m) (steps_to_run fp m d) w =
      (steps_to_run fp m d, None, w')"
    using run_pending_ok [of "steps_to_run fp m d" "prov_execute ports drawn m" w] assms(3)
      steps_to_run_adapters [OF provisioned_inv [OF assms(1)] assms(2)] by blast
  have "st_manifest_fingerprint (started fp m d) = fp m"
    using assms(2) by (auto simp: started_def resumable_def split: option.splits)
  then show ?thesis
    using prov_apply_run [OF provisioned_inv [OF assms(1)] assms(2) run]
    by (auto simp: run_result_def run_record_def)
qed

text \<open>
  An active Tenant is never provisioned again and recorded progress is never resumed with
  another manifest: the first returns the recorded state, the second raises a conflict, and
  neither calls an adapter or changes a record.
\<close>

lemma active_or_foreign_progress_is_untouched:
  assumes "provisioned world fp d" and "dict_get d (tm_tenant_id m) = Some st" and "\<not> resumable fp m d"
  shows "prov_apply fp ports drawn m d w =
    (if st_manifest_fingerprint st = fp m then Inr st
     else Inl (ProvisioningConflict ''Cannot resume Tenant provisioning with a changed manifest''), (d, w))"
proof (cases "st_manifest_fingerprint st = fp m")
  case False
  then show ?thesis
    using assms(2) by (simp add: prov_apply_def prov_plan_def prov_get_def require_matching_manifest_def)
next
  case True
  have wf: "progress_wf (tm_tenant_id m) st" using prov_invD [OF provisioned_inv [OF assms(1)] assms(2)] .
  have "st_status st = PS_ACTIVE" using assms(2,3) True by (simp add: resumable_def)
  then have "st_completed_steps st = PROVISIONING_STEPS" using wf by (simp add: progress_wf_def)
  then show ?thesis
    using assms(2) True progress_validates [OF wf]
    by (simp add: prov_apply_def prov_plan_def prov_get_def require_matching_manifest_def is_noop_def
        pending_steps_def Let_def)
qed

section \<open>Instances\<close>

text \<open>Adapters over a counter: each call counts, and the one that starts Neo4j can fail.\<close>

definition sample_ports :: "bool \<Rightarrow> nat provisioning_ports" where
  "sample_ports neo4j_ok =
     (let ok = (\<lambda>w. (Inr (), Suc w))
      in \<lparr>port_ensure_secret = (\<lambda>_ _ _. ok),
          port_ensure_tenant_running = (\<lambda>_ w. (if neo4j_ok then Inr () else Inl (AdapterError ''TimeoutError''), Suc w)),
          port_ensure_database_and_role = (\<lambda>_ _. ok), port_migrate_postgres = (\<lambda>_. ok),
          port_migrate_neo4j = (\<lambda>_. ok), port_verify_neo4j_health = (\<lambda>_. ok),
          port_verify_routing = (\<lambda>_. ok), port_verify_isolation = (\<lambda>_. ok)\<rparr>)"

definition sample_failed_states :: provisioning_states where
  "sample_failed_states = fst (snd (prov_apply sample_fingerprint (sample_ports False) (\<lambda>_. ''s'') sample_manifest [] 0))"

lemma sample_failed_provisioned: "provisioned TYPE(nat) sample_fingerprint sample_failed_states"
  unfolding sample_failed_states_def by (intro provisioned.intros)

lemma sample_failed_resumable: "resumable sample_fingerprint sample_manifest sample_failed_states"
  by code_simp

theorem apply_refines_pipeline_run_witness:
  "\<exists>d' w' finished failure.
     run_pending (prov_execute (sample_ports True) (\<lambda>_. ''s'') sample_manifest)
       (steps_to_run sample_fingerprint sample_manifest sample_failed_states) 0 = (finished, failure, w') \<and>
     prov_apply sample_fingerprint (sample_ports True) (\<lambda>_. ''s'') sample_manifest sample_failed_states 0 =
       (run_result (run_record (started sample_fingerprint sample_manifest sample_failed_states) finished failure) failure,
        (d', w')) \<and> steps_to_run sample_fingerprint sample_manifest sample_failed_states =
       [START_NEO4J, CREATE_TENANT_DATABASE, MIGRATE_POSTGRES, MIGRATE_NEO4J, VERIFY_NEO4J_HEALTH, VERIFY_ROUTING,
        VERIFY_ISOLATION]"
proof -
  have "steps_to_run sample_fingerprint sample_manifest sample_failed_states =
       [START_NEO4J, CREATE_TENANT_DATABASE, MIGRATE_POSTGRES, MIGRATE_NEO4J, VERIFY_NEO4J_HEALTH, VERIFY_ROUTING,
        VERIFY_ISOLATION]" by code_simp
  then show ?thesis
    using apply_refines_pipeline_run [OF sample_failed_provisioned sample_failed_resumable,
        of "sample_ports True" "\<lambda>_. ''s''" 0] by blast
qed

lemma sample_ports_succeed:
  "step \<notin> {RECORD_CONTROL_STATE, ACTIVATE} \<Longrightarrow> is_ok (fst (prov_execute (sample_ports True) (\<lambda>_. ''s'') m step w))"
  by (cases step) (simp_all add: prov_execute_def sample_ports_def SECRET_NAMES_def Let_def)

theorem provisioning_resumes_to_active_witness:
  "\<exists>state d' w'. prov_apply sample_fingerprint (sample_ports True) (\<lambda>_. ''s'') sample_manifest sample_failed_states 0 =
     (Inr state, (d', w')) \<and> st_status state = PS_ACTIVE \<and>
     map_option st_status (dict_get sample_failed_states ''acme'') = Some PS_FAILED"
proof -
  have "map_option st_status (dict_get sample_failed_states ''acme'') = Some PS_FAILED" by code_simp
  then show ?thesis
    using provisioning_resumes_to_active [OF sample_failed_provisioned sample_failed_resumable sample_ports_succeed,
        of 0] by blast
qed

end
