(* ===== verification/Tokens.thy ===== *)
theory Tokens
  imports Models
begin

text \<open>
  Opaque bearer credentials: the records the stores keep, the in-memory token store and the
  token services of \<^verbatim>\<open>auth.py\<close> (\<open>mem1\<close> Access Tokens) and of \<^verbatim>\<open>operator_auth.py\<close>
  (\<open>op1\<close> Operator Access Tokens).

  The two record classes of the source have the same fields and differ in the session they
  carry, so they are one polymorphic record. The two services run the same code with their
  own prefix, messages and way to stamp the token's identifier into the session; the code is
  \<open>build_record\<close>, \<open>issue_with\<close>, \<open>rotate_with\<close> and \<open>authenticate_with\<close>, and each service
  is its instance. A service receives its store as an object with a fixed interface
  (\<^verbatim>\<open>TokenStore\<close>); here that object is the record \<open>token_store_ops\<close> of its methods, and
  the locale \<open>token_store\<close> states what a provider promises.

  The values the Python standard library draws are parameters: \<open>uid\<close> is \<^verbatim>\<open>str(uuid4())\<close>,
  \<open>secret\<close> is \<^verbatim>\<open>secrets.token_urlsafe(32)\<close>, \<open>now\<close> is \<^verbatim>\<open>datetime.now(UTC)\<close>, and
  \<open>H\<close> is \<^verbatim>\<open>hashlib.sha256(secret.encode()).digest()\<close>. No property assumes that \<open>H\<close> is
  injective.
\<close>

section \<open>Records\<close>

record ('v, 'ses) token_record =
  tk_token_id :: string
  tk_verifier :: 'v
  tk_session :: 'ses
  tk_expires_at :: datetime
  tk_issued_at :: datetime
  tk_revoked_at :: "datetime option"
  tk_last_used_at :: "datetime option"

record issued_credential =
  ic_token_id :: string
  ic_access_token :: string
  ic_expires_at :: datetime

record rotated_credential =
  rc_credential :: issued_credential
  rc_previous_token_id :: string
  rc_previous_valid_until :: datetime

text \<open>A stored token is live at a time when it is neither revoked nor expired.\<close>

definition token_live :: "datetime \<Rightarrow> ('v, 'ses) token_record \<Rightarrow> bool" where
  "token_live now r \<longleftrightarrow> tk_revoked_at r = None \<and> now < tk_expires_at r"

section \<open>The in-memory token store\<close>

type_synonym ('v, 'ses) token_dict = "(string, ('v, 'ses) token_record) dict"

definition tokens_save ::
  "('v, 'ses) token_record \<Rightarrow> ('v, 'ses) token_dict \<Rightarrow> ('v, 'ses) token_dict" where
  "tokens_save record records = dict_set (tk_token_id record) record records"

definition tokens_get ::
  "string \<Rightarrow> ('v, 'ses) token_dict \<Rightarrow> ('v, 'ses) token_record option" where
  "tokens_get token_id records = dict_get records token_id"

definition tokens_revoke ::
  "string \<Rightarrow> datetime \<Rightarrow> ('v, 'ses) token_dict \<Rightarrow> bool \<times> ('v, 'ses) token_dict" where
  "tokens_revoke token_id revoked_at records =
     (case dict_get records token_id of
        None \<Rightarrow> (False, records)
      | Some existing \<Rightarrow>
          if tk_revoked_at existing \<noteq> None then (True, records)
          else (True, dict_set token_id (existing\<lparr>tk_revoked_at := Some revoked_at\<rparr>) records))"

definition tokens_mark_used ::
  "string \<Rightarrow> datetime \<Rightarrow> ('v, 'ses) token_dict \<Rightarrow> ('v, 'ses) token_dict" where
  "tokens_mark_used token_id used_at records =
     (case dict_get records token_id of
        None \<Rightarrow> records
      | Some existing \<Rightarrow> dict_set token_id (existing\<lparr>tk_last_used_at := Some used_at\<rparr>) records)"

definition tokens_rotate ::
  "string \<Rightarrow> ('v, 'ses) token_record \<Rightarrow> datetime \<Rightarrow> datetime \<Rightarrow>
   ('v, 'ses) token_dict \<Rightarrow> bool \<times> ('v, 'ses) token_dict" where
  "tokens_rotate previous_token_id replacement previous_valid_until rotated_at records =
     (case dict_get records previous_token_id of
        None \<Rightarrow> (False, records)
      | Some previous \<Rightarrow>
          if tk_revoked_at previous \<noteq> None \<or> tk_expires_at previous \<le> rotated_at
             \<or> dict_get records (tk_token_id replacement) \<noteq> None
          then (False, records)
          else (True,
            dict_set (tk_token_id replacement) replacement
              (dict_set previous_token_id
                 (previous\<lparr>tk_expires_at := min (tk_expires_at previous) previous_valid_until\<rparr>)
                 records)))"

section \<open>The store interface\<close>

record ('v, 'ses, 's) token_store_ops =
  store_save :: "('v, 'ses) token_record \<Rightarrow> 's \<Rightarrow> 's"
  store_get :: "string \<Rightarrow> 's \<Rightarrow> ('v, 'ses) token_record option"
  store_revoke :: "string \<Rightarrow> datetime \<Rightarrow> 's \<Rightarrow> bool \<times> 's"
  store_mark_used :: "string \<Rightarrow> datetime \<Rightarrow> 's \<Rightarrow> 's"
  store_rotate ::
    "string \<Rightarrow> ('v, 'ses) token_record \<Rightarrow> datetime \<Rightarrow> datetime \<Rightarrow> 's \<Rightarrow> bool \<times> 's"

definition in_memory_token_ops :: "('v, 'ses, ('v, 'ses) token_dict) token_store_ops" where
  "in_memory_token_ops =
     \<lparr>store_save = tokens_save, store_get = tokens_get, store_revoke = tokens_revoke,
      store_mark_used = tokens_mark_used, store_rotate = tokens_rotate\<rparr>"

section \<open>Token services\<close>

definition build_record ::
  "string \<Rightarrow> (string \<Rightarrow> 'ses \<Rightarrow> 'ses) \<Rightarrow> (string \<Rightarrow> 'v) \<Rightarrow> string \<Rightarrow> string \<Rightarrow>
   'ses \<Rightarrow> timedelta \<Rightarrow> datetime \<Rightarrow> issued_credential \<times> ('v, 'ses) token_record" where
  "build_record prefix stamp H uid secret session lifetime issued_at =
     (let access_token = prefix @ ''.'' @ uid @ ''.'' @ secret;
          expires_at = issued_at + lifetime
      in (\<lparr>ic_token_id = uid, ic_access_token = access_token, ic_expires_at = expires_at\<rparr>,
          \<lparr>tk_token_id = uid, tk_verifier = H secret, tk_session = stamp uid session,
           tk_expires_at = expires_at, tk_issued_at = issued_at,
           tk_revoked_at = None, tk_last_used_at = None\<rparr>))"

definition issue_with ::
  "string \<Rightarrow> (string \<Rightarrow> 'ses \<Rightarrow> 'ses) \<Rightarrow> (string \<Rightarrow> 'v) \<Rightarrow> ('v, 'ses, 's) token_store_ops \<Rightarrow>
   string \<Rightarrow> string \<Rightarrow> 'ses \<Rightarrow> timedelta \<Rightarrow> datetime \<Rightarrow> 's \<Rightarrow> (issued_credential, 's) outcome" where
  "issue_with prefix stamp H ops uid secret session lifetime now s =
     (let (credential, record) = build_record prefix stamp H uid secret session lifetime now
      in (Inr credential, store_save ops record s))"

definition rotate_with ::
  "string \<Rightarrow> string \<Rightarrow> string \<Rightarrow> (string \<Rightarrow> 'ses \<Rightarrow> 'ses) \<Rightarrow> (string \<Rightarrow> 'v) \<Rightarrow>
   ('v, 'ses, 's) token_store_ops \<Rightarrow> string \<Rightarrow> string \<Rightarrow> string \<Rightarrow> 'ses \<Rightarrow> timedelta \<Rightarrow> timedelta \<Rightarrow>
   datetime \<Rightarrow> 's \<Rightarrow> (rotated_credential, 's) outcome" where
  "rotate_with overlap_message missing_message prefix stamp H ops uid secret
     previous_token_id session lifetime overlap now s =
     (if overlap \<le> 0 then (Inl (ValueError overlap_message), s)
      else
        let (credential, replacement) =
              build_record prefix stamp H uid secret session lifetime now;
            previous_valid_until = now + overlap;
            (rotated, s') =
              store_rotate ops previous_token_id replacement previous_valid_until now s
        in if \<not> rotated then (Inl (AuthenticationError missing_message), s')
           else (Inr \<lparr>rc_credential = credential, rc_previous_token_id = previous_token_id,
                      rc_previous_valid_until = previous_valid_until\<rparr>, s'))"

definition authenticate_with ::
  "string \<Rightarrow> string \<Rightarrow> string \<Rightarrow> (string \<Rightarrow> 'v) \<Rightarrow> ('v, 'ses, 's) token_store_ops \<Rightarrow>
   string \<Rightarrow> datetime \<Rightarrow> 's \<Rightarrow> ('ses, 's) outcome" where
  "authenticate_with invalid_message expired_message prefix H ops access_token now s =
     (case py_split CHR ''.'' 2 access_token of
        [p, token_id, secret] \<Rightarrow>
          if p \<noteq> prefix \<or> secret = [] then (Inl (AuthenticationError invalid_message), s)
          else
            (case store_get ops token_id s of
               None \<Rightarrow> (Inl (AuthenticationError invalid_message), s)
             | Some record \<Rightarrow>
                 if tk_verifier record \<noteq> H secret
                 then (Inl (AuthenticationError invalid_message), s)
                 else if tk_revoked_at record \<noteq> None \<or> tk_expires_at record \<le> now
                 then (Inl (AuthenticationError expired_message), s)
                 else (Inr (tk_session record), store_mark_used ops (tk_token_id record) now s))
      | _ \<Rightarrow> (Inl (AuthenticationError invalid_message), s))"

subsection \<open>Access Tokens\<close>

definition stamp_tenant :: "string \<Rightarrow> tenant_session \<Rightarrow> tenant_session" where
  "stamp_tenant token_id session = session\<lparr>ts_token_id := Some token_id\<rparr>"

definition TokenService_issue ::
  "(string \<Rightarrow> 'v) \<Rightarrow> ('v, tenant_session, 's) token_store_ops \<Rightarrow> string \<Rightarrow> string \<Rightarrow>
   tenant_session \<Rightarrow> timedelta \<Rightarrow> datetime \<Rightarrow> 's \<Rightarrow> (issued_credential, 's) outcome" where
  "TokenService_issue H ops = issue_with ''mem1'' stamp_tenant H ops"

definition TokenService_rotate ::
  "(string \<Rightarrow> 'v) \<Rightarrow> ('v, tenant_session, 's) token_store_ops \<Rightarrow> string \<Rightarrow> string \<Rightarrow> string \<Rightarrow>
   tenant_session \<Rightarrow> timedelta \<Rightarrow> timedelta \<Rightarrow> datetime \<Rightarrow> 's \<Rightarrow> (rotated_credential, 's) outcome" where
  "TokenService_rotate H ops =
     rotate_with ''Token rotation overlap must be positive''
       ''Active Access Token not found for rotation'' ''mem1'' stamp_tenant H ops"

definition TokenService_authenticate ::
  "(string \<Rightarrow> 'v) \<Rightarrow> ('v, tenant_session, 's) token_store_ops \<Rightarrow> string \<Rightarrow> datetime \<Rightarrow> 's \<Rightarrow>
   (tenant_session, 's) outcome" where
  "TokenService_authenticate H ops =
     authenticate_with ''Invalid Access Token'' ''Expired or revoked Access Token'' ''mem1'' H ops"

definition TokenService_revoke ::
  "('v, 'ses, 's) token_store_ops \<Rightarrow> string \<Rightarrow> datetime \<Rightarrow> 's \<Rightarrow> bool \<times> 's" where
  "TokenService_revoke ops token_id now s = store_revoke ops token_id now s"

subsection \<open>Operator Access Tokens\<close>

definition stamp_operator :: "string \<Rightarrow> operator_session \<Rightarrow> operator_session" where
  "stamp_operator token_id session =
     \<lparr>os_operator_id = os_operator_id session, os_roles = os_roles session,
      os_token_id = Some token_id, os_session_id = None\<rparr>"

definition OperatorTokenService_issue ::
  "(string \<Rightarrow> 'v) \<Rightarrow> ('v, operator_session, 's) token_store_ops \<Rightarrow> string \<Rightarrow> string \<Rightarrow>
   operator_session \<Rightarrow> timedelta \<Rightarrow> datetime \<Rightarrow> 's \<Rightarrow> (issued_credential, 's) outcome" where
  "OperatorTokenService_issue H ops = issue_with ''op1'' stamp_operator H ops"

definition OperatorTokenService_rotate ::
  "(string \<Rightarrow> 'v) \<Rightarrow> ('v, operator_session, 's) token_store_ops \<Rightarrow> string \<Rightarrow> string \<Rightarrow> string \<Rightarrow>
   operator_session \<Rightarrow> timedelta \<Rightarrow> timedelta \<Rightarrow> datetime \<Rightarrow> 's \<Rightarrow> (rotated_credential, 's) outcome" where
  "OperatorTokenService_rotate H ops =
     rotate_with ''Operator Access Token rotation overlap must be positive''
       ''Active Operator Access Token not found for rotation'' ''op1'' stamp_operator H ops"

definition OperatorTokenService_authenticate ::
  "(string \<Rightarrow> 'v) \<Rightarrow> ('v, operator_session, 's) token_store_ops \<Rightarrow> string \<Rightarrow> datetime \<Rightarrow> 's \<Rightarrow>
   (operator_session, 's) outcome" where
  "OperatorTokenService_authenticate H ops =
     authenticate_with ''Invalid Operator Access Token''
       ''Expired or revoked Operator Access Token'' ''op1'' H ops"

definition OperatorTokenService_revoke ::
  "('v, 'ses, 's) token_store_ops \<Rightarrow> string \<Rightarrow> datetime \<Rightarrow> 's \<Rightarrow> bool \<times> 's" where
  "OperatorTokenService_revoke ops token_id now s = store_revoke ops token_id now s"

section \<open>Facts about the services that hold for every store\<close>

text \<open>
  A presented token names a record exactly when it is \<open>prefix.token_id.secret\<close> with a
  non-empty secret.
\<close>

definition token_parts :: "string \<Rightarrow> string \<Rightarrow> (string \<times> string) option" where
  "token_parts prefix access_token =
     (case py_split CHR ''.'' 2 access_token of
        [p, token_id, secret] \<Rightarrow> if p \<noteq> prefix \<or> secret = [] then None else Some (token_id, secret)
      | _ \<Rightarrow> None)"

lemma authenticate_with_alt:
  "authenticate_with invalid_message expired_message prefix H ops access_token now s =
     (case token_parts prefix access_token of
        None \<Rightarrow> (Inl (AuthenticationError invalid_message), s)
      | Some (token_id, secret) \<Rightarrow>
          (case store_get ops token_id s of
             None \<Rightarrow> (Inl (AuthenticationError invalid_message), s)
           | Some record \<Rightarrow>
               if tk_verifier record \<noteq> H secret
               then (Inl (AuthenticationError invalid_message), s)
               else if \<not> token_live now record
               then (Inl (AuthenticationError expired_message), s)
               else (Inr (tk_session record), store_mark_used ops (tk_token_id record) now s)))"
  by (auto simp: authenticate_with_def token_parts_def token_live_def not_le
           split: list.splits option.splits)

lemma authenticate_with_Inr:
  "authenticate_with im em prefix H ops access_token now s = (Inr session, s') \<longleftrightarrow>
   (\<exists>token_id secret r.
      token_parts prefix access_token = Some (token_id, secret) \<and>
      store_get ops token_id s = Some r \<and> tk_verifier r = H secret \<and> token_live now r \<and>
      session = tk_session r \<and> s' = store_mark_used ops (tk_token_id r) now s)"
  by (auto simp: authenticate_with_alt split: option.splits)

lemma authenticate_with_Inl: "authenticate_with im em prefix H ops t now s = (Inl e, s') \<Longrightarrow> s' = s"
  by (auto simp: authenticate_with_alt split: option.splits if_splits)

lemma token_parts_issued:
  assumes "CHR ''.'' \<notin> set prefix" and "CHR ''.'' \<notin> set uid" and "secret \<noteq> []"
  shows "token_parts prefix (prefix @ ''.'' @ uid @ ''.'' @ secret) = Some (uid, secret)"
proof -
  have "py_split CHR ''.'' 2 (prefix @ ''.'' @ uid @ ''.'' @ secret) = [prefix, uid, secret]"
    using py_split_at [OF assms(1), of 1 "uid @ ''.'' @ secret"]
      py_split_at [OF assms(2), of 0 secret]
    by (simp add: numeral_2_eq_2)
  then show ?thesis
    using assms(3) by (simp add: token_parts_def)
qed

lemma build_record_simps:
  "fst (build_record prefix stamp H uid secret session lifetime now) =
     \<lparr>ic_token_id = uid, ic_access_token = prefix @ ''.'' @ uid @ ''.'' @ secret,
      ic_expires_at = now + lifetime\<rparr>"
  "snd (build_record prefix stamp H uid secret session lifetime now) =
     \<lparr>tk_token_id = uid, tk_verifier = H secret, tk_session = stamp uid session,
      tk_expires_at = now + lifetime, tk_issued_at = now, tk_revoked_at = None,
      tk_last_used_at = None\<rparr>"
  by (simp_all add: build_record_def Let_def)

lemmas service_defs =
  TokenService_issue_def TokenService_rotate_def TokenService_authenticate_def
  TokenService_revoke_def OperatorTokenService_issue_def OperatorTokenService_rotate_def
  OperatorTokenService_authenticate_def OperatorTokenService_revoke_def

section \<open>What a token store promises\<close>

text \<open>
  \<open>lookup\<close> is the stored record under an identifier, \<open>admits\<close> says whether the provider
  still lets a session through (a store that knows about Tenants and Principals hides the
  tokens of inactive ones). The laws say how each operation changes \<open>lookup\<close>.
\<close>

locale token_store =
  fixes ops :: "('v, 'ses, 's) token_store_ops"
    and lookup :: "string \<Rightarrow> 's \<Rightarrow> ('v, 'ses) token_record option"
    and admits :: "'s \<Rightarrow> 'ses \<Rightarrow> bool"
    and invar :: "'s \<Rightarrow> bool"
  assumes get_law: "store_get ops k s =
      (case lookup k s of None \<Rightarrow> None | Some r \<Rightarrow> if admits s (tk_session r) then Some r else None)"
    and key_law: "invar s \<Longrightarrow> lookup k s = Some r \<Longrightarrow> tk_token_id r = k"
    and save_law: "lookup k (store_save ops r s) = (if k = tk_token_id r then Some r else lookup k s)"
    and save_admits: "admits (store_save ops r s) = admits s"
    and save_invar: "invar s \<Longrightarrow> invar (store_save ops r s)"
    and used_law: "lookup k (store_mark_used ops j t s) =
      (if k = j then map_option (\<lambda>r. r\<lparr>tk_last_used_at := Some t\<rparr>) (lookup k s) else lookup k s)"
    and used_admits: "admits (store_mark_used ops j t s) = admits s"
    and used_invar: "invar s \<Longrightarrow> invar (store_mark_used ops j t s)"
    and revoke_found: "fst (store_revoke ops j t s) \<longleftrightarrow> lookup j s \<noteq> None"
    and revoke_law: "lookup k (snd (store_revoke ops j t s)) =
      (if k = j then map_option (\<lambda>r. if tk_revoked_at r = None
         then r\<lparr>tk_revoked_at := Some t\<rparr> else r) (lookup k s) else lookup k s)"
    and revoke_admits: "admits (snd (store_revoke ops j t s)) = admits s"
    and revoke_invar: "invar s \<Longrightarrow> invar (snd (store_revoke ops j t s))"
    and rotate_failed: "store_rotate ops j r v t s = (False, s') \<Longrightarrow> s' = s"
    and rotate_ok: "store_rotate ops j r v t s = (True, s') \<Longrightarrow>
      (\<exists>p. store_get ops j s = Some p \<and> token_live t p \<and> lookup (tk_token_id r) s = None \<and>
        (\<forall>k. lookup k s' = (if k = tk_token_id r then Some r
           else if k = j then Some (p\<lparr>tk_expires_at := min (tk_expires_at p) v\<rparr>)
           else lookup k s)))"
    and rotate_admits: "admits (snd (store_rotate ops j r v t s)) = admits s"
    and rotate_invar: "invar s \<Longrightarrow> invar (snd (store_rotate ops j r v t s))"
begin

lemma get_Some: "store_get ops k s = Some r \<longleftrightarrow> lookup k s = Some r \<and> admits s (tk_session r)"
  by (auto simp: get_law split: option.splits)

text \<open>Authentication succeeds exactly on a live, admitted record whose verifier matches.\<close>

lemma authenticate_iff:
  "authenticate_with im em prefix H ops tok now s = (Inr session, s') \<longleftrightarrow>
   (\<exists>k secret r. token_parts prefix tok = Some (k, secret) \<and> lookup k s = Some r \<and>
      admits s session \<and> tk_session r = session \<and> tk_verifier r = H secret \<and>
      token_live now r \<and> s' = store_mark_used ops (tk_token_id r) now s)"
  by (auto simp: authenticate_with_Inr get_Some)

lemma issued_authenticates:
  assumes "CHR ''.'' \<notin> set prefix" and "CHR ''.'' \<notin> set uid" and "secret \<noteq> []"
    and issue: "issue_with prefix stamp H ops uid secret session lifetime t s = (Inr c, s')"
    and "admits s (stamp uid session)" and "t' < t + lifetime"
  shows "fst (authenticate_with im em prefix H ops (ic_access_token c) t' s') =
           Inr (stamp uid session)"
proof -
  let ?r = "snd (build_record prefix stamp H uid secret session lifetime t)"
  from issue have c: "c = fst (build_record prefix stamp H uid secret session lifetime t)"
    and s': "s' = store_save ops ?r s"
    by (auto simp: issue_with_def split: prod.splits)
  have "store_get ops uid s' = Some ?r"
    using assms(5) by (simp add: s' get_Some save_law save_admits build_record_simps)
  then show ?thesis
    using assms(1-3,6)
    by (simp add: authenticate_with_alt c build_record_simps token_parts_issued token_live_def
             del: append.simps append_Cons)
qed

lemma revoked_rejected:
  assumes "lookup k s = Some r" and "tk_revoked_at r \<noteq> None"
    and "token_parts prefix tok = Some (k, secret)"
  shows "\<exists>m. authenticate_with im em prefix H ops tok now s = (Inl (AuthenticationError m), s)"
  using assms by (auto simp: authenticate_with_alt token_live_def get_Some split: option.splits)

lemma revoke_rejects:
  assumes "store_revoke ops k t s = (True, s')" and "token_parts prefix tok = Some (k, secret)"
  shows "\<exists>m. authenticate_with im em prefix H ops tok now s' = (Inl (AuthenticationError m), s')"
proof -
  from assms(1) have "lookup k s \<noteq> None" and "snd (store_revoke ops k t s) = s'"
    using revoke_found [of k t s] by auto
  then obtain r where "lookup k s' = Some r" and "tk_revoked_at r \<noteq> None"
    using revoke_law [of k k t s] by auto
  then show ?thesis
    using assms(2) by (rule revoked_rejected)
qed

text \<open>
  Rotation: the replacement is stored, and the previous token never lives longer than the
  overlap, nor longer than it would have lived.
\<close>

lemma rotate_ok_lookup:
  assumes "rotate_with om mm prefix stamp H ops uid secret k session lifetime overlap t s = (Inr rc, s')"
  obtains p where "store_get ops k s = Some p" and "token_live t p" and "lookup uid s = None"
    and "0 < overlap" and "rc_previous_valid_until rc = t + overlap"
    and "rc_credential rc = fst (build_record prefix stamp H uid secret session lifetime t)"
    and "lookup uid s' = Some (snd (build_record prefix stamp H uid secret session lifetime t))"
    and "uid \<noteq> k \<Longrightarrow>
         lookup k s' = Some (p\<lparr>tk_expires_at := min (tk_expires_at p) (t + overlap)\<rparr>)"
    and "admits s' = admits s"
proof -
  obtain c r where br: "build_record prefix stamp H uid secret session lifetime t = (c, r)"
    by fastforce
  then have r: "tk_token_id r = uid" and c: "c = fst (build_record prefix stamp H uid secret session lifetime t)"
    using build_record_simps(2) [of prefix stamp H uid secret session lifetime t] by simp_all
  from assms br have ov: "0 < overlap"
    and rot: "store_rotate ops k r (t + overlap) t s = (True, s')"
    and rc: "rc = \<lparr>rc_credential = c, rc_previous_token_id = k, rc_previous_valid_until = t + overlap\<rparr>"
    by (auto simp: rotate_with_def Let_def split: if_splits prod.splits)
  show thesis
    using rotate_ok [OF rot] rotate_admits [of k r "t + overlap" t s]
    by (elim exE, intro that) (auto simp: rc rot r br ov)
qed

end

section \<open>The in-memory token store keeps the promise\<close>

definition token_keys :: "('v, 'ses) token_dict \<Rightarrow> bool" where
  "token_keys d \<longleftrightarrow> (\<forall>k r. dict_get d k = Some r \<longrightarrow> tk_token_id r = k)"

lemma token_keys_set: "token_keys d \<Longrightarrow> tk_token_id r = k \<Longrightarrow> token_keys (dict_set k r d)"
  by (simp add: token_keys_def dict_get_set)

lemma token_keysD: "token_keys d \<Longrightarrow> dict_get d k = Some r \<Longrightarrow> tk_token_id r = k"
  by (simp add: token_keys_def)

interpretation mem_tokens: token_store in_memory_token_ops tokens_get "\<lambda>_ _. True" token_keys
proof unfold_locales
  fix j v t s s' and r :: "('v, 'ses) token_record"
  show "store_rotate in_memory_token_ops j r v t s = (False, s') \<Longrightarrow> s' = s"
    by (auto simp: in_memory_token_ops_def tokens_rotate_def split: option.splits if_splits)
qed (auto simp: in_memory_token_ops_def tokens_get_def tokens_save_def tokens_revoke_def
       tokens_mark_used_def tokens_rotate_def token_live_def dict_get_set
       intro!: token_keys_set dest: token_keysD
       split: option.splits if_splits)

end
