(* ===== verification/AdminSessions.thy ===== *)
theory AdminSessions
  imports Tokens
begin

text \<open>
  Browser Admin Sessions of \<^verbatim>\<open>operator_auth.py\<close>: a session token \<open>adm1.session_id.secret\<close>
  with a CSRF token, a sliding idle expiry of 30 minutes and a fixed absolute expiry of
  8 hours. The store the service is built over is again a record of its methods.
\<close>

section \<open>Records and store interface\<close>

record 'v admin_session_record =
  as_session_id :: string
  as_verifier :: 'v
  as_csrf_verifier :: 'v
  as_session :: operator_session
  as_absolute_expires_at :: datetime
  as_idle_expires_at :: datetime
  as_issued_at :: datetime
  as_revoked_at :: "datetime option"
  as_last_used_at :: "datetime option"

record issued_admin_session =
  ia_session_id :: string
  ia_session_token :: string
  ia_csrf_token :: string
  ia_session :: operator_session
  ia_absolute_expires_at :: datetime
  ia_idle_expires_at :: datetime

record ('v, 's) admin_session_ops =
  session_save :: "'v admin_session_record \<Rightarrow> 's \<Rightarrow> 's"
  session_get :: "string \<Rightarrow> 's \<Rightarrow> 'v admin_session_record option"
  session_revoke :: "string \<Rightarrow> datetime \<Rightarrow> 's \<Rightarrow> bool \<times> 's"
  session_mark_used :: "string \<Rightarrow> datetime \<Rightarrow> datetime \<Rightarrow> 's \<Rightarrow> 's"

definition IDLE_LIFETIME :: timedelta where "IDLE_LIFETIME = minutes 30"
definition ABSOLUTE_LIFETIME :: timedelta where "ABSOLUTE_LIFETIME = hours 8"

section \<open>The service\<close>

definition AdminSessionService_create ::
  "(string \<Rightarrow> 'v) \<Rightarrow> ('v, 's) admin_session_ops \<Rightarrow> string \<Rightarrow> string \<Rightarrow> string \<Rightarrow>
   operator_session \<Rightarrow> datetime \<Rightarrow> 's \<Rightarrow> (issued_admin_session, 's) outcome" where
  "AdminSessionService_create H ops uid secret csrf_token session now s =
     (let session_token = ''adm1.'' @ uid @ ''.'' @ secret;
          absolute_expires_at = now + ABSOLUTE_LIFETIME;
          idle_expires_at = now + IDLE_LIFETIME;
          bound = \<lparr>os_operator_id = os_operator_id session, os_roles = os_roles session,
                   os_token_id = os_token_id session, os_session_id = Some uid\<rparr>;
          s' = session_save ops
            \<lparr>as_session_id = uid, as_verifier = H secret, as_csrf_verifier = H csrf_token,
             as_session = bound, as_absolute_expires_at = absolute_expires_at,
             as_idle_expires_at = idle_expires_at, as_issued_at = now,
             as_revoked_at = None, as_last_used_at = None\<rparr> s
      in (Inr \<lparr>ia_session_id = uid, ia_session_token = session_token, ia_csrf_token = csrf_token,
               ia_session = bound, ia_absolute_expires_at = absolute_expires_at,
               ia_idle_expires_at = idle_expires_at\<rparr>, s'))"

definition AdminSessionService_authenticate ::
  "(string \<Rightarrow> 'v) \<Rightarrow> ('v, 's) admin_session_ops \<Rightarrow> string \<Rightarrow> string option \<Rightarrow> bool \<Rightarrow>
   datetime \<Rightarrow> 's \<Rightarrow> (operator_session, 's) outcome" where
  "AdminSessionService_authenticate H ops session_token csrf_token require_csrf now s =
     (case py_split CHR ''.'' 2 session_token of
        [p, session_id, secret] \<Rightarrow>
          if p \<noteq> ''adm1'' \<or> secret = []
          then (Inl (AuthenticationError ''Invalid Admin Session''), s)
          else
            (case session_get ops session_id s of
               None \<Rightarrow> (Inl (AuthenticationError ''Invalid Admin Session''), s)
             | Some record \<Rightarrow>
                 if as_verifier record \<noteq> H secret
                 then (Inl (AuthenticationError ''Invalid Admin Session''), s)
                 else if require_csrf \<and>
                   (case csrf_token of None \<Rightarrow> True | Some c \<Rightarrow> as_csrf_verifier record \<noteq> H c)
                 then (Inl (AuthenticationError ''Invalid Admin Session CSRF token''), s)
                 else if as_revoked_at record \<noteq> None \<or> as_absolute_expires_at record \<le> now
                   \<or> as_idle_expires_at record \<le> now
                 then (Inl (AuthenticationError ''Admin Session expired or revoked''), s)
                 else
                   (Inr (as_session record),
                    session_mark_used ops (as_session_id record) now
                      (min (now + IDLE_LIFETIME) (as_absolute_expires_at record)) s))
      | _ \<Rightarrow> (Inl (AuthenticationError ''Invalid Admin Session''), s))"

definition AdminSessionService_revoke ::
  "('v, 's) admin_session_ops \<Rightarrow> string \<Rightarrow> datetime \<Rightarrow> 's \<Rightarrow> bool \<times> 's" where
  "AdminSessionService_revoke ops session_id now s = session_revoke ops session_id now s"

section \<open>What authentication checks\<close>

definition csrf_ok :: "(string \<Rightarrow> 'v) \<Rightarrow> bool \<Rightarrow> string option \<Rightarrow> 'v admin_session_record \<Rightarrow> bool" where
  "csrf_ok H require_csrf csrf_token r \<longleftrightarrow>
     \<not> require_csrf \<or> (\<exists>c. csrf_token = Some c \<and> as_csrf_verifier r = H c)"

definition session_live :: "datetime \<Rightarrow> 'v admin_session_record \<Rightarrow> bool" where
  "session_live now r \<longleftrightarrow>
     as_revoked_at r = None \<and> now < as_absolute_expires_at r \<and> now < as_idle_expires_at r"

lemma admin_authenticate_Inr:
  "AdminSessionService_authenticate H ops tok csrf require_csrf now s = (Inr session, s') \<longleftrightarrow>
   (\<exists>k secret r. token_parts ''adm1'' tok = Some (k, secret) \<and> session_get ops k s = Some r \<and>
      as_verifier r = H secret \<and> csrf_ok H require_csrf csrf r \<and> session_live now r \<and>
      session = as_session r \<and>
      s' = session_mark_used ops (as_session_id r) now
             (min (now + IDLE_LIFETIME) (as_absolute_expires_at r)) s)"
  by (auto simp: AdminSessionService_authenticate_def token_parts_def csrf_ok_def session_live_def
             not_le
           split: list.splits option.splits)

lemma admin_authenticate_Inl:
  "AdminSessionService_authenticate H ops tok csrf require_csrf now s = (Inl e, s') \<Longrightarrow>
   s' = s \<and> (\<exists>m. e = AuthenticationError m)"
  by (auto simp: AdminSessionService_authenticate_def split: list.splits option.splits if_splits)

text \<open>The promise of an Admin Session store, and what the service gets from it.\<close>

locale admin_session_store =
  fixes ops :: "('v, 's) admin_session_ops"
    and lookup :: "string \<Rightarrow> 's \<Rightarrow> 'v admin_session_record option"
    and admits :: "'s \<Rightarrow> operator_session \<Rightarrow> bool"
  assumes session_get_law: "session_get ops k s =
      (case lookup k s of None \<Rightarrow> None | Some r \<Rightarrow> if admits s (as_session r) then Some r else None)"
    and session_save_law:
      "lookup k (session_save ops r s) = (if k = as_session_id r then Some r else lookup k s)"
    and session_save_admits: "admits (session_save ops r s) = admits s"
    and session_used_law: "lookup k (session_mark_used ops j t i s) =
      (if k = j then map_option (\<lambda>r. r\<lparr>as_last_used_at := Some t, as_idle_expires_at := i\<rparr>)
         (lookup k s) else lookup k s)"
    and session_revoke_law: "lookup k (snd (session_revoke ops j t s)) =
      (if k = j then map_option (\<lambda>r. if as_revoked_at r = None
         then r\<lparr>as_revoked_at := Some t\<rparr> else r) (lookup k s) else lookup k s)"
begin

lemma session_get_Some: "session_get ops k s = Some r \<longleftrightarrow> lookup k s = Some r \<and> admits s (as_session r)"
  by (auto simp: session_get_law split: option.splits)

lemma created_authenticates:
  assumes "CHR ''.'' \<notin> set uid" and "secret \<noteq> []"
    and create: "AdminSessionService_create H ops uid secret csrf session t s = (Inr c, s')"
    and "admits s (ia_session c)" and "t \<le> t'" and "t' < t + IDLE_LIFETIME"
  shows "fst (AdminSessionService_authenticate H ops (ia_session_token c) (Some csrf) True t' s') =
           Inr (ia_session c)"
proof -
  have parts: "token_parts ''adm1'' (''adm1'' @ ''.'' @ uid @ ''.'' @ secret) = Some (uid, secret)"
    using assms(1,2) by (intro token_parts_issued) auto
  have "t' < t + ABSOLUTE_LIFETIME"
    using assms(6) by (simp add: IDLE_LIFETIME_def ABSOLUTE_LIFETIME_def minutes_def hours_def)
  moreover obtain r where "session_get ops uid s' = Some r" and "as_session r = ia_session c"
    and "as_verifier r = H secret" and "as_csrf_verifier r = H csrf" and "as_revoked_at r = None"
    and "as_absolute_expires_at r = t + ABSOLUTE_LIFETIME"
    and "as_idle_expires_at r = t + IDLE_LIFETIME"
    using create assms(4)
    by (auto simp: AdminSessionService_create_def Let_def session_get_law session_save_law
          session_save_admits)
  moreover have "ia_session_token c = ''adm1'' @ ''.'' @ uid @ ''.'' @ secret"
    using create by (auto simp: AdminSessionService_create_def Let_def)
  ultimately have "\<exists>s''. AdminSessionService_authenticate H ops (ia_session_token c) (Some csrf) True t' s'
      = (Inr (ia_session c), s'')"
    using parts assms(6) by (auto simp: admin_authenticate_Inr csrf_ok_def session_live_def)
  then show ?thesis by auto
qed

text \<open>A use slides the idle expiry, but never past the absolute expiry.\<close>

lemma idle_bounded:
  assumes "AdminSessionService_authenticate H ops tok csrf require_csrf now s = (Inr session, s')"
    and "\<And>k r. lookup k s = Some r \<Longrightarrow> as_session_id r = k \<and> as_idle_expires_at r \<le> as_absolute_expires_at r"
    and "lookup k s' = Some r'"
  shows "as_session_id r' = k \<and> as_idle_expires_at r' \<le> as_absolute_expires_at r'"
proof -
  from assms(1) obtain j r where r: "lookup j s = Some r"
    and s': "s' = session_mark_used ops (as_session_id r) now
                    (min (now + IDLE_LIFETIME) (as_absolute_expires_at r)) s"
    unfolding admin_authenticate_Inr session_get_Some by blast
  from assms(2) [OF r] have j: "as_session_id r = j" by simp
  show ?thesis
  proof (cases "k = j")
    case True
    with assms(3) r j have "r' = r\<lparr>as_last_used_at := Some now,
        as_idle_expires_at := min (now + IDLE_LIFETIME) (as_absolute_expires_at r)\<rparr>"
      by (simp add: s' session_used_law)
    with j True show ?thesis by simp
  next
    case False
    with assms(3) j have "lookup k s = Some r'" by (simp add: s' session_used_law)
    then show ?thesis by (rule assms(2))
  qed
qed

end

end
