(* ===== verification/ProvisioningJobs.thy ===== *)
theory ProvisioningJobs
  imports Provisioning
begin

text \<open>
  Provisioning Jobs (\<^verbatim>\<open>operator_provisioning.py\<close>): the record the Control Store keeps of a
  request to provision a Tenant, and its construction from a manifest.
\<close>

datatype job_state =
    JOB_QUEUED
  | JOB_RUNNING
  | JOB_SUCCEEDED
  | JOB_FAILED
  | JOB_CANCEL_REQUESTED
  | JOB_CANCELED
  | JOB_CLEANUP_REQUESTED
  | JOB_CLEANED_UP

fun job_state_value :: "job_state \<Rightarrow> string" where
  "job_state_value JOB_QUEUED = ''queued''"
| "job_state_value JOB_RUNNING = ''running''"
| "job_state_value JOB_SUCCEEDED = ''succeeded''"
| "job_state_value JOB_FAILED = ''failed''"
| "job_state_value JOB_CANCEL_REQUESTED = ''cancel_requested''"
| "job_state_value JOB_CANCELED = ''canceled''"
| "job_state_value JOB_CLEANUP_REQUESTED = ''cleanup_requested''"
| "job_state_value JOB_CLEANED_UP = ''cleaned_up''"

record provisioning_job =
  jb_job_id :: string
  jb_tenant_id :: string
  jb_manifest_fingerprint :: string
  jb_manifest :: tenant_manifest
  jb_idempotency_key :: string
  jb_requested_by :: string
  jb_state :: job_state
  jb_created_at :: datetime
  jb_updated_at :: datetime
  jb_attempt :: int
  jb_completed_steps :: "provisioning_step list"
  jb_failed_step :: "provisioning_step option"
  jb_failure_code :: "string option"
  jb_claimed_by :: "string option"
  jb_claimed_at :: "datetime option"
  jb_heartbeat_at :: "datetime option"
  jb_cancel_requested_at :: "datetime option"
  jb_cleanup_requested_at :: "datetime option"
  jb_cleanup_completed_at :: "datetime option"

definition new_provisioning_job ::
  "(tenant_manifest \<Rightarrow> string) \<Rightarrow> string \<Rightarrow> tenant_manifest \<Rightarrow> string \<Rightarrow> string \<Rightarrow> datetime \<Rightarrow>
   provisioning_job" where
  "new_provisioning_job fp uid manifest idempotency_key operator_id now =
     \<lparr>jb_job_id = uid, jb_tenant_id = tm_tenant_id manifest,
      jb_manifest_fingerprint = fp manifest, jb_manifest = manifest,
      jb_idempotency_key = idempotency_key, jb_requested_by = operator_id,
      jb_state = JOB_QUEUED, jb_created_at = now, jb_updated_at = now, jb_attempt = 0,
      jb_completed_steps = [], jb_failed_step = None, jb_failure_code = None,
      jb_claimed_by = None, jb_claimed_at = None, jb_heartbeat_at = None,
      jb_cancel_requested_at = None, jb_cleanup_requested_at = None,
      jb_cleanup_completed_at = None\<rparr>"

end
