(* ===== verification/ControlStore.thy ===== *)
theory ControlStore
  imports AdminSessions ProvisioningJobs
begin

text \<open>
  The Control Store: its records and the in-memory adapter \<^verbatim>\<open>InMemoryControlStore\<close> of
  \<^verbatim>\<open>control.py\<close>, one definition \<open>mem_*\<close> per method over the record of its dictionaries.
  The adapter is what the contract tests hold the PostgreSQL adapter to.
\<close>

section \<open>Records\<close>

record tenant_record =
  tr_tenant_id :: string
  tr_name :: string
  tr_active :: bool

record principal_record =
  pr_principal_id :: string
  pr_name :: string
  pr_kind :: principal_kind
  pr_active :: bool

record operator_record =
  op_operator_id :: string
  op_name :: string
  op_roles :: "string set"
  op_active :: bool

record membership_record =
  mb_tenant_id :: string
  mb_principal_id :: string
  mb_roles :: "string set"
  mb_active :: bool

record delegation_record =
  dg_delegation_id :: string
  dg_tenant_id :: string
  dg_agent_id :: string
  dg_subject_user_id :: string
  dg_active :: bool

record channel_binding_record =
  cb_binding_id :: string
  cb_channel :: string
  cb_external_id :: string
  cb_tenant_id :: string
  cb_user_id :: string
  cb_agent_id :: string
  cb_delegation_id :: string
  cb_active :: bool

record tenant_route_record =
  rt_tenant_id :: string
  rt_neo4j_service_address :: string
  rt_neo4j_secret_name :: string
  rt_tenant_database_name :: string
  rt_tenant_database_role :: string
  rt_healthy :: bool

text \<open>Operator Audit Events (\<^verbatim>\<open>operator_audit.py\<close>).\<close>

record operator_audit_event =
  ev_event_id :: string
  ev_operator_id :: string
  ev_roles :: "string set"
  ev_action :: string
  ev_target_type :: string
  ev_target_ids :: "(string, string) dict"
  ev_outcome :: string
  ev_created_at :: datetime
  ev_request_ref :: "string option"
  ev_before_metadata :: "(string, string) dict option"
  ev_after_metadata :: "(string, string) dict option"

type_synonym 'v tenant_token = "('v, tenant_session) token_record"
type_synonym 'v operator_token = "('v, operator_session) token_record"

record 'v control_store =
  cs_operators :: "(string, operator_record) dict"
  cs_operator_tokens :: "(string, 'v operator_token) dict"
  cs_admin_sessions :: "(string, 'v admin_session_record) dict"
  cs_operator_audit_events :: "(string, operator_audit_event) dict"
  cs_provisioning_jobs :: "(string, provisioning_job) dict"
  cs_provisioning_job_keys :: "(string \<times> string, string) dict"
  cs_provisioning_manifest_keys :: "(string \<times> string, string) dict"
  cs_tenants :: "(string, tenant_record) dict"
  cs_principals :: "(string, principal_record) dict"
  cs_memberships :: "(string \<times> string, membership_record) dict"
  cs_delegations :: "(string, delegation_record) dict"
  cs_channel_bindings :: "(string \<times> string, channel_binding_record) dict"
  cs_routes :: "(string, tenant_route_record) dict"
  cs_tokens :: "(string, 'v tenant_token) dict"
  cs_token_lifetime_days :: "(string \<times> principal_kind \<times> bool, int) dict"

definition empty_control_store :: "'v control_store" where
  "empty_control_store =
     \<lparr>cs_operators = [], cs_operator_tokens = [], cs_admin_sessions = [],
      cs_operator_audit_events = [], cs_provisioning_jobs = [], cs_provisioning_job_keys = [],
      cs_provisioning_manifest_keys = [], cs_tenants = [], cs_principals = [],
      cs_memberships = [], cs_delegations = [], cs_channel_bindings = [], cs_routes = [],
      cs_tokens = [], cs_token_lifetime_days = []\<rparr>"

lemma empty_control_store_simps [simp]:
  "cs_operators empty_control_store = []" "cs_operator_tokens empty_control_store = []"
  "cs_admin_sessions empty_control_store = []" "cs_operator_audit_events empty_control_store = []"
  "cs_provisioning_jobs empty_control_store = []" "cs_provisioning_job_keys empty_control_store = []"
  "cs_provisioning_manifest_keys empty_control_store = []" "cs_tenants empty_control_store = []"
  "cs_principals empty_control_store = []" "cs_memberships empty_control_store = []"
  "cs_delegations empty_control_store = []" "cs_channel_bindings empty_control_store = []"
  "cs_routes empty_control_store = []" "cs_tokens empty_control_store = []"
  "cs_token_lifetime_days empty_control_store = []"
  by (simp_all add: empty_control_store_def)

section \<open>Operators\<close>

definition mem_add_operator ::
  "operator_record \<Rightarrow> 'v control_store \<Rightarrow> (unit, 'v control_store) outcome" where
  "mem_add_operator record s =
     (if dict_get (cs_operators s) (op_operator_id record) \<noteq> None
      then (Inl (ControlConflict ''Operator already exists''), s)
      else (Inr (), s\<lparr>cs_operators := dict_set (op_operator_id record) record (cs_operators s)\<rparr>))"

definition mem_get_operator :: "string \<Rightarrow> 'v control_store \<Rightarrow> operator_record option" where
  "mem_get_operator operator_id s = dict_get (cs_operators s) operator_id"

definition mem_list_operators :: "'v control_store \<Rightarrow> operator_record list" where
  "mem_list_operators s =
     map (\<lambda>key. the (dict_get (cs_operators s) key)) (sort (dict_keys (cs_operators s)))"

definition mem_update_operator ::
  "string \<Rightarrow> string \<Rightarrow> string set \<Rightarrow> bool \<Rightarrow> datetime \<Rightarrow> 'v control_store \<Rightarrow>
   (operator_record, 'v control_store) outcome" where
  "mem_update_operator operator_id name roles active changed_at s =
     (case dict_get (cs_operators s) operator_id of
        None \<Rightarrow> (Inl (ControlNotFound ''Operator not found''), s)
      | Some current \<Rightarrow>
          let updated = current\<lparr>op_name := name, op_roles := roles, op_active := active\<rparr>;
              s1 = s\<lparr>cs_operators := dict_set operator_id updated (cs_operators s)\<rparr>;
              s2 = (if op_roles current \<noteq> roles \<or> op_active current \<noteq> active
                    then s1\<lparr>cs_operator_tokens := dict_map (\<lambda>token.
                             if os_operator_id (tk_session token) = operator_id
                                \<and> tk_revoked_at token = None
                             then token\<lparr>tk_revoked_at := Some changed_at\<rparr> else token)
                             (cs_operator_tokens s1),
                           cs_admin_sessions := dict_map (\<lambda>session.
                             if os_operator_id (as_session session) = operator_id
                                \<and> as_revoked_at session = None
                             then session\<lparr>as_revoked_at := Some changed_at\<rparr> else session)
                             (cs_admin_sessions s1)\<rparr>
                    else s1)
          in (Inr updated, s2))"

definition mem_count_active_operator_admins :: "'v control_store \<Rightarrow> nat" where
  "mem_count_active_operator_admins s =
     length (filter (\<lambda>operator. op_active operator \<and> ''operator_admin'' \<in> op_roles operator)
       (dict_values (cs_operators s)))"

text \<open>An operator is usable when it exists, is active and has a role.\<close>

definition operator_usable :: "'v control_store \<Rightarrow> string \<Rightarrow> bool" where
  "operator_usable s operator_id =
     (case dict_get (cs_operators s) operator_id of
        None \<Rightarrow> False
      | Some operator \<Rightarrow> op_active operator \<and> op_roles operator \<noteq> {})"

section \<open>Operator tokens\<close>

definition mem_save_operator_token :: "'v operator_token \<Rightarrow> 'v control_store \<Rightarrow> 'v control_store" where
  "mem_save_operator_token record s =
     s\<lparr>cs_operator_tokens := dict_set (tk_token_id record) record (cs_operator_tokens s)\<rparr>"

definition mem_get_operator_token :: "string \<Rightarrow> 'v control_store \<Rightarrow> 'v operator_token option" where
  "mem_get_operator_token token_id s =
     (case dict_get (cs_operator_tokens s) token_id of
        None \<Rightarrow> None
      | Some record \<Rightarrow>
          if \<not> operator_usable s (os_operator_id (tk_session record)) then None else Some record)"

definition mem_revoke_operator_token ::
  "string \<Rightarrow> datetime \<Rightarrow> 'v control_store \<Rightarrow> bool \<times> 'v control_store" where
  "mem_revoke_operator_token token_id revoked_at s =
     (case dict_get (cs_operator_tokens s) token_id of
        None \<Rightarrow> (False, s)
      | Some existing \<Rightarrow>
          if tk_revoked_at existing = None
          then (True, s\<lparr>cs_operator_tokens :=
                  dict_set token_id (existing\<lparr>tk_revoked_at := Some revoked_at\<rparr>)
                    (cs_operator_tokens s)\<rparr>)
          else (True, s))"

definition mem_mark_operator_token_used ::
  "string \<Rightarrow> datetime \<Rightarrow> 'v control_store \<Rightarrow> 'v control_store" where
  "mem_mark_operator_token_used token_id used_at s =
     (case dict_get (cs_operator_tokens s) token_id of
        None \<Rightarrow> s
      | Some existing \<Rightarrow>
          s\<lparr>cs_operator_tokens :=
              dict_set token_id (existing\<lparr>tk_last_used_at := Some used_at\<rparr>) (cs_operator_tokens s)\<rparr>)"

definition mem_rotate_operator_token ::
  "string \<Rightarrow> 'v operator_token \<Rightarrow> datetime \<Rightarrow> datetime \<Rightarrow> 'v control_store \<Rightarrow>
   bool \<times> 'v control_store" where
  "mem_rotate_operator_token previous_token_id replacement previous_valid_until rotated_at s =
     (case mem_get_operator_token previous_token_id s of
        None \<Rightarrow> (False, s)
      | Some previous \<Rightarrow>
          if tk_revoked_at previous \<noteq> None \<or> tk_expires_at previous \<le> rotated_at
             \<or> dict_get (cs_operator_tokens s) (tk_token_id replacement) \<noteq> None
             \<or> os_operator_id (tk_session previous) \<noteq> os_operator_id (tk_session replacement)
          then (False, s)
          else (True, s\<lparr>cs_operator_tokens :=
                  dict_set (tk_token_id replacement) replacement
                    (dict_set previous_token_id
                       (previous\<lparr>tk_expires_at := min (tk_expires_at previous) previous_valid_until\<rparr>)
                       (cs_operator_tokens s))\<rparr>))"

definition mem_list_operator_token_records :: "string \<Rightarrow> 'v control_store \<Rightarrow> 'v operator_token list" where
  "mem_list_operator_token_records operator_id s =
     sort_key (\<lambda>record. (tk_issued_at record, tk_token_id record))
       (filter (\<lambda>record. os_operator_id (tk_session record) = operator_id)
         (dict_values (cs_operator_tokens s)))"

section \<open>Admin Sessions and audit events\<close>

definition mem_save_admin_session :: "'v admin_session_record \<Rightarrow> 'v control_store \<Rightarrow> 'v control_store" where
  "mem_save_admin_session record s =
     s\<lparr>cs_admin_sessions := dict_set (as_session_id record) record (cs_admin_sessions s)\<rparr>"

definition mem_get_admin_session :: "string \<Rightarrow> 'v control_store \<Rightarrow> 'v admin_session_record option" where
  "mem_get_admin_session session_id s =
     (case dict_get (cs_admin_sessions s) session_id of
        None \<Rightarrow> None
      | Some record \<Rightarrow>
          if \<not> operator_usable s (os_operator_id (as_session record)) then None else Some record)"

definition mem_revoke_admin_session ::
  "string \<Rightarrow> datetime \<Rightarrow> 'v control_store \<Rightarrow> bool \<times> 'v control_store" where
  "mem_revoke_admin_session session_id revoked_at s =
     (case dict_get (cs_admin_sessions s) session_id of
        None \<Rightarrow> (False, s)
      | Some existing \<Rightarrow>
          if as_revoked_at existing = None
          then (True, s\<lparr>cs_admin_sessions :=
                  dict_set session_id (existing\<lparr>as_revoked_at := Some revoked_at\<rparr>)
                    (cs_admin_sessions s)\<rparr>)
          else (True, s))"

definition mem_mark_admin_session_used ::
  "string \<Rightarrow> datetime \<Rightarrow> datetime \<Rightarrow> 'v control_store \<Rightarrow> 'v control_store" where
  "mem_mark_admin_session_used session_id used_at idle_expires_at s =
     (case dict_get (cs_admin_sessions s) session_id of
        None \<Rightarrow> s
      | Some existing \<Rightarrow>
          s\<lparr>cs_admin_sessions := dict_set session_id
              (existing\<lparr>as_last_used_at := Some used_at, as_idle_expires_at := idle_expires_at\<rparr>)
              (cs_admin_sessions s)\<rparr>)"

definition mem_save_operator_audit_event ::
  "operator_audit_event \<Rightarrow> 'v control_store \<Rightarrow> 'v control_store" where
  "mem_save_operator_audit_event event s =
     s\<lparr>cs_operator_audit_events := dict_set (ev_event_id event) event (cs_operator_audit_events s)\<rparr>"

definition mem_list_operator_audit_events ::
  "nat \<Rightarrow> 'v control_store \<Rightarrow> operator_audit_event list" where
  "mem_list_operator_audit_events limit s =
     take limit (sorted_desc (\<lambda>event. (ev_created_at event, ev_event_id event))
       (dict_values (cs_operator_audit_events s)))"

section \<open>Provisioning Jobs\<close>

text \<open>Indexing a dictionary with a missing key raises; the keys here are stored with the job.\<close>

definition job_at :: "string \<Rightarrow> 'v control_store \<Rightarrow> (provisioning_job, 'v control_store) outcome" where
  "job_at job_id s =
     (case dict_get (cs_provisioning_jobs s) job_id of
        None \<Rightarrow> (Inl KeyError, s)
      | Some job \<Rightarrow> (Inr job, s))"

definition mem_create_provisioning_job ::
  "provisioning_job \<Rightarrow> 'v control_store \<Rightarrow> (provisioning_job, 'v control_store) outcome" where
  "mem_create_provisioning_job record s =
     (let request_key = (jb_requested_by record, jb_idempotency_key record);
          manifest_key = (jb_tenant_id record, jb_manifest_fingerprint record)
      in case truthy (dict_get (cs_provisioning_job_keys s) request_key) of
           Some job_id \<Rightarrow> job_at job_id s
         | None \<Rightarrow>
             (case truthy (dict_get (cs_provisioning_manifest_keys s) manifest_key) of
                Some job_id \<Rightarrow> job_at job_id s
              | None \<Rightarrow>
                  (Inr record,
                   s\<lparr>cs_provisioning_jobs :=
                       dict_set (jb_job_id record) record (cs_provisioning_jobs s),
                     cs_provisioning_job_keys :=
                       dict_set request_key (jb_job_id record) (cs_provisioning_job_keys s),
                     cs_provisioning_manifest_keys :=
                       dict_set manifest_key (jb_job_id record) (cs_provisioning_manifest_keys s)\<rparr>)))"

definition mem_get_provisioning_job :: "string \<Rightarrow> 'v control_store \<Rightarrow> provisioning_job option" where
  "mem_get_provisioning_job job_id s = dict_get (cs_provisioning_jobs s) job_id"

definition mem_list_provisioning_jobs :: "'v control_store \<Rightarrow> provisioning_job list" where
  "mem_list_provisioning_jobs s =
     sorted_desc (\<lambda>job. (jb_created_at job, jb_job_id job)) (dict_values (cs_provisioning_jobs s))"

definition set_job :: "provisioning_job \<Rightarrow> string \<Rightarrow> 'v control_store \<Rightarrow> 'v control_store" where
  "set_job job job_id s = s\<lparr>cs_provisioning_jobs := dict_set job_id job (cs_provisioning_jobs s)\<rparr>"

definition mem_update_provisioning_job_state ::
  "string \<Rightarrow> job_state \<Rightarrow> datetime \<Rightarrow> 'v control_store \<Rightarrow>
   (provisioning_job, 'v control_store) outcome" where
  "mem_update_provisioning_job_state job_id state changed_at s =
     (case dict_get (cs_provisioning_jobs s) job_id of
        None \<Rightarrow> (Inl (ControlNotFound ''Provisioning Job not found''), s)
      | Some current \<Rightarrow>
          let queued = (state = JOB_QUEUED);
              updated = current\<lparr>
                jb_state := state,
                jb_updated_at := changed_at,
                jb_claimed_by := (if queued then None else jb_claimed_by current),
                jb_claimed_at := (if queued then None else jb_claimed_at current),
                jb_heartbeat_at := (if queued then None else jb_heartbeat_at current),
                jb_completed_steps := (if queued then [] else jb_completed_steps current),
                jb_failed_step := (if queued then None else jb_failed_step current),
                jb_failure_code := (if queued then None else jb_failure_code current),
                jb_cancel_requested_at :=
                  (if state = JOB_CANCEL_REQUESTED then Some changed_at
                   else jb_cancel_requested_at current),
                jb_cleanup_requested_at :=
                  (if state = JOB_CLEANUP_REQUESTED then Some changed_at
                   else jb_cleanup_requested_at current),
                jb_cleanup_completed_at :=
                  (if state = JOB_CLEANED_UP then Some changed_at
                   else jb_cleanup_completed_at current)\<rparr>
          in (Inr updated, set_job updated job_id s))"

definition mem_claim_next_provisioning_job ::
  "string \<Rightarrow> datetime \<Rightarrow> 'v control_store \<Rightarrow> provisioning_job option \<times> 'v control_store" where
  "mem_claim_next_provisioning_job worker_id claimed_at s =
     (case filter (\<lambda>job. jb_state job = JOB_QUEUED)
        (sort_key (\<lambda>candidate. (jb_created_at candidate, jb_job_id candidate))
          (dict_values (cs_provisioning_jobs s))) of
        [] \<Rightarrow> (None, s)
      | job # _ \<Rightarrow>
          let claimed = job\<lparr>jb_state := JOB_RUNNING, jb_attempt := jb_attempt job + 1,
                jb_claimed_by := Some worker_id, jb_claimed_at := Some claimed_at,
                jb_heartbeat_at := Some claimed_at, jb_updated_at := claimed_at\<rparr>
          in (Some claimed, set_job claimed (jb_job_id job) s))"

definition require_running_provisioning_job ::
  "string \<Rightarrow> string \<Rightarrow> 'v control_store \<Rightarrow> provisioning_job result" where
  "require_running_provisioning_job job_id worker_id s =
     (case dict_get (cs_provisioning_jobs s) job_id of
        None \<Rightarrow> Inl (ControlNotFound ''Provisioning Job not found'')
      | Some current \<Rightarrow>
          if jb_state current \<noteq> JOB_RUNNING \<or> jb_claimed_by current \<noteq> Some worker_id
          then Inl (ControlConflict ''Provisioning Job is not claimed by this worker'')
          else Inr current)"

definition mem_complete_provisioning_job ::
  "string \<Rightarrow> string \<Rightarrow> provisioning_step list \<Rightarrow> datetime \<Rightarrow> 'v control_store \<Rightarrow>
   (provisioning_job, 'v control_store) outcome" where
  "mem_complete_provisioning_job job_id worker_id completed_steps completed_at s =
     (case require_running_provisioning_job job_id worker_id s of
        Inl e \<Rightarrow> (Inl e, s)
      | Inr current \<Rightarrow>
          let completed = current\<lparr>jb_state := JOB_SUCCEEDED, jb_completed_steps := completed_steps,
                jb_failed_step := None, jb_failure_code := None, jb_updated_at := completed_at\<rparr>
          in (Inr completed, set_job completed job_id s))"

definition mem_fail_provisioning_job ::
  "string \<Rightarrow> string \<Rightarrow> provisioning_step option \<Rightarrow> string \<Rightarrow> datetime \<Rightarrow> 'v control_store \<Rightarrow>
   (provisioning_job, 'v control_store) outcome" where
  "mem_fail_provisioning_job job_id worker_id failed_step failure_code failed_at s =
     (case require_running_provisioning_job job_id worker_id s of
        Inl e \<Rightarrow> (Inl e, s)
      | Inr current \<Rightarrow>
          let failed = current\<lparr>jb_state := JOB_FAILED, jb_failed_step := failed_step,
                jb_failure_code := Some failure_code, jb_updated_at := failed_at\<rparr>
          in (Inr failed, set_job failed job_id s))"

section \<open>Tenants and Principals\<close>

definition revoke_matching_tokens ::
  "('v tenant_token \<Rightarrow> bool) \<Rightarrow> datetime \<Rightarrow> 'v control_store \<Rightarrow> 'v control_store" where
  "revoke_matching_tokens p revoked_at s =
     s\<lparr>cs_tokens := dict_map (\<lambda>record.
         if p record \<and> tk_revoked_at record = None
         then record\<lparr>tk_revoked_at := Some revoked_at\<rparr> else record) (cs_tokens s)\<rparr>"

definition mem_add_tenant ::
  "tenant_record \<Rightarrow> 'v control_store \<Rightarrow> (unit, 'v control_store) outcome" where
  "mem_add_tenant record s =
     (if dict_get (cs_tenants s) (tr_tenant_id record) \<noteq> None
      then (Inl (ControlConflict ''Tenant already exists''), s)
      else (Inr (), s\<lparr>cs_tenants := dict_set (tr_tenant_id record) record (cs_tenants s)\<rparr>))"

definition mem_get_tenant :: "string \<Rightarrow> 'v control_store \<Rightarrow> tenant_record option" where
  "mem_get_tenant tenant_id s = dict_get (cs_tenants s) tenant_id"

definition mem_list_tenants :: "'v control_store \<Rightarrow> tenant_record list" where
  "mem_list_tenants s =
     map (\<lambda>key. the (dict_get (cs_tenants s) key)) (sort (dict_keys (cs_tenants s)))"

definition mem_add_principal ::
  "principal_record \<Rightarrow> 'v control_store \<Rightarrow> (unit, 'v control_store) outcome" where
  "mem_add_principal record s =
     (if dict_get (cs_principals s) (pr_principal_id record) \<noteq> None
      then (Inl (ControlConflict ''Principal already exists''), s)
      else (Inr (), s\<lparr>cs_principals := dict_set (pr_principal_id record) record (cs_principals s)\<rparr>))"

definition mem_get_principal :: "string \<Rightarrow> 'v control_store \<Rightarrow> principal_record option" where
  "mem_get_principal principal_id s = dict_get (cs_principals s) principal_id"

definition mem_list_principals :: "'v control_store \<Rightarrow> principal_record list" where
  "mem_list_principals s =
     map (\<lambda>key. the (dict_get (cs_principals s) key)) (sort (dict_keys (cs_principals s)))"

text \<open>
  Disabling a Principal switches off its Memberships, every Delegation it takes part in and
  the Channel Bindings that rest on it or on such a Delegation, and revokes the tokens it
  acts with or is the Subject User of.
\<close>

definition mem_disable_principal ::
  "string \<Rightarrow> datetime \<Rightarrow> 'v control_store \<Rightarrow> (principal_record, 'v control_store) outcome" where
  "mem_disable_principal principal_id disabled_at s =
     (case dict_get (cs_principals s) principal_id of
        None \<Rightarrow> (Inl (ControlNotFound ''Principal not found''), s)
      | Some current \<Rightarrow>
          let disabled = current\<lparr>pr_active := False\<rparr>;
              affected = keys_where (\<lambda>delegation.
                dg_agent_id delegation = principal_id \<or> dg_subject_user_id delegation = principal_id)
                (cs_delegations s);
              s1 = s\<lparr>
                cs_principals := dict_set principal_id disabled (cs_principals s),
                cs_memberships := dict_map (\<lambda>membership.
                  if mb_principal_id membership = principal_id
                  then membership\<lparr>mb_active := False\<rparr> else membership) (cs_memberships s),
                cs_delegations := dict_map_keyed (\<lambda>delegation_id delegation.
                  if delegation_id \<in> affected
                  then delegation\<lparr>dg_active := False\<rparr> else delegation) (cs_delegations s),
                cs_channel_bindings := dict_map (\<lambda>binding.
                  if cb_agent_id binding = principal_id \<or> cb_user_id binding = principal_id
                     \<or> cb_delegation_id binding \<in> affected
                  then binding\<lparr>cb_active := False\<rparr> else binding) (cs_channel_bindings s)\<rparr>
          in (Inr disabled,
              revoke_matching_tokens (\<lambda>record.
                ts_actor_id (tk_session record) = principal_id
                \<or> ts_subject_user_id (tk_session record) = Some principal_id) disabled_at s1))"

definition mem_update_principal ::
  "string \<Rightarrow> string \<Rightarrow> bool \<Rightarrow> datetime \<Rightarrow> 'v control_store \<Rightarrow>
   (principal_record, 'v control_store) outcome" where
  "mem_update_principal principal_id name active changed_at s =
     (case dict_get (cs_principals s) principal_id of
        None \<Rightarrow> (Inl (ControlNotFound ''Principal not found''), s)
      | Some found \<Rightarrow>
          and_then (if \<not> active then mem_disable_principal principal_id changed_at s
                    else (Inr found, s))
            (\<lambda>current s1.
               let updated = current\<lparr>pr_name := name, pr_active := active\<rparr>
               in (Inr updated,
                   s1\<lparr>cs_principals := dict_set principal_id updated (cs_principals s1)\<rparr>)))"

section \<open>Memberships\<close>

definition mem_save_membership :: "membership_record \<Rightarrow> 'v control_store \<Rightarrow> 'v control_store" where
  "mem_save_membership record s =
     s\<lparr>cs_memberships :=
         dict_set (mb_tenant_id record, mb_principal_id record) record (cs_memberships s)\<rparr>"

definition mem_get_membership ::
  "string \<Rightarrow> string \<Rightarrow> 'v control_store \<Rightarrow> membership_record option" where
  "mem_get_membership tenant_id principal_id s = dict_get (cs_memberships s) (tenant_id, principal_id)"

definition mem_list_memberships :: "string \<Rightarrow> 'v control_store \<Rightarrow> membership_record list" where
  "mem_list_memberships tenant_id s =
     sort_key mb_principal_id
       (filter (\<lambda>record. mb_tenant_id record = tenant_id) (dict_values (cs_memberships s)))"

definition mem_disable_membership ::
  "string \<Rightarrow> string \<Rightarrow> datetime \<Rightarrow> 'v control_store \<Rightarrow>
   (membership_record, 'v control_store) outcome" where
  "mem_disable_membership tenant_id principal_id disabled_at s =
     (case dict_get (cs_memberships s) (tenant_id, principal_id) of
        None \<Rightarrow> (Inl (ControlNotFound ''Tenant Membership not found''), s)
      | Some current \<Rightarrow>
          let disabled = current\<lparr>mb_active := False\<rparr>;
              affected = keys_where (\<lambda>delegation. dg_tenant_id delegation = tenant_id \<and>
                (dg_agent_id delegation = principal_id \<or> dg_subject_user_id delegation = principal_id))
                (cs_delegations s);
              s1 = s\<lparr>
                cs_memberships := dict_set (tenant_id, principal_id) disabled (cs_memberships s),
                cs_delegations := dict_map_keyed (\<lambda>delegation_id delegation.
                  if delegation_id \<in> affected
                  then delegation\<lparr>dg_active := False\<rparr> else delegation) (cs_delegations s),
                cs_channel_bindings := dict_map (\<lambda>binding.
                  if cb_delegation_id binding \<in> affected
                  then binding\<lparr>cb_active := False\<rparr> else binding) (cs_channel_bindings s)\<rparr>
          in (Inr disabled,
              revoke_matching_tokens (\<lambda>record.
                ts_tenant_id (tk_session record) = tenant_id \<and>
                (ts_actor_id (tk_session record) = principal_id
                 \<or> ts_subject_user_id (tk_session record) = Some principal_id)) disabled_at s1))"

definition mem_update_membership ::
  "membership_record \<Rightarrow> datetime \<Rightarrow> 'v control_store \<Rightarrow>
   (membership_record, 'v control_store) outcome" where
  "mem_update_membership record changed_at s =
     (let key = (mb_tenant_id record, mb_principal_id record)
      in case dict_get (cs_memberships s) key of
           None \<Rightarrow> (Inl (ControlNotFound ''Tenant Membership not found''), s)
         | Some current \<Rightarrow>
             and_then
               (if \<not> mb_active record
                then and_then
                       (mem_disable_membership (mb_tenant_id record) (mb_principal_id record) changed_at s)
                       (\<lambda>disabled s1. (Inr (disabled\<lparr>mb_roles := mb_roles record\<rparr>), s1))
                else (Inr record, s))
               (\<lambda>updated s1.
                  let s2 = s1\<lparr>cs_memberships := dict_set key updated (cs_memberships s1)\<rparr>;
                      s3 = (if mb_roles updated \<noteq> mb_roles current
                               \<or> mb_active updated \<noteq> mb_active current
                            then revoke_matching_tokens (\<lambda>token.
                                   ts_tenant_id (tk_session token) = mb_tenant_id record \<and>
                                   ts_actor_id (tk_session token) = mb_principal_id record)
                                   changed_at s2
                            else s2)
                  in (Inr updated, s3)))"

definition mem_revoke_membership_role ::
  "string \<Rightarrow> string \<Rightarrow> string \<Rightarrow> datetime \<Rightarrow> 'v control_store \<Rightarrow>
   (membership_record, 'v control_store) outcome" where
  "mem_revoke_membership_role tenant_id principal_id role revoked_at s =
     (case dict_get (cs_memberships s) (tenant_id, principal_id) of
        None \<Rightarrow> (Inl (ControlNotFound ''Tenant Membership not found''), s)
      | Some current \<Rightarrow>
          if role \<notin> mb_roles current
          then (Inl (ControlNotFound ''Tenant Membership role not found''), s)
          else
            let remaining = mb_roles current - {role}
            in if remaining = {} then mem_disable_membership tenant_id principal_id revoked_at s
               else
                 let updated = current\<lparr>mb_roles := remaining\<rparr>;
                     s1 = s\<lparr>cs_memberships :=
                            dict_set (tenant_id, principal_id) updated (cs_memberships s)\<rparr>
                 in (Inr updated,
                     revoke_matching_tokens (\<lambda>record.
                       ts_tenant_id (tk_session record) = tenant_id \<and>
                       ts_actor_id (tk_session record) = principal_id) revoked_at s1))"

definition mem_list_active_human_member_ids :: "string \<Rightarrow> 'v control_store \<Rightarrow> string list" where
  "mem_list_active_human_member_ids tenant_id s =
     (case dict_get (cs_tenants s) tenant_id of
        None \<Rightarrow> []
      | Some tenant \<Rightarrow>
          if \<not> tr_active tenant then []
          else sort (map mb_principal_id (filter (\<lambda>membership.
                 mb_tenant_id membership = tenant_id \<and> mb_active membership \<and>
                 (case dict_get (cs_principals s) (mb_principal_id membership) of
                    None \<Rightarrow> False
                  | Some found \<Rightarrow> pr_active found \<and> pr_kind found = USER))
               (dict_values (cs_memberships s)))))"

section \<open>Delegations and Channel Bindings\<close>

definition mem_save_delegation ::
  "delegation_record \<Rightarrow> 'v control_store \<Rightarrow> (unit, 'v control_store) outcome" where
  "mem_save_delegation record s =
     (if dict_get (cs_delegations s) (dg_delegation_id record) \<noteq> None
      then (Inl (ControlConflict ''Delegation already exists''), s)
      else (Inr (), s\<lparr>cs_delegations := dict_set (dg_delegation_id record) record (cs_delegations s)\<rparr>))"

definition mem_get_delegation :: "string \<Rightarrow> 'v control_store \<Rightarrow> delegation_record option" where
  "mem_get_delegation delegation_id s = dict_get (cs_delegations s) delegation_id"

definition mem_list_delegations :: "string \<Rightarrow> 'v control_store \<Rightarrow> delegation_record list" where
  "mem_list_delegations tenant_id s =
     sort_key dg_delegation_id
       (filter (\<lambda>record. dg_tenant_id record = tenant_id) (dict_values (cs_delegations s)))"

definition mem_revoke_delegation ::
  "string \<Rightarrow> datetime \<Rightarrow> 'v control_store \<Rightarrow> (delegation_record, 'v control_store) outcome" where
  "mem_revoke_delegation delegation_id revoked_at s =
     (case dict_get (cs_delegations s) delegation_id of
        None \<Rightarrow> (Inl (ControlNotFound ''Delegation not found''), s)
      | Some current \<Rightarrow>
          let revoked = current\<lparr>dg_active := False\<rparr>;
              s1 = s\<lparr>
                cs_delegations := dict_set delegation_id revoked (cs_delegations s),
                cs_channel_bindings := dict_map (\<lambda>binding.
                  if cb_delegation_id binding = delegation_id
                  then binding\<lparr>cb_active := False\<rparr> else binding) (cs_channel_bindings s)\<rparr>
          in (Inr revoked,
              revoke_matching_tokens (\<lambda>record.
                ts_delegation_id (tk_session record) = Some delegation_id) revoked_at s1))"

definition mem_update_delegation_active ::
  "string \<Rightarrow> bool \<Rightarrow> datetime \<Rightarrow> 'v control_store \<Rightarrow>
   (delegation_record, 'v control_store) outcome" where
  "mem_update_delegation_active delegation_id active changed_at s =
     (case dict_get (cs_delegations s) delegation_id of
        None \<Rightarrow> (Inl (ControlNotFound ''Delegation not found''), s)
      | Some current \<Rightarrow>
          if \<not> active then mem_revoke_delegation delegation_id changed_at s
          else
            let updated = current\<lparr>dg_active := True\<rparr>
            in (Inr updated,
                s\<lparr>cs_delegations := dict_set delegation_id updated (cs_delegations s)\<rparr>))"

definition mem_save_channel_binding ::
  "channel_binding_record \<Rightarrow> 'v control_store \<Rightarrow> (unit, 'v control_store) outcome" where
  "mem_save_channel_binding record s =
     (let key = (cb_channel record, cb_external_id record)
      in if dict_get (cs_channel_bindings s) key \<noteq> None
         then (Inl (ControlConflict ''Channel Binding already exists''), s)
         else (Inr (), s\<lparr>cs_channel_bindings := dict_set key record (cs_channel_bindings s)\<rparr>))"

definition mem_get_channel_binding ::
  "string \<Rightarrow> string \<Rightarrow> 'v control_store \<Rightarrow> channel_binding_record option" where
  "mem_get_channel_binding channel external_id s =
     dict_get (cs_channel_bindings s) (channel, external_id)"

definition mem_update_channel_binding ::
  "channel_binding_record \<Rightarrow> 'v control_store \<Rightarrow> (unit, 'v control_store) outcome" where
  "mem_update_channel_binding record s =
     (let key = (cb_channel record, cb_external_id record)
      in if dict_get (cs_channel_bindings s) key = None
         then (Inl (ControlNotFound ''Channel Binding not found''), s)
         else (Inr (), s\<lparr>cs_channel_bindings := dict_set key record (cs_channel_bindings s)\<rparr>))"

definition mem_delete_channel_binding ::
  "string \<Rightarrow> string \<Rightarrow> 'v control_store \<Rightarrow> bool \<times> 'v control_store" where
  "mem_delete_channel_binding channel external_id s =
     (dict_get (cs_channel_bindings s) (channel, external_id) \<noteq> None,
      s\<lparr>cs_channel_bindings := dict_pop (channel, external_id) (cs_channel_bindings s)\<rparr>)"

section \<open>Routes and token lifetimes\<close>

definition mem_save_tenant_route :: "tenant_route_record \<Rightarrow> 'v control_store \<Rightarrow> 'v control_store" where
  "mem_save_tenant_route record s =
     s\<lparr>cs_routes := dict_set (rt_tenant_id record) record (cs_routes s)\<rparr>"

definition mem_get_tenant_route :: "string \<Rightarrow> 'v control_store \<Rightarrow> tenant_route_record option" where
  "mem_get_tenant_route tenant_id s = dict_get (cs_routes s) tenant_id"

definition mem_list_tenant_routes :: "'v control_store \<Rightarrow> tenant_route_record list" where
  "mem_list_tenant_routes s =
     map (\<lambda>key. the (dict_get (cs_routes s) key)) (sort (dict_keys (cs_routes s)))"

definition mem_configure_token_lifetime_days ::
  "string \<Rightarrow> principal_kind \<Rightarrow> int \<Rightarrow> bool \<Rightarrow> 'v control_store \<Rightarrow> 'v control_store" where
  "mem_configure_token_lifetime_days tenant_id actor_kind n delegated s =
     s\<lparr>cs_token_lifetime_days :=
         dict_set (tenant_id, actor_kind, delegated) n (cs_token_lifetime_days s)\<rparr>"

definition mem_token_lifetime_days ::
  "string \<Rightarrow> principal_kind \<Rightarrow> bool \<Rightarrow> 'v control_store \<Rightarrow> int option" where
  "mem_token_lifetime_days tenant_id actor_kind delegated s =
     dict_get (cs_token_lifetime_days s) (tenant_id, actor_kind, delegated)"

section \<open>Access Tokens\<close>

definition mem_save :: "'v tenant_token \<Rightarrow> 'v control_store \<Rightarrow> 'v control_store" where
  "mem_save record s = s\<lparr>cs_tokens := dict_set (tk_token_id record) record (cs_tokens s)\<rparr>"

text \<open>
  The conditions under which \<open>get\<close> returns a stored token: its Tenant, its Principal and
  their Membership are active, and so is the Delegation it is bound to.
\<close>

definition session_admitted :: "'v control_store \<Rightarrow> tenant_session \<Rightarrow> bool" where
  "session_admitted s session =
     ((case dict_get (cs_tenants s) (ts_tenant_id session) of
         None \<Rightarrow> False | Some tenant \<Rightarrow> tr_active tenant) \<and>
      (case dict_get (cs_principals s) (ts_actor_id session) of
         None \<Rightarrow> False | Some found \<Rightarrow> pr_active found) \<and>
      (case dict_get (cs_memberships s) (ts_tenant_id session, ts_actor_id session) of
         None \<Rightarrow> False | Some membership \<Rightarrow> mb_active membership) \<and>
      (case ts_delegation_id session of
         None \<Rightarrow> True
       | Some delegation_id \<Rightarrow>
           (case dict_get (cs_delegations s) delegation_id of
              None \<Rightarrow> False | Some delegation \<Rightarrow> dg_active delegation)))"

definition mem_get :: "string \<Rightarrow> 'v control_store \<Rightarrow> 'v tenant_token option" where
  "mem_get token_id s =
     (case dict_get (cs_tokens s) token_id of
        None \<Rightarrow> None
      | Some record \<Rightarrow> if \<not> session_admitted s (tk_session record) then None else Some record)"

definition mem_revoke :: "string \<Rightarrow> datetime \<Rightarrow> 'v control_store \<Rightarrow> bool \<times> 'v control_store" where
  "mem_revoke token_id revoked_at s =
     (case dict_get (cs_tokens s) token_id of
        None \<Rightarrow> (False, s)
      | Some existing \<Rightarrow>
          if tk_revoked_at existing = None
          then (True, s\<lparr>cs_tokens :=
                  dict_set token_id (existing\<lparr>tk_revoked_at := Some revoked_at\<rparr>) (cs_tokens s)\<rparr>)
          else (True, s))"

definition mem_mark_used :: "string \<Rightarrow> datetime \<Rightarrow> 'v control_store \<Rightarrow> 'v control_store" where
  "mem_mark_used token_id used_at s =
     (case dict_get (cs_tokens s) token_id of
        None \<Rightarrow> s
      | Some existing \<Rightarrow>
          s\<lparr>cs_tokens := dict_set token_id (existing\<lparr>tk_last_used_at := Some used_at\<rparr>) (cs_tokens s)\<rparr>)"

definition mem_list_token_records ::
  "string \<Rightarrow> string \<Rightarrow> 'v control_store \<Rightarrow> 'v tenant_token list" where
  "mem_list_token_records tenant_id principal_id s =
     filter (\<lambda>record. ts_tenant_id (tk_session record) = tenant_id \<and>
               ts_actor_id (tk_session record) = principal_id) (dict_values (cs_tokens s))"

definition mem_rotate ::
  "string \<Rightarrow> 'v tenant_token \<Rightarrow> datetime \<Rightarrow> datetime \<Rightarrow> 'v control_store \<Rightarrow>
   bool \<times> 'v control_store" where
  "mem_rotate previous_token_id replacement previous_valid_until rotated_at s =
     (case mem_get previous_token_id s of
        None \<Rightarrow> (False, s)
      | Some previous \<Rightarrow>
          if tk_revoked_at previous \<noteq> None \<or> tk_expires_at previous \<le> rotated_at
             \<or> dict_get (cs_tokens s) (tk_token_id replacement) \<noteq> None
          then (False, s)
          else (True, s\<lparr>cs_tokens :=
                  dict_set (tk_token_id replacement) replacement
                    (dict_set previous_token_id
                       (previous\<lparr>tk_expires_at := min (tk_expires_at previous) previous_valid_until\<rparr>)
                       (cs_tokens s))\<rparr>))"

section \<open>The adapter provides the store interfaces of the services\<close>

definition access_token_ops :: "('v, tenant_session, 'v control_store) token_store_ops" where
  "access_token_ops =
     \<lparr>store_save = mem_save, store_get = mem_get, store_revoke = mem_revoke,
      store_mark_used = mem_mark_used, store_rotate = mem_rotate\<rparr>"

definition operator_token_ops :: "('v, operator_session, 'v control_store) token_store_ops" where
  "operator_token_ops =
     \<lparr>store_save = mem_save_operator_token, store_get = mem_get_operator_token,
      store_revoke = mem_revoke_operator_token, store_mark_used = mem_mark_operator_token_used,
      store_rotate = mem_rotate_operator_token\<rparr>"

definition admin_session_ops_of_store :: "('v, 'v control_store) admin_session_ops" where
  "admin_session_ops_of_store =
     \<lparr>session_save = mem_save_admin_session, session_get = mem_get_admin_session,
      session_revoke = mem_revoke_admin_session, session_mark_used = mem_mark_admin_session_used\<rparr>"

abbreviation token_at :: "string \<Rightarrow> 'v control_store \<Rightarrow> 'v tenant_token option" where
  "token_at k s \<equiv> dict_get (cs_tokens s) k"

abbreviation operator_token_at :: "string \<Rightarrow> 'v control_store \<Rightarrow> 'v operator_token option" where
  "operator_token_at k s \<equiv> dict_get (cs_operator_tokens s) k"

abbreviation admin_session_at :: "string \<Rightarrow> 'v control_store \<Rightarrow> 'v admin_session_record option" where
  "admin_session_at k s \<equiv> dict_get (cs_admin_sessions s) k"

lemmas access_token_op_defs =
  access_token_ops_def mem_save_def mem_get_def mem_revoke_def mem_mark_used_def mem_rotate_def

lemmas operator_token_op_defs =
  operator_token_ops_def mem_save_operator_token_def mem_get_operator_token_def
  mem_revoke_operator_token_def mem_mark_operator_token_used_def mem_rotate_operator_token_def

lemma session_admitted_tokens [simp]:
  "session_admitted (s\<lparr>cs_tokens := d\<rparr>) = session_admitted s"
  by (simp add: session_admitted_def fun_eq_iff cong: option.case_cong)

lemma operator_usable_tokens [simp]:
  "operator_usable (s\<lparr>cs_operator_tokens := d\<rparr>) = operator_usable s"
  "operator_usable (s\<lparr>cs_admin_sessions := e\<rparr>) = operator_usable s"
  by (simp_all add: operator_usable_def fun_eq_iff)

interpretation access_tokens: token_store access_token_ops token_at session_admitted
  "\<lambda>s. token_keys (cs_tokens s)"
proof unfold_locales
  fix j v t s s' and r :: "'v tenant_token"
  show "store_rotate access_token_ops j r v t s = (False, s') \<Longrightarrow> s' = s"
    by (auto simp: access_token_op_defs split: option.splits if_splits)
qed (auto simp: access_token_op_defs token_live_def dict_get_set
       intro!: token_keys_set dest: token_keysD split: option.splits if_splits)

interpretation operator_tokens: token_store operator_token_ops operator_token_at
  "\<lambda>s session. operator_usable s (os_operator_id session)"
  "\<lambda>s. token_keys (cs_operator_tokens s)"
proof unfold_locales
  fix j v t s s' and r :: "'v operator_token"
  show "store_rotate operator_token_ops j r v t s = (False, s') \<Longrightarrow> s' = s"
    by (auto simp: operator_token_op_defs split: option.splits if_splits)
qed (auto simp: operator_token_op_defs token_live_def dict_get_set
       intro!: token_keys_set dest: token_keysD split: option.splits if_splits)

interpretation admin_sessions: admin_session_store admin_session_ops_of_store admin_session_at
  "\<lambda>s session. operator_usable s (os_operator_id session)"
  by unfold_locales
    (auto simp: admin_session_ops_of_store_def mem_save_admin_session_def mem_get_admin_session_def
       mem_revoke_admin_session_def mem_mark_admin_session_used_def dict_get_set
     split: option.splits if_splits)

end
