(* ===== verification/ControlModule.thy ===== *)
theory ControlModule
  imports ControlStore
begin

text \<open>
  The control plane, \<^verbatim>\<open>ControlModule\<close> of \<^verbatim>\<open>control.py\<close>, over the in-memory Control Store,
  with \<^verbatim>\<open>create_operator_audit_event\<close> of \<^verbatim>\<open>operator_audit.py\<close>. One definition per method, by
  the method's name. Keyword arguments that default to \<^verbatim>\<open>None\<close> are options. Where a method
  reads the clock or draws an identifier, the value drawn is an argument.
\<close>

section \<open>Constants and helpers\<close>

definition UNUSED_TOKEN_AGE :: timedelta where "UNUSED_TOKEN_AGE = days 30"
definition OPERATOR_TOKEN_LIFETIME :: timedelta where "OPERATOR_TOKEN_LIFETIME = days 30"

text \<open>\<^verbatim>\<open>x is not None and p(x)\<close>\<close>

definition present_and :: "('a \<Rightarrow> bool) \<Rightarrow> 'a option \<Rightarrow> bool" where
  "present_and p x = (case x of None \<Rightarrow> False | Some v \<Rightarrow> p v)"

text \<open>\<^verbatim>\<open>y if x is None else x\<close>\<close>

definition if_None :: "'a \<Rightarrow> 'a option \<Rightarrow> 'a" where
  "if_None y x = (case x of None \<Rightarrow> y | Some v \<Rightarrow> v)"

lemma present_and_iff: "present_and p x \<longleftrightarrow> (\<exists>v. x = Some v \<and> p v)"
  by (cases x) (simp_all add: present_and_def)

lemma present_and_simps [simp]: "\<not> present_and p None" "present_and p (Some v) = p v"
  by (simp_all add: present_and_def)

lemma if_None_simps [simp]: "if_None y None = y" "if_None y (Some v) = v"
  by (simp_all add: if_None_def)

definition is_token_unused_for_30_days :: "('v, 'ses) token_record \<Rightarrow> datetime \<Rightarrow> bool" where
  "is_token_unused_for_30_days record now =
     (let last_activity = if_None (tk_issued_at record) (tk_last_used_at record)
      in tk_revoked_at record = None \<and> now < tk_expires_at record
         \<and> last_activity \<le> now - UNUSED_TOKEN_AGE)"

definition validate_operator_roles :: "string set \<Rightarrow> unit result" where
  "validate_operator_roles roles =
     (let unknown_roles = roles - VALID_OPERATOR_ROLES
      in if unknown_roles \<noteq> {}
         then Inl (ValueError (''Unknown Operator Roles: '' @ sorted_roles unknown_roles))
         else Inr ())"

section \<open>Operators\<close>

definition create_operator ::
  "string \<Rightarrow> string \<Rightarrow> string set \<Rightarrow> 'v control_store \<Rightarrow> (operator_record, 'v control_store) outcome"
where
  "create_operator operator_id name roles s =
     (let normalized_name = py_strip name;
          record = \<lparr>op_operator_id = operator_id, op_name = normalized_name, op_roles = roles,
                    op_active = True\<rparr>
      in if normalized_name = [] then (Inl (ValueError ''Operator name cannot be empty''), s)
         else and_then (validate_operator_roles roles, s) (\<lambda>_ s1.
              and_then (mem_add_operator record s1) (\<lambda>_ s2. (Inr record, s2))))"

definition inspect_operator :: "string \<Rightarrow> 'v control_store \<Rightarrow> operator_record result" where
  "inspect_operator operator_id s =
     (case mem_get_operator operator_id s of
        None \<Rightarrow> Inl (ControlNotFound ''Operator not found'')
      | Some record \<Rightarrow> Inr record)"

definition list_operators :: "'v control_store \<Rightarrow> operator_record list" where
  "list_operators s = mem_list_operators s"

definition update_operator ::
  "string \<Rightarrow> string option \<Rightarrow> string set option \<Rightarrow> bool option \<Rightarrow> datetime \<Rightarrow> 'v control_store \<Rightarrow>
   (operator_record, 'v control_store) outcome" where
  "update_operator operator_id name roles active now s =
     and_then (inspect_operator operator_id s, s) (\<lambda>current s1.
       if name = None \<and> roles = None \<and> active = None
       then (Inl (ValueError ''Operator update requires a name, roles, or active state''), s1)
       else
         let normalized_name = (case name of None \<Rightarrow> op_name current | Some n \<Rightarrow> py_strip n);
             selected_roles = if_None (op_roles current) roles;
             selected_active = if_None (op_active current) active;
             removing_final_admin =
               op_active current \<and> ''operator_admin'' \<in> op_roles current
               \<and> (\<not> selected_active \<or> ''operator_admin'' \<notin> selected_roles)
               \<and> mem_count_active_operator_admins s1 \<le> 1
         in if normalized_name = [] then (Inl (ValueError ''Operator name cannot be empty''), s1)
            else and_then (validate_operator_roles selected_roles, s1) (\<lambda>_ s2.
              if removing_final_admin
              then (Inl (ValueError ''Cannot remove the final active operator_admin''), s2)
              else mem_update_operator operator_id normalized_name selected_roles selected_active
                     now s2))"

definition issue_operator_access_token ::
  "(string \<Rightarrow> 'v) \<Rightarrow> string \<Rightarrow> string \<Rightarrow> string \<Rightarrow> timedelta option \<Rightarrow> datetime \<Rightarrow> 'v control_store \<Rightarrow>
   (issued_credential, 'v control_store) outcome" where
  "issue_operator_access_token H uid secret operator_id lifetime now s =
     and_then (inspect_operator operator_id s, s) (\<lambda>operator s1.
       let requested_lifetime = if_None OPERATOR_TOKEN_LIFETIME lifetime
       in if \<not> op_active operator then (Inl (ControlNotFound ''Active Operator not found''), s1)
          else if op_roles operator = {}
          then (Inl (PermissionError ''Operator Access Token requires at least one Operator Role''), s1)
          else if requested_lifetime \<le> 0 \<or> requested_lifetime > OPERATOR_TOKEN_LIFETIME
          then (Inl (ValueError ''Operator Access Token lifetime exceeds the platform maximum''), s1)
          else OperatorTokenService_issue H operator_token_ops uid secret
                 \<lparr>os_operator_id = op_operator_id operator, os_roles = op_roles operator,
                  os_token_id = None, os_session_id = None\<rparr> requested_lifetime now s1)"

definition authenticate_operator ::
  "(string \<Rightarrow> 'v) \<Rightarrow> string \<Rightarrow> datetime \<Rightarrow> 'v control_store \<Rightarrow>
   (operator_session, 'v control_store) outcome" where
  "authenticate_operator H access_token now s =
     and_then (OperatorTokenService_authenticate H operator_token_ops access_token now s) (\<lambda>session s1.
     and_then (inspect_operator (os_operator_id session) s1, s1) (\<lambda>operator s2.
       if \<not> op_active operator \<or> op_roles operator = {}
       then (Inl (AuthenticationError ''Active Operator with roles not found''), s2)
       else (Inr \<lparr>os_operator_id = op_operator_id operator, os_roles = op_roles operator,
                  os_token_id = os_token_id session, os_session_id = None\<rparr>, s2)))"

definition revoke_operator_access_token ::
  "string \<Rightarrow> datetime \<Rightarrow> 'v control_store \<Rightarrow> bool \<times> 'v control_store" where
  "revoke_operator_access_token token_id now s =
     OperatorTokenService_revoke operator_token_ops token_id now s"

definition rotate_operator_access_token ::
  "(string \<Rightarrow> 'v) \<Rightarrow> string \<Rightarrow> string \<Rightarrow> string \<Rightarrow> timedelta \<Rightarrow> timedelta option \<Rightarrow> datetime \<Rightarrow>
   'v control_store \<Rightarrow> (rotated_credential, 'v control_store) outcome" where
  "rotate_operator_access_token H uid secret token_id overlap lifetime now s =
     (if overlap \<le> 0 \<or> overlap > hours 24
      then (Inl (ValueError
             ''Operator token rotation overlap must be between 1 second and 24 hours''), s)
      else case mem_get_operator_token token_id s of
        None \<Rightarrow> (Inl (ControlNotFound ''Active Operator Access Token not found''), s)
      | Some previous \<Rightarrow>
          if tk_revoked_at previous \<noteq> None \<or> tk_expires_at previous \<le> now
          then (Inl (ControlNotFound ''Active Operator Access Token not found''), s)
          else and_then (inspect_operator (os_operator_id (tk_session previous)) s, s) (\<lambda>operator s1.
            let requested_lifetime = if_None OPERATOR_TOKEN_LIFETIME lifetime;
                bounded_overlap = min overlap (tk_expires_at previous - now)
            in if \<not> op_active operator \<or> op_roles operator = {}
               then (Inl (ControlNotFound ''Active Operator not found''), s1)
               else if requested_lifetime \<le> 0 \<or> requested_lifetime > OPERATOR_TOKEN_LIFETIME
               then (Inl (ValueError ''Replacement Operator Access Token lifetime exceeds maximum''), s1)
               else OperatorTokenService_rotate H operator_token_ops uid secret token_id
                      \<lparr>os_operator_id = op_operator_id operator, os_roles = op_roles operator,
                       os_token_id = None, os_session_id = None\<rparr>
                      requested_lifetime bounded_overlap now s1))"

definition list_operator_tokens :: "string \<Rightarrow> 'v control_store \<Rightarrow> 'v operator_token list result" where
  "list_operator_tokens operator_id s =
     (if mem_get_operator operator_id s = None then Inl (ControlNotFound ''Operator not found'')
      else Inr (mem_list_operator_token_records operator_id s))"

section \<open>Admin Sessions and audit events\<close>

definition create_admin_session ::
  "(string \<Rightarrow> 'v) \<Rightarrow> string \<Rightarrow> string \<Rightarrow> string \<Rightarrow> string \<Rightarrow> datetime \<Rightarrow> datetime \<Rightarrow> 'v control_store \<Rightarrow>
   (issued_admin_session, 'v control_store) outcome" where
  "create_admin_session H uid secret csrf_token access_token checked_at created_at s =
     and_then (OperatorTokenService_authenticate H operator_token_ops access_token checked_at s)
       (\<lambda>session s1.
     and_then (inspect_operator (os_operator_id session) s1, s1) (\<lambda>operator s2.
       if \<not> op_active operator \<or> op_roles operator = {}
       then (Inl (AuthenticationError ''Active Operator with roles not found''), s2)
       else AdminSessionService_create H admin_session_ops_of_store uid secret csrf_token
              \<lparr>os_operator_id = op_operator_id operator, os_roles = op_roles operator,
               os_token_id = os_token_id session, os_session_id = None\<rparr> created_at s2))"

definition authenticate_admin_session ::
  "(string \<Rightarrow> 'v) \<Rightarrow> string \<Rightarrow> string option \<Rightarrow> bool \<Rightarrow> datetime \<Rightarrow> 'v control_store \<Rightarrow>
   (operator_session, 'v control_store) outcome" where
  "authenticate_admin_session H session_token csrf_token require_csrf now s =
     and_then (AdminSessionService_authenticate H admin_session_ops_of_store session_token
                 csrf_token require_csrf now s) (\<lambda>session s1.
     and_then (inspect_operator (os_operator_id session) s1, s1) (\<lambda>operator s2.
       if \<not> op_active operator \<or> op_roles operator = {}
       then (Inl (AuthenticationError ''Active Operator with roles not found''), s2)
       else (Inr \<lparr>os_operator_id = op_operator_id operator, os_roles = op_roles operator,
                  os_token_id = os_token_id session, os_session_id = os_session_id session\<rparr>, s2)))"

definition revoke_admin_session ::
  "string \<Rightarrow> datetime \<Rightarrow> 'v control_store \<Rightarrow> bool \<times> 'v control_store" where
  "revoke_admin_session session_id now s =
     AdminSessionService_revoke admin_session_ops_of_store session_id now s"

definition create_operator_audit_event ::
  "string \<Rightarrow> operator_session \<Rightarrow> string \<Rightarrow> string \<Rightarrow> (string, string) dict \<Rightarrow> string \<Rightarrow>
   string option \<Rightarrow> (string, string) dict option \<Rightarrow> (string, string) dict option \<Rightarrow> datetime \<Rightarrow>
   operator_audit_event" where
  "create_operator_audit_event uid session action target_type target_ids result_of request_ref
     before_metadata after_metadata now =
     \<lparr>ev_event_id = uid, ev_operator_id = os_operator_id session, ev_roles = os_roles session,
      ev_action = action, ev_target_type = target_type, ev_target_ids = target_ids,
      ev_outcome = result_of, ev_created_at = now, ev_request_ref = request_ref,
      ev_before_metadata = before_metadata, ev_after_metadata = after_metadata\<rparr>"

definition record_operator_audit_event ::
  "string \<Rightarrow> operator_session \<Rightarrow> string \<Rightarrow> string \<Rightarrow> (string, string) dict \<Rightarrow> string \<Rightarrow>
   string option \<Rightarrow> (string, string) dict option \<Rightarrow> (string, string) dict option \<Rightarrow> datetime \<Rightarrow>
   'v control_store \<Rightarrow> operator_audit_event \<times> 'v control_store" where
  "record_operator_audit_event uid session action target_type target_ids result_of request_ref
     before_metadata after_metadata now s =
     (let event = create_operator_audit_event uid session action target_type target_ids result_of
                    request_ref before_metadata after_metadata now
      in (event, mem_save_operator_audit_event event s))"

definition list_operator_audit_events ::
  "int \<Rightarrow> 'v control_store \<Rightarrow> operator_audit_event list result" where
  "list_operator_audit_events limit s =
     (if limit < 1 \<or> limit > 500
      then Inl (ValueError ''Operator Audit Event limit must be between 1 and 500'')
      else Inr (mem_list_operator_audit_events (nat limit) s))"

section \<open>Provisioning Jobs\<close>

text \<open>The two entries every job event names.\<close>

definition job_target_ids :: "provisioning_job \<Rightarrow> (string, string) dict" where
  "job_target_ids job = [(''job_id'', jb_job_id job), (''tenant_id'', jb_tenant_id job)]"

definition create_provisioning_job ::
  "(tenant_manifest \<Rightarrow> string) \<Rightarrow> string \<Rightarrow> string \<Rightarrow> operator_session \<Rightarrow> tenant_manifest \<Rightarrow> string \<Rightarrow>
   datetime \<Rightarrow> datetime \<Rightarrow> 'v control_store \<Rightarrow> (provisioning_job, 'v control_store) outcome" where
  "create_provisioning_job fp job_uid event_uid session manifest idempotency_key now audited_at s =
     (if py_strip idempotency_key = []
      then (Inl (ValueError ''Provisioning Job idempotency key cannot be empty''), s)
      else and_then
        (mem_create_provisioning_job
          (new_provisioning_job fp job_uid manifest idempotency_key (os_operator_id session) now) s)
        (\<lambda>job s1. (Inr job, snd (record_operator_audit_event event_uid session
           ''provisioning_job.create'' ''provisioning_job'' (job_target_ids job) ''succeeded''
           None None None audited_at s1))))"

definition list_provisioning_jobs :: "'v control_store \<Rightarrow> provisioning_job list" where
  "list_provisioning_jobs s = mem_list_provisioning_jobs s"

definition cancel_provisioning_job ::
  "string \<Rightarrow> operator_session \<Rightarrow> string \<Rightarrow> datetime \<Rightarrow> datetime \<Rightarrow> 'v control_store \<Rightarrow>
   (provisioning_job, 'v control_store) outcome" where
  "cancel_provisioning_job event_uid session job_id now audited_at s =
     (case mem_get_provisioning_job job_id s of
        None \<Rightarrow> (Inl (ControlNotFound ''Provisioning Job not found''), s)
      | Some job \<Rightarrow>
          if jb_state job \<notin> {JOB_QUEUED, JOB_RUNNING}
          then (Inl (ValueError ''Only queued or running Provisioning Jobs can be canceled''), s)
          else and_then (mem_update_provisioning_job_state job_id JOB_CANCEL_REQUESTED now s)
            (\<lambda>updated s1. (Inr updated, snd (record_operator_audit_event event_uid session
               ''provisioning_job.cancel_requested'' ''provisioning_job'' (job_target_ids updated)
               ''succeeded'' None None None audited_at s1))))"

definition retry_provisioning_job ::
  "string \<Rightarrow> operator_session \<Rightarrow> string \<Rightarrow> datetime \<Rightarrow> datetime \<Rightarrow> 'v control_store \<Rightarrow>
   (provisioning_job, 'v control_store) outcome" where
  "retry_provisioning_job event_uid session job_id now audited_at s =
     (case mem_get_provisioning_job job_id s of
        None \<Rightarrow> (Inl (ControlNotFound ''Provisioning Job not found''), s)
      | Some job \<Rightarrow>
          if jb_state job \<notin> {JOB_FAILED, JOB_CANCELED, JOB_CANCEL_REQUESTED}
          then (Inl (ValueError ''Only failed or canceled Provisioning Jobs can be retried''), s)
          else and_then (mem_update_provisioning_job_state job_id JOB_QUEUED now s)
            (\<lambda>updated s1. (Inr updated, snd (record_operator_audit_event event_uid session
               ''provisioning_job.retry'' ''provisioning_job'' (job_target_ids updated)
               ''succeeded'' None None
               (Some [(''next_state'', job_state_value (jb_state updated))]) audited_at s1))))"

definition request_provisioning_cleanup ::
  "string \<Rightarrow> operator_session \<Rightarrow> string \<Rightarrow> string \<Rightarrow> datetime \<Rightarrow> datetime \<Rightarrow> 'v control_store \<Rightarrow>
   (provisioning_job, 'v control_store) outcome" where
  "request_provisioning_cleanup event_uid session job_id confirmation now audited_at s =
     (case mem_get_provisioning_job job_id s of
        None \<Rightarrow> (Inl (ControlNotFound ''Provisioning Job not found''), s)
      | Some job \<Rightarrow>
          let expected_confirmation = ''cleanup '' @ jb_tenant_id job
          in if confirmation \<noteq> expected_confirmation
             then (Inl (ValueError (''Provisioning Cleanup confirmation must be exactly '' @ [CHR 0x27]
                    @ expected_confirmation @ [CHR 0x27])), s)
             else if jb_state job \<notin> {JOB_FAILED, JOB_CANCELED, JOB_CANCEL_REQUESTED}
             then (Inl (ValueError
                    ''Only failed or canceled Provisioning Jobs can request cleanup''), s)
             else if present_and tr_active (mem_get_tenant (jb_tenant_id job) s)
             then (Inl (ValueError
                    ''Active Tenants must use Tenant decommissioning, not cleanup''), s)
             else and_then (mem_update_provisioning_job_state job_id JOB_CLEANUP_REQUESTED now s)
               (\<lambda>updated s1. (Inr updated, snd (record_operator_audit_event event_uid session
                  ''provisioning_job.cleanup_requested'' ''provisioning_job''
                  (job_target_ids updated) ''succeeded'' None None None audited_at s1))))"

section \<open>Tenants and Principals\<close>

definition create_tenant ::
  "string \<Rightarrow> string \<Rightarrow> 'v control_store \<Rightarrow> (tenant_record, 'v control_store) outcome" where
  "create_tenant tenant_id name s =
     (let record = \<lparr>tr_tenant_id = tenant_id, tr_name = name, tr_active = True\<rparr>
      in and_then (mem_add_tenant record s) (\<lambda>_ s1. (Inr record, s1)))"

definition list_tenants :: "'v control_store \<Rightarrow> tenant_record list" where
  "list_tenants s = mem_list_tenants s"

text \<open>\<^verbatim>\<open>PrincipalKind(kind)\<close>\<close>

definition PrincipalKind :: "string \<Rightarrow> principal_kind result" where
  "PrincipalKind kind =
     (if kind = ''user'' then Inr USER
      else if kind = ''agent'' then Inr AGENT
      else Inl (ValueError ([CHR 0x27] @ kind @ [CHR 0x27] @ '' is not a valid PrincipalKind'')))"

definition create_principal ::
  "string \<Rightarrow> string \<Rightarrow> string \<Rightarrow> 'v control_store \<Rightarrow> (principal_record, 'v control_store) outcome" where
  "create_principal principal_id name kind s =
     and_then (PrincipalKind kind, s) (\<lambda>k s1.
       let record = \<lparr>pr_principal_id = principal_id, pr_name = name, pr_kind = k, pr_active = True\<rparr>
       in and_then (mem_add_principal record s1) (\<lambda>_ s2. (Inr record, s2)))"

definition inspect_principal :: "string \<Rightarrow> 'v control_store \<Rightarrow> principal_record result" where
  "inspect_principal principal_id s =
     (case mem_get_principal principal_id s of
        None \<Rightarrow> Inl (ControlNotFound ''Principal not found'')
      | Some record \<Rightarrow> Inr record)"

definition list_principals :: "'v control_store \<Rightarrow> principal_record list" where
  "list_principals s = mem_list_principals s"

definition update_principal ::
  "string \<Rightarrow> string option \<Rightarrow> bool option \<Rightarrow> datetime \<Rightarrow> 'v control_store \<Rightarrow>
   (principal_record, 'v control_store) outcome" where
  "update_principal principal_id name active now s =
     and_then (inspect_principal principal_id s, s) (\<lambda>current s1.
       if name = None \<and> active = None
       then (Inl (ValueError ''Principal update requires a name or active state''), s1)
       else
         let normalized_name = (case name of None \<Rightarrow> pr_name current | Some n \<Rightarrow> py_strip n)
         in if normalized_name = [] then (Inl (ValueError ''Principal name cannot be empty''), s1)
            else mem_update_principal principal_id normalized_name
                   (if_None (pr_active current) active) now s1)"

definition disable_principal ::
  "string \<Rightarrow> datetime \<Rightarrow> 'v control_store \<Rightarrow> (principal_record, 'v control_store) outcome" where
  "disable_principal principal_id now s = mem_disable_principal principal_id now s"

section \<open>Memberships\<close>

definition grant_membership ::
  "string \<Rightarrow> string \<Rightarrow> string \<Rightarrow> 'v control_store \<Rightarrow> (membership_record, 'v control_store) outcome"
where
  "grant_membership tenant_id principal_id role s =
     (if role \<notin> VALID_ROLES then (Inl (ValueError (''Unknown role: '' @ role)), s)
      else if \<not> present_and tr_active (mem_get_tenant tenant_id s)
      then (Inl (ControlNotFound ''Active Tenant not found''), s)
      else if \<not> present_and pr_active (mem_get_principal principal_id s)
      then (Inl (ControlNotFound ''Active Principal not found''), s)
      else if present_and (\<lambda>p. pr_kind p = AGENT) (mem_get_principal principal_id s)
              \<and> role \<noteq> ''tenant_member''
      then (Inl (ValueError ''Administrative and Curator roles require a human User''), s)
      else
        let roles = (case mem_get_membership tenant_id principal_id s of
                       None \<Rightarrow> {role} | Some existing \<Rightarrow> insert role (mb_roles existing));
            membership = \<lparr>mb_tenant_id = tenant_id, mb_principal_id = principal_id,
                          mb_roles = roles, mb_active = True\<rparr>
        in (Inr membership, mem_save_membership membership s))"

definition inspect_membership ::
  "string \<Rightarrow> string \<Rightarrow> 'v control_store \<Rightarrow> membership_record result" where
  "inspect_membership tenant_id principal_id s =
     (case mem_get_membership tenant_id principal_id s of
        None \<Rightarrow> Inl (ControlNotFound ''Tenant Membership not found'')
      | Some membership \<Rightarrow> Inr membership)"

definition list_memberships :: "string \<Rightarrow> 'v control_store \<Rightarrow> membership_record list result" where
  "list_memberships tenant_id s =
     (if mem_get_tenant tenant_id s = None then Inl (ControlNotFound ''Tenant not found'')
      else Inr (mem_list_memberships tenant_id s))"

definition update_membership ::
  "string \<Rightarrow> string \<Rightarrow> string set option \<Rightarrow> bool option \<Rightarrow> datetime \<Rightarrow> 'v control_store \<Rightarrow>
   (membership_record, 'v control_store) outcome" where
  "update_membership tenant_id principal_id roles active now s =
     and_then (inspect_membership tenant_id principal_id s, s) (\<lambda>current s1.
       let selected_roles = if_None (mb_roles current) roles;
           unknown_roles = selected_roles - VALID_ROLES;
           selected_active = if_None (mb_active current) active
       in if roles = None \<and> active = None
          then (Inl (ValueError ''Tenant Membership update requires roles or active state''), s1)
          else if selected_roles = {}
          then (Inl (ValueError ''Tenant Membership must retain at least one role''), s1)
          else if unknown_roles \<noteq> {}
          then (Inl (ValueError (''Unknown roles: '' @ sorted_roles unknown_roles)), s1)
          else case mem_get_principal principal_id s1 of
            None \<Rightarrow> (Inl (ControlNotFound ''Principal not found''), s1)
          | Some found \<Rightarrow>
              if pr_kind found = AGENT \<and> selected_roles \<noteq> {''tenant_member''}
              then (Inl (ValueError ''Agents may only have the tenant_member role''), s1)
              else if selected_active \<and> \<not> present_and tr_active (mem_get_tenant tenant_id s1)
              then (Inl (ControlNotFound ''Active Tenant not found''), s1)
              else if selected_active \<and> \<not> pr_active found
              then (Inl (ControlNotFound ''Active Principal not found''), s1)
              else mem_update_membership
                     (current\<lparr>mb_roles := selected_roles, mb_active := selected_active\<rparr>) now s1)"

definition permits_self_approval :: "string \<Rightarrow> string \<Rightarrow> 'v control_store \<Rightarrow> bool" where
  "permits_self_approval tenant_id principal_id s =
     (case mem_get_membership tenant_id principal_id s of
        None \<Rightarrow> False
      | Some membership \<Rightarrow>
          if ''tenant_administrator'' \<notin> mb_roles membership then False
          else mem_list_active_human_member_ids tenant_id s = [principal_id])"

definition disable_membership ::
  "string \<Rightarrow> string \<Rightarrow> datetime \<Rightarrow> 'v control_store \<Rightarrow> (membership_record, 'v control_store) outcome"
where
  "disable_membership tenant_id principal_id now s = mem_disable_membership tenant_id principal_id now s"

definition revoke_membership_role ::
  "string \<Rightarrow> string \<Rightarrow> string \<Rightarrow> datetime \<Rightarrow> 'v control_store \<Rightarrow>
   (membership_record, 'v control_store) outcome" where
  "revoke_membership_role tenant_id principal_id role now s =
     (if role \<notin> VALID_ROLES then (Inl (ValueError (''Unknown role: '' @ role)), s)
      else mem_revoke_membership_role tenant_id principal_id role now s)"

section \<open>Access Tokens and sessions\<close>

definition issue_access_token ::
  "(string \<Rightarrow> 'v) \<Rightarrow> string \<Rightarrow> string \<Rightarrow> string \<Rightarrow> string \<Rightarrow> timedelta option \<Rightarrow> datetime \<Rightarrow>
   'v control_store \<Rightarrow> (issued_credential, 'v control_store) outcome" where
  "issue_access_token H uid secret tenant_id principal_id lifetime now s =
     (if \<not> present_and tr_active (mem_get_tenant tenant_id s)
      then (Inl (ControlNotFound ''Active Tenant not found''), s)
      else case mem_get_principal principal_id s of
        None \<Rightarrow> (Inl (ControlNotFound ''Active Principal not found''), s)
      | Some found \<Rightarrow>
          if \<not> pr_active found
          then (Inl (ControlNotFound ''Active Principal not found''), s)
          else case mem_get_membership tenant_id principal_id s of
            None \<Rightarrow> (Inl (ControlNotFound ''Active Tenant Membership not found''), s)
          | Some membership \<Rightarrow>
              if \<not> mb_active membership
              then (Inl (ControlNotFound ''Active Tenant Membership not found''), s)
              else
                let platform_days = (if pr_kind found = USER then 90 else 30);
                    configured_days = mem_token_lifetime_days tenant_id (pr_kind found) False s;
                    maximum_lifetime = days (or_int configured_days platform_days);
                    requested_lifetime = if_None maximum_lifetime lifetime
                in if requested_lifetime \<le> 0 \<or> requested_lifetime > maximum_lifetime
                   then (Inl (ValueError ''Access Token lifetime exceeds the Principal policy maximum''), s)
                   else and_then
                     (TenantSession \<lparr>ts_tenant_id = tenant_id, ts_actor_id = principal_id,
                        ts_actor_kind = pr_kind found, ts_roles = mb_roles membership,
                        ts_subject_user_id = None, ts_delegation_id = None, ts_token_id = None\<rparr>, s)
                     (\<lambda>session s1. TokenService_issue H access_token_ops uid secret session
                        requested_lifetime now s1))"

text \<open>
  \<^verbatim>\<open>reauthorize_session\<close>: the current authority of a stored session, for delayed work. The
  checks of a delegated session are \<open>reauthorize_delegation\<close>.
\<close>

definition reauthorize_delegation :: "tenant_session \<Rightarrow> string \<Rightarrow> 'v control_store \<Rightarrow> unit result" where
  "reauthorize_delegation session delegation_id s =
     (let delegation = mem_get_delegation delegation_id s;
          subject = Option.bind (ts_subject_user_id session) (\<lambda>u. mem_get_principal u s);
          subject_membership =
            Option.bind (ts_subject_user_id session) (\<lambda>u. mem_get_membership (ts_tenant_id session) u s)
      in if \<not> present_and (\<lambda>d. dg_active d \<and> dg_tenant_id d = ts_tenant_id session
                \<and> dg_agent_id d = ts_actor_id session
                \<and> Some (dg_subject_user_id d) = ts_subject_user_id session) delegation
         then Inl (ControlNotFound ''Active Delegation not found'')
         else if \<not> present_and (\<lambda>p. pr_active p \<and> pr_kind p = USER) subject
         then Inl (ControlNotFound ''Active Subject User not found'')
         else if \<not> present_and mb_active subject_membership
         then Inl (ControlNotFound ''Active Subject User Tenant Membership not found'')
         else Inr ())"

definition reauthorize_session :: "tenant_session \<Rightarrow> 'v control_store \<Rightarrow> tenant_session result" where
  "reauthorize_session session s =
     (if \<not> present_and tr_active (mem_get_tenant (ts_tenant_id session) s)
      then Inl (ControlNotFound ''Active Tenant not found'')
      else if \<not> present_and (\<lambda>p. pr_active p \<and> pr_kind p = ts_actor_kind session)
                (mem_get_principal (ts_actor_id session) s)
      then Inl (ControlNotFound ''Active Principal not found'')
      else case mem_get_membership (ts_tenant_id session) (ts_actor_id session) s of
        None \<Rightarrow> Inl (ControlNotFound ''Active Tenant Membership not found'')
      | Some membership \<Rightarrow>
          if \<not> mb_active membership
          then Inl (ControlNotFound ''Active Tenant Membership not found'')
          else
            (case (case ts_delegation_id session of
                     None \<Rightarrow> Inr ()
                   | Some delegation_id \<Rightarrow> reauthorize_delegation session delegation_id s) of
               Inl e \<Rightarrow> Inl e
             | Inr _ \<Rightarrow>
                 TenantSession \<lparr>ts_tenant_id = ts_tenant_id session,
                   ts_actor_id = ts_actor_id session, ts_actor_kind = ts_actor_kind session,
                   ts_roles = mb_roles membership,
                   ts_subject_user_id = ts_subject_user_id session,
                   ts_delegation_id = ts_delegation_id session,
                   ts_token_id = ts_token_id session\<rparr>))"

definition authenticate ::
  "(string \<Rightarrow> 'v) \<Rightarrow> string \<Rightarrow> datetime \<Rightarrow> 'v control_store \<Rightarrow> (tenant_session, 'v control_store) outcome"
where
  "authenticate H access_token now s = TokenService_authenticate H access_token_ops access_token now s"

definition revoke_access_token ::
  "string \<Rightarrow> datetime \<Rightarrow> 'v control_store \<Rightarrow> bool \<times> 'v control_store" where
  "revoke_access_token token_id now s = TokenService_revoke access_token_ops token_id now s"

text \<open>The checks a delegated token must pass before it is rotated.\<close>

definition rotation_delegation :: "tenant_session \<Rightarrow> 'v control_store \<Rightarrow> unit result" where
  "rotation_delegation session s =
     (let delegation = mem_get_delegation (or_string (ts_delegation_id session) []) s;
          subject = Option.bind (ts_subject_user_id session) (\<lambda>u. mem_get_principal u s);
          subject_membership =
            Option.bind (ts_subject_user_id session) (\<lambda>u. mem_get_membership (ts_tenant_id session) u s)
      in if \<not> present_and dg_active delegation
         then Inl (ControlNotFound ''Active Delegation not found'')
         else if \<not> present_and pr_active subject
         then Inl (ControlNotFound ''Active Subject User not found'')
         else if \<not> present_and mb_active subject_membership
         then Inl (ControlNotFound ''Active Subject User Tenant Membership not found'')
         else Inr ())"

text \<open>
  The last part of \<^verbatim>\<open>rotate_access_token\<close>: the policy's longest lifetime for the
  replacement, the check against it, and the rotation of the stored token.
\<close>

definition rotation_maximum :: "'v control_store \<Rightarrow> tenant_session \<Rightarrow> principal_record \<Rightarrow> timedelta" where
  "rotation_maximum s session found =
     (let delegated = (ts_delegation_id session \<noteq> None);
          platform_days = (if pr_kind found = USER then 90 else 30);
          configured_days =
            mem_token_lifetime_days (ts_tenant_id session) (pr_kind found) delegated s
      in days (or_int configured_days (if delegated then 90 else platform_days)))"

definition rotated_session :: "tenant_session \<Rightarrow> principal_record \<Rightarrow> membership_record \<Rightarrow> tenant_session" where
  "rotated_session session found membership =
     \<lparr>ts_tenant_id = ts_tenant_id session, ts_actor_id = ts_actor_id session,
      ts_actor_kind = pr_kind found, ts_roles = mb_roles membership,
      ts_subject_user_id = ts_subject_user_id session,
      ts_delegation_id = ts_delegation_id session, ts_token_id = None\<rparr>"

definition replace_token ::
  "(string \<Rightarrow> 'v) \<Rightarrow> string \<Rightarrow> string \<Rightarrow> string \<Rightarrow> 'v tenant_token \<Rightarrow> principal_record \<Rightarrow>
   membership_record \<Rightarrow> timedelta \<Rightarrow> timedelta option \<Rightarrow> datetime \<Rightarrow> 'v control_store \<Rightarrow>
   (rotated_credential, 'v control_store) outcome" where
  "replace_token H uid secret token_id previous found membership overlap lifetime now s =
     (let session = tk_session previous;
          maximum_lifetime = rotation_maximum s session found;
          requested_lifetime = if_None maximum_lifetime lifetime;
          bounded_overlap = min overlap (tk_expires_at previous - now)
      in if requested_lifetime \<le> 0 \<or> requested_lifetime > maximum_lifetime
         then (Inl (ValueError ''Replacement Access Token lifetime exceeds policy maximum''), s)
         else and_then (TenantSession (rotated_session session found membership), s)
           (\<lambda>replacement s1. TokenService_rotate H access_token_ops uid secret
              token_id replacement requested_lifetime bounded_overlap now s1))"

definition rotate_access_token ::
  "(string \<Rightarrow> 'v) \<Rightarrow> string \<Rightarrow> string \<Rightarrow> string \<Rightarrow> timedelta \<Rightarrow> timedelta option \<Rightarrow> datetime \<Rightarrow>
   'v control_store \<Rightarrow> (rotated_credential, 'v control_store) outcome" where
  "rotate_access_token H uid secret token_id overlap lifetime now s =
     (if overlap \<le> 0 \<or> overlap > hours 24
      then (Inl (ValueError ''Token rotation overlap must be between 1 second and 24 hours''), s)
      else case mem_get token_id s of
        None \<Rightarrow> (Inl (ControlNotFound ''Active Access Token not found''), s)
      | Some previous \<Rightarrow>
          if tk_revoked_at previous \<noteq> None \<or> tk_expires_at previous \<le> now
          then (Inl (ControlNotFound ''Active Access Token not found''), s)
          else
            let session = tk_session previous
            in case mem_get_principal (ts_actor_id session) s of
                 None \<Rightarrow> (Inl (ControlNotFound ''Active Principal not found''), s)
               | Some found \<Rightarrow>
                   if \<not> pr_active found
                   then (Inl (ControlNotFound ''Active Principal not found''), s)
                   else case mem_get_membership (ts_tenant_id session) (ts_actor_id session) s of
                     None \<Rightarrow> (Inl (ControlNotFound ''Active Tenant Membership not found''), s)
                   | Some membership \<Rightarrow>
                       if \<not> mb_active membership
                       then (Inl (ControlNotFound ''Active Tenant Membership not found''), s)
                       else and_then
                         (if ts_delegation_id session \<noteq> None then rotation_delegation session s
                          else Inr (), s)
                         (\<lambda>_ s1. replace_token H uid secret token_id previous found membership
                            overlap lifetime now s1))"

definition list_tokens :: "string \<Rightarrow> string \<Rightarrow> 'v control_store \<Rightarrow> 'v tenant_token list" where
  "list_tokens tenant_id principal_id s = mem_list_token_records tenant_id principal_id s"

section \<open>Delegations\<close>

definition require_active_delegation_bindings ::
  "string \<Rightarrow> string \<Rightarrow> string \<Rightarrow> 'v control_store \<Rightarrow> unit result" where
  "require_active_delegation_bindings tenant_id agent_id subject_user_id s =
     (if \<not> present_and tr_active (mem_get_tenant tenant_id s)
      then Inl (ControlNotFound ''Active Tenant not found'')
      else if \<not> present_and (\<lambda>p. pr_kind p = AGENT \<and> pr_active p) (mem_get_principal agent_id s)
      then Inl (ControlNotFound ''Active Agent not found'')
      else if \<not> present_and (\<lambda>p. pr_kind p = USER \<and> pr_active p) (mem_get_principal subject_user_id s)
      then Inl (ControlNotFound ''Active Subject User not found'')
      else if \<not> present_and mb_active (mem_get_membership tenant_id agent_id s)
      then Inl (ControlNotFound ''Active Agent Tenant Membership not found'')
      else if \<not> present_and mb_active (mem_get_membership tenant_id subject_user_id s)
      then Inl (ControlNotFound ''Active Subject User Tenant Membership not found'')
      else Inr ())"

definition create_delegation ::
  "string \<Rightarrow> string \<Rightarrow> string \<Rightarrow> string \<Rightarrow> 'v control_store \<Rightarrow>
   (delegation_record, 'v control_store) outcome" where
  "create_delegation delegation_id tenant_id agent_id subject_user_id s =
     and_then (require_active_delegation_bindings tenant_id agent_id subject_user_id s, s) (\<lambda>_ s1.
       let record = \<lparr>dg_delegation_id = delegation_id, dg_tenant_id = tenant_id,
                     dg_agent_id = agent_id, dg_subject_user_id = subject_user_id,
                     dg_active = True\<rparr>
       in and_then (mem_save_delegation record s1) (\<lambda>_ s2. (Inr record, s2)))"

definition inspect_delegation :: "string \<Rightarrow> 'v control_store \<Rightarrow> delegation_record result" where
  "inspect_delegation delegation_id s =
     (case mem_get_delegation delegation_id s of
        None \<Rightarrow> Inl (ControlNotFound ''Delegation not found'')
      | Some record \<Rightarrow> Inr record)"

definition list_delegations :: "string \<Rightarrow> 'v control_store \<Rightarrow> delegation_record list result" where
  "list_delegations tenant_id s =
     (if mem_get_tenant tenant_id s = None then Inl (ControlNotFound ''Tenant not found'')
      else Inr (mem_list_delegations tenant_id s))"

definition update_delegation ::
  "string \<Rightarrow> bool \<Rightarrow> datetime \<Rightarrow> 'v control_store \<Rightarrow> (delegation_record, 'v control_store) outcome" where
  "update_delegation delegation_id active now s =
     and_then (inspect_delegation delegation_id s, s) (\<lambda>current s1.
     and_then (if active
               then require_active_delegation_bindings (dg_tenant_id current) (dg_agent_id current)
                      (dg_subject_user_id current) s1
               else Inr (), s1) (\<lambda>_ s2.
       mem_update_delegation_active delegation_id active now s2))"

definition revoke_delegation ::
  "string \<Rightarrow> datetime \<Rightarrow> 'v control_store \<Rightarrow> (delegation_record, 'v control_store) outcome" where
  "revoke_delegation delegation_id now s = mem_revoke_delegation delegation_id now s"

definition issue_delegated_access_token ::
  "(string \<Rightarrow> 'v) \<Rightarrow> string \<Rightarrow> string \<Rightarrow> string \<Rightarrow> timedelta option \<Rightarrow> datetime \<Rightarrow> 'v control_store \<Rightarrow>
   (issued_credential, 'v control_store) outcome" where
  "issue_delegated_access_token H uid secret delegation_id lifetime now s =
     (let delegation = mem_get_delegation delegation_id s;
          configured_days = Option.bind delegation
            (\<lambda>d. mem_token_lifetime_days (dg_tenant_id d) AGENT True s);
          maximum_lifetime = days (or_int configured_days 90);
          requested_lifetime = if_None maximum_lifetime lifetime
      in if requested_lifetime \<le> 0 \<or> requested_lifetime > maximum_lifetime
         then (Inl (ValueError ''Delegated Access Token lifetime exceeds the Tenant policy maximum''), s)
         else case delegation of
           None \<Rightarrow> (Inl (ControlNotFound ''Active Delegation not found''), s)
         | Some d \<Rightarrow>
             if \<not> dg_active d then (Inl (ControlNotFound ''Active Delegation not found''), s)
             else case mem_get_membership (dg_tenant_id d) (dg_agent_id d) s of
               None \<Rightarrow> (Inl (ControlNotFound ''Active Agent Tenant Membership not found''), s)
             | Some membership \<Rightarrow>
                 if \<not> mb_active membership
                 then (Inl (ControlNotFound ''Active Agent Tenant Membership not found''), s)
                 else and_then
                   (TenantSession \<lparr>ts_tenant_id = dg_tenant_id d, ts_actor_id = dg_agent_id d,
                      ts_actor_kind = AGENT, ts_roles = mb_roles membership,
                      ts_subject_user_id = Some (dg_subject_user_id d),
                      ts_delegation_id = Some (dg_delegation_id d), ts_token_id = None\<rparr>, s)
                   (\<lambda>session s1. TokenService_issue H access_token_ops uid secret session
                      requested_lifetime now s1))"

section \<open>Channel Bindings\<close>

definition create_channel_binding ::
  "string \<Rightarrow> string \<Rightarrow> string \<Rightarrow> string \<Rightarrow> 'v control_store \<Rightarrow>
   (channel_binding_record, 'v control_store) outcome" where
  "create_channel_binding binding_id channel external_id delegation_id s =
     (if channel \<noteq> ''telegram''
      then (Inl (ValueError ''Iteration 1 supports only Telegram Channel Bindings''), s)
      else if \<not> py_isdecimal external_id
      then (Inl (ValueError ''Telegram Channel Binding requires a numeric external identity''), s)
      else case mem_get_delegation delegation_id s of
        None \<Rightarrow> (Inl (ControlNotFound ''Active Delegation not found''), s)
      | Some delegation \<Rightarrow>
          if \<not> dg_active delegation then (Inl (ControlNotFound ''Active Delegation not found''), s)
          else
            let record = \<lparr>cb_binding_id = binding_id, cb_channel = channel,
                  cb_external_id = external_id, cb_tenant_id = dg_tenant_id delegation,
                  cb_user_id = dg_subject_user_id delegation, cb_agent_id = dg_agent_id delegation,
                  cb_delegation_id = dg_delegation_id delegation, cb_active = True\<rparr>
            in and_then (mem_save_channel_binding record s) (\<lambda>_ s1. (Inr record, s1)))"

definition resolve_channel_session ::
  "string \<Rightarrow> string \<Rightarrow> 'v control_store \<Rightarrow> tenant_session result" where
  "resolve_channel_session channel external_id s =
     (case mem_get_channel_binding channel external_id s of
        None \<Rightarrow> Inl (ControlNotFound ''Active Channel Binding not found'')
      | Some binding \<Rightarrow>
          if \<not> cb_active binding then Inl (ControlNotFound ''Active Channel Binding not found'')
          else case mem_get_delegation (cb_delegation_id binding) s of
            None \<Rightarrow> Inl (ControlNotFound ''Active Delegation not found'')
          | Some delegation \<Rightarrow>
              if \<not> dg_active delegation then Inl (ControlNotFound ''Active Delegation not found'')
              else if dg_tenant_id delegation \<noteq> cb_tenant_id binding
                \<or> dg_agent_id delegation \<noteq> cb_agent_id binding
                \<or> dg_subject_user_id delegation \<noteq> cb_user_id binding
              then Inl (ControlNotFound ''Channel Binding no longer matches its Delegation'')
              else case mem_get_membership (cb_tenant_id binding) (cb_agent_id binding) s of
                None \<Rightarrow> Inl (ControlNotFound ''Active Agent Tenant Membership not found'')
              | Some membership \<Rightarrow>
                  if \<not> mb_active membership
                  then Inl (ControlNotFound ''Active Agent Tenant Membership not found'')
                  else TenantSession \<lparr>ts_tenant_id = cb_tenant_id binding,
                    ts_actor_id = cb_agent_id binding, ts_actor_kind = AGENT,
                    ts_roles = mb_roles membership,
                    ts_subject_user_id = Some (cb_user_id binding),
                    ts_delegation_id = Some (cb_delegation_id binding), ts_token_id = None\<rparr>)"

definition inspect_channel_binding ::
  "string \<Rightarrow> string \<Rightarrow> 'v control_store \<Rightarrow> channel_binding_record result" where
  "inspect_channel_binding channel external_id s =
     (case mem_get_channel_binding channel external_id s of
        None \<Rightarrow> Inl (ControlNotFound ''Channel Binding not found'')
      | Some binding \<Rightarrow> Inr binding)"

definition disable_channel_binding ::
  "string \<Rightarrow> string \<Rightarrow> 'v control_store \<Rightarrow> (channel_binding_record, 'v control_store) outcome" where
  "disable_channel_binding channel external_id s =
     and_then (inspect_channel_binding channel external_id s, s) (\<lambda>binding s1.
       let disabled = binding\<lparr>cb_active := False\<rparr>
       in and_then (mem_update_channel_binding disabled s1) (\<lambda>_ s2. (Inr disabled, s2)))"

definition remove_channel_binding ::
  "string \<Rightarrow> string \<Rightarrow> 'v control_store \<Rightarrow> bool \<times> 'v control_store" where
  "remove_channel_binding channel external_id s = mem_delete_channel_binding channel external_id s"

section \<open>Tenant routes\<close>

definition register_tenant_route ::
  "string \<Rightarrow> string \<Rightarrow> string \<Rightarrow> string \<Rightarrow> string \<Rightarrow> bool \<Rightarrow> 'v control_store \<Rightarrow>
   (tenant_route_record, 'v control_store) outcome" where
  "register_tenant_route tenant_id neo4j_service_address neo4j_secret_name database_name
     database_role healthy s =
     (if \<not> present_and tr_active (mem_get_tenant tenant_id s)
      then (Inl (ControlNotFound ''Active Tenant not found''), s)
      else
        let normalized = py_replace CHR ''-'' CHR ''_'' tenant_id;
            expected = (''neo4j-'' @ tenant_id @ '':7687'', tenant_id @ ''/neo4j_password'',
                        ''tenant_'' @ normalized, ''tenant_'' @ normalized @ ''_rw'');
            supplied = (neo4j_service_address, neo4j_secret_name, database_name,
                        database_role);
            route = \<lparr>rt_tenant_id = tenant_id, rt_neo4j_service_address = neo4j_service_address,
                     rt_neo4j_secret_name = neo4j_secret_name,
                     rt_tenant_database_name = database_name,
                     rt_tenant_database_role = database_role, rt_healthy = healthy\<rparr>
        in if supplied \<noteq> expected
           then (Inl (ValueError ''Tenant route values must derive from the immutable Tenant ID''), s)
           else (Inr route, mem_save_tenant_route route s))"

definition resolve_tenant_route :: "string \<Rightarrow> 'v control_store \<Rightarrow> tenant_route_record result" where
  "resolve_tenant_route tenant_id s =
     (case mem_get_tenant_route tenant_id s of
        None \<Rightarrow> Inl (ControlNotFound ''Healthy Tenant route not found'')
      | Some route \<Rightarrow>
          if \<not> present_and tr_active (mem_get_tenant tenant_id s) \<or> \<not> rt_healthy route
          then Inl (ControlNotFound ''Healthy Tenant route not found'')
          else Inr route)"

definition list_tenant_routes :: "'v control_store \<Rightarrow> tenant_route_record list" where
  "list_tenant_routes s =
     filter (\<lambda>route. rt_healthy route \<and> present_and tr_active (mem_get_tenant (rt_tenant_id route) s))
       (mem_list_tenant_routes s)"

end
