(* ===== verification/OperatorProvisioning.thy ===== *)
theory OperatorProvisioning
  imports ControlModule Samples
begin

text \<open>
  The Provisioning Job queue. \<open>run_once\<close> is the worker of \<^verbatim>\<open>operator_provisioning.py\<close> that
  claims a queued job, runs the host-side provisioner on its manifest and records how that
  ended. The rest of the theory is about the queue: the state machine \<open>job_transition\<close> that
  a job is allowed to follow, the relation \<open>job_queue_step\<close> of every operation that writes
  the queue, and the proof that the operations follow the machine.
\<close>

section \<open>The worker\<close>

text \<open>
  \<open>provision\<close> is the \<open>apply\<close> method of the provisioner port. It runs for a long time, and
  other parties may write the Control Store meanwhile, so its world is a Control Store
  together with anything else. \<open>started_at\<close> and \<open>ended_at\<close> are the two clock readings.
\<close>

fun provisioning_status_value :: "provisioning_status \<Rightarrow> string" where
  "provisioning_status_value PS_NOT_STARTED = ''not_started''"
| "provisioning_status_value PS_PROVISIONING = ''provisioning''"
| "provisioning_status_value PS_FAILED = ''failed''"
| "provisioning_status_value PS_ACTIVE = ''active''"

text \<open>The step attribute of a \<^verbatim>\<open>ProvisioningFailed\<close> exception, read back from its value.\<close>

definition failed_step_of :: "error \<Rightarrow> provisioning_step option" where
  "failed_step_of e =
     (case e of
        ProvisioningFailed v \<Rightarrow> find (\<lambda>step. step_value step = v) PROVISIONING_STEPS
      | _ \<Rightarrow> None)"

definition OperatorProvisioningService :: "string \<Rightarrow> string result" where
  "OperatorProvisioningService worker_id =
     (let normalized_worker_id = py_strip worker_id
      in if normalized_worker_id = []
         then Inl (ValueError ''Operator Service worker ID cannot be empty'')
         else Inr normalized_worker_id)"

definition run_once ::
  "string \<Rightarrow> (tenant_manifest \<Rightarrow> 'v control_store \<times> 'w \<Rightarrow> (provisioning_state, 'v control_store \<times> 'w) outcome) \<Rightarrow>
   datetime \<Rightarrow> datetime \<Rightarrow> 'v control_store \<Rightarrow> 'w \<Rightarrow>
   (provisioning_job option, 'v control_store \<times> 'w) outcome" where
  "run_once worker_id provision started_at ended_at s w =
     (case mem_claim_next_provisioning_job worker_id started_at s of
        (None, s1) \<Rightarrow> (Inr None, (s1, w))
      | (Some job, s1) \<Rightarrow>
          (case provision (jb_manifest job) (s1, w) of
             (Inl e, (s2, w2)) \<Rightarrow>
               (case mem_fail_provisioning_job (jb_job_id job) worker_id (failed_step_of e)
                       (error_name e) ended_at s2 of
                  (r, s3) \<Rightarrow> (map_sum id Some r, (s3, w2)))
           | (Inr state, (s2, w2)) \<Rightarrow>
               if st_status state = PS_ACTIVE
               then (case mem_complete_provisioning_job (jb_job_id job) worker_id
                            (st_completed_steps state) ended_at s2 of
                       (r, s3) \<Rightarrow> (map_sum id Some r, (s3, w2)))
               else (case mem_fail_provisioning_job (jb_job_id job) worker_id (st_failed_step state)
                            (or_string (st_failure_code state)
                               (provisioning_status_value (st_status state))) ended_at s2 of
                       (r, s3) \<Rightarrow> (map_sum id Some r, (s3, w2)))))"

lemma failed_step_of_step [simp]: "failed_step_of (ProvisioningFailed (step_value step)) = Some step"
  by (cases step) (simp_all add: failed_step_of_def PROVISIONING_STEPS_def)

section \<open>The state machine of a job\<close>

inductive job_transition :: "job_state \<Rightarrow> job_state \<Rightarrow> bool" where
  claim: "job_transition JOB_QUEUED JOB_RUNNING"
| complete: "job_transition JOB_RUNNING JOB_SUCCEEDED"
| fail: "job_transition JOB_RUNNING JOB_FAILED"
| cancel: "j \<in> {JOB_QUEUED, JOB_RUNNING} \<Longrightarrow> job_transition j JOB_CANCEL_REQUESTED"
| retry: "j \<in> {JOB_FAILED, JOB_CANCELED, JOB_CANCEL_REQUESTED} \<Longrightarrow> job_transition j JOB_QUEUED"
| cleanup: "j \<in> {JOB_FAILED, JOB_CANCELED, JOB_CANCEL_REQUESTED} \<Longrightarrow>
    job_transition j JOB_CLEANUP_REQUESTED"

inductive_cases job_transitionE: "job_transition j j'"
inductive_simps job_transition_simps:
  "job_transition JOB_SUCCEEDED j" "job_transition JOB_CLEANUP_REQUESTED j"
  "job_transition j JOB_RUNNING"

text \<open>What never changes in a job once it is stored.\<close>

definition job_identity ::
  "provisioning_job \<Rightarrow> string \<times> string \<times> string \<times> tenant_manifest \<times> string \<times> string \<times> datetime" where
  "job_identity job =
     (jb_job_id job, jb_tenant_id job, jb_manifest_fingerprint job, jb_manifest job,
      jb_idempotency_key job, jb_requested_by job, jb_created_at job)"

definition job_move :: "provisioning_job \<Rightarrow> provisioning_job \<Rightarrow> bool" where
  "job_move job job' \<longleftrightarrow>
     job_identity job' = job_identity job \<and> job_transition (jb_state job) (jb_state job') \<and>
     jb_attempt job' = jb_attempt job + (if jb_state job' = JOB_RUNNING then 1 else 0)"

definition job_change :: "provisioning_job option \<Rightarrow> provisioning_job option \<Rightarrow> bool" where
  "job_change old new =
     (case (old, new) of
        (None, None) \<Rightarrow> True
      | (None, Some job) \<Rightarrow> jb_state job = JOB_QUEUED \<and> jb_attempt job = 0
      | (Some job, None) \<Rightarrow> False
      | (Some job, Some job') \<Rightarrow> job' = job \<or> job_move job job')"

lemma job_change_refl [simp]: "job_change j j"
  by (simp add: job_change_def split: option.splits)

lemma job_change_simps [simp]:
  "job_change None (Some job) \<longleftrightarrow> jb_state job = JOB_QUEUED \<and> jb_attempt job = 0"
  "job_change (Some job) (Some job') \<longleftrightarrow> job' = job \<or> job_move job job'"
  by (simp_all add: job_change_def)

section \<open>The queue invariant\<close>

definition job_claim_wf :: "provisioning_job \<Rightarrow> bool" where
  "job_claim_wf job \<longleftrightarrow>
     (jb_state job = JOB_QUEUED \<longrightarrow> jb_claimed_by job = None \<and> jb_completed_steps job = []) \<and>
     (jb_state job = JOB_RUNNING \<longrightarrow> jb_claimed_by job \<noteq> None \<and> 0 < jb_attempt job) \<and>
     0 \<le> jb_attempt job"

definition job_inv :: "'v control_store \<Rightarrow> bool" where
  "job_inv s \<longleftrightarrow>
     dict_ok (cs_provisioning_jobs s) \<and>
     (\<forall>k job. dict_get (cs_provisioning_jobs s) k = Some job \<longrightarrow> jb_job_id job = k \<and> job_claim_wf job) \<and>
     (\<forall>k i. dict_get (cs_provisioning_job_keys s) k = Some i \<longrightarrow>
        dict_get (cs_provisioning_jobs s) i \<noteq> None) \<and>
     (\<forall>k i. dict_get (cs_provisioning_manifest_keys s) k = Some i \<longrightarrow>
        dict_get (cs_provisioning_jobs s) i \<noteq> None)"

lemma job_invD:
  assumes "job_inv s" and "dict_get (cs_provisioning_jobs s) k = Some job"
  shows "jb_job_id job = k" "job_claim_wf job"
  using assms by (auto simp: job_inv_def)

lemma job_inv_empty: "job_inv empty_control_store"
  by (simp add: job_inv_def)

lemma job_inv_set_job:
  assumes "job_inv s" and "jb_job_id job = k" and "job_claim_wf job"
  shows "job_inv (set_job job k s)"
  using assms by (auto simp: job_inv_def set_job_def dict_get_set)

lemma job_inv_audit [simp]:
  "job_inv (s\<lparr>cs_operator_audit_events := d\<rparr>) = job_inv s"
  by (simp add: job_inv_def)

lemma set_job_lookup [simp]:
  "dict_get (cs_provisioning_jobs (set_job job k s)) i =
     (if i = k then Some job else dict_get (cs_provisioning_jobs s) i)"
  by (simp add: set_job_def dict_get_set)

text \<open>Replacing a job by one it may move to keeps the invariant and is a legal change.\<close>

lemma set_job_ok:
  assumes "job_inv s" and "dict_get (cs_provisioning_jobs s) k = Some job"
    and "job_move job job'" and "job_claim_wf job'"
  shows "job_inv (set_job job' k s) \<and>
    (\<forall>i. job_change (dict_get (cs_provisioning_jobs s) i)
           (dict_get (cs_provisioning_jobs (set_job job' k s)) i))"
proof -
  have "jb_job_id job' = k"
    using job_invD(1) [OF assms(1,2)] assms(3) by (simp add: job_move_def job_identity_def)
  then show ?thesis
    using assms by (simp add: job_inv_set_job)
qed

section \<open>Every operation follows the machine\<close>

text \<open>
  The operations that write the queue: an Operator creates, cancels, retries or cleans up a
  job; a worker claims, completes or fails one.
\<close>

inductive job_queue_step :: "'v control_store \<Rightarrow> 'v control_store \<Rightarrow> bool" where
  create: "create_provisioning_job fp uid euid session manifest key t u s = (r, s') \<Longrightarrow>
    dict_get (cs_provisioning_jobs s) uid = None \<Longrightarrow> job_queue_step s s'"
| cancel: "cancel_provisioning_job euid session k t u s = (r, s') \<Longrightarrow> job_queue_step s s'"
| retry: "retry_provisioning_job euid session k t u s = (r, s') \<Longrightarrow> job_queue_step s s'"
| cleanup: "request_provisioning_cleanup euid session k c t u s = (r, s') \<Longrightarrow> job_queue_step s s'"
| claim: "mem_claim_next_provisioning_job w t s = (claimed, s') \<Longrightarrow> job_queue_step s s'"
| complete: "mem_complete_provisioning_job k w steps t s = (r, s') \<Longrightarrow> job_queue_step s s'"
| fail: "mem_fail_provisioning_job k w step code t s = (r, s') \<Longrightarrow> job_queue_step s s'"

definition job_queue_ok :: "'v control_store \<Rightarrow> 'v control_store \<Rightarrow> bool" where
  "job_queue_ok s s' \<longleftrightarrow> job_inv s' \<and>
     (\<forall>k. job_change (dict_get (cs_provisioning_jobs s) k) (dict_get (cs_provisioning_jobs s') k))"

lemma job_queue_ok_refl [simp]: "job_queue_ok s s = job_inv s"
  by (simp add: job_queue_ok_def)

lemma job_queue_ok_set_job:
  "job_inv s \<Longrightarrow> dict_get (cs_provisioning_jobs s) k = Some job \<Longrightarrow> job_move job job' \<Longrightarrow>
   job_claim_wf job' \<Longrightarrow> job_queue_ok s (set_job job' k s)"
  unfolding job_queue_ok_def by (rule set_job_ok)

lemma job_queue_ok_audit [simp]:
  "job_queue_ok s (snd (record_operator_audit_event u ses a ty ids oc r b af t s')) = job_queue_ok s s'"
  by (simp add: job_queue_ok_def record_operator_audit_event_def mem_save_operator_audit_event_def
        job_inv_def Let_def)

lemma mem_update_provisioning_job_state_ok:
  assumes "mem_update_provisioning_job_state k j t s = (r, s')" and "job_inv s"
    and "\<And>job. dict_get (cs_provisioning_jobs s) k = Some job \<Longrightarrow> job_transition (jb_state job) j"
    and "j \<in> {JOB_QUEUED, JOB_CANCEL_REQUESTED, JOB_CLEANUP_REQUESTED}"
  shows "job_queue_ok s s'"
proof (cases "dict_get (cs_provisioning_jobs s) k")
  case None
  then show ?thesis using assms(1,2) by (simp add: mem_update_provisioning_job_state_def)
next
  case (Some job)
  then have "job_claim_wf job" using assms(2) job_invD(2) by blast
  with Some show ?thesis
    using assms
    by (auto simp: mem_update_provisioning_job_state_def Let_def job_move_def job_identity_def
          job_claim_wf_def intro!: job_queue_ok_set_job)
qed

lemma job_queue_ok_cancel:
  assumes "job_inv s" and "cancel_provisioning_job euid session k t u s = (r, s')"
  shows "job_queue_ok s s'"
  using assms
  by (auto simp: cancel_provisioning_job_def mem_get_provisioning_job_def and_then_def
        intro: job_transition.cancel dest!: mem_update_provisioning_job_state_ok
        split: option.splits if_splits prod.splits sum.splits)

lemma job_queue_ok_retry:
  assumes "job_inv s" and "retry_provisioning_job euid session k t u s = (r, s')"
  shows "job_queue_ok s s'"
  using assms
  by (auto simp: retry_provisioning_job_def mem_get_provisioning_job_def and_then_def
        intro: job_transition.retry dest!: mem_update_provisioning_job_state_ok
        split: option.splits if_splits prod.splits sum.splits)

lemma job_queue_ok_cleanup:
  assumes "job_inv s" and "request_provisioning_cleanup euid session k c t u s = (r, s')"
  shows "job_queue_ok s s'"
  using assms
  by (auto simp: request_provisioning_cleanup_def mem_get_provisioning_job_def and_then_def Let_def
        intro: job_transition.cleanup dest!: mem_update_provisioning_job_state_ok
        split: option.splits if_splits prod.splits sum.splits)

lemma job_at_ok: "job_at k s = (r, s') \<Longrightarrow> s' = s"
  by (auto simp: job_at_def split: option.splits)

lemma job_queue_ok_store_create:
  assumes "mem_create_provisioning_job job s = (r, s')" and "job_inv s"
    and "dict_get (cs_provisioning_jobs s) (jb_job_id job) = None"
    and "jb_state job = JOB_QUEUED" and "jb_attempt job = 0" and "jb_claimed_by job = None"
    and "jb_completed_steps job = []"
  shows "job_queue_ok s s'"
  using assms
  by (auto simp: mem_create_provisioning_job_def Let_def job_queue_ok_def job_inv_def dict_get_set
        job_claim_wf_def dest!: job_at_ok split: option.splits if_splits)

lemma job_queue_ok_create:
  assumes "job_inv s" and "dict_get (cs_provisioning_jobs s) uid = None"
    and "create_provisioning_job fp uid euid session manifest key t u s = (r, s')"
  shows "job_queue_ok s s'"
  using assms
  by (auto simp: create_provisioning_job_def and_then_def new_provisioning_job_def
        dest!: job_queue_ok_store_create
        split: if_splits prod.splits sum.splits)

lemma claim_found:
  assumes "mem_claim_next_provisioning_job w t s = (Some claimed, s')" and "job_inv s"
  obtains job where "dict_get (cs_provisioning_jobs s) (jb_job_id job) = Some job"
    and "jb_state job = JOB_QUEUED" and "s' = set_job claimed (jb_job_id job) s"
    and "claimed = job\<lparr>jb_state := JOB_RUNNING, jb_attempt := jb_attempt job + 1,
           jb_claimed_by := Some w, jb_claimed_at := Some t, jb_heartbeat_at := Some t,
           jb_updated_at := t\<rparr>"
proof -
  let ?cands = "filter (\<lambda>job. jb_state job = JOB_QUEUED)
        (sort_key (\<lambda>c. (jb_created_at c, jb_job_id c)) (dict_values (cs_provisioning_jobs s)))"
  obtain job rest where cands: "?cands = job # rest"
    using assms(1) by (auto simp: mem_claim_next_provisioning_job_def split: list.splits)
  then have "job \<in> set ?cands" by simp
  then have "job \<in> set (dict_values (cs_provisioning_jobs s))" and q: "jb_state job = JOB_QUEUED"
    by auto
  then obtain k where "dict_get (cs_provisioning_jobs s) k = Some job"
    using assms(2) by (auto simp: dict_values_mem job_inv_def)
  with job_invD(1) [OF assms(2)] have "dict_get (cs_provisioning_jobs s) (jb_job_id job) = Some job"
    by blast
  moreover have "(Some claimed, s') = (let c = job\<lparr>jb_state := JOB_RUNNING,
      jb_attempt := jb_attempt job + 1, jb_claimed_by := Some w, jb_claimed_at := Some t,
      jb_heartbeat_at := Some t, jb_updated_at := t\<rparr> in (Some c, set_job c (jb_job_id job) s))"
    using assms(1) cands by (simp add: mem_claim_next_provisioning_job_def)
  ultimately show thesis
    using that [of job] q by (auto simp: Let_def)
qed

lemma claim_none:
  assumes "mem_claim_next_provisioning_job w t s = (None, s')"
  shows "s' = s" and "\<And>job. job \<in> set (dict_values (cs_provisioning_jobs s)) \<Longrightarrow> jb_state job \<noteq> JOB_QUEUED"
  using assms
  by (auto simp: mem_claim_next_provisioning_job_def Let_def filter_empty_conv split: list.splits)

lemma job_queue_ok_claim:
  assumes "job_inv s" and "mem_claim_next_provisioning_job w t s = (r, s')"
  shows "job_queue_ok s s'"
proof (cases r)
  case None
  with assms(2) have "s' = s" by (simp add: claim_none(1))
  then show ?thesis using assms(1) by simp
next
  case (Some claimed)
  with assms obtain job where job: "dict_get (cs_provisioning_jobs s) (jb_job_id job) = Some job"
    and "jb_state job = JOB_QUEUED" and s': "s' = set_job claimed (jb_job_id job) s"
    and c: "claimed = job\<lparr>jb_state := JOB_RUNNING, jb_attempt := jb_attempt job + 1,
      jb_claimed_by := Some w, jb_claimed_at := Some t, jb_heartbeat_at := Some t,
      jb_updated_at := t\<rparr>"
    by (auto elim: claim_found)
  moreover have "job_claim_wf job" using job_invD(2) [OF assms(1) job] .
  ultimately have "job_move job claimed" and "job_claim_wf claimed"
    by (simp_all add: job_move_def job_identity_def job_claim_wf_def job_transition.claim)
  then show ?thesis
    unfolding s' using assms(1) job by (intro job_queue_ok_set_job)
qed

lemma require_running_Inr:
  "require_running_provisioning_job k w s = Inr job \<longleftrightarrow>
   dict_get (cs_provisioning_jobs s) k = Some job \<and> jb_state job = JOB_RUNNING \<and>
   jb_claimed_by job = Some w"
  by (auto simp: require_running_provisioning_job_def split: option.splits)

lemma job_queue_ok_finish:
  assumes "job_inv s"
  shows "mem_complete_provisioning_job k w steps t s = (r, s') \<Longrightarrow> job_queue_ok s s'"
    and "mem_fail_provisioning_job k w step code t s = (r, s') \<Longrightarrow> job_queue_ok s s'"
  using assms
  by (auto simp: mem_complete_provisioning_job_def mem_fail_provisioning_job_def Let_def
        require_running_Inr job_move_def job_identity_def job_claim_wf_def
        intro!: job_queue_ok_set_job intro: job_transition.complete job_transition.fail
        dest: job_invD(2) split: sum.splits)

lemma job_queue_step_ok: "job_queue_step s s' \<Longrightarrow> job_inv s \<Longrightarrow> job_queue_ok s s'"
  by (induction rule: job_queue_step.induct)
    (auto elim!: job_queue_ok_create [rotated -1] job_queue_ok_cancel [rotated]
       job_queue_ok_retry [rotated] job_queue_ok_cleanup [rotated] job_queue_ok_claim [rotated]
       job_queue_ok_finish(1) [rotated] job_queue_ok_finish(2) [rotated])

section \<open>Properties of the queue\<close>

definition sample_job :: provisioning_job where
  "sample_job = new_provisioning_job sample_fingerprint ''j1'' sample_manifest ''key'' ''op'' 5"

definition sample_queue :: "nat control_store" where
  "sample_queue = snd (mem_create_provisioning_job sample_job empty_control_store)"

lemma sample_queue_jobs [simp]: "cs_provisioning_jobs sample_queue = [(''j1'', sample_job)]"
  by (simp add: sample_queue_def mem_create_provisioning_job_def
        sample_job_def new_provisioning_job_def Let_def)

lemma sample_job_simps [simp]:
  "jb_job_id sample_job = ''j1''" "jb_state sample_job = JOB_QUEUED" "jb_attempt sample_job = 0"
  "jb_manifest sample_job = sample_manifest" "jb_claimed_by sample_job = None"
  by (simp_all add: sample_job_def new_provisioning_job_def)

lemma sample_queue_inv: "job_inv sample_queue"
proof -
  have "mem_create_provisioning_job sample_job empty_control_store =
      (fst (mem_create_provisioning_job sample_job (empty_control_store :: nat control_store)), sample_queue)"
    by (simp add: sample_queue_def)
  then have "job_queue_ok (empty_control_store :: nat control_store) sample_queue"
    by (rule job_queue_ok_store_create)
      (simp_all add: job_inv_empty sample_job_def new_provisioning_job_def)
  then show ?thesis by (simp add: job_queue_ok_def)
qed

lemma sample_claim:
  "mem_claim_next_provisioning_job w t sample_queue =
     (let c = sample_job\<lparr>jb_state := JOB_RUNNING, jb_attempt := 1, jb_claimed_by := Some w,
        jb_claimed_at := Some t, jb_heartbeat_at := Some t, jb_updated_at := t\<rparr>
      in (Some c, set_job c ''j1'' sample_queue))"
  by (simp add: mem_claim_next_provisioning_job_def dict_values_def Let_def)

text \<open>
  Whatever Operators and workers do to the queue, a stored Provisioning Job is never lost:
  its identity, manifest, requester and creation time stay, its attempt counter never goes
  down, and a job that has succeeded or whose cleanup was requested is never changed again.
\<close>

lemma job_history:
  assumes "job_queue_step\<^sup>*\<^sup>* s s'" and "job_inv s"
    and "dict_get (cs_provisioning_jobs s) k = Some job"
  shows "job_inv s' \<and> (\<exists>job'. dict_get (cs_provisioning_jobs s') k = Some job' \<and>
           job_identity job' = job_identity job \<and> jb_attempt job \<le> jb_attempt job' \<and>
           (jb_state job \<in> {JOB_SUCCEEDED, JOB_CLEANUP_REQUESTED} \<longrightarrow> job' = job))"
  using assms
proof (induction rule: rtranclp_induct)
  case base
  then show ?case by simp
next
  case (step t t')
  then obtain job1 where inv: "job_inv t" and job1: "dict_get (cs_provisioning_jobs t) k = Some job1"
    and ids: "job_identity job1 = job_identity job" "jb_attempt job \<le> jb_attempt job1"
    and final: "jb_state job \<in> {JOB_SUCCEEDED, JOB_CLEANUP_REQUESTED} \<longrightarrow> job1 = job"
    by blast
  from step.hyps(2) inv have ok: "job_queue_ok t t'"
    by (rule job_queue_step_ok)
  then obtain job2 where job2: "dict_get (cs_provisioning_jobs t') k = Some job2"
    and move: "job2 = job1 \<or> job_move job1 job2"
    using job1 by (auto simp: job_queue_ok_def job_change_def split: option.splits dest!: spec [of _ k])
  then show ?case
    using ok ids final
    by (auto simp: job_queue_ok_def job_move_def job_transition_simps split: if_splits)
qed

text \<open>
  A worker's claim takes the queued job that was created first (the smaller identifier
  first among equals), marks it running in the worker's name and counts the attempt, and
  changes no other job; it returns nothing exactly when no job is queued.
\<close>

lemma claim_oldest:
  assumes "job_inv s"
  shows "case mem_claim_next_provisioning_job w t s of
      (None, s') \<Rightarrow> s' = s \<and>
        (\<forall>k job. dict_get (cs_provisioning_jobs s) k = Some job \<longrightarrow> jb_state job \<noteq> JOB_QUEUED)
    | (Some c, s') \<Rightarrow> s' = set_job c (jb_job_id c) s \<and>
        (\<exists>job. dict_get (cs_provisioning_jobs s) (jb_job_id c) = Some job \<and>
           jb_state job = JOB_QUEUED \<and>
           c = job\<lparr>jb_state := JOB_RUNNING, jb_attempt := jb_attempt job + 1,
             jb_claimed_by := Some w, jb_claimed_at := Some t, jb_heartbeat_at := Some t,
             jb_updated_at := t\<rparr> \<and>
           (\<forall>k other. dict_get (cs_provisioning_jobs s) k = Some other \<longrightarrow>
              jb_state other = JOB_QUEUED \<longrightarrow>
              (jb_created_at job, jb_job_id job) \<le> (jb_created_at other, jb_job_id other)))"
proof -
  let ?f = "\<lambda>c. (jb_created_at c, jb_job_id c)"
  let ?jobs = "dict_values (cs_provisioning_jobs s)"
  let ?q = "\<lambda>job. jb_state job = JOB_QUEUED"
  have mem: "job \<in> set ?jobs \<longleftrightarrow> (\<exists>k. dict_get (cs_provisioning_jobs s) k = Some job)" for job
    using assms by (simp add: job_inv_def dict_values_mem)
  show ?thesis
  proof (cases "filter ?q (sort_key ?f ?jobs)")
    case Nil
    then show ?thesis
      using mem by (auto simp: mem_claim_next_provisioning_job_def filter_empty_conv)
  next
    case (Cons job rest)
    have "job # rest = sort_key ?f (filter ?q ?jobs)"
      using Cons by (simp add: filter_sort)
    then have "sorted (map ?f (job # rest))" and "set (job # rest) = {j \<in> set ?jobs. ?q j}"
      using sorted_sort_key [of ?f "filter ?q ?jobs"] by (metis, metis set_filter set_sort)
    then have first: "\<forall>other \<in> set ?jobs. ?q other \<longrightarrow> ?f job \<le> ?f other"
      and job: "job \<in> set ?jobs" "?q job"
      by auto
    then obtain k where k: "dict_get (cs_provisioning_jobs s) k = Some job"
      using mem by blast
    with job_invD(1) [OF assms k] first job(2) mem show ?thesis
      using Cons by (fastforce simp: mem_claim_next_provisioning_job_def Let_def)
  qed
qed

text \<open>
  The worker records how provisioning ended on the job it claimed, and only while the job
  is still its own: a job that an Operator canceled, or that another worker holds, when
  provisioning returns is left as it is and the worker gets a conflict.
\<close>

lemma run_once_records_outcome:
  assumes "mem_claim_next_provisioning_job w t s = (Some c, s1)"
    and "provision (jb_manifest c) (s1, x) = (outcome_of, (s2, x2))"
    and "dict_get (cs_provisioning_jobs s2) (jb_job_id c) = Some j2"
  shows "if jb_state j2 = JOB_RUNNING \<and> jb_claimed_by j2 = Some w
    then \<exists>j. run_once w provision t u s x = (Inr (Some j), (set_job j (jb_job_id c) s2, x2)) \<and>
      jb_state j = (if \<exists>st. outcome_of = Inr st \<and> st_status st = PS_ACTIVE
                    then JOB_SUCCEEDED else JOB_FAILED) \<and>
      (\<forall>step. outcome_of = Inl (ProvisioningFailed (step_value step)) \<longrightarrow> jb_failed_step j = Some step) \<and>
      job_identity j = job_identity j2
    else \<exists>m. run_once w provision t u s x = (Inl (ControlConflict m), (s2, x2))"
proof (cases "jb_state j2 = JOB_RUNNING \<and> jb_claimed_by j2 = Some w")
  case True
  then have "require_running_provisioning_job (jb_job_id c) w s2 = Inr j2"
    using assms(3) by (simp add: require_running_Inr)
  then show ?thesis
    using assms True
    by (cases outcome_of)
      (auto simp: run_once_def mem_complete_provisioning_job_def mem_fail_provisioning_job_def
         Let_def job_identity_def)
next
  case False
  then have "\<exists>m. require_running_provisioning_job (jb_job_id c) w s2 = Inl (ControlConflict m)"
    using assms(3) by (auto simp: require_running_provisioning_job_def)
  then show ?thesis
    using assms False
    by (cases outcome_of)
      (auto simp: run_once_def mem_complete_provisioning_job_def mem_fail_provisioning_job_def)
qed

lemma store_create_again:
  assumes "mem_create_provisioning_job job s = (Inr found, s')" and "jb_job_id job \<noteq> []"
    and "jb_requested_by job' = jb_requested_by job" and "jb_idempotency_key job' = jb_idempotency_key job"
    and "jb_tenant_id job' = jb_tenant_id job"
    and "jb_manifest_fingerprint job' = jb_manifest_fingerprint job"
  shows "mem_create_provisioning_job job' s' = (Inr found, s')"
proof -
  consider (key) i where "truthy (dict_get (cs_provisioning_job_keys s)
        (jb_requested_by job, jb_idempotency_key job)) = Some i"
    | (manifest) i where "truthy (dict_get (cs_provisioning_job_keys s)
        (jb_requested_by job, jb_idempotency_key job)) = None"
      "truthy (dict_get (cs_provisioning_manifest_keys s)
        (jb_tenant_id job, jb_manifest_fingerprint job)) = Some i"
    | (fresh) "truthy (dict_get (cs_provisioning_job_keys s)
        (jb_requested_by job, jb_idempotency_key job)) = None"
      "truthy (dict_get (cs_provisioning_manifest_keys s)
        (jb_tenant_id job, jb_manifest_fingerprint job)) = None"
    by (meson not_None_eq)
  then show ?thesis
    using assms
    by cases (auto simp: mem_create_provisioning_job_def Let_def job_at_def split: option.splits)
qed

text \<open>
  Requesting the same provisioning twice is harmless: a repeated request of an Operator
  for the same manifest under the same idempotency key returns the job that the first one
  returned and leaves every job as it is.
\<close>

lemma create_provisioning_job_idempotent:
  assumes "create_provisioning_job fp uid euid session manifest key t u s = (Inr job, s1)"
    and "uid \<noteq> []" and "os_operator_id session' = os_operator_id session"
  shows "\<exists>s2. create_provisioning_job fp uid' euid' session' manifest key t' u' s1 = (Inr job, s2) \<and>
    cs_provisioning_jobs s2 = cs_provisioning_jobs s1"
proof -
  let ?new = "\<lambda>uid t. new_provisioning_job fp uid manifest key (os_operator_id session) t"
  have key: "py_strip key \<noteq> []"
    using assms(1) by (auto simp: create_provisioning_job_def)
  obtain s0 where first: "mem_create_provisioning_job (?new uid t) s = (Inr job, s0)"
    and "s1 = snd (record_operator_audit_event euid session ''provisioning_job.create''
      ''provisioning_job'' (job_target_ids job) ''succeeded'' None None None u s0)"
    using assms(1) key by (auto simp: create_provisioning_job_def elim!: and_then_Inr_E)
  then obtain events where s1: "s1 = s0\<lparr>cs_operator_audit_events := events\<rparr>"
    by (auto simp: record_operator_audit_event_def mem_save_operator_audit_event_def Let_def)
  have "mem_create_provisioning_job (?new uid t) (s\<lparr>cs_operator_audit_events := events\<rparr>) = (Inr job, s1)"
    using first by (auto simp: s1 mem_create_provisioning_job_def Let_def job_at_def split: option.splits)
  then have "mem_create_provisioning_job (?new uid' t') s1 = (Inr job, s1)"
    by (rule store_create_again) (simp_all add: new_provisioning_job_def assms(2))
  then show ?thesis
    using key assms(3)
    by (simp add: create_provisioning_job_def record_operator_audit_event_def Let_def
          mem_save_operator_audit_event_def)
qed

end
