(* ===== verification/ControlInvariants.thy ===== *)
theory ControlInvariants
  imports OperatorProvisioning
begin

text \<open>
  What the control plane keeps true. \<open>control_inv\<close> says that authority is never left
  dangling: every stored authority (a Membership, a Delegation, a Channel Binding, a token
  that has not been revoked, an Admin Session) is backed by active records that grant it.
  Each store operation preserves it; \<open>control_step\<close> is the step relation of all operations
  of \<^verbatim>\<open>ControlModule\<close> that change the state, and the invariant holds in every state they
  reach from the empty store.
\<close>

section \<open>Backing of a session\<close>

abbreviation tenant_of where "tenant_of s k \<equiv> dict_get (cs_tenants s) k"
abbreviation principal_of where "principal_of s k \<equiv> dict_get (cs_principals s) k"
abbreviation membership_of where "membership_of s t p \<equiv> dict_get (cs_memberships s) (t, p)"
abbreviation delegation_of where "delegation_of s k \<equiv> dict_get (cs_delegations s) k"
abbreviation binding_of where "binding_of s c e \<equiv> dict_get (cs_channel_bindings s) (c, e)"
abbreviation operator_of where "operator_of s k \<equiv> dict_get (cs_operators s) k"

definition active_principal :: "'v control_store \<Rightarrow> string \<Rightarrow> principal_kind \<Rightarrow> bool" where
  "active_principal s p kind \<longleftrightarrow>
     (\<exists>r. principal_of s p = Some r \<and> pr_active r \<and> pr_kind r = kind)"

definition active_member :: "'v control_store \<Rightarrow> string \<Rightarrow> string \<Rightarrow> string set \<Rightarrow> bool" where
  "active_member s t p roles \<longleftrightarrow>
     (\<exists>m. membership_of s t p = Some m \<and> mb_active m \<and> roles \<subseteq> mb_roles m)"

text \<open>The Delegation \<open>k\<close> is active and lets \<open>a\<close> act for \<open>u\<close> in \<open>t\<close>.\<close>

definition active_delegation :: "'v control_store \<Rightarrow> string \<Rightarrow> string \<Rightarrow> string \<Rightarrow> string \<Rightarrow> bool" where
  "active_delegation s k t a u \<longleftrightarrow>
     (\<exists>d. delegation_of s k = Some d \<and> dg_active d \<and> dg_tenant_id d = t \<and> dg_agent_id d = a \<and>
        dg_subject_user_id d = u)"

definition session_backed :: "'v control_store \<Rightarrow> tenant_session \<Rightarrow> bool" where
  "session_backed s ses \<longleftrightarrow>
     active_principal s (ts_actor_id ses) (ts_actor_kind ses) \<and>
     active_member s (ts_tenant_id ses) (ts_actor_id ses) (ts_roles ses) \<and>
     (\<forall>k. ts_delegation_id ses = Some k \<longrightarrow>
        (\<exists>u. ts_subject_user_id ses = Some u \<and>
           active_delegation s k (ts_tenant_id ses) (ts_actor_id ses) u))"

definition operator_backed :: "'v control_store \<Rightarrow> operator_session \<Rightarrow> bool" where
  "operator_backed s ses \<longleftrightarrow>
     (\<exists>r. operator_of s (os_operator_id ses) = Some r \<and> op_active r \<and> op_roles r \<noteq> {} \<and>
        op_roles r = os_roles ses)"

section \<open>The invariant\<close>

definition dicts_ok :: "'v control_store \<Rightarrow> bool" where
  "dicts_ok s \<longleftrightarrow> dict_ok (cs_operators s) \<and> dict_ok (cs_memberships s) \<and> dict_ok (cs_principals s) \<and>
     dict_ok (cs_delegations s) \<and> dict_ok (cs_tokens s) \<and> dict_ok (cs_operator_tokens s)"

definition entities_ok :: "'v control_store \<Rightarrow> bool" where
  "entities_ok s \<longleftrightarrow>
     (\<forall>k r. tenant_of s k = Some r \<longrightarrow> tr_tenant_id r = k \<and> tr_active r) \<and>
     (\<forall>k r. principal_of s k = Some r \<longrightarrow> pr_principal_id r = k) \<and>
     (\<forall>k r. operator_of s k = Some r \<longrightarrow> op_operator_id r = k \<and> op_roles r \<subseteq> VALID_OPERATOR_ROLES)"

definition membership_ok :: "'v control_store \<Rightarrow> string \<Rightarrow> string \<Rightarrow> membership_record \<Rightarrow> bool" where
  "membership_ok s t p m \<longleftrightarrow>
     mb_tenant_id m = t \<and> mb_principal_id m = p \<and> mb_roles m \<noteq> {} \<and> mb_roles m \<subseteq> VALID_ROLES \<and>
     tenant_of s t \<noteq> None \<and>
     (\<exists>r. principal_of s p = Some r \<and> (mb_active m \<longrightarrow> pr_active r) \<and>
        (pr_kind r = AGENT \<longrightarrow> mb_roles m = {''tenant_member''}))"

definition memberships_ok :: "'v control_store \<Rightarrow> bool" where
  "memberships_ok s \<longleftrightarrow> (\<forall>t p m. membership_of s t p = Some m \<longrightarrow> membership_ok s t p m)"

definition delegations_ok :: "'v control_store \<Rightarrow> bool" where
  "delegations_ok s \<longleftrightarrow> (\<forall>k d. delegation_of s k = Some d \<longrightarrow> dg_delegation_id d = k \<and>
     (dg_active d \<longrightarrow>
        active_principal s (dg_agent_id d) AGENT \<and> active_principal s (dg_subject_user_id d) USER \<and>
        active_member s (dg_tenant_id d) (dg_agent_id d) {} \<and>
        active_member s (dg_tenant_id d) (dg_subject_user_id d) {}))"

definition bindings_ok :: "'v control_store \<Rightarrow> bool" where
  "bindings_ok s \<longleftrightarrow> (\<forall>c e b. binding_of s c e = Some b \<longrightarrow> cb_channel b = c \<and> cb_external_id b = e \<and>
     (cb_active b \<longrightarrow>
        active_delegation s (cb_delegation_id b) (cb_tenant_id b) (cb_agent_id b) (cb_user_id b)))"

definition tokens_ok :: "'v control_store \<Rightarrow> bool" where
  "tokens_ok s \<longleftrightarrow> (\<forall>k r. token_at k s = Some r \<longrightarrow>
     tk_token_id r = k \<and> ts_token_id (tk_session r) = Some k \<and> session_wf (tk_session r) \<and>
     (tk_revoked_at r = None \<longrightarrow> session_backed s (tk_session r)))"

definition operator_tokens_ok :: "'v control_store \<Rightarrow> bool" where
  "operator_tokens_ok s \<longleftrightarrow> (\<forall>k r. operator_token_at k s = Some r \<longrightarrow>
     tk_token_id r = k \<and> os_token_id (tk_session r) = Some k \<and> os_session_id (tk_session r) = None \<and>
     (tk_revoked_at r = None \<longrightarrow> operator_backed s (tk_session r)))"

text \<open>The absolute expiry is 8 hours after issue, and the idle expiry never later.\<close>

definition admin_times_ok :: "'v admin_session_record \<Rightarrow> bool" where
  "admin_times_ok r \<longleftrightarrow> as_absolute_expires_at r = as_issued_at r + ABSOLUTE_LIFETIME \<and>
     as_idle_expires_at r \<le> as_absolute_expires_at r"

definition admin_sessions_ok :: "'v control_store \<Rightarrow> bool" where
  "admin_sessions_ok s \<longleftrightarrow> (\<forall>k r. admin_session_at k s = Some r \<longrightarrow>
     as_session_id r = k \<and> os_session_id (as_session r) = Some k \<and> admin_times_ok r \<and>
     (as_revoked_at r = None \<longrightarrow> operator_backed s (as_session r)))"

definition control_inv :: "'v control_store \<Rightarrow> bool" where
  "control_inv s \<longleftrightarrow> dicts_ok s \<and> entities_ok s \<and> memberships_ok s \<and> delegations_ok s \<and>
     bindings_ok s \<and> tokens_ok s \<and> operator_tokens_ok s \<and> admin_sessions_ok s"

named_theorems inv_parts
lemmas inv_part_defs [inv_parts] =
  dicts_ok_def entities_ok_def memberships_ok_def delegations_ok_def bindings_ok_def tokens_ok_def
  operator_tokens_ok_def admin_sessions_ok_def

lemmas backing_defs =
  active_principal_def active_member_def active_delegation_def session_backed_def operator_backed_def

lemma control_inv_empty: "control_inv empty_control_store"
  by (simp add: control_inv_def inv_parts)

lemma control_invD:
  assumes "control_inv s"
  shows "dicts_ok s" "entities_ok s" "memberships_ok s" "delegations_ok s" "bindings_ok s"
    "tokens_ok s" "operator_tokens_ok s" "admin_sessions_ok s"
  using assms by (simp_all add: control_inv_def)

lemma stored_membership: "control_inv s \<Longrightarrow> membership_of s t p = Some m \<Longrightarrow> membership_ok s t p m"
  by (simp add: control_inv_def memberships_ok_def)

lemma stored_delegation:
  assumes "control_inv s" and "delegation_of s k = Some d"
  shows "dg_delegation_id d = k"
    and "dg_active d \<Longrightarrow> active_principal s (dg_agent_id d) AGENT"
    and "dg_active d \<Longrightarrow> active_principal s (dg_subject_user_id d) USER"
    and "dg_active d \<Longrightarrow> active_member s (dg_tenant_id d) (dg_agent_id d) {}"
    and "dg_active d \<Longrightarrow> active_member s (dg_tenant_id d) (dg_subject_user_id d) {}"
  using assms by (simp_all add: control_inv_def delegations_ok_def)

lemma active_update_eq [simp]:
  "m = m\<lparr>mb_active := b\<rparr> \<longleftrightarrow> mb_active m = b" "m\<lparr>mb_active := b\<rparr> = m \<longleftrightarrow> mb_active m = b"
  "d = d\<lparr>dg_active := b\<rparr> \<longleftrightarrow> dg_active d = b" "d\<lparr>dg_active := b\<rparr> = d \<longleftrightarrow> dg_active d = b"
  "c = c\<lparr>cb_active := b\<rparr> \<longleftrightarrow> cb_active c = b" "c\<lparr>cb_active := b\<rparr> = c \<longleftrightarrow> cb_active c = b"
  by (cases m; cases d; cases c; auto)+

lemma keys_where_at [simp]:
  "dict_ok d \<Longrightarrow> dict_get d k = Some v \<Longrightarrow> k \<in> keys_where p d \<longleftrightarrow> p v"
  by (simp add: keys_where_iff)

lemma operators_frame:
  assumes "cs_operators s' = cs_operators s"
  shows "cs_operator_tokens s' = cs_operator_tokens s \<Longrightarrow> operator_tokens_ok s' = operator_tokens_ok s"
    and "cs_admin_sessions s' = cs_admin_sessions s \<Longrightarrow> admin_sessions_ok s' = admin_sessions_ok s"
  using assms by (simp_all add: operator_tokens_ok_def admin_sessions_ok_def operator_backed_def)

section \<open>Growth\<close>

text \<open>
  \<open>backing_kept s s'\<close>: whatever backed an authority in \<open>s\<close> still does in \<open>s'\<close>. An operation
  that only adds records or authority keeps all backing, so it keeps the invariant of the
  dictionaries it does not write.
\<close>

definition backing_kept :: "'v control_store \<Rightarrow> 'v control_store \<Rightarrow> bool" where
  "backing_kept s s' \<longleftrightarrow>
     (\<forall>p kind. active_principal s p kind \<longrightarrow> active_principal s' p kind) \<and>
     (\<forall>t p roles. active_member s t p roles \<longrightarrow> active_member s' t p roles) \<and>
     (\<forall>k t a u. active_delegation s k t a u \<longrightarrow> active_delegation s' k t a u) \<and>
     (\<forall>ses. operator_backed s ses \<longrightarrow> operator_backed s' ses)"

lemma backing_kept_session: "backing_kept s s' \<Longrightarrow> session_backed s ses \<Longrightarrow> session_backed s' ses"
  unfolding backing_kept_def session_backed_def by blast

lemma backing_kept_frame:
  assumes "backing_kept s s'"
  shows "cs_delegations s' = cs_delegations s \<Longrightarrow> delegations_ok s \<Longrightarrow> delegations_ok s'"
    and "cs_channel_bindings s' = cs_channel_bindings s \<Longrightarrow> bindings_ok s \<Longrightarrow> bindings_ok s'"
    and "cs_tokens s' = cs_tokens s \<Longrightarrow> tokens_ok s \<Longrightarrow> tokens_ok s'"
    and "cs_operator_tokens s' = cs_operator_tokens s \<Longrightarrow> operator_tokens_ok s \<Longrightarrow> operator_tokens_ok s'"
    and "cs_admin_sessions s' = cs_admin_sessions s \<Longrightarrow> admin_sessions_ok s \<Longrightarrow> admin_sessions_ok s'"
  using assms backing_kept_session [OF assms]
  unfolding delegations_ok_def bindings_ok_def tokens_ok_def operator_tokens_ok_def
    admin_sessions_ok_def backing_kept_def
  by metis+

section \<open>Revocation cascades\<close>

lemma revoke_matching_tokens_fields [simp]:
  "cs_operators (revoke_matching_tokens p t s) = cs_operators s"
  "cs_operator_tokens (revoke_matching_tokens p t s) = cs_operator_tokens s"
  "cs_admin_sessions (revoke_matching_tokens p t s) = cs_admin_sessions s"
  "cs_tenants (revoke_matching_tokens p t s) = cs_tenants s"
  "cs_principals (revoke_matching_tokens p t s) = cs_principals s"
  "cs_memberships (revoke_matching_tokens p t s) = cs_memberships s"
  "cs_delegations (revoke_matching_tokens p t s) = cs_delegations s"
  "cs_channel_bindings (revoke_matching_tokens p t s) = cs_channel_bindings s"
  by (simp_all add: revoke_matching_tokens_def)

lemma revoke_matching_tokens_backing [simp]:
  "active_principal (revoke_matching_tokens p t s) = active_principal s"
  "active_member (revoke_matching_tokens p t s) = active_member s"
  "active_delegation (revoke_matching_tokens p t s) = active_delegation s"
  "session_backed (revoke_matching_tokens p t s) = session_backed s"
  "operator_backed (revoke_matching_tokens p t s) = operator_backed s"
  by (simp_all add: backing_defs fun_eq_iff)

lemma revoke_matching_tokens_lookup:
  "token_at k (revoke_matching_tokens p t s) =
     map_option (\<lambda>r. if p r \<and> tk_revoked_at r = None then r\<lparr>tk_revoked_at := Some t\<rparr> else r) (token_at k s)"
  by (simp add: revoke_matching_tokens_def)

lemma revoke_matching_tokens_ok [simp]:
  "dict_ok (cs_tokens (revoke_matching_tokens p t s)) = dict_ok (cs_tokens s)"
  by (simp add: revoke_matching_tokens_def)

text \<open>
  Revoking the tokens that match \<open>p\<close> keeps the token invariant when the state changed only
  in a way that leaves every other live token backed.
\<close>

lemma tokens_ok_revoke:
  assumes "tokens_ok s" and "cs_tokens s1 = cs_tokens s"
    and "\<And>k r. token_at k s = Some r \<Longrightarrow> tk_revoked_at r = None \<Longrightarrow> \<not> p r \<Longrightarrow>
           session_backed s (tk_session r) \<Longrightarrow> session_backed s1 (tk_session r)"
  shows "tokens_ok (revoke_matching_tokens p t s1)"
proof -
  show ?thesis
    unfolding tokens_ok_def
  proof (intro allI impI)
    fix k r'
    assume "token_at k (revoke_matching_tokens p t s1) = Some r'"
    then obtain r where r: "token_at k s = Some r"
      and r': "r' = (if p r \<and> tk_revoked_at r = None then r\<lparr>tk_revoked_at := Some t\<rparr> else r)"
      by (auto simp: revoke_matching_tokens_lookup assms(2))
    with assms(1) have "tk_token_id r = k" "ts_token_id (tk_session r) = Some k"
      "session_wf (tk_session r)" "tk_revoked_at r = None \<longrightarrow> session_backed s (tk_session r)"
      by (auto simp: tokens_ok_def)
    with assms(3) [OF r] show "tk_token_id r' = k \<and> ts_token_id (tk_session r') = Some k \<and>
        session_wf (tk_session r') \<and>
        (tk_revoked_at r' = None \<longrightarrow> session_backed (revoke_matching_tokens p t s1) (tk_session r'))"
      by (auto simp: r')
  qed
qed

lemma mem_disable_principal_inv:
  assumes "mem_disable_principal p t s = (r, s')" and "control_inv s"
  shows "control_inv s'"
proof (cases "principal_of s p")
  case None
  then show ?thesis using assms by (simp add: mem_disable_principal_def)
next
  case (Some current)
  note parts = control_invD [OF assms(2)]
  have ok: "dict_ok (cs_delegations s)" and keys: "\<And>k r. principal_of s k = Some r \<Longrightarrow> pr_principal_id r = k"
    using parts(1,2) by (auto simp: dicts_ok_def entities_ok_def)
  let ?s1 = "s\<lparr>cs_principals := dict_set p (current\<lparr>pr_active := False\<rparr>) (cs_principals s),
      cs_memberships := dict_map (\<lambda>m. if mb_principal_id m = p then m\<lparr>mb_active := False\<rparr> else m)
        (cs_memberships s),
      cs_delegations := dict_map_keyed (\<lambda>k d. if k \<in> keys_where (\<lambda>d. dg_agent_id d = p \<or>
          dg_subject_user_id d = p) (cs_delegations s) then d\<lparr>dg_active := False\<rparr> else d) (cs_delegations s),
      cs_channel_bindings := dict_map (\<lambda>b. if cb_agent_id b = p \<or> cb_user_id b = p \<or>
          cb_delegation_id b \<in> keys_where (\<lambda>d. dg_agent_id d = p \<or> dg_subject_user_id d = p)
            (cs_delegations s) then b\<lparr>cb_active := False\<rparr> else b) (cs_channel_bindings s)\<rparr>"
  let ?p = "\<lambda>r. ts_actor_id (tk_session r) = p \<or> ts_subject_user_id (tk_session r) = Some p"
  have s': "s' = revoke_matching_tokens ?p t ?s1"
    using assms(1) Some by (simp add: mem_disable_principal_def Let_def)
  have mk: "mb_tenant_id m = t \<and> mb_principal_id m = q" if "membership_of s t q = Some m" for t q m
    using parts(3) that by (auto simp: memberships_ok_def membership_ok_def)
  have prin: "active_principal ?s1 q kind \<longleftrightarrow> active_principal s q kind \<and> q \<noteq> p" for q kind
    by (auto simp: active_principal_def dict_get_set)
  have mem: "active_member ?s1 t q roles \<longleftrightarrow> active_member s t q roles \<and> q \<noteq> p" for t q roles
    by (auto simp: active_member_def dest: mk)
  have del: "active_delegation ?s1 k t a u \<longleftrightarrow> active_delegation s k t a u \<and> a \<noteq> p \<and> u \<noteq> p" for k t a u
    using ok by (auto simp: active_delegation_def)
  have "dicts_ok s'" using parts(1) by (simp add: s' dicts_ok_def)
  moreover have "entities_ok s'" using parts(2) keys [OF Some] by (auto simp: s' entities_ok_def dict_get_set)
  moreover have "memberships_ok s'"
    unfolding memberships_ok_def
  proof (intro allI impI)
    fix t q m'
    assume "membership_of s' t q = Some m'"
    then obtain m where m: "membership_of s t q = Some m"
      and m': "m' = (if q = p then m\<lparr>mb_active := False\<rparr> else m)"
      by (auto simp: s' dest: mk)
    from parts(3) m have "membership_ok s t q m" by (simp add: memberships_ok_def)
    then show "membership_ok s' t q m'"
      using Some by (cases "q = p") (auto simp: s' m' membership_ok_def)
  qed
  moreover have "delegations_ok s'"
    using parts(4) ok by (auto simp: s' delegations_ok_def prin mem)
  moreover have "bindings_ok s'"
    using parts(5) by (auto simp: s' bindings_ok_def del)
  moreover have "tokens_ok s'"
    unfolding s' using parts(6)
  proof (rule tokens_ok_revoke)
    show "session_backed ?s1 (tk_session r)"
      if "session_backed s (tk_session r)" "\<not> ?p r" for k r
      using that unfolding session_backed_def prin mem del by auto
  qed simp
  moreover have "operator_tokens_ok s'" "admin_sessions_ok s'"
    using parts(7,8) operators_frame [of s' s] by (simp_all add: s')
  ultimately show ?thesis by (simp add: control_inv_def)
qed

lemma mem_disable_membership_inv:
  assumes "mem_disable_membership t p now s = (r, s')" and "control_inv s"
  shows "control_inv s'"
proof (cases "membership_of s t p")
  case None
  then show ?thesis using assms by (simp add: mem_disable_membership_def)
next
  case (Some current)
  note parts = control_invD [OF assms(2)]
  have ok: "dict_ok (cs_delegations s)" using parts(1) by (simp add: dicts_ok_def)
  let ?hit = "\<lambda>d. dg_tenant_id d = t \<and> (dg_agent_id d = p \<or> dg_subject_user_id d = p)"
  let ?affected = "keys_where ?hit (cs_delegations s)"
  let ?s1 = "s\<lparr>cs_memberships := dict_set (t, p) (current\<lparr>mb_active := False\<rparr>) (cs_memberships s),
      cs_delegations := dict_map_keyed (\<lambda>k d. if k \<in> ?affected then d\<lparr>dg_active := False\<rparr> else d)
        (cs_delegations s),
      cs_channel_bindings := dict_map (\<lambda>b. if cb_delegation_id b \<in> ?affected
        then b\<lparr>cb_active := False\<rparr> else b) (cs_channel_bindings s)\<rparr>"
  let ?p = "\<lambda>r. ts_tenant_id (tk_session r) = t \<and>
      (ts_actor_id (tk_session r) = p \<or> ts_subject_user_id (tk_session r) = Some p)"
  have s': "s' = revoke_matching_tokens ?p now ?s1"
    using assms(1) Some by (simp add: mem_disable_membership_def Let_def)
  have prin: "active_principal ?s1 = active_principal s"
    by (simp add: active_principal_def fun_eq_iff)
  have mem: "active_member ?s1 t' q roles \<longleftrightarrow> active_member s t' q roles \<and> (t', q) \<noteq> (t, p)" for t' q roles
    by (auto simp: active_member_def dict_get_set)
  have del: "active_delegation ?s1 k t' a u \<longleftrightarrow>
      active_delegation s k t' a u \<and> \<not> (t' = t \<and> (a = p \<or> u = p))" for k t' a u
    using ok by (auto simp: active_delegation_def)
  have hit: "k \<in> ?affected" if "active_delegation s k t a u" "a = p \<or> u = p" for k a u
    using ok that by (auto simp: active_delegation_def)
  have "dicts_ok s'" "entities_ok s'" using parts(1,2) by (simp_all add: s' dicts_ok_def entities_ok_def)
  moreover have "memberships_ok s'"
    unfolding memberships_ok_def
  proof (intro allI impI)
    fix t' q m'
    assume "membership_of s' t' q = Some m'"
    then obtain m where m: "membership_of s t' q = Some m"
      and m': "m' = (if (t', q) = (t, p) then m\<lparr>mb_active := False\<rparr> else m)"
      using Some by (auto simp: s' dict_get_set split: if_splits)
    from parts(3) m have "membership_ok s t' q m" by (simp add: memberships_ok_def)
    then show "membership_ok s' t' q m'"
      by (auto simp: s' m' membership_ok_def)
  qed
  moreover have "delegations_ok s'"
    using parts(4) ok by (auto simp: s' delegations_ok_def prin mem)
  moreover have "bindings_ok s'"
    using parts(5) hit by (fastforce simp: s' bindings_ok_def del)
  moreover have "tokens_ok s'"
    unfolding s' using parts(6)
  proof (rule tokens_ok_revoke)
    show "session_backed ?s1 (tk_session r)"
      if "session_backed s (tk_session r)" "\<not> ?p r" for k r
      using that unfolding session_backed_def prin mem del by auto
  qed simp
  moreover have "operator_tokens_ok s'" "admin_sessions_ok s'"
    using parts(7,8) operators_frame [of s' s] by (simp_all add: s')
  ultimately show ?thesis by (simp add: control_inv_def)
qed

lemma mem_revoke_delegation_inv:
  assumes "mem_revoke_delegation k now s = (r, s')" and "control_inv s"
  shows "control_inv s'"
proof (cases "delegation_of s k")
  case None
  then show ?thesis using assms by (simp add: mem_revoke_delegation_def)
next
  case (Some current)
  note parts = control_invD [OF assms(2)]
  let ?s1 = "s\<lparr>cs_delegations := dict_set k (current\<lparr>dg_active := False\<rparr>) (cs_delegations s),
      cs_channel_bindings := dict_map (\<lambda>b. if cb_delegation_id b = k
        then b\<lparr>cb_active := False\<rparr> else b) (cs_channel_bindings s)\<rparr>"
  let ?p = "\<lambda>r. ts_delegation_id (tk_session r) = Some k"
  have s': "s' = revoke_matching_tokens ?p now ?s1"
    using assms(1) Some by (simp add: mem_revoke_delegation_def Let_def)
  have same: "active_principal ?s1 = active_principal s" "active_member ?s1 = active_member s"
    by (simp_all add: active_principal_def active_member_def fun_eq_iff)
  have del: "active_delegation ?s1 i t a u \<longleftrightarrow> active_delegation s i t a u \<and> i \<noteq> k" for i t a u
    by (auto simp: active_delegation_def dict_get_set)
  have "dicts_ok s'" "entities_ok s'" "memberships_ok s'"
    using parts(1-3) by (simp_all add: s' dicts_ok_def entities_ok_def memberships_ok_def membership_ok_def)
  moreover have "delegations_ok s'"
    using parts(4) Some by (auto simp: s' delegations_ok_def same dict_get_set)
  moreover have "bindings_ok s'"
    using parts(5) by (auto simp: s' bindings_ok_def del)
  moreover have "tokens_ok s'"
    unfolding s' using parts(6)
  proof (rule tokens_ok_revoke)
    show "session_backed ?s1 (tk_session r)"
      if "session_backed s (tk_session r)" "\<not> ?p r" for i r
      using that unfolding session_backed_def same del by auto
  qed simp
  moreover have "operator_tokens_ok s'" "admin_sessions_ok s'"
    using parts(7,8) operators_frame [of s' s] by (simp_all add: s')
  ultimately show ?thesis by (simp add: control_inv_def)
qed

section \<open>Writing one record\<close>

lemma revoke_none [simp]: "revoke_matching_tokens (\<lambda>_. False) t s = s"
  by (simp add: revoke_matching_tokens_def dict_map_def case_prod_unfold)

lemma set_principal_inv:
  assumes "control_inv s" and "principal_of s p = Some r \<or> principal_of s p = None \<and> r = r'"
    and "pr_principal_id r' = p" and "pr_kind r' = pr_kind r" and "pr_active r \<longrightarrow> pr_active r'"
  shows "control_inv (s\<lparr>cs_principals := dict_set p r' (cs_principals s)\<rparr>)"
proof -
  let ?s = "s\<lparr>cs_principals := dict_set p r' (cs_principals s)\<rparr>"
  note parts = control_invD [OF assms(1)]
  have kept: "backing_kept s ?s"
    using assms(2,4,5) by (auto simp: backing_kept_def backing_defs dict_get_set)
  have "dicts_ok ?s" "entities_ok ?s"
    using parts(1,2) assms(3) by (auto simp: dicts_ok_def entities_ok_def dict_get_set)
  moreover have "memberships_ok ?s"
    unfolding memberships_ok_def
  proof (intro allI impI)
    fix t q m assume "membership_of ?s t q = Some m"
    then have "membership_ok s t q m" using parts(3) by (simp add: memberships_ok_def)
    then show "membership_ok ?s t q m"
      using assms(2,4,5) unfolding membership_ok_def
      by (cases "q = p") (elim conjE exE disjE; simp)+
  qed
  moreover have "delegations_ok ?s" "bindings_ok ?s" "tokens_ok ?s" "operator_tokens_ok ?s" "admin_sessions_ok ?s"
    using backing_kept_frame [OF kept] parts by simp_all
  ultimately show ?thesis by (simp add: control_inv_def)
qed

lemma set_membership_inv:
  assumes "control_inv s" and "membership_ok s t p m'"
    and "active_member s t p {} \<longrightarrow> mb_active m'"
    and "\<And>k r. token_at k s = Some r \<Longrightarrow> tk_revoked_at r = None \<Longrightarrow>
           ts_tenant_id (tk_session r) = t \<Longrightarrow> ts_actor_id (tk_session r) = p \<Longrightarrow>
           hit r \<or> ts_roles (tk_session r) \<subseteq> mb_roles m'"
  shows "control_inv (revoke_matching_tokens hit now
           (s\<lparr>cs_memberships := dict_set (t, p) m' (cs_memberships s)\<rparr>))"
proof -
  let ?s1 = "s\<lparr>cs_memberships := dict_set (t, p) m' (cs_memberships s)\<rparr>"
  let ?s = "revoke_matching_tokens hit now ?s1"
  note parts = control_invD [OF assms(1)]
  have same: "active_principal ?s1 = active_principal s" "active_delegation ?s1 = active_delegation s"
    by (simp_all add: active_principal_def active_delegation_def fun_eq_iff)
  have mem: "active_member ?s1 t' q roles \<longleftrightarrow>
      (if (t', q) = (t, p) then mb_active m' \<and> roles \<subseteq> mb_roles m' else active_member s t' q roles)"
    for t' q roles by (auto simp: active_member_def dict_get_set)
  have "dicts_ok ?s" "entities_ok ?s" using parts(1,2) by (simp_all add: dicts_ok_def entities_ok_def)
  moreover have "memberships_ok ?s"
    using parts(3) assms(2)
    by (simp add: memberships_ok_def membership_ok_def dict_get_set)
  moreover have "delegations_ok ?s"
    using parts(4) assms(3) by (auto simp: delegations_ok_def same mem)
  moreover have "bindings_ok ?s" using parts(5) by (simp add: bindings_ok_def same)
  moreover have "tokens_ok ?s"
    using parts(6)
  proof (rule tokens_ok_revoke)
    fix k r assume r: "token_at k s = Some r" "tk_revoked_at r = None" "\<not> hit r"
      and backed: "session_backed s (tk_session r)"
    then have "active_member s (ts_tenant_id (tk_session r)) (ts_actor_id (tk_session r)) {}"
      by (auto simp: session_backed_def active_member_def)
    with backed assms(3) assms(4) [OF r(1,2)] r(3) show "session_backed ?s1 (tk_session r)"
      unfolding session_backed_def same mem by auto
  qed simp
  moreover have "operator_tokens_ok ?s" "admin_sessions_ok ?s"
    using parts(7,8) operators_frame [of ?s s] by simp_all
  ultimately show ?thesis by (simp add: control_inv_def)
qed

lemma set_delegation_inv:
  assumes "control_inv s" and "dg_delegation_id d' = k"
    and "delegation_of s k = Some d \<and> (dg_tenant_id d', dg_agent_id d', dg_subject_user_id d')
           = (dg_tenant_id d, dg_agent_id d, dg_subject_user_id d) \<or> delegation_of s k = None"
    and "dg_active d'"
    and "active_principal s (dg_agent_id d') AGENT" "active_principal s (dg_subject_user_id d') USER"
    and "active_member s (dg_tenant_id d') (dg_agent_id d') {}"
    and "active_member s (dg_tenant_id d') (dg_subject_user_id d') {}"
  shows "control_inv (s\<lparr>cs_delegations := dict_set k d' (cs_delegations s)\<rparr>)"
proof -
  let ?s = "s\<lparr>cs_delegations := dict_set k d' (cs_delegations s)\<rparr>"
  note parts = control_invD [OF assms(1)]
  have kept: "backing_kept s ?s"
    using assms(3,4) by (auto simp: backing_kept_def backing_defs dict_get_set)
  have same: "active_principal ?s = active_principal s" "active_member ?s = active_member s"
    by (simp_all add: active_principal_def active_member_def fun_eq_iff)
  have "dicts_ok ?s" "entities_ok ?s" "memberships_ok ?s"
    using parts(1-3) by (simp_all add: dicts_ok_def entities_ok_def memberships_ok_def membership_ok_def)
  moreover have "delegations_ok ?s"
    using parts(4) assms by (simp add: delegations_ok_def same dict_get_set)
  moreover have "bindings_ok ?s" "tokens_ok ?s" "operator_tokens_ok ?s" "admin_sessions_ok ?s"
    using backing_kept_frame [OF kept] parts by simp_all
  ultimately show ?thesis by (simp add: control_inv_def)
qed

lemma set_binding_inv:
  assumes "control_inv s"
    and "cb_active b \<longrightarrow>
      active_delegation s (cb_delegation_id b) (cb_tenant_id b) (cb_agent_id b) (cb_user_id b)"
  shows "control_inv (s\<lparr>cs_channel_bindings :=
           dict_set (cb_channel b, cb_external_id b) b (cs_channel_bindings s)\<rparr>)"
    and "control_inv (s\<lparr>cs_channel_bindings := dict_pop key (cs_channel_bindings s)\<rparr>)"
proof -
  note parts = control_invD [OF assms(1)]
  have frame: "control_inv (s\<lparr>cs_channel_bindings := d\<rparr>) \<longleftrightarrow> bindings_ok (s\<lparr>cs_channel_bindings := d\<rparr>)"
    for d
  proof -
    let ?s = "s\<lparr>cs_channel_bindings := d\<rparr>"
    have "backing_kept s ?s" by (simp add: backing_kept_def backing_defs)
    from backing_kept_frame [OF this] show ?thesis
      using parts
      by (simp add: control_inv_def dicts_ok_def entities_ok_def memberships_ok_def membership_ok_def)
  qed
  have same: "active_delegation (s\<lparr>cs_channel_bindings := d\<rparr>) = active_delegation s" for d
    by (simp add: active_delegation_def fun_eq_iff)
  show "control_inv (s\<lparr>cs_channel_bindings :=
      dict_set (cb_channel b, cb_external_id b) b (cs_channel_bindings s)\<rparr>)"
    using parts(5) assms(2) by (simp add: frame bindings_ok_def same dict_get_set)
  show "control_inv (s\<lparr>cs_channel_bindings := dict_pop key (cs_channel_bindings s)\<rparr>)"
    using parts(5) by (simp add: frame bindings_ok_def same dict_get_pop)
qed

lemma set_token_inv:
  assumes "control_inv s" and "tk_token_id r = k" and "ts_token_id (tk_session r) = Some k"
    and "session_wf (tk_session r)" and "tk_revoked_at r = None \<longrightarrow> session_backed s (tk_session r)"
  shows "control_inv (s\<lparr>cs_tokens := dict_set k r (cs_tokens s)\<rparr>)"
proof -
  let ?s = "s\<lparr>cs_tokens := dict_set k r (cs_tokens s)\<rparr>"
  note parts = control_invD [OF assms(1)]
  have kept: "backing_kept s ?s" by (simp add: backing_kept_def backing_defs)
  have "tokens_ok ?s"
    using parts(6) assms backing_kept_session [OF kept] by (simp add: tokens_ok_def dict_get_set)
  then show ?thesis
    using parts backing_kept_frame [OF kept]
    by (simp add: control_inv_def dicts_ok_def entities_ok_def memberships_ok_def membership_ok_def)
qed

lemma set_operator_token_inv:
  assumes "control_inv s" and "tk_token_id r = k" and "os_token_id (tk_session r) = Some k"
    and "os_session_id (tk_session r) = None"
    and "tk_revoked_at r = None \<longrightarrow> operator_backed s (tk_session r)"
  shows "control_inv (s\<lparr>cs_operator_tokens := dict_set k r (cs_operator_tokens s)\<rparr>)"
proof -
  let ?s = "s\<lparr>cs_operator_tokens := dict_set k r (cs_operator_tokens s)\<rparr>"
  note parts = control_invD [OF assms(1)]
  have kept: "backing_kept s ?s" by (simp add: backing_kept_def backing_defs)
  have "operator_backed ?s = operator_backed s" by (simp add: operator_backed_def fun_eq_iff)
  then have "operator_tokens_ok ?s"
    using parts(7) assms by (simp add: operator_tokens_ok_def dict_get_set)
  then show ?thesis
    using parts backing_kept_frame [OF kept]
    by (simp add: control_inv_def dicts_ok_def entities_ok_def memberships_ok_def membership_ok_def)
qed

lemma set_admin_session_inv:
  assumes "control_inv s" and "as_session_id r = k" and "os_session_id (as_session r) = Some k"
    and "admin_times_ok r"
    and "as_revoked_at r = None \<longrightarrow> operator_backed s (as_session r)"
  shows "control_inv (s\<lparr>cs_admin_sessions := dict_set k r (cs_admin_sessions s)\<rparr>)"
proof -
  let ?s = "s\<lparr>cs_admin_sessions := dict_set k r (cs_admin_sessions s)\<rparr>"
  note parts = control_invD [OF assms(1)]
  have kept: "backing_kept s ?s" by (simp add: backing_kept_def backing_defs)
  have "operator_backed ?s = operator_backed s" by (simp add: operator_backed_def fun_eq_iff)
  then have "admin_sessions_ok ?s"
    using parts(8) assms by (simp add: admin_sessions_ok_def dict_get_set)
  then show ?thesis
    using parts backing_kept_frame [OF kept]
    by (simp add: control_inv_def dicts_ok_def entities_ok_def memberships_ok_def membership_ok_def)
qed

lemma control_inv_frame [simp]:
  "control_inv (s\<lparr>cs_operator_audit_events := d1\<rparr>) = control_inv s"
  "control_inv (s\<lparr>cs_provisioning_jobs := d2\<rparr>) = control_inv s"
  "control_inv (s\<lparr>cs_provisioning_job_keys := d3\<rparr>) = control_inv s"
  "control_inv (s\<lparr>cs_provisioning_manifest_keys := d4\<rparr>) = control_inv s"
  "control_inv (s\<lparr>cs_routes := d5\<rparr>) = control_inv s"
  "control_inv (s\<lparr>cs_token_lifetime_days := d6\<rparr>) = control_inv s"
  by (simp_all add: control_inv_def inv_parts membership_ok_def backing_defs)

lemma add_tenant_inv:
  assumes "control_inv s" and "tr_tenant_id r = k" and "tr_active r"
  shows "control_inv (s\<lparr>cs_tenants := dict_set k r (cs_tenants s)\<rparr>)"
proof -
  let ?s = "s\<lparr>cs_tenants := dict_set k r (cs_tenants s)\<rparr>"
  note parts = control_invD [OF assms(1)]
  have kept: "backing_kept s ?s" by (simp add: backing_kept_def backing_defs)
  have "dicts_ok ?s" "entities_ok ?s"
    using parts(1,2) assms(2,3) by (simp_all add: dicts_ok_def entities_ok_def dict_get_set)
  moreover have "memberships_ok ?s"
    using parts(3) by (fastforce simp: memberships_ok_def membership_ok_def dict_get_set)
  ultimately show ?thesis
    using parts backing_kept_frame [OF kept] by (simp add: control_inv_def)
qed

text \<open>Writing an Operator: its live credentials must carry its new roles, or be revoked.\<close>

lemma set_operator_inv:
  assumes "control_inv s" and "op_operator_id r = k" and "op_roles r \<subseteq> VALID_OPERATOR_ROLES"
    and tokens: "\<And>i t. operator_token_at i s = Some t \<Longrightarrow> os_operator_id (tk_session t) = k \<Longrightarrow>
           tk_revoked_at t = None \<Longrightarrow> hit \<or> op_active r \<and> op_roles r \<noteq> {} \<and> op_roles r = os_roles (tk_session t)"
    and sessions: "\<And>i t. admin_session_at i s = Some t \<Longrightarrow> os_operator_id (as_session t) = k \<Longrightarrow>
           as_revoked_at t = None \<Longrightarrow> hit \<or> op_active r \<and> op_roles r \<noteq> {} \<and> op_roles r = os_roles (as_session t)"
  shows "control_inv (s\<lparr>cs_operators := dict_set k r (cs_operators s),
    cs_operator_tokens := (if hit then dict_map (\<lambda>t. if os_operator_id (tk_session t) = k
        \<and> tk_revoked_at t = None then t\<lparr>tk_revoked_at := Some now\<rparr> else t) (cs_operator_tokens s)
      else cs_operator_tokens s),
    cs_admin_sessions := (if hit then dict_map (\<lambda>t. if os_operator_id (as_session t) = k
        \<and> as_revoked_at t = None then t\<lparr>as_revoked_at := Some now\<rparr> else t) (cs_admin_sessions s)
      else cs_admin_sessions s)\<rparr>)" (is "control_inv ?s")
proof -
  note parts = control_invD [OF assms(1)]
  have backed: "operator_backed ?s ses \<longleftrightarrow> (if os_operator_id ses = k
      then op_active r \<and> op_roles r \<noteq> {} \<and> op_roles r = os_roles ses else operator_backed s ses)" for ses
    by (simp add: operator_backed_def dict_get_set)
  have same: "active_principal ?s = active_principal s" "active_member ?s = active_member s"
    "active_delegation ?s = active_delegation s" "session_backed ?s = session_backed s"
    by (simp_all add: backing_defs fun_eq_iff)
  have "dicts_ok ?s" "entities_ok ?s" "memberships_ok ?s"
    using parts(1-3) assms(2,3)
    by (simp_all add: dicts_ok_def entities_ok_def memberships_ok_def membership_ok_def dict_get_set)
  moreover have "delegations_ok ?s" "bindings_ok ?s" "tokens_ok ?s"
    using parts(4-6) by (simp_all add: delegations_ok_def bindings_ok_def tokens_ok_def same)
  moreover have "operator_tokens_ok ?s"
    unfolding operator_tokens_ok_def
  proof (intro allI impI)
    fix i t' assume "operator_token_at i ?s = Some t'"
    moreover have "operator_token_at i ?s = map_option (\<lambda>t. if hit \<and> os_operator_id (tk_session t) = k
        \<and> tk_revoked_at t = None then t\<lparr>tk_revoked_at := Some now\<rparr> else t) (operator_token_at i s)"
      by (simp add: option.map_ident)
    ultimately obtain t where t: "operator_token_at i s = Some t"
      and t': "t' = (if hit \<and> os_operator_id (tk_session t) = k \<and> tk_revoked_at t = None
                     then t\<lparr>tk_revoked_at := Some now\<rparr> else t)"
      by (auto simp only: map_option_eq_Some)
    from parts(7) t have wf: "tk_token_id t = i" "os_token_id (tk_session t) = Some i"
      "os_session_id (tk_session t) = None" "tk_revoked_at t = None \<longrightarrow> operator_backed s (tk_session t)"
      by (simp_all add: operator_tokens_ok_def)
    show "tk_token_id t' = i \<and> os_token_id (tk_session t') = Some i \<and> os_session_id (tk_session t') = None \<and>
        (tk_revoked_at t' = None \<longrightarrow> operator_backed ?s (tk_session t'))"
      using wf tokens [OF t] unfolding backed by (auto simp: t')
  qed
  moreover have "admin_sessions_ok ?s"
    unfolding admin_sessions_ok_def
  proof (intro allI impI)
    fix i t' assume "admin_session_at i ?s = Some t'"
    moreover have "admin_session_at i ?s = map_option (\<lambda>t. if hit \<and> os_operator_id (as_session t) = k
        \<and> as_revoked_at t = None then t\<lparr>as_revoked_at := Some now\<rparr> else t) (admin_session_at i s)"
      by (simp add: option.map_ident)
    ultimately obtain t where t: "admin_session_at i s = Some t"
      and t': "t' = (if hit \<and> os_operator_id (as_session t) = k \<and> as_revoked_at t = None
                     then t\<lparr>as_revoked_at := Some now\<rparr> else t)"
      by (auto simp only: map_option_eq_Some)
    from parts(8) t have wf: "as_session_id t = i" "os_session_id (as_session t) = Some i"
      "admin_times_ok t"
      "as_revoked_at t = None \<longrightarrow> operator_backed s (as_session t)"
      by (auto simp: admin_sessions_ok_def)
    show "as_session_id t' = i \<and> os_session_id (as_session t') = Some i \<and>
        admin_times_ok t' \<and>
        (as_revoked_at t' = None \<longrightarrow> operator_backed ?s (as_session t'))"
      using wf sessions [OF t] unfolding backed by (auto simp: t' admin_times_ok_def)
  qed
  ultimately show ?thesis by (simp add: control_inv_def)
qed

section \<open>Every operation of the control plane keeps the invariant\<close>

text \<open>
  The methods in the order of the class. Authentication, rotation and revocation of a
  credential go through the store interface of the token services.
\<close>

lemmas control_inv_lookups =
  mem_get_operator_def mem_get_tenant_def mem_get_principal_def mem_get_membership_def
  mem_get_delegation_def mem_get_channel_binding_def

lemma live_backed:
  assumes "control_inv s"
  shows "token_at k s = Some r \<Longrightarrow> tk_revoked_at r = None \<Longrightarrow> session_backed s (tk_session r)"
    and "operator_token_at k s = Some t \<Longrightarrow> tk_revoked_at t = None \<Longrightarrow> operator_backed s (tk_session t)"
    and "admin_session_at k s = Some a \<Longrightarrow> as_revoked_at a = None \<Longrightarrow> operator_backed s (as_session a)"
  using assms by (simp_all add: control_inv_def tokens_ok_def operator_tokens_ok_def admin_sessions_ok_def)

lemma create_operator_inv:
  assumes "create_operator k name roles s = (r, s')" and inv: "control_inv s"
  shows "control_inv s'"
proof (cases "operator_of s k = None \<and> roles \<subseteq> VALID_OPERATOR_ROLES")
  case True
  let ?new = "\<lparr>op_operator_id = k, op_name = py_strip name, op_roles = roles, op_active = True\<rparr>"
  have "os_operator_id ses \<noteq> k" if "operator_backed s ses" for ses
    using that True by (auto simp: operator_backed_def)
  then have "control_inv (s\<lparr>cs_operators := dict_set k ?new (cs_operators s),
      cs_operator_tokens := (if False then dict_map (\<lambda>t. if os_operator_id (tk_session t) = k
        \<and> tk_revoked_at t = None then t\<lparr>tk_revoked_at := Some 0\<rparr> else t) (cs_operator_tokens s)
      else cs_operator_tokens s),
      cs_admin_sessions := (if False then dict_map (\<lambda>t. if os_operator_id (as_session t) = k
        \<and> as_revoked_at t = None then t\<lparr>as_revoked_at := Some 0\<rparr> else t) (cs_admin_sessions s)
      else cs_admin_sessions s)\<rparr>)"
    using True by (intro set_operator_inv [OF inv]) (auto dest: live_backed [OF inv])
  then show ?thesis
    using assms by (auto simp: create_operator_def validate_operator_roles_def mem_add_operator_def
        Let_def split: if_splits)
next
  case False
  then show ?thesis
    using assms by (auto simp: create_operator_def validate_operator_roles_def mem_add_operator_def
        Let_def split: if_splits)
qed

lemma mem_update_operator_inv:
  assumes "mem_update_operator k name roles active now s = (r, s')" and "control_inv s"
    and "roles \<subseteq> VALID_OPERATOR_ROLES"
  shows "control_inv s'"
proof (cases "operator_of s k")
  case None
  then show ?thesis using assms by (simp add: mem_update_operator_def)
next
  case (Some current)
  let ?new = "current\<lparr>op_name := name, op_roles := roles, op_active := active\<rparr>"
  let ?hit = "op_roles current \<noteq> roles \<or> op_active current \<noteq> active"
  have live: "op_active current \<and> op_roles current \<noteq> {} \<and> op_roles current = os_roles ses"
    if "operator_backed s ses" "os_operator_id ses = k" for ses
    using that Some by (auto simp: operator_backed_def)
  have "op_operator_id ?new = k"
    using control_invD(2) [OF assms(2)] Some by (simp add: entities_ok_def)
  then have "control_inv (s\<lparr>cs_operators := dict_set k ?new (cs_operators s),
    cs_operator_tokens := (if ?hit then dict_map (\<lambda>t. if os_operator_id (tk_session t) = k
        \<and> tk_revoked_at t = None then t\<lparr>tk_revoked_at := Some now\<rparr> else t) (cs_operator_tokens s)
      else cs_operator_tokens s),
    cs_admin_sessions := (if ?hit then dict_map (\<lambda>t. if os_operator_id (as_session t) = k
        \<and> as_revoked_at t = None then t\<lparr>as_revoked_at := Some now\<rparr> else t) (cs_admin_sessions s)
      else cs_admin_sessions s)\<rparr>)"
    using assms(3) live live_backed(2,3) [OF assms(2)]
    by (intro set_operator_inv [OF assms(2)]) (simp_all, blast+)
  then show ?thesis
    using assms(1) Some by (auto simp: mem_update_operator_def Let_def split: if_splits)
qed

lemma update_operator_inv:
  "update_operator k name roles active now s = (r, s') \<Longrightarrow> control_inv s \<Longrightarrow> control_inv s'"
  by (auto simp: update_operator_def inspect_operator_def validate_operator_roles_def Let_def
      dest!: mem_update_operator_inv split: option.splits if_splits)

subsection \<open>Operator credentials\<close>

lemma operator_save_inv:
  assumes "OperatorTokenService_issue H operator_token_ops uid secret ses lifetime now s = (r, s')"
    and "control_inv s" and "operator_backed s (stamp_operator uid ses)"
  shows "control_inv s'"
  using assms
  by (auto simp: OperatorTokenService_issue_def issue_with_def build_record_def Let_def
        operator_token_ops_def mem_save_operator_token_def stamp_operator_def
      intro!: set_operator_token_inv)

lemma operator_record_backed:
  assumes "control_inv s" and "operator_of s k = Some r" and "op_active r" and "op_roles r \<noteq> {}"
    and "os_operator_id ses = op_operator_id r" and "os_roles ses = op_roles r"
  shows "operator_backed s ses"
  using assms control_invD(2) [OF assms(1)] by (auto simp: entities_ok_def operator_backed_def)

lemma issue_operator_access_token_inv:
  assumes "issue_operator_access_token H uid secret k lifetime now s = (r, s')" and inv: "control_inv s"
  shows "control_inv s'"
proof (cases "operator_of s k")
  case None
  then show ?thesis
    using assms by (simp add: issue_operator_access_token_def inspect_operator_def control_inv_lookups)
next
  case (Some current)
  let ?ses = "\<lparr>os_operator_id = op_operator_id current, os_roles = op_roles current,
      os_token_id = None, os_session_id = None\<rparr>"
  have "operator_backed s (stamp_operator uid ?ses)" if "op_active current" "op_roles current \<noteq> {}"
    using that by (intro operator_record_backed [OF inv Some]) (simp_all add: stamp_operator_def)
  then show ?thesis
    using assms Some
    by (auto simp: issue_operator_access_token_def inspect_operator_def control_inv_lookups Let_def
        dest: operator_save_inv split: if_splits)
qed

lemma stored_operator_token:
  assumes "control_inv s" and "operator_token_at k s = Some r"
  shows "tk_token_id r = k \<and> os_token_id (tk_session r) = Some k \<and> os_session_id (tk_session r) = None \<and>
    (tk_revoked_at r = None \<longrightarrow> operator_backed s (tk_session r))"
  using assms by (simp add: control_inv_def operator_tokens_ok_def)

lemma revoke_operator_access_token_inv:
  "revoke_operator_access_token k now s = (r, s') \<Longrightarrow> control_inv s \<Longrightarrow> control_inv s'"
  by (auto simp: revoke_operator_access_token_def OperatorTokenService_revoke_def operator_token_ops_def
        mem_revoke_operator_token_def dest: stored_operator_token
      intro!: set_operator_token_inv split: option.splits if_splits)

lemma mem_mark_operator_token_used_inv:
  "control_inv s \<Longrightarrow> control_inv (mem_mark_operator_token_used k now s)"
  by (auto simp: mem_mark_operator_token_used_def dest: stored_operator_token
      intro!: set_operator_token_inv split: option.splits)

lemma operator_authenticate_inv:
  "OperatorTokenService_authenticate H operator_token_ops tok now s = (r, s') \<Longrightarrow> control_inv s \<Longrightarrow>
   control_inv s'"
  by (auto simp: OperatorTokenService_authenticate_def authenticate_with_alt operator_token_ops_def
        mem_mark_operator_token_used_inv split: option.splits if_splits)

lemma authenticate_operator_inv:
  "authenticate_operator H tok now s = (r, s') \<Longrightarrow> control_inv s \<Longrightarrow> control_inv s'"
  by (auto simp: authenticate_operator_def and_then_def inspect_operator_def
      dest: operator_authenticate_inv split: prod.splits sum.splits option.splits if_splits)

lemma mem_rotate_operator_token_inv:
  assumes "mem_rotate_operator_token k new v now s = (b, s')" and "control_inv s"
    and "os_token_id (tk_session new) = Some (tk_token_id new)" and "os_session_id (tk_session new) = None"
    and "operator_backed s (tk_session new)"
  shows "control_inv s'"
proof -
  have backed: "operator_backed (s\<lparr>cs_operator_tokens := d\<rparr>) = operator_backed s" for d
    by (simp add: operator_backed_def fun_eq_iff)
  { fix p assume p: "operator_token_at k s = Some p"
    let ?s1 = "s\<lparr>cs_operator_tokens := dict_set k (p\<lparr>tk_expires_at := min (tk_expires_at p) v\<rparr>) (cs_operator_tokens s)\<rparr>"
    have inv1: "control_inv ?s1"
      using stored_operator_token [OF assms(2) p] by (intro set_operator_token_inv assms(2)) simp_all
    have "control_inv (?s1\<lparr>cs_operator_tokens := dict_set (tk_token_id new) new (cs_operator_tokens ?s1)\<rparr>)"
      using assms(3-5) by (intro set_operator_token_inv inv1) (simp_all add: backed)
    then have "control_inv (s\<lparr>cs_operator_tokens := dict_set (tk_token_id new) new
        (dict_set k (p\<lparr>tk_expires_at := min (tk_expires_at p) v\<rparr>) (cs_operator_tokens s))\<rparr>)"
      by simp }
  then show ?thesis
    using assms(1,2)
    by (auto simp: mem_rotate_operator_token_def mem_get_operator_token_def split: option.splits if_splits)
qed

lemma operator_rotate_inv:
  assumes "OperatorTokenService_rotate H operator_token_ops uid secret k ses lifetime overlap now s = (r, s')"
    and "control_inv s" and "operator_backed s ses"
  shows "control_inv s'"
proof -
  have "operator_backed s (stamp_operator uid ses)"
    using assms(3) by (simp add: operator_backed_def stamp_operator_def)
  then show ?thesis
    using assms(1,2)
    by (auto simp: OperatorTokenService_rotate_def rotate_with_def build_record_def Let_def
          operator_token_ops_def stamp_operator_def
        dest!: mem_rotate_operator_token_inv split: if_splits prod.splits)
qed

lemma rotate_operator_access_token_inv:
  assumes "rotate_operator_access_token H uid secret k overlap lifetime now s = (r, s')"
    and inv: "control_inv s"
  shows "control_inv s'"
proof -
  have backed: "operator_backed s \<lparr>os_operator_id = op_operator_id cur, os_roles = op_roles cur,
      os_token_id = None, os_session_id = None\<rparr>"
    if "operator_of s i = Some cur" "op_active cur" "op_roles cur \<noteq> {}" for i cur
    using that by (intro operator_record_backed [OF inv, of i cur]) simp_all
  show ?thesis
    using assms
    by (auto simp: rotate_operator_access_token_def inspect_operator_def mem_get_operator_def Let_def
        dest: operator_rotate_inv [OF _ inv backed] split: option.splits if_splits)
qed

subsection \<open>Admin Sessions\<close>

lemma stored_admin_session:
  assumes "control_inv s" and "admin_session_at k s = Some r"
  shows "as_session_id r = k \<and> os_session_id (as_session r) = Some k \<and> admin_times_ok r \<and>
    (as_revoked_at r = None \<longrightarrow> operator_backed s (as_session r))"
  using assms by (simp add: control_inv_def admin_sessions_ok_def)

lemma admin_create_inv:
  assumes "AdminSessionService_create H admin_session_ops_of_store uid secret csrf ses now s = (r, s')"
    and "control_inv s" and "operator_backed s ses"
  shows "control_inv s'"
  using assms
  by (auto simp: AdminSessionService_create_def admin_session_ops_of_store_def
        mem_save_admin_session_def Let_def admin_times_ok_def operator_backed_def
        IDLE_LIFETIME_def ABSOLUTE_LIFETIME_def minutes_def hours_def
      intro!: set_admin_session_inv)

lemma create_admin_session_inv:
  assumes "create_admin_session H uid secret csrf tok t u s = (r, s')" and "control_inv s"
  shows "control_inv s'"
proof -
  obtain a s1 where auth: "OperatorTokenService_authenticate H operator_token_ops tok t s = (a, s1)"
    by fastforce
  from this assms(2) have inv1: "control_inv s1" by (rule operator_authenticate_inv)
  have backed: "operator_backed s1 \<lparr>os_operator_id = op_operator_id cur, os_roles = op_roles cur,
      os_token_id = tid, os_session_id = None\<rparr>"
    if "operator_of s1 i = Some cur" "op_active cur" "op_roles cur \<noteq> {}" for i cur tid
    using that by (intro operator_record_backed [OF inv1, of i cur]) simp_all
  show ?thesis
    using assms auth inv1
    by (cases a) (auto simp: create_admin_session_def inspect_operator_def mem_get_operator_def
        dest: admin_create_inv [OF _ inv1 backed] split: option.splits if_splits)
qed

lemma authenticate_admin_session_inv:
  "authenticate_admin_session H tok csrf need now s = (r, s') \<Longrightarrow> control_inv s \<Longrightarrow> control_inv s'"
  by (auto simp: authenticate_admin_session_def and_then_def inspect_operator_def
        AdminSessionService_authenticate_def admin_session_ops_of_store_def mem_get_admin_session_def
        mem_mark_admin_session_used_def admin_times_ok_def
      dest: stored_admin_session intro!: set_admin_session_inv
      split: prod.splits sum.splits option.splits if_splits list.splits)

lemma revoke_admin_session_inv:
  "revoke_admin_session k now s = (r, s') \<Longrightarrow> control_inv s \<Longrightarrow> control_inv s'"
  by (auto simp: revoke_admin_session_def AdminSessionService_revoke_def admin_session_ops_of_store_def
        mem_revoke_admin_session_def admin_times_ok_def
      dest: stored_admin_session intro!: set_admin_session_inv split: option.splits if_splits)

end
