(* ===== verification/ControlSteps.thy ===== *)
theory ControlSteps
  imports ControlInvariants
begin

text \<open>
  The rest of the invariant's preservation (Tenants, Principals, Memberships, Delegations,
  Channel Bindings and Access Tokens), the step relation of the control plane and the states
  it reaches.
\<close>

section \<open>Tenants, Principals and Memberships\<close>

lemma create_tenant_inv:
  "create_tenant k name s = (r, s') \<Longrightarrow> control_inv s \<Longrightarrow> control_inv s'"
  by (auto simp: create_tenant_def mem_add_tenant_def Let_def intro!: add_tenant_inv split: if_splits)

lemma create_principal_inv:
  "create_principal k name kind s = (r, s') \<Longrightarrow> control_inv s \<Longrightarrow> control_inv s'"
  by (cases "PrincipalKind kind")
    (auto simp: create_principal_def mem_add_principal_def Let_def intro!: set_principal_inv
     split: if_splits)

lemma mem_update_principal_inv:
  assumes "mem_update_principal k name active now s = (r, s')" and "control_inv s"
  shows "control_inv s'"
proof (cases "principal_of s k")
  case None
  then show ?thesis using assms by (simp add: mem_update_principal_def)
next
  case (Some current)
  have id: "pr_principal_id current = k"
    using control_invD(2) [OF assms(2)] Some by (simp add: entities_ok_def)
  show ?thesis
  proof (cases active)
    case True
    then show ?thesis
      using assms Some id
      by (auto simp: mem_update_principal_def Let_def intro!: set_principal_inv [where r = current])
  next
    case False
    obtain s1 where dis: "mem_disable_principal k now s = (Inr (current\<lparr>pr_active := False\<rparr>), s1)"
      and p1: "principal_of s1 k = Some (current\<lparr>pr_active := False\<rparr>)"
      using Some by (simp add: mem_disable_principal_def Let_def)
    have "control_inv s1" using dis assms(2) by (rule mem_disable_principal_inv)
    then show ?thesis
      using assms(1) False Some id dis p1
      by (auto simp: mem_update_principal_def Let_def
          intro!: set_principal_inv [where r = "current\<lparr>pr_active := False\<rparr>"])
  qed
qed

lemma update_principal_inv:
  "update_principal k name active now s = (r, s') \<Longrightarrow> control_inv s \<Longrightarrow> control_inv s'"
  by (auto simp: update_principal_def inspect_principal_def Let_def
      dest: mem_update_principal_inv split: option.splits if_splits)

lemma active_member_roles: "active_member s t p roles \<Longrightarrow> active_member s t p {}"
  by (auto simp: active_member_def)

lemma live_token_member:
  assumes "control_inv s" and "token_at k s = Some r" and "tk_revoked_at r = None"
    and "membership_of s (ts_tenant_id (tk_session r)) (ts_actor_id (tk_session r)) = Some m"
  shows "mb_active m \<and> ts_roles (tk_session r) \<subseteq> mb_roles m"
  using live_backed(1) [OF assms(1-3)] assms(4) by (simp add: session_backed_def active_member_def)

lemma grant_membership_inv:
  assumes "grant_membership t p role s = (r, s')" and inv: "control_inv s"
  shows "control_inv s'"
proof (cases "is_ok r")
  case False
  then have "s' = s" using assms(1) by (auto simp: grant_membership_def Let_def split: if_splits)
  then show ?thesis using inv by simp
next
  case True
  then obtain pr where role: "role \<in> VALID_ROLES" and tenant: "tenant_of s t \<noteq> None"
    and pr: "principal_of s p = Some pr" "pr_active pr" "pr_kind pr = AGENT \<Longrightarrow> role = ''tenant_member''"
    using assms(1)
    by (auto simp: grant_membership_def control_inv_lookups present_and_iff Let_def split: if_splits)
  let ?m = "\<lparr>mb_tenant_id = t, mb_principal_id = p,
      mb_roles = (case membership_of s t p of None \<Rightarrow> {role} | Some m \<Rightarrow> insert role (mb_roles m)),
      mb_active = True\<rparr>"
  have s': "s' = s\<lparr>cs_memberships := dict_set (t, p) ?m (cs_memberships s)\<rparr>"
    using True assms(1)
    by (auto simp: grant_membership_def control_inv_lookups mem_save_membership_def Let_def split: if_splits)
  have "membership_ok s t p m" if "membership_of s t p = Some m" for m
    using control_invD(3) [OF inv] that by (simp add: memberships_ok_def)
  then have "membership_ok s t p ?m"
    using role tenant pr by (auto simp: membership_ok_def split: option.splits)
  then have "control_inv (revoke_matching_tokens (\<lambda>_. False) 0
      (s\<lparr>cs_memberships := dict_set (t, p) ?m (cs_memberships s)\<rparr>))"
  proof (rule set_membership_inv [OF inv])
    fix k r assume r: "token_at k s = Some r" "tk_revoked_at r = None"
      "ts_tenant_id (tk_session r) = t" "ts_actor_id (tk_session r) = p"
    obtain m where "membership_of s t p = Some m"
      using live_backed(1) [OF inv r(1,2)] r(3,4) by (auto simp: session_backed_def active_member_def)
    then show "False \<or> ts_roles (tk_session r) \<subseteq> mb_roles ?m"
      using live_token_member [OF inv r(1,2)] r(3,4) by auto
  qed simp
  then show ?thesis by (simp add: s')
qed

lemma disable_membership_inv:
  "disable_membership t p now s = (r, s') \<Longrightarrow> control_inv s \<Longrightarrow> control_inv s'"
  by (simp add: disable_membership_def mem_disable_membership_inv)

lemma disable_principal_inv:
  "disable_principal p now s = (r, s') \<Longrightarrow> control_inv s \<Longrightarrow> control_inv s'"
  by (simp add: disable_principal_def mem_disable_principal_inv)

text \<open>What disabling a Membership leaves behind.\<close>

lemma revoke_matching_tokens_hit:
  assumes "token_at k (revoke_matching_tokens p t s) = Some r'"
    and "\<And>r x. p (r\<lparr>tk_revoked_at := x\<rparr>) = p r" and "p r'"
  shows "tk_revoked_at r' \<noteq> None"
proof -
  from assms(1) obtain r where "r' = (if p r \<and> tk_revoked_at r = None then r\<lparr>tk_revoked_at := Some t\<rparr> else r)"
    by (auto simp: revoke_matching_tokens_lookup)
  then show ?thesis using assms(2,3) by (cases "p r \<and> tk_revoked_at r = None") auto
qed

lemma mem_disable_membership_after:
  assumes "mem_disable_membership t p now s = (r, s')" and "membership_of s t p = Some m"
  shows "r = Inr (m\<lparr>mb_active := False\<rparr>)" "membership_of s' t p = Some (m\<lparr>mb_active := False\<rparr>)"
    "cs_principals s' = cs_principals s" "cs_tenants s' = cs_tenants s"
    "token_at k s' = Some tok \<Longrightarrow> ts_tenant_id (tk_session tok) = t \<Longrightarrow>
       ts_actor_id (tk_session tok) = p \<Longrightarrow> tk_revoked_at tok \<noteq> None"
proof -
  obtain s1 where s': "s' = revoke_matching_tokens (\<lambda>record. ts_tenant_id (tk_session record) = t \<and>
      (ts_actor_id (tk_session record) = p \<or> ts_subject_user_id (tk_session record) = Some p)) now s1"
    using assms by (auto simp: mem_disable_membership_def Let_def)
  show "token_at k s' = Some tok \<Longrightarrow> ts_tenant_id (tk_session tok) = t \<Longrightarrow>
      ts_actor_id (tk_session tok) = p \<Longrightarrow> tk_revoked_at tok \<noteq> None"
    unfolding s' by (erule revoke_matching_tokens_hit) simp_all
qed (use assms in \<open>auto simp: mem_disable_membership_def Let_def\<close>)

lemma mem_update_membership_inv:
  assumes "mem_update_membership m' now s = (r, s')" and inv: "control_inv s"
    and ok: "membership_ok s t p m'"
  shows "control_inv s'"
proof (cases "membership_of s t p")
  case None
  then show ?thesis
    using assms by (simp add: mem_update_membership_def membership_ok_def)
next
  case (Some m)
  have ids: "mb_tenant_id m' = t" "mb_principal_id m' = p" using ok by (simp_all add: membership_ok_def)
  let ?actor = "\<lambda>token. ts_tenant_id (tk_session token) = t \<and> ts_actor_id (tk_session token) = p"
  show ?thesis
  proof (cases "mb_active m'")
    case True
    let ?hit = "\<lambda>token. (mb_roles m' \<noteq> mb_roles m \<or> \<not> mb_active m) \<and> ?actor token"
    have "s' = revoke_matching_tokens ?hit now (s\<lparr>cs_memberships := dict_set (t, p) m' (cs_memberships s)\<rparr>)"
      using assms(1) Some True ids by (auto simp: mem_update_membership_def Let_def)
    moreover have "control_inv (revoke_matching_tokens ?hit now
        (s\<lparr>cs_memberships := dict_set (t, p) m' (cs_memberships s)\<rparr>))"
      using ok True live_token_member [OF inv] Some
      by (intro set_membership_inv [OF inv]) auto
    ultimately show ?thesis by simp
  next
    case False
    obtain s1 where dis: "mem_disable_membership t p now s = (Inr (m\<lparr>mb_active := False\<rparr>), s1)"
      using mem_disable_membership_after(1) [OF _ Some, of now] by (metis surj_pair)
    note after = mem_disable_membership_after [OF dis Some]
    have inv1: "control_inv s1" using dis inv by (rule mem_disable_membership_inv)
    let ?m = "m\<lparr>mb_active := False, mb_roles := mb_roles m'\<rparr>"
    let ?hit = "\<lambda>token. (mb_roles m' \<noteq> mb_roles m \<or> mb_active m) \<and> ?actor token"
    have "s' = revoke_matching_tokens ?hit now (s1\<lparr>cs_memberships := dict_set (t, p) ?m (cs_memberships s1)\<rparr>)"
      using assms(1) Some False ids dis by (auto simp: mem_update_membership_def Let_def)
    moreover have "membership_ok s1 t p ?m"
      using ok control_invD(3) [OF inv] Some after(3,4) by (auto simp: membership_ok_def memberships_ok_def)
    then have "control_inv (revoke_matching_tokens ?hit now
        (s1\<lparr>cs_memberships := dict_set (t, p) ?m (cs_memberships s1)\<rparr>))"
      using after(2)
      by (intro set_membership_inv [OF inv1]) (auto simp: active_member_def dest: after(5))
    ultimately show ?thesis by simp
  qed
qed

lemma update_membership_ok:
  assumes "update_membership t p roles active now s = (r, s')" and inv: "control_inv s"
  shows "s' = s \<or> (\<exists>m'. membership_ok s t p m' \<and> mem_update_membership m' now s = (r, s'))"
proof (cases "membership_of s t p")
  case None
  then show ?thesis
    using assms(1) by (simp add: update_membership_def inspect_membership_def control_inv_lookups)
next
  case (Some m)
  then have "membership_ok s t p m"
    using control_invD(3) [OF inv] by (simp add: memberships_ok_def)
  then obtain pr where m: "mb_tenant_id m = t" "mb_principal_id m = p" "tenant_of s t \<noteq> None"
    and pr: "principal_of s p = Some pr"
    by (auto simp: membership_ok_def)
  let ?m' = "m\<lparr>mb_roles := if_None (mb_roles m) roles, mb_active := if_None (mb_active m) active\<rparr>"
  show ?thesis
  proof (cases "if_None (mb_roles m) roles \<noteq> {} \<and> if_None (mb_roles m) roles \<subseteq> VALID_ROLES \<and>
      (pr_kind pr = AGENT \<longrightarrow> if_None (mb_roles m) roles = {''tenant_member''}) \<and>
      (if_None (mb_active m) active \<longrightarrow> pr_active pr)")
    case True
    then have "membership_ok s t p ?m'" using m pr by (simp add: membership_ok_def)
    moreover have "s' = s \<or> mem_update_membership ?m' now s = (r, s')"
      using assms(1) Some pr
      by (auto simp: update_membership_def inspect_membership_def control_inv_lookups Let_def
          split: if_splits)
    ultimately show ?thesis by blast
  next
    case False
    then show ?thesis
      using assms(1) Some pr
      by (auto simp: update_membership_def inspect_membership_def control_inv_lookups Let_def
          split: if_splits)
  qed
qed

lemma update_membership_inv:
  "update_membership t p roles active now s = (r, s') \<Longrightarrow> control_inv s \<Longrightarrow> control_inv s'"
  using update_membership_ok mem_update_membership_inv by metis

lemma revoke_membership_role_inv:
  assumes "revoke_membership_role t p role now s = (r, s')" and inv: "control_inv s"
  shows "control_inv s'"
proof (cases "membership_of s t p")
  case None
  then show ?thesis
    using assms by (auto simp: revoke_membership_role_def mem_revoke_membership_role_def split: if_splits)
next
  case (Some m)
  then have ok: "membership_ok s t p m"
    using control_invD(3) [OF inv] by (simp add: memberships_ok_def)
  let ?m' = "m\<lparr>mb_roles := mb_roles m - {role}\<rparr>"
  let ?hit = "\<lambda>record. ts_tenant_id (tk_session record) = t \<and> ts_actor_id (tk_session record) = p"
  consider "s' = s" | "mem_disable_membership t p now s = (r, s')"
    | "mb_roles m - {role} \<noteq> {}" "role \<in> mb_roles m"
      "s' = revoke_matching_tokens ?hit now (s\<lparr>cs_memberships := dict_set (t, p) ?m' (cs_memberships s)\<rparr>)"
    using assms(1) Some
    by (auto simp: revoke_membership_role_def mem_revoke_membership_role_def Let_def split: if_splits)
  then show ?thesis
  proof cases
    case 3
    have "membership_ok s t p ?m'" using ok 3(1,2) by (auto simp: membership_ok_def)
    then show ?thesis
      unfolding 3(3) using Some
      by (intro set_membership_inv [OF inv]) (auto simp: active_member_def)
  qed (use inv in \<open>auto dest: mem_disable_membership_inv\<close>)
qed

section \<open>Delegations and Channel Bindings\<close>

lemma require_active_delegation_bindings_Inr:
  "require_active_delegation_bindings t a u s = Inr x \<longleftrightarrow>
     present_and tr_active (tenant_of s t) \<and> active_principal s a AGENT \<and> active_principal s u USER \<and>
     active_member s t a {} \<and> active_member s t u {}"
  by (auto simp: require_active_delegation_bindings_def control_inv_lookups present_and_iff
      active_principal_def active_member_def)

lemma create_delegation_inv:
  assumes "create_delegation k t a u s = (r, s')" and inv: "control_inv s"
  shows "control_inv s'"
proof (cases "require_active_delegation_bindings t a u s")
  case (Inl e)
  then show ?thesis using assms by (simp add: create_delegation_def)
next
  case (Inr x)
  then have "active_principal s a AGENT" "active_principal s u USER" "active_member s t a {}"
    "active_member s t u {}"
    by (simp_all add: require_active_delegation_bindings_Inr)
  then have "delegation_of s k = None \<Longrightarrow> control_inv (s\<lparr>cs_delegations := dict_set k \<lparr>dg_delegation_id = k,
      dg_tenant_id = t, dg_agent_id = a, dg_subject_user_id = u, dg_active = True\<rparr> (cs_delegations s)\<rparr>)"
    by (intro set_delegation_inv [OF inv]) simp_all
  then show ?thesis
    using assms Inr by (auto simp: create_delegation_def mem_save_delegation_def Let_def split: if_splits)
qed

lemma update_delegation_inv:
  assumes "update_delegation k active now s = (r, s')" and inv: "control_inv s"
  shows "control_inv s'"
proof (cases "delegation_of s k")
  case None
  then show ?thesis
    using assms by (simp add: update_delegation_def inspect_delegation_def control_inv_lookups)
next
  case (Some d)
  then have id: "dg_delegation_id d = k"
    using control_invD(4) [OF inv] by (simp add: delegations_ok_def)
  show ?thesis
  proof (cases active)
    case False
    then show ?thesis
      using assms Some
      by (auto simp: update_delegation_def inspect_delegation_def control_inv_lookups
          mem_update_delegation_active_def dest: mem_revoke_delegation_inv)
  next
    case True
    show ?thesis
    proof (cases "require_active_delegation_bindings (dg_tenant_id d) (dg_agent_id d) (dg_subject_user_id d) s")
      case (Inl e)
      then show ?thesis
        using assms Some True
        by (simp add: update_delegation_def inspect_delegation_def control_inv_lookups)
    next
      case (Inr x)
      then have "control_inv (s\<lparr>cs_delegations := dict_set k (d\<lparr>dg_active := True\<rparr>) (cs_delegations s)\<rparr>)"
        using Some id
        by (intro set_delegation_inv [OF inv, where d = d])
          (simp_all add: require_active_delegation_bindings_Inr)
      then show ?thesis
        using assms Some True Inr
        by (auto simp: update_delegation_def inspect_delegation_def control_inv_lookups
            mem_update_delegation_active_def Let_def)
    qed
  qed
qed

lemma revoke_delegation_inv:
  "revoke_delegation k now s = (r, s') \<Longrightarrow> control_inv s \<Longrightarrow> control_inv s'"
  by (simp add: revoke_delegation_def mem_revoke_delegation_inv)

lemma create_channel_binding_inv:
  assumes "create_channel_binding i c e k s = (r, s')" and inv: "control_inv s"
  shows "control_inv s'"
proof (cases "present_and dg_active (delegation_of s k)")
  case False
  then show ?thesis
    using assms by (auto simp: create_channel_binding_def control_inv_lookups split: option.splits if_splits)
next
  case True
  then obtain d where d: "delegation_of s k = Some d" "dg_active d" by (auto simp: present_and_iff)
  then have id: "dg_delegation_id d = k"
    using control_invD(4) [OF inv] by (simp add: delegations_ok_def)
  let ?b = "\<lparr>cb_binding_id = i, cb_channel = c, cb_external_id = e, cb_tenant_id = dg_tenant_id d,
      cb_user_id = dg_subject_user_id d, cb_agent_id = dg_agent_id d, cb_delegation_id = k, cb_active = True\<rparr>"
  have "active_delegation s k (dg_tenant_id d) (dg_agent_id d) (dg_subject_user_id d)"
    using d by (simp add: active_delegation_def)
  then have "control_inv (s\<lparr>cs_channel_bindings := dict_set (c, e) ?b (cs_channel_bindings s)\<rparr>)"
    using set_binding_inv(1) [OF inv, of ?b] by simp
  then show ?thesis
    using assms d id
    by (auto simp: create_channel_binding_def control_inv_lookups mem_save_channel_binding_def Let_def
        split: if_splits)
qed

lemma disable_channel_binding_inv:
  assumes "disable_channel_binding c e s = (r, s')" and inv: "control_inv s"
  shows "control_inv s'"
proof (cases "binding_of s c e")
  case None
  then show ?thesis
    using assms by (simp add: disable_channel_binding_def inspect_channel_binding_def control_inv_lookups)
next
  case (Some b)
  then have "cb_channel b = c" "cb_external_id b = e"
    using control_invD(5) [OF inv] by (auto simp: bindings_ok_def)
  then show ?thesis
    using assms Some set_binding_inv(1) [OF inv, of "b\<lparr>cb_active := False\<rparr>"]
    by (simp add: disable_channel_binding_def inspect_channel_binding_def control_inv_lookups
        mem_update_channel_binding_def Let_def)
qed

lemma remove_channel_binding_inv:
  "remove_channel_binding c e s = (r, s') \<Longrightarrow> control_inv s \<Longrightarrow> control_inv s'"
  using set_binding_inv(2) [of s "undefined\<lparr>cb_active := False\<rparr>" "(c, e)"]
  by (simp add: remove_channel_binding_def mem_delete_channel_binding_def)

section \<open>Access Tokens\<close>

lemma stored_token:
  assumes "control_inv s" and "token_at k s = Some r"
  shows "tk_token_id r = k \<and> ts_token_id (tk_session r) = Some k \<and> session_wf (tk_session r) \<and>
    (tk_revoked_at r = None \<longrightarrow> session_backed s (tk_session r))"
  using assms by (simp add: control_inv_def tokens_ok_def)

lemma session_backed_tokens [simp]: "session_backed (s\<lparr>cs_tokens := d\<rparr>) = session_backed s"
  by (simp add: backing_defs fun_eq_iff)

lemma session_backed_stamp [simp]: "session_backed s (stamp_tenant uid ses) = session_backed s ses"
  by (simp add: session_backed_def stamp_tenant_def)

lemma token_issue_inv:
  assumes "TokenService_issue H access_token_ops uid secret ses lifetime now s = (r, s')"
    and "control_inv s" and "session_wf ses" and "session_backed s ses"
  shows "control_inv s'"
proof -
  have "session_backed s (ses\<lparr>ts_token_id := Some uid\<rparr>)"
    using assms(4) by (simp add: session_backed_def)
  then show ?thesis
    using assms(1-3)
    by (auto simp: TokenService_issue_def issue_with_def build_record_def Let_def access_token_ops_def
          mem_save_def stamp_tenant_def intro!: set_token_inv)
qed

text \<open>
  The methods that issue a token, as what they did when they succeeded; when they raise, the
  state is as before.
\<close>

lemma TokenService_issue_Inr [simp]: "TokenService_issue H ops uid secret ses lifetime now s \<noteq> (Inl e, s')"
  by (auto simp: TokenService_issue_def issue_with_def split: prod.splits)

lemma issue_access_token_Inr:
  assumes "issue_access_token H uid secret t p lifetime now s = (Inr c, s')"
  obtains pr m where "present_and tr_active (tenant_of s t)" and "principal_of s p = Some pr"
    and "pr_active pr" and "membership_of s t p = Some m" and "mb_active m"
    and "0 < if_None (days (or_int (mem_token_lifetime_days t (pr_kind pr) False s)
           (if pr_kind pr = USER then 90 else 30))) lifetime"
    and "if_None (days (or_int (mem_token_lifetime_days t (pr_kind pr) False s)
           (if pr_kind pr = USER then 90 else 30))) lifetime
         \<le> days (or_int (mem_token_lifetime_days t (pr_kind pr) False s)
           (if pr_kind pr = USER then 90 else 30))"
    and "TokenService_issue H access_token_ops uid secret
           \<lparr>ts_tenant_id = t, ts_actor_id = p, ts_actor_kind = pr_kind pr, ts_roles = mb_roles m,
            ts_subject_user_id = None, ts_delegation_id = None, ts_token_id = None\<rparr>
           (if_None (days (or_int (mem_token_lifetime_days t (pr_kind pr) False s)
             (if pr_kind pr = USER then 90 else 30))) lifetime) now s = (Inr c, s')"
  using assms
  by (auto simp: issue_access_token_def control_inv_lookups TenantSession_def Let_def not_le not_less
      split: option.splits if_split_asm)

lemma issue_access_token_Inl:
  "issue_access_token H uid secret t p lifetime now s = (Inl e, s') \<Longrightarrow> s' = s"
  by (auto simp: issue_access_token_def control_inv_lookups TenantSession_def Let_def
      split: option.splits if_split_asm)

lemma issue_access_token_inv:
  assumes "issue_access_token H uid secret t p lifetime now s = (r, s')" and inv: "control_inv s"
  shows "control_inv s'"
proof (cases r)
  case (Inl e)
  then show ?thesis using assms issue_access_token_Inl by blast
next
  case (Inr c)
  with assms(1) have "issue_access_token H uid secret t p lifetime now s = (Inr c, s')" by simp
  then show ?thesis
    by (rule issue_access_token_Inr) (erule token_issue_inv [OF _ inv]; simp add: backing_defs)
qed

lemma issue_delegated_access_token_Inr:
  assumes "issue_delegated_access_token H uid secret k lifetime now s = (Inr c, s')"
  obtains d m where "delegation_of s k = Some d" and "dg_active d"
    and "membership_of s (dg_tenant_id d) (dg_agent_id d) = Some m" and "mb_active m"
    and "0 < if_None (days (or_int (mem_token_lifetime_days (dg_tenant_id d) AGENT True s) 90)) lifetime"
    and "if_None (days (or_int (mem_token_lifetime_days (dg_tenant_id d) AGENT True s) 90)) lifetime
         \<le> days (or_int (mem_token_lifetime_days (dg_tenant_id d) AGENT True s) 90)"
    and "TokenService_issue H access_token_ops uid secret
           \<lparr>ts_tenant_id = dg_tenant_id d, ts_actor_id = dg_agent_id d, ts_actor_kind = AGENT,
            ts_roles = mb_roles m, ts_subject_user_id = Some (dg_subject_user_id d),
            ts_delegation_id = Some (dg_delegation_id d), ts_token_id = None\<rparr>
           (if_None (days (or_int (mem_token_lifetime_days (dg_tenant_id d) AGENT True s) 90)) lifetime)
           now s = (Inr c, s')"
  using assms
  by (auto simp: issue_delegated_access_token_def control_inv_lookups TenantSession_def Let_def
        not_le not_less
      split: option.splits if_split_asm)

lemma issue_delegated_access_token_Inl:
  "issue_delegated_access_token H uid secret k lifetime now s = (Inl e, s') \<Longrightarrow> s' = s"
  by (auto simp: issue_delegated_access_token_def control_inv_lookups TenantSession_def Let_def
      split: option.splits if_split_asm)

lemma issue_delegated_access_token_inv:
  assumes "issue_delegated_access_token H uid secret k lifetime now s = (r, s')" and inv: "control_inv s"
  shows "control_inv s'"
proof (cases r)
  case (Inl e)
  then show ?thesis using assms issue_delegated_access_token_Inl by blast
next
  case (Inr c)
  with assms(1) have "issue_delegated_access_token H uid secret k lifetime now s = (Inr c, s')" by simp
  then show ?thesis
  proof (rule issue_delegated_access_token_Inr)
    fix d m L
    assume d: "delegation_of s k = Some d" "dg_active d" and m: "membership_of s (dg_tenant_id d) (dg_agent_id d) = Some m"
      "mb_active m" and issue: "TokenService_issue H access_token_ops uid secret
           \<lparr>ts_tenant_id = dg_tenant_id d, ts_actor_id = dg_agent_id d, ts_actor_kind = AGENT,
            ts_roles = mb_roles m, ts_subject_user_id = Some (dg_subject_user_id d),
            ts_delegation_id = Some (dg_delegation_id d), ts_token_id = None\<rparr>
           (if_None (days (or_int (mem_token_lifetime_days (dg_tenant_id d) AGENT True s) 90)) lifetime)
           now s = (Inr c, s')"
    have "dg_delegation_id d = k" "active_principal s (dg_agent_id d) AGENT"
      using control_invD(4) [OF inv] d by (simp_all add: delegations_ok_def)
    then show ?thesis
      using d m by (intro token_issue_inv [OF issue inv])
        (simp_all add: session_backed_def active_member_def active_delegation_def)
  qed
qed

lemma revoke_access_token_inv:
  "revoke_access_token k now s = (r, s') \<Longrightarrow> control_inv s \<Longrightarrow> control_inv s'"
  by (auto simp: revoke_access_token_def TokenService_revoke_def access_token_ops_def mem_revoke_def
      dest: stored_token intro!: set_token_inv split: option.splits if_splits)

lemma mem_mark_used_inv: "control_inv s \<Longrightarrow> control_inv (mem_mark_used k now s)"
  by (auto simp: mem_mark_used_def dest: stored_token intro!: set_token_inv split: option.splits)

lemma authenticate_inv:
  "authenticate H tok now s = (r, s') \<Longrightarrow> control_inv s \<Longrightarrow> control_inv s'"
  by (auto simp: authenticate_def TokenService_authenticate_def authenticate_with_alt access_token_ops_def
        mem_mark_used_inv split: option.splits if_splits)

lemma mem_rotate_inv:
  assumes "mem_rotate k new v now s = (b, s')" and "control_inv s"
    and "ts_token_id (tk_session new) = Some (tk_token_id new)" and "session_wf (tk_session new)"
    and "session_backed s (tk_session new)"
  shows "control_inv s'"
proof -
  { fix p assume p: "token_at k s = Some p"
    let ?s1 = "s\<lparr>cs_tokens := dict_set k (p\<lparr>tk_expires_at := min (tk_expires_at p) v\<rparr>) (cs_tokens s)\<rparr>"
    have inv1: "control_inv ?s1"
      using stored_token [OF assms(2) p] by (intro set_token_inv assms(2)) simp_all
    have "control_inv (?s1\<lparr>cs_tokens := dict_set (tk_token_id new) new (cs_tokens ?s1)\<rparr>)"
      using assms(3-5) by (intro set_token_inv inv1) simp_all
    then have "control_inv (s\<lparr>cs_tokens := dict_set (tk_token_id new) new
        (dict_set k (p\<lparr>tk_expires_at := min (tk_expires_at p) v\<rparr>) (cs_tokens s))\<rparr>)"
      by simp }
  then show ?thesis
    using assms(1,2) by (auto simp: mem_rotate_def mem_get_def split: option.splits if_splits)
qed

lemma mem_get_Some: "mem_get k s = Some r \<longleftrightarrow> token_at k s = Some r \<and> session_admitted s (tk_session r)"
  by (auto simp: mem_get_def split: option.splits)

lemma token_rotate_inv:
  assumes "TokenService_rotate H access_token_ops uid secret k ses lifetime overlap now s = (r, s')"
    and "control_inv s" and "session_wf ses" and "session_backed s ses"
  shows "control_inv s'"
proof -
  have "session_backed s (ses\<lparr>ts_token_id := Some uid\<rparr>)"
    using assms(4) by (simp add: session_backed_def)
  then show ?thesis
    using assms(1-3)
    by (auto simp: TokenService_rotate_def rotate_with_def build_record_def Let_def
          access_token_ops_def stamp_tenant_def
        dest!: mem_rotate_inv split: if_splits prod.splits)
qed

lemma TokenService_rotate_Inl:
  "TokenService_rotate H access_token_ops uid secret k ses lifetime overlap now s = (Inl e, s') \<Longrightarrow> s' = s"
  by (auto simp: TokenService_rotate_def rotate_with_def Let_def access_token_ops_def mem_rotate_def
      split: if_splits prod.splits option.splits)

lemma replace_token_cases:
  assumes "replace_token H uid secret k p pr m overlap lifetime now s = (r, s')"
    and "L = if_None (rotation_maximum s (tk_session p) pr) lifetime"
  shows "(\<exists>e. r = Inl e \<and> s' = s) \<or> 0 < L \<and> L \<le> rotation_maximum s (tk_session p) pr \<and>
    session_wf (rotated_session (tk_session p) pr m) \<and>
    TokenService_rotate H access_token_ops uid secret k (rotated_session (tk_session p) pr m) L
      (min overlap (tk_expires_at p - now)) now s = (r, s')"
  using assms
  using TenantSession_bad [of "rotated_session (tk_session p) pr m"]
  by (cases "session_wf (rotated_session (tk_session p) pr m)")
    (auto simp: replace_token_def Let_def not_le not_less TenantSession_ok split: if_split_asm)

lemma rotate_gates:
  assumes "rotate_access_token H uid secret k overlap lifetime now s = (r, s')"
  shows "(\<exists>e. r = Inl e \<and> s' = s) \<or>
    (\<exists>p pr m. 0 < overlap \<and> overlap \<le> hours 24 \<and> mem_get k s = Some p \<and> token_live now p \<and>
      principal_of s (ts_actor_id (tk_session p)) = Some pr \<and> pr_active pr \<and>
      membership_of s (ts_tenant_id (tk_session p)) (ts_actor_id (tk_session p)) = Some m \<and> mb_active m \<and>
      (ts_delegation_id (tk_session p) \<noteq> None \<longrightarrow> rotation_delegation (tk_session p) s = Inr ()) \<and>
      replace_token H uid secret k p pr m overlap lifetime now s = (r, s'))"
  using assms
  by (auto simp: rotate_access_token_def control_inv_lookups Let_def and_then_def token_live_def
      not_le not_less split: option.splits if_split_asm sum.splits)

lemma rotate_access_token_cases:
  assumes "rotate_access_token H uid secret k overlap lifetime now s = (r, s')"
  obtains (raised) e where "r = Inl e" "s' = s"
  | (rotated) p pr m L where "0 < overlap" "overlap \<le> hours 24"
      "mem_get k s = Some p" "token_live now p"
      "principal_of s (ts_actor_id (tk_session p)) = Some pr" "pr_active pr"
      "membership_of s (ts_tenant_id (tk_session p)) (ts_actor_id (tk_session p)) = Some m" "mb_active m"
      "L = if_None (rotation_maximum s (tk_session p) pr) lifetime" "0 < L"
      "L \<le> rotation_maximum s (tk_session p) pr" "session_wf (rotated_session (tk_session p) pr m)"
      "TokenService_rotate H access_token_ops uid secret k (rotated_session (tk_session p) pr m) L
         (min overlap (tk_expires_at p - now)) now s = (r, s')"
  using rotate_gates [OF assms] replace_token_cases [OF _ refl] by metis

lemma rotate_access_token_inv:
  assumes "rotate_access_token H uid secret k overlap lifetime now s = (r, s')" and inv: "control_inv s"
  shows "control_inv s'"
  using assms(1)
proof (cases rule: rotate_access_token_cases)
  case raised
  then show ?thesis using inv by simp
next
  case (rotated p pr m L)
  then have "session_backed s (tk_session p)"
    using live_backed(1) [OF inv, of k p] by (simp add: mem_get_Some token_live_def)
  then have "session_backed s (rotated_session (tk_session p) pr m)"
    using rotated
    by (auto simp: session_backed_def active_principal_def active_member_def rotated_session_def)
  with rotated(13) inv rotated(12) show ?thesis by (rule token_rotate_inv)
qed

section \<open>The step relation\<close>

text \<open>
  One step is one call of a method that may write the Control Store, with any arguments, any
  clock reading and any drawn values, whether it returns or raises. The one thing assumed of a
  drawn identifier is what \<^verbatim>\<open>uuid4\<close> is for: a new credential's identifier is not in use.
\<close>

inductive control_step :: "(string \<Rightarrow> 'v) \<Rightarrow> 'v control_store \<Rightarrow> 'v control_store \<Rightarrow> bool"
  for H :: "string \<Rightarrow> 'v" where
  create_operator: "create_operator k name roles s = (r, s') \<Longrightarrow> control_step H s s'"
| update_operator: "update_operator k nm rs act now s = (r, s') \<Longrightarrow> control_step H s s'"
| issue_operator_access_token:
    "issue_operator_access_token H uid secret k life now s = (r, s') \<Longrightarrow>
     operator_token_at uid s = None \<Longrightarrow> control_step H s s'"
| authenticate_operator: "authenticate_operator H tok now s = (r, s') \<Longrightarrow> control_step H s s'"
| revoke_operator_access_token: "revoke_operator_access_token k now s = (b, s') \<Longrightarrow> control_step H s s'"
| rotate_operator_access_token:
    "rotate_operator_access_token H uid secret k ov life now s = (rc, s') \<Longrightarrow> control_step H s s'"
| create_admin_session:
    "create_admin_session H uid secret csrf tok t u s = (a, s') \<Longrightarrow>
     admin_session_at uid s = None \<Longrightarrow> control_step H s s'"
| authenticate_admin_session:
    "authenticate_admin_session H tok csrf need now s = (r, s') \<Longrightarrow> control_step H s s'"
| revoke_admin_session: "revoke_admin_session k now s = (b, s') \<Longrightarrow> control_step H s s'"
| record_operator_audit_event:
    "record_operator_audit_event uid ses a ty ids oc rf bf af now s = (ev, s') \<Longrightarrow> control_step H s s'"
| provisioning_jobs: "job_queue_step s s' \<Longrightarrow> control_step H s s'"
| create_tenant: "create_tenant t name s = (r, s') \<Longrightarrow> control_step H s s'"
| create_principal: "create_principal p name kind s = (r, s') \<Longrightarrow> control_step H s s'"
| update_principal: "update_principal p nm act now s = (r, s') \<Longrightarrow> control_step H s s'"
| disable_principal: "disable_principal p now s = (r, s') \<Longrightarrow> control_step H s s'"
| grant_membership: "grant_membership t p role s = (r, s') \<Longrightarrow> control_step H s s'"
| update_membership: "update_membership t p rs act now s = (r, s') \<Longrightarrow> control_step H s s'"
| disable_membership: "disable_membership t p now s = (r, s') \<Longrightarrow> control_step H s s'"
| revoke_membership_role: "revoke_membership_role t p role now s = (r, s') \<Longrightarrow> control_step H s s'"
| issue_access_token: "issue_access_token H uid secret t p life now s = (r, s') \<Longrightarrow>
     token_at uid s = None \<Longrightarrow> control_step H s s'"
| create_delegation: "create_delegation k t a u s = (r, s') \<Longrightarrow> control_step H s s'"
| update_delegation: "update_delegation k on now s = (r, s') \<Longrightarrow> control_step H s s'"
| issue_delegated_access_token:
    "issue_delegated_access_token H uid secret k life now s = (r, s') \<Longrightarrow>
     token_at uid s = None \<Longrightarrow> control_step H s s'"
| revoke_delegation: "revoke_delegation k now s = (r, s') \<Longrightarrow> control_step H s s'"
| create_channel_binding: "create_channel_binding i c e k s = (r, s') \<Longrightarrow> control_step H s s'"
| disable_channel_binding: "disable_channel_binding c e s = (r, s') \<Longrightarrow> control_step H s s'"
| remove_channel_binding: "remove_channel_binding c e s = (b, s') \<Longrightarrow> control_step H s s'"
| register_tenant_route: "register_tenant_route t adr sec db dbr ok s = (r, s') \<Longrightarrow> control_step H s s'"
| authenticate: "authenticate H tok now s = (r, s') \<Longrightarrow> control_step H s s'"
| revoke_access_token: "revoke_access_token k now s = (b, s') \<Longrightarrow> control_step H s s'"
| rotate_access_token:
    "rotate_access_token H uid secret k ov life now s = (rc, s') \<Longrightarrow> control_step H s s'"
| configure_token_lifetime_days:
    "s' = mem_configure_token_lifetime_days t kind n dlg s \<Longrightarrow> control_step H s s'"

text \<open>The part of the store that the job queue and the audit log do not touch.\<close>

definition without_jobs :: "'v control_store \<Rightarrow> 'v control_store" where
  "without_jobs s = s\<lparr>cs_operator_audit_events := [], cs_provisioning_jobs := [],
     cs_provisioning_job_keys := [], cs_provisioning_manifest_keys := []\<rparr>"

lemma job_queue_step_frame: "job_queue_step s s' \<Longrightarrow> without_jobs s' = without_jobs s"
  by (cases rule: job_queue_step.cases, assumption)
    (auto simp: without_jobs_def create_provisioning_job_def mem_create_provisioning_job_def job_at_def
      cancel_provisioning_job_def retry_provisioning_job_def request_provisioning_cleanup_def
      mem_update_provisioning_job_state_def mem_claim_next_provisioning_job_def
      mem_complete_provisioning_job_def mem_fail_provisioning_job_def
      record_operator_audit_event_def mem_save_operator_audit_event_def set_job_def and_then_def Let_def
      split: if_split_asm option.splits sum.splits prod.splits list.splits)

lemma register_tenant_route_inv:
  "register_tenant_route t a b c d ok s = (r, s') \<Longrightarrow> control_inv s \<Longrightarrow> control_inv s'"
  by (auto simp: register_tenant_route_def mem_save_tenant_route_def Let_def split: if_splits)

lemma record_operator_audit_event_inv:
  "record_operator_audit_event uid ses a ty ids oc rf bf af now s = (ev, s') \<Longrightarrow> control_inv s \<Longrightarrow> control_inv s'"
  by (auto simp: record_operator_audit_event_def mem_save_operator_audit_event_def Let_def)

lemma control_inv_without_jobs: "control_inv (without_jobs s) = control_inv s"
  by (simp add: without_jobs_def)

lemma job_queue_step_inv: "job_queue_step s s' \<Longrightarrow> control_inv s \<Longrightarrow> control_inv s'"
  using job_queue_step_frame control_inv_without_jobs by metis

lemmas operation_invs =
  create_operator_inv update_operator_inv issue_operator_access_token_inv authenticate_operator_inv
  revoke_operator_access_token_inv rotate_operator_access_token_inv create_admin_session_inv
  authenticate_admin_session_inv revoke_admin_session_inv record_operator_audit_event_inv
  job_queue_step_inv create_tenant_inv create_principal_inv update_principal_inv
  disable_principal_inv grant_membership_inv update_membership_inv disable_membership_inv
  revoke_membership_role_inv issue_access_token_inv create_delegation_inv update_delegation_inv
  issue_delegated_access_token_inv revoke_delegation_inv create_channel_binding_inv
  disable_channel_binding_inv remove_channel_binding_inv register_tenant_route_inv
  authenticate_inv revoke_access_token_inv rotate_access_token_inv

lemma control_step_inv: "control_step H s s' \<Longrightarrow> control_inv s \<Longrightarrow> control_inv s'"
  by (induction rule: control_step.induct)
    (auto simp: mem_configure_token_lifetime_days_def elim: operation_invs)

definition control_reachable :: "(string \<Rightarrow> 'v) \<Rightarrow> 'v control_store \<Rightarrow> bool" where
  "control_reachable H s \<longleftrightarrow> (control_step H)\<^sup>*\<^sup>* empty_control_store s"

lemma reachable_inv: "control_reachable H s \<Longrightarrow> control_inv s"
  unfolding control_reachable_def
  by (induction rule: rtranclp_induct) (auto intro: control_inv_empty control_step_inv)

lemma reachable_step: "control_reachable H s \<Longrightarrow> control_step H s s' \<Longrightarrow> control_reachable H s'"
  unfolding control_reachable_def by (rule rtranclp.rtrancl_into_rtrancl)

end
