(* ===== verification/CredentialHistory.thy ===== *)
theory CredentialHistory
  imports ControlSteps
begin

text \<open>
  What happens to a stored Access Token over time: its identifier, its digest and its session
  never change, it never lives longer than it was issued for, and once revoked it stays
  revoked, whatever methods are called. The number of active Operator administrators is
  followed in the same way.
\<close>

section \<open>Access Tokens only get weaker\<close>

definition token_weaker :: "('v, 'ses) token_record \<Rightarrow> ('v, 'ses) token_record \<Rightarrow> bool" where
  "token_weaker r r' \<longleftrightarrow>
     tk_token_id r' = tk_token_id r \<and> tk_verifier r' = tk_verifier r \<and> tk_session r' = tk_session r \<and>
     tk_issued_at r' = tk_issued_at r \<and> tk_expires_at r' \<le> tk_expires_at r \<and>
     (tk_revoked_at r \<noteq> None \<longrightarrow> tk_revoked_at r' = tk_revoked_at r)"

definition tokens_weaker :: "'v control_store \<Rightarrow> 'v control_store \<Rightarrow> bool" where
  "tokens_weaker s s' \<longleftrightarrow>
     (\<forall>k r. token_at k s = Some r \<longrightarrow> (\<exists>r'. token_at k s' = Some r' \<and> token_weaker r r'))"

lemma token_weaker_refl [simp]: "token_weaker r r"
  by (simp add: token_weaker_def)

lemma token_weaker_trans: "token_weaker r r' \<Longrightarrow> token_weaker r' r'' \<Longrightarrow> token_weaker r r''"
  by (auto simp: token_weaker_def)

lemma tokens_weaker_same: "cs_tokens s' = cs_tokens s \<Longrightarrow> tokens_weaker s s'"
  by (simp add: tokens_weaker_def)

lemma tokens_weaker_refl [simp]: "tokens_weaker s s"
  by (simp add: tokens_weaker_same)

lemma tokens_weaker_trans: "tokens_weaker s s' \<Longrightarrow> tokens_weaker s' s'' \<Longrightarrow> tokens_weaker s s''"
  unfolding tokens_weaker_def using token_weaker_trans by blast

lemma tokens_weaker_revoke:
  assumes "tokens_weaker s s1"
  shows "tokens_weaker s (revoke_matching_tokens p t s1)"
  using assms
proof (rule tokens_weaker_trans)
  show "tokens_weaker s1 (revoke_matching_tokens p t s1)"
    unfolding tokens_weaker_def
  proof (intro allI impI)
    fix k r assume "token_at k s1 = Some r"
    then show "\<exists>r'. token_at k (revoke_matching_tokens p t s1) = Some r' \<and> token_weaker r r'"
      by (cases "p r \<and> tk_revoked_at r = None")
        (simp_all add: revoke_matching_tokens_lookup token_weaker_def)
  qed
qed

lemma mem_disable_weaker:
  "mem_disable_principal p now s = (r, s') \<Longrightarrow> tokens_weaker s s'"
  "mem_disable_membership t p now s = (b, s'') \<Longrightarrow> tokens_weaker s s''"
  "mem_revoke_delegation k now s = (d, s''') \<Longrightarrow> tokens_weaker s s'''"
  by (auto simp: mem_disable_principal_def mem_disable_membership_def mem_revoke_delegation_def Let_def
      intro!: tokens_weaker_revoke intro: tokens_weaker_same split: option.splits)

lemma mem_update_principal_weaker:
  "mem_update_principal p name active now s = (r, s') \<Longrightarrow> tokens_weaker s s'"
  by (auto simp: mem_update_principal_def and_then_def Let_def
      dest!: mem_disable_weaker(1)
      intro: tokens_weaker_same tokens_weaker_trans [OF _ tokens_weaker_same] split: option.splits prod.splits sum.splits if_splits)

lemma mem_update_membership_weaker:
  "mem_update_membership m now s = (r, s') \<Longrightarrow> tokens_weaker s s'"
  by (auto simp: mem_update_membership_def and_then_def Let_def
      dest!: mem_disable_weaker(2) intro: tokens_weaker_trans [OF _ tokens_weaker_same]
      intro!: tokens_weaker_revoke intro: tokens_weaker_same
      split: option.splits prod.splits sum.splits if_splits)

lemma mem_revoke_membership_role_weaker:
  "mem_revoke_membership_role t p role now s = (r, s') \<Longrightarrow> tokens_weaker s s'"
  by (auto simp: mem_revoke_membership_role_def Let_def
      dest: mem_disable_weaker(2) intro!: tokens_weaker_revoke intro: tokens_weaker_same
      split: option.splits if_splits)

lemma token_issue_weaker:
  "TokenService_issue H access_token_ops uid secret ses life now s = (r, s') \<Longrightarrow>
   token_at uid s = None \<Longrightarrow> tokens_weaker s s'"
  by (auto simp: TokenService_issue_def issue_with_def build_record_def Let_def access_token_ops_def
      mem_save_def tokens_weaker_def dict_get_set)

lemma authenticate_weaker: "authenticate H tok now s = (r, s') \<Longrightarrow> tokens_weaker s s'"
  by (auto simp: authenticate_def TokenService_authenticate_def authenticate_with_alt
      access_token_ops_def mem_mark_used_def tokens_weaker_def token_weaker_def dict_get_set
      split: option.splits if_splits)

lemma revoke_weaker: "revoke_access_token k now s = (r, s') \<Longrightarrow> tokens_weaker s s'"
  by (auto simp: revoke_access_token_def TokenService_revoke_def access_token_ops_def mem_revoke_def
      tokens_weaker_def token_weaker_def dict_get_set split: option.splits if_splits)

lemma mem_rotate_weaker: "mem_rotate k new v now s = (b, s') \<Longrightarrow> tokens_weaker s s'"
  by (auto simp: mem_rotate_def mem_get_def tokens_weaker_def token_weaker_def dict_get_set
      split: option.splits if_splits)

lemma rotate_weaker: "rotate_access_token H uid secret k ov life now s = (r, s') \<Longrightarrow> tokens_weaker s s'"
  by (erule rotate_access_token_cases)
    (auto simp: TokenService_rotate_def rotate_with_def Let_def access_token_ops_def
     dest: mem_rotate_weaker split: if_split_asm prod.splits)

lemma issue_weaker:
  assumes "token_at uid s = None"
  shows "issue_access_token H uid secret t p life now s = (r, s') \<Longrightarrow> tokens_weaker s s'"
    and "issue_delegated_access_token H uid secret k life now s = (r, s') \<Longrightarrow> tokens_weaker s s'"
  using assms
  by (cases r; auto dest!: issue_access_token_Inl issue_delegated_access_token_Inl
      elim!: issue_access_token_Inr issue_delegated_access_token_Inr dest: token_issue_weaker)+

text \<open>The other methods do not write the Access Tokens at all.\<close>

lemma operator_services_tokens:
  "OperatorTokenService_authenticate H operator_token_ops tok now s = (r, s') \<Longrightarrow> cs_tokens s' = cs_tokens s"
  "OperatorTokenService_issue H operator_token_ops uid secret ses life now s = (i, s') \<Longrightarrow> cs_tokens s' = cs_tokens s"
  "OperatorTokenService_rotate H operator_token_ops uid secret k ses life ov now s = (c, s') \<Longrightarrow> cs_tokens s' = cs_tokens s"
  "OperatorTokenService_revoke operator_token_ops k now s = (b, s') \<Longrightarrow> cs_tokens s' = cs_tokens s"
  by (auto simp: OperatorTokenService_authenticate_def OperatorTokenService_issue_def
      OperatorTokenService_rotate_def OperatorTokenService_revoke_def authenticate_with_alt issue_with_def rotate_with_def
      build_record_def operator_token_op_defs Let_def
      split: option.splits if_splits prod.splits)

lemma operator_methods_tokens:
  "create_operator k name roles s = (r1, s') \<Longrightarrow> cs_tokens s' = cs_tokens s"
  "update_operator k nm rs act now s = (r1, s') \<Longrightarrow> cs_tokens s' = cs_tokens s"
  "issue_operator_access_token H uid secret k life now s = (r2, s') \<Longrightarrow> cs_tokens s' = cs_tokens s"
  "authenticate_operator H tok now s = (r3, s') \<Longrightarrow> cs_tokens s' = cs_tokens s"
  "revoke_operator_access_token k now s = (b, s') \<Longrightarrow> cs_tokens s' = cs_tokens s"
  "rotate_operator_access_token H uid secret k ov life now s = (r4, s') \<Longrightarrow> cs_tokens s' = cs_tokens s"
  by (auto simp: create_operator_def mem_add_operator_def update_operator_def mem_update_operator_def
      issue_operator_access_token_def authenticate_operator_def revoke_operator_access_token_def
      rotate_operator_access_token_def inspect_operator_def and_then_def Let_def
      dest: operator_services_tokens split: if_splits option.splits sum.splits prod.splits)

lemma session_methods_tokens:
  "create_admin_session H uid secret csrf tok t u s = (r1, s') \<Longrightarrow> cs_tokens s' = cs_tokens s"
  "authenticate_admin_session H tok csrf1 need now s = (r2, s') \<Longrightarrow> cs_tokens s' = cs_tokens s"
  "revoke_admin_session k now s = (b, s') \<Longrightarrow> cs_tokens s' = cs_tokens s"
  by (auto simp: create_admin_session_def authenticate_admin_session_def revoke_admin_session_def
      AdminSessionService_create_def AdminSessionService_authenticate_def AdminSessionService_revoke_def
      admin_session_ops_of_store_def mem_save_admin_session_def mem_revoke_admin_session_def
      mem_mark_admin_session_used_def inspect_operator_def and_then_def Let_def
      dest: operator_services_tokens split: if_splits option.splits sum.splits prod.splits list.splits)

lemma entity_methods_tokens:
  "create_tenant t name s = (r1, s') \<Longrightarrow> cs_tokens s' = cs_tokens s"
  "create_principal p name kind s = (r2, s') \<Longrightarrow> cs_tokens s' = cs_tokens s"
  "grant_membership t p role s = (r3, s') \<Longrightarrow> cs_tokens s' = cs_tokens s"
  "create_delegation k t a u s = (r4, s') \<Longrightarrow> cs_tokens s' = cs_tokens s"
  "create_channel_binding i c e k s = (r5, s') \<Longrightarrow> cs_tokens s' = cs_tokens s"
  "disable_channel_binding c e s = (r5, s') \<Longrightarrow> cs_tokens s' = cs_tokens s"
  "remove_channel_binding c e s = (b, s') \<Longrightarrow> cs_tokens s' = cs_tokens s"
  "register_tenant_route t a1 a2 a3 a4 ok s = (r6, s') \<Longrightarrow> cs_tokens s' = cs_tokens s"
  by (auto simp: create_tenant_def mem_add_tenant_def create_principal_def mem_add_principal_def
      grant_membership_def mem_save_membership_def create_delegation_def mem_save_delegation_def
      create_channel_binding_def mem_save_channel_binding_def disable_channel_binding_def
      mem_update_channel_binding_def remove_channel_binding_def mem_delete_channel_binding_def
      register_tenant_route_def mem_save_tenant_route_def and_then_def Let_def
      split: if_splits option.splits sum.splits prod.splits)

lemma update_delegation_weaker: "update_delegation k on now s = (r, s') \<Longrightarrow> tokens_weaker s s'"
  by (auto simp: update_delegation_def inspect_delegation_def mem_update_delegation_active_def
      and_then_def Let_def dest: mem_disable_weaker(3) intro: tokens_weaker_same
      split: if_splits option.splits sum.splits prod.splits)

lemma job_queue_step_tokens: "job_queue_step s s' \<Longrightarrow> cs_tokens s' = cs_tokens s"
proof -
  assume "job_queue_step s s'"
  then have "cs_tokens (without_jobs s') = cs_tokens (without_jobs s)"
    by (simp only: job_queue_step_frame)
  then show ?thesis by (simp add: without_jobs_def)
qed

lemma control_step_weaker: "control_step H s s' \<Longrightarrow> tokens_weaker s s'"
proof (induction rule: control_step.induct)
  case (update_principal p nm act now s r s')
  then show ?case
    by (auto simp: update_principal_def inspect_principal_def Let_def
        dest: mem_update_principal_weaker split: option.splits if_splits)
next
  case (update_membership t p rs act now s r s')
  then show ?case
    by (auto simp: update_membership_def inspect_membership_def Let_def
        dest: mem_update_membership_weaker split: option.splits if_splits)
next
  case (record_operator_audit_event uid ses a ty ids oc rf bf af now s ev s')
  then show ?case
    by (auto simp: record_operator_audit_event_def mem_save_operator_audit_event_def Let_def
        intro: tokens_weaker_same)
qed (auto simp: disable_principal_def disable_membership_def revoke_membership_role_def
      revoke_delegation_def mem_configure_token_lifetime_days_def
    dest: operator_methods_tokens session_methods_tokens entity_methods_tokens job_queue_step_tokens
      mem_disable_weaker mem_revoke_membership_role_weaker issue_weaker authenticate_weaker
      revoke_weaker rotate_weaker update_delegation_weaker
    intro: tokens_weaker_same split: if_splits)

lemma control_steps_weaker: "(control_step H)\<^sup>*\<^sup>* s s' \<Longrightarrow> tokens_weaker s s'"
  by (induction rule: rtranclp_induct) (auto intro: tokens_weaker_trans control_step_weaker)

section \<open>The last Operator administrator\<close>

definition is_admin :: "operator_record \<Rightarrow> bool" where
  "is_admin r \<longleftrightarrow> op_active r \<and> ''operator_admin'' \<in> op_roles r"

lemma count_admins_alt:
  "mem_count_active_operator_admins s = length (filter (\<lambda>(k, r). is_admin r) (cs_operators s))"
  by (simp add: mem_count_active_operator_admins_def dict_values_def filter_map comp_def
      case_prod_unfold is_admin_def)

lemma length_filter_dict_set:
  "dict_ok d \<Longrightarrow> length (filter (\<lambda>(k, r). P r) (dict_set k v d)) =
     length (filter (\<lambda>(k, r). P r) d) + (if P v then 1 else 0)
       - (case dict_get d k of None \<Rightarrow> 0 | Some r \<Rightarrow> if P r then 1 else 0)"
proof (induction d)
  case (Cons item d)
  obtain i r where item: "item = (i, r)" by (cases item)
  from Cons.prems have "dict_ok d" and fresh: "i \<notin> fst ` set d" by (auto simp: item dict_ok_def)
  then have "dict_get d i = None" by (simp add: map_of_eq_None_iff)
  have "k \<in> fst ` set d" if "dict_get d k = Some v'" for v'
    using that by (force dest: map_of_SomeD)
  have pos: "0 < length (filter (\<lambda>(k, r). P r) d)" if "dict_get d k = Some v'" "P v'" for v'
    using that by (auto simp: filter_empty_conv dest!: map_of_SomeD)
  show ?case
    using Cons.IH [OF \<open>dict_ok d\<close>] pos
    by (cases "i = k") (auto simp: item split: option.splits)
qed simp

lemma mem_add_operator_admins:
  "mem_add_operator r s = (x, s') \<Longrightarrow> dict_ok (cs_operators s) \<Longrightarrow>
   mem_count_active_operator_admins s \<le> mem_count_active_operator_admins s'"
  by (auto simp: mem_add_operator_def count_admins_alt length_filter_dict_set split: if_splits)

lemma update_operator_cases:
  assumes "update_operator k name roles active now s = (r, s')" and "operator_of s k = Some current"
    and "new_roles = if_None (op_roles current) roles" and "new_active = if_None (op_active current) active"
  shows "s' = s \<or> (\<exists>n. mem_update_operator k n new_roles new_active now s = (r, s') \<and>
    \<not> (is_admin current \<and> \<not> (new_active \<and> ''operator_admin'' \<in> new_roles) \<and>
       mem_count_active_operator_admins s \<le> 1))"
  using assms
  by (cases "validate_operator_roles new_roles")
    (auto simp: update_operator_def inspect_operator_def mem_get_operator_def is_admin_def Let_def
     split: if_split_asm)

lemma update_operator_admins:
  assumes "update_operator k name roles active now s = (r, s')" and "dict_ok (cs_operators s)"
    and "0 < mem_count_active_operator_admins s"
  shows "0 < mem_count_active_operator_admins s'"
proof (cases "operator_of s k")
  case None
  then show ?thesis using assms by (simp add: update_operator_def inspect_operator_def mem_get_operator_def)
next
  case (Some current)
  from update_operator_cases [OF assms(1) Some refl refl] show ?thesis
  proof (elim disjE exE conjE)
    fix n
    let ?new = "current\<lparr>op_name := n, op_roles := if_None (op_roles current) roles,
      op_active := if_None (op_active current) active\<rparr>"
    assume "mem_update_operator k n (if_None (op_roles current) roles)
        (if_None (op_active current) active) now s = (r, s')"
      and keep: "\<not> (is_admin current \<and> \<not> (if_None (op_active current) active \<and>
         ''operator_admin'' \<in> if_None (op_roles current) roles) \<and> mem_count_active_operator_admins s \<le> 1)"
    then have "cs_operators s' = dict_set k ?new (cs_operators s)"
      using Some by (auto simp: mem_update_operator_def Let_def)
    moreover have "is_admin ?new \<longleftrightarrow> if_None (op_active current) active \<and>
        ''operator_admin'' \<in> if_None (op_roles current) roles"
      by (simp add: is_admin_def)
    ultimately show ?thesis
      using assms(2,3) keep Some by (auto simp: count_admins_alt length_filter_dict_set)
  qed (use assms(3) in simp)
qed

text \<open>The other methods do not write the Operators.\<close>

lemma operator_services_operators:
  "OperatorTokenService_authenticate H operator_token_ops tok now s = (r, s') \<Longrightarrow> cs_operators s' = cs_operators s"
  "OperatorTokenService_issue H operator_token_ops uid secret ses life now s = (i, s') \<Longrightarrow> cs_operators s' = cs_operators s"
  "OperatorTokenService_rotate H operator_token_ops uid secret k ses life ov now s = (c, s') \<Longrightarrow> cs_operators s' = cs_operators s"
  "OperatorTokenService_revoke operator_token_ops k now s = (b, s') \<Longrightarrow> cs_operators s' = cs_operators s"
  by (auto simp: OperatorTokenService_authenticate_def OperatorTokenService_issue_def
      OperatorTokenService_rotate_def OperatorTokenService_revoke_def authenticate_with_alt
      issue_with_def rotate_with_def build_record_def operator_token_op_defs Let_def
      split: option.splits if_splits prod.splits)

lemma operator_methods_operators:
  "issue_operator_access_token H uid secret k life now s = (r2, s') \<Longrightarrow> cs_operators s' = cs_operators s"
  "authenticate_operator H tok now s = (r3, s') \<Longrightarrow> cs_operators s' = cs_operators s"
  "revoke_operator_access_token k now s = (b, s') \<Longrightarrow> cs_operators s' = cs_operators s"
  "rotate_operator_access_token H uid secret k ov life now s = (r4, s') \<Longrightarrow> cs_operators s' = cs_operators s"
  by (auto simp: issue_operator_access_token_def authenticate_operator_def
      revoke_operator_access_token_def rotate_operator_access_token_def inspect_operator_def
      and_then_def Let_def
      dest: operator_services_operators split: if_splits option.splits sum.splits prod.splits)

lemma session_methods_operators:
  "create_admin_session H uid secret csrf tok t u s = (r1, s') \<Longrightarrow> cs_operators s' = cs_operators s"
  "authenticate_admin_session H tok csrf1 need now s = (r2, s') \<Longrightarrow> cs_operators s' = cs_operators s"
  "revoke_admin_session k now s = (b, s') \<Longrightarrow> cs_operators s' = cs_operators s"
  by (auto simp: create_admin_session_def authenticate_admin_session_def revoke_admin_session_def
      AdminSessionService_create_def AdminSessionService_authenticate_def AdminSessionService_revoke_def
      admin_session_ops_of_store_def mem_save_admin_session_def mem_revoke_admin_session_def
      mem_mark_admin_session_used_def inspect_operator_def and_then_def Let_def
      dest: operator_services_operators split: if_splits option.splits sum.splits prod.splits list.splits)

lemma entity_methods_operators:
  "create_tenant t name s = (r1, s') \<Longrightarrow> cs_operators s' = cs_operators s"
  "create_principal p name kind s = (r2, s') \<Longrightarrow> cs_operators s' = cs_operators s"
  "grant_membership t p role s = (r3, s') \<Longrightarrow> cs_operators s' = cs_operators s"
  "create_delegation k t a u s = (r4, s') \<Longrightarrow> cs_operators s' = cs_operators s"
  "create_channel_binding i c e k s = (r5, s') \<Longrightarrow> cs_operators s' = cs_operators s"
  "disable_channel_binding c e s = (r5, s') \<Longrightarrow> cs_operators s' = cs_operators s"
  "remove_channel_binding c e s = (b, s') \<Longrightarrow> cs_operators s' = cs_operators s"
  "register_tenant_route t a1 a2 a3 a4 ok s = (r6, s') \<Longrightarrow> cs_operators s' = cs_operators s"
  by (auto simp: create_tenant_def mem_add_tenant_def create_principal_def mem_add_principal_def
      grant_membership_def mem_save_membership_def create_delegation_def mem_save_delegation_def
      create_channel_binding_def mem_save_channel_binding_def disable_channel_binding_def
      mem_update_channel_binding_def remove_channel_binding_def mem_delete_channel_binding_def
      register_tenant_route_def mem_save_tenant_route_def and_then_def Let_def
      split: if_splits option.splits sum.splits prod.splits)

lemma mem_disable_operators:
  "mem_disable_principal p now s = (r1, s') \<Longrightarrow> cs_operators s' = cs_operators s"
  "mem_disable_membership t p now s = (r2, s') \<Longrightarrow> cs_operators s' = cs_operators s"
  "mem_revoke_delegation k now s = (r3, s') \<Longrightarrow> cs_operators s' = cs_operators s"
  by (auto simp: mem_disable_principal_def mem_disable_membership_def mem_revoke_delegation_def Let_def
      split: option.splits)

lemma revoking_methods_operators:
  "mem_update_principal p n act now s = (r1, s') \<Longrightarrow> cs_operators s' = cs_operators s"
  "mem_update_membership m now s = (r2, s') \<Longrightarrow> cs_operators s' = cs_operators s"
  "mem_revoke_membership_role t p role now s = (r2, s') \<Longrightarrow> cs_operators s' = cs_operators s"
  "update_delegation k on now s = (r3, s') \<Longrightarrow> cs_operators s' = cs_operators s"
  by (auto simp: mem_update_principal_def mem_update_membership_def mem_revoke_membership_role_def
      update_delegation_def inspect_delegation_def mem_update_delegation_active_def and_then_def Let_def
      dest!: mem_disable_operators split: if_splits option.splits sum.splits prod.splits)

lemma token_methods_operators:
  "TokenService_issue H access_token_ops uid secret ses life now s = (r1, s') \<Longrightarrow> cs_operators s' = cs_operators s"
  "TokenService_rotate H access_token_ops uid secret k ses life ov now s = (r2, s') \<Longrightarrow> cs_operators s' = cs_operators s"
  "authenticate H tok now s = (r3, s') \<Longrightarrow> cs_operators s' = cs_operators s"
  "revoke_access_token k now s = (b, s') \<Longrightarrow> cs_operators s' = cs_operators s"
  by (auto simp: TokenService_issue_def TokenService_rotate_def authenticate_def
      TokenService_authenticate_def revoke_access_token_def TokenService_revoke_def authenticate_with_alt
      issue_with_def rotate_with_def build_record_def access_token_op_defs Let_def
      split: option.splits if_splits prod.splits)

lemma issue_operators:
  "issue_access_token H uid secret t p life now s = (r, s') \<Longrightarrow> cs_operators s' = cs_operators s"
  "issue_delegated_access_token H uid secret k life now s = (r, s') \<Longrightarrow> cs_operators s' = cs_operators s"
  "rotate_access_token H uid secret k ov life now s = (rc, s') \<Longrightarrow> cs_operators s' = cs_operators s"
    apply (cases r; auto dest!: issue_access_token_Inl elim!: issue_access_token_Inr
      dest: token_methods_operators)
   apply (cases r; auto dest!: issue_delegated_access_token_Inl elim!: issue_delegated_access_token_Inr
      dest: token_methods_operators)
  by (erule rotate_access_token_cases) (auto dest: token_methods_operators)

lemma job_queue_step_operators: "job_queue_step s s' \<Longrightarrow> cs_operators s' = cs_operators s"
proof -
  assume "job_queue_step s s'"
  then have "cs_operators (without_jobs s') = cs_operators (without_jobs s)"
    by (simp only: job_queue_step_frame)
  then show ?thesis by (simp add: without_jobs_def)
qed

lemma control_step_operators:
  assumes "control_step H s s'"
  shows "cs_operators s' = cs_operators s \<or> (\<exists>k name roles r. create_operator k name roles s = (r, s'))
    \<or> (\<exists>k nm rs act now r. update_operator k nm rs act now s = (r, s'))"
  using assms
proof cases
  case (update_principal p nm act now r)
  then show ?thesis
    by (auto simp: update_principal_def inspect_principal_def Let_def
        dest: revoking_methods_operators split: option.splits if_splits)
next
  case (update_membership t p rs act now r)
  then show ?thesis
    by (auto simp: update_membership_def inspect_membership_def Let_def
        dest: revoking_methods_operators split: option.splits if_splits)
next
  case (record_operator_audit_event uid ses a ty ids oc rf bf af now ev)
  then show ?thesis
    by (auto simp: record_operator_audit_event_def mem_save_operator_audit_event_def Let_def)
qed (auto simp: disable_principal_def disable_membership_def revoke_membership_role_def
      revoke_delegation_def mem_configure_token_lifetime_days_def
    dest: operator_methods_operators session_methods_operators entity_methods_operators
      mem_disable_operators revoking_methods_operators token_methods_operators issue_operators
      job_queue_step_operators split: if_splits)

lemma control_step_admins:
  assumes "control_step H s s'" and "control_inv s" and "0 < mem_count_active_operator_admins s"
  shows "0 < mem_count_active_operator_admins s'"
proof -
  have ok: "dict_ok (cs_operators s)" using control_invD(1) [OF assms(2)] by (simp add: dicts_ok_def)
  from control_step_operators [OF assms(1)] show ?thesis
  proof (elim disjE exE)
    assume "cs_operators s' = cs_operators s"
    then show ?thesis using assms(3) by (simp add: count_admins_alt)
  next
    fix k name roles r assume "create_operator k name roles s = (r, s')"
    then have "s' = s \<or> (\<exists>rec x. mem_add_operator rec s = (x, s'))"
      by (auto simp: create_operator_def validate_operator_roles_def and_then_def Let_def
          split: if_splits sum.splits prod.splits)
    then show ?thesis using assms(3) mem_add_operator_admins [OF _ ok] by fastforce
  next
    fix k nm rs act now r assume "update_operator k nm rs act now s = (r, s')"
    then show ?thesis using ok assms(3) by (rule update_operator_admins)
  qed
qed

end
