(* ===== verification/ControlProperties.thy ===== *)
theory ControlProperties
  imports CredentialHistory
begin

text \<open>
  The properties of the control plane, over the states its methods reach, and the sample
  store that their witnesses evaluate on.
\<close>

section \<open>A sample store\<close>

text \<open>
  One Operator, one Tenant, a human administrator and an Agent acting for her through a
  Delegation and a Channel Binding, each with an Access Token.
\<close>

definition sample_members :: "nat control_store" where
  "sample_members =
     (let s = snd (create_operator ''root'' ''Root'' {''operator_admin''} empty_control_store);
          s = snd (create_tenant ''acme'' ''Acme'' s);
          s = snd (create_principal ''alice'' ''Alice'' ''user'' s);
          s = snd (create_principal ''bot'' ''Bot'' ''agent'' s);
          s = snd (grant_membership ''acme'' ''alice'' ''tenant_administrator'' s)
      in snd (grant_membership ''acme'' ''bot'' ''tenant_member'' s))"

definition sample_store :: "nat control_store" where
  "sample_store =
     (let s = snd (create_delegation ''d1'' ''acme'' ''bot'' ''alice'' sample_members);
          s = snd (create_channel_binding ''b1'' ''telegram'' ''42'' ''d1'' s);
          s = snd (issue_access_token sample_digest ''k1'' ''sec'' ''acme'' ''alice'' None 0 s)
      in snd (issue_delegated_access_token sample_digest ''k2'' ''sec'' ''d1'' None 0 s))"

lemma sample_members_eq:
  "sample_members = empty_control_store\<lparr>
     cs_operators := [(''root'', \<lparr>op_operator_id = ''root'', op_name = ''Root'',
       op_roles = {''operator_admin''}, op_active = True\<rparr>)],
     cs_tenants := [(''acme'', \<lparr>tr_tenant_id = ''acme'', tr_name = ''Acme'', tr_active = True\<rparr>)],
     cs_principals := [(''alice'', \<lparr>pr_principal_id = ''alice'', pr_name = ''Alice'', pr_kind = USER,
         pr_active = True\<rparr>),
       (''bot'', \<lparr>pr_principal_id = ''bot'', pr_name = ''Bot'', pr_kind = AGENT, pr_active = True\<rparr>)],
     cs_memberships := [((''acme'', ''alice''), \<lparr>mb_tenant_id = ''acme'', mb_principal_id = ''alice'',
         mb_roles = {''tenant_administrator''}, mb_active = True\<rparr>),
       ((''acme'', ''bot''), \<lparr>mb_tenant_id = ''acme'', mb_principal_id = ''bot'',
         mb_roles = {''tenant_member''}, mb_active = True\<rparr>)]\<rparr>"
  by code_simp

lemma sample_store_eq:
  "sample_store = sample_members\<lparr>
     cs_delegations := [(''d1'', \<lparr>dg_delegation_id = ''d1'', dg_tenant_id = ''acme'',
       dg_agent_id = ''bot'', dg_subject_user_id = ''alice'', dg_active = True\<rparr>)],
     cs_channel_bindings := [((''telegram'', ''42''), \<lparr>cb_binding_id = ''b1'', cb_channel = ''telegram'',
       cb_external_id = ''42'', cb_tenant_id = ''acme'', cb_user_id = ''alice'', cb_agent_id = ''bot'',
       cb_delegation_id = ''d1'', cb_active = True\<rparr>)],
     cs_tokens := [(''k1'', \<lparr>tk_token_id = ''k1'', tk_verifier = 3, tk_session =
         \<lparr>ts_tenant_id = ''acme'', ts_actor_id = ''alice'', ts_actor_kind = USER,
          ts_roles = {''tenant_administrator''}, ts_subject_user_id = None, ts_delegation_id = None,
          ts_token_id = Some ''k1''\<rparr>, tk_expires_at = days 90, tk_issued_at = 0,
         tk_revoked_at = None, tk_last_used_at = None\<rparr>),
       (''k2'', \<lparr>tk_token_id = ''k2'', tk_verifier = 3, tk_session =
         \<lparr>ts_tenant_id = ''acme'', ts_actor_id = ''bot'', ts_actor_kind = AGENT,
          ts_roles = {''tenant_member''}, ts_subject_user_id = Some ''alice'',
          ts_delegation_id = Some ''d1'', ts_token_id = Some ''k2''\<rparr>, tk_expires_at = days 90,
         tk_issued_at = 0, tk_revoked_at = None, tk_last_used_at = None\<rparr>)]\<rparr>"
  by code_simp

lemma reach_by:
  assumes "control_reachable H s"
  shows "control_reachable H (snd (create_operator k name roles s))"
    and "control_reachable H (snd (create_tenant t name s))"
    and "control_reachable H (snd (create_principal p name kind s))"
    and "control_reachable H (snd (grant_membership t p role s))"
    and "control_reachable H (snd (create_delegation k t a u s))"
    and "control_reachable H (snd (create_channel_binding i c e k s))"
    and "token_at uid s = None \<Longrightarrow>
      control_reachable H (snd (issue_access_token H uid secret t p life now s))"
    and "token_at uid s = None \<Longrightarrow>
      control_reachable H (snd (issue_delegated_access_token H uid secret k life now s))"
    and "operator_token_at uid s = None \<Longrightarrow>
      control_reachable H (snd (issue_operator_access_token H uid secret k life now s))"
  by (metis assms reachable_step control_step.intros prod.collapse)+

lemma sample_reachable:
  "control_reachable sample_digest sample_members" "control_reachable sample_digest sample_store"
proof -
  have "control_reachable sample_digest empty_control_store"
    by (simp add: control_reachable_def)
  then show m: "control_reachable sample_digest sample_members"
    unfolding sample_members_def Let_def by (intro reach_by)
  let ?bound = "snd (create_channel_binding ''b1'' ''telegram'' ''42'' ''d1''
      (snd (create_delegation ''d1'' ''acme'' ''bot'' ''alice'' sample_members)))"
  have "token_at ''k1'' ?bound = None" by code_simp
  moreover have "token_at ''k2'' (snd (issue_access_token sample_digest ''k1'' ''sec'' ''acme'' ''alice''
      None 0 ?bound)) = None" by code_simp
  ultimately show "control_reachable sample_digest sample_store"
    unfolding sample_store_def Let_def using m by (intro reach_by)
qed

section \<open>Authority is always backed\<close>

text \<open>
  C1. Authority never dangles. In every state the control plane reaches, each Membership
  belongs to a known Principal and Tenant and has valid roles (an Agent only ever
  \<^verbatim>\<open>tenant_member\<close>), each active Membership belongs to an active Principal, each active
  Delegation joins an active Agent and an active User with active Memberships, each active
  Channel Binding matches its active Delegation, and each token or Admin Session that is not
  revoked is backed by active records that grant at least the roles it carries.
\<close>

theorem authority_never_dangles:
  assumes "control_reachable H s"
  shows "control_inv s"
  using assms by (rule reachable_inv)

theorem authority_never_dangles_witness:
  "control_inv sample_store \<and> length (cs_tokens sample_store) = 2"
  using authority_never_dangles [OF sample_reachable(2)] by (simp add: sample_store_eq)

lemma resolve_channel_session_Inr:
  "resolve_channel_session c e s = Inr ses \<longleftrightarrow>
   (\<exists>b d m. binding_of s c e = Some b \<and> cb_active b \<and>
      delegation_of s (cb_delegation_id b) = Some d \<and> dg_active d \<and>
      dg_tenant_id d = cb_tenant_id b \<and> dg_agent_id d = cb_agent_id b \<and>
      dg_subject_user_id d = cb_user_id b \<and>
      membership_of s (cb_tenant_id b) (cb_agent_id b) = Some m \<and> mb_active m \<and>
      ses = \<lparr>ts_tenant_id = cb_tenant_id b, ts_actor_id = cb_agent_id b, ts_actor_kind = AGENT,
        ts_roles = mb_roles m, ts_subject_user_id = Some (cb_user_id b),
        ts_delegation_id = Some (cb_delegation_id b), ts_token_id = None\<rparr>)"
  by (auto simp: resolve_channel_session_def control_inv_lookups split: option.splits if_split_asm)

text \<open>
  An Agent never acts with a role above \<^verbatim>\<open>tenant_member\<close>: not through its Membership, not
  through a token that has not been revoked, not through a Channel Binding.
\<close>

lemma agents_are_plain_members:
  assumes "control_reachable H s"
  shows "(membership_of s t p = Some m \<longrightarrow> principal_of s p = Some pr \<longrightarrow> pr_kind pr = AGENT \<longrightarrow>
      mb_roles m = {''tenant_member''})
    \<and> (token_at k s = Some r \<longrightarrow> tk_revoked_at r = None \<longrightarrow> ts_actor_kind (tk_session r) = AGENT \<longrightarrow>
      ts_roles (tk_session r) \<subseteq> {''tenant_member''})
    \<and> (resolve_channel_session c e s = Inr ses \<longrightarrow> ts_roles ses = {''tenant_member''})"
proof -
  have inv: "control_inv s" using assms by (rule reachable_inv)
  have member: "mb_roles m = {''tenant_member''}"
    if "membership_of s t p = Some m" "principal_of s p = Some pr" "pr_kind pr = AGENT" for t p m pr
    using stored_membership [OF inv that(1)] that(2,3) by (simp add: membership_ok_def)
  have "ts_roles (tk_session r) \<subseteq> {''tenant_member''}"
    if "token_at k s = Some r" "tk_revoked_at r = None" "ts_actor_kind (tk_session r) = AGENT"
    using live_backed(1) [OF inv that(1,2)] that(3) member
    by (fastforce simp: session_backed_def active_principal_def active_member_def)
  moreover have "ts_roles ses = {''tenant_member''}" if res: "resolve_channel_session c e s = Inr ses"
  proof -
    obtain b :: channel_binding_record and d m where d: "delegation_of s (cb_delegation_id b) = Some d" "dg_active d"
      and b: "dg_agent_id d = cb_agent_id b"
      and m: "membership_of s (cb_tenant_id b) (cb_agent_id b) = Some m" "ts_roles ses = mb_roles m"
      using res unfolding resolve_channel_session_Inr by auto
    have "active_principal s (cb_agent_id b) AGENT"
      using stored_delegation(2) [OF inv d] b by simp
    then show ?thesis using m member by (auto simp: active_principal_def)
  qed
  ultimately show ?thesis using member [of t p m pr] by blast
qed

section \<open>Authentication\<close>

text \<open>
  A token that was just issued authenticates until it expires, as the Principal it was
  issued to with the roles of its Membership, and it expires no later than the policy of its
  Tenant and Principal kind allows.
\<close>

lemma issued_token_authenticates:
  assumes "issue_access_token H uid secret t p lifetime now s = (Inr c, s')"
    and "CHR ''.'' \<notin> set uid" and "secret \<noteq> []" and "later < ic_expires_at c"
  shows "\<exists>pr m. principal_of s p = Some pr \<and> membership_of s t p = Some m \<and>
    fst (authenticate H (ic_access_token c) later s') =
      Inr \<lparr>ts_tenant_id = t, ts_actor_id = p, ts_actor_kind = pr_kind pr, ts_roles = mb_roles m,
           ts_subject_user_id = None, ts_delegation_id = None, ts_token_id = Some uid\<rparr> \<and>
    now < ic_expires_at c \<and>
    ic_expires_at c \<le> now + days (or_int (mem_token_lifetime_days t (pr_kind pr) False s)
      (if pr_kind pr = USER then 90 else 30))"
  using assms(1)
proof (rule issue_access_token_Inr)
  fix pr :: principal_record and m :: membership_record
  let ?top = "days (or_int (mem_token_lifetime_days t (pr_kind pr) False s)
      (if pr_kind pr = USER then 90 else 30))"
  let ?L = "if_None ?top lifetime"
  let ?ses = "\<lparr>ts_tenant_id = t, ts_actor_id = p, ts_actor_kind = pr_kind pr, ts_roles = mb_roles m,
       ts_subject_user_id = None, ts_delegation_id = None, ts_token_id = None\<rparr>"
  assume live: "present_and tr_active (tenant_of s t)" "principal_of s p = Some pr" "pr_active pr"
      "membership_of s t p = Some m" "mb_active m" and L: "0 < ?L" "?L \<le> ?top"
    and issue: "TokenService_issue H access_token_ops uid secret ?ses ?L now s = (Inr c, s')"
  have expires: "ic_expires_at c = now + ?L"
    using issue by (auto simp: TokenService_issue_def issue_with_def build_record_def Let_def)
  have "session_admitted s (stamp_tenant uid ?ses)"
    using live by (auto simp: session_admitted_def stamp_tenant_def present_and_iff)
  then have "fst (authenticate H (ic_access_token c) later s') = Inr (stamp_tenant uid ?ses)"
    unfolding authenticate_def TokenService_authenticate_def using issue assms(2-4) expires
    by (intro access_tokens.issued_authenticates) (simp_all add: TokenService_issue_def)
  then show ?thesis using live L expires by (auto simp: stamp_tenant_def)
qed

end
