(* ===== verification/OperatorProperties.thy ===== *)
theory OperatorProperties
  imports ControlProperties
begin

text \<open>
  Properties of Operators and their credentials, of the roles of a Membership and of Channel
  Bindings.
\<close>

section \<open>Operators\<close>

text \<open>
  C17. The deployment is never left without an active \<^verbatim>\<open>operator_admin\<close>: once one exists, one
  exists after any sequence of control plane calls.
\<close>

theorem an_operator_admin_remains:
  assumes "control_reachable H s" and "0 < mem_count_active_operator_admins s"
    and "(control_step H)\<^sup>*\<^sup>* s s'"
  shows "0 < mem_count_active_operator_admins s'"
proof -
  have "control_inv s' \<and> 0 < mem_count_active_operator_admins s'"
    using assms(3)
  proof (induction rule: rtranclp_induct)
    case base
    then show ?case using assms(1,2) reachable_inv by blast
  next
    case (step t t')
    then show ?case using control_step_admins control_step_inv by blast
  qed
  then show ?thesis by simp
qed

theorem an_operator_admin_remains_witness:
  "\<exists>r s'. update_operator ''root'' None None (Some False) 3 sample_members = (r, s') \<and> \<not> is_ok r \<and>
     0 < mem_count_active_operator_admins s'"
proof -
  obtain r s' where u: "update_operator ''root'' None None (Some False) 3 sample_members = (r, s')"
    by fastforce
  have "0 < mem_count_active_operator_admins sample_members" by code_simp
  moreover have "(control_step sample_digest)\<^sup>*\<^sup>* sample_members s'"
    using control_step.update_operator [OF u] by auto
  ultimately have "0 < mem_count_active_operator_admins s'"
    by (rule an_operator_admin_remains [OF sample_reachable(1)])
  moreover have "\<not> is_ok (fst (update_operator ''root'' None None (Some False) 3 sample_members))"
    by code_simp
  ultimately show ?thesis using u by auto
qed

lemma authenticate_operator_Inr:
  assumes "authenticate_operator H tok now s = (Inr ses, s')"
  obtains k secret r cur where "token_parts ''op1'' tok = Some (k, secret)" and "operator_token_at k s = Some r"
    and "token_live now r" and "tk_verifier r = H secret"
    and "operator_of s (os_operator_id (tk_session r)) = Some cur" and "op_active cur" and "op_roles cur \<noteq> {}"
    and "ses = \<lparr>os_operator_id = op_operator_id cur, os_roles = op_roles cur,
           os_token_id = os_token_id (tk_session r), os_session_id = None\<rparr>"
proof -
  from assms obtain old s1 where auth: "OperatorTokenService_authenticate H operator_token_ops tok now s = (Inr old, s1)"
    and rest: "and_then (inspect_operator (os_operator_id old) s1, s1) (\<lambda>operator s2.
       if \<not> op_active operator \<or> op_roles operator = {}
       then (Inl (AuthenticationError ''Active Operator with roles not found''), s2)
       else (Inr \<lparr>os_operator_id = op_operator_id operator, os_roles = op_roles operator,
                  os_token_id = os_token_id old, os_session_id = None\<rparr>, s2)) = (Inr ses, s')"
    by (auto simp: authenticate_operator_def elim: and_then_Inr_E)
  from auth obtain k secret r where r: "token_parts ''op1'' tok = Some (k, secret)" "operator_token_at k s = Some r"
      "tk_session r = old" "tk_verifier r = H secret" "token_live now r"
    and s1: "s1 = mem_mark_operator_token_used (tk_token_id r) now s"
    unfolding OperatorTokenService_authenticate_def operator_tokens.authenticate_iff
    by (auto simp: operator_token_ops_def)
  have "cs_operators s1 = cs_operators s"
    by (simp add: s1 mem_mark_operator_token_used_def split: option.splits)
  then show thesis
    using that [OF r(1,2,5,4)] rest r(3)
    by (auto simp: inspect_operator_def mem_get_operator_def elim!: and_then_Inr_E
        split: option.splits if_split_asm)
qed

text \<open>
  Operator authority is never stale: an Operator token that authenticates belongs to an
  active Operator, the session has exactly the Operator's current roles, all of them valid,
  and these are the roles the token was issued with.
\<close>

lemma operator_authority_is_current:
  assumes "control_reachable H s" and "authenticate_operator H tok now s = (Inr ses, s')"
  shows "\<exists>k r cur. operator_token_at k s = Some r \<and> token_live now r \<and>
    operator_of s (os_operator_id ses) = Some cur \<and> op_active cur \<and> os_roles ses = op_roles cur \<and>
    os_roles ses \<noteq> {} \<and> os_roles ses \<subseteq> VALID_OPERATOR_ROLES \<and> os_roles (tk_session r) = os_roles ses \<and>
    os_token_id ses = Some k"
  using assms(2)
proof (rule authenticate_operator_Inr)
  fix k secret r cur
  assume r: "operator_token_at k s = Some r" "token_live now r"
    and cur: "operator_of s (os_operator_id (tk_session r)) = Some cur" "op_active cur" "op_roles cur \<noteq> {}"
    and ses: "ses = \<lparr>os_operator_id = op_operator_id cur, os_roles = op_roles cur,
           os_token_id = os_token_id (tk_session r), os_session_id = None\<rparr>"
  have inv: "control_inv s" using assms(1) by (rule reachable_inv)
  have ids: "op_operator_id cur = os_operator_id (tk_session r)" "op_roles cur \<subseteq> VALID_OPERATOR_ROLES"
    using control_invD(2) [OF inv] cur(1) by (auto simp: entities_ok_def)
  have "operator_backed s (tk_session r)"
    using live_backed(2) [OF inv r(1)] r(2) by (simp add: token_live_def)
  then have "os_roles (tk_session r) = op_roles cur" using cur(1) by (auto simp: operator_backed_def)
  then show ?thesis
    using r cur ids stored_operator_token [OF inv r(1)] by (auto simp: ses)
qed

definition sample_operator_store :: "nat control_store" where
  "sample_operator_store = snd (issue_operator_access_token sample_digest ''o1'' ''sec'' ''root'' None 0 sample_members)"

lemma sample_operator_reachable: "control_reachable sample_digest sample_operator_store"
proof -
  have "operator_token_at ''o1'' sample_members = None" by code_simp
  then show ?thesis
    unfolding sample_operator_store_def using sample_reachable(1) by (rule reach_by(9) [rotated])
qed

section \<open>Admin Sessions\<close>

lemma authenticate_admin_session_Inr:
  assumes "authenticate_admin_session H tok csrf need now s = (Inr ses, s')"
  obtains k secret r cur where "token_parts ''adm1'' tok = Some (k, secret)" and "admin_session_at k s = Some r"
    and "as_verifier r = H secret" and "csrf_ok H need csrf r" and "session_live now r"
    and "operator_of s (os_operator_id (as_session r)) = Some cur" and "op_active cur" and "op_roles cur \<noteq> {}"
    and "os_operator_id ses = op_operator_id cur" and "os_roles ses = op_roles cur"
    and "os_session_id ses = os_session_id (as_session r)"
    and "s' = mem_mark_admin_session_used (as_session_id r) now
           (min (now + IDLE_LIFETIME) (as_absolute_expires_at r)) s"
proof -
  from assms obtain old s1 where auth: "AdminSessionService_authenticate H admin_session_ops_of_store tok csrf need now s = (Inr old, s1)"
    and rest: "and_then (inspect_operator (os_operator_id old) s1, s1) (\<lambda>operator s2.
       if \<not> op_active operator \<or> op_roles operator = {}
       then (Inl (AuthenticationError ''Active Operator with roles not found''), s2)
       else (Inr \<lparr>os_operator_id = op_operator_id operator, os_roles = op_roles operator,
                  os_token_id = os_token_id old, os_session_id = os_session_id old\<rparr>, s2)) = (Inr ses, s')"
    by (auto simp: authenticate_admin_session_def elim: and_then_Inr_E)
  from auth obtain k secret r where r: "token_parts ''adm1'' tok = Some (k, secret)" "admin_session_at k s = Some r"
      "as_verifier r = H secret" "csrf_ok H need csrf r" "session_live now r" "old = as_session r"
    and s1: "s1 = mem_mark_admin_session_used (as_session_id r) now
           (min (now + IDLE_LIFETIME) (as_absolute_expires_at r)) s"
    unfolding admin_authenticate_Inr admin_sessions.session_get_Some
    by (auto simp: admin_session_ops_of_store_def)
  have ops: "cs_operators s1 = cs_operators s"
    by (simp add: s1 mem_mark_admin_session_used_def split: option.splits)
  obtain cur where "operator_of s (os_operator_id (as_session r)) = Some cur" "op_active cur" "op_roles cur \<noteq> {}"
    "os_operator_id ses = op_operator_id cur" "os_roles ses = op_roles cur"
    "os_session_id ses = os_session_id (as_session r)" "s' = s1"
    using rest r(6) ops
    by (auto simp: inspect_operator_def mem_get_operator_def elim!: and_then_Inr_E
        split: option.splits if_split_asm)
  then show thesis using that [OF r(1-5)] s1 by blast
qed

text \<open>
  An Admin Session is bounded: it authenticates only within 8 hours of its creation, within
  30 minutes of its last use, with its CSRF token where one is required, and with its
  Operator's current roles; using it moves the idle expiry forward, but never past the 8
  hours.
\<close>

lemma admin_session_is_bounded:
  assumes "control_reachable H s" and "authenticate_admin_session H tok csrf need now s = (Inr ses, s')"
  shows "\<exists>k r cur. admin_session_at k s = Some r \<and> now < as_issued_at r + hours 8 \<and>
    now < as_idle_expires_at r \<and> (need \<longrightarrow> (\<exists>c. csrf = Some c \<and> as_csrf_verifier r = H c)) \<and>
    operator_of s (os_operator_id ses) = Some cur \<and> op_active cur \<and> os_roles ses = op_roles cur \<and>
    admin_session_at k s' = Some (r\<lparr>as_last_used_at := Some now,
      as_idle_expires_at := min (now + minutes 30) (as_issued_at r + hours 8)\<rparr>)"
  using assms(2)
proof (rule authenticate_admin_session_Inr)
  fix k secret r cur
  assume r: "admin_session_at k s = Some r" "csrf_ok H need csrf r" "session_live now r"
    and cur: "operator_of s (os_operator_id (as_session r)) = Some cur" "op_active cur"
    and ses: "os_operator_id ses = op_operator_id cur" "os_roles ses = op_roles cur"
    and s': "s' = mem_mark_admin_session_used (as_session_id r) now
           (min (now + IDLE_LIFETIME) (as_absolute_expires_at r)) s"
  have inv: "control_inv s" using assms(1) by (rule reachable_inv)
  have wf: "as_session_id r = k" "as_absolute_expires_at r = as_issued_at r + hours 8"
    using stored_admin_session [OF inv r(1)] by (auto simp: admin_times_ok_def ABSOLUTE_LIFETIME_def)
  have "op_operator_id cur = os_operator_id (as_session r)"
    using control_invD(2) [OF inv] cur(1) by (auto simp: entities_ok_def)
  then show ?thesis
    using r cur ses wf
    by (intro exI [of _ k] exI [of _ r] exI [of _ cur])
      (auto simp: s' session_live_def csrf_ok_def mem_mark_admin_session_used_def IDLE_LIFETIME_def)
qed

end
