(* ===== verification/MemoryModels.thy ===== *)
theory MemoryModels
  imports Complex_Main Models Manifest
begin

text \<open>
  The data of Tenant memory (\<^verbatim>\<open>models.py\<close>, and the commands of \<^verbatim>\<open>lifecycle.py\<close> and
  \<^verbatim>\<open>governance.py\<close>) with the constructors' validation.

  A confidence is a rational number: the validated floats are finite, and the program only
  compares them with 0 and 1 and copies them. A pydantic \<^verbatim>\<open>ValidationError\<close> is a
  \<^verbatim>\<open>ValueError\<close> that names the field.
\<close>

section \<open>Memory Items\<close>

datatype memory_scope = PRIVATE | TENANT_KNOWLEDGE

datatype memory_state = ACTIVE_MEMORY | SUPERSEDED | ERASURE_PENDING | ERASED

datatype mutation_state = ACCEPTED | APPLIED | FAILED_MUTATION

fun mutation_state_value :: "mutation_state \<Rightarrow> string" where
  "mutation_state_value ACCEPTED = ''accepted''"
| "mutation_state_value APPLIED = ''applied''"
| "mutation_state_value FAILED_MUTATION = ''failed''"

datatype memory_kind = EXPLICIT | PREFERENCE | CONSTRAINT | OUTCOME

record provenance =
  pv_actor_id :: string
  pv_source :: string

record memory_item =
  mi_id :: string
  mi_owner_principal_id :: "string option"
  mi_scope :: memory_scope
  mi_content :: string
  mi_kind :: memory_kind
  mi_confidence :: rat
  mi_provenance :: provenance
  mi_created_at :: datetime
  mi_state :: memory_state
  mi_supersedes_id :: "string option"

record memory_mutation_receipt =
  mr_code :: string
  mr_operation_id :: string
  mr_state :: mutation_state
  mr_item :: memory_item
  mr_id :: string

record private_memory_inspection =
  pi_id :: string
  pi_owner_principal_id :: string
  pi_state :: memory_state
  pi_operation_id :: "string option"
  pi_mutation_state :: mutation_state
  pi_content :: "string option"
  pi_kind :: "memory_kind option"
  pi_confidence :: "rat option"
  pi_created_at :: datetime
  pi_supersedes_id :: "string option"

section \<open>Commands\<close>

record retain_memory =
  rt_content :: string
  rt_kind :: memory_kind
  rt_confidence :: rat
  rt_idempotency_key :: string

record recall_query =
  rq_query :: string
  rq_limit :: int

record correct_memory =
  cm_memory_id :: string
  cm_replacement_content :: string
  cm_kind :: memory_kind
  cm_confidence :: rat
  cm_reason :: string
  cm_idempotency_key :: string

definition unit_interval :: "rat \<Rightarrow> bool" where
  "unit_interval c \<longleftrightarrow> 0 \<le> c \<and> c \<le> 1"

definition RetainMemory :: "retain_memory \<Rightarrow> retain_memory result" where
  "RetainMemory c =
     (let content = py_strip (rt_content c); key = py_strip (rt_idempotency_key c)
      in if \<not> length_between 1 16000 content then Inl (ValueError ''content'')
         else if \<not> unit_interval (rt_confidence c) then Inl (ValueError ''confidence'')
         else if \<not> length_between 1 255 key then Inl (ValueError ''idempotency_key'')
         else Inr (c\<lparr>rt_content := content, rt_idempotency_key := key\<rparr>))"

definition RecallQuery :: "recall_query \<Rightarrow> recall_query result" where
  "RecallQuery q =
     (let text = py_strip (rq_query q)
      in if \<not> length_between 1 4000 text then Inl (ValueError ''query'')
         else if \<not> (1 \<le> rq_limit q \<and> rq_limit q \<le> 100) then Inl (ValueError ''limit'')
         else Inr (q\<lparr>rq_query := text\<rparr>))"

definition CorrectMemory :: "correct_memory \<Rightarrow> correct_memory result" where
  "CorrectMemory c =
     (let content = py_strip (cm_replacement_content c); reason = py_strip (cm_reason c);
          key = py_strip (cm_idempotency_key c)
      in if \<not> length_between 1 16000 content then Inl (ValueError ''replacement_content'')
         else if \<not> unit_interval (cm_confidence c) then Inl (ValueError ''confidence'')
         else if \<not> length_between 1 4000 reason then Inl (ValueError ''reason'')
         else if \<not> length_between 1 255 key then Inl (ValueError ''idempotency_key'')
         else Inr (c\<lparr>cm_memory_id := py_strip (cm_memory_id c), cm_replacement_content := content,
                     cm_reason := reason, cm_idempotency_key := key\<rparr>))"

section \<open>Text\<close>

text \<open>
  \<^verbatim>\<open>value.split()\<close> cuts at runs of white space, \<^verbatim>\<open>term.strip(chars)\<close> removes characters at
  both ends. \<^verbatim>\<open>casefold()\<close> is written out for the code points below 256; U+00B5, whose
  folding lies outside, is kept, which gives the same comparisons.
\<close>

function py_words :: "string \<Rightarrow> string list" where
  "py_words s =
     (case dropWhile py_isspace s of
        [] \<Rightarrow> []
      | c # cs \<Rightarrow> takeWhile (\<lambda>x. \<not> py_isspace x) (c # cs) #
                py_words (dropWhile (\<lambda>x. \<not> py_isspace x) (c # cs)))"
  by pat_completeness auto

lemma py_words_shrinks:
  assumes "dropWhile py_isspace s = c # cs"
  shows "length (dropWhile (\<lambda>x. \<not> py_isspace x) (c # cs)) < length s"
proof -
  have "\<not> py_isspace c" using assms by (metis hd_dropWhile list.discI list.sel(1))
  then have "length (dropWhile (\<lambda>x. \<not> py_isspace x) (c # cs)) < length (c # cs)"
    by (simp add: le_imp_less_Suc length_dropWhile_le)
  also have "length (c # cs) \<le> length s" using length_dropWhile_le assms by metis
  finally show ?thesis .
qed

termination py_words
  by (relation "measure length") (auto simp del: dropWhile.simps intro: py_words_shrinks)

declare py_words.simps [simp del]

definition py_strip_chars :: "string \<Rightarrow> string \<Rightarrow> string" where
  "py_strip_chars chars s =
     rev (dropWhile (\<lambda>c. c \<in> set chars) (rev (dropWhile (\<lambda>c. c \<in> set chars) s)))"

definition casefold_char :: "char \<Rightarrow> string" where
  "casefold_char c = (let n = (of_char c :: nat) in
     if (65 \<le> n \<and> n \<le> 90) \<or> (192 \<le> n \<and> n \<le> 222 \<and> n \<noteq> 215) then [char_of (n + 32)]
     else if n = 223 then ''ss'' else [c])"

definition py_casefold :: "string \<Rightarrow> string" where
  "py_casefold s = concat (map casefold_char s)"

end
