(* ===== verification/MemoryStore.thy ===== *)
theory MemoryStore
  imports MemoryModels
begin

text \<open>
  \<^verbatim>\<open>InMemoryTenantMemoryStore\<close> and \<^verbatim>\<open>InMemoryTenantMemoryRouter\<close> of
  \<^verbatim>\<open>stores/memory.py\<close>: one Tenant's Memory Items in insertion order with the results kept
  per idempotency key. The identifier \<^verbatim>\<open>uuid4()\<close> draws and the time of \<^verbatim>\<open>created_at\<close> are
  arguments.
\<close>

section \<open>State\<close>

record memory_store =
  ms_items :: "memory_item list"
  ms_idempotency :: "(string \<times> string, memory_item) dict"
  ms_published_candidates :: "(string, memory_item) dict"
  ms_correction_keys :: "(string \<times> string, memory_item) dict"

definition empty_memory_store :: memory_store where
  "empty_memory_store = \<lparr>ms_items = [], ms_idempotency = [], ms_published_candidates = [],
     ms_correction_keys = []\<rparr>"

section \<open>Retaining and publishing\<close>

definition tms_retain_private ::
  "string \<Rightarrow> datetime \<Rightarrow> string \<Rightarrow> retain_memory \<Rightarrow> string option \<Rightarrow> memory_store \<Rightarrow>
   memory_item \<times> memory_store" where
  "tms_retain_private uid now owner_principal_id command actor_id s =
     (let key = (owner_principal_id, rt_idempotency_key command)
      in case dict_get (ms_idempotency s) key of
           Some existing \<Rightarrow> (existing, s)
         | None \<Rightarrow>
             let item = \<lparr>mi_id = uid, mi_owner_principal_id = Some owner_principal_id,
                   mi_scope = PRIVATE, mi_content = rt_content command, mi_kind = rt_kind command,
                   mi_confidence = rt_confidence command,
                   mi_provenance = \<lparr>pv_actor_id = or_string actor_id owner_principal_id,
                                     pv_source = ''explicit''\<rparr>,
                   mi_created_at = now, mi_state = ACTIVE_MEMORY, mi_supersedes_id = None\<rparr>
             in (item, s\<lparr>ms_items := ms_items s @ [item],
                         ms_idempotency := dict_set key item (ms_idempotency s)\<rparr>))"

definition tms_publish_tenant_knowledge ::
  "string \<Rightarrow> datetime \<Rightarrow> string \<Rightarrow> string \<Rightarrow> rat \<Rightarrow> string \<Rightarrow> memory_store \<Rightarrow>
   memory_item \<times> memory_store" where
  "tms_publish_tenant_knowledge uid now candidate_id claim confidence proposer_id s =
     (case dict_get (ms_published_candidates s) candidate_id of
        Some existing \<Rightarrow> (existing, s)
      | None \<Rightarrow>
          let item = \<lparr>mi_id = uid, mi_owner_principal_id = None, mi_scope = TENANT_KNOWLEDGE,
                mi_content = claim, mi_kind = EXPLICIT, mi_confidence = confidence,
                mi_provenance = \<lparr>pv_actor_id = proposer_id,
                                  pv_source = ''candidate:'' @ candidate_id\<rparr>,
                mi_created_at = now, mi_state = ACTIVE_MEMORY, mi_supersedes_id = None\<rparr>
          in (item, s\<lparr>ms_items := ms_items s @ [item],
                ms_published_candidates := dict_set candidate_id item (ms_published_candidates s)\<rparr>))"

section \<open>Recall and listings\<close>

definition TERM_PUNCTUATION :: "string" where
  "TERM_PUNCTUATION = ''.,:;!?()[]{}'' @ [CHR 0x22, CHR 0x27]"

definition tms_terms :: "string \<Rightarrow> string set" where
  "tms_terms value = set (map (\<lambda>term. py_casefold (py_strip_chars TERM_PUNCTUATION term)) (py_words value))"

definition tms_score :: "memory_item \<Rightarrow> string \<Rightarrow> nat" where
  "tms_score item query = card (tms_terms query \<inter> tms_terms (mi_content item))"

definition owned_by :: "string list \<Rightarrow> memory_item \<Rightarrow> bool" where
  "owned_by owner_ids item =
     (case mi_owner_principal_id item of None \<Rightarrow> False | Some owner \<Rightarrow> owner \<in> set owner_ids)"

definition recall_visible :: "string list \<Rightarrow> memory_item \<Rightarrow> bool" where
  "recall_visible private_owner_ids item \<longleftrightarrow>
     mi_state item = ACTIVE_MEMORY \<and>
     (mi_scope item = TENANT_KNOWLEDGE \<or> owned_by private_owner_ids item)"

definition tms_recall :: "string list \<Rightarrow> recall_query \<Rightarrow> memory_store \<Rightarrow> memory_item list" where
  "tms_recall private_owner_ids query s =
     (let visible = filter (recall_visible private_owner_ids) (ms_items s);
          ranked = sorted_desc (\<lambda>item. tms_score item (rq_query query)) visible
      in take (nat (rq_limit query)) (filter (\<lambda>item. 0 < tms_score item (rq_query query)) ranked))"

definition tms_get_visible_private_items ::
  "string list \<Rightarrow> string list \<Rightarrow> memory_store \<Rightarrow> memory_item list" where
  "tms_get_visible_private_items private_owner_ids item_ids s =
     filter (\<lambda>item. mi_id item \<in> set item_ids \<and> mi_scope item = PRIVATE \<and>
               mi_state item = ACTIVE_MEMORY \<and> owned_by private_owner_ids item) (ms_items s)"

definition tms_list_private :: "string \<Rightarrow> memory_store \<Rightarrow> memory_item list" where
  "tms_list_private owner_principal_id s =
     sort_key mi_id (filter (\<lambda>item. mi_scope item = PRIVATE \<and>
       mi_owner_principal_id item = Some owner_principal_id) (ms_items s))"

definition tms_list_tenant_knowledge :: "memory_store \<Rightarrow> memory_item list" where
  "tms_list_tenant_knowledge s =
     sort_key mi_id (filter (\<lambda>item. mi_scope item = TENANT_KNOWLEDGE) (ms_items s))"

section \<open>Correction\<close>

text \<open>The index of the first item that satisfies a test, as \<^verbatim>\<open>next(..., None)\<close> finds it.\<close>

fun first_index :: "('a \<Rightarrow> bool) \<Rightarrow> 'a list \<Rightarrow> nat option" where
  "first_index p [] = None"
| "first_index p (x # xs) = (if p x then Some 0 else map_option Suc (first_index p xs))"

definition correctable :: "string \<Rightarrow> string \<Rightarrow> memory_item \<Rightarrow> bool" where
  "correctable memory_id owner_principal_id item \<longleftrightarrow>
     mi_id item = memory_id \<and> mi_owner_principal_id item = Some owner_principal_id \<and>
     mi_scope item = PRIVATE \<and> mi_state item = ACTIVE_MEMORY"

definition tms_correct_private ::
  "string \<Rightarrow> datetime \<Rightarrow> string \<Rightarrow> correct_memory \<Rightarrow> string option \<Rightarrow> memory_store \<Rightarrow>
   (memory_item, memory_store) outcome" where
  "tms_correct_private uid now owner_principal_id command actor_id s =
     (let key = (owner_principal_id, cm_idempotency_key command)
      in case dict_get (ms_correction_keys s) key of
           Some existing \<Rightarrow> (Inr existing, s)
         | None \<Rightarrow>
             (case first_index (correctable (cm_memory_id command) owner_principal_id) (ms_items s) of
                None \<Rightarrow> (Inl (LookupError ''Owned active Memory Item not found''), s)
              | Some original_index \<Rightarrow>
                  let original = ms_items s ! original_index;
                      superseded = (ms_items s)[original_index := original\<lparr>mi_state := SUPERSEDED\<rparr>];
                      corrected = \<lparr>mi_id = uid, mi_owner_principal_id = Some owner_principal_id,
                        mi_scope = PRIVATE, mi_content = cm_replacement_content command,
                        mi_kind = cm_kind command, mi_confidence = cm_confidence command,
                        mi_provenance = \<lparr>pv_actor_id = or_string actor_id owner_principal_id,
                                          pv_source = ''correction''\<rparr>,
                        mi_created_at = now, mi_state = ACTIVE_MEMORY,
                        mi_supersedes_id = Some (mi_id original)\<rparr>
                  in (Inr corrected,
                      s\<lparr>ms_items := superseded @ [corrected],
                        ms_correction_keys := dict_set key corrected (ms_correction_keys s)\<rparr>)))"

section \<open>Erasure and import\<close>

definition tms_erase_private :: "string \<Rightarrow> string \<Rightarrow> memory_store \<Rightarrow> bool \<times> memory_store" where
  "tms_erase_private owner_principal_id memory_id s =
     (let kept = filter (\<lambda>item. \<not> (mi_id item = memory_id \<and>
            mi_owner_principal_id item = Some owner_principal_id)) (ms_items s)
      in (length kept < length (ms_items s), s\<lparr>ms_items := kept\<rparr>))"

definition supersede_parent :: "string \<Rightarrow> memory_item \<Rightarrow> memory_item \<Rightarrow> memory_item" where
  "supersede_parent owner_principal_id item existing =
     (if mi_supersedes_id item = Some (mi_id existing) \<and>
         mi_owner_principal_id existing = Some owner_principal_id
      then existing\<lparr>mi_state := SUPERSEDED\<rparr> else existing)"

definition tms_apply_private_item ::
  "string \<Rightarrow> memory_item \<Rightarrow> memory_store \<Rightarrow> bool \<times> memory_store" where
  "tms_apply_private_item owner_principal_id item s =
     (if list_ex (\<lambda>existing. mi_id existing = mi_id item) (ms_items s) then (False, s)
      else
        let items = map (supersede_parent owner_principal_id item) (ms_items s);
            imported = item\<lparr>mi_owner_principal_id := Some owner_principal_id, mi_scope := PRIVATE\<rparr>
        in (True, s\<lparr>ms_items := items @ [imported]\<rparr>))"

definition tms_import_private :: "string \<Rightarrow> memory_item \<Rightarrow> memory_store \<Rightarrow> bool \<times> memory_store" where
  "tms_import_private owner_principal_id item s = tms_apply_private_item owner_principal_id item s"

section \<open>The router\<close>

type_synonym memory_stores = "(string, memory_store) dict"

definition InMemoryTenantMemoryRouter :: "string list \<Rightarrow> memory_stores" where
  "InMemoryTenantMemoryRouter tenant_ids =
     fold (\<lambda>tenant_id. dict_set tenant_id empty_memory_store) tenant_ids []"

definition for_tenant :: "string \<Rightarrow> memory_stores \<Rightarrow> memory_store result" where
  "for_tenant tenant_id stores =
     (case dict_get stores tenant_id of
        None \<Rightarrow> Inl (TenantMemoryUnavailable ''Tenant Memory Store is not available'')
      | Some store \<Rightarrow> Inr store)"

end
