(* ===== verification/Retryable.thy ===== *)
theory Retryable
  imports Prelude
begin

text \<open>
  The interface of an operation that can be retried under an idempotency key: the store maps
  the key to the identifier of the record that the first call returned. The proposal and the
  review of a Knowledge Candidate and the request and the review of an erasure are such
  operations.
\<close>

text \<open>The branch that the four operations share: return the record of a key already used.\<close>

definition replay ::
  "('k, string) dict \<Rightarrow> (string, 'r) dict \<Rightarrow> 'k \<Rightarrow> 's \<Rightarrow> ('r, 's) outcome option" where
  "replay keys entries key s =
     (case truthy (dict_get keys key) of
        None \<Rightarrow> None
      | Some record_id \<Rightarrow>
          Some (case dict_get entries record_id of
                  None \<Rightarrow> Inl KeyError | Some found \<Rightarrow> Inr found, s))"

lemma replay_simps:
  "replay keys entries key s = None \<longleftrightarrow> truthy (dict_get keys key) = None"
  "replay keys entries key s = Some (Inr r, s') \<longleftrightarrow>
     (\<exists>i. dict_get keys key = Some i \<and> i \<noteq> [] \<and> dict_get entries i = Some r) \<and> s' = s"
  "replay keys entries key s = Some (Inl e, s') \<longleftrightarrow>
     (\<exists>i. dict_get keys key = Some i \<and> i \<noteq> [] \<and> dict_get entries i = None) \<and> e = KeyError \<and> s' = s"
  by (auto simp: replay_def truthy_Some_iff split: option.splits)

locale retryable =
  fixes run :: "'a \<Rightarrow> 's \<Rightarrow> ('r, 's) outcome"
    and key_of :: "'a \<Rightarrow> 'k"
    and keys :: "'s \<Rightarrow> ('k, string) dict"
    and entries :: "'s \<Rightarrow> (string, 'r) dict"
    and record_id :: "'r \<Rightarrow> string"
  assumes replays: "\<And>a s outcome. replay (keys s) (entries s) (key_of a) s = Some outcome \<Longrightarrow> run a s = outcome"
    and records: "\<And>a s r s'. run a s = (Inr r, s') \<Longrightarrow> replay (keys s) (entries s) (key_of a) s = None \<Longrightarrow>
      dict_get (keys s') (key_of a) = Some (record_id r) \<and> dict_get (entries s') (record_id r) = Some r"
begin

text \<open>A retry returns what is now stored under the identifier and changes nothing.\<close>

lemma later_retry:
  assumes "dict_get (keys s) (key_of a) = Some i" and "i \<noteq> []" and "dict_get (entries s) i = Some r"
  shows "run a s = (Inr r, s)"
  using assms by (intro replays) (simp add: replay_simps)

lemma immediate_retry:
  assumes "run a s = (Inr r, s')" and "record_id r \<noteq> []" and "key_of b = key_of a"
  shows "run b s' = (Inr r, s')"
proof (cases "replay (keys s) (entries s) (key_of a) s")
  case None
  then show ?thesis using records [OF assms(1) None] assms(2,3) by (intro later_retry) auto
next
  case (Some outcome)
  then have o: "outcome = (Inr r, s')" using assms(1) replays [OF Some] by simp
  then have "s' = s" using Some by (simp add: replay_simps)
  then show ?thesis using Some o assms(3) by (intro replays) simp
qed

end

end
