(* ===== verification/Governance.thy ===== *)
theory Governance
  imports MemoryModels Retryable
begin

text \<open>
  Knowledge Candidates, their review and their publication queue (\<^verbatim>\<open>governance.py\<close>): the
  records, the commands and \<^verbatim>\<open>InMemoryGovernanceStore\<close>.
\<close>

section \<open>Records and commands\<close>

datatype candidate_status =
  SUBMITTED | APPROVED_CANDIDATE | REJECTED_CANDIDATE | PUBLISHING | PUBLISHED | FAILED_CANDIDATE

datatype review_decision = APPROVE | REJECT

record propose_knowledge_command =
  pk_claim :: string
  pk_source_memory_ids :: "string list"
  pk_duplicate_memory_ids :: "string list"
  pk_conflicting_memory_ids :: "string list"
  pk_confidence :: rat
  pk_idempotency_key :: string

record review_knowledge_command =
  rk_candidate_id :: string
  rk_decision :: review_decision
  rk_rationale :: string
  rk_idempotency_key :: string

record knowledge_candidate =
  kc_id :: string
  kc_tenant_id :: string
  kc_claim :: string
  kc_confidence :: rat
  kc_proposer_id :: string
  kc_source_memory_ids :: "string list"
  kc_duplicate_memory_ids :: "string list"
  kc_conflicting_memory_ids :: "string list"
  kc_status :: candidate_status
  kc_created_at :: datetime
  kc_reviewed_by :: "string option"
  kc_review_rationale :: "string option"

record knowledge_candidate_view =
  kv_id :: string
  kv_claim :: string
  kv_confidence :: rat
  kv_proposer_id :: string
  kv_source_count :: nat
  kv_duplicate_memory_ids :: "string list"
  kv_conflicting_memory_ids :: "string list"
  kv_status :: candidate_status
  kv_created_at :: datetime
  kv_reviewed_by :: "string option"
  kv_review_rationale :: "string option"

record publication_event =
  pe_id :: string
  pe_tenant_id :: string
  pe_candidate_id :: string
  pe_created_at :: datetime

definition ProposeKnowledge :: "propose_knowledge_command \<Rightarrow> propose_knowledge_command result" where
  "ProposeKnowledge c =
     (let claim = py_strip (pk_claim c); key = py_strip (pk_idempotency_key c)
      in if \<not> length_between 1 16000 claim then Inl (ValueError ''claim'')
         else if \<not> length_between 1 100 (pk_source_memory_ids c) then Inl (ValueError ''source_memory_ids'')
         else if \<not> length_between 0 100 (pk_duplicate_memory_ids c)
         then Inl (ValueError ''duplicate_memory_ids'')
         else if \<not> length_between 0 100 (pk_conflicting_memory_ids c)
         then Inl (ValueError ''conflicting_memory_ids'')
         else if \<not> unit_interval (pk_confidence c) then Inl (ValueError ''confidence'')
         else if \<not> length_between 1 255 key then Inl (ValueError ''idempotency_key'')
         else Inr \<lparr>pk_claim = claim, pk_source_memory_ids = map py_strip (pk_source_memory_ids c),
                   pk_duplicate_memory_ids = map py_strip (pk_duplicate_memory_ids c),
                   pk_conflicting_memory_ids = map py_strip (pk_conflicting_memory_ids c),
                   pk_confidence = pk_confidence c, pk_idempotency_key = key\<rparr>)"

definition ReviewKnowledge :: "review_knowledge_command \<Rightarrow> review_knowledge_command result" where
  "ReviewKnowledge c =
     (let rationale = py_strip (rk_rationale c); key = py_strip (rk_idempotency_key c)
      in if \<not> length_between 1 4000 rationale then Inl (ValueError ''rationale'')
         else if \<not> length_between 1 255 key then Inl (ValueError ''idempotency_key'')
         else Inr (c\<lparr>rk_candidate_id := py_strip (rk_candidate_id c), rk_rationale := rationale,
                     rk_idempotency_key := key\<rparr>))"

definition candidate_view :: "knowledge_candidate \<Rightarrow> knowledge_candidate_view" where
  "candidate_view c =
     \<lparr>kv_id = kc_id c, kv_claim = kc_claim c, kv_confidence = kc_confidence c,
      kv_proposer_id = kc_proposer_id c, kv_source_count = length (kc_source_memory_ids c),
      kv_duplicate_memory_ids = kc_duplicate_memory_ids c,
      kv_conflicting_memory_ids = kc_conflicting_memory_ids c, kv_status = kc_status c,
      kv_created_at = kc_created_at c, kv_reviewed_by = kc_reviewed_by c,
      kv_review_rationale = kc_review_rationale c\<rparr>"

section \<open>The in-memory store\<close>

record governance_store =
  gs_candidates :: "(string, knowledge_candidate) dict"
  gs_proposal_keys :: "(string \<times> string \<times> string, string) dict"
  gs_review_keys :: "(string \<times> string \<times> string, string) dict"
  gs_outbox :: "publication_event list"

definition empty_governance_store :: governance_store where
  "empty_governance_store =
     \<lparr>gs_candidates = [], gs_proposal_keys = [], gs_review_keys = [], gs_outbox = []\<rparr>"

definition gov_propose ::
  "string \<Rightarrow> datetime \<Rightarrow> string \<times> string \<times> propose_knowledge_command \<Rightarrow> governance_store \<Rightarrow>
   (knowledge_candidate, governance_store) outcome" where
  "gov_propose uid now = (\<lambda>(tenant_id, proposer_id, command) s.
     let key = (tenant_id, proposer_id, pk_idempotency_key command)
     in case replay (gs_proposal_keys s) (gs_candidates s) key s of
          Some found \<Rightarrow> found
        | None \<Rightarrow>
            let candidate = \<lparr>kc_id = uid, kc_tenant_id = tenant_id, kc_claim = pk_claim command,
                  kc_confidence = pk_confidence command, kc_proposer_id = proposer_id,
                  kc_source_memory_ids = pk_source_memory_ids command,
                  kc_duplicate_memory_ids = pk_duplicate_memory_ids command,
                  kc_conflicting_memory_ids = pk_conflicting_memory_ids command,
                  kc_status = SUBMITTED, kc_created_at = now, kc_reviewed_by = None,
                  kc_review_rationale = None\<rparr>
            in (Inr candidate,
                s\<lparr>gs_candidates := dict_set uid candidate (gs_candidates s),
                  gs_proposal_keys := dict_set key uid (gs_proposal_keys s)\<rparr>))"

definition gov_get_candidate :: "string \<Rightarrow> string \<Rightarrow> governance_store \<Rightarrow> knowledge_candidate option" where
  "gov_get_candidate tenant_id candidate_id s =
     (case dict_get (gs_candidates s) candidate_id of
        None \<Rightarrow> None
      | Some candidate \<Rightarrow> if kc_tenant_id candidate \<noteq> tenant_id then None else Some candidate)"

definition gov_list_candidates :: "string \<Rightarrow> governance_store \<Rightarrow> knowledge_candidate list" where
  "gov_list_candidates tenant_id s =
     sort_key (\<lambda>candidate. (kc_created_at candidate, kc_id candidate))
       (filter (\<lambda>candidate. kc_tenant_id candidate = tenant_id) (dict_values (gs_candidates s)))"

definition gov_review ::
  "string \<Rightarrow> datetime \<Rightarrow> string \<times> string \<times> review_knowledge_command \<Rightarrow> governance_store \<Rightarrow>
   (knowledge_candidate, governance_store) outcome" where
  "gov_review uid now = (\<lambda>(tenant_id, reviewer_id, command) s.
     let key = (tenant_id, reviewer_id, rk_idempotency_key command)
     in case replay (gs_review_keys s) (gs_candidates s) key s of
          Some found \<Rightarrow> found
        | None \<Rightarrow>
            (case gov_get_candidate tenant_id (rk_candidate_id command) s of
               None \<Rightarrow> (Inl (LookupError ''Knowledge Candidate not found''), s)
             | Some candidate \<Rightarrow>
                 if kc_status candidate \<noteq> SUBMITTED
                 then (Inl (ValueError ''Knowledge Candidate is not awaiting review''), s)
                 else
                   let status = (if rk_decision command = APPROVE then PUBLISHING else REJECTED_CANDIDATE);
                       reviewed = candidate\<lparr>kc_status := status, kc_reviewed_by := Some reviewer_id,
                         kc_review_rationale := Some (rk_rationale command)\<rparr>;
                       event = \<lparr>pe_id = uid, pe_tenant_id = tenant_id, pe_candidate_id = kc_id candidate,
                         pe_created_at = now\<rparr>
                   in (Inr reviewed,
                       s\<lparr>gs_candidates := dict_set (kc_id candidate) reviewed (gs_candidates s),
                         gs_review_keys := dict_set key (kc_id candidate) (gs_review_keys s),
                         gs_outbox := (if status = PUBLISHING then gs_outbox s @ [event]
                                       else gs_outbox s)\<rparr>)))"

definition gov_next_publication :: "string \<Rightarrow> governance_store \<Rightarrow> publication_event option" where
  "gov_next_publication tenant_id s = find (\<lambda>event. pe_tenant_id event = tenant_id) (gs_outbox s)"

definition gov_mark_published ::
  "string \<Rightarrow> string \<Rightarrow> governance_store \<Rightarrow> (knowledge_candidate, governance_store) outcome" where
  "gov_mark_published tenant_id candidate_id s =
     (case gov_get_candidate tenant_id candidate_id s of
        None \<Rightarrow> (Inl (LookupError ''Knowledge Candidate not found''), s)
      | Some candidate \<Rightarrow>
          let published = candidate\<lparr>kc_status := PUBLISHED\<rparr>
          in (Inr published,
              s\<lparr>gs_candidates := dict_set candidate_id published (gs_candidates s),
                gs_outbox := filter (\<lambda>event. pe_candidate_id event \<noteq> candidate_id) (gs_outbox s)\<rparr>))"

definition gov_import_candidate ::
  "datetime \<Rightarrow> string \<Rightarrow> string \<Rightarrow> string \<Rightarrow> string \<Rightarrow> rat \<Rightarrow> governance_store \<Rightarrow>
   knowledge_candidate \<times> governance_store" where
  "gov_import_candidate now tenant_id proposer_id candidate_id claim confidence s =
     (case gov_get_candidate tenant_id candidate_id s of
        Some existing \<Rightarrow> (existing, s)
      | None \<Rightarrow>
          let candidate = \<lparr>kc_id = candidate_id, kc_tenant_id = tenant_id, kc_claim = claim,
                kc_confidence = confidence, kc_proposer_id = proposer_id,
                kc_source_memory_ids = [], kc_duplicate_memory_ids = [],
                kc_conflicting_memory_ids = [], kc_status = SUBMITTED, kc_created_at = now,
                kc_reviewed_by = None, kc_review_rationale = None\<rparr>
          in (candidate, s\<lparr>gs_candidates := dict_set candidate_id candidate (gs_candidates s)\<rparr>))"

end
