(* ===== verification/Erasure.thy ===== *)
theory Erasure
  imports MemoryModels Retryable
begin

text \<open>
  Erasure of Private Memory (\<^verbatim>\<open>lifecycle.py\<close>): the request, its review by an administrator,
  its completion and the content-free tombstone, over \<^verbatim>\<open>InMemoryErasureStore\<close>.
\<close>

section \<open>Records and commands\<close>

datatype erasure_decision = APPROVE_ERASURE | REJECT_ERASURE

datatype erasure_status =
  ERASURE_REQUESTED | ERASURE_APPROVED | ERASURE_REJECTED | ERASURE_COMPLETED | ERASURE_FAILED

record request_erasure_command =
  re_memory_id :: string
  re_reason :: string
  re_idempotency_key :: string

record review_erasure_command =
  ve_request_id :: string
  ve_decision :: erasure_decision
  ve_rationale :: string
  ve_idempotency_key :: string

record erasure_request =
  er_id :: string
  er_tenant_id :: string
  er_memory_id :: string
  er_requester_id :: string
  er_owner_principal_id :: string
  er_reason :: "string option"
  er_status :: erasure_status
  er_created_at :: datetime
  er_reviewed_by :: "string option"
  er_review_rationale :: "string option"
  er_completed_at :: "datetime option"

record erasure_request_view =
  ev_id :: string
  ev_memory_id :: string
  ev_requester_id :: string
  ev_owner_principal_id :: string
  ev_status :: erasure_status
  ev_created_at :: datetime
  ev_reviewed_by :: "string option"
  ev_review_rationale :: "string option"
  ev_completed_at :: "datetime option"

text \<open>
  The decision and the status of a tombstone are the literals \<^verbatim>\<open>approve\<close> and \<^verbatim>\<open>completed\<close>, so
  the record leaves them out.
\<close>

record erasure_tombstone =
  et_id :: string
  et_memory_id :: string
  et_requester_id :: string
  et_owner_principal_id :: string
  et_created_at :: datetime
  et_reviewed_by :: string
  et_completed_at :: datetime

definition RequestErasure :: "request_erasure_command \<Rightarrow> request_erasure_command result" where
  "RequestErasure c =
     (let reason = py_strip (re_reason c); key = py_strip (re_idempotency_key c)
      in if \<not> length_between 1 4000 reason then Inl (ValueError ''reason'')
         else if \<not> length_between 1 255 key then Inl (ValueError ''idempotency_key'')
         else Inr \<lparr>re_memory_id = py_strip (re_memory_id c), re_reason = reason, re_idempotency_key = key\<rparr>)"

definition ReviewErasure :: "review_erasure_command \<Rightarrow> review_erasure_command result" where
  "ReviewErasure c =
     (let rationale = py_strip (ve_rationale c); key = py_strip (ve_idempotency_key c)
      in if \<not> length_between 1 4000 rationale then Inl (ValueError ''rationale'')
         else if \<not> length_between 1 255 key then Inl (ValueError ''idempotency_key'')
         else Inr (c\<lparr>ve_request_id := py_strip (ve_request_id c), ve_rationale := rationale,
                     ve_idempotency_key := key\<rparr>))"

definition erasure_view :: "erasure_request \<Rightarrow> erasure_request_view" where
  "erasure_view r =
     \<lparr>ev_id = er_id r, ev_memory_id = er_memory_id r, ev_requester_id = er_requester_id r,
      ev_owner_principal_id = er_owner_principal_id r, ev_status = er_status r,
      ev_created_at = er_created_at r, ev_reviewed_by = er_reviewed_by r,
      ev_review_rationale = truthy (er_review_rationale r), ev_completed_at = er_completed_at r\<rparr>"

definition erasure_tombstone_of :: "erasure_request \<Rightarrow> erasure_tombstone result" where
  "erasure_tombstone_of r =
     (case (er_reviewed_by r, er_completed_at r) of
        (Some reviewed_by, Some completed_at) \<Rightarrow>
          if er_status r \<noteq> ERASURE_COMPLETED
          then Inl (ValueError ''Erasure Request is not a completed approved erasure'')
          else Inr \<lparr>et_id = er_id r, et_memory_id = er_memory_id r, et_requester_id = er_requester_id r,
                    et_owner_principal_id = er_owner_principal_id r, et_created_at = er_created_at r,
                    et_reviewed_by = reviewed_by, et_completed_at = completed_at\<rparr>
      | _ \<Rightarrow> Inl (ValueError ''Erasure Request is not a completed approved erasure''))"

section \<open>The in-memory store\<close>

record erasure_store =
  es_requests :: "(string, erasure_request) dict"
  es_request_keys :: "(string \<times> string \<times> string, string) dict"
  es_review_keys :: "(string \<times> string \<times> string, string) dict"

definition empty_erasure_store :: erasure_store where
  "empty_erasure_store = \<lparr>es_requests = [], es_request_keys = [], es_review_keys = []\<rparr>"

definition era_request ::
  "string \<Rightarrow> datetime \<Rightarrow> string \<times> string \<times> request_erasure_command \<Rightarrow> string \<Rightarrow> erasure_store \<Rightarrow>
   (erasure_request, erasure_store) outcome" where
  "era_request uid now = (\<lambda>(tenant_id, requester_id, command) owner_principal_id s.
     let key = (tenant_id, requester_id, re_idempotency_key command)
     in case replay (es_request_keys s) (es_requests s) key s of
          Some found \<Rightarrow> found
        | None \<Rightarrow>
            let request = \<lparr>er_id = uid, er_tenant_id = tenant_id, er_memory_id = re_memory_id command,
                  er_requester_id = requester_id, er_owner_principal_id = owner_principal_id,
                  er_reason = Some (re_reason command), er_status = ERASURE_REQUESTED,
                  er_created_at = now, er_reviewed_by = None, er_review_rationale = None,
                  er_completed_at = None\<rparr>
            in (Inr request,
                s\<lparr>es_requests := dict_set uid request (es_requests s),
                  es_request_keys := dict_set key uid (es_request_keys s)\<rparr>))"

definition era_get_request :: "string \<Rightarrow> string \<Rightarrow> erasure_store \<Rightarrow> erasure_request option" where
  "era_get_request tenant_id request_id s =
     (case dict_get (es_requests s) request_id of
        None \<Rightarrow> None
      | Some request \<Rightarrow> if er_tenant_id request \<noteq> tenant_id then None else Some request)"

definition era_review ::
  "string \<times> string \<times> review_erasure_command \<Rightarrow> erasure_store \<Rightarrow> (erasure_request, erasure_store) outcome" where
  "era_review = (\<lambda>(tenant_id, reviewer_id, command) s.
     let key = (tenant_id, reviewer_id, ve_idempotency_key command)
     in case replay (es_review_keys s) (es_requests s) key s of
          Some found \<Rightarrow> found
        | None \<Rightarrow>
            (case era_get_request tenant_id (ve_request_id command) s of
               None \<Rightarrow> (Inl (LookupError ''Erasure Request not found''), s)
             | Some request \<Rightarrow>
                 if er_status request \<noteq> ERASURE_REQUESTED
                 then (Inl (ValueError ''Erasure Request is not awaiting review''), s)
                 else
                   let reviewed = request\<lparr>er_status :=
                           (if ve_decision command = APPROVE_ERASURE then ERASURE_APPROVED else ERASURE_REJECTED),
                         er_reviewed_by := Some reviewer_id,
                         er_review_rationale := Some (ve_rationale command)\<rparr>
                   in (Inr reviewed,
                       s\<lparr>es_requests := dict_set (er_id request) reviewed (es_requests s),
                         es_review_keys := dict_set key (er_id request) (es_review_keys s)\<rparr>)))"

definition era_next_approved :: "string \<Rightarrow> erasure_store \<Rightarrow> erasure_request option" where
  "era_next_approved tenant_id s =
     find (\<lambda>request. er_tenant_id request = tenant_id \<and> er_status request = ERASURE_APPROVED)
       (dict_values (es_requests s))"

definition era_mark_completed ::
  "datetime \<Rightarrow> string \<Rightarrow> string \<Rightarrow> erasure_store \<Rightarrow> (erasure_request, erasure_store) outcome" where
  "era_mark_completed now tenant_id request_id s =
     (case era_get_request tenant_id request_id s of
        None \<Rightarrow> (Inl (LookupError ''Erasure Request not found''), s)
      | Some request \<Rightarrow>
          let completed = request\<lparr>er_reason := None, er_status := ERASURE_COMPLETED,
                er_review_rationale := None, er_completed_at := Some now\<rparr>
          in (Inr completed, s\<lparr>es_requests := dict_set (er_id request) completed (es_requests s)\<rparr>))"

definition era_list_completed :: "string \<Rightarrow> string \<Rightarrow> erasure_store \<Rightarrow> erasure_tombstone list result" where
  "era_list_completed tenant_id owner_principal_id s =
     validate_all erasure_tombstone_of
       (filter (\<lambda>request. er_tenant_id request = tenant_id \<and>
            er_owner_principal_id request = owner_principal_id \<and> er_status request = ERASURE_COMPLETED)
          (sort_key (\<lambda>request. (er_created_at request, er_id request)) (dict_values (es_requests s))))"

definition era_import_tombstone ::
  "string \<Rightarrow> string \<Rightarrow> erasure_tombstone \<Rightarrow> erasure_store \<Rightarrow> (bool, erasure_store) outcome" where
  "era_import_tombstone tenant_id owner_principal_id tombstone s =
     (let rebound = tombstone\<lparr>et_owner_principal_id := owner_principal_id\<rparr>
      in case dict_get (es_requests s) (et_id tombstone) of
           Some existing \<Rightarrow>
             if er_tenant_id existing \<noteq> tenant_id
             then (Inl (ValueError ''Erasure Tombstone identifier already has different data''), s)
             else (case erasure_tombstone_of existing of
                     Inl e \<Rightarrow> (Inl e, s)
                   | Inr stored \<Rightarrow>
                       if stored \<noteq> rebound
                       then (Inl (ValueError ''Erasure Tombstone identifier already has different data''), s)
                       else (Inr False, s))
         | None \<Rightarrow>
             let request = \<lparr>er_id = et_id tombstone, er_tenant_id = tenant_id,
                   er_memory_id = et_memory_id tombstone, er_requester_id = et_requester_id tombstone,
                   er_owner_principal_id = owner_principal_id, er_reason = None,
                   er_status = ERASURE_COMPLETED, er_created_at = et_created_at tombstone,
                   er_reviewed_by = Some (et_reviewed_by tombstone), er_review_rationale = None,
                   er_completed_at = Some (et_completed_at tombstone)\<rparr>
             in (Inr True, s\<lparr>es_requests := dict_set (et_id tombstone) request (es_requests s)\<rparr>))"

end
