(* ===== verification/MemoryModule.thy ===== *)
theory MemoryModule
  imports MemoryStore Governance Erasure
begin

text \<open>
  \<^verbatim>\<open>MemoryModule\<close> of \<^verbatim>\<open>memory.py\<close>: the authorization-aware operations on a Tenant's memory. It
  chooses the scope and the owner from the Tenant Session and calls the Memory store, the
  governance store and the erasure store of the other theories.

  The durable command store (\<^verbatim>\<open>PrivateMemoryCommandStore\<close>), whose implementations are SQL, is
  a record of operations over a state of its own; \<open>None\<close> is a module built without one.
  \<^verbatim>\<open>SelfApprovalPolicy\<close> is a function; \<open>None\<close> is a module built without a policy.
\<close>

section \<open>The module and what it is built from\<close>

text \<open>The states of a command are the ones a mutation reports.\<close>

datatype private_memory_command_type = RETAIN_COMMAND | CORRECT_COMMAND | IMPORT_COMMAND | ERASE_COMMAND

record private_memory_command =
  pc_id :: string
  pc_tenant_id :: string
  pc_actor_id :: string
  pc_owner_principal_id :: string
  pc_command_type :: private_memory_command_type
  pc_idempotency_key :: string
  pc_target_memory_id :: "string option"
  pc_result_item :: "memory_item option"
  pc_erasure_request_id :: "string option"
  pc_state :: mutation_state
  pc_created_at :: datetime

record 'c command_ops =
  co_accept_retain :: "string \<Rightarrow> string \<Rightarrow> string \<Rightarrow> retain_memory \<Rightarrow> 'c \<Rightarrow> (memory_item, 'c) outcome"
  co_accept_correction :: "string \<Rightarrow> string \<Rightarrow> string \<Rightarrow> correct_memory \<Rightarrow> 'c \<Rightarrow> (memory_item, 'c) outcome"
  co_accept_import :: "string \<Rightarrow> string \<Rightarrow> string \<Rightarrow> memory_item \<Rightarrow> 'c \<Rightarrow> (bool, 'c) outcome"
  co_command_by_result :: "string \<Rightarrow> string \<Rightarrow> 'c \<Rightarrow> private_memory_command option"
  co_list_private_memory_state :: "string \<Rightarrow> string \<Rightarrow> 'c \<Rightarrow> private_memory_inspection list"
  co_list_private_memory_items :: "string \<Rightarrow> string \<Rightarrow> 'c \<Rightarrow> memory_item list"

type_synonym self_approval_policy = "string \<Rightarrow> string \<Rightarrow> bool"

record 'c memory_module =
  mm_router :: memory_stores
  mm_governance :: "governance_store option"
  mm_erasures :: "erasure_store option"
  mm_command_state :: 'c

text \<open>A call on the store of one Tenant, on the governance store and on the erasure store.\<close>

definition on_store ::
  "string \<Rightarrow> (memory_store \<Rightarrow> ('a, memory_store) outcome) \<Rightarrow> 'c memory_module \<Rightarrow> ('a, 'c memory_module) outcome" where
  "on_store tenant_id f m =
     (case for_tenant tenant_id (mm_router m) of
        Inl e \<Rightarrow> (Inl e, m)
      | Inr store \<Rightarrow>
          let (r, store') = f store in (r, m\<lparr>mm_router := dict_set tenant_id store' (mm_router m)\<rparr>))"

definition on_governance ::
  "(governance_store \<Rightarrow> ('a, governance_store) outcome) \<Rightarrow> 'c memory_module \<Rightarrow> ('a, 'c memory_module) outcome" where
  "on_governance f m =
     (case mm_governance m of
        None \<Rightarrow> (Inl (RuntimeError ''Tenant governance is not available''), m)
      | Some governance \<Rightarrow>
          let (r, governance') = f governance in (r, m\<lparr>mm_governance := Some governance'\<rparr>))"

definition on_erasures ::
  "(erasure_store \<Rightarrow> ('a, erasure_store) outcome) \<Rightarrow> 'c memory_module \<Rightarrow> ('a, 'c memory_module) outcome" where
  "on_erasures f m =
     (case mm_erasures m of
        None \<Rightarrow> (Inl (RuntimeError ''Erasure governance is not available''), m)
      | Some erasures \<Rightarrow>
          let (r, erasures') = f erasures in (r, m\<lparr>mm_erasures := Some erasures'\<rparr>))"

definition on_commands :: "('c \<Rightarrow> ('a, 'c) outcome) \<Rightarrow> 'c memory_module \<Rightarrow> ('a, 'c memory_module) outcome" where
  "on_commands f m = (let (r, c) = f (mm_command_state m) in (r, m\<lparr>mm_command_state := c\<rparr>))"

definition reads :: "('s \<Rightarrow> 'a) \<Rightarrow> 's \<Rightarrow> ('a, 's) outcome" where
  "reads f s = (Inr (f s), s)"

definition returns :: "('s \<Rightarrow> 'a \<times> 's) \<Rightarrow> 's \<Rightarrow> ('a, 's) outcome" where
  "returns f s = (let (x, s') = f s in (Inr x, s'))"

definition then_return :: "('a \<Rightarrow> 'b) \<Rightarrow> ('a, 's) outcome \<Rightarrow> ('b, 's) outcome" where
  "then_return f r = and_then r (\<lambda>x s. (Inr (f x), s))"

section \<open>Private Memory\<close>

definition owner_of_session :: "tenant_session \<Rightarrow> string" where
  "owner_of_session session = or_string (ts_subject_user_id session) (ts_actor_id session)"

definition private_owners :: "tenant_session \<Rightarrow> string list" where
  "private_owners session =
     ts_actor_id session #
     (if ts_actor_kind session = AGENT
      then (case ts_subject_user_id session of None \<Rightarrow> [] | Some subject \<Rightarrow> [subject]) else [])"

definition retain ::
  "'c command_ops option \<Rightarrow> string \<Rightarrow> datetime \<Rightarrow> tenant_session \<Rightarrow> retain_memory \<Rightarrow> 'c memory_module \<Rightarrow>
   (memory_item, 'c memory_module) outcome" where
  "retain commands uid now session command m =
     (let owner_id = owner_of_session session
      in case commands of
           Some ops \<Rightarrow> on_commands (co_accept_retain ops (ts_tenant_id session) (ts_actor_id session) owner_id command) m
         | None \<Rightarrow> on_store (ts_tenant_id session)
             (returns (tms_retain_private uid now owner_id command (Some (ts_actor_id session)))) m)"

definition retain_agent_private ::
  "'c command_ops option \<Rightarrow> string \<Rightarrow> datetime \<Rightarrow> tenant_session \<Rightarrow> retain_memory \<Rightarrow> 'c memory_module \<Rightarrow>
   (memory_item, 'c memory_module) outcome" where
  "retain_agent_private commands uid now session command m =
     (if ts_actor_kind session \<noteq> AGENT
      then (Inl (PermissionError ''Agent Private Memory requires an Agent Actor''), m)
      else case commands of
        Some ops \<Rightarrow> on_commands (co_accept_retain ops (ts_tenant_id session) (ts_actor_id session)
          (ts_actor_id session) command) m
      | None \<Rightarrow> on_store (ts_tenant_id session)
          (returns (tms_retain_private uid now (ts_actor_id session) command (Some (ts_actor_id session)))) m)"

definition recall ::
  "tenant_session \<Rightarrow> recall_query \<Rightarrow> 'c memory_module \<Rightarrow> (memory_item list, 'c memory_module) outcome" where
  "recall session query m =
     on_store (ts_tenant_id session) (reads (tms_recall (private_owners session) query)) m"

definition inspection_of_item :: "string \<Rightarrow> bool \<Rightarrow> memory_item \<Rightarrow> private_memory_inspection" where
  "inspection_of_item owner_principal_id with_content item =
     \<lparr>pi_id = mi_id item, pi_owner_principal_id = owner_principal_id, pi_state = mi_state item,
      pi_operation_id = None, pi_mutation_state = APPLIED,
      pi_content = (if with_content then Some (mi_content item) else None),
      pi_kind = Some (mi_kind item), pi_confidence = Some (mi_confidence item),
      pi_created_at = mi_created_at item, pi_supersedes_id = mi_supersedes_id item\<rparr>"

definition inspect_private ::
  "'c command_ops option \<Rightarrow> tenant_session \<Rightarrow> 'c memory_module \<Rightarrow>
   (private_memory_inspection list, 'c memory_module) outcome" where
  "inspect_private commands session m =
     (case commands of
        Some ops \<Rightarrow> reads (\<lambda>m. co_list_private_memory_state ops (ts_tenant_id session) (ts_actor_id session)
          (mm_command_state m)) m
      | None \<Rightarrow> then_return (map (inspection_of_item (ts_actor_id session) True))
          (on_store (ts_tenant_id session) (reads (tms_list_private (ts_actor_id session))) m))"

definition correct ::
  "'c command_ops option \<Rightarrow> string \<Rightarrow> datetime \<Rightarrow> tenant_session \<Rightarrow> correct_memory \<Rightarrow> 'c memory_module \<Rightarrow>
   (memory_item, 'c memory_module) outcome" where
  "correct commands uid now session command m =
     (let owner_id = owner_of_session session
      in case commands of
           Some ops \<Rightarrow> on_commands (co_accept_correction ops (ts_tenant_id session) (ts_actor_id session) owner_id command) m
         | None \<Rightarrow> on_store (ts_tenant_id session)
             (tms_correct_private uid now owner_id command (Some (ts_actor_id session))) m)"

definition mutation_receipt ::
  "'c command_ops option \<Rightarrow> string \<Rightarrow> memory_item \<Rightarrow> 'c memory_module \<Rightarrow>
   (memory_mutation_receipt, 'c memory_module) outcome" where
  "mutation_receipt commands tenant_id item m =
     (let receipt = (\<lambda>operation_id state. \<lparr>mr_code = ''memory_mutation_'' @ mutation_state_value state,
            mr_operation_id = operation_id, mr_state = state, mr_item = item, mr_id = mi_id item\<rparr>)
      in case commands of
           None \<Rightarrow> (Inr (receipt (mi_id item) APPLIED), m)
         | Some ops \<Rightarrow>
             (case co_command_by_result ops tenant_id (mi_id item) (mm_command_state m) of
                None \<Rightarrow> (Inl (RuntimeError ''Committed Private Memory operation cannot be inspected''), m)
              | Some command \<Rightarrow> (Inr (receipt (pc_id command) (pc_state command)), m)))"

definition retain_result ::
  "'c command_ops option \<Rightarrow> string \<Rightarrow> datetime \<Rightarrow> tenant_session \<Rightarrow> retain_memory \<Rightarrow> 'c memory_module \<Rightarrow>
   (memory_mutation_receipt, 'c memory_module) outcome" where
  "retain_result commands uid now session command m =
     and_then (retain commands uid now session command m) (mutation_receipt commands (ts_tenant_id session))"

definition correct_result ::
  "'c command_ops option \<Rightarrow> string \<Rightarrow> datetime \<Rightarrow> tenant_session \<Rightarrow> correct_memory \<Rightarrow> 'c memory_module \<Rightarrow>
   (memory_mutation_receipt, 'c memory_module) outcome" where
  "correct_result commands uid now session command m =
     and_then (correct commands uid now session command m) (mutation_receipt commands (ts_tenant_id session))"

section \<open>Knowledge Candidates\<close>

definition propose_knowledge ::
  "string \<Rightarrow> datetime \<Rightarrow> tenant_session \<Rightarrow> propose_knowledge_command \<Rightarrow> 'c memory_module \<Rightarrow>
   (knowledge_candidate_view, 'c memory_module) outcome" where
  "propose_knowledge uid now session command m =
     and_then (on_governance (reads (\<lambda>_. ())) m) (\<lambda>_ m.
       and_then (on_store (ts_tenant_id session) (reads (tms_get_visible_private_items
           (private_owners session) (pk_source_memory_ids command))) m) (\<lambda>sources m.
         if mi_id ` set sources \<noteq> set (pk_source_memory_ids command)
         then (Inl (PermissionError ''One or more source Memory Items are not visible''), m)
         else then_return candidate_view
           (on_governance (gov_propose uid now (ts_tenant_id session, ts_actor_id session, command)) m)))"

definition human_curator :: "tenant_session \<Rightarrow> bool" where
  "human_curator session \<longleftrightarrow>
     ts_actor_kind session = USER \<and> {''knowledge_curator'', ''tenant_administrator''} \<inter> ts_roles session \<noteq> {}"

definition self_approval_allowed :: "self_approval_policy option \<Rightarrow> tenant_session \<Rightarrow> bool" where
  "self_approval_allowed self_approval session \<longleftrightarrow>
     ''tenant_administrator'' \<in> ts_roles session \<and>
     (case self_approval of None \<Rightarrow> False
      | Some permits \<Rightarrow> permits (ts_tenant_id session) (ts_actor_id session))"

definition review_knowledge ::
  "self_approval_policy option \<Rightarrow> string \<Rightarrow> datetime \<Rightarrow> tenant_session \<Rightarrow> review_knowledge_command \<Rightarrow>
   'c memory_module \<Rightarrow> (knowledge_candidate_view, 'c memory_module) outcome" where
  "review_knowledge self_approval uid now session command m =
     and_then (on_governance (reads id) m) (\<lambda>governance m.
       if \<not> human_curator session
       then (Inl (PermissionError ''Knowledge review requires a human Knowledge Curator''), m)
       else case gov_get_candidate (ts_tenant_id session) (rk_candidate_id command) governance of
         None \<Rightarrow> (Inl (LookupError ''Knowledge Candidate not found''), m)
       | Some candidate \<Rightarrow>
           if kc_proposer_id candidate = ts_actor_id session \<and> \<not> self_approval_allowed self_approval session
           then (Inl (PermissionError ''Self-approval requires a single-human Tenant Administrator''), m)
           else then_return candidate_view
             (on_governance (gov_review uid now (ts_tenant_id session, ts_actor_id session, command)) m))"

definition list_knowledge_candidates ::
  "tenant_session \<Rightarrow> 'c memory_module \<Rightarrow> (knowledge_candidate_view list, 'c memory_module) outcome" where
  "list_knowledge_candidates session m =
     (if \<not> human_curator session
      then (Inl (PermissionError ''Candidate inspection requires a human Knowledge Curator''), m)
      else then_return (map candidate_view) (on_governance (reads (gov_list_candidates (ts_tenant_id session))) m))"

definition list_operator_knowledge_candidates ::
  "string \<Rightarrow> 'c memory_module \<Rightarrow> (knowledge_candidate_view list, 'c memory_module) outcome" where
  "list_operator_knowledge_candidates tenant_id m =
     then_return (map candidate_view) (on_governance (reads (gov_list_candidates tenant_id)) m)"

definition review_operator_knowledge ::
  "string \<Rightarrow> datetime \<Rightarrow> string \<Rightarrow> string \<Rightarrow> review_knowledge_command \<Rightarrow> 'c memory_module \<Rightarrow>
   (knowledge_candidate_view, 'c memory_module) outcome" where
  "review_operator_knowledge uid now tenant_id operator_id command m =
     and_then (on_governance (reads id) m) (\<lambda>governance m.
       if gov_get_candidate tenant_id (rk_candidate_id command) governance = None
       then (Inl (LookupError ''Knowledge Candidate not found''), m)
       else then_return candidate_view
         (on_governance (gov_review uid now (tenant_id, ''operator:'' @ operator_id, command)) m))"

definition list_operator_private_memory_metadata ::
  "'c command_ops option \<Rightarrow> string \<Rightarrow> string \<Rightarrow> 'c memory_module \<Rightarrow>
   (private_memory_inspection list, 'c memory_module) outcome" where
  "list_operator_private_memory_metadata commands tenant_id owner_principal_id m =
     (case commands of
        Some ops \<Rightarrow> reads (\<lambda>m. map (\<lambda>inspection. inspection\<lparr>pi_content := None\<rparr>)
          (co_list_private_memory_state ops tenant_id owner_principal_id (mm_command_state m))) m
      | None \<Rightarrow> then_return (map (inspection_of_item owner_principal_id False))
          (on_store tenant_id (reads (tms_list_private owner_principal_id)) m))"

definition list_operator_tenant_knowledge ::
  "string \<Rightarrow> 'c memory_module \<Rightarrow> (memory_item list, 'c memory_module) outcome" where
  "list_operator_tenant_knowledge tenant_id m = on_store tenant_id (reads tms_list_tenant_knowledge) m"

definition publish_next ::
  "string \<Rightarrow> datetime \<Rightarrow> string \<Rightarrow> 'c memory_module \<Rightarrow>
   (knowledge_candidate_view option, 'c memory_module) outcome" where
  "publish_next uid now tenant_id m =
     and_then (on_governance (reads id) m) (\<lambda>governance m.
       case gov_next_publication tenant_id governance of
         None \<Rightarrow> (Inr None, m)
       | Some event \<Rightarrow>
           (case gov_get_candidate tenant_id (pe_candidate_id event) governance of
              None \<Rightarrow> (Inl (LookupError ''Knowledge Candidate not found''), m)
            | Some candidate \<Rightarrow>
                and_then (on_store tenant_id (returns (tms_publish_tenant_knowledge uid now (kc_id candidate)
                    (kc_claim candidate) (kc_confidence candidate) (kc_proposer_id candidate))) m)
                  (\<lambda>_ m. then_return (\<lambda>c. Some (candidate_view c))
                     (on_governance (gov_mark_published tenant_id (kc_id candidate)) m))))"

section \<open>Erasure\<close>

definition request_erasure ::
  "string \<Rightarrow> datetime \<Rightarrow> tenant_session \<Rightarrow> request_erasure_command \<Rightarrow> 'c memory_module \<Rightarrow>
   (erasure_request_view, 'c memory_module) outcome" where
  "request_erasure uid now session command m =
     and_then (on_erasures (reads (\<lambda>_. ())) m) (\<lambda>_ m.
       and_then (on_store (ts_tenant_id session) (reads (tms_get_visible_private_items
           [owner_of_session session] [re_memory_id command])) m) (\<lambda>visible m.
         if visible = [] then (Inl (LookupError ''Owned active Memory Item not found''), m)
         else then_return erasure_view
           (on_erasures (era_request uid now (ts_tenant_id session, ts_actor_id session, command)
              (owner_of_session session)) m)))"

definition review_erasure ::
  "tenant_session \<Rightarrow> review_erasure_command \<Rightarrow> 'c memory_module \<Rightarrow>
   (erasure_request_view, 'c memory_module) outcome" where
  "review_erasure session command m =
     and_then (on_erasures (reads id) m) (\<lambda>erasures m.
       if ts_actor_kind session \<noteq> USER \<or> ''tenant_administrator'' \<notin> ts_roles session
       then (Inl (PermissionError ''Erasure review requires a human Tenant Administrator''), m)
       else case era_get_request (ts_tenant_id session) (ve_request_id command) erasures of
         None \<Rightarrow> (Inl (LookupError ''Erasure Request not found''), m)
       | Some request \<Rightarrow>
           if er_requester_id request = ts_actor_id session \<or> er_owner_principal_id request = ts_actor_id session
           then (Inl (PermissionError ''Erasure requires a separate Tenant Administrator''), m)
           else then_return erasure_view
             (on_erasures (era_review (ts_tenant_id session, ts_actor_id session, command)) m))"

definition erase_next ::
  "datetime \<Rightarrow> string \<Rightarrow> 'c memory_module \<Rightarrow> (erasure_request_view option, 'c memory_module) outcome" where
  "erase_next now tenant_id m =
     and_then (on_erasures (reads id) m) (\<lambda>erasures m.
       case era_next_approved tenant_id erasures of
         None \<Rightarrow> (Inr None, m)
       | Some request \<Rightarrow>
           and_then (on_store tenant_id (returns (tms_erase_private (er_owner_principal_id request)
               (er_memory_id request))) m)
             (\<lambda>erased m.
                if \<not> erased
                then (Inl (LookupError ''Owned Memory Item not found for approved erasure''), m)
                else then_return (\<lambda>r. Some (erasure_view r))
                  (on_erasures (era_mark_completed now tenant_id (er_id request)) m)))"

end
