(* ===== verification/Archive.thy ===== *)
theory Archive
  imports Governance Erasure
begin

text \<open>
  The contents of a Memory Archive (\<^verbatim>\<open>archive.py\<close>) after its JSON was parsed and its checksums
  were compared: the validation of each record, the uniqueness of identifiers and the order in
  which a correction history is imported. The JSON Lines encoding itself is not modelled.

  A timestamp of the model always has a time zone, and a confidence is a finite number, so
  the tests for these two are always passed.
\<close>

section \<open>Data\<close>

datatype archive_scope = PRIVATE_ARCHIVE | TENANT_ARCHIVE

record decoded_archive =
  da_memory_items :: "memory_item list"
  da_governance_candidates :: "knowledge_candidate_view list"
  da_erasure_tombstones :: "erasure_tombstone list"

record archive_import_result =
  ai_imported :: int
  ai_skipped :: int
  ai_candidates :: "knowledge_candidate_view list"
  ai_erasure_tombstones :: int
  ai_governance_records :: int

section \<open>Validation of the records\<close>

definition blank :: "string \<Rightarrow> bool" where
  "blank s \<longleftrightarrow> py_strip s = []"

definition validate_memory_item :: "memory_item \<Rightarrow> unit result" where
  "validate_memory_item item =
     (if blank (mi_id item) \<or> blank (mi_content item) \<or> 16000 < length (mi_content item) \<or>
         \<not> unit_interval (mi_confidence item) \<or>
         blank (pv_actor_id (mi_provenance item)) \<or> blank (pv_source (mi_provenance item)) \<or>
         (case mi_supersedes_id item of None \<Rightarrow> False | Some parent \<Rightarrow> blank parent)
      then Inl (ValueError ''Memory Archive contains an invalid Memory Item'') else Inr ())"

definition blank_or_missing :: "string option \<Rightarrow> bool" where
  "blank_or_missing x = (case x of None \<Rightarrow> True | Some s \<Rightarrow> blank s)"

definition validate_governance_candidate :: "knowledge_candidate_view \<Rightarrow> unit result" where
  "validate_governance_candidate c =
     (if blank (kv_id c) \<or> blank (kv_claim c) \<or> 16000 < length (kv_claim c) \<or>
         \<not> unit_interval (kv_confidence c) \<or> blank (kv_proposer_id c)
      then Inl (ValueError ''Memory Archive contains an invalid governance record'')
      else
        let reviewed = (kv_reviewed_by c \<noteq> None \<or> kv_review_rationale c \<noteq> None)
        in if reviewed \<and> (blank_or_missing (kv_reviewed_by c) \<or> blank_or_missing (kv_review_rationale c))
           then Inl (ValueError ''Memory Archive contains an invalid governance review'')
           else if kv_status c = SUBMITTED \<and> reviewed
           then Inl (ValueError ''Memory Archive contains an invalid governance review'')
           else if kv_status c \<in> {APPROVED_CANDIDATE, REJECTED_CANDIDATE, PUBLISHING, PUBLISHED} \<and> \<not> reviewed
           then Inl (ValueError ''Memory Archive contains an incomplete governance review'')
           else Inr ())"

definition validate_erasure_tombstone :: "erasure_tombstone \<Rightarrow> unit result" where
  "validate_erasure_tombstone t =
     (if blank (et_id t) \<or> blank (et_memory_id t) \<or> blank (et_requester_id t) \<or>
         blank (et_owner_principal_id t) \<or> blank (et_reviewed_by t) \<or> et_completed_at t < et_created_at t
      then Inl (ValueError ''Memory Archive contains an invalid Erasure Tombstone'') else Inr ())"

definition validate_unique_ids :: "decoded_archive \<Rightarrow> unit result" where
  "validate_unique_ids archive =
     (if \<not> distinct (map mi_id (da_memory_items archive) @ map et_memory_id (da_erasure_tombstones archive))
      then Inl (ValueError ''Memory Archive contains duplicate Memory Item identifiers'')
      else if \<not> distinct (map kv_id (da_governance_candidates archive))
      then Inl (ValueError ''Memory Archive contains duplicate governance identifiers'')
      else Inr ())"

section \<open>The order of a correction history\<close>

type_synonym visit_state = "string set \<times> memory_item list"

function visit ::
  "(string, memory_item) dict \<Rightarrow> string set \<Rightarrow> memory_item \<Rightarrow> visit_state \<Rightarrow> visit_state result" where
  "visit by_id visiting item (permanent, ordered) =
     (if mi_id item \<in> permanent then Inr (permanent, ordered)
      else if mi_id item \<in> visiting
      then Inl (ValueError ''Memory Archive correction history contains a cycle'')
      else
        case (case Option.bind (mi_supersedes_id item) (dict_get by_id) of
                None \<Rightarrow> Inr (permanent, ordered)
              | Some parent \<Rightarrow> visit by_id (insert (mi_id item) visiting) parent (permanent, ordered)) of
          Inl e \<Rightarrow> Inl e
        | Inr (permanent', ordered') \<Rightarrow> Inr (insert (mi_id item) permanent', ordered' @ [item]))"
  by pat_completeness auto

text \<open>The identifiers that a visit can still enter become fewer with each nested visit.\<close>

definition unvisited :: "(string, memory_item) dict \<Rightarrow> string set \<Rightarrow> memory_item \<Rightarrow> string set" where
  "unvisited by_id visiting item = insert (mi_id item) (mi_id ` snd ` set by_id) - visiting"

lemma unvisited_shrinks:
  assumes "mi_id item \<notin> visiting" and "Option.bind (mi_supersedes_id item) (dict_get by_id) = Some parent"
  shows "card (unvisited by_id (insert (mi_id item) visiting) parent) < card (unvisited by_id visiting item)"
proof (rule psubset_card_mono)
  show "finite (unvisited by_id visiting item)" by (simp add: unvisited_def)
  have "parent \<in> snd ` set by_id"
    using assms(2) by (force simp: bind_eq_Some_conv dest: map_of_SomeD)
  then show "unvisited by_id (insert (mi_id item) visiting) parent \<subset> unvisited by_id visiting item"
    using assms(1) by (auto simp: unvisited_def)
qed

termination visit
  by (relation "measure (\<lambda>(by_id, visiting, item, state). card (unvisited by_id visiting item))")
    (auto intro: unvisited_shrinks)

declare visit.simps [simp del]

fun visit_all :: "(string, memory_item) dict \<Rightarrow> memory_item list \<Rightarrow> visit_state \<Rightarrow> visit_state result" where
  "visit_all by_id [] state = Inr state"
| "visit_all by_id (item # items) state =
     (case visit by_id {} item state of
        Inl e \<Rightarrow> Inl e
      | Inr state' \<Rightarrow> visit_all by_id items state')"

definition index_by_id :: "memory_item list \<Rightarrow> (string, memory_item) dict" where
  "index_by_id items = fold (\<lambda>item. dict_set (mi_id item) item) items []"

definition order_correction_history :: "memory_item list \<Rightarrow> memory_item list result" where
  "order_correction_history items =
     (case visit_all (index_by_id items) items ({}, []) of
        Inl e \<Rightarrow> Inl e
      | Inr (permanent, ordered) \<Rightarrow> Inr ordered)"

end
