(* ===== verification/MemoryImport.thy ===== *)
theory MemoryImport
  imports MemoryModule Archive
begin

text \<open>
  Export and import of Memory Archives (\<^verbatim>\<open>export_private\<close>, \<^verbatim>\<open>import_private\<close>, \<^verbatim>\<open>export_tenant\<close>
  and \<^verbatim>\<open>import_tenant\<close> of \<^verbatim>\<open>memory.py\<close>). The encoding of an archive as bytes is a parameter: \<open>encode\<close>
  and \<open>decode\<close> stand for \<^verbatim>\<open>encode_archive\<close> and \<^verbatim>\<open>decode_archive\<close> on the type \<open>'b\<close> of archives.
  \<open>clock\<close> is the time at which the candidate of an identifier is imported.
\<close>

section \<open>Private archives\<close>

text \<open>\<^verbatim>\<open>_same_archived_memory\<close>: owner, scope and the source of the provenance may differ.\<close>

definition same_archived_memory :: "memory_item \<Rightarrow> memory_item \<Rightarrow> bool" where
  "same_archived_memory existing archived \<longleftrightarrow>
     mi_id existing = mi_id archived \<and> mi_content existing = mi_content archived \<and>
     mi_kind existing = mi_kind archived \<and> mi_confidence existing = mi_confidence archived \<and>
     mi_state existing = mi_state archived \<and> mi_supersedes_id existing = mi_supersedes_id archived \<and>
     pv_actor_id (mi_provenance existing) = pv_actor_id (mi_provenance archived) \<and>
     mi_created_at existing = mi_created_at archived"

fun check_ancestors :: "(string, memory_item) dict \<Rightarrow> string set \<Rightarrow> memory_item list \<Rightarrow> unit result" where
  "check_ancestors by_id erased_ids [] = Inr ()"
| "check_ancestors by_id erased_ids (item # items) =
     (case mi_supersedes_id item of
        None \<Rightarrow> check_ancestors by_id erased_ids items
      | Some parent_id \<Rightarrow>
          if parent_id = mi_id item
          then Inl (ValueError ''Memory Archive correction cannot supersede itself'')
          else (case dict_get by_id parent_id of
                  None \<Rightarrow>
                    if parent_id \<notin> erased_ids
                    then Inl (ValueError ''Memory Archive correction history is incomplete'')
                    else check_ancestors by_id erased_ids items
                | Some parent \<Rightarrow>
                    if mi_state parent \<noteq> SUPERSEDED
                    then Inl (ValueError ''Memory Archive correction ancestor is not superseded'')
                    else check_ancestors by_id erased_ids items))"

definition validate_private_archive :: "memory_item list \<Rightarrow> erasure_tombstone list \<Rightarrow> unit result" where
  "validate_private_archive items tombstones =
     (if list_ex (\<lambda>item. mi_scope item \<noteq> PRIVATE) items
      then Inl (ValueError ''Private Memory Archive contains a non-private item'')
      else if \<not> distinct (List.map_filter mi_supersedes_id items)
      then Inl (ValueError ''Memory Archive correction history branches from one ancestor'')
      else check_ancestors (index_by_id items) (set (map et_memory_id tombstones)) items)"

text \<open>What the owner holds already must not contradict the archive.\<close>

fun check_existing_items :: "(string, memory_item) dict \<Rightarrow> memory_item list \<Rightarrow> unit result" where
  "check_existing_items existing [] = Inr ()"
| "check_existing_items existing (item # items) =
     (if (case dict_get existing (mi_id item) of None \<Rightarrow> False | Some persisted \<Rightarrow> \<not> same_archived_memory persisted item)
      then Inl (ValueError ''Memory Item identifier already has different data'')
      else check_existing_items existing items)"

definition index_tombstones :: "(erasure_tombstone \<Rightarrow> string) \<Rightarrow> erasure_tombstone list \<Rightarrow> (string, erasure_tombstone) dict" where
  "index_tombstones key tombstones = fold (\<lambda>t. dict_set (key t) t) tombstones []"

fun check_existing_tombstones ::
  "string \<Rightarrow> (string, erasure_tombstone) dict \<Rightarrow> (string, erasure_tombstone) dict \<Rightarrow> erasure_tombstone list \<Rightarrow> unit result" where
  "check_existing_tombstones actor_id by_id by_memory [] = Inr ()"
| "check_existing_tombstones actor_id by_id by_memory (t # ts) =
     (if (case dict_get by_id (et_id t) of None \<Rightarrow> False
          | Some existing \<Rightarrow> existing \<noteq> t\<lparr>et_owner_principal_id := actor_id\<rparr>)
      then Inl (ValueError ''Erasure Tombstone identifier already has different data'')
      else if (case dict_get by_memory (et_memory_id t) of None \<Rightarrow> False | Some same \<Rightarrow> et_id same \<noteq> et_id t)
      then Inl (ValueError ''Memory Item already has a different Erasure Tombstone'')
      else check_existing_tombstones actor_id by_id by_memory ts)"

text \<open>The private items and the erasure tombstones of the actor of a session.\<close>

definition private_items_of ::
  "'c command_ops option \<Rightarrow> tenant_session \<Rightarrow> 'c memory_module \<Rightarrow> (memory_item list, 'c memory_module) outcome" where
  "private_items_of commands session m =
     (case commands of
        None \<Rightarrow> on_store (ts_tenant_id session) (reads (tms_list_private (ts_actor_id session))) m
      | Some ops \<Rightarrow> reads (\<lambda>m. co_list_private_memory_items ops (ts_tenant_id session) (ts_actor_id session)
          (mm_command_state m)) m)"

definition completed_erasures_of :: "tenant_session \<Rightarrow> 'c memory_module \<Rightarrow> (erasure_tombstone list, 'c memory_module) outcome" where
  "completed_erasures_of session m =
     on_erasures (\<lambda>s. (era_list_completed (ts_tenant_id session) (ts_actor_id session) s, s)) m"

definition export_private ::
  "(archive_scope \<Rightarrow> decoded_archive \<Rightarrow> 'b) \<Rightarrow> 'c command_ops option \<Rightarrow> tenant_session \<Rightarrow> 'c memory_module \<Rightarrow>
   ('b, 'c memory_module) outcome" where
  "export_private encode commands session m =
     and_then (private_items_of commands session m) (\<lambda>items m1.
     and_then (if mm_erasures m1 = None then (Inr [], m1) else completed_erasures_of session m1) (\<lambda>tombstones m2.
       (Inr (encode PRIVATE_ARCHIVE \<lparr>da_memory_items = items, da_governance_candidates = [],
          da_erasure_tombstones = tombstones\<rparr>), m2)))"

text \<open>The loops that write; each returns how many records were new.\<close>

fun import_tombstones ::
  "tenant_session \<Rightarrow> erasure_tombstone list \<Rightarrow> int \<Rightarrow> 'c memory_module \<Rightarrow> (int, 'c memory_module) outcome" where
  "import_tombstones session [] count m = (Inr count, m)"
| "import_tombstones session (t # ts) count m =
     and_then (on_erasures (era_import_tombstone (ts_tenant_id session) (ts_actor_id session) t) m)
       (\<lambda>accepted. import_tombstones session ts (count + (if accepted then 1 else 0)))"

definition import_private_item ::
  "'c command_ops option \<Rightarrow> tenant_session \<Rightarrow> memory_item \<Rightarrow> 'c memory_module \<Rightarrow> (bool, 'c memory_module) outcome" where
  "import_private_item commands session item m =
     (case commands of
        Some ops \<Rightarrow> on_commands (co_accept_import ops (ts_tenant_id session) (ts_actor_id session) (ts_actor_id session) item) m
      | None \<Rightarrow> on_store (ts_tenant_id session) (returns (tms_import_private (ts_actor_id session) item)) m)"

fun import_private_items ::
  "'c command_ops option \<Rightarrow> tenant_session \<Rightarrow> memory_item list \<Rightarrow> int \<Rightarrow> 'c memory_module \<Rightarrow> (int, 'c memory_module) outcome" where
  "import_private_items commands session [] count m = (Inr count, m)"
| "import_private_items commands session (item # items) count m =
     and_then (import_private_item commands session item m)
       (\<lambda>accepted. import_private_items commands session items (count + (if accepted then 1 else 0)))"

text \<open>Everything that is checked before the first record is written.\<close>

definition check_private_import ::
  "'c command_ops option \<Rightarrow> tenant_session \<Rightarrow> decoded_archive \<Rightarrow> 'c memory_module \<Rightarrow> (memory_item list, 'c memory_module) outcome" where
  "check_private_import commands session decoded m =
     (if da_governance_candidates decoded \<noteq> []
      then (Inl (ValueError ''Private Memory Archive contains Tenant governance records''), m)
      else if da_erasure_tombstones decoded \<noteq> [] \<and> mm_erasures m = None
      then (Inl (RuntimeError ''Erasure governance is not available''), m)
      else case order_correction_history (da_memory_items decoded) of
        Inl e \<Rightarrow> (Inl e, m)
      | Inr records \<Rightarrow>
          (case validate_private_archive records (da_erasure_tombstones decoded) of
             Inl e \<Rightarrow> (Inl e, m)
           | Inr _ \<Rightarrow>
               and_then (private_items_of commands session m) (\<lambda>existing m1.
                 let existing_items = index_by_id existing
                 in if set (map et_memory_id (da_erasure_tombstones decoded)) \<inter> set (dict_keys existing_items) \<noteq> {}
                    then (Inl (ValueError ''Erasure Tombstone conflicts with an active Memory Item''), m1)
                    else case check_existing_items existing_items records of
                      Inl e \<Rightarrow> (Inl e, m1)
                    | Inr _ \<Rightarrow>
                        if mm_erasures m1 = None then (Inr records, m1)
                        else and_then (completed_erasures_of session m1) (\<lambda>tombstones m2.
                          let by_id = index_tombstones et_id tombstones
                          in case check_existing_tombstones (ts_actor_id session) by_id
                                 (index_tombstones et_memory_id (dict_values by_id)) (da_erasure_tombstones decoded) of
                               Inl e \<Rightarrow> (Inl e, m2)
                             | Inr _ \<Rightarrow> (Inr records, m2)))))"

definition import_private ::
  "('b \<Rightarrow> archive_scope \<Rightarrow> decoded_archive result) \<Rightarrow> 'c command_ops option \<Rightarrow> tenant_session \<Rightarrow> 'b \<Rightarrow> 'c memory_module \<Rightarrow>
   (archive_import_result, 'c memory_module) outcome" where
  "import_private decode commands session archive m =
     (case decode archive PRIVATE_ARCHIVE of
        Inl e \<Rightarrow> (Inl e, m)
      | Inr decoded \<Rightarrow>
          and_then (check_private_import commands session decoded m) (\<lambda>records m1.
          and_then (import_tombstones session (da_erasure_tombstones decoded) 0 m1) (\<lambda>imported_tombstones m2.
          and_then (import_private_items commands session records 0 m2) (\<lambda>imported m3.
            let total = int (length records + length (da_erasure_tombstones decoded));
                accepted = imported + imported_tombstones
            in (Inr \<lparr>ai_imported = accepted, ai_skipped = total - accepted, ai_candidates = [],
                  ai_erasure_tombstones = imported_tombstones, ai_governance_records = 0\<rparr>, m3)))))"

section \<open>Tenant archives\<close>

definition human_tenant_administrator :: "tenant_session \<Rightarrow> bool" where
  "human_tenant_administrator session \<longleftrightarrow>
     ts_actor_kind session = USER \<and> ''tenant_administrator'' \<in> ts_roles session"

definition export_tenant ::
  "(archive_scope \<Rightarrow> decoded_archive \<Rightarrow> 'b) \<Rightarrow> tenant_session \<Rightarrow> 'c memory_module \<Rightarrow> ('b, 'c memory_module) outcome" where
  "export_tenant encode session m =
     (if \<not> human_tenant_administrator session
      then (Inl (PermissionError ''Tenant export requires a human Tenant Administrator''), m)
      else and_then (on_store (ts_tenant_id session) (reads tms_list_tenant_knowledge) m) (\<lambda>items m1.
        and_then (on_governance (reads (gov_list_candidates (ts_tenant_id session))) m1) (\<lambda>candidates m2.
          (Inr (encode TENANT_ARCHIVE \<lparr>da_memory_items = items, da_governance_candidates = map candidate_view candidates,
             da_erasure_tombstones = []\<rparr>), m2))))"

text \<open>The archived items that are candidates already, as the first loop collects them.\<close>

fun existing_candidates :: "string \<Rightarrow> memory_item list \<Rightarrow> governance_store \<Rightarrow> knowledge_candidate_view list result" where
  "existing_candidates tenant_id [] s = Inr []"
| "existing_candidates tenant_id (item # items) s =
     (case gov_get_candidate tenant_id (mi_id item) s of
        None \<Rightarrow> existing_candidates tenant_id items s
      | Some existing \<Rightarrow>
          if kc_claim existing \<noteq> mi_content item \<or> kc_confidence existing \<noteq> mi_confidence item
          then Inl (ValueError ''Knowledge Candidate identifier already has different data'')
          else (case existing_candidates tenant_id items s of
                  Inl e \<Rightarrow> Inl e
                | Inr views \<Rightarrow> Inr (candidate_view existing # views)))"

fun import_candidates ::
  "(string \<Rightarrow> datetime) \<Rightarrow> tenant_session \<Rightarrow> string set \<Rightarrow> memory_item list \<Rightarrow> governance_store \<Rightarrow>
   knowledge_candidate_view list \<times> governance_store" where
  "import_candidates clock session existing_ids [] s = ([], s)"
| "import_candidates clock session existing_ids (item # items) s =
     (if mi_id item \<in> existing_ids then import_candidates clock session existing_ids items s
      else case gov_import_candidate (clock (mi_id item)) (ts_tenant_id session) (ts_actor_id session) (mi_id item)
             (mi_content item) (mi_confidence item) s of
        (candidate, s1) \<Rightarrow>
          (case import_candidates clock session existing_ids items s1 of
             (views, s2) \<Rightarrow> (candidate_view candidate # views, s2)))"

definition import_tenant ::
  "('b \<Rightarrow> archive_scope \<Rightarrow> decoded_archive result) \<Rightarrow> (string \<Rightarrow> datetime) \<Rightarrow> tenant_session \<Rightarrow> 'b \<Rightarrow> 'c memory_module \<Rightarrow>
   (archive_import_result, 'c memory_module) outcome" where
  "import_tenant decode clock session archive m =
     (if \<not> human_tenant_administrator session
      then (Inl (PermissionError ''Tenant import requires a human Tenant Administrator''), m)
      else on_governance (\<lambda>s.
        case decode archive TENANT_ARCHIVE of
          Inl e \<Rightarrow> (Inl e, s)
        | Inr decoded \<Rightarrow>
            if da_erasure_tombstones decoded \<noteq> []
            then (Inl (ValueError ''Tenant Memory Archive contains Private Memory erasure records''), s)
            else if list_ex (\<lambda>item. mi_scope item \<noteq> TENANT_KNOWLEDGE) (da_memory_items decoded)
            then (Inl (ValueError ''Tenant Memory Archive contains a private item''), s)
            else (case existing_candidates (ts_tenant_id session) (da_memory_items decoded) s of
                    Inl e \<Rightarrow> (Inl e, s)
                  | Inr existing \<Rightarrow>
                      (case import_candidates clock session (set (map kv_id existing)) (da_memory_items decoded) s of
                         (imported, s1) \<Rightarrow>
                           (Inr \<lparr>ai_imported = int (length imported),
                              ai_skipped = int (length (da_governance_candidates decoded) + length existing),
                              ai_candidates = existing @ imported, ai_erasure_tombstones = 0,
                              ai_governance_records = int (length (da_governance_candidates decoded))\<rparr>, s1)))) m)"

end
