(* ===== verification/ArchiveProperties.thy ===== *)
theory ArchiveProperties
  imports Archive "HOL-Library.Multiset"
begin

text \<open>
  \<^verbatim>\<open>order_correction_history\<close> is a topological sort of the correction history: it returns the
  items with every ancestor before its descendants, and fails exactly on a cycle.
\<close>

section \<open>The index of the items\<close>

lemma fold_index:
  "distinct (map mi_id items) \<Longrightarrow> (\<forall>item \<in> set items. dict_get d (mi_id item) = None) \<Longrightarrow>
   dict_get (fold (\<lambda>item. dict_set (mi_id item) item) items d) k = Some x \<longleftrightarrow>
     (x \<in> set items \<and> mi_id x = k) \<or> dict_get d k = Some x"
proof (induction items arbitrary: d)
  case (Cons item items)
  have fresh: "\<forall>other \<in> set items. dict_get (dict_set (mi_id item) item d) (mi_id other) = None"
  proof
    fix other assume other: "other \<in> set items"
    then have "mi_id other \<in> set (map mi_id items)" by simp
    then have "mi_id other \<noteq> mi_id item" using Cons.prems(1) by (metis distinct.simps(2) list.map(2))
    then show "dict_get (dict_set (mi_id item) item d) (mi_id other) = None"
      using Cons.prems(2) other by (simp add: update_conv')
  qed
  have "dict_get (fold (\<lambda>item. dict_set (mi_id item) item) items (dict_set (mi_id item) item d)) k = Some x \<longleftrightarrow>
      (x \<in> set items \<and> mi_id x = k) \<or> dict_get (dict_set (mi_id item) item d) k = Some x"
    using Cons.prems fresh by (intro Cons.IH) simp_all
  then show ?case using Cons.prems by (auto simp: update_conv')
qed simp

lemma index_by_id_iff:
  "distinct (map mi_id items) \<Longrightarrow>
   dict_get (index_by_id items) k = Some x \<longleftrightarrow> x \<in> set items \<and> mi_id x = k"
  unfolding index_by_id_def by (subst fold_index) auto

section \<open>What a visit does\<close>

definition parent_in :: "(string, memory_item) dict \<Rightarrow> memory_item \<Rightarrow> memory_item option" where
  "parent_in by_id item = Option.bind (mi_supersedes_id item) (dict_get by_id)"

definition visited_ok :: "(string, memory_item) dict \<Rightarrow> string set \<Rightarrow> memory_item list \<Rightarrow> bool" where
  "visited_ok by_id permanent ordered \<longleftrightarrow>
     permanent = mi_id ` set ordered \<and> distinct (map mi_id ordered) \<and>
     (\<forall>i < length ordered. \<forall>parent. parent_in by_id (ordered ! i) = Some parent \<longrightarrow>
        (\<exists>j < i. mi_id (ordered ! j) = mi_id parent))"

lemma visited_ok_append:
  assumes "visited_ok by_id permanent ordered" and "mi_id item \<notin> permanent"
    and "\<And>parent. parent_in by_id item = Some parent \<Longrightarrow> mi_id parent \<in> permanent"
  shows "visited_ok by_id (insert (mi_id item) permanent) (ordered @ [item])"
proof -
  have "\<exists>j < i. mi_id ((ordered @ [item]) ! j) = mi_id parent"
    if i_parent: "i < length (ordered @ [item])" "parent_in by_id ((ordered @ [item]) ! i) = Some parent" for i parent
  proof (cases "i < length ordered")
    case True
    then obtain j where "j < i" "mi_id (ordered ! j) = mi_id parent"
      using assms(1) i_parent(2) by (auto simp: visited_ok_def nth_append)
    then show ?thesis using True by (intro exI [of _ j]) (simp add: nth_append)
  next
    case False
    then have i: "i = length ordered" using i_parent(1) by simp
    then have "mi_id parent \<in> mi_id ` set ordered"
      using assms(1,3) i_parent(2) by (simp add: visited_ok_def)
    then obtain x where "x \<in> set ordered" "mi_id x = mi_id parent" by auto
    then obtain j where "j < length ordered" "mi_id (ordered ! j) = mi_id parent"
      by (auto simp: in_set_conv_nth)
    then show ?thesis using i by (intro exI [of _ j]) (simp add: nth_append)
  qed
  then show ?thesis using assms(1,2) by (simp add: visited_ok_def)
qed

lemma visit_ok:
  assumes "visit by_id visiting item (permanent, ordered) = Inr (permanent', ordered')"
    and "visited_ok by_id permanent ordered"
  shows "visited_ok by_id permanent' ordered' \<and> mi_id item \<in> permanent' \<and> permanent \<subseteq> permanent' \<and>
    (permanent' - permanent) \<inter> visiting = {} \<and>
    set ordered' \<subseteq> insert item (set ordered \<union> {x. \<exists>k. dict_get by_id k = Some x})"
  using assms
proof (induction by_id visiting item "(permanent, ordered)" arbitrary: permanent ordered permanent' ordered' rule: visit.induct)
  case (1 by_id visiting item permanent ordered)
  consider (known) "mi_id item \<in> permanent" | (cycle) "mi_id item \<notin> permanent" "mi_id item \<in> visiting"
    | (enter) "mi_id item \<notin> permanent" "mi_id item \<notin> visiting" by blast
  then show ?case
  proof cases
    case known
    then show ?thesis using "1.prems" by (auto simp: visit.simps [of by_id visiting item])
  next
    case cycle
    then show ?thesis using "1.prems" by (simp add: visit.simps [of by_id visiting item])
  next
    case enter
    show ?thesis
    proof (cases "parent_in by_id item")
      case None
      then have "permanent' = insert (mi_id item) permanent" "ordered' = ordered @ [item]"
        using "1.prems"(1) enter by (auto simp: visit.simps [of by_id visiting item] parent_in_def)
      then show ?thesis
        using visited_ok_append [OF "1.prems"(2) enter(1)] None enter by auto
    next
      case (Some parent)
      then obtain p o' where nested: "visit by_id (insert (mi_id item) visiting) parent (permanent, ordered) = Inr (p, o')"
        and new: "permanent' = insert (mi_id item) p" "ordered' = o' @ [item]"
        using "1.prems"(1) enter
        by (auto simp: visit.simps [of by_id visiting item] parent_in_def split: sum.splits)
      have ih: "visited_ok by_id p o' \<and> mi_id parent \<in> p \<and> permanent \<subseteq> p \<and>
          (p - permanent) \<inter> insert (mi_id item) visiting = {} \<and>
          set o' \<subseteq> insert parent (set ordered \<union> {x. \<exists>k. dict_get by_id k = Some x})"
        using "1.hyps" [OF enter Some [unfolded parent_in_def] nested "1.prems"(2)] .
      then have "mi_id item \<notin> p" using enter by auto
      then have "visited_ok by_id permanent' ordered'"
        unfolding new using ih Some by (intro visited_ok_append) auto
      moreover have "parent \<in> {x. \<exists>k. dict_get by_id k = Some x}"
        using Some by (auto simp: parent_in_def bind_eq_Some_conv)
      ultimately show ?thesis using ih enter unfolding new by auto
    qed
  qed
qed

lemma visit_all_ok:
  assumes "visit_all by_id items (permanent, ordered) = Inr (permanent', ordered')"
    and "visited_ok by_id permanent ordered"
  shows "visited_ok by_id permanent' ordered' \<and> permanent \<union> mi_id ` set items \<subseteq> permanent' \<and>
    set ordered' \<subseteq> set items \<union> set ordered \<union> {x. \<exists>k. dict_get by_id k = Some x}"
  using assms
proof (induction items arbitrary: permanent ordered)
  case (Cons item items)
  then obtain p o' where v: "visit by_id {} item (permanent, ordered) = Inr (p, o')"
    and rest: "visit_all by_id items (p, o') = Inr (permanent', ordered')"
    by (auto split: sum.splits)
  have one: "visited_ok by_id p o'" "mi_id item \<in> p" "permanent \<subseteq> p"
    "set o' \<subseteq> insert item (set ordered \<union> {x. \<exists>k. dict_get by_id k = Some x})"
    using visit_ok [OF v Cons.prems(2)] by auto
  show ?case using Cons.IH [OF rest one(1)] one by auto
qed simp

section \<open>A visit fails only on a cycle\<close>

text \<open>The edges of a history lead from the identifier of an item to that of its correction.\<close>

definition history_edges :: "memory_item list \<Rightarrow> (string \<times> string) set" where
  "history_edges items = {(mi_id parent, mi_id item) | parent item.
     item \<in> set items \<and> parent \<in> set items \<and> mi_supersedes_id item = Some (mi_id parent)}"

lemma visit_fails_on_cycle:
  assumes "visit by_id visiting item state = Inl e"
    and "\<And>k x. dict_get by_id k = Some x \<Longrightarrow> x \<in> set items \<and> mi_id x = k" and "item \<in> set items"
    and "\<forall>v \<in> visiting. (mi_id item, v) \<in> (history_edges items)\<^sup>+"
  shows "e = ValueError ''Memory Archive correction history contains a cycle'' \<and> \<not> acyclic (history_edges items)"
  using assms
proof (induction by_id visiting item state rule: visit.induct)
  case (1 by_id visiting item permanent ordered)
  then have new: "mi_id item \<notin> permanent" by (auto simp: visit.simps [of by_id visiting item] split: if_split_asm)
  show ?case
  proof (cases "mi_id item \<in> visiting")
    case True
    then show ?thesis
      using "1.prems"(1,4) new by (auto simp: visit.simps [of by_id visiting item] acyclic_def)
  next
    case False
    then obtain parent where parent: "Option.bind (mi_supersedes_id item) (dict_get by_id) = Some parent"
      and nested: "visit by_id (insert (mi_id item) visiting) parent (permanent, ordered) = Inl e"
      using "1.prems"(1) new by (auto simp: visit.simps [of by_id visiting item] split: option.splits sum.splits)
    then have mem: "parent \<in> set items" "mi_supersedes_id item = Some (mi_id parent)"
      using "1.prems"(2) by (auto simp: bind_eq_Some_conv)
    then have edge: "(mi_id parent, mi_id item) \<in> history_edges items"
      using "1.prems"(3) by (auto simp: history_edges_def)
    then have "\<forall>v \<in> insert (mi_id item) visiting. (mi_id parent, v) \<in> (history_edges items)\<^sup>+"
      using "1.prems"(4) by (auto intro: trancl_into_trancl2)
    then show ?thesis
      using "1.IH" [OF new False parent nested "1.prems"(2) mem(1)] by blast
  qed
qed

lemma visit_all_fails_on_cycle:
  assumes "visit_all by_id visited state = Inl e" and "set visited \<subseteq> set items"
    and "\<And>k x. dict_get by_id k = Some x \<Longrightarrow> x \<in> set items \<and> mi_id x = k"
  shows "e = ValueError ''Memory Archive correction history contains a cycle'' \<and> \<not> acyclic (history_edges items)"
  using assms
proof (induction visited arbitrary: state)
  case (Cons item visited)
  show ?case
  proof (cases "visit by_id {} item state")
    case (Inl e')
    then show ?thesis using Cons.prems visit_fails_on_cycle [OF Inl Cons.prems(3)] by auto
  next
    case (Inr state')
    then show ?thesis using Cons.IH [of state'] Cons.prems by auto
  qed
qed simp

section \<open>Properties\<close>

definition position :: "memory_item list \<Rightarrow> string \<Rightarrow> nat" where
  "position items k = length (takeWhile (\<lambda>item. mi_id item \<noteq> k) items)"

lemma position_nth:
  assumes "distinct (map mi_id items)" and "i < length items"
  shows "position items (mi_id (items ! i)) = i"
  using assms
proof (induction items arbitrary: i)
  case (Cons x items)
  then show ?case by (cases i) (auto simp: position_def)
qed simp

text \<open>The result of the ordering holds exactly the items given.\<close>

lemma order_correction_history_perm:
  assumes "distinct (map mi_id items)" and "order_correction_history items = Inr ordered"
  shows "mset ordered = mset items"
    and "\<exists>permanent. visit_all (index_by_id items) items ({}, []) = Inr (permanent, ordered) \<and>
      visited_ok (index_by_id items) permanent ordered"
proof -
  obtain permanent where visited: "visit_all (index_by_id items) items ({}, []) = Inr (permanent, ordered)"
    using assms(2) by (auto simp: order_correction_history_def split: sum.splits)
  have "visited_ok (index_by_id items) {} []" by (simp add: visited_ok_def)
  from visit_all_ok [OF visited this] index_by_id_iff [OF assms(1)]
  have ok: "visited_ok (index_by_id items) permanent ordered" and ids: "mi_id ` set items \<subseteq> permanent"
    and sub: "set ordered \<subseteq> set items" by auto
  have distinct: "distinct (map mi_id ordered)" using ok by (simp add: visited_ok_def)
  have inj: "x = y" if "x \<in> set items" "y \<in> set items" "mi_id x = mi_id y" for x y
    using assms(1) that by (auto simp: distinct_map inj_on_def)
  have "x \<in> set ordered" if x: "x \<in> set items" for x
  proof -
    have "mi_id x \<in> mi_id ` set ordered" using ids ok x by (auto simp: visited_ok_def)
    then obtain y where y: "y \<in> set ordered" "mi_id y = mi_id x" by auto
    then have "y = x" using inj sub x by blast
    then show ?thesis using y(1) by simp
  qed
  with sub have "set ordered = set items" by auto
  then show "mset ordered = mset items"
    using assms(1) distinct by (metis distinct_map set_eq_iff_mset_eq_distinct)
  show "\<exists>permanent. visit_all (index_by_id items) items ({}, []) = Inr (permanent, ordered) \<and>
      visited_ok (index_by_id items) permanent ordered" using visited ok by blast
qed

text \<open>
  C19. Ordering a correction history is a topological sort: for items with distinct identifiers
  it returns a permutation of them in which every ancestor that is present comes before its
  correction, or it reports a cycle, and it does the latter exactly when there is one.
\<close>

theorem correction_history_is_sorted:
  assumes "distinct (map mi_id items)"
  shows "case order_correction_history items of
      Inl e \<Rightarrow> e = ValueError ''Memory Archive correction history contains a cycle'' \<and>
        \<not> acyclic (history_edges items)
    | Inr ordered \<Rightarrow> acyclic (history_edges items) \<and> mset ordered = mset items \<and>
        (\<forall>i < length ordered. \<forall>parent \<in> set items. mi_supersedes_id (ordered ! i) = Some (mi_id parent) \<longrightarrow>
           (\<exists>j < i. ordered ! j = parent))"
proof (cases "visit_all (index_by_id items) items ({}, [])")
  case (Inl e)
  then show ?thesis
    using visit_all_fails_on_cycle [OF Inl subset_refl] index_by_id_iff [OF assms]
    by (simp add: order_correction_history_def)
next
  case (Inr result)
  obtain permanent ordered where result: "result = (permanent, ordered)" by (cases result)
  have "order_correction_history items = Inr ordered" using Inr by (simp add: order_correction_history_def result)
  note order = order_correction_history_perm [OF assms this]
  have perm: "mset ordered = mset items" by (rule order)
  then have "set ordered = set items" by (rule mset_eq_setD)
  obtain permanent' where ok: "visited_ok (index_by_id items) permanent' ordered" using order(2) by blast
  have distinct: "distinct (map mi_id ordered)" using ok by (simp add: visited_ok_def)
  have sub: "set ordered \<subseteq> set items" using \<open>set ordered = set items\<close> by simp
  have inj: "x = y" if "x \<in> set items" "y \<in> set items" "mi_id x = mi_id y" for x y
    using assms that by (auto simp: distinct_map inj_on_def)
  have before: "\<exists>j < i. ordered ! j = parent"
    if i: "i < length ordered" and parent: "parent \<in> set items"
      and edge: "mi_supersedes_id (ordered ! i) = Some (mi_id parent)" for i parent
  proof -
    have "parent_in (index_by_id items) (ordered ! i) = Some parent"
      using edge parent index_by_id_iff [OF assms] by (simp add: parent_in_def)
    then obtain j where j: "j < i" "mi_id (ordered ! j) = mi_id parent"
      using ok i by (auto simp: visited_ok_def)
    then have "ordered ! j \<in> set items" using sub i by auto
    then show ?thesis using inj j parent by blast
  qed
  have "history_edges items \<subseteq> measure (position ordered)"
  proof (clarsimp simp: history_edges_def)
    fix parent item
    assume edge: "item \<in> set items" "parent \<in> set items" "mi_supersedes_id item = Some (mi_id parent)"
    then obtain i where i: "i < length ordered" "ordered ! i = item"
      using \<open>set ordered = set items\<close> by (metis in_set_conv_nth)
    then obtain j where "j < i" "ordered ! j = parent" using before edge(2,3) by blast
    then show "position ordered (mi_id parent) < position ordered (mi_id item)"
      using i position_nth [OF distinct] by (metis order.strict_trans)
  qed
  then have "acyclic (history_edges items)"
    by (meson acyclic_subset wf_acyclic wf_measure)
  then show ?thesis using Inr perm before by (simp add: order_correction_history_def result)
qed

definition sample_archived :: "string \<Rightarrow> string option \<Rightarrow> memory_item" where
  "sample_archived k parent = \<lparr>mi_id = k, mi_owner_principal_id = Some ''alice'', mi_scope = PRIVATE,
     mi_content = ''x'', mi_kind = EXPLICIT, mi_confidence = 1,
     mi_provenance = \<lparr>pv_actor_id = ''alice'', pv_source = ''explicit''\<rparr>, mi_created_at = 1,
     mi_state = (if k = ''c'' then ACTIVE_MEMORY else SUPERSEDED), mi_supersedes_id = parent\<rparr>"

theorem correction_history_is_sorted_witness:
  "order_correction_history [sample_archived ''c'' (Some ''b''), sample_archived ''b'' (Some ''a''), sample_archived ''a'' None]
     = Inr [sample_archived ''a'' None, sample_archived ''b'' (Some ''a''), sample_archived ''c'' (Some ''b'')] \<and>
   acyclic (history_edges [sample_archived ''c'' (Some ''b''), sample_archived ''b'' (Some ''a''), sample_archived ''a'' None])"
proof -
  let ?items = "[sample_archived ''c'' (Some ''b''), sample_archived ''b'' (Some ''a''), sample_archived ''a'' None]"
  have "order_correction_history ?items =
      Inr [sample_archived ''a'' None, sample_archived ''b'' (Some ''a''), sample_archived ''c'' (Some ''b'')]"
    "distinct (map mi_id ?items)"
    by code_simp+
  then show ?thesis using correction_history_is_sorted [of ?items] by simp
qed

end
