(* ===== verification/MemoryStoreProperties.thy ===== *)
theory MemoryStoreProperties
  imports MemoryStore
begin

text \<open>
  What the in-memory Memory store promises: recall is a ranking of exactly the visible items,
  owners do not see or touch each other's items, and its records stay consistent under every
  sequence of operations.
\<close>

section \<open>Recall\<close>

lemma sorted_desc_sorted: "sorted_wrt (\<lambda>a b. k b \<le> k a) (sorted_desc k xs)"
proof -
  have "sorted_wrt (\<lambda>a b. k a \<le> k b) (sort_key k (rev xs))"
    using sorted_sort_key [of k "rev xs"] by (simp only: sorted_map)
  then show ?thesis by (simp add: sorted_desc_def sorted_wrt_rev)
qed

lemma take_of_sorted:
  assumes "sorted_wrt (\<lambda>a b. k b \<le> (k a :: 'b :: linorder)) xs" and "x \<in> set xs" and "x \<notin> set (take n xs)"
    and "y \<in> set (take n xs)"
  shows "k x \<le> k y"
proof -
  have "x \<in> set (drop n xs)"
    using assms(2,3) by (metis Un_iff append_take_drop_id set_append)
  moreover have "sorted_wrt (\<lambda>a b. k b \<le> k a) (take n xs @ drop n xs)" using assms(1) by simp
  ultimately show ?thesis using assms(4) unfolding sorted_wrt_append by blast
qed

lemma take_missing:
  "x \<in> set xs \<Longrightarrow> x \<notin> set (take n xs) \<Longrightarrow> length (take n xs) = n"
  by (metis length_take min.absorb2 nat_le_linear take_all)

text \<open>
  C35. Recall returns exactly the best matches: active items that are Tenant Knowledge or owned
  by one of the given owners, each sharing a term with the query, in descending order of the
  number of shared terms and at most as many as asked for. A visible match is left out only
  when the limit is reached and every item returned scores at least as high.
\<close>

theorem recall_returns_best_matches:
  fixes owners query s
  defines "found \<equiv> tms_recall owners query s"
    and "score \<equiv> \<lambda>item. tms_score item (rq_query query)"
  shows "int (length found) \<le> max 0 (rq_limit query) \<and> sorted_wrt (\<lambda>a b. score b \<le> score a) found \<and>
    (\<forall>item \<in> set found. item \<in> set (ms_items s) \<and> recall_visible owners item \<and> 0 < score item) \<and>
    (\<forall>item \<in> set (ms_items s). recall_visible owners item \<longrightarrow> 0 < score item \<longrightarrow> item \<notin> set found \<longrightarrow>
       length found = nat (rq_limit query) \<and> (\<forall>other \<in> set found. score item \<le> score other))"
proof -
  let ?ranked = "filter (\<lambda>item. 0 < score item)
      (sorted_desc score (filter (recall_visible owners) (ms_items s)))"
  have found: "found = take (nat (rq_limit query)) ?ranked"
    by (simp add: found_def score_def tms_recall_def)
  have sorted: "sorted_wrt (\<lambda>a b. score b \<le> score a) ?ranked"
    by (intro sorted_wrt_filter sorted_desc_sorted)
  have "length found = nat (rq_limit query) \<and> (\<forall>other \<in> set found. score item \<le> score other)"
    if "item \<in> set (ms_items s)" "recall_visible owners item" "0 < score item" "item \<notin> set found" for item
  proof -
    have ranked: "item \<in> set ?ranked" using that by simp
    have missing: "item \<notin> set (take (nat (rq_limit query)) ?ranked)" using that(4) unfolding found .
    show ?thesis
      unfolding found using take_missing [OF ranked missing] take_of_sorted [OF sorted ranked missing]
      by (intro conjI ballI)
  qed
  moreover have "sorted_wrt (\<lambda>a b. score b \<le> score a) found"
    unfolding found by (rule sorted_wrt_take [OF sorted])
  moreover have "int (length found) \<le> max 0 (rq_limit query)" unfolding found by simp
  moreover have "\<forall>item \<in> set found. item \<in> set (ms_items s) \<and> recall_visible owners item \<and> 0 < score item"
    unfolding found by (auto dest!: in_set_takeD)
  ultimately show ?thesis by (intro conjI ballI impI) simp_all
qed

section \<open>Owners are isolated\<close>

lemma first_index_Some:
  "first_index p xs = Some i \<Longrightarrow> i < length xs \<and> p (xs ! i)"
  by (induction p xs arbitrary: i rule: first_index.induct) (auto split: if_splits)

lemma first_index_None: "first_index p xs = None \<longleftrightarrow> (\<forall>x \<in> set xs. \<not> p x)"
  by (induction p xs rule: first_index.induct) auto

lemma filter_update_irrelevant:
  "i < length xs \<Longrightarrow> \<not> p (xs ! i) \<Longrightarrow> \<not> p y \<Longrightarrow> filter p (xs[i := y]) = filter p xs"
  by (induction xs arbitrary: i) (auto split: nat.splits)

lemma filter_map_irrelevant:
  "(\<And>x. x \<in> set xs \<Longrightarrow> f x \<noteq> x \<Longrightarrow> \<not> p x \<and> \<not> p (f x)) \<Longrightarrow> filter p (map f xs) = filter p xs"
  by (induction xs) force+

text \<open>A test that no item of an owner passes does not see what is done for that owner.\<close>

definition blind_to :: "string \<Rightarrow> (memory_item \<Rightarrow> bool) \<Rightarrow> bool" where
  "blind_to owner p \<longleftrightarrow> (\<forall>item. mi_owner_principal_id item = Some owner \<longrightarrow> \<not> p item)"

lemma blind_to_others:
  "owner \<notin> set owners \<Longrightarrow> blind_to owner (\<lambda>item. q item \<and> owned_by owners item)"
  "other \<noteq> owner \<Longrightarrow> blind_to owner (\<lambda>item. q item \<and> mi_owner_principal_id item = Some other)"
  by (auto simp: blind_to_def owned_by_def split: option.splits)

lemma filter_retain:
  "blind_to owner p \<Longrightarrow>
   filter p (ms_items (snd (tms_retain_private uid now owner c a s))) = filter p (ms_items s)"
  by (auto simp: tms_retain_private_def blind_to_def Let_def split: option.splits)

lemma filter_erase:
  "blind_to owner p \<Longrightarrow> filter p (ms_items (snd (tms_erase_private owner k s))) = filter p (ms_items s)"
  by (auto simp: tms_erase_private_def blind_to_def Let_def intro!: filter_cong)

lemma filter_apply:
  assumes "blind_to owner p"
  shows "filter p (ms_items (snd (tms_apply_private_item owner item s))) = filter p (ms_items s)"
proof -
  have "filter p (map (supersede_parent owner item) (ms_items s)) = filter p (ms_items s)"
    using assms by (intro filter_map_irrelevant) (auto simp: supersede_parent_def blind_to_def split: if_splits)
  then show ?thesis using assms by (auto simp: tms_apply_private_item_def blind_to_def Let_def)
qed

lemma filter_correct:
  assumes "blind_to owner p"
  shows "filter p (ms_items (snd (tms_correct_private uid now owner c a s))) = filter p (ms_items s)"
proof (cases "first_index (correctable (cm_memory_id c) owner) (ms_items s)")
  case None
  then show ?thesis by (auto simp: tms_correct_private_def Let_def split: option.splits)
next
  case (Some i)
  then have i: "i < length (ms_items s)" "mi_owner_principal_id (ms_items s ! i) = Some owner"
    using first_index_Some [OF Some] by (simp_all add: correctable_def)
  then have "filter p ((ms_items s)[i := (ms_items s ! i)\<lparr>mi_state := SUPERSEDED\<rparr>]) = filter p (ms_items s)"
    using assms by (intro filter_update_irrelevant) (auto simp: blind_to_def)
  then show ?thesis
    using assms Some by (auto simp: tms_correct_private_def blind_to_def Let_def split: option.splits)
qed

lemmas filter_private = filter_retain filter_correct filter_erase filter_apply

definition private_effects ::
  "string \<Rightarrow> datetime \<Rightarrow> string \<Rightarrow> string option \<Rightarrow> retain_memory \<Rightarrow> correct_memory \<Rightarrow> string \<Rightarrow>
   memory_item \<Rightarrow> memory_store \<Rightarrow> memory_store set" where
  "private_effects uid now owner actor retained corrected erased imported s =
     {snd (tms_retain_private uid now owner retained actor s),
      snd (tms_correct_private uid now owner corrected actor s),
      snd (tms_erase_private owner erased s), snd (tms_import_private owner imported s)}"

lemma filter_private_effects:
  "blind_to owner p \<Longrightarrow> s' \<in> private_effects uid now owner actor rt cm er im s \<Longrightarrow>
   filter p (ms_items s') = filter p (ms_items s)"
  by (auto simp: private_effects_def tms_import_private_def filter_private)

text \<open>Tenant Knowledge has no owner and every private item has one.\<close>

definition scopes_ok :: "memory_store \<Rightarrow> bool" where
  "scopes_ok s \<longleftrightarrow> (\<forall>item \<in> set (ms_items s).
     mi_scope item = TENANT_KNOWLEDGE \<longleftrightarrow> mi_owner_principal_id item = None)"

lemma supersede_parent_simps [simp]:
  "mi_id (supersede_parent owner item existing) = mi_id existing"
  "mi_scope (supersede_parent owner item existing) = mi_scope existing"
  "mi_owner_principal_id (supersede_parent owner item existing) = mi_owner_principal_id existing"
  "mi_supersedes_id (supersede_parent owner item existing) = mi_supersedes_id existing"
  by (simp_all add: supersede_parent_def)

lemma tms_correct_private_cases:
  assumes "tms_correct_private uid now owner c a s = (r, s')"
  obtains (same) "s' = s" and "case r of Inl e \<Rightarrow> True | Inr item \<Rightarrow>
      dict_get (ms_correction_keys s) (owner, cm_idempotency_key c) = Some item"
  | (corrected) i new where "dict_get (ms_correction_keys s) (owner, cm_idempotency_key c) = None"
      and "i < length (ms_items s)" and "correctable (cm_memory_id c) owner (ms_items s ! i)"
      and "r = Inr new" and "mi_id new = uid" and "mi_owner_principal_id new = Some owner"
      and "mi_scope new = PRIVATE" and "mi_state new = ACTIVE_MEMORY"
      and "mi_supersedes_id new = Some (cm_memory_id c)" and "mi_content new = cm_replacement_content c"
      and "s' = s\<lparr>ms_items := (ms_items s)[i := (ms_items s ! i)\<lparr>mi_state := SUPERSEDED\<rparr>] @ [new],
             ms_correction_keys := dict_set (owner, cm_idempotency_key c) new (ms_correction_keys s)\<rparr>"
proof (cases "dict_get (ms_correction_keys s) (owner, cm_idempotency_key c)")
  case (Some existing)
  then show thesis using assms same by (auto simp: tms_correct_private_def Let_def)
next
  case None
  show thesis
  proof (cases "first_index (correctable (cm_memory_id c) owner) (ms_items s)")
    case (Some i)
    then have "i < length (ms_items s)" "correctable (cm_memory_id c) owner (ms_items s ! i)"
      using first_index_Some [OF Some] by auto
    then show thesis
      using assms None Some
      by (intro corrected [OF None, of i]) (auto simp: tms_correct_private_def correctable_def Let_def)
  next
    case none: None
    then show thesis using assms None same by (auto simp: tms_correct_private_def Let_def)
  qed
qed

lemma scopes_ok_retain: "scopes_ok s \<Longrightarrow> scopes_ok (snd (tms_retain_private uid now owner c a s))"
  by (auto simp: scopes_ok_def tms_retain_private_def Let_def split: option.splits)

lemma scopes_ok_erase: "scopes_ok s \<Longrightarrow> scopes_ok (snd (tms_erase_private owner k s))"
  by (auto simp: scopes_ok_def tms_erase_private_def Let_def)

lemma scopes_ok_apply: "scopes_ok s \<Longrightarrow> scopes_ok (snd (tms_apply_private_item owner item s))"
  by (auto simp: scopes_ok_def tms_apply_private_item_def Let_def)

lemma scopes_ok_correct:
  assumes "scopes_ok s"
  shows "scopes_ok (snd (tms_correct_private uid now owner c a s))"
proof -
  obtain r s' where eq: "tms_correct_private uid now owner c a s = (r, s')" by (rule prod.exhaust)
  then have "scopes_ok s'"
  proof (cases rule: tms_correct_private_cases)
    case same
    then show ?thesis using assms by simp
  next
    case (corrected i new)
    then have "ms_items s ! i \<in> set (ms_items s)" by simp
    then show ?thesis
      using corrected assms
      by (auto simp: scopes_ok_def correctable_def dest!: set_update_subset_insert [THEN subsetD])
  qed
  then show ?thesis by (simp add: eq)
qed

lemma scopes_ok_private_effects:
  "scopes_ok s \<Longrightarrow> s' \<in> private_effects uid now owner actor rt cm er im s \<Longrightarrow> scopes_ok s'"
  by (auto simp: private_effects_def tms_import_private_def scopes_ok_retain scopes_ok_correct
      scopes_ok_erase scopes_ok_apply)

lemma scopes_ok_tenant:
  "scopes_ok s \<Longrightarrow> filter (\<lambda>item. q item \<and> mi_scope item = TENANT_KNOWLEDGE) (ms_items s) =
     filter (\<lambda>item. q item \<and> mi_owner_principal_id item = None) (ms_items s)"
  by (rule filter_cong) (auto simp: scopes_ok_def)

lemma scopes_ok_recall:
  "scopes_ok s \<Longrightarrow> filter (recall_visible owners) (ms_items s) =
     filter (\<lambda>item. mi_state item = ACTIVE_MEMORY \<and>
       (mi_owner_principal_id item = None \<or> owned_by owners item)) (ms_items s)"
  by (rule filter_cong) (auto simp: scopes_ok_def recall_visible_def)

text \<open>
  C11. Private Memory is isolated: whatever is retained, corrected, erased or imported for one
  owner, every other owner sees the same private items before and after, the Tenant Knowledge
  stays the same, and a recall on behalf of other owners returns the same items.
\<close>

theorem owners_are_isolated:
  assumes "scopes_ok s" and "s' \<in> private_effects uid now owner actor retained corrected erased imported s"
    and "owner \<notin> set owners" and "other \<noteq> owner"
  shows "tms_list_private other s' = tms_list_private other s \<and>
    tms_list_tenant_knowledge s' = tms_list_tenant_knowledge s \<and>
    tms_get_visible_private_items owners ids s' = tms_get_visible_private_items owners ids s \<and>
    tms_recall owners query s' = tms_recall owners query s"
proof -
  have ok': "scopes_ok s'" using assms(1,2) by (rule scopes_ok_private_effects)
  note same = filter_private_effects [OF _ assms(2)]
  have "filter (\<lambda>item. mi_scope item = PRIVATE \<and> mi_owner_principal_id item = Some other) (ms_items s')
      = filter (\<lambda>item. mi_scope item = PRIVATE \<and> mi_owner_principal_id item = Some other) (ms_items s)"
    using assms(4) by (intro same blind_to_others)
  moreover have "filter (\<lambda>item. True \<and> mi_scope item = TENANT_KNOWLEDGE) (ms_items s')
      = filter (\<lambda>item. True \<and> mi_scope item = TENANT_KNOWLEDGE) (ms_items s)"
    unfolding scopes_ok_tenant [OF assms(1)] scopes_ok_tenant [OF ok']
    by (intro same) (simp add: blind_to_def)
  moreover have "filter (recall_visible owners) (ms_items s') = filter (recall_visible owners) (ms_items s)"
    unfolding scopes_ok_recall [OF assms(1)] scopes_ok_recall [OF ok']
    using assms(3) by (intro same) (auto simp: blind_to_def owned_by_def split: option.splits)
  moreover have "tms_get_visible_private_items owners ids s' = tms_get_visible_private_items owners ids s"
    unfolding tms_get_visible_private_items_def
    using assms(3) by (intro same) (auto simp: blind_to_def owned_by_def split: option.splits)
  ultimately show ?thesis
    by (simp add: tms_list_private_def tms_list_tenant_knowledge_def tms_recall_def)
qed

section \<open>The store stays consistent\<close>

text \<open>
  The identifiers that \<^verbatim>\<open>uuid4()\<close> must avoid: those of the stored items and those that stored
  items supersede.
\<close>

definition used_memory_ids :: "memory_store \<Rightarrow> string set" where
  "used_memory_ids s = mi_id ` set (ms_items s) \<union> {k. \<exists>item \<in> set (ms_items s). mi_supersedes_id item = Some k}"

text \<open>A correction history has one head: an item that the same owner superseded is not active.\<close>

definition histories_ok :: "memory_item list \<Rightarrow> bool" where
  "histories_ok items \<longleftrightarrow> (\<forall>later \<in> set items. \<forall>item \<in> set items.
     mi_supersedes_id later = Some (mi_id item) \<longrightarrow>
     mi_owner_principal_id later = mi_owner_principal_id item \<longrightarrow> mi_state item \<noteq> ACTIVE_MEMORY)"

definition memory_inv :: "memory_store \<Rightarrow> bool" where
  "memory_inv s \<longleftrightarrow> distinct (map mi_id (ms_items s)) \<and> scopes_ok s \<and> histories_ok (ms_items s) \<and>
     dict_ok (ms_published_candidates s) \<and>
     filter (\<lambda>item. mi_scope item = TENANT_KNOWLEDGE) (ms_items s) = dict_values (ms_published_candidates s) \<and>
     (\<forall>owner key item. dict_get (ms_idempotency s) (owner, key) = Some item \<or>
        dict_get (ms_correction_keys s) (owner, key) = Some item \<longrightarrow>
        mi_owner_principal_id item = Some owner \<and> mi_scope item = PRIVATE)"

text \<open>
  One operation on the store. An item that is applied from a durable command or an archive
  must not be the active ancestor of an item already there, which
  \<^verbatim>\<open>order_correction_history\<close> and \<^verbatim>\<open>_validate_private_archive\<close> see to for an archive.
\<close>

inductive memory_step :: "memory_store \<Rightarrow> memory_store \<Rightarrow> bool" where
  retain: "uid \<notin> used_memory_ids s \<Longrightarrow>
    memory_step s (snd (tms_retain_private uid now owner retained actor s))"
| correct: "uid \<notin> used_memory_ids s \<Longrightarrow>
    memory_step s (snd (tms_correct_private uid now owner corrected actor s))"
| publish: "uid \<notin> used_memory_ids s \<Longrightarrow>
    memory_step s (snd (tms_publish_tenant_knowledge uid now candidate claim confidence proposer s))"
| erase: "memory_step s (snd (tms_erase_private owner memory_id s))"
| imported: "mi_state item = ACTIVE_MEMORY \<longrightarrow>
      \<not> (\<exists>later \<in> set (ms_items s). mi_supersedes_id later = Some (mi_id item)) \<Longrightarrow>
    mi_supersedes_id item \<noteq> Some (mi_id item) \<Longrightarrow>
    memory_step s (snd (tms_import_private owner item s))"

definition memory_reachable :: "memory_store \<Rightarrow> bool" where
  "memory_reachable s \<longleftrightarrow> memory_step\<^sup>*\<^sup>* empty_memory_store s"

lemma update_absent: "dict_get d k = None \<Longrightarrow> dict_set k v d = d @ [(k, v)]"
  by (induction d) (auto split: if_splits)

lemma dict_values_append [simp]: "dict_values (d @ e) = dict_values d @ dict_values e"
  by (simp add: dict_values_def)

lemma histories_ok_append:
  assumes "histories_ok items" and "mi_supersedes_id new \<noteq> Some (mi_id new)"
    and "\<And>item. item \<in> set items \<Longrightarrow> mi_supersedes_id new = Some (mi_id item) \<Longrightarrow>
      mi_owner_principal_id new = mi_owner_principal_id item \<Longrightarrow> mi_state item \<noteq> ACTIVE_MEMORY"
    and "mi_state new = ACTIVE_MEMORY \<Longrightarrow> \<not> (\<exists>later \<in> set items. mi_supersedes_id later = Some (mi_id new))"
  shows "histories_ok (items @ [new])"
  using assms unfolding histories_ok_def by fastforce

lemma memory_inv_retain:
  assumes "memory_inv s" and "uid \<notin> used_memory_ids s"
  shows "memory_inv (snd (tms_retain_private uid now owner c a s))"
proof (cases "dict_get (ms_idempotency s) (owner, rt_idempotency_key c)")
  case None
  obtain new s' where eq: "tms_retain_private uid now owner c a s = (new, s')" by (rule prod.exhaust)
  then have new: "s' = s\<lparr>ms_items := ms_items s @ [new],
      ms_idempotency := dict_set (owner, rt_idempotency_key c) new (ms_idempotency s)\<rparr>"
    "mi_id new = uid" "mi_owner_principal_id new = Some owner" "mi_scope new = PRIVATE"
    "mi_supersedes_id new = None"
    using None by (auto simp: tms_retain_private_def Let_def)
  have "scopes_ok s'" using scopes_ok_retain [of s uid now owner c a] assms(1) eq by (simp add: memory_inv_def)
  moreover have "histories_ok (ms_items s @ [new])"
    using assms new by (intro histories_ok_append) (auto simp: memory_inv_def used_memory_ids_def)
  ultimately show ?thesis
    using assms new(2-) unfolding eq snd_conv memory_inv_def used_memory_ids_def new(1)
    by (auto simp: update_conv')
qed (use assms(1) in \<open>simp add: tms_retain_private_def Let_def\<close>)

lemma memory_inv_publish:
  assumes "memory_inv s" and "uid \<notin> used_memory_ids s"
  shows "memory_inv (snd (tms_publish_tenant_knowledge uid now k claim confidence proposer s))"
proof (cases "dict_get (ms_published_candidates s) k")
  case None
  obtain new s' where eq: "tms_publish_tenant_knowledge uid now k claim confidence proposer s = (new, s')"
    by (rule prod.exhaust)
  then have new: "s' = s\<lparr>ms_items := ms_items s @ [new],
      ms_published_candidates := dict_set k new (ms_published_candidates s)\<rparr>"
    "mi_id new = uid" "mi_owner_principal_id new = None" "mi_scope new = TENANT_KNOWLEDGE"
    "mi_supersedes_id new = None"
    using None by (auto simp: tms_publish_tenant_knowledge_def Let_def)
  have "histories_ok (ms_items s @ [new])"
    using assms new by (intro histories_ok_append) (auto simp: memory_inv_def used_memory_ids_def)
  then show ?thesis
    using assms new(2-) None unfolding eq snd_conv memory_inv_def used_memory_ids_def new(1)
    by (auto simp: scopes_ok_def update_absent dict_values_def dict_ok_def map_of_eq_None_iff)
qed (use assms(1) in \<open>simp add: tms_publish_tenant_knowledge_def Let_def\<close>)

lemma memory_inv_erase:
  assumes "memory_inv s"
  shows "memory_inv (snd (tms_erase_private owner k s))"
proof -
  let ?keep = "\<lambda>item. \<not> (mi_id item = k \<and> mi_owner_principal_id item = Some owner)"
  have "filter (\<lambda>item. mi_scope item = TENANT_KNOWLEDGE) (filter ?keep (ms_items s)) =
      filter (\<lambda>item. mi_scope item = TENANT_KNOWLEDGE) (ms_items s)"
    using assms unfolding filter_filter
    by (intro filter_cong) (auto simp: memory_inv_def scopes_ok_def)
  moreover have "distinct (map mi_id (filter ?keep (ms_items s)))"
    using assms by (intro distinct_map_filter) (simp add: memory_inv_def)
  moreover have "histories_ok (filter ?keep (ms_items s))"
    using assms by (auto simp: memory_inv_def histories_ok_def)
  ultimately show ?thesis
    using assms scopes_ok_erase [of s owner k]
    by (simp add: memory_inv_def tms_erase_private_def Let_def)
qed

lemma histories_ok_weaken:
  assumes "histories_ok items"
    and "\<And>item'. item' \<in> set items' \<Longrightarrow> \<exists>item \<in> set items. mi_id item = mi_id item' \<and>
      mi_owner_principal_id item = mi_owner_principal_id item' \<and> mi_supersedes_id item = mi_supersedes_id item' \<and>
      (mi_state item' = ACTIVE_MEMORY \<longrightarrow> mi_state item = ACTIVE_MEMORY)"
  shows "histories_ok items'"
  using assms unfolding histories_ok_def by (metis (no_types, lifting))

lemma memory_inv_correct:
  assumes "memory_inv s" and "uid \<notin> used_memory_ids s"
  shows "memory_inv (snd (tms_correct_private uid now owner c a s))"
proof -
  obtain r s' where eq: "tms_correct_private uid now owner c a s = (r, s')" by (rule prod.exhaust)
  then have "memory_inv s'"
  proof (cases rule: tms_correct_private_cases)
    case same
    then show ?thesis using assms by simp
  next
    case (corrected i new)
    let ?old = "ms_items s ! i" and ?items = "(ms_items s)[i := (ms_items s ! i)\<lparr>mi_state := SUPERSEDED\<rparr>]"
    have old: "mi_id ?old = cm_memory_id c" "mi_scope ?old = PRIVATE" "?old \<in> set (ms_items s)"
      using corrected(2,3) by (simp_all add: correctable_def)
    have ids: "map mi_id ?items = map mi_id (ms_items s)"
      using corrected(2) by (simp add: map_update list_update_same_conv)
    have mem: "item \<in> set (ms_items s) \<and> mi_id item \<noteq> cm_memory_id c \<or> item = ?old\<lparr>mi_state := SUPERSEDED\<rparr>"
      if "item \<in> set ?items" for item
    proof -
      obtain j where j: "j < length (ms_items s)" "item = ?items ! j" using \<open>item \<in> set ?items\<close>
        by (metis in_set_conv_nth length_list_update)
      have "mi_id (ms_items s ! j) \<noteq> mi_id ?old" if "j \<noteq> i"
        using assms(1) corrected(2) j(1) that nth_eq_iff_index_eq [of "map mi_id (ms_items s)" j i]
        by (auto simp: memory_inv_def)
      then show ?thesis using j corrected(2) old(1) by (cases "j = i") auto
    qed
    have "histories_ok (ms_items s)" using assms(1) by (simp add: memory_inv_def)
    then have "histories_ok ?items"
    proof (rule histories_ok_weaken)
      fix item assume "item \<in> set ?items"
      from mem [OF this] show "\<exists>before \<in> set (ms_items s). mi_id before = mi_id item \<and>
          mi_owner_principal_id before = mi_owner_principal_id item \<and>
          mi_supersedes_id before = mi_supersedes_id item \<and>
          (mi_state item = ACTIVE_MEMORY \<longrightarrow> mi_state before = ACTIVE_MEMORY)"
      proof (elim disjE conjE)
        assume "item = ?old\<lparr>mi_state := SUPERSEDED\<rparr>"
        then show ?thesis using old(3) by (intro bexI [of _ ?old]) simp_all
      next
        assume "item \<in> set (ms_items s)"
        then show ?thesis by (intro bexI [of _ item]) simp_all
      qed
    qed
    then have "histories_ok (?items @ [new])"
    proof (rule histories_ok_append)
      have "uid \<noteq> cm_memory_id c"
        using assms(2) imageI [OF old(3), of mi_id] old(1) by (auto simp: used_memory_ids_def)
      then show "mi_supersedes_id new \<noteq> Some (mi_id new)" using corrected(5,9) by simp
      show "mi_state item \<noteq> ACTIVE_MEMORY" if "item \<in> set ?items" "mi_supersedes_id new = Some (mi_id item)" for item
        using mem [OF that(1)] that(2) corrected(9) by auto
      have "mi_supersedes_id item \<noteq> Some uid" if "item \<in> set ?items" for item
        using mem [OF that] assms(2) old(3) by (auto simp: used_memory_ids_def)
      then show "\<not> (\<exists>later \<in> set ?items. mi_supersedes_id later = Some (mi_id new))"
        using corrected(5) by simp
    qed
    moreover have "scopes_ok s'"
      using scopes_ok_correct [of s uid now owner c a] assms(1) by (simp add: eq memory_inv_def)
    moreover have "filter (\<lambda>item. mi_scope item = TENANT_KNOWLEDGE) ?items =
        filter (\<lambda>item. mi_scope item = TENANT_KNOWLEDGE) (ms_items s)"
      using corrected(2) old(2) by (intro filter_update_irrelevant) simp_all
    moreover have "distinct (map mi_id (?items @ [new]))"
    proof -
      have "uid \<notin> set (map mi_id ?items)" unfolding ids using assms(2) by (auto simp: used_memory_ids_def)
      then show ?thesis using assms(1) corrected(5) by (simp add: ids memory_inv_def flip: set_map)
    qed
    ultimately show ?thesis
      using assms(1) corrected(6,7) unfolding memory_inv_def corrected(11)
      by (auto simp: update_conv')
  qed
  then show ?thesis by (simp add: eq)
qed

lemma memory_inv_import:
  assumes "memory_inv s" and "mi_supersedes_id item \<noteq> Some (mi_id item)"
    and "mi_state item = ACTIVE_MEMORY \<longrightarrow>
      \<not> (\<exists>later \<in> set (ms_items s). mi_supersedes_id later = Some (mi_id item))"
  shows "memory_inv (snd (tms_import_private owner item s))"
proof (cases "list_ex (\<lambda>existing. mi_id existing = mi_id item) (ms_items s)")
  case True
  then show ?thesis using assms(1) by (simp add: tms_import_private_def tms_apply_private_item_def)
next
  case False
  let ?items = "map (supersede_parent owner item) (ms_items s)"
    and ?new = "item\<lparr>mi_owner_principal_id := Some owner, mi_scope := PRIVATE\<rparr>"
  have eq: "snd (tms_import_private owner item s) = s\<lparr>ms_items := ?items @ [?new]\<rparr>"
    using False by (simp add: tms_import_private_def tms_apply_private_item_def Let_def)
  have "histories_ok (ms_items s)" using assms(1) by (simp add: memory_inv_def)
  then have "histories_ok ?items"
  proof (rule histories_ok_weaken)
    fix after assume "after \<in> set ?items"
    then obtain before where "before \<in> set (ms_items s)" "after = supersede_parent owner item before"
      by auto
    moreover have "mi_state (supersede_parent owner item before) = ACTIVE_MEMORY \<Longrightarrow>
        mi_state before = ACTIVE_MEMORY" for before
      by (auto simp: supersede_parent_def split: if_splits)
    ultimately show "\<exists>before \<in> set (ms_items s). mi_id before = mi_id after \<and>
        mi_owner_principal_id before = mi_owner_principal_id after \<and>
        mi_supersedes_id before = mi_supersedes_id after \<and>
        (mi_state after = ACTIVE_MEMORY \<longrightarrow> mi_state before = ACTIVE_MEMORY)"
      by (intro bexI [of _ before]) simp_all
  qed
  then have "histories_ok (?items @ [?new])"
  proof (rule histories_ok_append)
    show "mi_supersedes_id ?new \<noteq> Some (mi_id ?new)" using assms(2) by simp
    show "mi_state after \<noteq> ACTIVE_MEMORY" if after: "after \<in> set ?items"
      "mi_supersedes_id ?new = Some (mi_id after)" "mi_owner_principal_id ?new = mi_owner_principal_id after"
      for after
    proof -
      obtain before where "after = supersede_parent owner item before" using after(1) by auto
      with after(2,3) have "after = before\<lparr>mi_state := SUPERSEDED\<rparr>"
        unfolding supersede_parent_def by (simp split: if_split_asm)
      then show ?thesis by simp
    qed
    show "\<not> (\<exists>later \<in> set ?items. mi_supersedes_id later = Some (mi_id ?new))"
      if "mi_state ?new = ACTIVE_MEMORY"
      using that assms(3) by auto
  qed
  moreover have "filter (\<lambda>item. mi_scope item = TENANT_KNOWLEDGE) ?items =
      filter (\<lambda>item. mi_scope item = TENANT_KNOWLEDGE) (ms_items s)"
    using assms(1) by (intro filter_map_irrelevant)
      (auto simp: memory_inv_def scopes_ok_def supersede_parent_def split: if_splits)
  moreover have "distinct (map mi_id (?items @ [?new]))"
  proof -
    have "mi_id item \<notin> set (map mi_id ?items)" using False by (auto simp: list_ex_iff)
    moreover have "map mi_id ?items = map mi_id (ms_items s)" by simp
    ultimately show ?thesis using assms(1) by (simp add: memory_inv_def comp_def)
  qed
  moreover have "scopes_ok (snd (tms_import_private owner item s))"
    using assms(1) scopes_ok_apply [of s owner item] by (simp add: memory_inv_def tms_import_private_def)
  ultimately show ?thesis
    using assms(1) unfolding memory_inv_def eq by simp
qed

lemma memory_reachable_inv:
  assumes "memory_reachable s"
  shows "memory_inv s"
  using assms unfolding memory_reachable_def
proof (induction rule: rtranclp_induct)
  case base
  show ?case by (simp add: memory_inv_def empty_memory_store_def scopes_ok_def histories_ok_def dict_values_def)
next
  case (step s t)
  from step(2) show ?case
    by cases (use step(3) in \<open>auto intro: memory_inv_retain memory_inv_correct memory_inv_publish
        memory_inv_erase memory_inv_import\<close>)
qed

text \<open>
  After any sequence of operations the store is consistent: identifiers are unique, exactly
  the Tenant Knowledge has no owner and it is, in order, what was published, one item per
  candidate; a correction history has at most one active item; and the results kept for
  retries are private items of the owner that asked.
\<close>

lemma memory_store_stays_consistent:
  assumes "memory_reachable s"
  shows "distinct (map mi_id (ms_items s)) \<and>
    (\<forall>item \<in> set (ms_items s). mi_scope item = TENANT_KNOWLEDGE \<longleftrightarrow> mi_owner_principal_id item = None) \<and>
    filter (\<lambda>item. mi_scope item = TENANT_KNOWLEDGE) (ms_items s) = dict_values (ms_published_candidates s) \<and>
    dict_ok (ms_published_candidates s) \<and>
    (\<forall>later \<in> set (ms_items s). \<forall>item \<in> set (ms_items s). mi_supersedes_id later = Some (mi_id item) \<longrightarrow>
       mi_owner_principal_id later = mi_owner_principal_id item \<longrightarrow> mi_state item \<noteq> ACTIVE_MEMORY) \<and>
    (\<forall>owner key item. dict_get (ms_idempotency s) (owner, key) = Some item \<or>
       dict_get (ms_correction_keys s) (owner, key) = Some item \<longrightarrow>
       mi_owner_principal_id item = Some owner \<and> mi_scope item = PRIVATE)"
  using memory_reachable_inv [OF assms]
  unfolding memory_inv_def scopes_ok_def histories_ok_def by blast

section \<open>Correction and erasure\<close>

text \<open>
  A correction replaces an active item of its owner: the original stays in the history as
  superseded and is never recalled again, the replacement is active with the new content, and
  a retry under the same key returns the replacement without a second correction.
\<close>

lemma correction_supersedes_original:
  assumes "memory_reachable s" and "uid \<notin> used_memory_ids s"
    and "dict_get (ms_correction_keys s) (owner, cm_idempotency_key c) = None"
    and "tms_correct_private uid now owner c actor s = (Inr new, s')"
  shows "(\<exists>item \<in> set (ms_items s). correctable (cm_memory_id c) owner item) \<and>
    new \<in> set (ms_items s') \<and> mi_id new = uid \<and> mi_content new = cm_replacement_content c \<and>
    mi_state new = ACTIVE_MEMORY \<and> mi_supersedes_id new = Some (cm_memory_id c) \<and>
    (\<forall>item \<in> set (ms_items s'). mi_id item = cm_memory_id c \<longrightarrow> mi_state item = SUPERSEDED) \<and>
    (\<forall>owners query. cm_memory_id c \<notin> mi_id ` set (tms_recall owners query s')) \<and>
    tms_correct_private uid' now' owner c actor' s' = (Inr new, s')"
  using assms(4)
proof (cases rule: tms_correct_private_cases)
  case same
  then show ?thesis using assms(3) by simp
next
  case (corrected i new')
  have item: "ms_items s ! i \<in> set (ms_items s)" using corrected(2) by simp
  have "memory_inv s'" using memory_inv_correct [OF memory_reachable_inv [OF assms(1)] assms(2), of now owner c actor]
    by (simp add: assms(4))
  then have distinct: "distinct (map mi_id (ms_items s'))" by (simp add: memory_inv_def)
  have "i < length (ms_items s')" "ms_items s' ! i = (ms_items s ! i)\<lparr>mi_state := SUPERSEDED\<rparr>"
    using corrected(2) by (simp_all add: corrected(11) nth_append)
  then have gone: "mi_state other = SUPERSEDED" if "other \<in> set (ms_items s')" "mi_id other = cm_memory_id c" for other
    using distinct that corrected(3)
    by (metis (no_types, lifting) correctable_def distinct_map inj_on_def memory_item.ext_inject
        memory_item.surjective memory_item.update_convs(9) nth_mem)
  then have "cm_memory_id c \<notin> mi_id ` set (tms_recall owners query s')" for owners query
    by (auto simp: tms_recall_def recall_visible_def Let_def dest!: in_set_takeD)
  moreover have "tms_correct_private uid' now' owner c actor' s' = (Inr new, s')"
    using corrected(4) by (simp add: corrected(11) tms_correct_private_def Let_def)
  ultimately show ?thesis
    using corrected(3-10) item gone by (auto simp: corrected(11))
qed

text \<open>
  Erasure removes exactly the item it names, when the owner has it, from every listing and
  from recall.
\<close>

lemma erasure_removes_exactly_one:
  assumes "tms_erase_private owner k s = (erased, s')"
  shows "(erased \<longleftrightarrow> (\<exists>item \<in> set (ms_items s). mi_id item = k \<and> mi_owner_principal_id item = Some owner)) \<and>
    ms_items s' = filter (\<lambda>item. mi_id item \<noteq> k \<or> mi_owner_principal_id item \<noteq> Some owner) (ms_items s) \<and>
    k \<notin> mi_id ` set (tms_list_private owner s') \<and>
    tms_erase_private owner k s' = (False, s')"
proof -
  have items: "ms_items s' = filter (\<lambda>item. \<not> (mi_id item = k \<and> mi_owner_principal_id item = Some owner)) (ms_items s)"
    and erased: "erased \<longleftrightarrow> length (ms_items s') < length (ms_items s)" and s': "s' = s\<lparr>ms_items := ms_items s'\<rparr>"
    using assms by (auto simp: tms_erase_private_def Let_def)
  have "tms_erase_private owner k s' = (False, s')"
    by (simp add: tms_erase_private_def items Let_def)
  moreover have "length (filter P xs) < length xs \<longleftrightarrow> (\<exists>x \<in> set xs. \<not> P x)"
    for P and xs :: "memory_item list"
    by (metis filter_True length_filter_le length_filter_less linorder_not_less nat_less_le)
  ultimately show ?thesis
    using erased by (auto simp: items tms_list_private_def)
qed

text \<open>
  C37. The store keeps the results of \<^verbatim>\<open>retain_private\<close> for retries and erasure does not clear
  them: after an item was erased, a retry under its idempotency key still returns the item
  with its content, and stores nothing.
\<close>

theorem erased_item_returned_on_retry:
  assumes "tms_retain_private uid now owner c actor s = (item, s1)"
    and "tms_erase_private owner (mi_id item) s1 = (erased, s2)"
  shows "tms_retain_private uid' now' owner c actor' s2 = (item, s2) \<and>
    (mi_owner_principal_id item = Some owner \<longrightarrow> item \<notin> set (ms_items s2))"
proof -
  have "dict_get (ms_idempotency s1) (owner, rt_idempotency_key c) = Some item"
    using assms(1) by (auto simp: tms_retain_private_def Let_def split: option.splits)
  then show ?thesis
    using assms(2) by (auto simp: tms_erase_private_def tms_retain_private_def Let_def)
qed

section \<open>Instances\<close>

definition sample_retain :: "string \<Rightarrow> string \<Rightarrow> retain_memory" where
  "sample_retain content key = \<lparr>rt_content = content, rt_kind = PREFERENCE, rt_confidence = 1,
     rt_idempotency_key = key\<rparr>"

definition sample_correction :: correct_memory where
  "sample_correction = \<lparr>cm_memory_id = ''m1'', cm_replacement_content = ''Black tea.'', cm_kind = PREFERENCE,
     cm_confidence = 1, cm_reason = ''changed'', cm_idempotency_key = ''c1''\<rparr>"

definition sample_memory :: memory_store where
  "sample_memory =
     (let s = snd (tms_retain_private ''m1'' 1 ''alice'' (sample_retain ''GREEN tea.'' ''r1'') None
                empty_memory_store);
          s = snd (tms_retain_private ''m2'' 2 ''bob'' (sample_retain ''green tea'' ''r1'') None s);
          s = snd (tms_publish_tenant_knowledge ''m3'' 3 ''k1'' ''Tea'' 1 ''alice'' s)
      in snd (tms_retain_private ''m4'' 4 ''alice'' (sample_retain ''green'' ''r2'') None s))"

definition sample_query :: recall_query where
  "sample_query = \<lparr>rq_query = ''Green tea?'', rq_limit = 2\<rparr>"

lemma used_memory_ids_code:
  "used_memory_ids s = set (map mi_id (ms_items s)) \<union> set (List.map_filter mi_supersedes_id (ms_items s))"
  by (force simp: used_memory_ids_def List.map_filter_def)

lemma sample_memory_reachable: "memory_reachable sample_memory"
proof -
  let ?s1 = "snd (tms_retain_private ''m1'' 1 ''alice'' (sample_retain ''GREEN tea.'' ''r1'') None
      empty_memory_store)"
  let ?s2 = "snd (tms_retain_private ''m2'' 2 ''bob'' (sample_retain ''green tea'' ''r1'') None ?s1)"
  let ?s3 = "snd (tms_publish_tenant_knowledge ''m3'' 3 ''k1'' ''Tea'' 1 ''alice'' ?s2)"
  have "memory_step empty_memory_store ?s1"
    by (rule memory_step.retain, unfold used_memory_ids_code) code_simp
  moreover have "memory_step ?s1 ?s2"
    by (rule memory_step.retain, unfold used_memory_ids_code) code_simp
  moreover have "memory_step ?s2 ?s3"
    by (rule memory_step.publish, unfold used_memory_ids_code) code_simp
  moreover have "memory_step ?s3 sample_memory"
    unfolding sample_memory_def Let_def
    by (rule memory_step.retain, unfold used_memory_ids_code) code_simp
  ultimately show ?thesis unfolding memory_reachable_def by (meson rtranclp.rtrancl_refl rtranclp.rtrancl_into_rtrancl)
qed

theorem recall_returns_best_matches_witness:
  "map mi_id (tms_recall [''alice''] sample_query sample_memory) = [''m1'', ''m3''] \<and>
   \<not> (\<exists>item \<in> set (tms_recall [''alice''] sample_query sample_memory). mi_owner_principal_id item = Some ''bob'')"
proof -
  have "map mi_id (tms_recall [''alice''] sample_query sample_memory) = [''m1'', ''m3'']"
    by code_simp
  moreover have "mi_owner_principal_id item \<noteq> Some ''bob''" if "recall_visible [''alice''] item"
    "item \<in> set (ms_items sample_memory)" for item
    using that memory_reachable_inv [OF sample_memory_reachable]
    by (auto simp: memory_inv_def scopes_ok_def recall_visible_def owned_by_def)
  ultimately show ?thesis
    using recall_returns_best_matches [of "[''alice'']" sample_query sample_memory] by blast
qed

theorem owners_are_isolated_witness:
  "tms_recall [''alice''] sample_query (snd (tms_erase_private ''bob'' ''m2'' sample_memory)) =
     tms_recall [''alice''] sample_query sample_memory \<and>
   fst (tms_erase_private ''bob'' ''m2'' sample_memory)"
proof -
  have "snd (tms_erase_private ''bob'' ''m2'' sample_memory) \<in>
      private_effects ''m5'' 5 ''bob'' None (sample_retain [] []) sample_correction ''m2'' undefined sample_memory"
    by (simp add: private_effects_def)
  moreover have "scopes_ok sample_memory"
    using memory_reachable_inv [OF sample_memory_reachable] by (simp add: memory_inv_def)
  ultimately have "tms_recall [''alice''] sample_query (snd (tms_erase_private ''bob'' ''m2'' sample_memory)) =
      tms_recall [''alice''] sample_query sample_memory"
    using owners_are_isolated [where owners = "[''alice'']" and other = "''alice''"] by simp
  moreover have "fst (tms_erase_private ''bob'' ''m2'' sample_memory)" by code_simp
  ultimately show ?thesis by blast
qed

theorem erased_item_returned_on_retry_witness:
  "\<exists>item s1 s2. tms_retain_private ''m1'' 1 ''alice'' (sample_retain ''secret'' ''r1'') None empty_memory_store = (item, s1) \<and>
     tms_erase_private ''alice'' ''m1'' s1 = (True, s2) \<and> ms_items s2 = [] \<and>
     mi_content (fst (tms_retain_private ''m9'' 9 ''alice'' (sample_retain ''secret'' ''r1'') None s2)) = ''secret''"
proof -
  let ?r = "tms_retain_private ''m1'' 1 ''alice'' (sample_retain ''secret'' ''r1'') None empty_memory_store"
  obtain item s1 where r: "?r = (item, s1)" by (rule prod.exhaust)
  obtain e s2 where e: "tms_erase_private ''alice'' (mi_id item) s1 = (e, s2)" by (rule prod.exhaust)
  have "mi_id (fst ?r) = ''m1''" "mi_content (fst ?r) = ''secret''"
    "fst (tms_erase_private ''alice'' ''m1'' (snd ?r))" "ms_items (snd (tms_erase_private ''alice'' ''m1'' (snd ?r))) = []"
    by code_simp+
  then show ?thesis using erased_item_returned_on_retry [OF r e] r e by auto
qed

end
