(* ===== verification/GovernanceProperties.thy ===== *)
theory GovernanceProperties
  imports Governance
begin

text \<open>
  The life of a Knowledge Candidate: the retry interface, the invariant of the store and its
  publication queue, and what never changes about a candidate.
\<close>

section \<open>Retries\<close>

lemma gov_propose_new:
  assumes "gov_propose uid now (t, p, c) s = (Inr r, s')"
    and "replay (gs_proposal_keys s) (gs_candidates s) (t, p, pk_idempotency_key c) s = None"
  shows "kc_id r = uid" "kc_tenant_id r = t" "kc_proposer_id r = p" "kc_status r = SUBMITTED"
    "kc_reviewed_by r = None" "kc_review_rationale r = None" "kc_claim r = pk_claim c"
    "s' = s\<lparr>gs_candidates := dict_set uid r (gs_candidates s),
      gs_proposal_keys := dict_set (t, p, pk_idempotency_key c) uid (gs_proposal_keys s)\<rparr>"
  using assms by (auto simp: gov_propose_def Let_def)

lemma gov_review_new:
  assumes "gov_review uid now (t, p, c) s = (Inr r, s')"
    and "replay (gs_review_keys s) (gs_candidates s) (t, p, rk_idempotency_key c) s = None"
  obtains old where "dict_get (gs_candidates s) (rk_candidate_id c) = Some old" and "kc_tenant_id old = t"
    and "kc_status old = SUBMITTED"
    and "r = old\<lparr>kc_status := (if rk_decision c = APPROVE then PUBLISHING else REJECTED_CANDIDATE),
      kc_reviewed_by := Some p, kc_review_rationale := Some (rk_rationale c)\<rparr>"
    and "s' = s\<lparr>gs_candidates := dict_set (kc_id old) r (gs_candidates s),
      gs_review_keys := dict_set (t, p, rk_idempotency_key c) (kc_id old) (gs_review_keys s),
      gs_outbox := (if rk_decision c = APPROVE then gs_outbox s @ [\<lparr>pe_id = uid, pe_tenant_id = t,
        pe_candidate_id = kc_id old, pe_created_at = now\<rparr>] else gs_outbox s)\<rparr>"
  using assms
  by (auto simp: gov_review_def gov_get_candidate_def Let_def split: option.splits if_split_asm)

definition proposal_key :: "string \<times> string \<times> propose_knowledge_command \<Rightarrow> string \<times> string \<times> string" where
  "proposal_key = (\<lambda>(t, p, c). (t, p, pk_idempotency_key c))"

definition review_key :: "string \<times> string \<times> review_knowledge_command \<Rightarrow> string \<times> string \<times> string" where
  "review_key = (\<lambda>(t, p, c). (t, p, rk_idempotency_key c))"

interpretation proposals: retryable "\<lambda>(uid, now, a). gov_propose uid now a" "\<lambda>(uid, now, a). proposal_key a"
  gs_proposal_keys gs_candidates kc_id
proof
  fix a :: "string \<times> datetime \<times> string \<times> string \<times> propose_knowledge_command" and outcome and s :: governance_store
  obtain uid now t p c where a: "a = (uid, now, t, p, c)" by (rule prod_cases5)
  assume "replay (gs_proposal_keys s) (gs_candidates s) (case a of (uid, now, a) \<Rightarrow> proposal_key a) s = Some outcome"
  then show "(case a of (uid, now, a) \<Rightarrow> gov_propose uid now a) s = outcome"
    by (simp add: a gov_propose_def proposal_key_def Let_def)
next
  fix a :: "string \<times> datetime \<times> string \<times> string \<times> propose_knowledge_command" and r and s s' :: governance_store
  obtain uid now t p c where a: "a = (uid, now, t, p, c)" by (rule prod_cases5)
  assume "(case a of (uid, now, a) \<Rightarrow> gov_propose uid now a) s = (Inr r, s')"
    and "replay (gs_proposal_keys s) (gs_candidates s) (case a of (uid, now, a) \<Rightarrow> proposal_key a) s = None"
  then show "dict_get (gs_proposal_keys s') (case a of (uid, now, a) \<Rightarrow> proposal_key a) = Some (kc_id r) \<and>
      dict_get (gs_candidates s') (kc_id r) = Some r"
    using gov_propose_new [of uid now t p c s r s'] by (simp add: a proposal_key_def)
qed

interpretation reviews: retryable "\<lambda>(uid, now, a). gov_review uid now a" "\<lambda>(uid, now, a). review_key a"
  gs_review_keys gs_candidates kc_id
proof
  fix a :: "string \<times> datetime \<times> string \<times> string \<times> review_knowledge_command" and outcome and s :: governance_store
  obtain uid now t p c where a: "a = (uid, now, t, p, c)" by (rule prod_cases5)
  assume "replay (gs_review_keys s) (gs_candidates s) (case a of (uid, now, a) \<Rightarrow> review_key a) s = Some outcome"
  then show "(case a of (uid, now, a) \<Rightarrow> gov_review uid now a) s = outcome"
    by (simp add: a gov_review_def review_key_def Let_def)
next
  fix a :: "string \<times> datetime \<times> string \<times> string \<times> review_knowledge_command" and r and s s' :: governance_store
  obtain uid now t p c where a: "a = (uid, now, t, p, c)" by (rule prod_cases5)
  assume "(case a of (uid, now, a) \<Rightarrow> gov_review uid now a) s = (Inr r, s')"
    and "replay (gs_review_keys s) (gs_candidates s) (case a of (uid, now, a) \<Rightarrow> review_key a) s = None"
  then show "dict_get (gs_review_keys s') (case a of (uid, now, a) \<Rightarrow> review_key a) = Some (kc_id r) \<and>
      dict_get (gs_candidates s') (kc_id r) = Some r"
    unfolding a review_key_def prod.case by (rule gov_review_new) simp
qed

section \<open>The invariant\<close>

definition candidate_ok :: "publication_event list \<Rightarrow> string \<Rightarrow> knowledge_candidate \<Rightarrow> bool" where
  "candidate_ok outbox k c \<longleftrightarrow> kc_id c = k \<and>
     kc_status c \<in> {SUBMITTED, REJECTED_CANDIDATE, PUBLISHING, PUBLISHED} \<and>
     (kc_reviewed_by c = None \<longleftrightarrow> kc_status c = SUBMITTED) \<and>
     (kc_review_rationale c = None \<longleftrightarrow> kc_status c = SUBMITTED) \<and>
     (kc_status c = PUBLISHING \<longleftrightarrow> k \<in> pe_candidate_id ` set outbox)"

definition event_ok :: "(string, knowledge_candidate) dict \<Rightarrow> publication_event \<Rightarrow> bool" where
  "event_ok candidates e \<longleftrightarrow> (\<exists>c. dict_get candidates (pe_candidate_id e) = Some c \<and>
     kc_tenant_id c = pe_tenant_id e)"

definition gov_inv :: "governance_store \<Rightarrow> bool" where
  "gov_inv s \<longleftrightarrow> (\<forall>k c. dict_get (gs_candidates s) k = Some c \<longrightarrow> candidate_ok (gs_outbox s) k c) \<and>
     (\<forall>e \<in> set (gs_outbox s). event_ok (gs_candidates s) e) \<and> distinct (map pe_candidate_id (gs_outbox s))"

text \<open>
  One call on the store. Publication marks the candidate of the event that
  \<^verbatim>\<open>next_publication\<close> returned, and an imported identifier is not that of another Tenant's
  candidate, which separate Tenant databases see to.
\<close>

inductive gov_step :: "governance_store \<Rightarrow> governance_store \<Rightarrow> bool" where
  propose: "dict_get (gs_candidates s) uid = None \<Longrightarrow> gov_step s (snd (gov_propose uid now a s))"
| review: "gov_step s (snd (gov_review uid now a s))"
| publish: "gov_next_publication t s = Some e \<Longrightarrow> gov_step s (snd (gov_mark_published t (pe_candidate_id e) s))"
| import_candidate: "dict_get (gs_candidates s) k = None \<or> gov_get_candidate t k s \<noteq> None \<Longrightarrow>
    gov_step s (snd (gov_import_candidate now t p k claim confidence s))"

definition gov_reachable :: "governance_store \<Rightarrow> bool" where
  "gov_reachable s \<longleftrightarrow> gov_step\<^sup>*\<^sup>* empty_governance_store s"

text \<open>What a step may do to a stored candidate.\<close>

definition candidate_text :: "knowledge_candidate \<Rightarrow>
  string \<times> string \<times> string \<times> rat \<times> string \<times> string list \<times> string list \<times> string list \<times> datetime" where
  "candidate_text c = (kc_id c, kc_tenant_id c, kc_claim c, kc_confidence c, kc_proposer_id c,
     kc_source_memory_ids c, kc_duplicate_memory_ids c, kc_conflicting_memory_ids c, kc_created_at c)"

inductive status_step :: "candidate_status \<Rightarrow> candidate_status \<Rightarrow> bool" where
  approve: "status_step SUBMITTED PUBLISHING"
| reject: "status_step SUBMITTED REJECTED_CANDIDATE"
| publish: "status_step PUBLISHING PUBLISHED"

inductive_simps status_step_simps: "status_step a b"

definition candidate_advances :: "knowledge_candidate \<Rightarrow> knowledge_candidate \<Rightarrow> bool" where
  "candidate_advances c c' \<longleftrightarrow> candidate_text c' = candidate_text c \<and>
     status_step\<^sup>*\<^sup>* (kc_status c) (kc_status c') \<and>
     (kc_status c \<noteq> SUBMITTED \<longrightarrow> kc_reviewed_by c' = kc_reviewed_by c \<and>
        kc_review_rationale c' = kc_review_rationale c)"

definition candidates_advance :: "governance_store \<Rightarrow> governance_store \<Rightarrow> bool" where
  "candidates_advance s s' \<longleftrightarrow> (\<forall>k c. dict_get (gs_candidates s) k = Some c \<longrightarrow>
     (\<exists>c'. dict_get (gs_candidates s') k = Some c' \<and> candidate_advances c c'))"

lemma candidate_advances_refl [simp]: "candidate_advances c c"
  by (simp add: candidate_advances_def)

lemma candidates_advance_refl [simp]: "candidates_advance s s"
  by (auto simp: candidates_advance_def)

lemma submitted_last: "status_step\<^sup>*\<^sup>* a b \<Longrightarrow> b = SUBMITTED \<Longrightarrow> a = SUBMITTED"
  by (induction rule: rtranclp_induct) (auto simp: status_step_simps)

lemma candidate_advances_trans:
  assumes "candidate_advances a b" and "candidate_advances b c"
  shows "candidate_advances a c"
proof -
  have "kc_status b \<noteq> SUBMITTED" if "kc_status a \<noteq> SUBMITTED"
    using assms(1) that submitted_last by (auto simp: candidate_advances_def)
  then show ?thesis using assms unfolding candidate_advances_def by (metis rtranclp_trans)
qed

lemma candidates_advance_trans:
  "candidates_advance a b \<Longrightarrow> candidates_advance b c \<Longrightarrow> candidates_advance a c"
  unfolding candidates_advance_def by (meson candidate_advances_trans)

section \<open>Every step keeps the invariant and only advances candidates\<close>

abbreviation candidate_at where "candidate_at s k \<equiv> dict_get (gs_candidates s) k"

lemma candidates_advance_update:
  assumes "\<And>c. candidate_at s k = Some c \<Longrightarrow> candidate_advances c c'"
    and "gs_candidates s' = dict_set k c' (gs_candidates s)"
  shows "candidates_advance s s'"
  using assms by (auto simp: candidates_advance_def update_conv')

lemma gov_add_step:
  assumes inv: "gov_inv s" and absent: "candidate_at s k = None"
    and c: "kc_id c = k" "kc_status c = SUBMITTED" "kc_reviewed_by c = None" "kc_review_rationale c = None"
    and s': "gs_candidates s' = dict_set k c (gs_candidates s)" "gs_outbox s' = gs_outbox s"
  shows "gov_inv s' \<and> candidates_advance s s'"
proof
  have "k \<notin> pe_candidate_id ` set (gs_outbox s)"
    using inv absent by (auto simp: gov_inv_def event_ok_def)
  then have "candidate_ok (gs_outbox s) k c" using c by (simp add: candidate_ok_def)
  moreover have "event_ok (dict_set k c (gs_candidates s)) e" if "e \<in> set (gs_outbox s)" for e
    using inv that absent by (auto simp: gov_inv_def event_ok_def update_conv')
  ultimately show "gov_inv s'" using inv by (auto simp: gov_inv_def s' update_conv')
  show "candidates_advance s s'" using absent s' by (intro candidates_advance_update) auto
qed

lemma gov_review_step:
  assumes "gov_inv s"
  shows "gov_inv (snd (gov_review uid now a s)) \<and> candidates_advance s (snd (gov_review uid now a s))"
proof -
  obtain t p c where a: "a = (t, p, c)" by (rule prod_cases3)
  obtain r s' where eq: "gov_review uid now (t, p, c) s = (r, s')" by (rule prod.exhaust)
  have "gov_inv s' \<and> candidates_advance s s'"
  proof (cases "replay (gs_review_keys s) (gs_candidates s) (t, p, rk_idempotency_key c) s")
    case (Some outcome)
    then have "s' = s"
      using eq by (cases outcome; cases "fst outcome") (auto simp: gov_review_def Let_def replay_simps)
    then show ?thesis using assms by simp
  next
    case None
    show ?thesis
    proof (cases r)
      case (Inl e)
      then have "s' = s"
        using eq None by (auto simp: gov_review_def Let_def split: option.splits if_split_asm)
      then show ?thesis using assms by simp
    next
      case (Inr new)
      from eq have "gov_review uid now (t, p, c) s = (Inr new, s')" by (simp add: Inr)
      from this None show ?thesis
      proof (rule gov_review_new)
        let ?k = "rk_candidate_id c"
        let ?e = "\<lparr>pe_id = uid, pe_tenant_id = t, pe_candidate_id = ?k, pe_created_at = now\<rparr>"
        let ?outbox = "if rk_decision c = APPROVE then gs_outbox s @ [?e] else gs_outbox s"
        fix old
        assume old: "candidate_at s ?k = Some old" "kc_tenant_id old = t" "kc_status old = SUBMITTED"
          and new: "new = old\<lparr>kc_status := (if rk_decision c = APPROVE then PUBLISHING else REJECTED_CANDIDATE),
            kc_reviewed_by := Some p, kc_review_rationale := Some (rk_rationale c)\<rparr>"
          and s': "s' = s\<lparr>gs_candidates := dict_set (kc_id old) new (gs_candidates s),
            gs_review_keys := dict_set (t, p, rk_idempotency_key c) (kc_id old) (gs_review_keys s),
            gs_outbox := (if rk_decision c = APPROVE then gs_outbox s @ [\<lparr>pe_id = uid, pe_tenant_id = t,
              pe_candidate_id = kc_id old, pe_created_at = now\<rparr>] else gs_outbox s)\<rparr>"
        have ok: "candidate_ok (gs_outbox s) ?k old" using assms old(1) by (simp add: gov_inv_def)
        then have k: "kc_id old = ?k" and fresh: "?k \<notin> pe_candidate_id ` set (gs_outbox s)"
          using old(3) by (auto simp: candidate_ok_def)
        have "candidate_ok ?outbox ?k new"
          using k fresh by (simp add: candidate_ok_def new)
        moreover have "candidate_ok ?outbox k' other" if "candidate_at s k' = Some other" "k' \<noteq> ?k" for k' other
          using assms that by (auto simp: gov_inv_def candidate_ok_def)
        moreover have "event_ok (dict_set ?k new (gs_candidates s)) e" if "e \<in> set ?outbox" for e
        proof (cases "e = ?e")
          case True
          then show ?thesis using old(2) by (simp add: event_ok_def new)
        next
          case False
          then have e: "e \<in> set (gs_outbox s)" using that by (simp split: if_split_asm)
          then have "pe_candidate_id e \<noteq> ?k" using fresh by (metis imageI)
          then show ?thesis using assms e by (auto simp: gov_inv_def event_ok_def update_conv')
        qed
        moreover have "distinct (map pe_candidate_id ?outbox)"
          using assms fresh by (simp add: gov_inv_def)
        ultimately have "gov_inv s'"
          unfolding gov_inv_def s'
          by (cases "rk_decision c = APPROVE") (simp_all add: k update_conv' del: map_append)
        moreover have "candidate_advances old new"
          using old(3) by (auto simp: candidate_advances_def candidate_text_def new
              intro: status_step.intros)
        then have "candidates_advance s s'"
          using old(1) k by (intro candidates_advance_update [of s ?k new]) (simp_all add: s')
        ultimately show ?thesis by blast
      qed
    qed
  qed
  then show ?thesis by (simp add: a eq)
qed

lemma gov_publish_step:
  assumes "gov_inv s" and "gov_next_publication t s = Some e"
  obtains c where "candidate_at s (pe_candidate_id e) = Some c" and "kc_status c = PUBLISHING"
    and "gov_mark_published t (pe_candidate_id e) s = (Inr (c\<lparr>kc_status := PUBLISHED\<rparr>),
      snd (gov_mark_published t (pe_candidate_id e) s))"
    and "gov_inv (snd (gov_mark_published t (pe_candidate_id e) s))"
    and "candidates_advance s (snd (gov_mark_published t (pe_candidate_id e) s))"
proof -
  let ?k = "pe_candidate_id e" and ?s' = "snd (gov_mark_published t (pe_candidate_id e) s)"
  have e: "e \<in> set (gs_outbox s)" "pe_tenant_id e = t"
    using assms(2) by (auto simp: gov_next_publication_def find_Some_iff)
  then obtain c where c: "candidate_at s ?k = Some c" "kc_tenant_id c = t"
    using assms(1) by (auto simp: gov_inv_def event_ok_def)
  let ?c = "c\<lparr>kc_status := PUBLISHED\<rparr>"
  let ?outbox = "filter (\<lambda>event. pe_candidate_id event \<noteq> ?k) (gs_outbox s)"
  have ok: "candidate_ok (gs_outbox s) ?k c" using assms(1) c(1) by (simp add: gov_inv_def)
  then have status: "kc_status c = PUBLISHING" using e(1) by (auto simp: candidate_ok_def)
  have s': "gov_mark_published t ?k s = (Inr ?c, ?s')"
    "?s' = s\<lparr>gs_candidates := dict_set ?k ?c (gs_candidates s), gs_outbox := ?outbox\<rparr>"
    using c by (simp_all add: gov_mark_published_def gov_get_candidate_def Let_def)
  have "candidate_ok ?outbox ?k ?c" using ok status by (auto simp: candidate_ok_def)
  moreover have "candidate_ok ?outbox k' other" if "candidate_at s k' = Some other" "k' \<noteq> ?k" for k' other
    using assms(1) that by (auto simp: gov_inv_def candidate_ok_def)
  moreover have "event_ok (dict_set ?k ?c (gs_candidates s)) e'" if "e' \<in> set ?outbox" for e'
    using assms(1) that by (auto simp: gov_inv_def event_ok_def update_conv')
  moreover have "distinct (map pe_candidate_id ?outbox)"
    using assms(1) by (intro distinct_map_filter) (simp add: gov_inv_def)
  ultimately have "gov_inv ?s'" unfolding gov_inv_def s'(2) by (simp add: update_conv')
  moreover have "candidate_advances c ?c"
    using status by (auto simp: candidate_advances_def candidate_text_def intro: status_step.intros)
  then have "candidates_advance s ?s'"
    using c(1) by (intro candidates_advance_update [of s ?k ?c]) (simp_all add: s'(2))
  ultimately show thesis using that c(1) status s'(1) by blast
qed

lemma gov_step_ok:
  assumes "gov_step s s'" and "gov_inv s"
  shows "gov_inv s' \<and> candidates_advance s s'"
  using assms(1)
proof cases
  case (propose uid now a)
  obtain t p c where a: "a = (t, p, c)" by (rule prod_cases3)
  obtain r where eq: "gov_propose uid now (t, p, c) s = (r, s')" using propose a by (metis prod.collapse)
  show ?thesis
  proof (cases "replay (gs_proposal_keys s) (gs_candidates s) (t, p, pk_idempotency_key c) s")
    case (Some outcome)
    then have "s' = s"
      using eq by (cases outcome; cases "fst outcome") (auto simp: gov_propose_def Let_def replay_simps)
    then show ?thesis using assms(2) by simp
  next
    case None
    then obtain new where r: "gov_propose uid now (t, p, c) s = (Inr new, s')"
      using eq by (auto simp: gov_propose_def Let_def)
    note facts = gov_propose_new [OF r None]
    show ?thesis
      by (rule gov_add_step [OF assms(2) propose(2) facts(1,4,5,6)]) (simp_all add: facts(8))
  qed
next
  case (review uid now a)
  then show ?thesis using gov_review_step [OF assms(2)] by simp
next
  case (publish t e)
  show ?thesis
    using gov_publish_step [OF assms(2) publish(2)] publish(1) by metis
next
  case (import_candidate k t now p claim confidence)
  show ?thesis
  proof (cases "gov_get_candidate t k s")
    case None
    then have absent: "candidate_at s k = None" using import_candidate(2) by auto
    show ?thesis
      by (rule gov_add_step [OF assms(2) absent])
        (simp_all add: import_candidate(1) gov_import_candidate_def None Let_def)
  next
    case (Some c)
    then show ?thesis using assms(2) import_candidate(1) by (simp add: gov_import_candidate_def)
  qed
qed

lemma gov_steps_ok:
  assumes "gov_step\<^sup>*\<^sup>* s s'" and "gov_inv s"
  shows "gov_inv s' \<and> candidates_advance s s'"
  using assms
proof (induction rule: rtranclp_induct)
  case (step t u)
  then show ?case using gov_step_ok [of t u] candidates_advance_trans by blast
qed simp

lemma gov_reachable_inv: "gov_reachable s \<Longrightarrow> gov_inv s"
  using gov_steps_ok [of empty_governance_store s]
  by (simp add: gov_reachable_def gov_inv_def empty_governance_store_def)

section \<open>Properties\<close>



text \<open>
  A review is final: whatever happens later, a candidate that was reviewed keeps its claim,
  sources, reviewer and rationale, a rejected one stays rejected, and an approved one can only
  become published.
\<close>

lemma review_is_final:
  assumes "gov_reachable s" and "gov_step\<^sup>*\<^sup>* s s'" and "candidate_at s k = Some c"
    and "kc_status c \<noteq> SUBMITTED"
  shows "\<exists>c'. candidate_at s' k = Some c' \<and> candidate_text c' = candidate_text c \<and>
    kc_reviewed_by c' = kc_reviewed_by c \<and> kc_review_rationale c' = kc_review_rationale c \<and>
    kc_status c' \<in> (if kc_status c = PUBLISHING then {PUBLISHING, PUBLISHED} else {kc_status c})"
proof -
  have "candidates_advance s s'" using gov_steps_ok [OF assms(2) gov_reachable_inv [OF assms(1)]] by blast
  then obtain c' where c': "candidate_at s' k = Some c'" "candidate_advances c c'"
    using assms(3) by (auto simp: candidates_advance_def)
  have "b \<in> (if a = PUBLISHING then {PUBLISHING, PUBLISHED} else {a})" if "status_step\<^sup>*\<^sup>* a b" "a \<noteq> SUBMITTED" for a b
    using that by (induction rule: rtranclp_induct) (auto simp: status_step_simps split: if_splits)
  then have "kc_status c' \<in> (if kc_status c = PUBLISHING then {PUBLISHING, PUBLISHED} else {kc_status c})"
    using c'(2) assms(4) by (simp add: candidate_advances_def)
  then show ?thesis using c' assms(4) by (auto simp: candidate_advances_def)
qed

text \<open>
  A review that is repeated under the same key by the same reviewer in the same Tenant
  returns the candidate as it is stored and changes nothing, whatever the repeated command
  says, and likewise a proposal.
\<close>

lemma governance_retries_change_nothing:
  assumes "kc_id r \<noteq> []" and "rk_idempotency_key c' = rk_idempotency_key c"
    and "pk_idempotency_key d' = pk_idempotency_key d"
  shows "(gov_review uid now (t, p, c) s = (Inr r, s') \<longrightarrow> gov_review uid' now' (t, p, c') s' = (Inr r, s')) \<and>
    (gov_propose uid now (t, p, d) s = (Inr r, s') \<longrightarrow> gov_propose uid' now' (t, p, d') s' = (Inr r, s'))"
  using reviews.immediate_retry [of "(uid, now, t, p, c)" s r s' "(uid', now', t, p, c')"]
    proposals.immediate_retry [of "(uid, now, t, p, d)" s r s' "(uid', now', t, p, d')"] assms
  by (simp add: review_key_def proposal_key_def)

text \<open>
  C40. \<^verbatim>\<open>import_candidate\<close> looks an identifier up in its own Tenant only but stores under the bare
  identifier, so importing the identifier of another Tenant's candidate replaces that
  candidate: the other Tenant can no longer find it, reviewed or not.
\<close>

theorem import_replaces_foreign_candidate:
  assumes "candidate_at s k = Some c" and "kc_tenant_id c \<noteq> t"
    and "gov_import_candidate now t p k claim confidence s = (r, s')"
  shows "gov_get_candidate (kc_tenant_id c) k s = Some c \<and> gov_get_candidate (kc_tenant_id c) k s' = None \<and>
    gov_get_candidate t k s' = Some r"
  using assms by (auto simp: gov_import_candidate_def gov_get_candidate_def Let_def)

section \<open>Instances\<close>

definition sample_proposal :: propose_knowledge_command where
  "sample_proposal = \<lparr>pk_claim = ''Tea is at four'', pk_source_memory_ids = [''m1''], pk_duplicate_memory_ids = [],
     pk_conflicting_memory_ids = [], pk_confidence = 1, pk_idempotency_key = ''p1''\<rparr>"

definition sample_review :: review_knowledge_command where
  "sample_review = \<lparr>rk_candidate_id = ''k1'', rk_decision = APPROVE, rk_rationale = ''ok'',
     rk_idempotency_key = ''v1''\<rparr>"

definition sample_submitted :: governance_store where
  "sample_submitted = snd (gov_propose ''k1'' 1 (''acme'', ''bob'', sample_proposal) empty_governance_store)"

definition sample_approved :: governance_store where
  "sample_approved = snd (gov_review ''e1'' 2 (''acme'', ''alice'', sample_review) sample_submitted)"

definition sample_candidate :: knowledge_candidate where
  "sample_candidate = \<lparr>kc_id = ''k1'', kc_tenant_id = ''acme'', kc_claim = ''Tea is at four'', kc_confidence = 1,
     kc_proposer_id = ''bob'', kc_source_memory_ids = [''m1''], kc_duplicate_memory_ids = [],
     kc_conflicting_memory_ids = [], kc_status = PUBLISHING, kc_created_at = 1, kc_reviewed_by = Some ''alice'',
     kc_review_rationale = Some ''ok''\<rparr>"

lemma sample_approved_candidate: "candidate_at sample_approved ''k1'' = Some sample_candidate"
  by code_simp



theorem import_replaces_foreign_candidate_witness:
  "\<exists>r s'. gov_import_candidate 5 ''globex'' ''eve'' ''k1'' ''Tea is at six'' 1 sample_approved = (r, s') \<and>
     gov_get_candidate ''acme'' ''k1'' sample_approved = Some sample_candidate \<and>
     gov_get_candidate ''acme'' ''k1'' s' = None"
proof -
  obtain r s' where i: "gov_import_candidate 5 ''globex'' ''eve'' ''k1'' ''Tea is at six'' 1 sample_approved = (r, s')"
    by (rule prod.exhaust)
  show ?thesis
    using import_replaces_foreign_candidate [OF sample_approved_candidate _ i] i
    by (simp add: sample_candidate_def)
qed

end
