(* ===== verification/RevocationProperties.thy ===== *)
theory RevocationProperties
  imports ControlProperties
begin

text \<open>
  Properties of authentication, revocation and rotation over the reachable states: what a
  successful authentication means, that delayed work is reauthorized, that revocation is
  final, what disabling a Principal or revoking a Delegation takes away, and the bounds of
  rotation.
\<close>

section \<open>Authentication and delayed work\<close>

lemma reauthorize_used [simp]: "reauthorize_session ses (mem_mark_used k now s) = reauthorize_session ses s"
  by (simp add: reauthorize_session_def reauthorize_delegation_def control_inv_lookups mem_mark_used_def
      Let_def cong: option.case_cong split: option.splits)

lemma mem_mark_used_memberships [simp]: "cs_memberships (mem_mark_used k now s) = cs_memberships s"
  by (simp add: mem_mark_used_def split: option.splits)

lemma authenticate_Inr:
  "authenticate H tok now s = (Inr ses, s') \<longleftrightarrow>
   (\<exists>k secret r. token_parts ''mem1'' tok = Some (k, secret) \<and> token_at k s = Some r \<and>
      session_admitted s ses \<and> tk_session r = ses \<and> tk_verifier r = H secret \<and> token_live now r \<and>
      s' = mem_mark_used (tk_token_id r) now s)"
  unfolding authenticate_def TokenService_authenticate_def access_tokens.authenticate_iff
  by (simp add: access_token_ops_def)

lemma backed_reauthorizes:
  assumes inv: "control_inv s" and "session_wf ses" and "session_backed s ses" and "session_admitted s ses"
  obtains m where "membership_of s (ts_tenant_id ses) (ts_actor_id ses) = Some m" and "ts_roles ses \<subseteq> mb_roles m"
    and "reauthorize_session ses s = Inr (ses\<lparr>ts_roles := mb_roles m\<rparr>)"
proof -
  obtain pr m where pr: "principal_of s (ts_actor_id ses) = Some pr" "pr_active pr" "pr_kind pr = ts_actor_kind ses"
    and m: "membership_of s (ts_tenant_id ses) (ts_actor_id ses) = Some m" "mb_active m" "ts_roles ses \<subseteq> mb_roles m"
    using assms(3) by (auto simp: session_backed_def active_principal_def active_member_def)
  have delegated: "reauthorize_delegation ses k s = Inr ()" if k: "ts_delegation_id ses = Some k" for k
  proof -
    obtain u d where u: "ts_subject_user_id ses = Some u" and d: "delegation_of s k = Some d" "dg_active d"
      and ids: "dg_tenant_id d = ts_tenant_id ses" "dg_agent_id d = ts_actor_id ses" "dg_subject_user_id d = u"
      using assms(3) k by (auto simp: session_backed_def active_delegation_def)
    from stored_delegation(3,5) [OF inv d] ids
    have "active_principal s u USER" "active_member s (ts_tenant_id ses) u {}" by simp_all
    then show ?thesis
      using u d ids
      by (auto simp: reauthorize_delegation_def control_inv_lookups active_principal_def active_member_def
          present_and_iff Let_def)
  qed
  have tenant: "present_and tr_active (tenant_of s (ts_tenant_id ses))"
    using assms(4) by (auto simp: session_admitted_def present_and_def split: option.splits)
  have same: "\<lparr>ts_tenant_id = ts_tenant_id ses, ts_actor_id = ts_actor_id ses,
      ts_actor_kind = ts_actor_kind ses, ts_roles = mb_roles m, ts_subject_user_id = ts_subject_user_id ses,
      ts_delegation_id = ts_delegation_id ses, ts_token_id = ts_token_id ses\<rparr> = ses\<lparr>ts_roles := mb_roles m\<rparr>"
    by simp
  have "session_wf (ses\<lparr>ts_roles := mb_roles m\<rparr>)" using assms(2) by (auto simp: session_wf_def)
  moreover have "reauthorize_session ses s = TenantSession \<lparr>ts_tenant_id = ts_tenant_id ses,
      ts_actor_id = ts_actor_id ses, ts_actor_kind = ts_actor_kind ses, ts_roles = mb_roles m,
      ts_subject_user_id = ts_subject_user_id ses, ts_delegation_id = ts_delegation_id ses,
      ts_token_id = ts_token_id ses\<rparr>"
    using pr m tenant delegated
    by (cases "ts_delegation_id ses") (simp_all add: reauthorize_session_def control_inv_lookups
        del: TenantSession_Inr)
  ultimately have "reauthorize_session ses s = Inr (ses\<lparr>ts_roles := mb_roles m\<rparr>)"
    unfolding same by (simp add: TenantSession_ok)
  then show thesis using that m by blast
qed

text \<open>
  Whoever authenticates is also let through by \<^verbatim>\<open>reauthorize_session\<close>, the check that
  delayed work repeats: in a reachable state it returns the session just authenticated, with
  the current roles of the Membership, which include every role the token carries.
\<close>

lemma authenticated_session_reauthorizes:
  assumes "control_reachable H s" and "authenticate H tok now s = (Inr ses, s')"
  shows "\<exists>m. membership_of s' (ts_tenant_id ses) (ts_actor_id ses) = Some m \<and>
    ts_roles ses \<subseteq> mb_roles m \<and> reauthorize_session ses s' = Inr (ses\<lparr>ts_roles := mb_roles m\<rparr>)"
proof -
  have inv: "control_inv s" using assms(1) by (rule reachable_inv)
  from assms(2) obtain k r where r: "token_at k s = Some r" "tk_revoked_at r = None"
    and adm: "session_admitted s ses" and ses: "tk_session r = ses"
    and s': "s' = mem_mark_used (tk_token_id r) now s"
    unfolding authenticate_Inr by (auto simp: token_live_def)
  have "session_wf ses" "session_backed s ses"
    using stored_token [OF inv r(1)] r(2) ses by auto
  from backed_reauthorizes [OF inv this adm] show ?thesis
    unfolding s' by (metis mem_mark_used_memberships reauthorize_used)
qed

section \<open>Revocation is final\<close>

text \<open>
  C10. A token that is revoked, or past its expiry, never authenticates again, whatever methods
  are called in between: nothing brings it back.
\<close>

theorem dead_token_stays_dead:
  assumes "(control_step H)\<^sup>*\<^sup>* s s'" and "token_at k s = Some r"
    and "tk_revoked_at r \<noteq> None \<or> tk_expires_at r \<le> now"
    and "token_parts ''mem1'' tok = Some (k, secret)"
  shows "\<exists>m. authenticate H tok now s' = (Inl (AuthenticationError m), s')"
proof -
  obtain r' where r': "token_at k s' = Some r'" and "token_weaker r r'"
    using control_steps_weaker [OF assms(1)] assms(2) by (auto simp: tokens_weaker_def)
  then have "\<not> token_live now r'"
    using assms(3) by (auto simp: token_weaker_def token_live_def)
  then show ?thesis
    using assms(4) r'
    by (auto simp: authenticate_def TokenService_authenticate_def authenticate_with_alt
        access_token_ops_def mem_get_Some split: option.splits)
qed

lemma sample_revoke: "fst (revoke_access_token ''k1'' 3 sample_store) = True"
  by code_simp

lemma sample_revoked:
  "\<exists>t. token_at ''k1'' (snd (revoke_access_token ''k1'' 3 sample_store)) = Some t \<and> tk_revoked_at t \<noteq> None"
proof -
  have "map_option tk_revoked_at (token_at ''k1'' (snd (revoke_access_token ''k1'' 3 sample_store))) = Some (Some 3)"
    by code_simp
  then show ?thesis by auto
qed

theorem dead_token_stays_dead_witness:
  "\<exists>s1 s2. revoke_access_token ''k1'' 3 sample_store = (True, s1) \<and>
     (\<exists>r. update_principal ''alice'' None (Some True) 4 s1 = (r, s2)) \<and>
     (\<exists>m. authenticate sample_digest ''mem1.k1.sec'' 5 s2 = (Inl (AuthenticationError m), s2))"
proof -
  obtain s1 where s1: "revoke_access_token ''k1'' 3 sample_store = (True, s1)"
    using prod.collapse [of "revoke_access_token ''k1'' 3 sample_store"]
    by (metis (full_types) sample_revoke)
  obtain r s2 where s2: "update_principal ''alice'' None (Some True) 4 s1 = (r, s2)" by fastforce
  have "(control_step sample_digest)\<^sup>*\<^sup>* s1 s2"
    using control_step.update_principal [OF s2] by auto
  moreover obtain t where "token_at ''k1'' s1 = Some t" "tk_revoked_at t \<noteq> None"
    using s1 sample_revoked by auto
  moreover have "token_parts ''mem1'' ''mem1.k1.sec'' = Some (''k1'', ''sec'')" by code_simp
  ultimately have "\<exists>m. authenticate sample_digest ''mem1.k1.sec'' 5 s2 = (Inl (AuthenticationError m), s2)"
    by (intro dead_token_stays_dead) auto
  with s1 s2 show ?thesis by blast
qed

section \<open>Disabling a Principal\<close>

lemma inactive_has_no_authority:
  assumes inv: "control_inv s" and "principal_of s p = Some pr" and "\<not> pr_active pr"
  shows "membership_of s t p = Some m \<Longrightarrow> \<not> mb_active m"
    and "delegation_of s k = Some d \<Longrightarrow> dg_active d \<Longrightarrow> dg_agent_id d \<noteq> p \<and> dg_subject_user_id d \<noteq> p"
    and "token_at k s = Some r \<Longrightarrow> tk_revoked_at r = None \<Longrightarrow>
      ts_actor_id (tk_session r) \<noteq> p \<and> ts_subject_user_id (tk_session r) \<noteq> Some p"
proof -
  have no: "\<not> active_principal s p kind" for kind using assms(2,3) by (auto simp: active_principal_def)
  show "membership_of s t p = Some m \<Longrightarrow> \<not> mb_active m"
    using assms(2,3) by (auto simp: membership_ok_def dest: stored_membership [OF inv])
  show del: "dg_agent_id d \<noteq> p \<and> dg_subject_user_id d \<noteq> p"
    if "delegation_of s k = Some d" "dg_active d" for k d
    using stored_delegation(2,3) [OF inv that] no by auto
  show "ts_actor_id (tk_session r) \<noteq> p \<and> ts_subject_user_id (tk_session r) \<noteq> Some p"
    if r: "token_at k s = Some r" "tk_revoked_at r = None"
  proof
    have backed: "session_backed s (tk_session r)" and wf: "session_wf (tk_session r)"
      using live_backed(1) [OF inv r] stored_token [OF inv r(1)] by auto
    show "ts_actor_id (tk_session r) \<noteq> p" using backed no by (auto simp: session_backed_def)
    show "ts_subject_user_id (tk_session r) \<noteq> Some p"
    proof
      assume sub: "ts_subject_user_id (tk_session r) = Some p"
      then obtain j where "ts_delegation_id (tk_session r) = Some j"
        using wf by (auto simp: session_wf_def)
      then show False using backed sub del by (auto simp: session_backed_def active_delegation_def)
    qed
  qed
qed

text \<open>
  C13. Disabling a Principal takes away everything it could act with, in every Tenant: no
  Membership of it and no Delegation it takes part in stays active, no token authenticates as
  it or on its behalf, and no Channel Binding resolves to it or for it. The tokens of other
  Principals are left alone.
\<close>

theorem disable_principal_takes_all_authority:
  assumes "control_reachable H s" and "disable_principal p now s = (Inr pr, s')"
  shows "\<not> pr_active pr \<and>
    (\<forall>t m. membership_of s' t p = Some m \<longrightarrow> \<not> mb_active m) \<and>
    (\<forall>k d. delegation_of s' k = Some d \<longrightarrow> dg_active d \<longrightarrow> dg_agent_id d \<noteq> p \<and> dg_subject_user_id d \<noteq> p) \<and>
    (\<forall>tok t ses s''. authenticate H tok t s' = (Inr ses, s'') \<longrightarrow>
       ts_actor_id ses \<noteq> p \<and> ts_subject_user_id ses \<noteq> Some p) \<and>
    (\<forall>c e ses. resolve_channel_session c e s' = Inr ses \<longrightarrow>
       ts_actor_id ses \<noteq> p \<and> ts_subject_user_id ses \<noteq> Some p) \<and>
    (\<forall>k r. token_at k s = Some r \<longrightarrow> ts_actor_id (tk_session r) \<noteq> p \<longrightarrow>
       ts_subject_user_id (tk_session r) \<noteq> Some p \<longrightarrow> token_at k s' = Some r)"
proof -
  have inv: "control_inv s'"
    using reachable_inv [OF reachable_step [OF assms(1) control_step.disable_principal [OF assms(2)]]] .
  have off: "principal_of s' p = Some pr" "\<not> pr_active pr"
    and kept: "\<forall>k r. token_at k s = Some r \<longrightarrow> ts_actor_id (tk_session r) \<noteq> p \<longrightarrow>
       ts_subject_user_id (tk_session r) \<noteq> Some p \<longrightarrow> token_at k s' = Some r"
    using assms(2)
    by (auto simp: disable_principal_def mem_disable_principal_def revoke_matching_tokens_lookup Let_def
        split: option.splits)
  note none = inactive_has_no_authority [OF inv off]
  have "ts_actor_id ses \<noteq> p \<and> ts_subject_user_id ses \<noteq> Some p"
    if "authenticate H tok t s' = (Inr ses, s'')" for tok t ses s''
    using that none(3) unfolding authenticate_Inr by (auto simp: token_live_def)
  moreover have "ts_actor_id ses \<noteq> p \<and> ts_subject_user_id ses \<noteq> Some p"
    if "resolve_channel_session c e s' = Inr ses" for c e ses
    using that none(2) unfolding resolve_channel_session_Inr by fastforce
  ultimately show ?thesis using none(1,2) off(2) kept by blast
qed

theorem disable_principal_takes_all_authority_witness:
  "\<exists>pr s'. disable_principal ''alice'' 7 sample_store = (Inr pr, s') \<and>
     \<not> (\<exists>ses s''. authenticate sample_digest ''mem1.k2.sec'' 8 s' = (Inr ses, s'') \<and>
          ts_subject_user_id ses = Some ''alice'')"
proof -
  have "is_ok (fst (disable_principal ''alice'' 7 sample_store))" by code_simp
  then obtain pr s' where d: "disable_principal ''alice'' 7 sample_store = (Inr pr, s')"
    by (rule is_ok_fst_E)
  have "\<forall>tok t ses s''. authenticate sample_digest tok t s' = (Inr ses, s'') \<longrightarrow>
      ts_subject_user_id ses \<noteq> Some ''alice''"
    using disable_principal_takes_all_authority [OF sample_reachable(2) d] by simp
  then show ?thesis using d by auto
qed

section \<open>Revoking a Delegation\<close>

text \<open>
  Revoking a Delegation stops the Agent at once: no token bound to it authenticates, no
  session bound to it is reauthorized and no Channel Binding resolves through it, and the
  tokens that are not bound to it are left alone.
\<close>

lemma revoke_delegation_stops_the_agent:
  assumes "revoke_delegation k now s = (Inr d, s')"
  shows "\<not> dg_active d \<and> delegation_of s' k = Some d \<and>
    (\<forall>tok t. case authenticate H tok t s' of
       (Inr ses, s'') \<Rightarrow> ts_delegation_id ses \<noteq> Some k | (Inl e, s'') \<Rightarrow> s'' = s') \<and>
    (\<forall>ses. ts_delegation_id ses = Some k \<longrightarrow> \<not> is_ok (reauthorize_session ses s')) \<and>
    (\<forall>c e ses. resolve_channel_session c e s' = Inr ses \<longrightarrow> ts_delegation_id ses \<noteq> Some k) \<and>
    (\<forall>i r. token_at i s = Some r \<longrightarrow> ts_delegation_id (tk_session r) \<noteq> Some k \<longrightarrow> token_at i s' = Some r)"
proof -
  have d: "\<not> dg_active d" "delegation_of s' k = Some d"
    and kept: "\<forall>i r. token_at i s = Some r \<longrightarrow> ts_delegation_id (tk_session r) \<noteq> Some k \<longrightarrow> token_at i s' = Some r"
    using assms
    by (auto simp: revoke_delegation_def mem_revoke_delegation_def revoke_matching_tokens_lookup Let_def
        split: option.splits)
  have "ts_delegation_id ses \<noteq> Some k" if "authenticate H tok t s' = (Inr ses, s'')" for tok t ses s''
    using that d unfolding authenticate_Inr by (auto simp: session_admitted_def)
  moreover have "s'' = s'" if "authenticate H tok t s' = (Inl e, s'')" for tok t e s''
    using that by (auto simp: authenticate_def TokenService_authenticate_def dest: authenticate_with_Inl)
  moreover have "\<not> is_ok (reauthorize_session ses s')" if "ts_delegation_id ses = Some k" for ses
    using that d
    by (auto simp: reauthorize_session_def reauthorize_delegation_def control_inv_lookups Let_def
        split: option.splits)
  moreover have "ts_delegation_id ses \<noteq> Some k" if "resolve_channel_session c e s' = Inr ses" for c e ses
    using that d unfolding resolve_channel_session_Inr by auto
  ultimately show ?thesis
    using d kept by (intro conjI) (auto split: prod.split sum.split)
qed

section \<open>Rotation\<close>

text \<open>
  Rotating a token replaces it in place: the new token acts for the same Principal in the
  same Tenant under the same Delegation, with the current roles of the Membership and a
  lifetime within the policy, and the old token lives on for at most the requested overlap,
  never more than 24 hours and never longer than before.
\<close>

lemma rotation_is_bounded:
  assumes "rotate_access_token H uid secret k overlap lifetime now s = (Inr rc, s')"
  shows "\<exists>old pr m new. token_at k s = Some old \<and> token_live now old \<and>
    principal_of s (ts_actor_id (tk_session old)) = Some pr \<and>
    membership_of s (ts_tenant_id (tk_session old)) (ts_actor_id (tk_session old)) = Some m \<and> mb_active m \<and>
    token_at uid s' = Some new \<and> tk_verifier new = H secret \<and>
    tk_session new = (tk_session old)\<lparr>ts_actor_kind := pr_kind pr, ts_roles := mb_roles m,
      ts_token_id := Some uid\<rparr> \<and>
    now < tk_expires_at new \<and> tk_expires_at new \<le> now + rotation_maximum s (tk_session old) pr \<and>
    token_at k s' = Some (old\<lparr>tk_expires_at := min (tk_expires_at old) (now + overlap)\<rparr>) \<and>
    rc_previous_valid_until rc = min (tk_expires_at old) (now + overlap) \<and>
    rc_previous_valid_until rc \<le> now + hours 24"
  using assms
proof (cases rule: rotate_access_token_cases)
  case (rotated old pr m L)
  have old: "token_at k s = Some old" using rotated(3) by (simp add: mem_get_Some)
  have min: "min (tk_expires_at old) (now + min overlap (tk_expires_at old - now)) =
      min (tk_expires_at old) (now + overlap)" "now + min overlap (tk_expires_at old - now) =
      min (tk_expires_at old) (now + overlap)" by (simp_all add: min_def)
  have "rotate_with ''Token rotation overlap must be positive'' ''Active Access Token not found for rotation''
      ''mem1'' stamp_tenant H access_token_ops uid secret k (rotated_session (tk_session old) pr m) L
      (min overlap (tk_expires_at old - now)) now s = (Inr rc, s')"
    using rotated(13) by (simp add: TokenService_rotate_def)
  then show ?thesis
  proof (rule access_tokens.rotate_ok_lookup)
    fix p
    assume got: "store_get access_token_ops k s = Some p" and fresh: "token_at uid s = None"
      and valid: "rc_previous_valid_until rc = now + min overlap (tk_expires_at old - now)"
      and new: "token_at uid s' = Some (snd (build_record ''mem1'' stamp_tenant H uid secret
        (rotated_session (tk_session old) pr m) L now))"
      and prev: "uid \<noteq> k \<Longrightarrow> token_at k s' =
        Some (p\<lparr>tk_expires_at := min (tk_expires_at p) (now + min overlap (tk_expires_at old - now))\<rparr>)"
    have "p = old" using got rotated(3) by (simp add: access_token_ops_def)
    moreover have "uid \<noteq> k" using old fresh by auto
    ultimately show ?thesis
      using old rotated(1,2,4-8,10,11) new prev valid
      by (auto simp: min build_record_simps stamp_tenant_def rotated_session_def min_le_iff_disj)
  qed
qed simp

end
