(* ===== verification/MembershipProperties.thy ===== *)
theory MembershipProperties
  imports RevocationProperties
begin

text \<open>
  Properties of Memberships, self-approval and Channel Bindings.
\<close>

section \<open>Roles of a Membership\<close>

lemma grant_membership_Inr:
  assumes "grant_membership t p role s = (Inr m, s')"
  shows "m = \<lparr>mb_tenant_id = t, mb_principal_id = p,
      mb_roles = (case mem_get_membership t p s of None \<Rightarrow> {role} | Some e \<Rightarrow> insert role (mb_roles e)),
      mb_active = True\<rparr>" and "s' = mem_save_membership m s"
  using assms by (auto simp: grant_membership_def Let_def split: if_split_asm)

lemma revoke_membership_role_Inr:
  assumes "revoke_membership_role t p role now s = (Inr m', s')" and "membership_of s t p = Some m"
    and "mb_roles m \<noteq> {role}"
  shows "m' = m\<lparr>mb_roles := mb_roles m - {role}\<rparr>"
    and "s' = revoke_matching_tokens (\<lambda>record. ts_tenant_id (tk_session record) = t \<and>
      ts_actor_id (tk_session record) = p) now
      (s\<lparr>cs_memberships := dict_set (t, p) m' (cs_memberships s)\<rparr>)"
proof -
  have "role \<in> mb_roles m"
    using assms(1) unfolding revoke_membership_role_def mem_revoke_membership_role_def
    by (auto simp: assms(2) split: if_split_asm)
  moreover have "mb_roles m - {role} \<noteq> {}" using calculation assms(3) by auto
  moreover have "role \<in> VALID_ROLES"
    using assms(1) by (auto simp: revoke_membership_role_def split: if_split_asm)
  ultimately show "m' = m\<lparr>mb_roles := mb_roles m - {role}\<rparr>"
    and "s' = revoke_matching_tokens (\<lambda>record. ts_tenant_id (tk_session record) = t \<and>
      ts_actor_id (tk_session record) = p) now
      (s\<lparr>cs_memberships := dict_set (t, p) m' (cs_memberships s)\<rparr>)"
    using assms(1) unfolding revoke_membership_role_def mem_revoke_membership_role_def
    by (auto simp: assms(2) Let_def)
qed

text \<open>
  C36. Revoking the last role of a Membership does not take the role out of the record: it only
  disables the Membership. A later grant of any other role therefore brings the revoked role
  back.
\<close>

theorem revoked_last_role_returns:
  assumes "membership_of s t p = Some m" and "mb_roles m = {role}" and "mb_tenant_id m = t"
    and "mb_principal_id m = p"
    and "revoke_membership_role t p role now s = (Inr m1, s1)"
    and "grant_membership t p other s1 = (Inr m2, s2)"
  shows "\<not> mb_active m1 \<and> membership_of s2 t p = Some m2 \<and> mb_active m2 \<and> role \<in> mb_roles m2"
proof -
  have "role \<in> VALID_ROLES"
    using assms(5) by (auto simp: revoke_membership_role_def split: if_split_asm)
  then have dis: "mem_disable_membership t p now s = (Inr m1, s1)"
    using assms(5) unfolding revoke_membership_role_def mem_revoke_membership_role_def
    by (simp add: assms(1,2))
  note after = mem_disable_membership_after [OF dis assms(1)]
  show ?thesis
    using grant_membership_Inr [OF assms(6)] after(1,2) assms(2)
    by (simp add: mem_get_membership_def mem_save_membership_def)
qed

theorem revoked_last_role_returns_witness:
  "\<exists>m1 s1 m2 s2. revoke_membership_role ''acme'' ''alice'' ''tenant_administrator'' 7 sample_members = (Inr m1, s1) \<and>
     grant_membership ''acme'' ''alice'' ''tenant_member'' s1 = (Inr m2, s2) \<and>
     ''tenant_administrator'' \<in> mb_roles m2"
proof -
  let ?r = "revoke_membership_role ''acme'' ''alice'' ''tenant_administrator'' 7 sample_members"
  have "is_ok (fst ?r)" by code_simp
  then obtain m1 s1 where r: "?r = (Inr m1, s1)" by (rule is_ok_fst_E)
  have "is_ok (fst (grant_membership ''acme'' ''alice'' ''tenant_member'' (snd ?r)))" by code_simp
  then obtain m2 s2 where g: "grant_membership ''acme'' ''alice'' ''tenant_member'' s1 = (Inr m2, s2)"
    unfolding r snd_conv by (rule is_ok_fst_E)
  have "membership_of sample_members ''acme'' ''alice'' = Some \<lparr>mb_tenant_id = ''acme'',
      mb_principal_id = ''alice'', mb_roles = {''tenant_administrator''}, mb_active = True\<rparr>"
    by (simp add: sample_members_eq)
  from revoked_last_role_returns [OF this _ _ _ r g] show ?thesis using r g by simp
qed

text \<open>
  Any other change of roles takes effect at once: when a role is revoked and others remain,
  or the roles are replaced, the Membership has exactly the roles asked for and no token of
  the Principal in the Tenant is left that was issued under the old roles.
\<close>

lemma role_change_revokes_tokens:
  assumes "control_reachable H s" and "membership_of s t p = Some m" and "mb_roles m \<noteq> {role}"
    and "revoke_membership_role t p role now s = (Inr m', s')"
  shows "membership_of s' t p = Some m' \<and> mb_roles m' = mb_roles m - {role} \<and> mb_active m' = mb_active m \<and>
    (\<forall>tok u ses s''. authenticate H tok u s' = (Inr ses, s'') \<longrightarrow>
       \<not> (ts_tenant_id ses = t \<and> ts_actor_id ses = p)) \<and>
    (\<forall>k r. token_at k s = Some r \<longrightarrow> (ts_tenant_id (tk_session r), ts_actor_id (tk_session r)) \<noteq> (t, p) \<longrightarrow>
       token_at k s' = Some r)"
proof -
  let ?hit = "\<lambda>record. ts_tenant_id (tk_session record) = t \<and> ts_actor_id (tk_session record) = p"
  note m' = revoke_membership_role_Inr [OF assms(4,2,3)]
  have dead: "\<not> ?hit r" if "token_at k s' = Some r" "tk_revoked_at r = None" for k r
    using that revoke_matching_tokens_hit [where p = ?hit and t = now and r' = r and k = k]
    unfolding m'(2) by auto
  have "\<not> (ts_tenant_id ses = t \<and> ts_actor_id ses = p)" if auth: "authenticate H tok u s' = (Inr ses, s'')"
    for tok u ses s''
  proof -
    obtain k r where "token_at k s' = Some r" "tk_revoked_at r = None" "tk_session r = ses"
      using auth unfolding authenticate_Inr token_live_def by blast
    with dead show ?thesis by blast
  qed
  moreover have "token_at k s' = Some r"
    if "token_at k s = Some r" "(ts_tenant_id (tk_session r), ts_actor_id (tk_session r)) \<noteq> (t, p)" for k r
    using that by (auto simp: m'(2) revoke_matching_tokens_lookup)
  moreover have "membership_of s' t p = Some m'"
    by (simp add: m'(2) revoke_matching_tokens_def)
  ultimately show ?thesis by (simp add: m'(1))
qed

definition sample_two_roles :: "nat control_store" where
  "sample_two_roles =
     snd (issue_access_token sample_digest ''k1'' ''sec'' ''acme'' ''alice'' None 0
       (snd (grant_membership ''acme'' ''alice'' ''knowledge_curator'' sample_members)))"

section \<open>Self-approval\<close>

lemma sort_singleton_iff:
  fixes p :: "'a :: linorder"
  assumes "distinct xs"
  shows "sort xs = [p] \<longleftrightarrow> set xs = {p}"
proof
  assume "sort xs = [p]"
  then have "set (sort xs) = {p}" by simp
  then show "set xs = {p}" by simp
next
  assume "set xs = {p}"
  moreover then have "length xs = 1" using assms distinct_card [of xs] by simp
  then obtain x where "xs = [x]" by (auto simp: length_Suc_conv)
  ultimately show "sort xs = [p]" by simp
qed

text \<open>Values that share the first part of their key are told apart by the second.\<close>

lemma distinct_second_key:
  assumes "dict_ok d" and "\<And>k m. dict_get d k = Some m \<Longrightarrow> k = (f m, g m)" and "\<And>m. P m \<Longrightarrow> f m = t"
  shows "distinct (map g (filter P (dict_values d)))"
proof -
  have "map fst d = map (\<lambda>m. (f m, g m)) (dict_values d)"
    using assms(1,2) by (auto simp: dict_values_def dict_ok_def)
  with assms(1) have "distinct (map (\<lambda>m. (f m, g m)) (dict_values d))" by (simp add: dict_ok_def)
  then have "distinct (map (\<lambda>m. (f m, g m)) (filter P (dict_values d)))" by (rule distinct_map_filter)
  then show ?thesis using assms(3) by (auto simp: distinct_map inj_on_def)
qed

definition human_member :: "'v control_store \<Rightarrow> string \<Rightarrow> membership_record \<Rightarrow> bool" where
  "human_member s t m \<longleftrightarrow> mb_tenant_id m = t \<and> mb_active m \<and>
     (case principal_of s (mb_principal_id m) of
        None \<Rightarrow> False | Some found \<Rightarrow> pr_active found \<and> pr_kind found = USER)"

lemma human_member_tenant: "human_member s t m \<Longrightarrow> mb_tenant_id m = t"
  by (simp add: human_member_def)

lemma mem_list_human_ids:
  "mem_list_active_human_member_ids t s =
     (if present_and tr_active (tenant_of s t)
      then sort (map mb_principal_id (filter (human_member s t) (dict_values (cs_memberships s)))) else [])"
  by (simp add: mem_list_active_human_member_ids_def present_and_def human_member_def [abs_def]
      split: option.splits)

lemma human_member_ids:
  assumes "control_inv s"
  shows "q \<in> mb_principal_id ` {m \<in> set (dict_values (cs_memberships s)). human_member s t m} \<longleftrightarrow>
    active_member s t q {} \<and> active_principal s q USER"
proof -
  have ok: "dict_ok (cs_memberships s)" using control_invD(1) [OF assms] by (simp add: dicts_ok_def)
  have key: "mb_tenant_id m = t' \<and> mb_principal_id m = q'" if "membership_of s t' q' = Some m" for t' q' m
    using stored_membership [OF assms that] by (simp add: membership_ok_def)
  show ?thesis
    using key by (fastforce simp: dict_values_mem [OF ok] human_member_def active_member_def active_principal_def
        image_iff split: option.splits)
qed

lemma permits_self_approval_iff:
  assumes "control_reachable H s"
  shows "permits_self_approval t p s \<longleftrightarrow>
    present_and tr_active (tenant_of s t) \<and> active_principal s p USER \<and>
    active_member s t p {''tenant_administrator''} \<and>
    (\<forall>q. active_member s t q {} \<longrightarrow> active_principal s q USER \<longrightarrow> q = p)"
proof -
  have inv: "control_inv s" using assms by (rule reachable_inv)
  have ok: "dict_ok (cs_memberships s)" using control_invD(1) [OF inv] by (simp add: dicts_ok_def)
  have key: "k = (mb_tenant_id m, mb_principal_id m)" if "dict_get (cs_memberships s) k = Some m" for k m
    using stored_membership [OF inv, of "fst k" "snd k" m] that by (simp add: membership_ok_def)
  let ?ids = "map mb_principal_id (filter (human_member s t) (dict_values (cs_memberships s)))"
  have "distinct ?ids"
    using ok key human_member_tenant by (rule distinct_second_key)
  then have "sort ?ids = [p] \<longleftrightarrow> set ?ids = {p}" by (rule sort_singleton_iff)
  also have "\<dots> \<longleftrightarrow> (active_member s t p {} \<and> active_principal s p USER) \<and>
      (\<forall>q. active_member s t q {} \<longrightarrow> active_principal s q USER \<longrightarrow> q = p)"
    unfolding set_map set_filter set_eq_iff human_member_ids [OF inv] by blast
  finally have ids: "mem_list_active_human_member_ids t s = [p] \<longleftrightarrow>
      present_and tr_active (tenant_of s t) \<and> active_member s t p {} \<and> active_principal s p USER \<and>
      (\<forall>q. active_member s t q {} \<longrightarrow> active_principal s q USER \<longrightarrow> q = p)"
    by (simp add: mem_list_human_ids)
  show ?thesis
    unfolding permits_self_approval_def ids
    by (auto simp: control_inv_lookups active_member_def split: option.splits)
qed

text \<open>
  \<^verbatim>\<open>permits_self_approval\<close> says yes exactly when the Principal is an active human member of
  an active Tenant with the administrator role, and the Tenant has no other active human
  member.
\<close>

lemma self_approval_iff_sole_human:
  assumes "control_reachable H s"
  shows "permits_self_approval t p s \<longleftrightarrow>
    present_and tr_active (tenant_of s t) \<and> active_principal s p USER \<and>
    active_member s t p {''tenant_administrator''} \<and>
    (\<forall>q. active_member s t q {} \<longrightarrow> active_principal s q USER \<longrightarrow> q = p)"
  using assms by (rule permits_self_approval_iff)

end
