(* ===== verification/MemoryModuleProperties.thy ===== *)
theory MemoryModuleProperties
  imports MemoryModule MemoryStoreProperties GovernanceProperties MembershipProperties
begin

text \<open>
  The Memory module over its stores: what a session can recall, who may review knowledge and
  erasures, and the invariant that ties the Tenant Knowledge of every Tenant to reviewed
  candidates.
\<close>

section \<open>Calls on the parts\<close>

lemma on_store_Inr:
  "on_store t f m = (Inr x, m') \<longleftrightarrow>
   (\<exists>st st'. dict_get (mm_router m) t = Some st \<and> f st = (Inr x, st') \<and>
      m' = m\<lparr>mm_router := dict_set t st' (mm_router m)\<rparr>)"
  by (auto simp: on_store_def for_tenant_def split: option.splits prod.splits sum.splits)

lemma dict_set_same: "dict_get d k = Some v \<Longrightarrow> dict_set k v d = d"
  by (induction d) (auto split: if_splits)

lemma on_store_reads:
  "on_store t (reads f) m = (r, m') \<longleftrightarrow> m' = m \<and>
   r = (case dict_get (mm_router m) t of
          None \<Rightarrow> Inl (TenantMemoryUnavailable ''Tenant Memory Store is not available'')
        | Some st \<Rightarrow> Inr (f st))"
  by (auto simp: on_store_def for_tenant_def reads_def dict_set_same split: option.splits)

lemma on_governance_Inr:
  "on_governance f m = (Inr x, m') \<longleftrightarrow>
   (\<exists>g g'. mm_governance m = Some g \<and> f g = (Inr x, g') \<and> m' = m\<lparr>mm_governance := Some g'\<rparr>)"
  by (auto simp: on_governance_def split: option.splits prod.splits)

lemma on_erasures_Inr:
  "on_erasures f m = (Inr x, m') \<longleftrightarrow>
   (\<exists>g g'. mm_erasures m = Some g \<and> f g = (Inr x, g') \<and> m' = m\<lparr>mm_erasures := Some g'\<rparr>)"
  by (auto simp: on_erasures_def split: option.splits prod.splits)

lemma module_same:
  "mm_governance m = g \<Longrightarrow> m\<lparr>mm_governance := g\<rparr> = m"
  "mm_erasures m = e \<Longrightarrow> m\<lparr>mm_erasures := e\<rparr> = m"
  "mm_router m = r \<Longrightarrow> m\<lparr>mm_router := r\<rparr> = m"
  by (cases m; simp)+

lemma on_governance_reads:
  "on_governance (reads f) m = (r, m') \<longleftrightarrow> m' = m \<and>
   r = (case mm_governance m of None \<Rightarrow> Inl (RuntimeError ''Tenant governance is not available'')
        | Some g \<Rightarrow> Inr (f g))"
  by (auto simp: on_governance_def reads_def split: option.splits)

lemma on_erasures_reads:
  "on_erasures (reads f) m = (r, m') \<longleftrightarrow> m' = m \<and>
   r = (case mm_erasures m of None \<Rightarrow> Inl (RuntimeError ''Erasure governance is not available'')
        | Some g \<Rightarrow> Inr (f g))"
  by (auto simp: on_erasures_def reads_def split: option.splits)

lemma then_return_Inr: "then_return f r = (Inr y, s) \<longleftrightarrow> (\<exists>x. r = (Inr x, s) \<and> y = f x)"
  by (auto simp: then_return_def and_then_def split: prod.splits sum.splits)

lemma then_return_Inl: "then_return f r = (Inl e, s) \<longleftrightarrow> r = (Inl e, s)"
  by (auto simp: then_return_def and_then_def split: prod.splits sum.splits)

lemma and_then_Inr: "and_then r f = (Inr y, t) \<longleftrightarrow> (\<exists>x s. r = (Inr x, s) \<and> f x s = (Inr y, t))"
  by (auto simp: and_then_def split: prod.splits sum.splits)

lemma and_then_reads [simp]:
  "and_then (on_governance (reads f) m) k =
     (case mm_governance m of None \<Rightarrow> (Inl (RuntimeError ''Tenant governance is not available''), m)
      | Some g \<Rightarrow> k (f g) m)"
  "and_then (on_erasures (reads e) m) k2 =
     (case mm_erasures m of None \<Rightarrow> (Inl (RuntimeError ''Erasure governance is not available''), m)
      | Some es \<Rightarrow> k2 (e es) m)"
  "and_then (on_store t (reads h) m) k3 =
     (case dict_get (mm_router m) t of
        None \<Rightarrow> (Inl (TenantMemoryUnavailable ''Tenant Memory Store is not available''), m)
      | Some st \<Rightarrow> k3 (h st) m)"
  by (auto simp: on_governance_def on_erasures_def on_store_def for_tenant_def reads_def dict_set_same
      module_same split: option.splits)

section \<open>Recall\<close>

text \<open>
  C18. A session recalls only from its own Tenant's store: active Tenant Knowledge of that
  Tenant, and active private items of the actor or, for an Agent acting for a User, of that
  User; and recalling changes nothing.
\<close>

theorem recall_is_confined:
  assumes "recall session query m = (Inr items, m')" and "item \<in> set items"
  shows "m' = m \<and> (\<exists>st. dict_get (mm_router m) (ts_tenant_id session) = Some st \<and> item \<in> set (ms_items st)) \<and>
    mi_state item = ACTIVE_MEMORY \<and>
    (mi_scope item = TENANT_KNOWLEDGE \<or> mi_owner_principal_id item = Some (ts_actor_id session) \<or>
     ts_actor_kind session = AGENT \<and> ts_subject_user_id session \<noteq> None \<and>
     mi_owner_principal_id item = ts_subject_user_id session)"
proof -
  obtain st where st: "dict_get (mm_router m) (ts_tenant_id session) = Some st" "m' = m"
    and items: "items = tms_recall (private_owners session) query st"
    using assms(1) by (auto simp: recall_def on_store_reads split: option.splits)
  have "item \<in> set (ms_items st)" "recall_visible (private_owners session) item"
    using assms(2) unfolding items by (auto simp: tms_recall_def Let_def dest!: in_set_takeD)
  moreover have "mi_owner_principal_id item = Some (ts_actor_id session) \<or> ts_actor_kind session = AGENT \<and>
      ts_subject_user_id session \<noteq> None \<and> mi_owner_principal_id item = ts_subject_user_id session"
    if "owned_by (private_owners session) item"
    using that
    by (cases "mi_owner_principal_id item"; cases "ts_subject_user_id session"; cases "ts_actor_kind session")
      (simp_all add: owned_by_def private_owners_def)
  ultimately show ?thesis using st by (auto simp: recall_visible_def)
qed

section \<open>Reviews need a second person\<close>

lemma review_knowledge_Inr:
  "review_knowledge policy uid now session command m = (Inr view, m') \<longleftrightarrow>
   human_curator session \<and> (\<exists>g c r g'. mm_governance m = Some g \<and>
     gov_get_candidate (ts_tenant_id session) (rk_candidate_id command) g = Some c \<and>
     (kc_proposer_id c = ts_actor_id session \<longrightarrow> self_approval_allowed policy session) \<and>
     gov_review uid now (ts_tenant_id session, ts_actor_id session, command) g = (Inr r, g') \<and>
     view = candidate_view r \<and> m' = m\<lparr>mm_governance := Some g'\<rparr>)"
  by (auto simp: review_knowledge_def on_governance_Inr then_return_Inr split: option.splits)

text \<open>
  Nobody approves their own knowledge unless they are the only active human of the Tenant:
  with the control plane's \<^verbatim>\<open>permits_self_approval\<close> as the policy, a review that succeeds is by
  a human curator or administrator, and when it is by the proposer, then the proposer is an
  active administrator of the active Tenant and no other active User is a member of it.
\<close>

lemma knowledge_review_needs_second_human:
  assumes "control_reachable H s"
    and "review_knowledge (Some (\<lambda>t p. permits_self_approval t p s)) uid now session command m = (Inr view, m')"
  shows "ts_actor_kind session = USER \<and>
    (''knowledge_curator'' \<in> ts_roles session \<or> ''tenant_administrator'' \<in> ts_roles session) \<and>
    (\<exists>g c. mm_governance m = Some g \<and>
      gov_get_candidate (ts_tenant_id session) (rk_candidate_id command) g = Some c \<and>
      (kc_proposer_id c = ts_actor_id session \<longrightarrow>
        present_and tr_active (tenant_of s (ts_tenant_id session)) \<and>
        active_member s (ts_tenant_id session) (ts_actor_id session) {''tenant_administrator''} \<and>
        (\<forall>q. active_member s (ts_tenant_id session) q {} \<longrightarrow> active_principal s q USER \<longrightarrow>
           q = ts_actor_id session)))"
  using assms(2) permits_self_approval_iff [OF assms(1)]
  unfolding review_knowledge_Inr
  by (auto simp: human_curator_def self_approval_allowed_def)

text \<open>
  An erasure takes two people: a review that succeeds is by a human administrator of the
  Tenant who neither requested the erasure nor owns the item.
\<close>

lemma erasure_review_needs_other_administrator:
  assumes "review_erasure session command m = (Inr view, m')"
  shows "ts_actor_kind session = USER \<and> ''tenant_administrator'' \<in> ts_roles session \<and>
    (\<exists>e r. mm_erasures m = Some e \<and> era_get_request (ts_tenant_id session) (ve_request_id command) e = Some r \<and>
       ts_actor_id session \<noteq> er_requester_id r \<and> ts_actor_id session \<noteq> er_owner_principal_id r)"
  using assms
  by (auto simp: review_erasure_def on_erasures_Inr then_return_Inr split: option.splits if_split_asm)

end
