(* ===== verification/MemoryModuleInvariant.thy ===== *)
theory MemoryModuleInvariant
  imports MemoryModuleProperties
begin

text \<open>
  The invariant of the Memory module over sequences of its operations: Tenant Knowledge is
  always the claim of a reviewed candidate of that Tenant, and no erasure is ever decided by
  the person who asked for it or who owns the item.
\<close>

section \<open>Steps of the module\<close>





section \<open>The invariant\<close>









section \<open>Every step keeps it\<close>


lemma snd_then_return [simp]: "snd (then_return f r) = snd r"
  by (auto simp: then_return_def and_then_def split: prod.splits sum.splits)


lemma retain_published [simp]:
  "ms_published_candidates (snd (tms_retain_private uid now owner c a s)) = ms_published_candidates s"
  by (auto simp: tms_retain_private_def Let_def split: option.splits)

lemma correct_published [simp]:
  "ms_published_candidates (snd (tms_correct_private uid now owner c a s)) = ms_published_candidates s"
  by (auto simp: tms_correct_private_def Let_def split: option.splits)

lemma erase_published [simp]:
  "ms_published_candidates (snd (tms_erase_private owner k s)) = ms_published_candidates s"
  by (auto simp: tms_erase_private_def Let_def)












section \<open>Erasure\<close>






section \<open>Properties\<close>

text \<open>A module whose stores are empty.\<close>

definition new_module :: "memory_stores \<Rightarrow> 'c \<Rightarrow> 'c memory_module" where
  "new_module stores c = \<lparr>mm_router = stores, mm_governance = Some empty_governance_store,
     mm_erasures = Some empty_erasure_store, mm_command_state = c\<rparr>"







text \<open>
  C38. Approved erasures are processed in order and a request whose item is gone is never passed
  over: as long as the first approved request of a Tenant names an item that the store does not
  have, \<^verbatim>\<open>erase_next\<close> raises and changes nothing, so every later erasure of the Tenant waits.
\<close>

theorem missing_item_blocks_erasures:
  assumes "mm_erasures m = Some e" and "era_next_approved t e = Some r"
    and "dict_get (mm_router m) t = Some st"
    and "\<forall>item \<in> set (ms_items st). mi_id item \<noteq> er_memory_id r \<or>
      mi_owner_principal_id item \<noteq> Some (er_owner_principal_id r)"
  shows "erase_next now t m = (Inl (LookupError ''Owned Memory Item not found for approved erasure''), m)"
proof -
  have "filter (\<lambda>item. \<not> (mi_id item = er_memory_id r \<and>
      mi_owner_principal_id item = Some (er_owner_principal_id r))) (ms_items st) = ms_items st"
    using assms(4) by (auto intro: filter_True)
  then have "returns (tms_erase_private (er_owner_principal_id r) (er_memory_id r)) st = (Inr False, st)"
    by (simp add: returns_def tms_erase_private_def Let_def)
  then have "on_store t (returns (tms_erase_private (er_owner_principal_id r) (er_memory_id r))) m = (Inr False, m)"
    by (simp add: on_store_def for_tenant_def assms(3) dict_set_same module_same)
  then show ?thesis by (simp add: erase_next_def assms(1,2))
qed

section \<open>Instances\<close>

text \<open>
  A Tenant with two Users: Bob's item becomes Tenant Knowledge through Alice's review, and Bob
  asks twice for the erasure of the item; Alice approves both requests and one is carried out.
\<close>

definition sample_user :: "string \<Rightarrow> tenant_session" where
  "sample_user p = \<lparr>ts_tenant_id = ''acme'', ts_actor_id = p, ts_actor_kind = USER,
     ts_roles = (if p = ''alice'' then {''tenant_administrator''} else {''tenant_member''}),
     ts_subject_user_id = None, ts_delegation_id = None, ts_token_id = None\<rparr>"

definition sample_erasure :: "string \<Rightarrow> request_erasure_command" where
  "sample_erasure key = \<lparr>re_memory_id = ''m1'', re_reason = ''x'', re_idempotency_key = key\<rparr>"

definition sample_decision :: "string \<Rightarrow> review_erasure_command" where
  "sample_decision request_id = \<lparr>ve_request_id = request_id, ve_decision = APPROVE_ERASURE, ve_rationale = ''ok'',
     ve_idempotency_key = request_id\<rparr>"

definition sample_module_start :: "unit memory_module" where
  "sample_module_start = new_module (InMemoryTenantMemoryRouter [''acme'']) ()"

definition sample_module_proposed :: "unit memory_module" where
  "sample_module_proposed = snd (propose_knowledge ''k1'' 2 (sample_user ''bob'') sample_proposal
     (snd (retain None ''m1'' 1 (sample_user ''bob'') (sample_retain ''tea'' ''r1'') sample_module_start)))"

definition sample_module_published :: "unit memory_module" where
  "sample_module_published = snd (publish_next ''m2'' 4 ''acme''
     (snd (review_knowledge None ''e1'' 3 (sample_user ''alice'') sample_review sample_module_proposed)))"

definition sample_module_requested :: "unit memory_module" where
  "sample_module_requested = snd (request_erasure ''q2'' 6 (sample_user ''bob'') (sample_erasure ''x2'')
     (snd (request_erasure ''q1'' 5 (sample_user ''bob'') (sample_erasure ''x1'') sample_module_published)))"

definition sample_module_erased :: "unit memory_module" where
  "sample_module_erased = snd (erase_next 9 ''acme''
     (snd (review_erasure (sample_user ''alice'') (sample_decision ''q2'')
       (snd (review_erasure (sample_user ''alice'') (sample_decision ''q1'') sample_module_requested)))))"





theorem missing_item_blocks_erasures_witness:
  "\<exists>r. Option.bind (mm_erasures sample_module_erased) (era_next_approved ''acme'') = Some r \<and> er_id r = ''q2'' \<and>
     erase_next 10 ''acme'' sample_module_erased =
       (Inl (LookupError ''Owned Memory Item not found for approved erasure''), sample_module_erased)"
proof -
  have "map_option er_id (Option.bind (mm_erasures sample_module_erased) (era_next_approved ''acme'')) = Some ''q2''"
    "map_option er_memory_id (Option.bind (mm_erasures sample_module_erased) (era_next_approved ''acme'')) = Some ''m1''"
    by code_simp+
  then obtain e r where e: "mm_erasures sample_module_erased = Some e" "era_next_approved ''acme'' e = Some r"
    and r: "er_id r = ''q2''" "er_memory_id r = ''m1''"
    by (auto simp: bind_eq_Some_conv)
  have "map_option (\<lambda>st. list_all (\<lambda>item. mi_id item \<noteq> ''m1'') (ms_items st))
      (dict_get (mm_router sample_module_erased) ''acme'') = Some True" by code_simp
  then obtain st where st: "dict_get (mm_router sample_module_erased) ''acme'' = Some st"
    "\<forall>item \<in> set (ms_items st). mi_id item \<noteq> ''m1''"
    by (auto simp: list_all_iff)
  then show ?thesis
    using missing_item_blocks_erasures [OF e st(1)] e r by (auto simp: r)
qed

theorem recall_is_confined_witness:
  "\<exists>items m'. recall (sample_user ''alice'') sample_query sample_module_published = (Inr items, m') \<and> items \<noteq> [] \<and>
     \<not> (\<exists>item \<in> set items. mi_owner_principal_id item = Some ''bob'' \<and> mi_scope item = PRIVATE)"
proof -
  let ?r = "recall (sample_user ''alice'') sample_query sample_module_published"
  have "case fst ?r of Inl _ \<Rightarrow> False | Inr items \<Rightarrow> items \<noteq> []" by code_simp
  then obtain items m' where r: "?r = (Inr items, m')" "items \<noteq> []"
    by (cases ?r) (auto split: sum.splits)
  then show ?thesis
    using recall_is_confined [OF r(1)] by (fastforce simp: sample_user_def)
qed

end
