(* ===== verification/MemoryImportProperties.thy ===== *)
theory MemoryImportProperties
  imports MemoryImport ArchiveProperties MemoryModuleInvariant
begin

text \<open>
  What the import of a Memory Archive does to the Tenant: a private import appends the records that
  are new and changes no stored item; a Tenant import brings in candidates that still need a
  review.
\<close>

section \<open>The store during a private import\<close>

definition imported_as :: "string \<Rightarrow> memory_item \<Rightarrow> memory_item" where
  "imported_as owner item = item\<lparr>mi_owner_principal_id := Some owner, mi_scope := PRIVATE\<rparr>"

definition stored_ids :: "memory_store \<Rightarrow> string set" where
  "stored_ids s = mi_id ` set (ms_items s)"

definition import_all :: "string \<Rightarrow> memory_item list \<Rightarrow> memory_store \<Rightarrow> memory_store" where
  "import_all owner items s = fold (\<lambda>item s. snd (tms_import_private owner item s)) items s"

text \<open>An item whose ancestors of the same owner are superseded already.\<close>

definition ancestors_superseded :: "string \<Rightarrow> memory_item \<Rightarrow> memory_item list \<Rightarrow> bool" where
  "ancestors_superseded owner item items \<longleftrightarrow>
     (\<forall>parent \<in> set items. mi_supersedes_id item = Some (mi_id parent) \<and> mi_owner_principal_id parent = Some owner \<longrightarrow>
        mi_state parent = SUPERSEDED)"

lemma import_one:
  assumes "ancestors_superseded owner item (ms_items s)"
  shows "tms_import_private owner item s =
    (mi_id item \<notin> stored_ids s,
     if mi_id item \<in> stored_ids s then s else s\<lparr>ms_items := ms_items s @ [imported_as owner item]\<rparr>)"
proof -
  have "supersede_parent owner item existing = existing" if "existing \<in> set (ms_items s)" for existing
    using assms that by (cases existing) (auto simp: supersede_parent_def ancestors_superseded_def)
  then have "map (supersede_parent owner item) (ms_items s) = ms_items s" by (rule map_idI)
  moreover have "list_ex (\<lambda>existing. mi_id existing = mi_id item) (ms_items s) \<longleftrightarrow> mi_id item \<in> stored_ids s"
    unfolding list_ex_iff stored_ids_def by (metis imageE imageI)
  ultimately show ?thesis by (simp add: tms_import_private_def tms_apply_private_item_def imported_as_def Let_def)
qed

lemma import_all_appends:
  assumes "\<And>item. item \<in> set items \<Longrightarrow> ancestors_superseded owner item (ms_items s)"
    and "\<And>item. item \<in> set items \<Longrightarrow> ancestors_superseded owner item (map (imported_as owner) items)"
    and "distinct (map mi_id items)"
  shows "import_all owner items s =
    s\<lparr>ms_items := ms_items s @ map (imported_as owner) (filter (\<lambda>item. mi_id item \<notin> stored_ids s) items)\<rparr>"
  using assms
proof (induction items arbitrary: s)
  case Nil
  then show ?case by (simp add: import_all_def)
next
  case (Cons item items)
  let ?s1 = "if mi_id item \<in> stored_ids s then s else s\<lparr>ms_items := ms_items s @ [imported_as owner item]\<rparr>"
  have first: "snd (tms_import_private owner item s) = ?s1"
    using import_one [OF Cons.prems(1) [of item]] by simp
  have "ancestors_superseded owner x (ms_items ?s1)" if "x \<in> set items" for x
    using Cons.prems(1) [of x] Cons.prems(2) [of x] that by (auto simp: ancestors_superseded_def)
  moreover have "ancestors_superseded owner x (map (imported_as owner) items)" if "x \<in> set items" for x
    using Cons.prems(2) [of x] that by (simp add: ancestors_superseded_def)
  ultimately have rest: "import_all owner items ?s1 =
      ?s1\<lparr>ms_items := ms_items ?s1 @ map (imported_as owner) (filter (\<lambda>x. mi_id x \<notin> stored_ids ?s1) items)\<rparr>"
    using Cons.IH [of ?s1] Cons.prems(3) by simp
  have "filter (\<lambda>x. mi_id x \<notin> stored_ids ?s1) items = filter (\<lambda>x. mi_id x \<notin> stored_ids s) items"
    by (rule filter_cong [OF refl]) (use Cons.prems(3) in \<open>auto simp: stored_ids_def imported_as_def image_iff\<close>)
  with rest first show ?case by (simp add: import_all_def)
qed

section \<open>The checks before the first write\<close>

lemma check_ancestors_Cons:
  assumes "check_ancestors by_id erased (x # items) = Inr ()"
  shows "check_ancestors by_id erased items = Inr ()"
    and "mi_supersedes_id x = Some parent_id \<Longrightarrow> parent_id \<noteq> mi_id x"
    and "mi_supersedes_id x = Some parent_id \<Longrightarrow> dict_get by_id parent_id = None \<Longrightarrow> parent_id \<in> erased"
    and "mi_supersedes_id x = Some parent_id \<Longrightarrow> dict_get by_id parent_id = Some parent \<Longrightarrow> mi_state parent = SUPERSEDED"
  using assms by (simp_all split: option.splits if_splits)

lemma check_ancestors_ok:
  assumes "check_ancestors by_id erased items = Inr ()" and "item \<in> set items" and "mi_supersedes_id item = Some parent_id"
    and "parent_id \<notin> erased"
  shows "\<exists>parent. dict_get by_id parent_id = Some parent \<and> mi_state parent = SUPERSEDED"
  using assms
proof (induction items)
  case (Cons x items)
  note step = check_ancestors_Cons [OF Cons.prems(1)]
  show ?case
  proof (cases "x = item")
    case True
    then show ?thesis using step(3,4) Cons.prems(3,4) by blast
  next
    case False
    then show ?thesis using Cons step(1) by simp
  qed
qed simp

lemma check_ancestors_Some:
  assumes "check_ancestors by_id erased items = Inr ()" and "item \<in> set items" and "mi_supersedes_id item = Some parent_id"
    and "dict_get by_id parent_id = Some parent"
  shows "mi_state parent = SUPERSEDED"
  using assms
proof (induction items)
  case (Cons x items)
  then show ?case using check_ancestors_Cons [OF Cons.prems(1)] by (cases "x = item") auto
qed simp

lemma check_existing_items_Cons:
  assumes "check_existing_items existing (x # items) = Inr ()"
  shows "check_existing_items existing items = Inr ()"
    and "dict_get existing (mi_id x) = Some persisted \<Longrightarrow> same_archived_memory persisted x"
  using assms by (simp_all split: option.splits if_splits)

lemma check_existing_items_ok:
  assumes "check_existing_items existing items = Inr ()" and "item \<in> set items" and "dict_get existing (mi_id item) = Some persisted"
  shows "same_archived_memory persisted item"
  using assms
proof (induction items)
  case (Cons x items)
  then show ?case using check_existing_items_Cons [OF Cons.prems(1)] by (cases "x = item") auto
qed simp

lemma import_tombstones_router:
  "import_tombstones session ts n m = (r, m') \<Longrightarrow> mm_router m' = mm_router m"
proof (induction ts arbitrary: n m)
  case (Cons t ts)
  then obtain accepted m1 where first: "on_erasures (era_import_tombstone (ts_tenant_id session) (ts_actor_id session) t) m = (accepted, m1)"
    by (meson surj_pair)
  then have "mm_router m1 = mm_router m"
    by (auto simp: on_erasures_def Let_def split: option.splits prod.splits)
  with Cons first show ?case by (cases accepted) (auto simp: and_then_def)
qed simp

lemma on_store_found:
  assumes "for_tenant tenant_id (mm_router m) = Inr store"
  shows "on_store tenant_id f m = (fst (f store), m\<lparr>mm_router := dict_set tenant_id (snd (f store)) (mm_router m)\<rparr>)"
  using assms by (simp add: on_store_def split_beta)

lemma for_tenant_set [simp]: "for_tenant tenant_id (dict_set tenant_id store stores) = Inr store"
  by (simp add: for_tenant_def)

lemma import_private_items_store:
  assumes "for_tenant (ts_tenant_id session) (mm_router m) = Inr store"
  shows "\<exists>k m'. import_private_items None session items n m = (Inr k, m') \<and>
    for_tenant (ts_tenant_id session) (mm_router m') = Inr (import_all (ts_actor_id session) items store)"
  using assms
proof (induction items arbitrary: n m store)
  case Nil
  then show ?case by (simp add: import_all_def)
next
  case (Cons item items)
  let ?r = "tms_import_private (ts_actor_id session) item store"
  have "import_private_item None session item m =
      (Inr (fst ?r), m\<lparr>mm_router := dict_set (ts_tenant_id session) (snd ?r) (mm_router m)\<rparr>)"
    using Cons.prems by (simp add: import_private_item_def on_store_found returns_def split_beta)
  then show ?case using Cons.IH by (simp add: import_all_def)
qed

text \<open>What a private import may rely on once its checks have passed.\<close>

lemma check_private_import_ok:
  assumes checked: "check_private_import None session decoded m = (Inr records, m1)"
    and unique: "validate_unique_ids decoded = Inr ()"
    and store: "for_tenant (ts_tenant_id session) (mm_router m) = Inr store" and inv: "memory_inv store"
  shows "for_tenant (ts_tenant_id session) (mm_router m1) = Inr store"
    and "mset records = mset (da_memory_items decoded)" and "distinct (map mi_id records)"
    and "item \<in> set records \<Longrightarrow> ancestors_superseded (ts_actor_id session) item (ms_items store)"
    and "item \<in> set records \<Longrightarrow> ancestors_superseded (ts_actor_id session) item (map (imported_as (ts_actor_id session)) records)"
proof -
  let ?me = "ts_actor_id session" and ?erased = "set (map et_memory_id (da_erasure_tombstones decoded))"
  let ?existing = "tms_list_private ?me store"
  let ?m1 = "m\<lparr>mm_router := dict_set (ts_tenant_id session) store (mm_router m)\<rparr>"
  have listed: "private_items_of None session m = (Inr ?existing, ?m1)"
    using store by (simp add: private_items_of_def on_store_found reads_def)
  have valid: "order_correction_history (da_memory_items decoded) = Inr records"
    "validate_private_archive records (da_erasure_tombstones decoded) = Inr ()"
    "?erased \<inter> set (dict_keys (index_by_id ?existing)) = {}"
    "check_existing_items (index_by_id ?existing) records = Inr ()" "mm_router m1 = mm_router ?m1"
    using checked
    by (auto simp: check_private_import_def listed Let_def completed_erasures_of_def on_erasures_def
        split: if_splits sum.splits option.splits elim!: and_then_Inr_E)
  then show "for_tenant (ts_tenant_id session) (mm_router m1) = Inr store" by simp
  have ids: "distinct (map mi_id (da_memory_items decoded))" using unique by (simp add: validate_unique_ids_def split: if_splits)
  show perm: "mset records = mset (da_memory_items decoded)" by (rule order_correction_history_perm [OF ids valid(1)])
  then show distinct: "distinct (map mi_id records)" using ids by (metis mset_map mset_eq_imp_distinct_iff)
  note by_id = index_by_id_iff [OF distinct]
  have distinct_store: "distinct (map mi_id (ms_items store))" and scopes: "scopes_ok store" using inv by (simp_all add: memory_inv_def)
  have distinct_existing: "distinct (map mi_id ?existing)"
    using distinct_store by (simp add: tms_list_private_def distinct_map_filter distinct_map inj_on_def)
  have ancestors: "check_ancestors (index_by_id records) ?erased records = Inr ()"
    using valid(2) by (simp add: validate_private_archive_def split: if_splits)
  show "ancestors_superseded ?me item (map (imported_as ?me) records)" if "item \<in> set records"
    unfolding ancestors_superseded_def
  proof (intro ballI impI)
    fix parent assume "parent \<in> set (map (imported_as ?me) records)" and edge: "mi_supersedes_id item = Some (mi_id parent) \<and>
        mi_owner_principal_id parent = Some ?me"
    then obtain p where p: "p \<in> set records" "parent = imported_as ?me p" by auto
    then have at: "dict_get (index_by_id records) (mi_id p) = Some p" using by_id by blast
    have supersedes: "mi_supersedes_id item = Some (mi_id p)" using edge p(2) by (simp add: imported_as_def)
    show "mi_state parent = SUPERSEDED"
      using check_ancestors_Some [OF ancestors that supersedes at] p(2) by (simp add: imported_as_def)
  qed
  show "ancestors_superseded ?me item (ms_items store)" if item: "item \<in> set records"
    unfolding ancestors_superseded_def
  proof (intro ballI impI)
    fix parent assume parent: "parent \<in> set (ms_items store)"
      and edge: "mi_supersedes_id item = Some (mi_id parent) \<and> mi_owner_principal_id parent = Some ?me"
    then have "parent \<in> set ?existing" using scopes edge
      by (cases "mi_scope parent") (auto simp: tms_list_private_def scopes_ok_def)
    then have at: "dict_get (index_by_id ?existing) (mi_id parent) = Some parent" using index_by_id_iff [OF distinct_existing] by blast
    then have "mi_id parent \<in> set (dict_keys (index_by_id ?existing))"
      by (metis dict_keys_def domI dom_map_of_conv_image_fst list.set_map)
    then have "mi_id parent \<notin> ?erased" using valid(3) by blast
    with check_ancestors_ok [OF ancestors item, of "mi_id parent"] edge obtain p where
      p: "dict_get (index_by_id records) (mi_id parent) = Some p" "mi_state p = SUPERSEDED" by blast
    then have archived: "p \<in> set records" "mi_id p = mi_id parent" using by_id by blast+
    have "same_archived_memory parent p" using check_existing_items_ok [OF valid(4) archived(1)] at archived(2) by simp
    with p(2) show "mi_state parent = SUPERSEDED" by (simp add: same_archived_memory_def)
  qed
qed


section \<open>Importing\<close>

text \<open>
  A private import keeps what is stored and appends the archived items whose identifier is
  new to the Tenant, owned by the importer and private, each under its archived identifier and
  content; an identifier that exists already is skipped.
\<close>

lemma import_appends_new_items:
  assumes archive: "decode archive PRIVATE_ARCHIVE = Inr decoded" and unique: "validate_unique_ids decoded = Inr ()"
    and store: "for_tenant (ts_tenant_id session) (mm_router m) = Inr store" and inv: "memory_inv store"
    and imported: "import_private decode None session archive m = (Inr report, m')"
  shows "\<exists>records. mset records = mset (da_memory_items decoded) \<and>
    for_tenant (ts_tenant_id session) (mm_router m') = Inr (store\<lparr>ms_items := ms_items store @
      map (imported_as (ts_actor_id session)) (filter (\<lambda>item. mi_id item \<notin> stored_ids store) records)\<rparr>)"
proof -
  obtain records m1 n m2 k where checked: "check_private_import None session decoded m = (Inr records, m1)"
    and erased: "import_tombstones session (da_erasure_tombstones decoded) 0 m1 = (Inr n, m2)"
    and items: "import_private_items None session records 0 m2 = (Inr k, m')"
    using imported by (auto simp: import_private_def archive Let_def elim!: and_then_Inr_E)
  note ok = check_private_import_ok [OF checked unique store inv]
  have "for_tenant (ts_tenant_id session) (mm_router m2) = Inr store"
    using ok(1) import_tombstones_router [OF erased] by simp
  from import_private_items_store [OF this, of records 0] items
  have "for_tenant (ts_tenant_id session) (mm_router m') = Inr (import_all (ts_actor_id session) records store)" by auto
  then show ?thesis using import_all_appends [OF ok(4,5,3)] ok(2) by (intro exI [of _ records]) simp
qed

section \<open>Importing Tenant Knowledge\<close>

lemma import_candidates_keeps:
  assumes "import_candidates clock session ids items s = (views, s')" and "dict_get (gs_candidates s') k = Some c"
  shows "dict_get (gs_candidates s) k = Some c \<or>
    kc_status c = SUBMITTED \<and> kc_tenant_id c = ts_tenant_id session \<and> kc_proposer_id c = ts_actor_id session"
  using assms
proof (induction items arbitrary: views s)
  case (Cons item items)
  show ?case
  proof (cases "mi_id item \<in> ids")
    case True
    with Cons.prems Cons.IH show ?thesis by simp
  next
    case False
    let ?i = "gov_import_candidate (clock (mi_id item)) (ts_tenant_id session) (ts_actor_id session) (mi_id item)
      (mi_content item) (mi_confidence item) s"
    obtain rest where "import_candidates clock session ids items (snd ?i) = (rest, s')"
      using Cons.prems(1) False by (auto split: prod.splits)
    from Cons.IH [OF this Cons.prems(2)] show ?thesis
      by (auto simp: gov_import_candidate_def Let_def dict_get_set split: option.splits if_splits)
  qed
qed simp

lemma import_candidates_outbox:
  "gs_outbox (snd (import_candidates clock session ids items s)) = gs_outbox s"
proof (induction items arbitrary: s)
  case (Cons item items)
  let ?i = "gov_import_candidate (clock (mi_id item)) (ts_tenant_id session) (ts_actor_id session) (mi_id item)
      (mi_content item) (mi_confidence item) s"
  have "gs_outbox (snd ?i) = gs_outbox s" by (auto simp: gov_import_candidate_def Let_def split: option.splits)
  with Cons.IH [of s] Cons.IH [of "snd ?i"] show ?case by (simp add: split_beta)
qed simp

text \<open>
  A Tenant import publishes nothing: it leaves every memory store and the queue of pending
  publications as they are, and a candidate that it brings in is submitted, in the Tenant and in
  the name of the importing administrator, so that it still needs a review.
\<close>

lemma tenant_import_needs_review:
  assumes "import_tenant decode clock session archive m = (r, m')" and "mm_governance m = Some s"
  shows "mm_router m' = mm_router m \<and> mm_erasures m' = mm_erasures m \<and>
    (\<exists>s'. mm_governance m' = Some s' \<and> gs_outbox s' = gs_outbox s \<and>
      (\<forall>k c. dict_get (gs_candidates s') k = Some c \<longrightarrow> dict_get (gs_candidates s) k = Some c \<or>
         kc_status c = SUBMITTED \<and> kc_tenant_id c = ts_tenant_id session \<and> kc_proposer_id c = ts_actor_id session \<and>
         ts_actor_kind session = USER \<and> ''tenant_administrator'' \<in> ts_roles session))"
proof (cases "mm_governance m' = mm_governance m")
  case True
  then show ?thesis using assms by (auto simp: import_tenant_def on_governance_def Let_def split: if_splits prod.splits)
next
  case False
  then obtain ids items views s' where administrator: "human_tenant_administrator session"
    and step: "import_candidates clock session ids items s = (views, s')" and m': "m' = m\<lparr>mm_governance := Some s'\<rparr>"
    using assms
    by (auto simp: import_tenant_def on_governance_def Let_def split: if_splits sum.splits prod.splits)
  have "gs_outbox s' = gs_outbox s" using import_candidates_outbox [of clock session ids items s] step by simp
  with import_candidates_keeps [OF step] administrator show ?thesis
    unfolding m' human_tenant_administrator_def by auto
qed

section \<open>Instances\<close>

text \<open>An archive is its own encoding.\<close>

definition plain_encode :: "archive_scope \<Rightarrow> decoded_archive \<Rightarrow> decoded_archive" where
  "plain_encode scope archive = archive"

definition plain_decode :: "decoded_archive \<Rightarrow> archive_scope \<Rightarrow> decoded_archive result" where
  "plain_decode archive scope = Inr archive"





definition sample_tenant_import :: "(archive_import_result, unit memory_module) outcome" where
  "sample_tenant_import = (case fst (export_tenant plain_encode (sample_user ''alice'') sample_module_published) of
     Inl e \<Rightarrow> (Inl e, sample_module_start)
   | Inr archive \<Rightarrow> import_tenant plain_decode (\<lambda>_. 11) (sample_user ''alice'') archive sample_module_start)"

end
