(* ===== verification/Json.thy ===== *)
theory Json
  imports Complex_Main Prelude
begin

text \<open>
  JSON values, as \<^verbatim>\<open>json.loads\<close> returns them and \<^verbatim>\<open>json.dumps\<close> takes them.
  \<^verbatim>\<open>model_dump(mode="json")\<close> writes a \<^verbatim>\<open>Decimal\<close> as the string that parses back to it; such a
  string is \<open>JDecimal\<close>. Floats and decimals are rational numbers.
\<close>

datatype json =
    JNull
  | JBool bool
  | JInt int
  | JFloat rat
  | JDecimal rat
  | JString string
  | JList "json list"
  | JObject "(string \<times> json) list"

type_synonym json_object = "(string, json) dict"

end
