(* ===== verification/DurableTables.thy ===== *)
theory DurableTables
  imports MemoryModule Json
begin

text \<open>
  The tables of a Tenant's Operations Store that \<^verbatim>\<open>PostgresGovernanceStore\<close>
  (\<^verbatim>\<open>stores/postgres_governance.py\<close>) reads and writes, and the SQL statements as functions on
  them.

  A table is a dictionary from the primary key to the row, in the order of insertion. A row is
  the record that \<^verbatim>\<open>_decode_*\<close> makes of it, extended by the columns that are not decoded. Left out
  are columns that no statement reads (\<^verbatim>\<open>updated_at\<close>, \<^verbatim>\<open>applied_at\<close>, \<^verbatim>\<open>redacted_at\<close>, the payload of
  an outbox row and the metadata and the identifier of an audit row). The uniqueness constraints
  of the schema are checked where a row is inserted; a violation is the driver's exception.

  Every method is one transaction: it commits what it did when it returns and rolls all of it
  back when it raises. Transactions are taken one after another: each locks the rows it is about
  (\<^verbatim>\<open>FOR UPDATE\<close>, \<^verbatim>\<open>pg_advisory_xact_lock\<close>) before it decides. \<open>CURRENT_TIMESTAMP\<close> and what
  \<^verbatim>\<open>uuid4\<close> draws are arguments.
\<close>

section \<open>Rows\<close>

record command_row = private_memory_command +
  cr_result_memory_id :: "string option"
  cr_payload :: json

record item_row =
  ir_memory_id :: string
  ir_tenant_id :: string
  ir_owner_principal_id :: string
  ir_state :: memory_state
  ir_item :: "memory_item option"
  ir_source_command_id :: string
  ir_created_at :: datetime

record outbox_row =
  ob_event_id :: string
  ob_tenant_id :: string
  ob_aggregate_type :: string
  ob_aggregate_id :: string
  ob_event_type :: string
  ob_created_at :: datetime
  ob_available_at :: datetime
  ob_locked_at :: "datetime option"
  ob_lock_id :: "string option"
  ob_attempt_count :: int
  ob_last_error_code :: "string option"
  ob_dispatched_at :: "datetime option"
  ob_processed_at :: "datetime option"

record candidate_row = knowledge_candidate +
  dr_proposal_idempotency_key :: "string option"

record erasure_row = erasure_request +
  rr_request_idempotency_key :: string

text \<open>A review of a candidate or of an erasure request; the subject is the one or the other.\<close>

record review_row =
  vr_tenant_id :: string
  vr_subject_id :: string
  vr_reviewer_id :: string
  vr_decision :: string
  vr_rationale :: "string option"
  vr_idempotency_key :: string

record audit_row =
  au_tenant_id :: string
  au_actor_id :: string
  au_event_type :: string
  au_target_type :: string
  au_target_id :: string
  au_outcome :: string

record tenant_database =
  td_commands :: "(string, command_row) dict"
  td_items :: "(string, item_row) dict"
  td_outbox :: "(string, outbox_row) dict"
  td_candidates :: "(string, candidate_row) dict"
  td_knowledge_reviews :: "(string, review_row) dict"
  td_erasures :: "(string, erasure_row) dict"
  td_erasure_reviews :: "(string, review_row) dict"
  td_audit :: "audit_row list"

definition empty_tenant_database :: tenant_database where
  "empty_tenant_database = \<lparr>td_commands = [], td_items = [], td_outbox = [], td_candidates = [],
     td_knowledge_reviews = [], td_erasures = [], td_erasure_reviews = [], td_audit = []\<rparr>"

section \<open>Statements\<close>

definition transaction :: "('s \<Rightarrow> ('a, 's) outcome) \<Rightarrow> 's \<Rightarrow> ('a, 's) outcome" where
  "transaction body db = (case body db of (Inl e, db') \<Rightarrow> (Inl e, db) | (Inr x, db') \<Rightarrow> (Inr x, db'))"

text \<open>\<^verbatim>\<open>SELECT ... WHERE tenant_id = t AND key = k\<close>, for a primary key.\<close>

definition select_row :: "('r \<Rightarrow> string) \<Rightarrow> string \<Rightarrow> string \<Rightarrow> (string, 'r) dict \<Rightarrow> 'r option" where
  "select_row tenant_of tenant_id k table =
     (case dict_get table k of None \<Rightarrow> None | Some r \<Rightarrow> if tenant_of r = tenant_id then Some r else None)"

definition select_first :: "('r \<Rightarrow> bool) \<Rightarrow> (string, 'r) dict \<Rightarrow> 'r option" where
  "select_first P table = find P (dict_values table)"

definition select_ordered :: "('r \<Rightarrow> bool) \<Rightarrow> ('r \<Rightarrow> datetime \<times> string) \<Rightarrow> (string, 'r) dict \<Rightarrow> 'r list" where
  "select_ordered P key table = sort_key key (filter P (dict_values table))"

definition update_where :: "('r \<Rightarrow> bool) \<Rightarrow> ('r \<Rightarrow> 'r) \<Rightarrow> ('k, 'r) dict \<Rightarrow> ('k, 'r) dict" where
  "update_where P f table = dict_map (\<lambda>r. if P r then f r else r) table"

text \<open>An insertion fails when the primary key is taken or another row has the same unique columns.\<close>

definition insert_row ::
  "('r \<Rightarrow> bool) \<Rightarrow> string \<Rightarrow> 'r \<Rightarrow> (string, 'r) dict \<Rightarrow> (string, 'r) dict result" where
  "insert_row clashes k r table =
     (if dict_get table k \<noteq> None \<or> list_ex clashes (dict_values table)
      then Inl (AdapterError ''UniqueViolation'') else Inr (dict_set k r table))"

definition put_commands :: "tenant_database \<Rightarrow> (string, command_row) dict result \<Rightarrow> (unit, tenant_database) outcome" where
  "put_commands db r = (case r of Inl e \<Rightarrow> (Inl e, db) | Inr table \<Rightarrow> (Inr (), db\<lparr>td_commands := table\<rparr>))"

definition put_items :: "tenant_database \<Rightarrow> (string, item_row) dict result \<Rightarrow> (unit, tenant_database) outcome" where
  "put_items db r = (case r of Inl e \<Rightarrow> (Inl e, db) | Inr table \<Rightarrow> (Inr (), db\<lparr>td_items := table\<rparr>))"

definition put_outbox :: "tenant_database \<Rightarrow> (string, outbox_row) dict result \<Rightarrow> (unit, tenant_database) outcome" where
  "put_outbox db r = (case r of Inl e \<Rightarrow> (Inl e, db) | Inr table \<Rightarrow> (Inr (), db\<lparr>td_outbox := table\<rparr>))"

definition write_audit ::
  "string \<Rightarrow> string \<Rightarrow> string \<Rightarrow> string \<Rightarrow> string \<Rightarrow> string \<Rightarrow> tenant_database \<Rightarrow> tenant_database" where
  "write_audit tenant_id actor_id event_type target_type target_id the_outcome db =
     db\<lparr>td_audit := td_audit db @ [\<lparr>au_tenant_id = tenant_id, au_actor_id = actor_id, au_event_type = event_type,
       au_target_type = target_type, au_target_id = target_id, au_outcome = the_outcome\<rparr>]\<rparr>"

text \<open>The outbox row of a committed change; \<^verbatim>\<open>UNIQUE (event_type, aggregate_id)\<close>.\<close>

definition insert_outbox ::
  "string \<Rightarrow> datetime \<Rightarrow> string \<Rightarrow> string \<Rightarrow> string \<Rightarrow> string \<Rightarrow> tenant_database \<Rightarrow> (unit, tenant_database) outcome" where
  "insert_outbox event_id now tenant_id aggregate_type aggregate_id event_type db =
     put_outbox db (insert_row (\<lambda>r. ob_event_type r = event_type \<and> ob_aggregate_id r = aggregate_id) event_id
       \<lparr>ob_event_id = event_id, ob_tenant_id = tenant_id, ob_aggregate_type = aggregate_type,
        ob_aggregate_id = aggregate_id, ob_event_type = event_type, ob_created_at = now, ob_available_at = now,
        ob_locked_at = None, ob_lock_id = None, ob_attempt_count = 0, ob_last_error_code = None,
        ob_dispatched_at = None, ob_processed_at = None\<rparr> (td_outbox db))"

text \<open>An applied change needs no further delivery of its event.\<close>

definition mark_processed :: "datetime \<Rightarrow> string \<Rightarrow> string \<Rightarrow> string \<Rightarrow> tenant_database \<Rightarrow> tenant_database" where
  "mark_processed now tenant_id aggregate_id event_type db =
     db\<lparr>td_outbox := update_where
       (\<lambda>r. ob_tenant_id r = tenant_id \<and> ob_aggregate_id r = aggregate_id \<and> ob_event_type r = event_type)
       (\<lambda>r. r\<lparr>ob_processed_at := Some now, ob_locked_at := None, ob_lock_id := None\<rparr>) (td_outbox db)\<rparr>"

end
