(* ===== verification/DurableMemory.thy ===== *)
theory DurableMemory
  imports DurableTables
begin

text \<open>
  The private-memory commands of the durable store (\<^verbatim>\<open>stores/postgres_governance.py\<close>): a write to
  Private Memory is accepted in one transaction that records the command, the item it results in
  and the outbox event that will apply it to the graph.
\<close>

section \<open>Rows of a command\<close>

fun command_type_value :: "private_memory_command_type \<Rightarrow> string" where
  "command_type_value RETAIN_COMMAND = ''retain''"
| "command_type_value CORRECT_COMMAND = ''correct''"
| "command_type_value IMPORT_COMMAND = ''import''"
| "command_type_value ERASE_COMMAND = ''erase''"

fun memory_kind_value :: "memory_kind \<Rightarrow> string" where
  "memory_kind_value EXPLICIT = ''explicit''"
| "memory_kind_value PREFERENCE = ''preference''"
| "memory_kind_value CONSTRAINT = ''constraint''"
| "memory_kind_value OUTCOME = ''outcome''"

definition retain_payload :: "retain_memory \<Rightarrow> json" where
  "retain_payload c = JObject [(''content'', JString (rt_content c)), (''kind'', JString (memory_kind_value (rt_kind c))),
     (''confidence'', JFloat (rt_confidence c)), (''idempotency_key'', JString (rt_idempotency_key c))]"

definition correct_payload :: "correct_memory \<Rightarrow> json" where
  "correct_payload c = JObject [(''memory_id'', JString (cm_memory_id c)),
     (''replacement_content'', JString (cm_replacement_content c)), (''kind'', JString (memory_kind_value (cm_kind c))),
     (''confidence'', JFloat (cm_confidence c)), (''reason'', JString (cm_reason c)),
     (''idempotency_key'', JString (cm_idempotency_key c))]"

text \<open>\<^verbatim>\<open>_decode_memory_command\<close> and the selections by which a command is found.\<close>

definition decode_memory_command :: "command_row \<Rightarrow> private_memory_command" where
  "decode_memory_command row = private_memory_command.truncate row"

definition existing_memory_command ::
  "string \<Rightarrow> string \<Rightarrow> private_memory_command_type \<Rightarrow> string \<Rightarrow> tenant_database \<Rightarrow> private_memory_command option" where
  "existing_memory_command tenant_id actor_id command_type idempotency_key db =
     map_option decode_memory_command (select_first (\<lambda>r. pc_tenant_id r = tenant_id \<and> pc_actor_id r = actor_id \<and>
       pc_command_type r = command_type \<and> pc_idempotency_key r = idempotency_key) (td_commands db))"

definition pg_get_memory_command :: "string \<Rightarrow> string \<Rightarrow> tenant_database \<Rightarrow> private_memory_command option" where
  "pg_get_memory_command tenant_id command_id db =
     map_option decode_memory_command (select_row pc_tenant_id tenant_id command_id (td_commands db))"

definition pg_get_memory_command_by_result :: "string \<Rightarrow> string \<Rightarrow> tenant_database \<Rightarrow> private_memory_command option" where
  "pg_get_memory_command_by_result tenant_id result_memory_id db =
     map_option decode_memory_command (select_first
       (\<lambda>r. pc_tenant_id r = tenant_id \<and> cr_result_memory_id r = Some result_memory_id) (td_commands db))"

definition required_result_item :: "private_memory_command \<Rightarrow> memory_item result" where
  "required_result_item command =
     (case pc_result_item command of
        None \<Rightarrow> Inl (ValueError ''Private Memory Command result has been erased'') | Some item \<Rightarrow> Inr item)"

section \<open>Accepting a command\<close>

definition same_command :: "private_memory_command \<Rightarrow> command_row \<Rightarrow> bool" where
  "same_command c r \<longleftrightarrow> pc_tenant_id r = pc_tenant_id c \<and> pc_actor_id r = pc_actor_id c \<and>
     pc_command_type r = pc_command_type c \<and> pc_idempotency_key r = pc_idempotency_key c"

definition new_command_row ::
  "string \<Rightarrow> datetime \<Rightarrow> private_memory_command \<Rightarrow> memory_item \<Rightarrow> json \<Rightarrow> command_row" where
  "new_command_row command_id now command item payload =
     private_memory_command.extend (command\<lparr>pc_id := command_id, pc_result_item := Some item,
       pc_erasure_request_id := None, pc_state := ACCEPTED, pc_created_at := now\<rparr>)
       (command_row.fields (Some (mi_id item)) payload)"

definition new_item_row :: "string \<Rightarrow> datetime \<Rightarrow> private_memory_command \<Rightarrow> memory_item \<Rightarrow> item_row" where
  "new_item_row command_id now command item =
     \<lparr>ir_memory_id = mi_id item, ir_tenant_id = pc_tenant_id command, ir_owner_principal_id = pc_owner_principal_id command,
      ir_state = mi_state item, ir_item = Some item, ir_source_command_id = command_id, ir_created_at = now\<rparr>"

text \<open>The identifiers of the command and of its event are drawn first; the table checks the state of the item.\<close>

definition insert_memory_command ::
  "string \<times> string \<Rightarrow> datetime \<Rightarrow> private_memory_command \<Rightarrow> memory_item \<Rightarrow> json \<Rightarrow> tenant_database \<Rightarrow>
   (string, tenant_database) outcome" where
  "insert_memory_command ids now command item payload db =
     and_then (put_commands db (insert_row (same_command command) (fst ids)
       (new_command_row (fst ids) now command item payload) (td_commands db))) (\<lambda>_ db.
     and_then (if mi_state item = ERASED then (Inl (AdapterError ''CheckViolation''), db)
       else put_items db (insert_row (\<lambda>r. ir_source_command_id r = fst ids) (mi_id item)
         (new_item_row (fst ids) now command item) (td_items db))) (\<lambda>_ db.
     and_then (insert_outbox (snd ids) now (pc_tenant_id command) ''private_memory_command'' (fst ids)
         ''memory.command.accepted'' db)
       (\<lambda>_ db. (Inr (fst ids), write_audit (pc_tenant_id command) (pc_actor_id command)
          (''memory.'' @ command_type_value (pc_command_type command) @ ''.accepted'')
          ''private_memory_command'' (fst ids) ''accepted'' db))))"

text \<open>The arguments of \<^verbatim>\<open>_insert_memory_command\<close>; the other columns are set by the insertion.\<close>

definition command_for ::
  "string \<Rightarrow> string \<Rightarrow> string \<Rightarrow> private_memory_command_type \<Rightarrow> string \<Rightarrow> string option \<Rightarrow> private_memory_command" where
  "command_for tenant_id actor_id owner_principal_id command_type idempotency_key target_memory_id =
     \<lparr>pc_id = '''', pc_tenant_id = tenant_id, pc_actor_id = actor_id, pc_owner_principal_id = owner_principal_id,
      pc_command_type = command_type, pc_idempotency_key = idempotency_key, pc_target_memory_id = target_memory_id,
      pc_result_item = None, pc_erasure_request_id = None, pc_state = ACCEPTED, pc_created_at = 0\<rparr>"

definition pg_accept_retain ::
  "string \<Rightarrow> string \<times> string \<Rightarrow> datetime \<Rightarrow> string \<Rightarrow> string \<Rightarrow> string \<Rightarrow> retain_memory \<Rightarrow> tenant_database \<Rightarrow>
   (memory_item, tenant_database) outcome" where
  "pg_accept_retain uid ids now tenant_id actor_id owner_principal_id command =
     transaction (\<lambda>db.
       let item = \<lparr>mi_id = uid, mi_owner_principal_id = Some owner_principal_id, mi_scope = PRIVATE,
             mi_content = rt_content command, mi_kind = rt_kind command, mi_confidence = rt_confidence command,
             mi_provenance = \<lparr>pv_actor_id = actor_id, pv_source = ''explicit''\<rparr>, mi_created_at = now,
             mi_state = ACTIVE_MEMORY, mi_supersedes_id = None\<rparr>
       in case existing_memory_command tenant_id actor_id RETAIN_COMMAND (rt_idempotency_key command) db of
            Some existing \<Rightarrow> (required_result_item existing, db)
          | None \<Rightarrow>
              and_then (insert_memory_command ids now (command_for tenant_id actor_id owner_principal_id RETAIN_COMMAND
                  (rt_idempotency_key command) None) item (retain_payload command) db)
                (\<lambda>_ db. (Inr item, db)))"

definition supersede_item :: "string \<Rightarrow> string \<Rightarrow> memory_item \<Rightarrow> tenant_database \<Rightarrow> tenant_database" where
  "supersede_item tenant_id memory_id original db =
     db\<lparr>td_items := update_where (\<lambda>r. ir_tenant_id r = tenant_id \<and> ir_memory_id r = memory_id)
       (\<lambda>r. r\<lparr>ir_state := SUPERSEDED, ir_item := Some (original\<lparr>mi_state := SUPERSEDED\<rparr>)\<rparr>) (td_items db)\<rparr>"

definition pg_accept_correction ::
  "string \<Rightarrow> string \<times> string \<Rightarrow> datetime \<Rightarrow> string \<Rightarrow> string \<Rightarrow> string \<Rightarrow> correct_memory \<Rightarrow> tenant_database \<Rightarrow>
   (memory_item, tenant_database) outcome" where
  "pg_accept_correction uid ids now tenant_id actor_id owner_principal_id command =
     transaction (\<lambda>db.
       case existing_memory_command tenant_id actor_id CORRECT_COMMAND (cm_idempotency_key command) db of
         Some existing \<Rightarrow> (required_result_item existing, db)
       | None \<Rightarrow>
           (case select_row ir_tenant_id tenant_id (cm_memory_id command) (td_items db) of
              None \<Rightarrow> (Inl (LookupError ''Owned active Memory Item not found''), db)
            | Some row \<Rightarrow>
                if ir_owner_principal_id row \<noteq> owner_principal_id \<or> ir_state row \<noteq> ACTIVE_MEMORY
                then (Inl (LookupError ''Owned active Memory Item not found''), db)
                else (case ir_item row of
                  None \<Rightarrow> (Inl (ValueError ''MemoryItem''), db)
                | Some original \<Rightarrow>
                    let corrected = \<lparr>mi_id = uid, mi_owner_principal_id = Some owner_principal_id, mi_scope = PRIVATE,
                          mi_content = cm_replacement_content command, mi_kind = cm_kind command,
                          mi_confidence = cm_confidence command,
                          mi_provenance = \<lparr>pv_actor_id = actor_id, pv_source = ''correction''\<rparr>, mi_created_at = now,
                          mi_state = ACTIVE_MEMORY, mi_supersedes_id = Some (cm_memory_id command)\<rparr>
                    in and_then (insert_memory_command ids now (command_for tenant_id actor_id owner_principal_id
                           CORRECT_COMMAND (cm_idempotency_key command) (Some (cm_memory_id command))) corrected
                           (correct_payload command) db)
                         (\<lambda>_ db. (Inr corrected, supersede_item tenant_id (cm_memory_id command) original db)))))"

text \<open>\<^verbatim>\<open>UPDATE ... SET state = 'superseded' ... AND state = 'active'\<close> of an imported correction.\<close>

definition supersede_imported_parent :: "string \<Rightarrow> string \<Rightarrow> tenant_database \<Rightarrow> tenant_database" where
  "supersede_imported_parent tenant_id memory_id db =
     db\<lparr>td_items := update_where
       (\<lambda>r. ir_tenant_id r = tenant_id \<and> ir_memory_id r = memory_id \<and> ir_state r = ACTIVE_MEMORY)
       (\<lambda>r. r\<lparr>ir_state := SUPERSEDED, ir_item := map_option (\<lambda>x. x\<lparr>mi_state := SUPERSEDED\<rparr>) (ir_item r)\<rparr>) (td_items db)\<rparr>"

definition pg_accept_import ::
  "string \<times> string \<Rightarrow> datetime \<Rightarrow> string \<Rightarrow> string \<Rightarrow> string \<Rightarrow> memory_item \<Rightarrow> tenant_database \<Rightarrow>
   (memory_item \<times> bool, tenant_database) outcome" where
  "pg_accept_import ids now tenant_id actor_id owner_principal_id item =
     transaction (\<lambda>db.
       let imported = item\<lparr>mi_owner_principal_id := Some owner_principal_id, mi_scope := PRIVATE\<rparr>
       in case select_row ir_tenant_id tenant_id (mi_id imported) (td_items db) of
            Some row \<Rightarrow>
              if ir_owner_principal_id row \<noteq> owner_principal_id
              then (Inl (ValueError ''Memory Item identifier belongs to another Principal''), db)
              else (case ir_item row of
                      None \<Rightarrow> (Inl (ValueError ''An erased Memory Item identifier cannot be restored''), db)
                    | Some existing \<Rightarrow> (Inr (existing, False), db))
          | None \<Rightarrow>
              and_then (insert_memory_command ids now (command_for tenant_id actor_id owner_principal_id IMPORT_COMMAND
                  (mi_id imported) (mi_supersedes_id imported)) imported
                  (JObject [(''archive_memory_id'', JString (mi_id imported))]) db)
                (\<lambda>_ db. (Inr (imported, True),
                   case mi_supersedes_id imported of
                     None \<Rightarrow> db | Some parent_id \<Rightarrow> supersede_imported_parent tenant_id parent_id db)))"

section \<open>Applying a command\<close>

text \<open>
  \<^verbatim>\<open>_complete_erasure_command\<close>: the content goes from the item and from every command that resulted
  in it, and the request loses its free text.
\<close>

definition erase_item :: "string \<Rightarrow> string \<Rightarrow> string \<Rightarrow> tenant_database \<Rightarrow> tenant_database" where
  "erase_item tenant_id owner_principal_id memory_id db =
     db\<lparr>td_items := update_where (\<lambda>r. ir_tenant_id r = tenant_id \<and> ir_owner_principal_id r = owner_principal_id \<and>
           ir_memory_id r = memory_id)
         (\<lambda>r. r\<lparr>ir_state := ERASED, ir_item := None\<rparr>) (td_items db),
       td_commands := update_where (\<lambda>r. pc_tenant_id r = tenant_id \<and> cr_result_memory_id r = Some memory_id)
         (\<lambda>r. r\<lparr>pc_result_item := None, cr_payload := JObject []\<rparr>) (td_commands db)\<rparr>"

definition complete_erasure_request :: "datetime \<Rightarrow> string \<Rightarrow> string \<Rightarrow> tenant_database \<Rightarrow> (unit, tenant_database) outcome" where
  "complete_erasure_request now tenant_id request_id db =
     (let applies = (\<lambda>r. er_tenant_id r = tenant_id \<and> er_id r = request_id \<and>
            er_status r \<in> {ERASURE_APPROVED, ERASURE_COMPLETED})
      in if length (filter applies (dict_values (td_erasures db))) \<noteq> 1
         then (Inl (ValueError ''Erasure Request is not approved''), db)
         else (Inr (), write_audit tenant_id ''memory-projection-worker'' ''erasure.completed'' ''erasure_request''
           request_id ''completed''
           (db\<lparr>td_erasures := update_where applies
                 (\<lambda>r. r\<lparr>er_status := ERASURE_COMPLETED, er_reason := None, er_review_rationale := None,
                    er_completed_at := (case er_completed_at r of None \<Rightarrow> Some now | Some t \<Rightarrow> Some t)\<rparr>) (td_erasures db),
               td_erasure_reviews := update_where (\<lambda>v. vr_tenant_id v = tenant_id \<and> vr_subject_id v = request_id)
                 (\<lambda>v. v\<lparr>vr_rationale := None\<rparr>) (td_erasure_reviews db)\<rparr>)))"

definition complete_erasure_command :: "datetime \<Rightarrow> private_memory_command \<Rightarrow> tenant_database \<Rightarrow> (unit, tenant_database) outcome" where
  "complete_erasure_command now command db =
     (case pc_target_memory_id command of
        None \<Rightarrow> (Inl (AdapterError ''AssertionError''), db)
      | Some memory_id \<Rightarrow>
          let db = erase_item (pc_tenant_id command) (pc_owner_principal_id command) memory_id db
          in case pc_erasure_request_id command of
               None \<Rightarrow> (Inr (), db)
             | Some request_id \<Rightarrow> complete_erasure_request now (pc_tenant_id command) request_id db)"

text \<open>A command becomes applied together with its event.\<close>

definition applied_in :: "datetime \<Rightarrow> string \<Rightarrow> string \<Rightarrow> tenant_database \<Rightarrow> tenant_database" where
  "applied_in now tenant_id command_id db =
     mark_processed now tenant_id command_id ''memory.command.accepted''
       (db\<lparr>td_commands := update_where (\<lambda>r. pc_tenant_id r = tenant_id \<and> pc_id r = command_id)
          (\<lambda>r. r\<lparr>pc_state := APPLIED\<rparr>) (td_commands db)\<rparr>)"

definition pg_mark_memory_command_applied ::
  "datetime \<Rightarrow> string \<Rightarrow> string \<Rightarrow> tenant_database \<Rightarrow> (private_memory_command, tenant_database) outcome" where
  "pg_mark_memory_command_applied now tenant_id command_id =
     transaction (\<lambda>db.
       case pg_get_memory_command tenant_id command_id db of
         None \<Rightarrow> (Inl (LookupError ''Private Memory Command not found''), db)
       | Some current \<Rightarrow>
           if pc_state current = APPLIED then (Inr current, db)
           else if pc_state current \<noteq> ACCEPTED
           then (Inl (ValueError ''Private Memory Command is not awaiting projection''), db)
           else and_then (if pc_command_type current = ERASE_COMMAND then complete_erasure_command now current db
                          else (Inr (), db)) (\<lambda>_ db.
             let db = applied_in now tenant_id command_id db
             in case pg_get_memory_command tenant_id command_id db of
                  None \<Rightarrow> (Inl (RuntimeError ''Tenant Operations Store did not return the persisted record''), db)
                | Some applied \<Rightarrow> (Inr applied, write_audit tenant_id ''memory-projection-worker''
                    (''memory.'' @ command_type_value (pc_command_type current) @ ''.applied'')
                    ''private_memory_command'' command_id ''applied'' db)))"

section \<open>Listings\<close>

definition inspection_of_row :: "item_row \<Rightarrow> command_row \<Rightarrow> private_memory_inspection" where
  "inspection_of_row row command =
     \<lparr>pi_id = ir_memory_id row, pi_owner_principal_id = ir_owner_principal_id row, pi_state = ir_state row,
      pi_operation_id = Some (ir_source_command_id row), pi_mutation_state = pc_state command,
      pi_content = map_option mi_content (ir_item row), pi_kind = map_option mi_kind (ir_item row),
      pi_confidence = map_option mi_confidence (ir_item row), pi_created_at = ir_created_at row,
      pi_supersedes_id = Option.bind (ir_item row) mi_supersedes_id\<rparr>"

definition pg_list_private_memory_state :: "string \<Rightarrow> string \<Rightarrow> tenant_database \<Rightarrow> private_memory_inspection list" where
  "pg_list_private_memory_state tenant_id owner_principal_id db =
     List.map_filter (\<lambda>row. map_option (inspection_of_row row) (dict_get (td_commands db) (ir_source_command_id row)))
       (select_ordered (\<lambda>r. ir_tenant_id r = tenant_id \<and> ir_owner_principal_id r = owner_principal_id)
          (\<lambda>r. (ir_created_at r, ir_memory_id r)) (td_items db))"

definition pg_list_private_memory_items :: "string \<Rightarrow> string \<Rightarrow> tenant_database \<Rightarrow> memory_item list" where
  "pg_list_private_memory_items tenant_id owner_principal_id db =
     List.map_filter ir_item
       (select_ordered (\<lambda>r. ir_tenant_id r = tenant_id \<and> ir_owner_principal_id r = owner_principal_id \<and> ir_item r \<noteq> None)
          (\<lambda>r. (ir_created_at r, ir_memory_id r)) (td_items db))"

end
