(* ===== verification/DurableErasure.thy ===== *)
theory DurableErasure
  imports DurableMemory
begin

text \<open>
  Erasure requests in the durable store (\<^verbatim>\<open>stores/postgres_governance.py\<close>). An approval enqueues an
  erase command in the same transaction; a request whose item predates the ledger has no command
  and is left to the polling worker (\<^verbatim>\<open>next_approved\<close>, \<^verbatim>\<open>mark_completed\<close>).
\<close>

section \<open>Requests\<close>

fun erasure_status_value :: "erasure_status \<Rightarrow> string" where
  "erasure_status_value ERASURE_REQUESTED = ''requested''"
| "erasure_status_value ERASURE_APPROVED = ''approved''"
| "erasure_status_value ERASURE_REJECTED = ''rejected''"
| "erasure_status_value ERASURE_COMPLETED = ''completed''"
| "erasure_status_value ERASURE_FAILED = ''failed''"

fun erasure_decision_value :: "erasure_decision \<Rightarrow> string" where
  "erasure_decision_value APPROVE_ERASURE = ''approve''"
| "erasure_decision_value REJECT_ERASURE = ''reject''"

definition decode_erasure :: "erasure_row \<Rightarrow> erasure_request" where
  "decode_erasure row = erasure_request.truncate row"

text \<open>\<^verbatim>\<open>ON CONFLICT (tenant_id, requester_id, request_idempotency_key) DO UPDATE\<close> returns the row found.\<close>

definition pg_request ::
  "string \<Rightarrow> datetime \<Rightarrow> string \<Rightarrow> string \<Rightarrow> string \<Rightarrow> request_erasure_command \<Rightarrow> tenant_database \<Rightarrow>
   (erasure_request, tenant_database) outcome" where
  "pg_request uid now tenant_id requester_id owner_principal_id command =
     transaction (\<lambda>db.
       case select_first (\<lambda>r. er_tenant_id r = tenant_id \<and> er_requester_id r = requester_id \<and>
              rr_request_idempotency_key r = re_idempotency_key command) (td_erasures db) of
         Some row \<Rightarrow> (Inr (decode_erasure row), db)
       | None \<Rightarrow>
           let row = \<lparr>er_id = uid, er_tenant_id = tenant_id, er_memory_id = re_memory_id command,
                 er_requester_id = requester_id, er_owner_principal_id = owner_principal_id,
                 er_reason = Some (re_reason command), er_status = ERASURE_REQUESTED, er_created_at = now,
                 er_reviewed_by = None, er_review_rationale = None, er_completed_at = None,
                 rr_request_idempotency_key = re_idempotency_key command\<rparr>
           in case insert_row (\<lambda>_. False) uid row (td_erasures db) of
                Inl e \<Rightarrow> (Inl e, db)
              | Inr table \<Rightarrow> (Inr (decode_erasure row), write_audit tenant_id requester_id ''erasure.requested''
                  ''erasure_request'' uid ''requested'' (db\<lparr>td_erasures := table\<rparr>)))"

definition pg_get_request :: "string \<Rightarrow> string \<Rightarrow> tenant_database \<Rightarrow> erasure_request option" where
  "pg_get_request tenant_id request_id db =
     map_option decode_erasure (select_row er_tenant_id tenant_id request_id (td_erasures db))"

section \<open>The erase command of an approval\<close>

definition new_erase_row :: "string \<Rightarrow> datetime \<Rightarrow> string \<Rightarrow> string \<Rightarrow> erasure_request \<Rightarrow> command_row" where
  "new_erase_row command_id now tenant_id actor_id request =
     \<lparr>pc_id = command_id, pc_tenant_id = tenant_id, pc_actor_id = actor_id,
      pc_owner_principal_id = er_owner_principal_id request, pc_command_type = ERASE_COMMAND,
      pc_idempotency_key = er_id request, pc_target_memory_id = Some (er_memory_id request),
      pc_result_item = None, pc_erasure_request_id = Some (er_id request), pc_state = ACCEPTED,
      pc_created_at = now, cr_result_memory_id = None,
      cr_payload = JObject [(''erasure_request_id'', JString (er_id request))]\<rparr>"

definition set_erasure_pending :: "string \<Rightarrow> string \<Rightarrow> tenant_database \<Rightarrow> tenant_database" where
  "set_erasure_pending tenant_id memory_id db =
     db\<lparr>td_items := update_where (\<lambda>r. ir_tenant_id r = tenant_id \<and> ir_memory_id r = memory_id)
       (\<lambda>r. r\<lparr>ir_state := ERASURE_PENDING\<rparr>) (td_items db)\<rparr>"

definition insert_erasure_memory_command ::
  "string \<times> string \<Rightarrow> datetime \<Rightarrow> string \<Rightarrow> string \<Rightarrow> erasure_request \<Rightarrow> tenant_database \<Rightarrow>
   (unit, tenant_database) outcome" where
  "insert_erasure_memory_command ids now tenant_id actor_id request db =
     (let row = new_erase_row (fst ids) now tenant_id actor_id request
      in and_then (put_commands db (insert_row (\<lambda>r. same_command (decode_memory_command row) r \<or>
             pc_erasure_request_id r = Some (er_id request)) (fst ids) row (td_commands db))) (\<lambda>_ db.
         and_then (insert_outbox (snd ids) now tenant_id ''private_memory_command'' (fst ids) ''memory.command.accepted''
             (set_erasure_pending tenant_id (er_memory_id request) db))
           (\<lambda>_ db. (Inr (), write_audit tenant_id actor_id ''memory.erase.accepted'' ''private_memory_command''
              (fst ids) ''accepted'' db))))"

text \<open>What an approval does to the item; a missing row predates the ledger.\<close>

definition enqueue_erasure ::
  "string \<times> string \<Rightarrow> datetime \<Rightarrow> string \<Rightarrow> string \<Rightarrow> erasure_request \<Rightarrow> tenant_database \<Rightarrow>
   (unit, tenant_database) outcome" where
  "enqueue_erasure ids now tenant_id reviewer_id request db =
     (case select_row ir_tenant_id tenant_id (er_memory_id request) (td_items db) of
        None \<Rightarrow> (Inr (), db)
      | Some row \<Rightarrow>
          if ir_owner_principal_id row \<noteq> er_owner_principal_id request
          then (Inl (ValueError ''Erasure target belongs to another Principal''), db)
          else if ir_state row = ERASED then (Inl (ValueError ''Erasure target is already erased''), db)
          else insert_erasure_memory_command ids now tenant_id reviewer_id request db)"

definition insert_review ::
  "string \<Rightarrow> string \<Rightarrow> string \<Rightarrow> string \<Rightarrow> string \<Rightarrow> string option \<Rightarrow> string \<Rightarrow> (string, review_row) dict \<Rightarrow>
   (string, review_row) dict result" where
  "insert_review review_id tenant_id subject_id reviewer_id decision rationale idempotency_key table =
     insert_row (\<lambda>v. vr_subject_id v = subject_id \<or> vr_tenant_id v = tenant_id \<and> vr_reviewer_id v = reviewer_id \<and>
         vr_idempotency_key v = idempotency_key) review_id
       \<lparr>vr_tenant_id = tenant_id, vr_subject_id = subject_id, vr_reviewer_id = reviewer_id, vr_decision = decision,
        vr_rationale = rationale, vr_idempotency_key = idempotency_key\<rparr> table"

text \<open>The review that a retry repeats: its subject.\<close>

definition reviewed_subject :: "string \<Rightarrow> string \<Rightarrow> string \<Rightarrow> (string, review_row) dict \<Rightarrow> string option" where
  "reviewed_subject tenant_id reviewer_id idempotency_key table =
     map_option vr_subject_id (select_first (\<lambda>v. vr_tenant_id v = tenant_id \<and> vr_reviewer_id v = reviewer_id \<and>
       vr_idempotency_key v = idempotency_key) table)"

definition decided_status :: "review_erasure_command \<Rightarrow> erasure_status" where
  "decided_status command = (if ve_decision command = APPROVE_ERASURE then ERASURE_APPROVED else ERASURE_REJECTED)"

text \<open>The review and the decision, with their audit record.\<close>

definition record_erasure_review ::
  "string \<Rightarrow> string \<Rightarrow> review_erasure_command \<Rightarrow> string \<Rightarrow> (string, review_row) dict \<Rightarrow> tenant_database \<Rightarrow> tenant_database" where
  "record_erasure_review tenant_id reviewer_id command request_id reviews db =
     write_audit tenant_id reviewer_id ''erasure.reviewed'' ''erasure_request'' request_id
       (erasure_status_value (decided_status command))
       (db\<lparr>td_erasure_reviews := reviews,
           td_erasures := update_where (\<lambda>r. er_id r = request_id)
             (\<lambda>r. r\<lparr>er_status := decided_status command, er_reviewed_by := Some reviewer_id,
                er_review_rationale := Some (ve_rationale command)\<rparr>) (td_erasures db)\<rparr>)"

definition pg_review_erasure ::
  "string \<Rightarrow> string \<times> string \<Rightarrow> datetime \<Rightarrow> string \<Rightarrow> string \<Rightarrow> review_erasure_command \<Rightarrow> tenant_database \<Rightarrow>
   (erasure_request, tenant_database) outcome" where
  "pg_review_erasure review_id ids now tenant_id reviewer_id command =
     transaction (\<lambda>db.
       case Option.bind (reviewed_subject tenant_id reviewer_id (ve_idempotency_key command) (td_erasure_reviews db))
              (dict_get (td_erasures db)) of
         Some row \<Rightarrow> (Inr (decode_erasure row), db)
       | None \<Rightarrow>
           (case pg_get_request tenant_id (ve_request_id command) db of
              None \<Rightarrow> (Inl (LookupError ''Erasure Request not found''), db)
            | Some request \<Rightarrow>
                if er_status request \<noteq> ERASURE_REQUESTED
                then (Inl (ValueError ''Erasure Request is not awaiting review''), db)
                else (case insert_review review_id tenant_id (er_id request) reviewer_id
                        (erasure_decision_value (ve_decision command)) (Some (ve_rationale command))
                        (ve_idempotency_key command) (td_erasure_reviews db) of
                     Inl e \<Rightarrow> (Inl e, db)
                   | Inr reviews \<Rightarrow>
                       let db = record_erasure_review tenant_id reviewer_id command (er_id request) reviews db
                       in and_then (if decided_status command = ERASURE_APPROVED
                                    then enqueue_erasure ids now tenant_id reviewer_id request db
                                    else (Inr (), db))
                            (\<lambda>_ db. (Inr (request\<lparr>er_status := decided_status command, er_reviewed_by := Some reviewer_id,
                               er_review_rationale := Some (ve_rationale command)\<rparr>), db)))))"

section \<open>Completion\<close>

definition pg_next_approved :: "string \<Rightarrow> tenant_database \<Rightarrow> erasure_request option" where
  "pg_next_approved tenant_id db =
     (case select_ordered (\<lambda>r. er_tenant_id r = tenant_id \<and> er_status r = ERASURE_APPROVED \<and>
              \<not> list_ex (\<lambda>c. pc_erasure_request_id c = Some (er_id r)) (dict_values (td_commands db)))
            (\<lambda>r. (er_created_at r, er_id r)) (td_erasures db) of
        [] \<Rightarrow> None | row # _ \<Rightarrow> Some (decode_erasure row))"

definition scrub_reviews :: "string \<Rightarrow> string \<Rightarrow> tenant_database \<Rightarrow> tenant_database" where
  "scrub_reviews tenant_id request_id db =
     db\<lparr>td_erasure_reviews := update_where (\<lambda>v. vr_tenant_id v = tenant_id \<and> vr_subject_id v = request_id)
       (\<lambda>v. v\<lparr>vr_rationale := None\<rparr>) (td_erasure_reviews db)\<rparr>"

definition pg_mark_completed ::
  "datetime \<Rightarrow> string \<Rightarrow> string \<Rightarrow> tenant_database \<Rightarrow> (erasure_request, tenant_database) outcome" where
  "pg_mark_completed now tenant_id request_id =
     transaction (\<lambda>db.
       case pg_get_request tenant_id request_id db of
         None \<Rightarrow> (Inl (LookupError ''Erasure Request not found''), db)
       | Some current \<Rightarrow>
           if er_status current = ERASURE_APPROVED
           then (Inr (current\<lparr>er_status := ERASURE_COMPLETED, er_reason := None, er_review_rationale := None,
                   er_completed_at := Some now\<rparr>),
                 write_audit tenant_id ''erasure-worker'' ''erasure.completed'' ''erasure_request'' request_id ''completed''
                   (scrub_reviews tenant_id request_id
                     (db\<lparr>td_erasures := update_where (\<lambda>r. er_tenant_id r = tenant_id \<and> er_id r = request_id)
                       (\<lambda>r. r\<lparr>er_status := ERASURE_COMPLETED, er_reason := None, er_review_rationale := None,
                          er_completed_at := Some now\<rparr>) (td_erasures db)\<rparr>)))
           else if er_status current = ERASURE_COMPLETED
           then (Inr (current\<lparr>er_reason := None, er_review_rationale := None\<rparr>),
                 scrub_reviews tenant_id request_id
                   (db\<lparr>td_erasures := update_where (\<lambda>r. er_tenant_id r = tenant_id \<and> er_id r = request_id)
                     (\<lambda>r. r\<lparr>er_reason := None, er_review_rationale := None\<rparr>) (td_erasures db)\<rparr>))
           else (Inl (ValueError ''Erasure Request is not approved''), db))"

text \<open>\<^verbatim>\<open>tuple(erasure_tombstone(...) for row in rows)\<close> raises with the first row that is no tombstone.\<close>

fun tombstones_of :: "erasure_row list \<Rightarrow> erasure_tombstone list result" where
  "tombstones_of [] = Inr []"
| "tombstones_of (row # rows) =
     (case erasure_tombstone_of (decode_erasure row) of
        Inl e \<Rightarrow> Inl e
      | Inr t \<Rightarrow> (case tombstones_of rows of Inl e \<Rightarrow> Inl e | Inr ts \<Rightarrow> Inr (t # ts)))"

definition pg_list_completed :: "string \<Rightarrow> string \<Rightarrow> tenant_database \<Rightarrow> erasure_tombstone list result" where
  "pg_list_completed tenant_id owner_principal_id db =
     tombstones_of (select_ordered (\<lambda>r. er_tenant_id r = tenant_id \<and> er_owner_principal_id r = owner_principal_id \<and>
       er_status r = ERASURE_COMPLETED) (\<lambda>r. (er_created_at r, er_id r)) (td_erasures db))"

text \<open>\<open>H\<close> is the hexadecimal SHA-256 of a tombstone's identifier.\<close>

definition pg_import_tombstone ::
  "(string \<Rightarrow> string) \<Rightarrow> string \<Rightarrow> string \<Rightarrow> string \<Rightarrow> erasure_tombstone \<Rightarrow> tenant_database \<Rightarrow>
   (bool, tenant_database) outcome" where
  "pg_import_tombstone H review_id tenant_id owner_principal_id tombstone =
     transaction (\<lambda>db.
       case dict_get (td_erasures db) (et_id tombstone) of
         Some row \<Rightarrow>
           (case erasure_tombstone_of (decode_erasure row) of
              Inl e \<Rightarrow> (if er_tenant_id row \<noteq> tenant_id
                then Inl (ValueError ''Erasure Tombstone identifier already has different data'') else Inl e, db)
            | Inr existing \<Rightarrow>
                if er_tenant_id row \<noteq> tenant_id \<or> existing \<noteq> tombstone\<lparr>et_owner_principal_id := owner_principal_id\<rparr>
                then (Inl (ValueError ''Erasure Tombstone identifier already has different data''), db)
                else (Inr False, db))
       | None \<Rightarrow>
           if (case select_row ir_tenant_id tenant_id (et_memory_id tombstone) (td_items db) of
                 None \<Rightarrow> False | Some row \<Rightarrow> ir_state row \<noteq> ERASED)
           then (Inl (ValueError ''Erasure Tombstone conflicts with an active Memory Item''), db)
           else
             let archive_key = ''archive:'' @ H (et_id tombstone);
                 row = \<lparr>er_id = et_id tombstone, er_tenant_id = tenant_id, er_memory_id = et_memory_id tombstone,
                   er_requester_id = et_requester_id tombstone, er_owner_principal_id = owner_principal_id,
                   er_reason = None, er_status = ERASURE_COMPLETED, er_created_at = et_created_at tombstone,
                   er_reviewed_by = Some (et_reviewed_by tombstone), er_review_rationale = None,
                   er_completed_at = Some (et_completed_at tombstone), rr_request_idempotency_key = archive_key\<rparr>
             in case insert_row (\<lambda>r. er_tenant_id r = tenant_id \<and> er_requester_id r = et_requester_id tombstone \<and>
                       rr_request_idempotency_key r = archive_key) (et_id tombstone) row (td_erasures db) of
                  Inl e \<Rightarrow> (Inl e, db)
                | Inr erasures \<Rightarrow>
                    (case insert_review review_id tenant_id (et_id tombstone) (et_reviewed_by tombstone) ''approve'' None
                            archive_key (td_erasure_reviews db) of
                       Inl e \<Rightarrow> (Inl e, db)
                     | Inr reviews \<Rightarrow> (Inr True, write_audit tenant_id owner_principal_id ''erasure.tombstone_imported''
                         ''erasure_request'' (et_id tombstone) ''completed''
                         (db\<lparr>td_erasures := erasures, td_erasure_reviews := reviews\<rparr>))))"

end
