(* ===== verification/DurableKnowledge.thy ===== *)
theory DurableKnowledge
  imports DurableErasure
begin

text \<open>
  Knowledge Candidates in the durable store (\<^verbatim>\<open>stores/postgres_governance.py\<close>): an approval writes
  the publication event to the outbox in the transaction that records the review.
\<close>

fun candidate_status_value :: "candidate_status \<Rightarrow> string" where
  "candidate_status_value SUBMITTED = ''submitted''"
| "candidate_status_value APPROVED_CANDIDATE = ''approved''"
| "candidate_status_value REJECTED_CANDIDATE = ''rejected''"
| "candidate_status_value PUBLISHING = ''publishing''"
| "candidate_status_value PUBLISHED = ''published''"
| "candidate_status_value FAILED_CANDIDATE = ''failed''"

fun review_decision_value :: "review_decision \<Rightarrow> string" where
  "review_decision_value APPROVE = ''approve''"
| "review_decision_value REJECT = ''reject''"

definition decode_candidate :: "candidate_row \<Rightarrow> knowledge_candidate" where
  "decode_candidate row = knowledge_candidate.truncate row"

section \<open>Proposals and listings\<close>

definition pg_propose ::
  "string \<Rightarrow> datetime \<Rightarrow> string \<Rightarrow> string \<Rightarrow> propose_knowledge_command \<Rightarrow> tenant_database \<Rightarrow>
   (knowledge_candidate, tenant_database) outcome" where
  "pg_propose uid now tenant_id proposer_id command =
     transaction (\<lambda>db.
       case select_first (\<lambda>r. kc_tenant_id r = tenant_id \<and> kc_proposer_id r = proposer_id \<and>
              dr_proposal_idempotency_key r = Some (pk_idempotency_key command)) (td_candidates db) of
         Some row \<Rightarrow> (Inr (decode_candidate row), db)
       | None \<Rightarrow>
           let row = \<lparr>kc_id = uid, kc_tenant_id = tenant_id, kc_claim = pk_claim command,
                 kc_confidence = pk_confidence command, kc_proposer_id = proposer_id,
                 kc_source_memory_ids = pk_source_memory_ids command,
                 kc_duplicate_memory_ids = pk_duplicate_memory_ids command,
                 kc_conflicting_memory_ids = pk_conflicting_memory_ids command,
                 kc_status = SUBMITTED, kc_created_at = now, kc_reviewed_by = None, kc_review_rationale = None,
                 dr_proposal_idempotency_key = Some (pk_idempotency_key command)\<rparr>
           in case insert_row (\<lambda>_. False) uid row (td_candidates db) of
                Inl e \<Rightarrow> (Inl e, db)
              | Inr table \<Rightarrow> (Inr (decode_candidate row), write_audit tenant_id proposer_id ''knowledge.proposed''
                  ''knowledge_candidate'' uid ''submitted'' (db\<lparr>td_candidates := table\<rparr>)))"

definition pg_get_candidate :: "string \<Rightarrow> string \<Rightarrow> tenant_database \<Rightarrow> knowledge_candidate option" where
  "pg_get_candidate tenant_id candidate_id db =
     map_option decode_candidate (select_row kc_tenant_id tenant_id candidate_id (td_candidates db))"

definition pg_list_candidates :: "string \<Rightarrow> tenant_database \<Rightarrow> knowledge_candidate list" where
  "pg_list_candidates tenant_id db =
     map decode_candidate (select_ordered (\<lambda>r. kc_tenant_id r = tenant_id) (\<lambda>r. (kc_created_at r, kc_id r)) (td_candidates db))"

text \<open>An imported candidate has no proposal key; the identifier found may be of another Tenant.\<close>

definition pg_import_candidate ::
  "datetime \<Rightarrow> string \<Rightarrow> string \<Rightarrow> string \<Rightarrow> string \<Rightarrow> rat \<Rightarrow> tenant_database \<Rightarrow>
   (knowledge_candidate, tenant_database) outcome" where
  "pg_import_candidate now tenant_id proposer_id candidate_id claim confidence =
     transaction (\<lambda>db.
       case dict_get (td_candidates db) candidate_id of
         Some row \<Rightarrow>
           if kc_tenant_id row \<noteq> tenant_id
           then (Inl (ValueError ''Knowledge Candidate identifier belongs to another Tenant''), db)
           else (Inr (decode_candidate row), db)
       | None \<Rightarrow>
           let row = \<lparr>kc_id = candidate_id, kc_tenant_id = tenant_id, kc_claim = claim, kc_confidence = confidence,
                 kc_proposer_id = proposer_id, kc_source_memory_ids = [], kc_duplicate_memory_ids = [],
                 kc_conflicting_memory_ids = [], kc_status = SUBMITTED, kc_created_at = now, kc_reviewed_by = None,
                 kc_review_rationale = None, dr_proposal_idempotency_key = None\<rparr>
           in (Inr (decode_candidate row), write_audit tenant_id proposer_id ''knowledge.imported''
                 ''knowledge_candidate'' candidate_id ''submitted''
                 (db\<lparr>td_candidates := dict_set candidate_id row (td_candidates db)\<rparr>)))"

section \<open>Review and publication\<close>

definition pg_review_knowledge ::
  "string \<Rightarrow> string \<Rightarrow> datetime \<Rightarrow> string \<Rightarrow> string \<Rightarrow> review_knowledge_command \<Rightarrow> tenant_database \<Rightarrow>
   (knowledge_candidate, tenant_database) outcome" where
  "pg_review_knowledge review_id event_id now tenant_id reviewer_id command =
     transaction (\<lambda>db.
       case Option.bind (reviewed_subject tenant_id reviewer_id (rk_idempotency_key command) (td_knowledge_reviews db))
              (dict_get (td_candidates db)) of
         Some row \<Rightarrow> (Inr (decode_candidate row), db)
       | None \<Rightarrow>
           (case pg_get_candidate tenant_id (rk_candidate_id command) db of
              None \<Rightarrow> (Inl (LookupError ''Knowledge Candidate not found''), db)
            | Some candidate \<Rightarrow>
                if kc_status candidate \<noteq> SUBMITTED
                then (Inl (ValueError ''Knowledge Candidate is not awaiting review''), db)
                else
                  let status = (if rk_decision command = APPROVE then PUBLISHING else REJECTED_CANDIDATE);
                      reviewed = candidate\<lparr>kc_status := status, kc_reviewed_by := Some reviewer_id,
                        kc_review_rationale := Some (rk_rationale command)\<rparr>
                  in case insert_review review_id tenant_id (kc_id candidate) reviewer_id
                          (review_decision_value (rk_decision command)) (Some (rk_rationale command))
                          (rk_idempotency_key command) (td_knowledge_reviews db) of
                       Inl e \<Rightarrow> (Inl e, db)
                     | Inr reviews \<Rightarrow>
                         let db = write_audit tenant_id reviewer_id ''knowledge.reviewed'' ''knowledge_candidate''
                               (kc_id candidate) (candidate_status_value status)
                               (db\<lparr>td_knowledge_reviews := reviews,
                                   td_candidates := update_where (\<lambda>r. kc_id r = kc_id candidate)
                                     (\<lambda>r. r\<lparr>kc_status := status, kc_reviewed_by := Some reviewer_id,
                                        kc_review_rationale := Some (rk_rationale command)\<rparr>) (td_candidates db)\<rparr>)
                         in and_then (if status = PUBLISHING
                                      then insert_outbox event_id now tenant_id ''knowledge_candidate'' (kc_id candidate)
                                             ''knowledge.approved'' db
                                      else (Inr (), db)) (\<lambda>_ db. (Inr reviewed, db))))"

definition publication_of_row :: "outbox_row \<Rightarrow> publication_event" where
  "publication_of_row r = \<lparr>pe_id = ob_event_id r, pe_tenant_id = ob_tenant_id r, pe_candidate_id = ob_aggregate_id r,
     pe_created_at = ob_created_at r\<rparr>"

definition pg_next_publication :: "string \<Rightarrow> tenant_database \<Rightarrow> publication_event option" where
  "pg_next_publication tenant_id db =
     (case select_ordered (\<lambda>r. ob_tenant_id r = tenant_id \<and> ob_event_type r = ''knowledge.approved'' \<and>
              ob_processed_at r = None) (\<lambda>r. (ob_created_at r, ob_event_id r)) (td_outbox db) of
        [] \<Rightarrow> None | r # _ \<Rightarrow> Some (publication_of_row r))"

definition pg_get_publication ::
  "string \<Rightarrow> string \<Rightarrow> string \<Rightarrow> tenant_database \<Rightarrow> publication_event option" where
  "pg_get_publication event_id tenant_id candidate_id db =
     (case dict_get (td_outbox db) event_id of
        None \<Rightarrow> None
      | Some r \<Rightarrow> if ob_tenant_id r = tenant_id \<and> ob_aggregate_id r = candidate_id \<and> ob_event_type r = ''knowledge.approved''
          then Some (publication_of_row r) else None)"

definition pg_mark_published ::
  "datetime \<Rightarrow> string \<Rightarrow> string \<Rightarrow> tenant_database \<Rightarrow> (knowledge_candidate, tenant_database) outcome" where
  "pg_mark_published now tenant_id candidate_id =
     transaction (\<lambda>db.
       case pg_get_candidate tenant_id candidate_id db of
         None \<Rightarrow> (Inl (LookupError ''Knowledge Candidate not found''), db)
       | Some current \<Rightarrow>
           if kc_status current = PUBLISHING
           then (Inr (current\<lparr>kc_status := PUBLISHED\<rparr>),
                 write_audit tenant_id ''publication-worker'' ''knowledge.published'' ''knowledge_candidate''
                   candidate_id ''published''
                   (mark_processed now tenant_id candidate_id ''knowledge.approved''
                     (db\<lparr>td_candidates := update_where (\<lambda>r. kc_tenant_id r = tenant_id \<and> kc_id r = candidate_id \<and>
                           kc_status r = PUBLISHING)
                         (\<lambda>r. r\<lparr>kc_status := PUBLISHED\<rparr>) (td_candidates db)\<rparr>)))
           else if kc_status current = PUBLISHED then (Inr current, db)
           else (Inl (ValueError ''Knowledge Candidate is not awaiting publication''), db))"

end
