(* ===== verification/DurableOutbox.thy ===== *)
theory DurableOutbox
  imports DurableKnowledge
begin

text \<open>
  The transactional outbox of the durable store (\<^verbatim>\<open>stores/postgres_governance.py\<close>): a relay leases one
  event at a time under a lock identifier, and settles it under the same identifier.
\<close>

record outbox_record =
  or_event_id :: string
  or_tenant_id :: string
  or_aggregate_id :: string
  or_event_type :: string
  or_created_at :: datetime
  or_lock_id :: string
  or_aggregate_type :: string

definition claimable :: "datetime \<Rightarrow> int \<Rightarrow> outbox_row \<Rightarrow> bool" where
  "claimable now lease_seconds r \<longleftrightarrow>
     ob_dispatched_at r = None \<and> ob_processed_at r = None \<and> ob_available_at r \<le> now \<and>
     (case ob_locked_at r of None \<Rightarrow> True | Some locked_at \<Rightarrow> locked_at < now - seconds lease_seconds)"

definition pg_claim_outbox ::
  "string \<Rightarrow> datetime \<Rightarrow> int \<Rightarrow> tenant_database \<Rightarrow> (outbox_record option, tenant_database) outcome" where
  "pg_claim_outbox lock_id now lease_seconds =
     transaction (\<lambda>db.
       if lease_seconds < 1 then (Inl (ValueError ''lease_seconds must be positive''), db)
       else case select_ordered (claimable now lease_seconds) (\<lambda>r. (ob_created_at r, ob_event_id r)) (td_outbox db) of
         [] \<Rightarrow> (Inr None, db)
       | r # _ \<Rightarrow>
           (Inr (Some \<lparr>or_event_id = ob_event_id r, or_tenant_id = ob_tenant_id r, or_aggregate_id = ob_aggregate_id r,
              or_event_type = ob_event_type r, or_created_at = ob_created_at r, or_lock_id = lock_id,
              or_aggregate_type = ob_aggregate_type r\<rparr>),
            db\<lparr>td_outbox := update_where (\<lambda>o'. ob_event_id o' = ob_event_id r)
              (\<lambda>o'. o'\<lparr>ob_locked_at := Some now, ob_lock_id := Some lock_id\<rparr>) (td_outbox db)\<rparr>))"

text \<open>\<^verbatim>\<open>UPDATE ... WHERE event_id = %s AND lock_id = %s AND dispatched_at IS NULL RETURNING event_id\<close>\<close>

definition holds_lock :: "string \<Rightarrow> string \<Rightarrow> outbox_row \<Rightarrow> bool" where
  "holds_lock event_id lock_id r \<longleftrightarrow>
     ob_event_id r = event_id \<and> ob_lock_id r = Some lock_id \<and> ob_dispatched_at r = None"

definition settle_claim ::
  "string \<Rightarrow> string \<Rightarrow> (outbox_row \<Rightarrow> outbox_row) \<Rightarrow> tenant_database \<Rightarrow> (unit, tenant_database) outcome" where
  "settle_claim event_id lock_id f =
     transaction (\<lambda>db.
       if list_ex (holds_lock event_id lock_id) (dict_values (td_outbox db))
       then (Inr (), db\<lparr>td_outbox := update_where (holds_lock event_id lock_id) f (td_outbox db)\<rparr>)
       else (Inl (LookupError ''Claimed outbox event not found''), db))"

definition pg_mark_outbox_dispatched ::
  "datetime \<Rightarrow> string \<Rightarrow> string \<Rightarrow> tenant_database \<Rightarrow> (unit, tenant_database) outcome" where
  "pg_mark_outbox_dispatched now event_id lock_id =
     settle_claim event_id lock_id (\<lambda>r. r\<lparr>ob_dispatched_at := Some now, ob_locked_at := None, ob_lock_id := None,
       ob_last_error_code := None\<rparr>)"

definition pg_release_outbox ::
  "datetime \<Rightarrow> string \<Rightarrow> string \<Rightarrow> string \<Rightarrow> tenant_database \<Rightarrow> (unit, tenant_database) outcome" where
  "pg_release_outbox now event_id lock_id error_code =
     settle_claim event_id lock_id (\<lambda>r. r\<lparr>ob_locked_at := None, ob_lock_id := None,
       ob_attempt_count := ob_attempt_count r + 1, ob_last_error_code := Some (take 128 error_code),
       ob_available_at := now + seconds 5\<rparr>)"

definition reopen :: "datetime \<Rightarrow> outbox_row \<Rightarrow> outbox_row" where
  "reopen now r = r\<lparr>ob_dispatched_at := None, ob_locked_at := None, ob_lock_id := None, ob_available_at := now,
     ob_attempt_count := ob_attempt_count r + 1, ob_last_error_code := Some ''OperatorRedrive''\<rparr>"

definition pg_schedule_outbox_redelivery ::
  "datetime \<Rightarrow> string \<Rightarrow> string \<Rightarrow> string \<Rightarrow> tenant_database \<Rightarrow> (unit, tenant_database) outcome" where
  "pg_schedule_outbox_redelivery now tenant_id event_id operator_id =
     transaction (\<lambda>db.
       if py_strip operator_id = '''' then (Inl (ValueError ''Operator ID cannot be empty''), db)
       else case select_row ob_tenant_id tenant_id event_id (td_outbox db) of
         None \<Rightarrow> (Inl (LookupError ''Authoritative unprocessed outbox event not found''), db)
       | Some r \<Rightarrow>
           if ob_processed_at r \<noteq> None
           then (Inl (LookupError ''Authoritative unprocessed outbox event not found''), db)
           else (Inr (), write_audit tenant_id operator_id ''outbox.redrive_scheduled'' (ob_aggregate_type r)
             (ob_aggregate_id r) ''scheduled''
             (db\<lparr>td_outbox := update_where (\<lambda>o'. ob_event_id o' = event_id \<and> ob_tenant_id o' = tenant_id \<and>
                   ob_processed_at o' = None) (reopen now) (td_outbox db)\<rparr>)))"

end
