(* ===== verification/Outbox.thy ===== *)
theory Outbox
  imports DurableOutbox
begin

text \<open>
  Delivery of committed outbox events (\<^verbatim>\<open>outbox.py\<close>): the envelope of an event, the relay that
  publishes events with confirmation, the worker that projects a delivery and acknowledges it, and
  the redriver that reopens one dead letter.

  The broker, the source of events, the Tenant's state and the projectors are protocols of the
  source: records of functions over an arbitrary world, each of which may raise. The body of a
  message is the JSON value that \<^verbatim>\<open>json.loads\<close> finds in it, \<open>None\<close> when it finds none. Logging and
  telemetry are left out.
\<close>

section \<open>Envelopes\<close>

definition APPROVED_EVENT :: string where "APPROVED_EVENT = ''knowledge.approved''"

definition COMMAND_EVENT :: string where "COMMAND_EVENT = ''memory.command.accepted''"

text \<open>\<^verbatim>\<open>json.dumps(envelope, sort_keys=True)\<close>; only the body and the identifier of the message are read again.\<close>

definition message_body :: "outbox_record \<Rightarrow> json" where
  "message_body r = JObject (
     [(''aggregate_id'', JString (or_aggregate_id r)), (''aggregate_type'', JString (or_aggregate_type r))] @
     (if or_event_type r = APPROVED_EVENT then [(''candidate_id'', JString (or_aggregate_id r))] else []) @
     [(''event_id'', JString (or_event_id r)), (''event_type'', JString (or_event_type r)),
      (''tenant_id'', JString (or_tenant_id r)), (''version'', JInt 1)])"

record publication_envelope =
  pn_event_id :: string
  pn_tenant_id :: string
  pn_aggregate_type :: string
  pn_aggregate_id :: string
  pn_event_type :: string

definition envelope_candidate_id :: "publication_envelope \<Rightarrow> string result" where
  "envelope_candidate_id envelope =
     (if pn_event_type envelope \<noteq> APPROVED_EVENT
      then Inl (ValueError ''Envelope does not identify a Knowledge Candidate'') else Inr (pn_aggregate_id envelope))"

text \<open>\<^verbatim>\<open>value.get("version") != 1\<close>: the numbers and the truth value equal to 1 pass.\<close>

fun is_one :: "json \<Rightarrow> bool" where
  "is_one (JInt n) = (n = 1)"
| "is_one (JFloat x) = (x = 1)"
| "is_one (JBool b) = b"
| "is_one _ = False"

fun string_value :: "json option \<Rightarrow> string option" where
  "string_value (Some (JString s)) = Some s"
| "string_value _ = None"

definition or_default :: "json option \<Rightarrow> json option \<Rightarrow> json option" where
  "or_default x y = (case x of None \<Rightarrow> y | Some v \<Rightarrow> Some v)"

definition expected_aggregate :: "string \<Rightarrow> string" where
  "expected_aggregate event_type =
     (if event_type = APPROVED_EVENT then ''knowledge_candidate'' else ''private_memory_command'')"

definition decode_object :: "json_object \<Rightarrow> publication_envelope result" where
  "decode_object value =
     (if (case dict_get value ''version'' of None \<Rightarrow> True | Some v \<Rightarrow> \<not> is_one v)
      then Inl (ValueError ''Unsupported publication envelope'')
      else case (string_value (dict_get value ''event_id''), string_value (dict_get value ''tenant_id''),
                 string_value (dict_get value ''event_type'')) of
        (Some event_id, Some tenant_id, Some event_type) \<Rightarrow>
          if event_type \<noteq> APPROVED_EVENT \<and> event_type \<noteq> COMMAND_EVENT
          then Inl (ValueError ''Unsupported publication event type'')
          else (case string_value (or_default (dict_get value ''aggregate_id'') (dict_get value ''candidate_id'')) of
            None \<Rightarrow> Inl (ValueError ''Invalid publication envelope'')
          | Some aggregate_id \<Rightarrow>
              (case string_value (or_default (dict_get value ''aggregate_type'')
                       (if event_type = APPROVED_EVENT then Some (JString ''knowledge_candidate'') else None)) of
                 None \<Rightarrow> Inl (ValueError ''Invalid publication envelope'')
               | Some aggregate_type \<Rightarrow>
                   if aggregate_type \<noteq> expected_aggregate event_type
                   then Inl (ValueError ''Publication envelope aggregate does not match its event type'')
                   else Inr \<lparr>pn_event_id = event_id, pn_tenant_id = tenant_id, pn_aggregate_type = aggregate_type,
                          pn_aggregate_id = aggregate_id, pn_event_type = event_type\<rparr>))
      | _ \<Rightarrow> Inl (ValueError ''Invalid publication envelope''))"

definition decode_envelope :: "json option \<Rightarrow> publication_envelope result" where
  "decode_envelope body =
     (case body of
        None \<Rightarrow> Inl (ValueError ''Invalid publication envelope'')
      | Some (JObject value) \<Rightarrow> decode_object value
      | Some _ \<Rightarrow> Inl (ValueError ''Unsupported publication envelope''))"

section \<open>Ports\<close>

record 'w outbox_source =
  os_claim_outbox :: "int \<Rightarrow> 'w \<Rightarrow> (outbox_record option, 'w) outcome"
  os_mark_outbox_dispatched :: "string \<Rightarrow> string \<Rightarrow> 'w \<Rightarrow> (unit, 'w) outcome"
  os_release_outbox :: "string \<Rightarrow> string \<Rightarrow> string \<Rightarrow> 'w \<Rightarrow> (unit, 'w) outcome"

record 'w publication_state =
  ps_get_publication :: "string \<Rightarrow> string \<Rightarrow> string \<Rightarrow> 'w \<Rightarrow> (publication_event option, 'w) outcome"
  ps_get_candidate :: "string \<Rightarrow> string \<Rightarrow> 'w \<Rightarrow> (knowledge_candidate option, 'w) outcome"
  ps_mark_published :: "string \<Rightarrow> string \<Rightarrow> 'w \<Rightarrow> (knowledge_candidate, 'w) outcome"
  ps_get_memory_command :: "string \<Rightarrow> string \<Rightarrow> 'w \<Rightarrow> (private_memory_command option, 'w) outcome"
  ps_mark_memory_command_applied :: "string \<Rightarrow> string \<Rightarrow> 'w \<Rightarrow> (private_memory_command, 'w) outcome"
  ps_schedule_outbox_redelivery :: "string \<Rightarrow> string \<Rightarrow> string \<Rightarrow> 'w \<Rightarrow> (unit, 'w) outcome"

type_synonym 'w publication_router = "string \<Rightarrow> 'w publication_state result"

definition SingleTenantPublicationRouter :: "string \<Rightarrow> 'w publication_state \<Rightarrow> 'w publication_router" where
  "SingleTenantPublicationRouter own state tenant_id =
     (if tenant_id \<noteq> own then Inl (LookupError ''Tenant Operations Store route not found'') else Inr state)"

record 'w delivery =
  dv_body :: "json option"
  dv_ack :: "'w \<Rightarrow> (unit, 'w) outcome"
  dv_reject :: "bool \<Rightarrow> 'w \<Rightarrow> (unit, 'w) outcome"

section \<open>The relay\<close>

text \<open>\<open>remaining\<close> is \<^verbatim>\<open>limit - dispatched\<close>.\<close>

fun relay_loop ::
  "'w outbox_source \<Rightarrow> (outbox_record \<Rightarrow> 'w \<Rightarrow> (unit, 'w) outcome) \<Rightarrow> nat \<Rightarrow> int \<Rightarrow> 'w \<Rightarrow> (int, 'w) outcome" where
  "relay_loop source publish 0 dispatched w = (Inr dispatched, w)"
| "relay_loop source publish (Suc remaining) dispatched w =
     and_then (os_claim_outbox source 60 w) (\<lambda>record w1.
       case record of
         None \<Rightarrow> (Inr dispatched, w1)
       | Some r \<Rightarrow>
           (case publish r w1 of
              (Inl CancelledError, w2) \<Rightarrow> (Inl CancelledError, w2)
            | (Inl e, w2) \<Rightarrow> and_then (os_release_outbox source (or_event_id r) (or_lock_id r) (error_name e) w2)
                (\<lambda>_ w3. (Inl e, w3))
            | (Inr _, w2) \<Rightarrow> and_then (os_mark_outbox_dispatched source (or_event_id r) (or_lock_id r) w2)
                (\<lambda>_. relay_loop source publish remaining (dispatched + 1))))"

definition relay_once ::
  "'w outbox_source \<Rightarrow> (outbox_record \<Rightarrow> 'w \<Rightarrow> (unit, 'w) outcome) \<Rightarrow> int \<Rightarrow> 'w \<Rightarrow> (int, 'w) outcome" where
  "relay_once source publish limit w =
     (if limit < 1 then (Inl (ValueError ''limit must be positive''), w)
      else relay_loop source publish (nat limit) 0 w)"

section \<open>The worker\<close>

definition handle_memory ::
  "(private_memory_command \<Rightarrow> 'w \<Rightarrow> (unit, 'w) outcome) option \<Rightarrow> 'w publication_state \<Rightarrow> publication_envelope \<Rightarrow> 'w \<Rightarrow>
   (unit, 'w) outcome" where
  "handle_memory memory_projector state envelope w =
     (case memory_projector of
        None \<Rightarrow> (Inl (RuntimeError ''Private Memory projection is not configured''), w)
      | Some project_memory \<Rightarrow>
          and_then (ps_get_memory_command state (pn_tenant_id envelope) (pn_aggregate_id envelope) w) (\<lambda>found w1.
            case found of
              None \<Rightarrow> (Inl (LookupError ''Private Memory Command not found''), w1)
            | Some command \<Rightarrow>
                if pc_state command = APPLIED then (Inr (), w1)
                else if pc_state command \<noteq> ACCEPTED
                then (Inl (ValueError ''Private Memory Command is not awaiting projection''), w1)
                else and_then (project_memory command w1) (\<lambda>_ w2.
                  and_then (ps_mark_memory_command_applied state (pn_tenant_id envelope) (pc_id command) w2)
                    (\<lambda>_ w3. (Inr (), w3)))))"

text \<open>The candidate of an approval; the result says whether the delivery was acknowledged already.\<close>

definition handle_publication ::
  "(knowledge_candidate \<Rightarrow> 'w \<Rightarrow> (unit, 'w) outcome) \<Rightarrow> 'w delivery \<Rightarrow> 'w publication_state \<Rightarrow> publication_envelope \<Rightarrow> 'w \<Rightarrow>
   (bool, 'w) outcome" where
  "handle_publication project message state envelope w =
     (case envelope_candidate_id envelope of
        Inl e \<Rightarrow> (Inl e, w)
      | Inr candidate_id \<Rightarrow>
          and_then (ps_get_publication state (pn_event_id envelope) (pn_tenant_id envelope) candidate_id w) (\<lambda>publication w1.
          if publication = None then (Inl (LookupError ''Publication event not found''), w1)
          else and_then (ps_get_candidate state (pn_tenant_id envelope) candidate_id w1) (\<lambda>found w2.
            case found of
              None \<Rightarrow> (Inl (LookupError ''Knowledge Candidate not found''), w2)
            | Some candidate \<Rightarrow>
                if kc_status candidate = PUBLISHED then and_then (dv_ack message w2) (\<lambda>_ w3. (Inr True, w3))
                else if kc_status candidate \<noteq> PUBLISHING
                then (Inl (ValueError ''Knowledge Candidate is not awaiting publication''), w2)
                else and_then (project candidate w2) (\<lambda>_ w3.
                  and_then (ps_mark_published state (pn_tenant_id envelope) candidate_id w3) (\<lambda>_ w4. (Inr False, w4))))))"

definition handle_delivery ::
  "'w publication_router \<Rightarrow> (knowledge_candidate \<Rightarrow> 'w \<Rightarrow> (unit, 'w) outcome) \<Rightarrow>
   (private_memory_command \<Rightarrow> 'w \<Rightarrow> (unit, 'w) outcome) option \<Rightarrow> 'w delivery \<Rightarrow> 'w \<Rightarrow> (bool, 'w) outcome" where
  "handle_delivery routing project memory_projector message w =
     (case decode_envelope (dv_body message) of
        Inl e \<Rightarrow> (Inl e, w)
      | Inr envelope \<Rightarrow>
          (case routing (pn_tenant_id envelope) of
             Inl e \<Rightarrow> (Inl e, w)
           | Inr state \<Rightarrow>
               if pn_event_type envelope = COMMAND_EVENT
               then and_then (handle_memory memory_projector state envelope w) (\<lambda>_ w1.
                      and_then (dv_ack message w1) (\<lambda>_ w2. (Inr True, w2)))
               else handle_publication project message state envelope w))"

definition handle ::
  "'w publication_router \<Rightarrow> (knowledge_candidate \<Rightarrow> 'w \<Rightarrow> (unit, 'w) outcome) \<Rightarrow>
   (private_memory_command \<Rightarrow> 'w \<Rightarrow> (unit, 'w) outcome) option \<Rightarrow> 'w delivery \<Rightarrow> 'w \<Rightarrow> (unit, 'w) outcome" where
  "handle routing project memory_projector message w =
     (case handle_delivery routing project memory_projector message w of
        (Inl CancelledError, w1) \<Rightarrow> (Inl CancelledError, w1)
      | (Inl e, w1) \<Rightarrow> dv_reject message True w1
      | (Inr acknowledged, w1) \<Rightarrow> if acknowledged then (Inr (), w1) else dv_ack message w1)"

section \<open>The redriver\<close>

record redrive_result =
  rx_tenant_id :: string
  rx_event_id :: string
  rx_event_type :: string

text \<open>\<^verbatim>\<open>finally: for message in held: await message.reject(requeue=True)\<close>\<close>

fun requeue_all :: "'w delivery list \<Rightarrow> 'w \<Rightarrow> (unit, 'w) outcome" where
  "requeue_all [] w = (Inr (), w)"
| "requeue_all (message # held) w = and_then (dv_reject message True w) (\<lambda>_. requeue_all held)"

text \<open>The scan: its outcome, with the messages that it holds.\<close>

fun redrive_scan ::
  "'w publication_router \<Rightarrow> ('w \<Rightarrow> ('w delivery option, 'w) outcome) \<Rightarrow> string \<Rightarrow> string \<Rightarrow> string \<Rightarrow> nat \<Rightarrow>
   'w delivery list \<Rightarrow> 'w \<Rightarrow> 'w delivery list \<times> (redrive_result option, 'w) outcome" where
  "redrive_scan routing get tenant_id event_id operator_id 0 held w = (held, Inr None, w)"
| "redrive_scan routing get tenant_id event_id operator_id (Suc n) held w =
     (case get w of
        (Inl e, w1) \<Rightarrow> (held, Inl e, w1)
      | (Inr None, w1) \<Rightarrow> (held, Inr None, w1)
      | (Inr (Some message), w1) \<Rightarrow>
          (case decode_envelope (dv_body message) of
             Inl _ \<Rightarrow> redrive_scan routing get tenant_id event_id operator_id n (held @ [message]) w1
           | Inr envelope \<Rightarrow>
               if pn_tenant_id envelope \<noteq> tenant_id \<or> pn_event_id envelope \<noteq> event_id
               then redrive_scan routing get tenant_id event_id operator_id n (held @ [message]) w1
               else (held,
                 (case and_then (case routing tenant_id of
                                   Inl e \<Rightarrow> (Inl e, w1)
                                 | Inr state \<Rightarrow> ps_schedule_outbox_redelivery state tenant_id event_id operator_id w1)
                         (\<lambda>_. dv_ack message) of
                    (Inl e, w2) \<Rightarrow> and_then (dv_reject message True w2) (\<lambda>_ w3. (Inl e, w3))
                  | (Inr _, w2) \<Rightarrow> (Inr (Some \<lparr>rx_tenant_id = tenant_id, rx_event_id = event_id,
                      rx_event_type = pn_event_type envelope\<rparr>), w2)))))"

definition redrive_exact ::
  "'w publication_router \<Rightarrow> ('w \<Rightarrow> ('w delivery option, 'w) outcome) \<Rightarrow> string \<Rightarrow> string \<Rightarrow> string \<Rightarrow> int \<Rightarrow> 'w \<Rightarrow>
   (redrive_result, 'w) outcome" where
  "redrive_exact routing get tenant_id event_id operator_id max_scan w =
     (if tenant_id = '''' \<or> event_id = '''' \<or> operator_id = ''''
      then (Inl (ValueError ''Tenant, event, and operator identifiers are required''), w)
      else if \<not> (1 \<le> max_scan \<and> max_scan \<le> 10000)
      then (Inl (ValueError ''Dead-letter scan limit must be between 1 and 10000''), w)
      else case redrive_scan routing get tenant_id event_id operator_id (nat max_scan) [] w of
        (held, r, w1) \<Rightarrow>
          and_then (requeue_all held w1) (\<lambda>_ w2.
            case r of
              Inl e \<Rightarrow> (Inl e, w2)
            | Inr (Some found) \<Rightarrow> (Inr found, w2)
            | Inr None \<Rightarrow> (Inl (LookupError ''Exact dead-letter event was not found within the scan limit''), w2)))"

end
