(* ===== verification/AgentModels.thy ===== *)
theory AgentModels
  imports Json Models
begin

text \<open>
  The contracts for invoking and observing Agent Runs (\<^verbatim>\<open>agents/models.py\<close>), and the snapshot and
  the lease of a run (\<^verbatim>\<open>agents/persistence.py\<close>).

  Payloads are JSON values (\<open>Json\<close>).
\<close>

datatype agent_run_state =
    RUN_QUEUED
  | RUN_RUNNING
  | RUN_CANCEL_REQUESTED
  | RUN_CANCELLED
  | RUN_COMPLETED
  | RUN_BUDGET_EXHAUSTED
  | RUN_FAILED

definition terminal :: "agent_run_state \<Rightarrow> bool" where
  "terminal state \<longleftrightarrow> state \<in> {RUN_CANCELLED, RUN_COMPLETED, RUN_BUDGET_EXHAUSTED, RUN_FAILED}"

record agent_budget =
  bg_max_model_calls :: int
  bg_max_tool_calls :: int
  bg_max_events :: int
  bg_max_seconds :: rat
  bg_max_cost_usd :: rat

definition AgentBudget :: "agent_budget \<Rightarrow> agent_budget result" where
  "AgentBudget b =
     (if bg_max_model_calls b < 1 then Inl (ValueError ''max_model_calls'')
      else if bg_max_tool_calls b < 1 then Inl (ValueError ''max_tool_calls'')
      else if bg_max_events b < 1 then Inl (ValueError ''max_events'')
      else if bg_max_seconds b \<le> 0 then Inl (ValueError ''max_seconds'')
      else if bg_max_cost_usd b \<le> 0 then Inl (ValueError ''max_cost_usd'')
      else Inr b)"

definition default_budget :: agent_budget where
  "default_budget = \<lparr>bg_max_model_calls = 3, bg_max_tool_calls = 10, bg_max_events = 100,
     bg_max_seconds = 120, bg_max_cost_usd = 1 / 4\<rparr>"

record agent_budget_usage =
  us_model_calls :: int
  us_tool_calls :: int
  us_events :: int
  us_cost_usd :: rat

record agent_model_settings =
  se_provider :: string
  se_adapter :: string
  se_model :: string
  se_max_tokens :: int
  se_temperature :: rat
  se_top_p :: rat
  se_timeout_seconds :: rat
  se_structured_output_mode :: string

record agent_invocation =
  iv_capability :: string
  iv_input :: json_object
  iv_idempotency_key :: string
  iv_reply_context :: "(string, string) dict option"

record agent_run_event =
  ae_sequence :: int
  ae_type :: string
  ae_data :: json_object
  ae_created_at :: datetime

record agent_run_view =
  vw_id :: string
  vw_tenant_id :: string
  vw_actor_id :: string
  vw_capability :: string
  vw_state :: agent_run_state
  vw_settings :: agent_model_settings
  vw_budget :: agent_budget
  vw_usage :: agent_budget_usage
  vw_events :: "agent_run_event list"
  vw_output :: "json_object option"
  vw_failure :: "string option"
  vw_resumable :: bool

section \<open>Snapshots and leases\<close>

record agent_run_snapshot =
  sn_run_id :: string
  sn_tenant_id :: string
  sn_actor_id :: string
  sn_actor_kind :: principal_kind
  sn_roles :: "string list"
  sn_subject_user_id :: "string option"
  sn_delegation_id :: "string option"
  sn_invocation :: agent_invocation
  sn_command :: json_object
  sn_settings :: agent_model_settings
  sn_budget :: agent_budget
  sn_state :: agent_run_state
  sn_model_calls :: int
  sn_tool_calls :: int
  sn_cost_usd :: rat
  sn_events :: "agent_run_event list"
  sn_output :: "json_object option"
  sn_failure :: "string option"
  sn_resumable :: bool

definition snapshot_session :: "agent_run_snapshot \<Rightarrow> tenant_session result" where
  "snapshot_session sn =
     TenantSession \<lparr>ts_tenant_id = sn_tenant_id sn, ts_actor_id = sn_actor_id sn, ts_actor_kind = sn_actor_kind sn,
       ts_roles = set (sn_roles sn), ts_subject_user_id = sn_subject_user_id sn, ts_delegation_id = sn_delegation_id sn, ts_token_id = None\<rparr>"

record agent_run_claim =
  lc_lease_token :: string
  lc_lease_version :: int
  lc_expires_at :: datetime
  lc_snapshot :: agent_run_snapshot

definition claim_key :: "agent_run_claim \<Rightarrow> string \<times> string" where
  "claim_key claim = (sn_tenant_id (lc_snapshot claim), sn_run_id (lc_snapshot claim))"

end
