(* ===== verification/AgentRuns.thy ===== *)
theory AgentRuns
  imports AgentModels
begin

text \<open>
  \<^verbatim>\<open>InMemoryAgentRunRepository\<close> of \<^verbatim>\<open>agents/persistence.py\<close>: the snapshots of Agent Runs, their
  idempotency keys and the fenced leases under which workers execute them. \<open>now\<close> is what the
  clock shows during an operation and \<open>uid\<close> the lease token that \<^verbatim>\<open>uuid4()\<close> draws.
\<close>

section \<open>State\<close>

type_synonym run_key = "string \<times> string"
type_synonym idempotency_context = "string \<times> string \<times> principal_kind \<times> string \<times> string \<times> string"

record agent_repository =
  ar_runs :: "(run_key, agent_run_snapshot) dict"
  ar_idempotency :: "(idempotency_context, string) dict"
  ar_leases :: "(run_key, agent_run_claim) dict"
  ar_lease_versions :: "(run_key, int) dict"

definition empty_agent_repository :: agent_repository where
  "empty_agent_repository = \<lparr>ar_runs = [], ar_idempotency = [], ar_leases = [], ar_lease_versions = []\<rparr>"

definition snapshot_key :: "agent_run_snapshot \<Rightarrow> run_key" where
  "snapshot_key sn = (sn_tenant_id sn, sn_run_id sn)"

section \<open>Helpers\<close>

definition reject_state_regression :: "agent_run_state \<Rightarrow> agent_run_state \<Rightarrow> bool" where
  "reject_state_regression current incoming \<longleftrightarrow>
     terminal current \<or> current = RUN_CANCEL_REQUESTED \<and> incoming \<notin> {RUN_CANCEL_REQUESTED, RUN_CANCELLED}"

definition idempotency_context_of :: "agent_run_snapshot \<Rightarrow> idempotency_context" where
  "idempotency_context_of sn =
     (sn_tenant_id sn, sn_actor_id sn, sn_actor_kind sn, or_string (sn_subject_user_id sn) '''',
      or_string (sn_delegation_id sn) '''', iv_idempotency_key (sn_invocation sn))"

definition same_run_context :: "agent_run_snapshot \<Rightarrow> tenant_session \<Rightarrow> bool" where
  "same_run_context sn session \<longleftrightarrow>
     sn_tenant_id sn = ts_tenant_id session \<and> sn_actor_id sn = ts_actor_id session \<and>
     sn_actor_kind sn = ts_actor_kind session \<and> sn_subject_user_id sn = ts_subject_user_id session \<and>
     sn_delegation_id sn = ts_delegation_id session"

definition with_cancellation_requested :: "datetime \<Rightarrow> agent_run_snapshot \<Rightarrow> agent_run_snapshot" where
  "with_cancellation_requested now sn =
     sn\<lparr>sn_state := RUN_CANCEL_REQUESTED,
        sn_events := sn_events sn @
          [\<lparr>ae_sequence = int (length (sn_events sn)) + 1, ae_type = ''agent.run.cancellation_requested'',
            ae_data = [], ae_created_at = now\<rparr>]\<rparr>"

definition is_runnable :: "agent_run_state \<Rightarrow> bool" where
  "is_runnable state \<longleftrightarrow> state \<in> {RUN_QUEUED, RUN_RUNNING, RUN_CANCEL_REQUESTED}"

definition same_lease :: "agent_run_claim option \<Rightarrow> agent_run_claim \<Rightarrow> bool" where
  "same_lease current expected =
     (case current of None \<Rightarrow> False
      | Some claim \<Rightarrow> lc_lease_token claim = lc_lease_token expected \<and>
          lc_lease_version claim = lc_lease_version expected)"

definition require_lease_seconds :: "int \<Rightarrow> unit result" where
  "require_lease_seconds lease_seconds =
     (if 1 \<le> lease_seconds \<and> lease_seconds \<le> 900 then Inr ()
      else Inl (ValueError ''Agent Run lease must be between 1 and 900 seconds''))"

section \<open>Operations\<close>

text \<open>The lease of a run that has not expired; an expired one is dropped when it is looked up.\<close>

definition repo_active_claim :: "datetime \<Rightarrow> run_key \<Rightarrow> agent_repository \<Rightarrow> agent_run_claim option \<times> agent_repository" where
  "repo_active_claim now key s =
     (case dict_get (ar_leases s) key of
        None \<Rightarrow> (None, s)
      | Some claim \<Rightarrow>
          if lc_expires_at claim \<le> now then (None, s\<lparr>ar_leases := dict_pop key (ar_leases s)\<rparr>)
          else (Some claim, s))"

definition repo_store :: "agent_run_snapshot \<Rightarrow> agent_repository \<Rightarrow> agent_repository" where
  "repo_store sn s =
     (if (case dict_get (ar_runs s) (snapshot_key sn) of None \<Rightarrow> False
          | Some current \<Rightarrow> reject_state_regression (sn_state current) (sn_state sn))
      then s
      else s\<lparr>ar_runs := dict_set (snapshot_key sn) sn (ar_runs s),
             ar_idempotency := dict_set (idempotency_context_of sn) (sn_run_id sn) (ar_idempotency s)\<rparr>)"

definition repo_create_or_get :: "agent_run_snapshot \<Rightarrow> agent_repository \<Rightarrow> (agent_run_snapshot, agent_repository) outcome" where
  "repo_create_or_get sn s =
     (case dict_get (ar_idempotency s) (idempotency_context_of sn) of
        Some run_id \<Rightarrow>
          (case dict_get (ar_runs s) (sn_tenant_id sn, run_id) of
             None \<Rightarrow> (Inl KeyError, s)
           | Some existing \<Rightarrow> (Inr existing, s))
      | None \<Rightarrow> (Inr sn, repo_store sn s))"

definition repo_save ::
  "datetime \<Rightarrow> agent_run_snapshot \<Rightarrow> agent_run_claim option \<Rightarrow> agent_repository \<Rightarrow> (unit, agent_repository) outcome" where
  "repo_save now sn claim s =
     (let key = snapshot_key sn;
          (active_claim, s1) = repo_active_claim now key s;
          write = (let s2 = repo_store sn s1
                   in (Inr (), if terminal (sn_state sn) then s2\<lparr>ar_leases := dict_pop key (ar_leases s2)\<rparr> else s2))
      in case claim of
           Some expected \<Rightarrow>
             if \<not> same_lease active_claim expected
             then (Inl (AgentRunLeaseLost ''Agent Run lease is no longer owned''), s1)
             else if (case dict_get (ar_runs s1) key of None \<Rightarrow> False
                      | Some current \<Rightarrow> sn_state current = RUN_CANCEL_REQUESTED \<and>
                          sn_state sn \<notin> {RUN_CANCEL_REQUESTED, RUN_CANCELLED})
             then (Inl (AgentRunCancellationRequested ''Agent Run cancellation was requested''), s1)
             else write
         | None \<Rightarrow>
             if active_claim \<noteq> None \<and> sn_state sn \<noteq> RUN_CANCEL_REQUESTED
             then (Inl (AgentRunLeaseLost ''Agent Run has an active worker lease''), s1)
             else write)"

definition repo_get :: "string \<Rightarrow> string \<Rightarrow> agent_repository \<Rightarrow> agent_run_snapshot option" where
  "repo_get tenant_id run_id s = dict_get (ar_runs s) (tenant_id, run_id)"

definition repo_request_cancellation ::
  "datetime \<Rightarrow> tenant_session \<Rightarrow> string \<Rightarrow> agent_repository \<Rightarrow> agent_run_snapshot option \<times> agent_repository" where
  "repo_request_cancellation now session run_id s =
     (let key = (ts_tenant_id session, run_id)
      in case dict_get (ar_runs s) key of
           None \<Rightarrow> (None, s)
         | Some sn \<Rightarrow>
             if \<not> same_run_context sn session then (None, s)
             else if terminal (sn_state sn) \<or> sn_state sn = RUN_CANCEL_REQUESTED then (Some sn, s)
             else let updated = with_cancellation_requested now sn
                  in (Some updated, s\<lparr>ar_runs := dict_set key updated (ar_runs s)\<rparr>))"

definition repo_get_by_idempotency ::
  "idempotency_context \<Rightarrow> agent_repository \<Rightarrow> agent_run_snapshot option result" where
  "repo_get_by_idempotency context s =
     (case dict_get (ar_idempotency s) context of
        None \<Rightarrow> Inr None
      | Some run_id \<Rightarrow>
          (case dict_get (ar_runs s) (fst context, run_id) of None \<Rightarrow> Inl KeyError | Some sn \<Rightarrow> Inr (Some sn)))"

definition repo_claim ::
  "string \<Rightarrow> datetime \<Rightarrow> agent_run_snapshot \<Rightarrow> int \<Rightarrow> agent_repository \<Rightarrow> agent_run_claim option \<times> agent_repository" where
  "repo_claim uid now sn lease_seconds s =
     (let key = snapshot_key sn;
          (active_claim, s1) = repo_active_claim now key s
      in if active_claim \<noteq> None then (None, s1)
         else let lease_version = (case dict_get (ar_lease_versions s1) key of None \<Rightarrow> 0 | Some v \<Rightarrow> v) + 1;
                  claim = \<lparr>lc_lease_token = uid, lc_lease_version = lease_version,
                    lc_expires_at = now + seconds lease_seconds, lc_snapshot = sn\<rparr>
              in (Some claim, s1\<lparr>ar_lease_versions := dict_set key lease_version (ar_lease_versions s1),
                                  ar_leases := dict_set key claim (ar_leases s1)\<rparr>))"

definition repo_claim_run ::
  "string \<Rightarrow> datetime \<Rightarrow> string \<Rightarrow> string \<Rightarrow> int \<Rightarrow> agent_repository \<Rightarrow> (agent_run_claim option, agent_repository) outcome" where
  "repo_claim_run uid now tenant_id run_id lease_seconds s =
     (case require_lease_seconds lease_seconds of
        Inl e \<Rightarrow> (Inl e, s)
      | Inr _ \<Rightarrow>
          (case dict_get (ar_runs s) (tenant_id, run_id) of
             None \<Rightarrow> (Inr None, s)
           | Some sn \<Rightarrow>
               if \<not> is_runnable (sn_state sn) then (Inr None, s)
               else (case repo_claim uid now sn lease_seconds s of (claim, s') \<Rightarrow> (Inr claim, s'))))"

fun claim_first ::
  "string \<Rightarrow> datetime \<Rightarrow> string \<Rightarrow> int \<Rightarrow> agent_run_snapshot list \<Rightarrow> agent_repository \<Rightarrow>
   agent_run_claim option \<times> agent_repository" where
  "claim_first uid now tenant_id lease_seconds [] s = (None, s)"
| "claim_first uid now tenant_id lease_seconds (sn # sns) s =
     (if sn_tenant_id sn = tenant_id \<and> is_runnable (sn_state sn)
      then (case repo_claim uid now sn lease_seconds s of
              (Some claim, s') \<Rightarrow> (Some claim, s')
            | (None, s') \<Rightarrow> claim_first uid now tenant_id lease_seconds sns s')
      else claim_first uid now tenant_id lease_seconds sns s)"

definition repo_claim_runnable ::
  "string \<Rightarrow> datetime \<Rightarrow> string \<Rightarrow> int \<Rightarrow> agent_repository \<Rightarrow> (agent_run_claim option, agent_repository) outcome" where
  "repo_claim_runnable uid now tenant_id lease_seconds s =
     (case require_lease_seconds lease_seconds of
        Inl e \<Rightarrow> (Inl e, s)
      | Inr _ \<Rightarrow>
          (case claim_first uid now tenant_id lease_seconds (dict_values (ar_runs s)) s of (claim, s') \<Rightarrow> (Inr claim, s')))"

text \<open>The listing looks every runnable run's lease up, so it drops the expired ones.\<close>

fun list_unclaimed ::
  "datetime \<Rightarrow> string \<Rightarrow> agent_run_snapshot list \<Rightarrow> agent_repository \<Rightarrow> string list \<times> agent_repository" where
  "list_unclaimed now tenant_id [] s = ([], s)"
| "list_unclaimed now tenant_id (sn # sns) s =
     (if sn_tenant_id sn = tenant_id \<and> is_runnable (sn_state sn)
      then (case repo_active_claim now (snapshot_key sn) s of
              (active_claim, s1) \<Rightarrow>
                (case list_unclaimed now tenant_id sns s1 of
                   (ids, s2) \<Rightarrow> (if active_claim = None then sn_run_id sn # ids else ids, s2)))
      else list_unclaimed now tenant_id sns s)"

definition repo_list_runnable :: "datetime \<Rightarrow> string \<Rightarrow> int \<Rightarrow> agent_repository \<Rightarrow> string list \<times> agent_repository" where
  "repo_list_runnable now tenant_id limit s =
     (case list_unclaimed now tenant_id (dict_values (ar_runs s)) s of
        (ids, s') \<Rightarrow> (if 0 \<le> limit then take (nat limit) ids else take (length ids - nat (- limit)) ids, s'))"

end
