(* ===== verification/OutboxWorker.thy ===== *)
theory OutboxWorker
  imports Outbox ControlModule AgentRuns
begin

text \<open>
  The worker process (\<^verbatim>\<open>worker.py\<close>): the projectors onto the routed Tenant graph, the source that
  scans the Tenant databases in turn, and the refreshed authority of a claimed Agent Run.
\<close>

section \<open>Projectors\<close>

text \<open>\<open>uid\<close> and \<open>now\<close> are drawn where an item of Tenant Knowledge is created.\<close>

definition on_graph ::
  "string \<Rightarrow> (memory_store \<Rightarrow> memory_store) \<Rightarrow> memory_stores \<Rightarrow> (unit, memory_stores) outcome" where
  "on_graph tenant_id f stores =
     (case for_tenant tenant_id stores of
        Inl e \<Rightarrow> (Inl e, stores) | Inr store \<Rightarrow> (Inr (), dict_set tenant_id (f store) stores))"

definition MemoryGraphProjector ::
  "string \<Rightarrow> datetime \<Rightarrow> knowledge_candidate \<Rightarrow> memory_stores \<Rightarrow> (unit, memory_stores) outcome" where
  "MemoryGraphProjector uid now candidate =
     on_graph (kc_tenant_id candidate) (\<lambda>store. snd (tms_publish_tenant_knowledge uid now (kc_id candidate) (kc_claim candidate)
       (kc_confidence candidate) (kc_proposer_id candidate) store))"

definition DurableMemoryGraphProjector ::
  "private_memory_command \<Rightarrow> memory_stores \<Rightarrow> (unit, memory_stores) outcome" where
  "DurableMemoryGraphProjector command stores =
     (case for_tenant (pc_tenant_id command) stores of
        Inl e \<Rightarrow> (Inl e, stores)
      | Inr store \<Rightarrow>
          if pc_command_type command = ERASE_COMMAND
          then (case pc_target_memory_id command of
                  None \<Rightarrow> (Inl (AdapterError ''AssertionError''), stores)
                | Some target \<Rightarrow> on_graph (pc_tenant_id command)
                    (\<lambda>store. snd (tms_erase_private (pc_owner_principal_id command) target store)) stores)
          else (case pc_result_item command of
                  None \<Rightarrow> (Inl (ValueError ''Private Memory Command has no projection result''), stores)
                | Some item \<Rightarrow> on_graph (pc_tenant_id command)
                    (\<lambda>store. snd (tms_apply_private_item (pc_owner_principal_id command) item store)) stores))"

section \<open>The authority of a delayed run\<close>

definition reauthorize_agent_claim ::
  "'v control_store \<Rightarrow> datetime \<Rightarrow> agent_run_claim \<Rightarrow> agent_repository \<Rightarrow> (agent_run_claim, agent_repository) outcome" where
  "reauthorize_agent_claim control now claim runs =
     (case snapshot_session (lc_snapshot claim) of
        Inl e \<Rightarrow> (Inl e, runs)
      | Inr persisted_session \<Rightarrow>
          (case reauthorize_session persisted_session control of
             Inl (ControlNotFound message) \<Rightarrow>
               (case repo_request_cancellation now persisted_session (sn_run_id (lc_snapshot claim)) runs of
                  (None, runs1) \<Rightarrow> (Inl (LookupError ''Agent Run not found''), runs1)
                | (Some _, runs1) \<Rightarrow> (Inr claim, runs1))
           | Inl e \<Rightarrow> (Inl e, runs)
           | Inr current_session \<Rightarrow>
               (Inr (claim\<lparr>lc_snapshot := (lc_snapshot claim)\<lparr>sn_roles := sorted_list_of_set (ts_roles current_session)\<rparr>\<rparr>), runs)))"

section \<open>The source over all Tenants\<close>

text \<open>
  \<^verbatim>\<open>RoutedOutboxSource\<close>: the Tenant of each open claim and the offset of the next scan. The routes
  and the outbox of each Tenant are ports over the world; the lag is only observed.
\<close>

record routed_outbox =
  ro_claims :: "(string \<times> string, string) dict"
  ro_offset :: nat

definition empty_routed_outbox :: routed_outbox where
  "empty_routed_outbox = \<lparr>ro_claims = [], ro_offset = 0\<rparr>"

record 'w tenant_outboxes =
  to_routes :: "'w \<Rightarrow> string list"
  to_for_tenant :: "string \<Rightarrow> 'w outbox_source result"

definition on_tenant_outbox ::
  "'w tenant_outboxes \<Rightarrow> string \<Rightarrow> ('w outbox_source \<Rightarrow> 'w \<Rightarrow> ('a, 'w) outcome) \<Rightarrow> routed_outbox \<times> 'w \<Rightarrow>
   ('a, routed_outbox \<times> 'w) outcome" where
  "on_tenant_outbox ports tenant_id f s =
     (case to_for_tenant ports tenant_id of
        Inl e \<Rightarrow> (Inl e, s)
      | Inr source \<Rightarrow> (case f source (snd s) of (r, w) \<Rightarrow> (r, (fst s, w))))"

fun routed_scan ::
  "'w tenant_outboxes \<Rightarrow> int \<Rightarrow> string list \<Rightarrow> routed_outbox \<times> 'w \<Rightarrow> (outbox_record option, routed_outbox \<times> 'w) outcome" where
  "routed_scan ports lease_seconds [] s = (Inr None, s)"
| "routed_scan ports lease_seconds (tenant_id # tenant_ids) s =
     and_then (on_tenant_outbox ports tenant_id (\<lambda>source. os_claim_outbox source lease_seconds) s) (\<lambda>found s1.
       case found of
         None \<Rightarrow> routed_scan ports lease_seconds tenant_ids s1
       | Some r \<Rightarrow>
           if or_tenant_id r \<noteq> tenant_id
           then and_then (on_tenant_outbox ports tenant_id (\<lambda>source. os_release_outbox source (or_event_id r) (or_lock_id r)
                  ''TenantRouteMismatch'') s1)
                  (\<lambda>_ s2. (Inl (ValueError ''Outbox event Tenant does not match its database route''), s2))
           else (Inr (Some r), ((fst s1)\<lparr>ro_claims := dict_set (or_event_id r, or_lock_id r) tenant_id (ro_claims (fst s1))\<rparr>, snd s1)))"

definition routed_claim_outbox ::
  "'w tenant_outboxes \<Rightarrow> int \<Rightarrow> routed_outbox \<times> 'w \<Rightarrow> (outbox_record option, routed_outbox \<times> 'w) outcome" where
  "routed_claim_outbox ports lease_seconds s =
     (let routes = to_routes ports (snd s)
      in if routes = [] then (Inr None, s)
         else let ordered = drop (ro_offset (fst s)) routes @ take (ro_offset (fst s)) routes
              in routed_scan ports lease_seconds ordered
                   ((fst s)\<lparr>ro_offset := (ro_offset (fst s) + 1) mod length routes\<rparr>, snd s))"

definition settle_routed ::
  "'w tenant_outboxes \<Rightarrow> ('w outbox_source \<Rightarrow> 'w \<Rightarrow> (unit, 'w) outcome) \<Rightarrow> string \<Rightarrow> string \<Rightarrow> routed_outbox \<times> 'w \<Rightarrow>
   (unit, routed_outbox \<times> 'w) outcome" where
  "settle_routed ports f event_id lock_id s =
     (case dict_get (ro_claims (fst s)) (event_id, lock_id) of
        None \<Rightarrow> (Inl (LookupError ''Outbox claim route not found''), s)
      | Some tenant_id \<Rightarrow>
          and_then (on_tenant_outbox ports tenant_id f s)
            (\<lambda>_ s1. (Inr (), ((fst s1)\<lparr>ro_claims := dict_pop (event_id, lock_id) (ro_claims (fst s1))\<rparr>, snd s1))))"

definition RoutedOutboxSource :: "'w tenant_outboxes \<Rightarrow> (routed_outbox \<times> 'w) outbox_source" where
  "RoutedOutboxSource ports =
     \<lparr>os_claim_outbox = routed_claim_outbox ports,
      os_mark_outbox_dispatched = (\<lambda>event_id lock_id. settle_routed ports
        (\<lambda>source. os_mark_outbox_dispatched source event_id lock_id) event_id lock_id),
      os_release_outbox = (\<lambda>event_id lock_id error_code. settle_routed ports
        (\<lambda>source. os_release_outbox source event_id lock_id error_code) event_id lock_id)\<rparr>"

end
