(* ===== verification/DurableInvariant.thy ===== *)
theory DurableInvariant
  imports DurableOutbox
begin

text \<open>
  What holds of the tables of the durable store after any sequence of transactions: the ledger of
  private-memory commands, the items and the outbox agree.
\<close>

section \<open>Statements\<close>

lemma transaction_cases:
  "transaction body db = (r, db') \<longleftrightarrow>
     (\<exists>e db1. r = Inl e \<and> db' = db \<and> body db = (Inl e, db1)) \<or> (\<exists>x. r = Inr x \<and> body db = (Inr x, db'))"
  by (auto simp: transaction_def split: prod.splits sum.splits)

lemma snd_transaction:
  "P (snd (transaction body db)) \<longleftrightarrow> (\<forall>e db1. body db = (Inl e, db1) \<longrightarrow> P db) \<and> (\<forall>x db1. body db = (Inr x, db1) \<longrightarrow> P db1)"
  by (auto simp: transaction_def split: prod.splits sum.splits)

lemma dict_get_update_where [simp]:
  "dict_get (update_where P f table) k = map_option (\<lambda>r. if P r then f r else r) (dict_get table k)"
  by (simp add: update_where_def)

lemma insert_row_Inr:
  "insert_row clashes k r table = Inr table' \<Longrightarrow>
     dict_get table k = None \<and> table' = dict_set k r table \<and> (\<forall>k' r'. dict_get table k' = Some r' \<longrightarrow> \<not> clashes r')"
  by (auto simp: insert_row_def list_ex_iff dest: dict_values_memI split: if_splits)

lemma select_row_Some: "select_row t tenant_id k table = Some r \<Longrightarrow> dict_get table k = Some r \<and> t r = tenant_id"
  by (auto simp: select_row_def split: option.splits if_splits)

section \<open>The invariant\<close>

text \<open>Each table is indexed by its primary key.\<close>

definition keyed :: "('r \<Rightarrow> string) \<Rightarrow> (string, 'r) dict \<Rightarrow> bool" where
  "keyed key table \<longleftrightarrow> (\<forall>k r. dict_get table k = Some r \<longrightarrow> key r = k)"

lemma keyed_set [intro]: "keyed key table \<Longrightarrow> key r = k \<Longrightarrow> keyed key (dict_set k r table)"
  by (auto simp: keyed_def dict_get_set)

lemma keyed_update_where: "keyed key table \<Longrightarrow> (\<And>r. key (f r) = key r) \<Longrightarrow> keyed key (update_where P f table)"
  by (auto simp: keyed_def)

text \<open>An item knows the command it comes from, and has its content exactly until it is erased.\<close>

definition item_ok :: "(string, command_row) dict \<Rightarrow> item_row \<Rightarrow> bool" where
  "item_ok commands row \<longleftrightarrow> (ir_state row = ERASED \<longleftrightarrow> ir_item row = None) \<and>
     (\<exists>c. dict_get commands (ir_source_command_id row) = Some c \<and> cr_result_memory_id c = Some (ir_memory_id row))"

text \<open>A command with a result shares its content with the item; an erase command names an item of its owner.\<close>

definition command_ok :: "(string, item_row) dict \<Rightarrow> command_row \<Rightarrow> bool" where
  "command_ok items c \<longleftrightarrow> pc_state c \<in> {ACCEPTED, APPLIED} \<and>
     (case cr_result_memory_id c of
        Some m \<Rightarrow> pc_command_type c \<noteq> ERASE_COMMAND \<and>
          (\<exists>row. dict_get items m = Some row \<and> ir_source_command_id row = pc_id c \<and>
             ir_tenant_id row = pc_tenant_id c \<and> ir_owner_principal_id row = pc_owner_principal_id c \<and>
             (case ir_item row of
                None \<Rightarrow> pc_result_item c = None \<and> cr_payload c = JObject []
              | Some x \<Rightarrow> (\<exists>y. pc_result_item c = Some y \<and> mi_id y = m \<and> mi_id x = m \<and> mi_content y = mi_content x)))
      | None \<Rightarrow> pc_command_type c = ERASE_COMMAND \<and> pc_result_item c = None \<and>
          (\<exists>m row. pc_target_memory_id c = Some m \<and> dict_get items m = Some row \<and>
             ir_tenant_id row = pc_tenant_id c \<and> ir_owner_principal_id row = pc_owner_principal_id c \<and>
             (pc_state c = APPLIED \<longrightarrow> ir_item row = None)))"

text \<open>A command waits exactly as long as its event is unprocessed.\<close>

definition event_ok :: "(string, command_row) dict \<Rightarrow> outbox_row \<Rightarrow> bool" where
  "event_ok commands r \<longleftrightarrow> (ob_event_type r = ''memory.command.accepted'' \<longrightarrow>
     (\<exists>c. dict_get commands (ob_aggregate_id r) = Some c \<and> pc_tenant_id c = ob_tenant_id r \<and>
        (ob_processed_at r = None \<longleftrightarrow> pc_state c = ACCEPTED)))"

definition has_event :: "(string, outbox_row) dict \<Rightarrow> string \<Rightarrow> bool" where
  "has_event outbox command_id \<longleftrightarrow> (\<exists>k r. dict_get outbox k = Some r \<and> ob_event_type r = ''memory.command.accepted'' \<and>
     ob_aggregate_id r = command_id)"

definition ledger_inv :: "tenant_database \<Rightarrow> bool" where
  "ledger_inv db \<longleftrightarrow> keyed pc_id (td_commands db) \<and> keyed ir_memory_id (td_items db) \<and> keyed ob_event_id (td_outbox db) \<and>
     (\<forall>k row. dict_get (td_items db) k = Some row \<longrightarrow> item_ok (td_commands db) row) \<and>
     (\<forall>k c. dict_get (td_commands db) k = Some c \<longrightarrow> command_ok (td_items db) c) \<and>
     (\<forall>k r. dict_get (td_outbox db) k = Some r \<longrightarrow> event_ok (td_commands db) r) \<and>
     (\<forall>k. dict_get (td_commands db) k \<noteq> None \<longrightarrow> has_event (td_outbox db) k)"

lemma ledger_invI:
  assumes "keyed pc_id (td_commands db)" and "keyed ir_memory_id (td_items db)" and "keyed ob_event_id (td_outbox db)"
    and "\<And>k row. dict_get (td_items db) k = Some row \<Longrightarrow> item_ok (td_commands db) row"
    and "\<And>k c. dict_get (td_commands db) k = Some c \<Longrightarrow> command_ok (td_items db) c"
    and "\<And>k r. dict_get (td_outbox db) k = Some r \<Longrightarrow> event_ok (td_commands db) r"
    and "\<And>k. dict_get (td_commands db) k \<noteq> None \<Longrightarrow> has_event (td_outbox db) k"
  shows "ledger_inv db"
  using assms by (simp add: ledger_inv_def)

lemma ledger_invD:
  assumes "ledger_inv db"
  shows "keyed pc_id (td_commands db)" and "keyed ir_memory_id (td_items db)" and "keyed ob_event_id (td_outbox db)"
    and "dict_get (td_items db) k = Some row \<Longrightarrow> item_ok (td_commands db) row"
    and "dict_get (td_commands db) k = Some c \<Longrightarrow> command_ok (td_items db) c"
    and "dict_get (td_outbox db) k = Some r \<Longrightarrow> event_ok (td_commands db) r"
    and "dict_get (td_commands db) k \<noteq> None \<Longrightarrow> has_event (td_outbox db) k"
  using assms unfolding ledger_inv_def by blast+

lemma ledger_inv_cong:
  "td_commands db' = td_commands db \<Longrightarrow> td_items db' = td_items db \<Longrightarrow> td_outbox db' = td_outbox db \<Longrightarrow>
   ledger_inv db' = ledger_inv db"
  by (simp add: ledger_inv_def)

lemma ledger_inv_empty: "ledger_inv empty_tenant_database"
  by (simp add: ledger_inv_def empty_tenant_database_def keyed_def)

section \<open>Changes that keep it\<close>

text \<open>Columns that the invariant does not read may change.\<close>

definition keeps_event :: "(outbox_row \<Rightarrow> outbox_row) \<Rightarrow> bool" where
  "keeps_event f \<longleftrightarrow> (\<forall>r. ob_event_id (f r) = ob_event_id r \<and> ob_tenant_id (f r) = ob_tenant_id r \<and>
     ob_aggregate_id (f r) = ob_aggregate_id r \<and> ob_event_type (f r) = ob_event_type r \<and>
     ob_processed_at (f r) = ob_processed_at r)"

lemma has_event_update:
  assumes "has_event outbox k" and "\<And>r. ob_event_type (f r) = ob_event_type r \<and> ob_aggregate_id (f r) = ob_aggregate_id r"
  shows "has_event (update_where P f outbox) k"
proof -
  obtain e r where r: "dict_get outbox e = Some r" "ob_event_type r = ''memory.command.accepted''" "ob_aggregate_id r = k"
    using assms(1) by (auto simp: has_event_def)
  then have "dict_get (update_where P f outbox) e = Some (if P r then f r else r)" by simp
  with r assms(2) [of r] show ?thesis
    unfolding has_event_def by (intro exI [of _ e] exI [of _ "if P r then f r else r"]) simp
qed

lemma has_event_set: "has_event outbox k \<Longrightarrow> dict_get outbox e = None \<Longrightarrow> has_event (dict_set e r outbox) k"
  unfolding has_event_def by (metis dict_get_set_other option.distinct(1))

lemma ledger_inv_outbox_update:
  assumes inv: "ledger_inv db" and f: "keeps_event f"
  shows "ledger_inv (db\<lparr>td_outbox := update_where P f (td_outbox db)\<rparr>)"
proof -
  have "event_ok (td_commands db) (f r)" if "event_ok (td_commands db) r" for r
    using that f by (simp add: event_ok_def keeps_event_def)
  moreover have "has_event (update_where P f (td_outbox db)) k" if "has_event (td_outbox db) k" for k
    using that f by (intro has_event_update) (auto simp: keeps_event_def)
  moreover have "keyed ob_event_id (update_where P f (td_outbox db))"
    using ledger_invD(3) [OF inv] f by (intro keyed_update_where) (auto simp: keeps_event_def)
  ultimately show ?thesis
    using ledger_invD [OF inv] by (intro ledger_invI) auto
qed

text \<open>Another event than one of a memory command.\<close>

lemma ledger_inv_outbox_other:
  assumes "ledger_inv db" and "insert_outbox event_id now tenant_id aggregate_type aggregate_id event_type db = (Inr u, db')"
    and "event_type \<noteq> ''memory.command.accepted''"
  shows "ledger_inv db'"
proof -
  obtain row where new: "dict_get (td_outbox db) event_id = None" "db' = db\<lparr>td_outbox := dict_set event_id row (td_outbox db)\<rparr>"
    "ob_event_id row = event_id" "ob_event_type row = event_type"
    using assms(2) by (auto simp: insert_outbox_def put_outbox_def split: sum.splits dest!: insert_row_Inr)
  then have "event_ok (td_commands db) row" using assms(3) by (simp add: event_ok_def)
  with assms(1) new show ?thesis
    unfolding ledger_inv_def by (auto simp: dict_get_set intro: has_event_set split: if_splits)
qed


definition same_item :: "item_row \<Rightarrow> item_row \<Rightarrow> bool" where
  "same_item r r' \<longleftrightarrow> ir_memory_id r' = ir_memory_id r \<and> ir_tenant_id r' = ir_tenant_id r \<and>
     ir_owner_principal_id r' = ir_owner_principal_id r \<and> ir_source_command_id r' = ir_source_command_id r \<and>
     (ir_state r' = ERASED \<longleftrightarrow> ir_state r = ERASED) \<and>
     (case ir_item r of None \<Rightarrow> ir_item r' = None
      | Some x \<Rightarrow> (\<exists>x'. ir_item r' = Some x' \<and> mi_id x' = mi_id x \<and> mi_content x' = mi_content x))"

lemma same_item_refl: "same_item r r"
  by (simp add: same_item_def split: option.splits)

lemma command_ok_same_item:
  assumes "command_ok items c" and "\<And>k r. dict_get items k = Some r \<Longrightarrow> \<exists>r'. dict_get items' k = Some r' \<and> same_item r r'"
  shows "command_ok items' c"
proof (cases "cr_result_memory_id c")
  case None
  then obtain m row where row: "pc_target_memory_id c = Some m" "dict_get items m = Some row"
    "ir_tenant_id row = pc_tenant_id c" "ir_owner_principal_id row = pc_owner_principal_id c"
    "pc_state c = APPLIED \<longrightarrow> ir_item row = None"
    using assms(1) unfolding command_ok_def by auto
  obtain row' where "dict_get items' m = Some row'" "same_item row row'" using assms(2) [OF row(2)] by blast
  with row assms(1) None show ?thesis by (auto simp: command_ok_def same_item_def)
next
  case (Some m)
  then obtain row where row: "dict_get items m = Some row" "ir_source_command_id row = pc_id c"
    "ir_tenant_id row = pc_tenant_id c" "ir_owner_principal_id row = pc_owner_principal_id c"
    "case ir_item row of None \<Rightarrow> pc_result_item c = None \<and> cr_payload c = JObject []
     | Some x \<Rightarrow> \<exists>y. pc_result_item c = Some y \<and> mi_id y = m \<and> mi_id x = m \<and> mi_content y = mi_content x"
    using assms(1) unfolding command_ok_def by auto
  obtain row' where row': "dict_get items' m = Some row'" "same_item row row'" using assms(2) [OF row(1)] by blast
  have "case ir_item row' of None \<Rightarrow> pc_result_item c = None \<and> cr_payload c = JObject []
     | Some x \<Rightarrow> \<exists>y. pc_result_item c = Some y \<and> mi_id y = m \<and> mi_id x = m \<and> mi_content y = mi_content x"
    using row(5) row'(2) by (auto simp: same_item_def split: option.splits)
  with row row' assms(1) Some show ?thesis unfolding command_ok_def by (auto simp: same_item_def)
qed

lemma ledger_inv_items_update:
  assumes inv: "ledger_inv db" and same: "\<And>k r. dict_get (td_items db) k = Some r \<Longrightarrow> P r \<Longrightarrow> same_item r (f r)"
  shows "ledger_inv (db\<lparr>td_items := update_where P f (td_items db)\<rparr>)"
proof (rule ledger_invI)
  let ?items = "update_where P f (td_items db)"
  have step: "\<exists>r'. dict_get ?items k = Some r' \<and> same_item r r'" if "dict_get (td_items db) k = Some r" for k r
    using that same [OF that] by (auto simp: same_item_refl)
  show "keyed ir_memory_id (td_items (db\<lparr>td_items := ?items\<rparr>))"
    using ledger_invD(2) [OF inv] same by (auto simp: keyed_def same_item_def)
  show "command_ok (td_items (db\<lparr>td_items := ?items\<rparr>)) c"
    if "dict_get (td_commands (db\<lparr>td_items := ?items\<rparr>)) k = Some c" for k c
  proof -
    have "command_ok (td_items db) c" using ledger_invD(5) [OF inv, of k c] that by simp
    from command_ok_same_item [OF this step] show ?thesis by simp
  qed
  show "item_ok (td_commands (db\<lparr>td_items := ?items\<rparr>)) row"
    if row: "dict_get (td_items (db\<lparr>td_items := ?items\<rparr>)) k = Some row" for k row
  proof -
    obtain r where at: "dict_get (td_items db) k = Some r" using row by (cases "dict_get (td_items db) k") auto
    then have r: "dict_get (td_items db) k = Some r" "same_item r row" using row step [OF at] by auto
    show ?thesis using ledger_invD(4) [OF inv r(1)] r(2) by (auto simp: item_ok_def same_item_def split: option.splits)
  qed
qed (use ledger_invD [OF inv] in auto)

lemma item_ok_commands:
  assumes "item_ok commands row"
    and "\<And>k c. dict_get commands k = Some c \<Longrightarrow>
      \<exists>c'. dict_get commands' k = Some c' \<and> cr_result_memory_id c' = cr_result_memory_id c"
  shows "item_ok commands' row"
  using assms unfolding item_ok_def by metis

lemma event_ok_commands:
  assumes "event_ok commands r"
    and "\<And>k c. dict_get commands k = Some c \<Longrightarrow>
      \<exists>c'. dict_get commands' k = Some c' \<and> pc_tenant_id c' = pc_tenant_id c \<and> pc_state c' = pc_state c"
  shows "event_ok commands' r"
  unfolding event_ok_def
proof
  assume "ob_event_type r = ''memory.command.accepted''"
  then obtain c where c: "dict_get commands (ob_aggregate_id r) = Some c" "pc_tenant_id c = ob_tenant_id r"
    "ob_processed_at r = None \<longleftrightarrow> pc_state c = ACCEPTED"
    using assms(1) by (auto simp: event_ok_def)
  from assms(2) [OF c(1)] c(2,3) show "\<exists>c. dict_get commands' (ob_aggregate_id r) = Some c \<and>
      pc_tenant_id c = ob_tenant_id r \<and> (ob_processed_at r = None \<longleftrightarrow> pc_state c = ACCEPTED)" by auto
qed

lemma ledger_inv_erase:
  assumes inv: "ledger_inv db" and row: "dict_get (td_items db) m = Some row" "ir_tenant_id row = tenant_id"
    "ir_owner_principal_id row = owner"
  shows "ledger_inv (erase_item tenant_id owner m db)"
proof (rule ledger_invI)
  let ?db = "erase_item tenant_id owner m db"
  let ?hit = "\<lambda>r. ir_tenant_id r = tenant_id \<and> ir_owner_principal_id r = owner \<and> ir_memory_id r = m"
  have key: "ir_memory_id r = k" if "dict_get (td_items db) k = Some r" for k r
    using ledger_invD(2) [OF inv] that by (simp add: keyed_def)
  have items: "dict_get (td_items ?db) k = map_option (\<lambda>r. if k = m then r\<lparr>ir_state := ERASED, ir_item := None\<rparr> else r)
      (dict_get (td_items db) k)" for k
    using row key by (cases "dict_get (td_items db) k") (auto simp: erase_item_def)
  have commands: "dict_get (td_commands ?db) k = map_option (\<lambda>c. if pc_tenant_id c = tenant_id \<and> cr_result_memory_id c = Some m
      then c\<lparr>pc_result_item := None, cr_payload := JObject []\<rparr> else c) (dict_get (td_commands db) k)" for k
    by (simp add: erase_item_def)
  show "keyed pc_id (td_commands ?db)" using ledger_invD(1) [OF inv] by (auto simp: keyed_def commands)
  show "keyed ir_memory_id (td_items ?db)" using ledger_invD(2) [OF inv] by (auto simp: keyed_def items)
  show "keyed ob_event_id (td_outbox ?db)" using ledger_invD(3) [OF inv] by (simp add: erase_item_def)
  show "has_event (td_outbox ?db) k" if "dict_get (td_commands ?db) k \<noteq> None" for k
    using that ledger_invD(7) [OF inv, of k] by (simp add: commands) (simp add: erase_item_def)
  show "event_ok (td_commands ?db) r" if "dict_get (td_outbox ?db) k = Some r" for k r
  proof (rule event_ok_commands)
    show "event_ok (td_commands db) r" using that ledger_invD(6) [OF inv, of k r] by (simp add: erase_item_def)
  qed (auto simp: commands)
  show "item_ok (td_commands ?db) r" if r: "dict_get (td_items ?db) k = Some r" for k r
  proof -
    obtain r0 where r0: "dict_get (td_items db) k = Some r0" "r = (if k = m then r0\<lparr>ir_state := ERASED, ir_item := None\<rparr> else r0)"
      using r by (auto simp: items)
    have ok: "item_ok (td_commands db) r0" by (rule ledger_invD(4) [OF inv r0(1)])
    then obtain c where c: "dict_get (td_commands db) (ir_source_command_id r0) = Some c" "cr_result_memory_id c = Some (ir_memory_id r0)"
      by (auto simp: item_ok_def)
    with ok r0(2) show ?thesis by (auto simp: item_ok_def commands)
  qed
  show "command_ok (td_items ?db) c" if c: "dict_get (td_commands ?db) k = Some c" for k c
  proof -
    obtain c0 where c0: "dict_get (td_commands db) k = Some c0"
      and eq: "c = (if pc_tenant_id c0 = tenant_id \<and> cr_result_memory_id c0 = Some m
        then c0\<lparr>pc_result_item := None, cr_payload := JObject []\<rparr> else c0)"
      using c by (auto simp: commands)
    have ok: "command_ok (td_items db) c0" by (rule ledger_invD(5) [OF inv c0])
    show ?thesis
    proof (cases "cr_result_memory_id c0")
      case None
      then obtain m' r where r: "pc_target_memory_id c0 = Some m'" "dict_get (td_items db) m' = Some r"
        "ir_tenant_id r = pc_tenant_id c0" "ir_owner_principal_id r = pc_owner_principal_id c0"
        "pc_state c0 = APPLIED \<longrightarrow> ir_item r = None"
        using ok by (auto simp: command_ok_def)
      then have "dict_get (td_items ?db) m' = Some (if m' = m then r\<lparr>ir_state := ERASED, ir_item := None\<rparr> else r)"
        by (simp add: items)
      with r ok None eq show ?thesis by (cases "m' = m") (auto simp: command_ok_def)
    next
      case (Some m')
      then obtain r where r: "dict_get (td_items db) m' = Some r" "ir_source_command_id r = pc_id c0"
        "ir_tenant_id r = pc_tenant_id c0" "ir_owner_principal_id r = pc_owner_principal_id c0"
        using ok by (auto simp: command_ok_def)
      then have "dict_get (td_items ?db) m' = Some (if m' = m then r\<lparr>ir_state := ERASED, ir_item := None\<rparr> else r)"
        by (simp add: items)
      with ok r Some eq row show ?thesis by (cases "m' = m") (auto simp: command_ok_def)
    qed
  qed
qed

text \<open>A command becomes applied together with its event; an erase command only once the item is erased.\<close>

lemma ledger_inv_applied:
  assumes inv: "ledger_inv db" and c: "dict_get (td_commands db) command_id = Some c" "pc_tenant_id c = tenant_id"
    and erased: "\<And>m row. pc_command_type c = ERASE_COMMAND \<Longrightarrow> pc_target_memory_id c = Some m \<Longrightarrow>
      dict_get (td_items db) m = Some row \<Longrightarrow> ir_item row = None"
  shows "ledger_inv (applied_in now tenant_id command_id db)"
proof (rule ledger_invI)
  let ?db = "applied_in now tenant_id command_id db"
  have key: "pc_id c' = k" if "dict_get (td_commands db) k = Some c'" for k c'
    using ledger_invD(1) [OF inv] that by (simp add: keyed_def)
  have commands: "dict_get (td_commands ?db) k = map_option (\<lambda>c'. if k = command_id then c'\<lparr>pc_state := APPLIED\<rparr> else c')
      (dict_get (td_commands db) k)" for k
    using c key by (cases "dict_get (td_commands db) k") (auto simp: applied_in_def mark_processed_def)
  have items: "td_items ?db = td_items db" by (simp add: applied_in_def mark_processed_def)
  have outbox: "dict_get (td_outbox ?db) k = map_option (\<lambda>r. if ob_tenant_id r = tenant_id \<and> ob_aggregate_id r = command_id \<and>
        ob_event_type r = ''memory.command.accepted''
      then r\<lparr>ob_processed_at := Some now, ob_locked_at := None, ob_lock_id := None\<rparr> else r) (dict_get (td_outbox db) k)" for k
    by (simp add: applied_in_def mark_processed_def)
  show "keyed pc_id (td_commands ?db)"
    unfolding keyed_def
  proof (intro allI impI)
    fix k c' assume "dict_get (td_commands ?db) k = Some c'"
    then obtain c0 where "dict_get (td_commands db) k = Some c0" "pc_id c' = pc_id c0"
      by (cases "dict_get (td_commands db) k") (auto simp: commands)
    with key show "pc_id c' = k" by simp
  qed
  show "keyed ir_memory_id (td_items ?db)" using ledger_invD(2) [OF inv] by (simp add: items)
  show "keyed ob_event_id (td_outbox ?db)" using ledger_invD(3) [OF inv] by (auto simp: keyed_def outbox)
  show "item_ok (td_commands ?db) row" if "dict_get (td_items ?db) k = Some row" for k row
  proof (rule item_ok_commands)
    show "item_ok (td_commands db) row" using ledger_invD(4) [OF inv, of k row] that by (simp add: items)
  qed (auto simp: commands)
  show "command_ok (td_items ?db) c'" if c': "dict_get (td_commands ?db) k = Some c'" for k c'
  proof (cases "k = command_id")
    case True
    then have "c' = c\<lparr>pc_state := APPLIED\<rparr>" using c' c by (simp add: commands)
    with ledger_invD(5) [OF inv c(1)] erased show ?thesis by (cases "cr_result_memory_id c") (auto simp: command_ok_def items cong: option.case_cong)
  next
    case False
    then show ?thesis using c' ledger_invD(5) [OF inv, of k c'] by (auto simp: commands items)
  qed
  show "event_ok (td_commands ?db) r" if r: "dict_get (td_outbox ?db) k = Some r" for k r
  proof -
    obtain r0 where r0: "dict_get (td_outbox db) k = Some r0" using r by (auto simp: outbox)
    have ok: "event_ok (td_commands db) r0" by (rule ledger_invD(6) [OF inv r0])
    show ?thesis
    proof (cases "ob_event_type r0 = ''memory.command.accepted'' \<and> ob_aggregate_id r0 = command_id")
      case True
      then have "ob_tenant_id r0 = tenant_id" using ok c by (auto simp: event_ok_def)
      then have "r = r0\<lparr>ob_processed_at := Some now, ob_locked_at := None, ob_lock_id := None\<rparr>"
        using True r r0 by (simp add: outbox)
      moreover have "dict_get (td_commands ?db) command_id = Some (c\<lparr>pc_state := APPLIED\<rparr>)" using c by (simp add: commands)
      ultimately show ?thesis using True c \<open>ob_tenant_id r0 = tenant_id\<close> by (simp add: event_ok_def)
    next
      case False
      then have same: "r = r0" using r r0 by (auto simp: outbox)
      show ?thesis
      proof (cases "ob_event_type r0 = ''memory.command.accepted''")
        case True
        with False ok same show ?thesis by (auto simp: event_ok_def commands)
      next
        case False
        with same show ?thesis by (simp add: event_ok_def)
      qed
    qed
  qed
  show "has_event (td_outbox ?db) k" if "dict_get (td_commands ?db) k \<noteq> None" for k
  proof -
    have "has_event (td_outbox db) k" using that ledger_invD(7) [OF inv, of k] by (auto simp: commands)
    then show ?thesis unfolding applied_in_def mark_processed_def by (auto intro: has_event_update)
  qed
qed


text \<open>A new command with its event, and the items changed without touching the content of any other.\<close>

lemma ledger_inv_accept:
  assumes inv: "ledger_inv db"
    and fresh: "dict_get (td_commands db) command_id = None" "dict_get (td_outbox db) event_id = None"
    and c: "pc_id c = command_id" "pc_state c = ACCEPTED" "command_ok items c"
    and r: "ob_event_id r = event_id" "ob_aggregate_id r = command_id" "ob_tenant_id r = pc_tenant_id c"
      "ob_event_type r = ''memory.command.accepted''" "ob_processed_at r = None"
    and items: "keyed ir_memory_id items"
      "\<And>k row. dict_get (td_items db) k = Some row \<Longrightarrow> \<exists>row'. dict_get items k = Some row' \<and> same_item row row'"
      "\<And>k row. dict_get items k = Some row \<Longrightarrow> dict_get (td_items db) k = None \<Longrightarrow>
        item_ok (dict_set command_id c (td_commands db)) row"
    and db': "td_commands db' = dict_set command_id c (td_commands db)" "td_items db' = items"
      "td_outbox db' = dict_set event_id r (td_outbox db)"
  shows "ledger_inv db'"
proof (rule ledger_invI)
  have grow: "\<exists>c''. dict_get (td_commands db') k = Some c'' \<and> c'' = c'" if "dict_get (td_commands db) k = Some c'" for k c'
    using that fresh(1) by (auto simp: db' dict_get_set)
  show "keyed pc_id (td_commands db')" using ledger_invD(1) [OF inv] c by (auto simp: db')
  show "keyed ir_memory_id (td_items db')" using items(1) by (simp add: db')
  show "keyed ob_event_id (td_outbox db')" using ledger_invD(3) [OF inv] r by (auto simp: db')
  show "item_ok (td_commands db') row" if "dict_get (td_items db') k = Some row" for k row
  proof (cases "dict_get (td_items db) k")
    case None
    with items(3) that show ?thesis by (simp add: db')
  next
    case (Some row0)
    then have same: "same_item row0 row" using items(2) [OF Some] that by (auto simp: db')
    have "item_ok (td_commands db') row0" using ledger_invD(4) [OF inv Some] grow by (auto intro: item_ok_commands)
    with same show ?thesis by (auto simp: item_ok_def same_item_def split: option.splits)
  qed
  show "command_ok (td_items db') c'" if "dict_get (td_commands db') k = Some c'" for k c'
  proof (cases "k = command_id")
    case True
    with that c show ?thesis by (simp add: db')
  next
    case False
    then have "command_ok (td_items db) c'" using that ledger_invD(5) [OF inv, of k c'] by (simp add: db')
    then show ?thesis unfolding db'(2) using items(2) by (rule command_ok_same_item)
  qed
  show "event_ok (td_commands db') r'" if "dict_get (td_outbox db') k = Some r'" for k r'
  proof (cases "k = event_id")
    case True
    with that r c show ?thesis by (simp add: db' event_ok_def)
  next
    case False
    then have "event_ok (td_commands db) r'" using that ledger_invD(6) [OF inv, of k r'] by (simp add: db')
    then show ?thesis using grow by (auto intro: event_ok_commands)
  qed
  show "has_event (td_outbox db') k" if "dict_get (td_commands db') k \<noteq> None" for k
  proof (cases "k = command_id")
    case True
    with r show ?thesis unfolding has_event_def db'(3) by (intro exI [of _ event_id] exI [of _ r]) simp
  next
    case False
    then have "has_event (td_outbox db) k" using that ledger_invD(7) [OF inv, of k] by (simp add: db' dict_get_set)
    then show ?thesis unfolding db'(3) using fresh(2) by (rule has_event_set)
  qed
qed

lemma write_audit_simps [simp]:
  "td_commands (write_audit t a e k i u db) = td_commands db" "td_items (write_audit t a e k i u db) = td_items db"
  "td_outbox (write_audit t a e k i u db) = td_outbox db" "td_candidates (write_audit t a e k i u db) = td_candidates db"
  "td_erasures (write_audit t a e k i u db) = td_erasures db"
  by (simp_all add: write_audit_def)

lemma insert_outbox_Inr:
  assumes "insert_outbox event_id now tenant_id aggregate_type aggregate_id event_type db = (Inr u, db')"
  obtains r where "dict_get (td_outbox db) event_id = None" "db' = db\<lparr>td_outbox := dict_set event_id r (td_outbox db)\<rparr>"
    "ob_event_id r = event_id" "ob_aggregate_id r = aggregate_id" "ob_tenant_id r = tenant_id" "ob_event_type r = event_type"
    "ob_processed_at r = None"
  using assms by (auto simp: insert_outbox_def put_outbox_def split: sum.splits dest!: insert_row_Inr)

lemma put_commands_Inr:
  "put_commands db (insert_row clashes k r (td_commands db)) = (Inr u, db') \<Longrightarrow>
     dict_get (td_commands db) k = None \<and> db' = db\<lparr>td_commands := dict_set k r (td_commands db)\<rparr>"
  by (auto simp: put_commands_def split: sum.splits dest!: insert_row_Inr)

lemma put_items_Inr:
  "put_items db (insert_row clashes k r (td_items db)) = (Inr u, db') \<Longrightarrow>
     dict_get (td_items db) k = None \<and> db' = db\<lparr>td_items := dict_set k r (td_items db)\<rparr>"
  by (auto simp: put_items_def split: sum.splits dest!: insert_row_Inr)

text \<open>What a successful \<^verbatim>\<open>_insert_memory_command\<close> has stored.\<close>

lemma insert_memory_command_Inr:
  assumes "insert_memory_command ids now command item payload db = (Inr command_id, db')"
  obtains r where "dict_get (td_commands db) (fst ids) = None" "dict_get (td_items db) (mi_id item) = None"
    "dict_get (td_outbox db) (snd ids) = None" "mi_state item \<noteq> ERASED" "command_id = fst ids"
    "td_commands db' = dict_set (fst ids) (new_command_row (fst ids) now command item payload) (td_commands db)"
    "td_items db' = dict_set (mi_id item) (new_item_row (fst ids) now command item) (td_items db)"
    "td_outbox db' = dict_set (snd ids) r (td_outbox db)"
    "ob_event_id r = snd ids" "ob_aggregate_id r = fst ids" "ob_tenant_id r = pc_tenant_id command"
    "ob_event_type r = ''memory.command.accepted''" "ob_processed_at r = None"
proof -
  obtain u1 db1 u2 db2 u3 db3 where
    steps: "put_commands db (insert_row (same_command command) (fst ids)
        (new_command_row (fst ids) now command item payload) (td_commands db)) = (Inr u1, db1)"
      "mi_state item \<noteq> ERASED"
      "put_items db1 (insert_row (\<lambda>r. ir_source_command_id r = fst ids) (mi_id item)
        (new_item_row (fst ids) now command item) (td_items db1)) = (Inr u2, db2)"
      "insert_outbox (snd ids) now (pc_tenant_id command) ''private_memory_command'' (fst ids)
        ''memory.command.accepted'' db2 = (Inr u3, db3)"
    and last: "command_id = fst ids" "td_commands db' = td_commands db3" "td_items db' = td_items db3" "td_outbox db' = td_outbox db3"
    using assms unfolding insert_memory_command_def by (auto elim!: and_then_Inr_E split: if_splits)
  note c = put_commands_Inr [OF steps(1)] and i = put_items_Inr [OF steps(3)]
  show thesis
    using steps(4)
  proof (rule insert_outbox_Inr)
    fix r assume "dict_get (td_outbox db2) (snd ids) = None" "db3 = db2\<lparr>td_outbox := dict_set (snd ids) r (td_outbox db2)\<rparr>"
      "ob_event_id r = snd ids" "ob_aggregate_id r = fst ids" "ob_tenant_id r = pc_tenant_id command"
      "ob_event_type r = ''memory.command.accepted''" "ob_processed_at r = None"
    with c i steps(2) last show thesis by (intro that [of r]) simp_all
  qed
qed

lemma new_rows [simp]:
  "pc_id (new_command_row i now c x p) = i" "pc_state (new_command_row i now c x p) = ACCEPTED"
  "pc_tenant_id (new_command_row i now c x p) = pc_tenant_id c"
  "pc_owner_principal_id (new_command_row i now c x p) = pc_owner_principal_id c"
  "pc_command_type (new_command_row i now c x p) = pc_command_type c"
  "pc_result_item (new_command_row i now c x p) = Some x" "cr_result_memory_id (new_command_row i now c x p) = Some (mi_id x)"
  "ir_memory_id (new_item_row i now c x) = mi_id x" "ir_tenant_id (new_item_row i now c x) = pc_tenant_id c"
  "ir_owner_principal_id (new_item_row i now c x) = pc_owner_principal_id c" "ir_item (new_item_row i now c x) = Some x"
  "ir_state (new_item_row i now c x) = mi_state x" "ir_source_command_id (new_item_row i now c x) = i"
  by (simp_all add: new_command_row_def new_item_row_def private_memory_command.defs command_row.defs)

lemma ledger_inv_insert_command:
  assumes inv: "ledger_inv db" and ins: "insert_memory_command ids now command item payload db = (Inr command_id, db')"
    and kind: "pc_command_type command \<noteq> ERASE_COMMAND"
  shows "ledger_inv db'"
proof -
  let ?c = "new_command_row (fst ids) now command item payload" and ?row = "new_item_row (fst ids) now command item"
  let ?items = "dict_set (mi_id item) ?row (td_items db)"
  obtain r where fresh: "dict_get (td_commands db) (fst ids) = None" "dict_get (td_items db) (mi_id item) = None"
      "dict_get (td_outbox db) (snd ids) = None" "mi_state item \<noteq> ERASED"
    and db': "td_commands db' = dict_set (fst ids) ?c (td_commands db)" "td_items db' = ?items"
      "td_outbox db' = dict_set (snd ids) r (td_outbox db)"
    and r: "ob_event_id r = snd ids" "ob_aggregate_id r = fst ids" "ob_tenant_id r = pc_tenant_id command"
      "ob_event_type r = ''memory.command.accepted''" "ob_processed_at r = None"
    using ins by (rule insert_memory_command_Inr) blast
  show ?thesis
  proof (rule ledger_inv_accept [where db = db and command_id = "fst ids" and event_id = "snd ids" and c = ?c and r = r
        and items = ?items])
    show "command_ok ?items ?c" using kind by (simp add: command_ok_def)
    show "keyed ir_memory_id ?items" using ledger_invD(2) [OF inv] by auto
    show "\<exists>row''. dict_get ?items k = Some row'' \<and> same_item row' row''"
      if "dict_get (td_items db) k = Some row'" for k row'
      using that fresh(2) by (auto simp: dict_get_set same_item_refl)
    show "item_ok (dict_set (fst ids) ?c (td_commands db)) row'"
      if "dict_get ?items k = Some row'" "dict_get (td_items db) k = None" for k row'
      using that fresh(4) by (auto simp: dict_get_set item_ok_def split: if_splits)
  qed (use inv fresh db' r in simp_all)
qed


section \<open>The operations on Private Memory\<close>

lemma command_for_kind [simp]:
  "pc_command_type (command_for t a p k i g) = k" "pc_tenant_id (command_for t a p k i g) = t"
  "pc_owner_principal_id (command_for t a p k i g) = p"
  by (simp_all add: command_for_def)

lemma ledger_inv_transaction:
  assumes "ledger_inv db" and "\<And>x db'. body db = (Inr x, db') \<Longrightarrow> ledger_inv db'"
  shows "ledger_inv (snd (transaction body db))"
  using assms by (simp add: snd_transaction)

lemma ledger_inv_retain:
  assumes inv: "ledger_inv db"
  shows "ledger_inv (snd (pg_accept_retain uid ids now tenant_id actor_id owner command db))"
  unfolding pg_accept_retain_def
proof (rule ledger_inv_transaction [OF inv])
  show "ledger_inv db'" if "(let item = i in case existing_memory_command tenant_id actor_id RETAIN_COMMAND
      (rt_idempotency_key command) db of Some existing \<Rightarrow> (required_result_item existing, db)
    | None \<Rightarrow> and_then (insert_memory_command ids now (command_for tenant_id actor_id owner RETAIN_COMMAND k None) item p db)
        (\<lambda>_ db. (Inr item, db))) = (Inr x, db')" for i k p x db'
    using that inv by (auto simp: Let_def split: option.splits elim!: and_then_Inr_E intro: ledger_inv_insert_command)
qed

lemma ledger_inv_supersede_imported_parent:
  assumes inv: "ledger_inv db"
  shows "ledger_inv (supersede_imported_parent tenant_id memory_id db)"
  unfolding supersede_imported_parent_def
proof (rule ledger_inv_items_update [OF inv])
  fix k r assume r: "dict_get (td_items db) k = Some r"
    and active: "ir_tenant_id r = tenant_id \<and> ir_memory_id r = memory_id \<and> ir_state r = ACTIVE_MEMORY"
  have "item_ok (td_commands db) r" by (rule ledger_invD(4) [OF inv r])
  with active obtain x where "ir_item r = Some x" by (auto simp: item_ok_def)
  with active show "same_item r (r\<lparr>ir_state := SUPERSEDED, ir_item := map_option (\<lambda>x. x\<lparr>mi_state := SUPERSEDED\<rparr>) (ir_item r)\<rparr>)"
    by (simp add: same_item_def)
qed

lemma ledger_inv_import:
  assumes inv: "ledger_inv db"
  shows "ledger_inv (snd (pg_accept_import ids now tenant_id actor_id owner item db))"
  unfolding pg_accept_import_def
proof (rule ledger_inv_transaction [OF inv])
  show "ledger_inv db'" if "(let imported = i in case select_row ir_tenant_id tenant_id (mi_id imported) (td_items db) of
      Some row \<Rightarrow> if ir_owner_principal_id row \<noteq> owner
        then (Inl (ValueError ''Memory Item identifier belongs to another Principal''), db)
        else (case ir_item row of None \<Rightarrow> (Inl (ValueError ''An erased Memory Item identifier cannot be restored''), db)
              | Some existing \<Rightarrow> (Inr (existing, False), db))
    | None \<Rightarrow> and_then (insert_memory_command ids now (command_for tenant_id actor_id owner IMPORT_COMMAND
          (mi_id imported) (mi_supersedes_id imported)) imported (JObject [(''archive_memory_id'', JString (mi_id imported))]) db)
        (\<lambda>_ db. (Inr (imported, True), case mi_supersedes_id imported of None \<Rightarrow> db
           | Some parent_id \<Rightarrow> supersede_imported_parent tenant_id parent_id db))) = (Inr x, db')" for i x db'
    using that inv
    by (auto simp: Let_def split: option.splits if_splits elim!: and_then_Inr_E
        intro!: ledger_inv_supersede_imported_parent)
      (rule ledger_inv_insert_command, assumption, assumption, simp)+
qed

lemma ledger_inv_supersede_item:
  assumes inv: "ledger_inv db" and row: "dict_get (td_items db) m = Some row" "ir_item row = Some original" "ir_state row \<noteq> ERASED"
  shows "ledger_inv (supersede_item tenant_id m original db)"
  unfolding supersede_item_def
proof (rule ledger_inv_items_update [OF inv])
  fix k r assume r: "dict_get (td_items db) k = Some r" and hit: "ir_tenant_id r = tenant_id \<and> ir_memory_id r = m"
  have "k = m" using ledger_invD(2) [OF inv] r hit by (auto simp: keyed_def)
  then have "r = row" using r row by simp
  with row show "same_item r (r\<lparr>ir_state := SUPERSEDED, ir_item := Some (original\<lparr>mi_state := SUPERSEDED\<rparr>)\<rparr>)"
    by (simp add: same_item_def)
qed

lemma ledger_inv_correction:
  assumes inv: "ledger_inv db"
  shows "ledger_inv (snd (pg_accept_correction uid ids now tenant_id actor_id owner command db))"
  unfolding pg_accept_correction_def
proof (rule ledger_inv_transaction [OF inv])
  let ?m = "cm_memory_id command"
  fix x db'
  assume run: "(case existing_memory_command tenant_id actor_id CORRECT_COMMAND (cm_idempotency_key command) db of
         Some existing \<Rightarrow> (required_result_item existing, db)
       | None \<Rightarrow>
           (case select_row ir_tenant_id tenant_id ?m (td_items db) of
              None \<Rightarrow> (Inl (LookupError ''Owned active Memory Item not found''), db)
            | Some row \<Rightarrow>
                if ir_owner_principal_id row \<noteq> owner \<or> ir_state row \<noteq> ACTIVE_MEMORY
                then (Inl (LookupError ''Owned active Memory Item not found''), db)
                else (case ir_item row of
                  None \<Rightarrow> (Inl (ValueError ''MemoryItem''), db)
                | Some original \<Rightarrow>
                    let corrected = \<lparr>mi_id = uid, mi_owner_principal_id = Some owner, mi_scope = PRIVATE,
                          mi_content = cm_replacement_content command, mi_kind = cm_kind command,
                          mi_confidence = cm_confidence command,
                          mi_provenance = \<lparr>pv_actor_id = actor_id, pv_source = ''correction''\<rparr>, mi_created_at = now,
                          mi_state = ACTIVE_MEMORY, mi_supersedes_id = Some ?m\<rparr>
                    in and_then (insert_memory_command ids now (command_for tenant_id actor_id owner
                           CORRECT_COMMAND (cm_idempotency_key command) (Some ?m)) corrected
                           (correct_payload command) db)
                         (\<lambda>_ db. (Inr corrected, supersede_item tenant_id ?m original db))))) = (Inr x, db')"
  show "ledger_inv db'"
  proof (cases "db' = db")
    case True
    with inv show ?thesis by simp
  next
    case False
    with run obtain row original item cid db1 where row: "select_row ir_tenant_id tenant_id ?m (td_items db) = Some row"
      "ir_state row = ACTIVE_MEMORY" "ir_item row = Some original"
      and ins: "insert_memory_command ids now (command_for tenant_id actor_id owner CORRECT_COMMAND
        (cm_idempotency_key command) (Some ?m)) item (correct_payload command) db = (Inr cid, db1)"
      and db': "db' = supersede_item tenant_id ?m original db1"
      by (auto simp: Let_def split: option.splits if_splits elim!: and_then_Inr_E)
    have inv1: "ledger_inv db1" using inv ins by (rule ledger_inv_insert_command) simp
    have at: "dict_get (td_items db) ?m = Some row" using select_row_Some [OF row(1)] by simp
    then have "dict_get (td_items db1) ?m = Some row"
      using ins by (auto elim!: insert_memory_command_Inr simp: dict_get_set)
    then show ?thesis unfolding db' using inv1 row by (intro ledger_inv_supersede_item) auto
  qed
qed

section \<open>Erasing\<close>

lemma new_erase_row [simp]:
  "pc_id (new_erase_row i now t a q) = i" "pc_state (new_erase_row i now t a q) = ACCEPTED"
  "pc_tenant_id (new_erase_row i now t a q) = t" "pc_owner_principal_id (new_erase_row i now t a q) = er_owner_principal_id q"
  "pc_command_type (new_erase_row i now t a q) = ERASE_COMMAND" "pc_result_item (new_erase_row i now t a q) = None"
  "cr_result_memory_id (new_erase_row i now t a q) = None" "pc_target_memory_id (new_erase_row i now t a q) = Some (er_memory_id q)"
  by (simp_all add: new_erase_row_def)

lemma set_erasure_pending_simps [simp]:
  "td_commands (set_erasure_pending t m db) = td_commands db" "td_outbox (set_erasure_pending t m db) = td_outbox db"
  by (simp_all add: set_erasure_pending_def)

lemma ledger_inv_insert_erasure:
  assumes inv: "ledger_inv db" and ins: "insert_erasure_memory_command ids now tenant_id actor_id request db = (Inr u, db')"
    and row: "dict_get (td_items db) (er_memory_id request) = Some row" "ir_tenant_id row = tenant_id"
      "ir_owner_principal_id row = er_owner_principal_id request" "ir_state row \<noteq> ERASED"
  shows "ledger_inv db'"
proof -
  let ?m = "er_memory_id request" and ?c = "new_erase_row (fst ids) now tenant_id actor_id request"
  let ?items = "td_items (set_erasure_pending tenant_id ?m db)"
  obtain clashes u1 u3 db1 db3 where
    steps: "put_commands db (insert_row clashes (fst ids) ?c (td_commands db)) = (Inr u1, db1)"
      "insert_outbox (snd ids) now tenant_id ''private_memory_command'' (fst ids) ''memory.command.accepted''
        (set_erasure_pending tenant_id ?m db1) = (Inr u3, db3)"
    and last: "td_commands db' = td_commands db3" "td_items db' = td_items db3" "td_outbox db' = td_outbox db3"
    using ins unfolding insert_erasure_memory_command_def Let_def by (auto elim!: and_then_Inr_E)
  note p = put_commands_Inr [OF steps(1)]
  have pending: "td_items (set_erasure_pending tenant_id ?m db1) = ?items" using p by (simp add: set_erasure_pending_def)
  have key: "ir_memory_id r = k" if "dict_get (td_items db) k = Some r" for k r
    using ledger_invD(2) [OF inv] that by (simp add: keyed_def)
  have items: "dict_get ?items k = map_option (\<lambda>r. if k = ?m then r\<lparr>ir_state := ERASURE_PENDING\<rparr> else r) (dict_get (td_items db) k)" for k
    using key row by (cases "dict_get (td_items db) k") (auto simp: set_erasure_pending_def)
  show ?thesis
    using steps(2)
  proof (rule insert_outbox_Inr)
    fix r assume r: "dict_get (td_outbox (set_erasure_pending tenant_id ?m db1)) (snd ids) = None"
      "db3 = set_erasure_pending tenant_id ?m db1
        \<lparr>td_outbox := dict_set (snd ids) r (td_outbox (set_erasure_pending tenant_id ?m db1))\<rparr>"
      "ob_event_id r = snd ids" "ob_aggregate_id r = fst ids" "ob_tenant_id r = tenant_id"
      "ob_event_type r = ''memory.command.accepted''" "ob_processed_at r = None"
    show "ledger_inv db'"
    proof (rule ledger_inv_accept [where db = db and command_id = "fst ids" and event_id = "snd ids" and c = ?c and r = r
          and items = ?items])
      have "dict_get ?items ?m = Some (row\<lparr>ir_state := ERASURE_PENDING\<rparr>)" using row by (simp add: items)
      with row show "command_ok ?items ?c" by (simp add: command_ok_def)
      show "keyed ir_memory_id ?items"
        unfolding set_erasure_pending_def using ledger_invD(2) [OF inv] by (simp add: keyed_update_where)
      show "\<exists>row''. dict_get ?items k = Some row'' \<and> same_item row' row''" if at: "dict_get (td_items db) k = Some row'" for k row'
      proof (cases "k = ?m")
        case True
        with at row show ?thesis by (auto simp: items same_item_def split: option.splits)
      next
        case False
        with at show ?thesis by (auto simp: items same_item_refl)
      qed
      show "item_ok (dict_set (fst ids) ?c (td_commands db)) row'"
        if "dict_get ?items k = Some row'" "dict_get (td_items db) k = None" for k row'
        using that by (simp add: items)
    qed (use inv p pending r last in simp_all)
  qed
qed

lemma ledger_inv_enqueue:
  assumes inv: "ledger_inv db" and run: "enqueue_erasure ids now tenant_id reviewer_id request db = (Inr u, db')"
  shows "ledger_inv db'"
proof (cases "select_row ir_tenant_id tenant_id (er_memory_id request) (td_items db)")
  case None
  with run inv show ?thesis by (simp add: enqueue_erasure_def)
next
  case (Some row)
  with run have ins: "insert_erasure_memory_command ids now tenant_id reviewer_id request db = (Inr u, db')"
    and row: "ir_owner_principal_id row = er_owner_principal_id request" "ir_state row \<noteq> ERASED"
    by (auto simp: enqueue_erasure_def split: if_splits)
  show ?thesis
    by (rule ledger_inv_insert_erasure [OF inv ins]) (use select_row_Some [OF Some] row in auto)
qed

lemma record_erasure_review_simps [simp]:
  "td_commands (record_erasure_review t a c q v db) = td_commands db" "td_items (record_erasure_review t a c q v db) = td_items db"
  "td_outbox (record_erasure_review t a c q v db) = td_outbox db"
  by (simp_all add: record_erasure_review_def)

lemma ledger_inv_recorded: "ledger_inv (record_erasure_review t a c q v db) = ledger_inv db"
  by (rule ledger_inv_cong) simp_all

lemma ledger_inv_review_erasure:
  assumes inv: "ledger_inv db"
  shows "ledger_inv (snd (pg_review_erasure review_id ids now tenant_id reviewer_id command db))"
  unfolding pg_review_erasure_def
  by (rule ledger_inv_transaction [OF inv])
    (auto simp: Let_def inv ledger_inv_recorded split: option.splits sum.splits if_splits elim!: and_then_Inr_E
      elim: ledger_inv_enqueue [rotated])


lemma decode_memory_command_simps [simp]:
  "pc_id (decode_memory_command c) = pc_id c" "pc_tenant_id (decode_memory_command c) = pc_tenant_id c"
  "pc_owner_principal_id (decode_memory_command c) = pc_owner_principal_id c"
  "pc_command_type (decode_memory_command c) = pc_command_type c" "pc_state (decode_memory_command c) = pc_state c"
  "pc_target_memory_id (decode_memory_command c) = pc_target_memory_id c"
  "pc_result_item (decode_memory_command c) = pc_result_item c"
  "pc_erasure_request_id (decode_memory_command c) = pc_erasure_request_id c"
  by (simp_all add: decode_memory_command_def private_memory_command.defs)

lemma pg_get_memory_command_Some:
  "pg_get_memory_command tenant_id command_id db = Some command \<longleftrightarrow>
     (\<exists>c. dict_get (td_commands db) command_id = Some c \<and> pc_tenant_id c = tenant_id \<and> command = decode_memory_command c)"
  by (auto simp: pg_get_memory_command_def select_row_def split: option.splits)

lemma complete_erasure_request_tables:
  "complete_erasure_request now tenant_id request_id db = (Inr u, db') \<Longrightarrow>
     td_commands db' = td_commands db \<and> td_items db' = td_items db \<and> td_outbox db' = td_outbox db"
  by (auto simp: complete_erasure_request_def Let_def split: if_splits)

lemma complete_erasure_command_tables:
  assumes "complete_erasure_command now command db = (Inr u, db')" and "pc_target_memory_id command = Some m"
  shows "td_commands db' = td_commands (erase_item (pc_tenant_id command) (pc_owner_principal_id command) m db)"
    and "td_items db' = td_items (erase_item (pc_tenant_id command) (pc_owner_principal_id command) m db)"
    and "td_outbox db' = td_outbox (erase_item (pc_tenant_id command) (pc_owner_principal_id command) m db)"
  using assms by (auto simp: complete_erasure_command_def Let_def split: option.splits dest: complete_erasure_request_tables)

lemma erase_target:
  assumes inv: "ledger_inv db" and c: "dict_get (td_commands db) k = Some c" "pc_command_type c = ERASE_COMMAND"
  obtains m row where "pc_target_memory_id c = Some m" "dict_get (td_items db) m = Some row" "ir_tenant_id row = pc_tenant_id c"
    "ir_owner_principal_id row = pc_owner_principal_id c" "cr_result_memory_id c = None" "ir_memory_id row = m"
proof -
  have "command_ok (td_items db) c" by (rule ledger_invD(5) [OF inv c(1)])
  then obtain m row where "pc_target_memory_id c = Some m" "dict_get (td_items db) m = Some row" "ir_tenant_id row = pc_tenant_id c"
    "ir_owner_principal_id row = pc_owner_principal_id c" "cr_result_memory_id c = None"
    using c(2) unfolding command_ok_def by (cases "cr_result_memory_id c") auto
  moreover from this ledger_invD(2) [OF inv] have "ir_memory_id row = m" by (simp add: keyed_def)
  ultimately show thesis by (rule that)
qed

lemma ledger_inv_complete_erasure:
  assumes inv: "ledger_inv db" and c: "dict_get (td_commands db) k = Some c" "pc_command_type c = ERASE_COMMAND"
    and run: "complete_erasure_command now (decode_memory_command c) db = (Inr u, db')"
  shows "ledger_inv db'" and "dict_get (td_commands db') k = Some c"
    and "pc_target_memory_id c = Some m \<Longrightarrow> dict_get (td_items db') m = Some row' \<Longrightarrow> ir_item row' = None"
proof -
  obtain target row where t: "pc_target_memory_id c = Some target" "dict_get (td_items db) target = Some row"
    "ir_tenant_id row = pc_tenant_id c" "ir_owner_principal_id row = pc_owner_principal_id c" "cr_result_memory_id c = None"
    "ir_memory_id row = target"
    using inv c by (rule erase_target)
  let ?db = "erase_item (pc_tenant_id c) (pc_owner_principal_id c) target db"
  have tables: "td_commands db' = td_commands ?db" "td_items db' = td_items ?db" "td_outbox db' = td_outbox ?db"
    using complete_erasure_command_tables [OF run, of target] t(1) by simp_all
  have "ledger_inv ?db" using inv t(2-4) by (rule ledger_inv_erase)
  then show "ledger_inv db'" using ledger_inv_cong [OF tables] by simp
  show "dict_get (td_commands db') k = Some c" unfolding tables erase_item_def using c(1) t(5) by simp
  show "ir_item row' = None" if "pc_target_memory_id c = Some m" "dict_get (td_items db') m = Some row'"
    using that t unfolding tables by (auto simp: erase_item_def)
qed

lemma ledger_inv_mark_applied:
  assumes inv: "ledger_inv db"
  shows "ledger_inv (snd (pg_mark_memory_command_applied now tenant_id command_id db))"
proof -
  have applied: "ledger_inv (write_audit t a e k i u (applied_in now tenant_id command_id db1))"
    if "ledger_inv db1" "dict_get (td_commands db1) command_id = Some c" "pc_tenant_id c = tenant_id"
      "pc_command_type c = ERASE_COMMAND \<longrightarrow> (\<forall>m row. pc_target_memory_id c = Some m \<longrightarrow>
         dict_get (td_items db1) m = Some row \<longrightarrow> ir_item row = None)" for db1 c t a e k i u
    using ledger_inv_applied [OF that(1,2,3), of now] that(4) by (subst ledger_inv_cong) auto
  show ?thesis
    unfolding pg_mark_memory_command_applied_def
  proof (rule ledger_inv_transaction [OF inv], goal_cases)
    case (1 x db')
    show ?case
    proof (cases "db' = db")
      case True
      with inv show ?thesis by simp
    next
      case False
      with 1 obtain c where c: "dict_get (td_commands db) command_id = Some c" "pc_tenant_id c = tenant_id"
        and get: "pg_get_memory_command tenant_id command_id db = Some (decode_memory_command c)"
        by (auto simp: pg_get_memory_command_Some split: option.splits)
      show ?thesis
      proof (cases "pc_command_type c = ERASE_COMMAND")
        case True
        with 1 False get obtain u db1 t a e k i v where run: "complete_erasure_command now (decode_memory_command c) db = (Inr u, db1)"
          and db': "db' = write_audit t a e k i v (applied_in now tenant_id command_id db1)"
          by (auto simp: Let_def split: if_splits option.splits elim!: and_then_Inr_E)
        note done' = ledger_inv_complete_erasure [OF inv c(1) True run]
        show ?thesis unfolding db' by (rule applied [OF done'(1,2) c(2)]) (use done'(3) in blast)
      next
        case no: False
        with 1 False get obtain t a e k i v where db': "db' = write_audit t a e k i v (applied_in now tenant_id command_id db)"
          by (auto simp: Let_def split: if_splits option.splits elim!: and_then_Inr_E)
        show ?thesis unfolding db' by (rule applied [OF inv c]) (use no in simp)
      qed
    qed
  qed
qed

end
