(* ===== verification/DurableHistory.thy ===== *)
theory DurableHistory
  imports DurableInvariant
begin

text \<open>
  How the durable store may change from one transaction to the next (\<open>evolves\<close>), the step relation of
  all its transactions (\<open>pg_step\<close>), and what holds in every state they reach.
\<close>

section \<open>Rows only lose content\<close>

text \<open>\<open>E\<close> has the memory items that may become erased (\<open>Inl\<close>) and the commands that may become applied (\<open>Inr\<close>).\<close>

definition item_evolves :: "(string + string) set \<Rightarrow> item_row \<Rightarrow> item_row \<Rightarrow> bool" where
  "item_evolves E r r' \<longleftrightarrow> (ir_state r' = ERASED \<longrightarrow> ir_state r = ERASED \<or> Inl (ir_memory_id r) \<in> E) \<and> ir_memory_id r' = ir_memory_id r \<and> ir_tenant_id r' = ir_tenant_id r \<and>
     ir_owner_principal_id r' = ir_owner_principal_id r \<and> (ir_state r = ERASED \<longrightarrow> ir_state r' = ERASED) \<and>
     (\<forall>x'. ir_item r' = Some x' \<longrightarrow> (\<exists>x. ir_item r = Some x \<and> mi_id x' = mi_id x \<and> mi_content x' = mi_content x))"

definition command_evolves :: "command_row \<Rightarrow> command_row \<Rightarrow> bool" where
  "command_evolves c c' \<longleftrightarrow> pc_tenant_id c' = pc_tenant_id c \<and> pc_owner_principal_id c' = pc_owner_principal_id c \<and>
     pc_command_type c' = pc_command_type c \<and> pc_target_memory_id c' = pc_target_memory_id c \<and>
     cr_result_memory_id c' = cr_result_memory_id c \<and> (pc_result_item c' = pc_result_item c \<or> pc_result_item c' = None) \<and>
     (pc_state c = APPLIED \<longrightarrow> pc_state c' = APPLIED)"

definition evolves :: "(string + string) set \<Rightarrow> tenant_database \<Rightarrow> tenant_database \<Rightarrow> bool" where
  "evolves E db db' \<longleftrightarrow>
     (\<forall>k r. dict_get (td_items db) k = Some r \<longrightarrow> (\<exists>r'. dict_get (td_items db') k = Some r' \<and> item_evolves E r r')) \<and>
     (\<forall>k c. dict_get (td_commands db) k = Some c \<longrightarrow>
        (\<exists>c'. dict_get (td_commands db') k = Some c' \<and> command_evolves c c')) \<and>
     (\<forall>k c'. dict_get (td_commands db') k = Some c' \<longrightarrow> pc_state c' = APPLIED \<longrightarrow>
        Inr k \<in> E \<or> (\<exists>c. dict_get (td_commands db) k = Some c \<and> pc_state c = APPLIED))"

lemma item_evolves_refl: "item_evolves E r r" by (simp add: item_evolves_def)

lemma command_evolves_refl: "command_evolves c c" by (simp add: command_evolves_def)

lemma item_evolves_trans: "item_evolves E r r' \<Longrightarrow> item_evolves E r' r'' \<Longrightarrow> item_evolves E r r''"
  unfolding item_evolves_def by metis

lemma command_evolves_trans: "command_evolves c c' \<Longrightarrow> command_evolves c' c'' \<Longrightarrow> command_evolves c c''"
  unfolding command_evolves_def by metis

lemma same_item_evolves: "same_item r r' \<Longrightarrow> item_evolves E r r'"
  by (auto simp: same_item_def item_evolves_def split: option.splits)

lemma evolvesI:
  assumes "\<And>k r. dict_get (td_items db) k = Some r \<Longrightarrow> \<exists>r'. dict_get (td_items db') k = Some r' \<and> item_evolves E r r'"
    and "\<And>k c. dict_get (td_commands db) k = Some c \<Longrightarrow> \<exists>c'. dict_get (td_commands db') k = Some c' \<and> command_evolves c c'"
    and "\<And>k c'. dict_get (td_commands db') k = Some c' \<Longrightarrow> pc_state c' = APPLIED \<Longrightarrow>
      Inr k \<in> E \<or> (\<exists>c. dict_get (td_commands db) k = Some c \<and> pc_state c = APPLIED)"
  shows "evolves E db db'"
  using assms by (simp add: evolves_def)

lemma evolves_itemE:
  assumes "evolves E db db'" and "dict_get (td_items db) k = Some r"
  obtains r' where "dict_get (td_items db') k = Some r'" and "item_evolves E r r'"
  using assms unfolding evolves_def by blast

lemma evolves_commandE:
  assumes "evolves E db db'" and "dict_get (td_commands db) k = Some c"
  obtains c' where "dict_get (td_commands db') k = Some c'" and "command_evolves c c'"
  using assms unfolding evolves_def by blast

lemma evolves_appliedE:
  assumes "evolves E db db'" and "dict_get (td_commands db') k = Some c'" and "pc_state c' = APPLIED" and "Inr k \<notin> E"
  obtains c where "dict_get (td_commands db) k = Some c" and "pc_state c = APPLIED"
  using assms unfolding evolves_def by blast

lemma evolves_same: "td_items db' = td_items db \<Longrightarrow> td_commands db' = td_commands db \<Longrightarrow> evolves E db db'"
  by (auto intro!: evolvesI simp: item_evolves_refl command_evolves_refl)

lemma evolves_refl: "evolves E db db" by (rule evolves_same) simp_all

lemma evolves_trans:
  assumes "evolves E db db1" and "evolves E db1 db2"
  shows "evolves E db db2"
proof (rule evolvesI)
  fix k r assume "dict_get (td_items db) k = Some r"
  with assms(1) obtain r1 where r1: "dict_get (td_items db1) k = Some r1" "item_evolves E r r1" by (rule evolves_itemE)
  from assms(2) r1(1) obtain r2 where "dict_get (td_items db2) k = Some r2" "item_evolves E r1 r2" by (rule evolves_itemE)
  with r1(2) show "\<exists>r'. dict_get (td_items db2) k = Some r' \<and> item_evolves E r r'" by (blast intro: item_evolves_trans)
next
  fix k c assume "dict_get (td_commands db) k = Some c"
  with assms(1) obtain c1 where c1: "dict_get (td_commands db1) k = Some c1" "command_evolves c c1" by (rule evolves_commandE)
  from assms(2) c1(1) obtain c2 where "dict_get (td_commands db2) k = Some c2" "command_evolves c1 c2" by (rule evolves_commandE)
  with c1(2) show "\<exists>c'. dict_get (td_commands db2) k = Some c' \<and> command_evolves c c'" by (blast intro: command_evolves_trans)
next
  fix k c' assume c': "dict_get (td_commands db2) k = Some c'" "pc_state c' = APPLIED"
  show "Inr k \<in> E \<or> (\<exists>c. dict_get (td_commands db) k = Some c \<and> pc_state c = APPLIED)"
  proof (cases "Inr k \<in> E")
    case False
    from assms(2) c' False obtain c1 where "dict_get (td_commands db1) k = Some c1" "pc_state c1 = APPLIED" by (rule evolves_appliedE)
    from assms(1) this False show ?thesis by (blast elim: evolves_appliedE)
  qed simp
qed

section \<open>Each operation\<close>

lemma evolves_transaction:
  assumes "\<And>x db'. body db = (Inr x, db') \<Longrightarrow> evolves E db db'"
  shows "evolves E db (snd (transaction body db))"
  using assms by (simp add: snd_transaction evolves_refl)

lemma evolves_items_update:
  assumes "\<And>k r. dict_get (td_items db) k = Some r \<Longrightarrow> P r \<Longrightarrow> item_evolves E r (f r)"
  shows "evolves E db (db\<lparr>td_items := update_where P f (td_items db)\<rparr>)"
  by (rule evolvesI) (use assms in \<open>auto simp: item_evolves_refl command_evolves_refl\<close>)

lemma evolves_insert_command:
  assumes "insert_memory_command ids now command item payload db = (Inr command_id, db')"
  shows "evolves E db db'"
  using assms
proof (rule insert_memory_command_Inr)
  assume fresh: "dict_get (td_commands db) (fst ids) = None" "dict_get (td_items db) (mi_id item) = None"
    and db': "td_commands db' = dict_set (fst ids) (new_command_row (fst ids) now command item payload) (td_commands db)"
      "td_items db' = dict_set (mi_id item) (new_item_row (fst ids) now command item) (td_items db)"
  show "evolves E db db'"
    by (rule evolvesI) (use fresh in \<open>auto simp: db' dict_get_set item_evolves_refl command_evolves_refl split: if_splits\<close>)
qed

lemma evolves_retain: "evolves E db (snd (pg_accept_retain uid ids now tenant_id actor_id owner command db))"
  unfolding pg_accept_retain_def
  by (rule evolves_transaction)
    (auto simp: Let_def evolves_refl split: option.splits elim!: and_then_Inr_E dest: evolves_insert_command)

lemma evolves_supersede_imported_parent: "evolves E db (supersede_imported_parent tenant_id memory_id db)"
  unfolding supersede_imported_parent_def by (rule evolves_items_update) (auto simp: item_evolves_def)

lemma evolves_import: "evolves E db (snd (pg_accept_import ids now tenant_id actor_id owner item db))"
  unfolding pg_accept_import_def
  by (rule evolves_transaction)
    (auto simp: Let_def evolves_refl split: option.splits if_splits elim!: and_then_Inr_E
      dest!: evolves_insert_command intro: evolves_trans [OF _ evolves_supersede_imported_parent])

lemma evolves_correction:
  assumes inv: "ledger_inv db"
  shows "evolves E db (snd (pg_accept_correction uid ids now tenant_id actor_id owner command db))"
  unfolding pg_accept_correction_def
proof (rule evolves_transaction, goal_cases)
  case (1 x db')
  let ?m = "cm_memory_id command"
  show ?case
  proof (cases "db' = db")
    case True
    then show ?thesis by (simp add: evolves_refl)
  next
    case False
    with 1 obtain row original item cid c p db1 where row: "select_row ir_tenant_id tenant_id ?m (td_items db) = Some row"
      "ir_state row = ACTIVE_MEMORY" "ir_item row = Some original"
      and ins: "insert_memory_command ids now c item p db = (Inr cid, db1)"
      and db': "db' = supersede_item tenant_id ?m original db1"
      by (auto simp: Let_def split: option.splits if_splits elim!: and_then_Inr_E)
    have at: "dict_get (td_items db1) ?m = Some row"
      using ins select_row_Some [OF row(1)] by (auto elim!: insert_memory_command_Inr simp: dict_get_set)
    have key: "ir_memory_id r = k" if "dict_get (td_items db1) k = Some r" for k r
      using ins ledger_invD(2) [OF inv] that
      by (auto elim!: insert_memory_command_Inr simp: keyed_def dict_get_set split: if_splits)
    have "evolves E db1 db'"
      unfolding db' supersede_item_def
      by (rule evolves_items_update) (use at key row in \<open>auto simp: item_evolves_def\<close>)
    with evolves_insert_command [OF ins] show ?thesis by (rule evolves_trans)
  qed
qed

lemma evolves_insert_erasure:
  assumes ins: "insert_erasure_memory_command ids now tenant_id actor_id request db = (Inr u, db')"
    and key: "keyed ir_memory_id (td_items db)"
    and row: "dict_get (td_items db) (er_memory_id request) = Some row" "ir_state row \<noteq> ERASED"
  shows "evolves E db db'"
proof -
  let ?m = "er_memory_id request" and ?c = "new_erase_row (fst ids) now tenant_id actor_id request"
  obtain clashes u1 u3 db1 db3 where
    steps: "put_commands db (insert_row clashes (fst ids) ?c (td_commands db)) = (Inr u1, db1)"
      "insert_outbox (snd ids) now tenant_id ''private_memory_command'' (fst ids) ''memory.command.accepted''
        (set_erasure_pending tenant_id ?m db1) = (Inr u3, db3)"
    and last: "td_commands db' = td_commands db3" "td_items db' = td_items db3"
    using ins unfolding insert_erasure_memory_command_def Let_def by (auto elim!: and_then_Inr_E)
  note p = put_commands_Inr [OF steps(1)]
  have "td_commands db3 = td_commands (set_erasure_pending tenant_id ?m db1) \<and> td_items db3 = td_items (set_erasure_pending tenant_id ?m db1)"
    using steps(2) by (auto elim!: insert_outbox_Inr)
  with last p have db': "td_commands db' = dict_set (fst ids) ?c (td_commands db)"
    "td_items db' = td_items (set_erasure_pending tenant_id ?m db)"
    by (auto simp: set_erasure_pending_def)
  have "evolves E db (set_erasure_pending tenant_id ?m db)"
    unfolding set_erasure_pending_def
    by (rule evolves_items_update) (use key row in \<open>auto simp: keyed_def item_evolves_def\<close>)
  moreover have "evolves E (set_erasure_pending tenant_id ?m db) db'"
    by (rule evolvesI) (use p in \<open>auto simp: db' dict_get_set set_erasure_pending_def item_evolves_refl command_evolves_refl
      split: if_splits\<close>)
  ultimately show ?thesis by (rule evolves_trans)
qed

lemma evolves_enqueue:
  assumes "enqueue_erasure ids now tenant_id reviewer_id request db = (Inr u, db')" and "keyed ir_memory_id (td_items db)"
  shows "evolves E db db'"
proof (cases "select_row ir_tenant_id tenant_id (er_memory_id request) (td_items db)")
  case None
  with assms show ?thesis by (simp add: enqueue_erasure_def evolves_refl)
next
  case (Some row)
  with assms(1) have ins: "insert_erasure_memory_command ids now tenant_id reviewer_id request db = (Inr u, db')"
    and row: "ir_state row \<noteq> ERASED"
    by (auto simp: enqueue_erasure_def split: if_splits)
  show ?thesis
    by (rule evolves_insert_erasure [OF ins assms(2)]) (use select_row_Some [OF Some] row in auto)
qed

lemma evolves_recorded: "evolves E db (record_erasure_review t a c q v db)"
  by (rule evolves_same) simp_all

lemma evolves_review_erasure:
  assumes inv: "ledger_inv db"
  shows "evolves E db (snd (pg_review_erasure review_id ids now tenant_id reviewer_id command db))"
  unfolding pg_review_erasure_def
  by (rule evolves_transaction)
    (auto simp: Let_def evolves_refl evolves_recorded ledger_invD(2) [OF inv] split: option.splits sum.splits if_splits
      elim!: and_then_Inr_E dest!: evolves_enqueue intro: evolves_trans [OF evolves_recorded])

lemma evolves_erase:
  "Inl m \<in> E \<Longrightarrow> evolves E db (erase_item tenant_id owner m db)"
  by (rule evolvesI) (auto simp: erase_item_def item_evolves_def command_evolves_def split: if_splits)

lemma evolves_applied:
  assumes "keyed pc_id (td_commands db)" and "Inr command_id \<in> E"
  shows "evolves E db (applied_in now tenant_id command_id db)"
  by (rule evolvesI)
    (use assms in \<open>auto simp: applied_in_def mark_processed_def item_evolves_refl command_evolves_def keyed_def split: if_splits\<close>)

lemma evolves_complete_erasure:
  assumes "complete_erasure_command now command db = (Inr u, db')" and "\<And>m. pc_target_memory_id command = Some m \<Longrightarrow> Inl m \<in> E"
  shows "evolves E db db'"
proof (cases "pc_target_memory_id command")
  case None
  with assms show ?thesis by (simp add: complete_erasure_command_def)
next
  case (Some m)
  note tables = complete_erasure_command_tables [OF assms(1) Some]
  have "evolves E (erase_item (pc_tenant_id command) (pc_owner_principal_id command) m db) db'"
    using tables by (intro evolves_same)
  with evolves_erase [OF assms(2) [OF Some]] show ?thesis by (rule evolves_trans)
qed

lemma keyed_complete_erasure:
  assumes "complete_erasure_command now command db = (Inr u, db')" and "keyed pc_id (td_commands db)"
  shows "keyed pc_id (td_commands db')"
proof (cases "pc_target_memory_id command")
  case None
  with assms show ?thesis by (simp add: complete_erasure_command_def)
next
  case (Some m)
  then show ?thesis
    using complete_erasure_command_tables(1) [OF assms(1) Some] assms(2) by (auto simp: erase_item_def intro: keyed_update_where)
qed

lemma evolves_mark_applied:
  assumes inv: "ledger_inv db" and "Inr command_id \<in> E"
    and "\<And>c m. pg_get_memory_command tenant_id command_id db = Some c \<Longrightarrow> pc_command_type c = ERASE_COMMAND \<Longrightarrow>
    pc_target_memory_id c = Some m \<Longrightarrow> Inl m \<in> E"
  shows "evolves E db (snd (pg_mark_memory_command_applied now tenant_id command_id db))"
proof -
  have applied: "evolves E db (write_audit t a e k i u (applied_in now tenant_id command_id db1))"
    if "evolves E db db1" "keyed pc_id (td_commands db1)" for db1 t a e k i u
    using that(1) evolves_applied [OF that(2) assms(2)] by (rule evolves_trans [THEN evolves_trans]) (rule evolves_same; simp)
  note key = ledger_invD(1) [OF inv]
  show ?thesis
    unfolding pg_mark_memory_command_applied_def
    by (rule evolves_transaction)
      (auto simp: Let_def evolves_refl key split: option.splits if_splits elim!: and_then_Inr_E
        intro!: applied,
       (rule evolves_complete_erasure, assumption, rule assms(3), assumption+),
       (rule keyed_complete_erasure, assumption, rule key))
qed

section \<open>All transactions\<close>

inductive pg_client_step :: "tenant_database \<Rightarrow> tenant_database \<Rightarrow> bool" where
  retain: "pg_client_step db (snd (pg_accept_retain uid ids now tenant_id actor_id owner c db))"
| correction: "pg_client_step db (snd (pg_accept_correction uid ids now tenant_id actor_id owner cc db))"
| import_item: "pg_client_step db (snd (pg_accept_import ids now tenant_id actor_id owner item db))"
| request: "pg_client_step db (snd (pg_request uid now tenant_id requester_id owner rc db))"
| review_erasure: "pg_client_step db (snd (pg_review_erasure review_id ids now tenant_id reviewer_id ve db))"
| mark_completed: "pg_client_step db (snd (pg_mark_completed now tenant_id request_id db))"
| import_tombstone: "pg_client_step db (snd (pg_import_tombstone H review_id tenant_id owner tombstone db))"
| propose: "pg_client_step db (snd (pg_propose uid now tenant_id proposer_id pk db))"
| import_candidate: "pg_client_step db (snd (pg_import_candidate now tenant_id proposer_id candidate_id claim confidence db))"
| review_knowledge: "pg_client_step db (snd (pg_review_knowledge review_id event_id now tenant_id reviewer_id rk db))"
| claim: "pg_client_step db (snd (pg_claim_outbox lock_id now lease_seconds db))"
| dispatched: "pg_client_step db (snd (pg_mark_outbox_dispatched now event_id lock_id db))"
| release: "pg_client_step db (snd (pg_release_outbox now event_id lock_id error_code db))"
| redeliver: "pg_client_step db (snd (pg_schedule_outbox_redelivery now tenant_id event_id operator_id db))"

text \<open>With the two transactions by which the worker commits what it has projected.\<close>

inductive pg_step :: "tenant_database \<Rightarrow> tenant_database \<Rightarrow> bool" where
  client: "pg_client_step db db' \<Longrightarrow> pg_step db db'"
| mark_applied: "pg_step db (snd (pg_mark_memory_command_applied now tenant_id command_id db))"
| mark_published: "pg_step db (snd (pg_mark_published now tenant_id candidate_id db))"

definition pg_reachable :: "tenant_database \<Rightarrow> bool" where
  "pg_reachable db \<longleftrightarrow> pg_step\<^sup>*\<^sup>* empty_tenant_database db"

definition kept :: "(string + string) set \<Rightarrow> tenant_database \<Rightarrow> tenant_database \<Rightarrow> bool" where
  "kept E db db' \<longleftrightarrow> ledger_inv db' \<and> evolves E db db'"

lemma kept_same:
  "ledger_inv db \<Longrightarrow> td_commands db' = td_commands db \<Longrightarrow> td_items db' = td_items db \<Longrightarrow> td_outbox db' = td_outbox db \<Longrightarrow>
   kept E db db'"
  unfolding kept_def using ledger_inv_cong [of db' db] evolves_same [of db' db] by blast

lemma kept_refl: "ledger_inv db \<Longrightarrow> kept E db db"
  by (rule kept_same) simp_all

lemma kept_transaction:
  "ledger_inv db \<Longrightarrow> (\<And>x db'. body db = (Inr x, db') \<Longrightarrow> kept E db db') \<Longrightarrow> kept E db (snd (transaction body db))"
  by (simp add: snd_transaction kept_refl)

lemma kept_outbox_update:
  assumes "ledger_inv db" and "td_outbox db' = update_where P f (td_outbox db)" and "keeps_event f"
    and "td_commands db' = td_commands db" and "td_items db' = td_items db"
  shows "kept E db db'"
proof -
  have "ledger_inv (db\<lparr>td_outbox := update_where P f (td_outbox db)\<rparr>)" using assms(1,3) by (rule ledger_inv_outbox_update)
  then have "ledger_inv db'" using assms(2,4,5) by (subst ledger_inv_cong) simp_all
  then show ?thesis using assms(4,5) by (simp add: kept_def evolves_same)
qed

lemma kept_processed_other:
  assumes inv: "ledger_inv db" and other: "event_type \<noteq> ''memory.command.accepted''"
    and same: "td_commands db1 = td_commands db" "td_items db1 = td_items db" "td_outbox db1 = td_outbox db"
  shows "kept E db (mark_processed now tenant_id aggregate_id event_type db1)"
proof -
  let ?db = "mark_processed now tenant_id aggregate_id event_type db1"
  have outbox: "dict_get (td_outbox ?db) k = map_option (\<lambda>r. if ob_tenant_id r = tenant_id \<and> ob_aggregate_id r = aggregate_id \<and>
      ob_event_type r = event_type then r\<lparr>ob_processed_at := Some now, ob_locked_at := None, ob_lock_id := None\<rparr> else r)
      (dict_get (td_outbox db) k)" for k
    using same by (simp add: mark_processed_def)
  have "ledger_inv ?db"
  proof (rule ledger_invI)
    show "keyed ob_event_id (td_outbox ?db)" using ledger_invD(3) [OF inv] by (auto simp: keyed_def outbox)
    show "event_ok (td_commands ?db) r" if r: "dict_get (td_outbox ?db) k = Some r" for k r
    proof -
      obtain r0 where r0: "dict_get (td_outbox db) k = Some r0" using r by (auto simp: outbox)
      then have "event_ok (td_commands db) r0" by (rule ledger_invD(6) [OF inv])
      then show ?thesis using r r0 other same by (auto simp: outbox event_ok_def mark_processed_def split: if_splits)
    qed
    show "has_event (td_outbox ?db) k" if "dict_get (td_commands ?db) k \<noteq> None" for k
    proof -
      have "has_event (td_outbox db1) k" using that ledger_invD(7) [OF inv, of k] same by (simp add: mark_processed_def)
      then show ?thesis unfolding mark_processed_def by (auto intro: has_event_update)
    qed
  qed (use ledger_invD [OF inv] same in \<open>auto simp: mark_processed_def\<close>)
  then show ?thesis using same by (simp add: kept_def evolves_same mark_processed_def)
qed

lemma kept_outbox_other:
  assumes inv: "ledger_inv db" and same: "td_commands db1 = td_commands db" "td_items db1 = td_items db" "td_outbox db1 = td_outbox db"
    and ins: "insert_outbox event_id now tenant_id aggregate_type aggregate_id event_type db1 = (Inr u, db')"
    and other: "event_type \<noteq> ''memory.command.accepted''"
  shows "kept E db db'"
proof -
  have "ledger_inv db1" using inv ledger_inv_cong [OF same] by simp
  then have "ledger_inv db'" using ins other by (rule ledger_inv_outbox_other)
  moreover have "td_commands db' = td_commands db" "td_items db' = td_items db" using ins same by (auto elim!: insert_outbox_Inr)
  ultimately show ?thesis by (simp add: kept_def evolves_same)
qed

lemma kept_claim: "ledger_inv db \<Longrightarrow> kept E db (snd (pg_claim_outbox lock_id now lease_seconds db))"
  unfolding pg_claim_outbox_def
  by (rule kept_transaction)
    (auto simp: kept_refl split: if_splits list.splits intro!: kept_outbox_update, simp add: keeps_event_def)

lemma kept_settle: "ledger_inv db \<Longrightarrow> keeps_event f \<Longrightarrow> kept E db (snd (settle_claim event_id lock_id f db))"
  unfolding settle_claim_def
  by (rule kept_transaction) (auto split: if_splits intro!: kept_outbox_update)

lemma kept_redeliver: "ledger_inv db \<Longrightarrow> kept E db (snd (pg_schedule_outbox_redelivery now tenant_id event_id operator_id db))"
  unfolding pg_schedule_outbox_redelivery_def
  by (rule kept_transaction)
    (auto split: if_splits option.splits intro!: kept_outbox_update, simp add: keeps_event_def reopen_def)

lemma kept_review_knowledge:
  assumes inv: "ledger_inv db"
  shows "kept E db (snd (pg_review_knowledge review_id event_id now tenant_id reviewer_id rk db))"
  unfolding pg_review_knowledge_def
  by (rule kept_transaction [OF inv])
    (auto simp: Let_def inv kept_refl split: if_splits option.splits sum.splits elim!: and_then_Inr_E
      intro: kept_same [OF inv] elim: kept_outbox_other [OF inv, rotated 3])

lemma kept_mark_published:
  assumes inv: "ledger_inv db"
  shows "kept E db (snd (pg_mark_published now tenant_id candidate_id db))"
proof -
  have "kept E db (write_audit t a e k i u (mark_processed now tenant_id candidate_id ''knowledge.approved'' db1))"
    if "td_commands db1 = td_commands db" "td_items db1 = td_items db" "td_outbox db1 = td_outbox db" for t a e k i u db1
  proof -
    let ?db = "mark_processed now tenant_id candidate_id ''knowledge.approved'' db1"
    have "kept E db ?db" using inv _ that by (rule kept_processed_other) simp
    then have "ledger_inv (write_audit t a e k i u ?db)" "evolves E db ?db"
      using ledger_inv_cong [of "write_audit t a e k i u ?db" ?db] by (simp_all add: kept_def)
    moreover have "evolves E ?db (write_audit t a e k i u ?db)" by (rule evolves_same) simp_all
    ultimately show ?thesis unfolding kept_def by (blast intro: evolves_trans)
  qed
  then show ?thesis
    unfolding pg_mark_published_def
    by (intro kept_transaction [OF inv]) (auto simp: Let_def inv kept_refl split: if_splits option.splits)
qed

lemma transaction_table:
  "(\<And>x db'. body db = (Inr x, db') \<Longrightarrow> g db' = g db) \<Longrightarrow> g (snd (transaction body db)) = g db"
  by (simp add: transaction_def split: prod.splits sum.splits)

lemma tables_elsewhere:
  shows "td_commands (snd (pg_request uid now t q o' rc db)) = td_commands db"
    and "td_items (snd (pg_request uid now t q o' rc db)) = td_items db"
    and "td_outbox (snd (pg_request uid now t q o' rc db)) = td_outbox db"
    and "td_commands (snd (pg_mark_completed now t i db)) = td_commands db"
    and "td_items (snd (pg_mark_completed now t i db)) = td_items db"
    and "td_outbox (snd (pg_mark_completed now t i db)) = td_outbox db"
    and "td_commands (snd (pg_import_tombstone H v t o' m db)) = td_commands db"
    and "td_items (snd (pg_import_tombstone H v t o' m db)) = td_items db"
    and "td_outbox (snd (pg_import_tombstone H v t o' m db)) = td_outbox db"
    and "td_commands (snd (pg_propose uid now t p pk db)) = td_commands db"
    and "td_items (snd (pg_propose uid now t p pk db)) = td_items db"
    and "td_outbox (snd (pg_propose uid now t p pk db)) = td_outbox db"
    and "td_commands (snd (pg_import_candidate now t p k cl cf db)) = td_commands db"
    and "td_items (snd (pg_import_candidate now t p k cl cf db)) = td_items db"
    and "td_outbox (snd (pg_import_candidate now t p k cl cf db)) = td_outbox db"
  unfolding pg_request_def pg_mark_completed_def pg_import_tombstone_def pg_propose_def pg_import_candidate_def
  by (rule transaction_table; auto simp: Let_def scrub_reviews_def split: option.splits sum.splits if_splits)+

lemma kept_elsewhere:
  assumes "ledger_inv db"
  shows "kept E db (snd (pg_request uid now t q o' rc db))" and "kept E db (snd (pg_mark_completed now t i db))"
    and "kept E db (snd (pg_import_tombstone H v t o' m db))" and "kept E db (snd (pg_propose uid now t p pk db))"
    and "kept E db (snd (pg_import_candidate now t p k cl cf db))"
  by (rule kept_same [OF assms tables_elsewhere(1,2,3)], rule kept_same [OF assms tables_elsewhere(4,5,6)],
      rule kept_same [OF assms tables_elsewhere(7,8,9)], rule kept_same [OF assms tables_elsewhere(10,11,12)],
      rule kept_same [OF assms tables_elsewhere(13,14,15)])

lemma kept_ledger:
  assumes "ledger_inv db"
  shows "kept E db (snd (pg_accept_retain uid ids now t a o' rc db))" and "kept E db (snd (pg_accept_correction uid ids now t a o' cc db))"
    and "kept E db (snd (pg_accept_import ids now t a o' item db))"
    and "kept E db (snd (pg_review_erasure v ids now t a ve db))"
  unfolding kept_def
  by (intro conjI ledger_inv_retain ledger_inv_correction ledger_inv_import ledger_inv_review_erasure
      evolves_retain evolves_correction evolves_import evolves_review_erasure assms)+

lemma pg_client_step_kept: "pg_client_step db db' \<Longrightarrow> ledger_inv db \<Longrightarrow> kept E db db'"
proof (induction rule: pg_client_step.induct)
  case (dispatched db now event_id lock_id)
  then show ?case unfolding pg_mark_outbox_dispatched_def by (intro kept_settle) (simp_all add: keeps_event_def)
next
  case (release db now event_id lock_id error_code)
  then show ?case unfolding pg_release_outbox_def by (intro kept_settle) (simp_all add: keeps_event_def)
qed (rule kept_ledger kept_elsewhere kept_claim kept_redeliver kept_review_knowledge, assumption)+

lemma kept_mark_applied: "ledger_inv db \<Longrightarrow> kept UNIV db (snd (pg_mark_memory_command_applied now tenant_id command_id db))"
  by (simp add: kept_def ledger_inv_mark_applied evolves_mark_applied)

lemma pg_step_kept: "pg_step db db' \<Longrightarrow> ledger_inv db \<Longrightarrow> kept UNIV db db'"
  by (induction rule: pg_step.induct) (auto intro: pg_client_step_kept kept_mark_applied kept_mark_published)

lemma pg_steps_kept:
  assumes "pg_step\<^sup>*\<^sup>* db db'" and "ledger_inv db"
  shows "kept UNIV db db'"
  using assms
proof (induction rule: rtranclp_induct)
  case base
  then show ?case by (rule kept_refl)
next
  case (step db1 db2)
  then have "kept UNIV db db1" "kept UNIV db1 db2" using pg_step_kept by (auto simp: kept_def)
  then show ?case unfolding kept_def using evolves_trans by blast
qed

lemma pg_reachable_inv: "pg_reachable db \<Longrightarrow> ledger_inv db"
  unfolding pg_reachable_def using pg_steps_kept ledger_inv_empty kept_def by blast

end
