(* ===== verification/Delivery.thy ===== *)
theory Delivery
  imports OutboxWorker DurableHistory MemoryStoreProperties
begin

text \<open>
  The outbox worker (\<^verbatim>\<open>outbox.py\<close>, \<^verbatim>\<open>worker.py\<close>) over the durable store of one Tenant and its graph: a
  delivery may fail at any call, before the call or after it took effect, and the broker may
  deliver any message any number of times. One delivery is handled at a time (the worker consumes
  with a prefetch of one); clients use the store between deliveries.
\<close>

section \<open>The world of the worker\<close>

datatype fault = Fine | Before error | After error

text \<open>The log has the deliveries that the broker settled: acknowledged, or rejected.\<close>

record delivery_world =
  dw_db :: tenant_database
  dw_graph :: memory_stores
  dw_faults :: "fault list"
  dw_log :: "(json option \<times> bool) list"

definition faulty ::
  "(delivery_world \<Rightarrow> ('a, delivery_world) outcome) \<Rightarrow> delivery_world \<Rightarrow> ('a, delivery_world) outcome" where
  "faulty f w =
     (case dw_faults w of
        [] \<Rightarrow> f w
      | fault # faults \<Rightarrow>
          (let w1 = w\<lparr>dw_faults := faults\<rparr>
           in case fault of Fine \<Rightarrow> f w1 | Before e \<Rightarrow> (Inl e, w1) | After e \<Rightarrow> (Inl e, snd (f w1))))"

definition on_db :: "(tenant_database \<Rightarrow> ('a, tenant_database) outcome) \<Rightarrow> delivery_world \<Rightarrow> ('a, delivery_world) outcome" where
  "on_db f w = (case f (dw_db w) of (r, db) \<Rightarrow> (r, w\<lparr>dw_db := db\<rparr>))"

definition on_stores :: "(memory_stores \<Rightarrow> ('a, memory_stores) outcome) \<Rightarrow> delivery_world \<Rightarrow> ('a, delivery_world) outcome" where
  "on_stores f w = (case f (dw_graph w) of (r, stores) \<Rightarrow> (r, w\<lparr>dw_graph := stores\<rparr>))"

text \<open>\<^verbatim>\<open>PostgresGovernanceStore\<close> as the publication state of the worker.\<close>

definition durable_state :: "datetime \<Rightarrow> delivery_world publication_state" where
  "durable_state now =
     \<lparr>ps_get_publication = (\<lambda>e t k. faulty (on_db (reads (pg_get_publication e t k)))),
      ps_get_candidate = (\<lambda>t k. faulty (on_db (reads (pg_get_candidate t k)))),
      ps_mark_published = (\<lambda>t k. faulty (on_db (pg_mark_published now t k))),
      ps_get_memory_command = (\<lambda>t k. faulty (on_db (reads (pg_get_memory_command t k)))),
      ps_mark_memory_command_applied = (\<lambda>t k. faulty (on_db (pg_mark_memory_command_applied now t k))),
      ps_schedule_outbox_redelivery = (\<lambda>t e i. faulty (on_db (pg_schedule_outbox_redelivery now t e i)))\<rparr>"

definition broker_delivery :: "json option \<Rightarrow> delivery_world delivery" where
  "broker_delivery body =
     \<lparr>dv_body = body,
      dv_ack = faulty (\<lambda>w. (Inr (), w\<lparr>dw_log := dw_log w @ [(body, True)]\<rparr>)),
      dv_reject = (\<lambda>requeue. faulty (\<lambda>w. (Inr (), w\<lparr>dw_log := dw_log w @ [(body, False)]\<rparr>)))\<rparr>"

definition project_command :: "private_memory_command \<Rightarrow> delivery_world \<Rightarrow> (unit, delivery_world) outcome" where
  "project_command command = faulty (on_stores (DurableMemoryGraphProjector command))"

definition project_candidate ::
  "string \<Rightarrow> datetime \<Rightarrow> knowledge_candidate \<Rightarrow> delivery_world \<Rightarrow> (unit, delivery_world) outcome" where
  "project_candidate uid now candidate = faulty (on_stores (MemoryGraphProjector uid now candidate))"

definition deliver :: "string \<Rightarrow> string \<Rightarrow> datetime \<Rightarrow> json option \<Rightarrow> delivery_world \<Rightarrow> (unit, delivery_world) outcome" where
  "deliver tenant_id uid now body =
     handle (SingleTenantPublicationRouter tenant_id (durable_state now)) (project_candidate uid now)
       (Some project_command) (broker_delivery body)"

inductive delivery_step :: "string \<Rightarrow> delivery_world \<Rightarrow> delivery_world \<Rightarrow> bool" for tenant_id where
  client: "pg_client_step (dw_db w) db' \<Longrightarrow> delivery_step tenant_id w (w\<lparr>dw_db := db'\<rparr>)"
| deliver: "delivery_step tenant_id w (snd (deliver tenant_id uid now body (w\<lparr>dw_faults := faults\<rparr>)))"

definition delivery_start :: "string \<Rightarrow> delivery_world" where
  "delivery_start tenant_id = \<lparr>dw_db = empty_tenant_database, dw_graph = InMemoryTenantMemoryRouter [tenant_id],
     dw_faults = [], dw_log = []\<rparr>"

definition delivery_reachable :: "string \<Rightarrow> delivery_world \<Rightarrow> bool" where
  "delivery_reachable tenant_id w \<longleftrightarrow> (delivery_step tenant_id)\<^sup>*\<^sup>* (delivery_start tenant_id) w"

section \<open>The graph agrees with the ledger\<close>

definition graph_sound :: "tenant_database \<Rightarrow> string \<Rightarrow> memory_store \<Rightarrow> bool" where
  "graph_sound db tenant_id store \<longleftrightarrow> (\<forall>g \<in> set (ms_items store). mi_scope g = PRIVATE \<longrightarrow>
     (\<exists>row x. dict_get (td_items db) (mi_id g) = Some row \<and> ir_tenant_id row = tenant_id \<and>
        mi_owner_principal_id g = Some (ir_owner_principal_id row) \<and> ir_item row = Some x \<and> mi_content x = mi_content g))"

definition erasure_accepted :: "tenant_database \<Rightarrow> string \<Rightarrow> bool" where
  "erasure_accepted db m \<longleftrightarrow> (\<exists>k c. dict_get (td_commands db) k = Some c \<and> pc_command_type c = ERASE_COMMAND \<and>
     pc_target_memory_id c = Some m)"

definition graph_complete :: "tenant_database \<Rightarrow> string \<Rightarrow> memory_store \<Rightarrow> bool" where
  "graph_complete db tenant_id store \<longleftrightarrow> (\<forall>k c m. dict_get (td_commands db) k = Some c \<longrightarrow> pc_state c = APPLIED \<longrightarrow>
     pc_tenant_id c = tenant_id \<longrightarrow> cr_result_memory_id c = Some m \<longrightarrow> m \<in> mi_id ` set (ms_items store) \<or> erasure_accepted db m)"

definition delivery_inv :: "string \<Rightarrow> delivery_world \<Rightarrow> bool" where
  "delivery_inv tenant_id w \<longleftrightarrow> ledger_inv (dw_db w) \<and>
     (\<exists>store. dict_get (dw_graph w) tenant_id = Some store \<and> graph_sound (dw_db w) tenant_id store \<and>
        graph_complete (dw_db w) tenant_id store)"

lemma erasure_accepted_evolves:
  assumes "evolves E db db'" and "erasure_accepted db m"
  shows "erasure_accepted db' m"
proof -
  obtain k c where c: "dict_get (td_commands db) k = Some c" "pc_command_type c = ERASE_COMMAND" "pc_target_memory_id c = Some m"
    using assms(2) unfolding erasure_accepted_def by blast
  from assms(1) c(1) obtain c' where "dict_get (td_commands db') k = Some c'" "command_evolves c c'" by (rule evolves_commandE)
  with c(2,3) show ?thesis unfolding erasure_accepted_def command_evolves_def by metis
qed

text \<open>A row that may not be erased keeps its content.\<close>

lemma row_keeps_content:
  assumes inv: "ledger_inv db'" and ev: "evolves E db db'" and row: "dict_get (td_items db) k = Some row" "ir_item row = Some x"
    "ir_state row \<noteq> ERASED" and k: "Inl (ir_memory_id row) \<notin> E"
  obtains row' x' where "dict_get (td_items db') k = Some row'" "ir_tenant_id row' = ir_tenant_id row"
    "ir_owner_principal_id row' = ir_owner_principal_id row" "ir_item row' = Some x'" "mi_content x' = mi_content x"
proof -
  from ev row(1) obtain row' where row': "dict_get (td_items db') k = Some row'" "item_evolves E row row'" by (rule evolves_itemE)
  then have "ir_state row' \<noteq> ERASED" using row(3) k by (auto simp: item_evolves_def)
  then obtain x' where "ir_item row' = Some x'" using ledger_invD(4) [OF inv row'(1)] by (auto simp: item_ok_def)
  then show thesis using that row' row(2) by (auto simp: item_evolves_def)
qed

lemma graph_sound_evolves:
  assumes inv: "ledger_inv db" "ledger_inv db'" and ev: "evolves E db db'" and sound: "graph_sound db tenant_id store"
    and gone: "\<And>g row. g \<in> set (ms_items store) \<Longrightarrow> mi_scope g = PRIVATE \<Longrightarrow> Inl (mi_id g) \<in> E \<Longrightarrow>
      dict_get (td_items db) (mi_id g) = Some row \<Longrightarrow> mi_owner_principal_id g = Some (ir_owner_principal_id row) \<Longrightarrow> False"
  shows "graph_sound db' tenant_id store"
  unfolding graph_sound_def
proof (intro ballI impI)
  fix g assume g: "g \<in> set (ms_items store)" "mi_scope g = PRIVATE"
  then obtain row x where row: "dict_get (td_items db) (mi_id g) = Some row" "ir_tenant_id row = tenant_id"
    "mi_owner_principal_id g = Some (ir_owner_principal_id row)" "ir_item row = Some x" "mi_content x = mi_content g"
    using sound unfolding graph_sound_def by blast
  have "ir_state row \<noteq> ERASED" using ledger_invD(4) [OF inv(1) row(1)] row(4) by (simp add: item_ok_def)
  moreover have "ir_memory_id row = mi_id g" using ledger_invD(2) [OF inv(1)] row(1) by (simp add: keyed_def)
  then have "Inl (ir_memory_id row) \<notin> E" using gone [OF g _ row(1,3)] by auto
  ultimately obtain row' x' where "dict_get (td_items db') (mi_id g) = Some row'" "ir_tenant_id row' = ir_tenant_id row"
    "ir_owner_principal_id row' = ir_owner_principal_id row" "ir_item row' = Some x'" "mi_content x' = mi_content x"
    by (rule row_keeps_content [OF inv(2) ev row(1,4)])
  with row show "\<exists>row x. dict_get (td_items db') (mi_id g) = Some row \<and> ir_tenant_id row = tenant_id \<and>
      mi_owner_principal_id g = Some (ir_owner_principal_id row) \<and> ir_item row = Some x \<and> mi_content x = mi_content g" by auto
qed

lemma graph_complete_evolves:
  assumes ev: "evolves E db db'" and complete: "graph_complete db tenant_id store"
    and new: "\<And>k c m. Inr k \<in> E \<Longrightarrow> dict_get (td_commands db') k = Some c \<Longrightarrow> pc_tenant_id c = tenant_id \<Longrightarrow>
      cr_result_memory_id c = Some m \<Longrightarrow> pc_state c = APPLIED \<Longrightarrow>
      m \<in> mi_id ` set (ms_items store) \<or> erasure_accepted db m"
  shows "graph_complete db' tenant_id store"
  unfolding graph_complete_def
proof (intro allI impI)
  fix k c' m assume c': "dict_get (td_commands db') k = Some c'" "pc_state c' = APPLIED" "pc_tenant_id c' = tenant_id"
    "cr_result_memory_id c' = Some m"
  have "m \<in> mi_id ` set (ms_items store) \<or> erasure_accepted db m"
  proof (cases "Inr k \<in> E")
    case True
    then show ?thesis using new c' by blast
  next
    case False
    with ev c'(1,2) obtain c where c: "dict_get (td_commands db) k = Some c" "pc_state c = APPLIED" by (rule evolves_appliedE)
    from ev c(1) obtain c'' where "dict_get (td_commands db') k = Some c''" "command_evolves c c''" by (rule evolves_commandE)
    with c' have "pc_tenant_id c = tenant_id" "cr_result_memory_id c = Some m" by (auto simp: command_evolves_def)
    then show ?thesis using complete c unfolding graph_complete_def by blast
  qed
  with erasure_accepted_evolves [OF ev] show "m \<in> mi_id ` set (ms_items store) \<or> erasure_accepted db' m" by blast
qed


section \<open>Calls that may fail\<close>

lemma faulty_cases:
  assumes "faulty f w = (r, w')"
  obtains w1 where "dw_db w1 = dw_db w" "dw_graph w1 = dw_graph w" "dw_log w1 = dw_log w" and "f w1 = (r, w')"
  | w1 e where "dw_db w1 = dw_db w" "dw_graph w1 = dw_graph w" "dw_log w1 = dw_log w" and "r = Inl e" and "w' = w1"
  | w1 e where "dw_db w1 = dw_db w" "dw_graph w1 = dw_graph w" "dw_log w1 = dw_log w" and "r = Inl e" and "w' = snd (f w1)"
proof (cases "dw_faults w")
  case Nil
  then show thesis using assms that(1) [of w] by (simp add: faulty_def)
next
  case (Cons fault faults)
  show thesis
  proof (cases fault)
    case Fine
    with Cons assms have "f (w\<lparr>dw_faults := faults\<rparr>) = (r, w')" by (simp add: faulty_def Let_def)
    then show thesis by (rule that(1) [rotated 3]) simp_all
  next
    case (Before e)
    with Cons assms have "r = Inl e" "w' = w\<lparr>dw_faults := faults\<rparr>" by (simp_all add: faulty_def Let_def)
    then show thesis by (rule that(2) [rotated 3]) simp_all
  next
    case (After e)
    with Cons assms have "r = Inl e" "w' = snd (f (w\<lparr>dw_faults := faults\<rparr>))" by (simp_all add: faulty_def Let_def)
    then show thesis by (rule that(3) [rotated 3]) simp_all
  qed
qed

definition same_stores :: "delivery_world \<Rightarrow> delivery_world \<Rightarrow> bool" where
  "same_stores w w' \<longleftrightarrow> dw_db w' = dw_db w \<and> dw_graph w' = dw_graph w"

lemma same_stores_refl [simp]: "same_stores w w" by (simp add: same_stores_def)

lemma same_stores_trans: "same_stores w w1 \<Longrightarrow> same_stores w1 w2 \<Longrightarrow> same_stores w w2" by (simp add: same_stores_def)

lemma delivery_inv_same: "same_stores w w' \<Longrightarrow> delivery_inv tenant_id w' = delivery_inv tenant_id w"
  by (simp add: same_stores_def delivery_inv_def)

lemma faulty_read:
  assumes "faulty (on_db (reads f)) w = (r, w')"
  shows "same_stores w w' \<and> (\<forall>x. r = Inr x \<longrightarrow> x = f (dw_db w)) \<and> dw_log w' = dw_log w"
  using assms by (rule faulty_cases) (auto simp: on_db_def reads_def same_stores_def)

text \<open>A transaction of the store, successful or not.\<close>

lemma faulty_db:
  assumes "faulty (on_db f) w = (r, w')"
  shows "(dw_db w' = dw_db w \<or> dw_db w' = snd (f (dw_db w))) \<and> dw_graph w' = dw_graph w \<and> dw_log w' = dw_log w \<and>
    (\<forall>x. r = Inr x \<longrightarrow> f (dw_db w) = (Inr x, dw_db w'))"
  using assms by (rule faulty_cases) (auto simp: on_db_def split_beta prod_eq_iff)

lemma faulty_stores:
  assumes "faulty (on_stores f) w = (r, w')"
  shows "dw_db w' = dw_db w \<and> (dw_graph w' = dw_graph w \<or> dw_graph w' = snd (f (dw_graph w))) \<and> dw_log w' = dw_log w \<and>
    (\<forall>x. r = Inr x \<longrightarrow> f (dw_graph w) = (Inr x, dw_graph w'))"
  using assms by (rule faulty_cases) (auto simp: on_stores_def split_beta prod_eq_iff)

lemma broker_same:
  "dv_ack (broker_delivery body) w = (r, w') \<Longrightarrow> same_stores w w'"
  "dv_reject (broker_delivery body) requeue w = (r, w') \<Longrightarrow> same_stores w w'"
  by (auto simp: broker_delivery_def same_stores_def elim!: faulty_cases)

section \<open>Projecting a command\<close>

lemma supersede_parent_content [simp]: "mi_content (supersede_parent owner item g) = mi_content g"
  by (simp add: supersede_parent_def)

lemma apply_private_item_cases:
  "snd (tms_apply_private_item owner item store) = store \<and> mi_id item \<in> mi_id ` set (ms_items store) \<or>
   ms_items (snd (tms_apply_private_item owner item store)) = map (supersede_parent owner item) (ms_items store) @
     [item\<lparr>mi_owner_principal_id := Some owner, mi_scope := PRIVATE\<rparr>]"
  by (auto simp: tms_apply_private_item_def list_ex_iff Let_def image_iff eq_commute)

lemma erase_private_items:
  "set (ms_items (snd (tms_erase_private owner m store))) =
     {g \<in> set (ms_items store). \<not> (mi_id g = m \<and> mi_owner_principal_id g = Some owner)}"
  by (simp add: tms_erase_private_def Let_def)

definition projected :: "private_memory_command \<Rightarrow> memory_store \<Rightarrow> bool" where
  "projected command store \<longleftrightarrow>
     (if pc_command_type command = ERASE_COMMAND
      then (\<forall>g \<in> set (ms_items store). \<not> (pc_target_memory_id command = Some (mi_id g) \<and>
              mi_owner_principal_id g = Some (pc_owner_principal_id command)))
      else (\<exists>x. pc_result_item command = Some x \<and> mi_id x \<in> mi_id ` set (ms_items store)))"

definition project_in :: "private_memory_command \<Rightarrow> memory_store \<Rightarrow> memory_store" where
  "project_in command store =
     (if pc_command_type command = ERASE_COMMAND
      then (case pc_target_memory_id command of None \<Rightarrow> store
            | Some m \<Rightarrow> snd (tms_erase_private (pc_owner_principal_id command) m store))
      else (case pc_result_item command of None \<Rightarrow> store
            | Some x \<Rightarrow> snd (tms_apply_private_item (pc_owner_principal_id command) x store)))"

lemma DurableMemoryGraphProjector_eq:
  assumes "dict_get stores (pc_tenant_id command) = Some store" and "DurableMemoryGraphProjector command stores = (r, stores')"
  shows "(r = Inr () \<and> stores' = dict_set (pc_tenant_id command) (project_in command store) stores \<and>
      (pc_command_type command = ERASE_COMMAND \<or> pc_result_item command \<noteq> None)) \<or> ((\<exists>e. r = Inl e) \<and> stores' = stores)"
  using assms
  by (auto simp: DurableMemoryGraphProjector_def for_tenant_def on_graph_def project_in_def split: if_splits option.splits)

lemma projected_in: "pc_command_type command = ERASE_COMMAND \<or> pc_result_item command \<noteq> None \<Longrightarrow> projected command (project_in command store)"
proof -
  assume some: "pc_command_type command = ERASE_COMMAND \<or> pc_result_item command \<noteq> None"
  have "mi_id x \<in> mi_id ` set (ms_items (snd (tms_apply_private_item owner x store)))" for x owner
    using apply_private_item_cases [of owner x store] by (elim disjE) auto
  then show ?thesis
    using some by (auto simp: projected_def project_in_def erase_private_items split: option.splits)
qed

lemma project_in_sound:
  assumes inv: "ledger_inv db" and sound: "graph_sound db tenant_id store"
    and c: "pg_get_memory_command tenant_id k db = Some command"
  shows "graph_sound db tenant_id (project_in command store)"
proof (cases "pc_command_type command = ERASE_COMMAND")
  case True
  then show ?thesis using sound by (auto simp: project_in_def graph_sound_def erase_private_items split: option.splits)
next
  case False
  show ?thesis
  proof (cases "pc_result_item command")
    case None
    then show ?thesis using sound False by (simp add: project_in_def)
  next
    case (Some x)
    obtain c0 where c0: "dict_get (td_commands db) k = Some c0" "pc_tenant_id c0 = tenant_id" "command = decode_memory_command c0"
      using c by (auto simp: pg_get_memory_command_Some)
    have "command_ok (td_items db) c0" by (rule ledger_invD(5) [OF inv c0(1)])
    then obtain row y where row: "dict_get (td_items db) (mi_id x) = Some row" "ir_tenant_id row = tenant_id"
      "ir_owner_principal_id row = pc_owner_principal_id c0" "ir_item row = Some y" "mi_content y = mi_content x"
      using Some c0 unfolding command_ok_def by (auto split: option.splits)
    have "snd (tms_apply_private_item (pc_owner_principal_id command) x store) = store \<or>
      ms_items (snd (tms_apply_private_item (pc_owner_principal_id command) x store)) =
        map (supersede_parent (pc_owner_principal_id command) x) (ms_items store) @
        [x\<lparr>mi_owner_principal_id := Some (pc_owner_principal_id command), mi_scope := PRIVATE\<rparr>]"
      using apply_private_item_cases by blast
    then show ?thesis
    proof
      assume same: "snd (tms_apply_private_item (pc_owner_principal_id command) x store) = store"
      show ?thesis using sound False Some same by (simp add: project_in_def)
    next
      assume "ms_items (snd (tms_apply_private_item (pc_owner_principal_id command) x store)) =
        map (supersede_parent (pc_owner_principal_id command) x) (ms_items store) @
        [x\<lparr>mi_owner_principal_id := Some (pc_owner_principal_id command), mi_scope := PRIVATE\<rparr>]"
      then show ?thesis using sound False Some row c0(3) by (auto simp: project_in_def graph_sound_def)
    qed
  qed
qed

lemma project_in_complete:
  assumes complete: "graph_complete db tenant_id store" and c: "pg_get_memory_command tenant_id k db = Some command"
  shows "graph_complete db tenant_id (project_in command store)"
proof -
  have "m \<in> mi_id ` set (ms_items (project_in command store)) \<or> erasure_accepted db m" if "m \<in> mi_id ` set (ms_items store)" for m
  proof (cases "pc_command_type command = ERASE_COMMAND")
    case True
    obtain c0 where c0: "dict_get (td_commands db) k = Some c0" "command = decode_memory_command c0"
      using c by (auto simp: pg_get_memory_command_Some)
    have "erasure_accepted db t" if "pc_target_memory_id command = Some t" for t
      using that True c0 unfolding erasure_accepted_def by (metis decode_memory_command_simps(4,6))
    with that True show ?thesis by (auto simp: project_in_def erase_private_items split: option.splits)
  next
    case False
    have "mi_id ` set (ms_items store) \<subseteq> mi_id ` set (ms_items (snd (tms_apply_private_item owner x store)))" for owner x
      using apply_private_item_cases [of owner x store] by (elim disjE) (auto simp: image_Un image_image)
    then show ?thesis
      using that False by (cases "pc_result_item command") (simp_all add: project_in_def, blast)
  qed
  with complete show ?thesis unfolding graph_complete_def by blast
qed

end
