(* ===== verification/DeliveryInvariant.thy ===== *)
theory DeliveryInvariant
  imports Delivery
begin

text \<open>
  Every step of the worker and of the clients keeps the agreement of the graph with the ledger
  (\<open>delivery_inv\<close>); an acknowledged memory event has an applied command.
\<close>

section \<open>The memory path\<close>

lemma inv_project:
  assumes inv: "delivery_inv T w" and c: "pg_get_memory_command T k (dw_db w) = Some command"
    and run: "project_command command w = (r, w')"
  shows "dw_db w' = dw_db w" and "delivery_inv T w'"
    and "r = Inr u \<Longrightarrow> \<exists>store. dict_get (dw_graph w') T = Some store \<and> projected command store"
proof -
  obtain store where store: "dict_get (dw_graph w) T = Some store" "graph_sound (dw_db w) T store" "graph_complete (dw_db w) T store"
    and ledger: "ledger_inv (dw_db w)"
    using inv by (auto simp: delivery_inv_def)
  have T: "pc_tenant_id command = T" using c by (auto simp: pg_get_memory_command_Some)
  note calls = faulty_stores [OF run [unfolded project_command_def]]
  show db: "dw_db w' = dw_db w" using calls by simp
  obtain r0 stores' where run0: "DurableMemoryGraphProjector command (dw_graph w) = (r0, stores')" by fastforce
  note result = DurableMemoryGraphProjector_eq [OF _ run0, of store, unfolded T, OF store(1)]
  have sound: "graph_sound (dw_db w) T (project_in command store)" by (rule project_in_sound [OF ledger store(2) c])
  have complete: "graph_complete (dw_db w) T (project_in command store)" by (rule project_in_complete [OF store(3) c])
  have "dw_graph w' = dw_graph w \<or> dw_graph w' = dict_set T (project_in command store) (dw_graph w)"
    using calls result run0 by auto
  then show "delivery_inv T w'"
  proof
    assume "dw_graph w' = dw_graph w"
    then show ?thesis using inv db by (simp add: delivery_inv_def)
  next
    assume "dw_graph w' = dict_set T (project_in command store) (dw_graph w)"
    then show ?thesis using ledger sound complete db by (simp add: delivery_inv_def dict_get_set)
  qed
  assume "r = Inr u"
  then have "DurableMemoryGraphProjector command (dw_graph w) = (Inr (), dw_graph w')" using calls by auto
  then have graph: "dw_graph w' = dict_set T (project_in command store) (dw_graph w)"
    and some: "pc_command_type command = ERASE_COMMAND \<or> pc_result_item command \<noteq> None"
    using result run0 by auto
  show "\<exists>store. dict_get (dw_graph w') T = Some store \<and> projected command store"
    using projected_in [OF some] graph by (auto simp: dict_get_set)
qed

definition command_touches :: "string \<Rightarrow> private_memory_command \<Rightarrow> (string + string) set" where
  "command_touches k command = insert (Inr k)
     (Inl ` {m. pc_command_type command = ERASE_COMMAND \<and> pc_target_memory_id command = Some m})"

lemma inv_applied:
  assumes inv: "ledger_inv db" "graph_sound db T store" "graph_complete db T store"
    and c: "pg_get_memory_command T k db = Some command" and proj: "projected command store"
    and db': "db' = snd (pg_mark_memory_command_applied now T k db)"
  shows "ledger_inv db'" and "graph_sound db' T store" and "graph_complete db' T store"
proof -
  let ?E = "command_touches k command"
  obtain c0 where c0: "dict_get (td_commands db) k = Some c0" "pc_tenant_id c0 = T" "command = decode_memory_command c0"
    using c by (auto simp: pg_get_memory_command_Some)
  have ok: "command_ok (td_items db) c0" by (rule ledger_invD(5) [OF inv(1) c0(1)])
  show inv': "ledger_inv db'" unfolding db' by (rule ledger_inv_mark_applied [OF inv(1)])
  have ev: "evolves ?E db db'"
    unfolding db' by (rule evolves_mark_applied [OF inv(1)]) (use c in \<open>auto simp: command_touches_def\<close>)
  show "graph_sound db' T store"
  proof (rule graph_sound_evolves [OF inv(1) inv' ev inv(2)])
    fix g row assume g: "g \<in> set (ms_items store)" "Inl (mi_id g) \<in> ?E" "dict_get (td_items db) (mi_id g) = Some row"
      "mi_owner_principal_id g = Some (ir_owner_principal_id row)"
    then have target: "pc_command_type c0 = ERASE_COMMAND" "pc_target_memory_id c0 = Some (mi_id g)"
      using c0(3) by (auto simp: command_touches_def)
    then have "ir_owner_principal_id row = pc_owner_principal_id c0"
      using ok g(3) by (auto simp: command_ok_def split: option.splits)
    then show False using proj g target c0(3) by (auto simp: projected_def)
  qed
  show "graph_complete db' T store"
  proof (rule graph_complete_evolves [OF ev inv(3)])
    fix k' c' m assume "Inr k' \<in> ?E" "dict_get (td_commands db') k' = Some c'" "cr_result_memory_id c' = Some m"
    moreover obtain c'' where "dict_get (td_commands db') k = Some c''" "command_evolves c0 c''"
      using ev c0(1) by (rule evolves_commandE)
    ultimately have "cr_result_memory_id c0 = Some m" by (auto simp: command_touches_def command_evolves_def)
    moreover from this obtain x where "pc_result_item c0 = Some x" "mi_id x \<in> mi_id ` set (ms_items store)"
      using proj c0(3) ok by (auto simp: projected_def command_ok_def)
    ultimately have "m \<in> mi_id ` set (ms_items store)" using ok by (auto simp: command_ok_def split: option.splits)
    then show "m \<in> mi_id ` set (ms_items store) \<or> erasure_accepted db m" ..
  qed
qed

lemma get_applied_in:
  assumes "keyed pc_id (td_commands db)" and "pg_get_memory_command T k (applied_in now T k db) = Some command"
  shows "pc_state command = APPLIED"
proof -
  obtain c where c: "dict_get (td_commands (applied_in now T k db)) k = Some c" "pc_tenant_id c = T" "command = decode_memory_command c"
    using assms(2) unfolding pg_get_memory_command_Some by blast
  obtain c0 where c0: "dict_get (td_commands db) k = Some c0" "c = (if pc_tenant_id c0 = T \<and> pc_id c0 = k then c0\<lparr>pc_state := APPLIED\<rparr> else c0)"
    using c(1) by (auto simp: applied_in_def mark_processed_def)
  moreover have "pc_id c0 = k" using assms(1) c0(1) by (simp add: keyed_def)
  ultimately show ?thesis using c(2,3) by (auto split: if_splits)
qed

lemma get_audited [simp]: "pg_get_memory_command T k (write_audit t a e s i u db) = pg_get_memory_command T k db"
  by (simp add: pg_get_memory_command_def)

lemma transaction_InrE:
  assumes "transaction body db = (Inr x, db')"
  obtains "body db = (Inr x, db')"
  using assms by (auto simp: transaction_def split: prod.splits sum.splits)

lemma marked_applied:
  assumes inv: "ledger_inv db" and run: "pg_mark_memory_command_applied now T k db = (Inr command, db')"
  shows "\<exists>c. pg_get_memory_command T k db' = Some c \<and> pc_state c = APPLIED"
  using run unfolding pg_mark_memory_command_applied_def
proof (rule transaction_InrE, goal_cases)
  case 1
  have key: "keyed pc_id (td_commands db)" using inv by (rule ledger_invD(1))
  obtain c where c: "pg_get_memory_command T k db = Some c" using 1 by (auto split: option.splits)
  show ?case
  proof (cases "pc_state c = APPLIED")
    case True
    then show ?thesis using 1 c by auto
  next
    case False
    with 1 c obtain u db1 c' where erased: "(if pc_command_type c = ERASE_COMMAND then complete_erasure_command now c db
         else (Inr (), db)) = (Inr u, db1)"
      and at: "pg_get_memory_command T k (applied_in now T k db1) = Some c'"
      and db': "\<exists>t a e s i u. db' = write_audit t a e s i u (applied_in now T k db1)"
      by (auto simp: Let_def split: if_splits option.splits elim!: and_then_Inr_E) blast+
    have "keyed pc_id (td_commands db1)"
      using erased keyed_complete_erasure [OF _ key] key by (auto split: if_splits)
    from get_applied_in [OF this at] at db' show ?thesis by auto
  qed
qed

lemma inv_memory:
  assumes inv: "delivery_inv T w" and T: "pn_tenant_id envelope = T"
    and run: "handle_memory (Some project_command) (durable_state now) envelope w = (r, w')"
  shows "delivery_inv T w' \<and> dw_log w' = dw_log w \<and>
    (\<forall>u. r = Inr u \<longrightarrow> (\<exists>c. pg_get_memory_command T (pn_aggregate_id envelope) (dw_db w') = Some c \<and> pc_state c = APPLIED))"
proof -
  let ?k = "pn_aggregate_id envelope"
  obtain r1 w1 where get: "ps_get_memory_command (durable_state now) T ?k w = (r1, w1)" by fastforce
  then have same: "same_stores w w1" "dw_log w1 = dw_log w" and r1: "\<forall>x. r1 = Inr x \<longrightarrow> x = pg_get_memory_command T ?k (dw_db w)"
    using faulty_read [of "pg_get_memory_command T ?k" w r1 w1] by (simp_all add: durable_state_def)
  have inv1: "delivery_inv T w1" using delivery_inv_same [OF same(1)] inv by simp
  show ?thesis
  proof (cases "\<exists>command. r1 = Inr (Some command) \<and> pc_state command = ACCEPTED")
    case False
    then show ?thesis
      using run get T inv1 same r1
      by (auto simp: handle_memory_def and_then_def same_stores_def split: sum.splits option.splits if_splits)
  next
    case True
    then obtain command where r1': "r1 = Inr (Some command)" "pc_state command = ACCEPTED" by blast
    then have c: "pg_get_memory_command T ?k (dw_db w1) = Some command" using r1 same by (simp add: same_stores_def)
    then have id: "pc_id command = ?k"
      using ledger_invD(1) [of "dw_db w1"] inv1 by (auto simp: pg_get_memory_command_Some keyed_def delivery_inv_def)
    obtain r2 w2 where proj: "project_command command w1 = (r2, w2)" by fastforce
    note p = inv_project [OF inv1 c proj]
    have log2: "dw_log w2 = dw_log w1" using faulty_stores [OF proj [unfolded project_command_def]] by simp
    show ?thesis
    proof (cases r2)
      case (Inl e)
      then have "(r, w') = (Inl e, w2)" using run get T r1' proj by (simp add: handle_memory_def and_then_def)
      then show ?thesis using p(2) log2 same by simp
    next
      case (Inr u)
      obtain store where store: "dict_get (dw_graph w2) T = Some store" "projected command store" using p(3) [OF Inr] by blast
      obtain r3 w3 where mark: "ps_mark_memory_command_applied (durable_state now) T ?k w2 = (r3, w3)" by fastforce
      note m = faulty_db [OF mark [unfolded durable_state_def, simplified]]
      have inv2: "ledger_inv (dw_db w2)" "graph_sound (dw_db w2) T store" "graph_complete (dw_db w2) T store"
        using p(2) store(1) by (auto simp: delivery_inv_def)
      have c2: "pg_get_memory_command T ?k (dw_db w2) = Some command" using c p(1) by simp
      note a = inv_applied [OF inv2 c2 store(2) refl, of now]
      have inv3: "delivery_inv T w3"
        using m a inv2 store(1) unfolding delivery_inv_def by (elim conjE disjE) auto
      have "w' = w3 \<and> (\<forall>u. r = Inr u \<longrightarrow> (\<exists>x. r3 = Inr x))"
        using run get T r1' proj Inr mark id by (auto simp: handle_memory_def and_then_def split: sum.splits)
      then show ?thesis using inv3 m log2 same marked_applied [OF inv2(1)] by fastforce
    qed
  qed
qed


section \<open>The publication path\<close>

lemma inv_project_candidate:
  assumes inv: "delivery_inv T w" and run: "project_candidate uid now candidate w = (r, w')"
  shows "delivery_inv T w'"
proof -
  obtain store where store: "dict_get (dw_graph w) T = Some store" "graph_sound (dw_db w) T store" "graph_complete (dw_db w) T store"
    using inv by (auto simp: delivery_inv_def)
  let ?published = "\<lambda>s. snd (tms_publish_tenant_knowledge uid now (kc_id candidate) (kc_claim candidate) (kc_confidence candidate)
    (kc_proposer_id candidate) s)"
  note calls = faulty_stores [OF run [unfolded project_candidate_def]]
  have items: "ms_items (?published s) = ms_items s \<or> (\<exists>g. mi_scope g = TENANT_KNOWLEDGE \<and> ms_items (?published s) = ms_items s @ [g])" for s
    by (auto simp: tms_publish_tenant_knowledge_def Let_def split: option.splits)
  have sound: "graph_sound (dw_db w) T (?published store)"
    using items [of store] store(2) by (auto simp: graph_sound_def)
  have complete: "graph_complete (dw_db w) T (?published store)"
    using items [of store] store(3) unfolding graph_complete_def by (elim disjE exE conjE) auto
  have "dw_graph w' = dw_graph w \<or>
    (\<exists>s. dict_get (dw_graph w) (kc_tenant_id candidate) = Some s \<and> dw_graph w' = dict_set (kc_tenant_id candidate) (?published s) (dw_graph w))"
    using calls by (auto simp: MemoryGraphProjector_def on_graph_def for_tenant_def split: option.splits)
  then show ?thesis
  proof
    assume "dw_graph w' = dw_graph w"
    then show ?thesis using inv calls by (simp add: delivery_inv_def)
  next
    assume "\<exists>s. dict_get (dw_graph w) (kc_tenant_id candidate) = Some s \<and>
      dw_graph w' = dict_set (kc_tenant_id candidate) (?published s) (dw_graph w)"
    then have "dict_get (dw_graph w') T = Some store \<or> dict_get (dw_graph w') T = Some (?published store)"
      using store(1) by (auto simp: dict_get_set)
    then show ?thesis using inv calls store sound complete unfolding delivery_inv_def by auto
  qed
qed

lemma inv_kept:
  assumes inv: "delivery_inv T w" and kept: "kept {} (dw_db w) (dw_db w')" and graph: "dw_graph w' = dw_graph w"
  shows "delivery_inv T w'"
proof -
  obtain store where store: "dict_get (dw_graph w) T = Some store" "graph_sound (dw_db w) T store" "graph_complete (dw_db w) T store"
    and ledger: "ledger_inv (dw_db w)"
    using inv by (auto simp: delivery_inv_def)
  from kept have ledger': "ledger_inv (dw_db w')" and ev: "evolves {} (dw_db w) (dw_db w')" by (simp_all add: kept_def)
  have "graph_sound (dw_db w') T store" by (rule graph_sound_evolves [OF ledger ledger' ev store(2)]) simp
  moreover have "graph_complete (dw_db w') T store" by (rule graph_complete_evolves [OF ev store(3)]) simp
  ultimately show ?thesis using ledger' store(1) graph by (simp add: delivery_inv_def)
qed

lemma inv_mark_published:
  assumes inv: "delivery_inv T w" and run: "ps_mark_published (durable_state now) t k w = (r, w')"
  shows "delivery_inv T w'"
proof -
  note m = faulty_db [OF run [unfolded durable_state_def, simplified]]
  have ledger: "ledger_inv (dw_db w)" using inv by (simp add: delivery_inv_def)
  show ?thesis
    using m kept_mark_published [OF ledger, of "{}" now t k] kept_refl [OF ledger, of "{}"] inv
    by (intro inv_kept [OF inv]) auto
qed

text \<open>The same for the world that a call leaves, to be chained along \<open>and_then\<close>.\<close>

lemma keeps_and_then:
  assumes "P (snd m)" and "\<And>x w1. P w1 \<Longrightarrow> P (snd (f x w1))"
  shows "P (snd (and_then m f))"
  using assms by (auto simp: and_then_def split: prod.splits sum.splits)

lemma snd_keeps: "(\<And>r w'. m = (r, w') \<Longrightarrow> P w') \<Longrightarrow> P (snd m)"
  by (cases m) simp

section \<open>Acknowledged deliveries\<close>

definition command_applied :: "string \<Rightarrow> publication_envelope \<Rightarrow> tenant_database \<Rightarrow> bool" where
  "command_applied T envelope db \<longleftrightarrow> pn_tenant_id envelope = T \<and>
     (\<exists>c. pg_get_memory_command T (pn_aggregate_id envelope) db = Some c \<and> pc_state c = APPLIED)"

definition acked_ok :: "string \<Rightarrow> delivery_world \<Rightarrow> bool" where
  "acked_ok T w \<longleftrightarrow> (\<forall>body envelope. (body, True) \<in> set (dw_log w) \<longrightarrow> decode_envelope body = Inr envelope \<longrightarrow>
     pn_event_type envelope = COMMAND_EVENT \<longrightarrow> command_applied T envelope (dw_db w))"

lemma command_applied_evolves:
  assumes "evolves E db db'" and "command_applied T envelope db"
  shows "command_applied T envelope db'"
proof -
  obtain c where c: "pn_tenant_id envelope = T" "dict_get (td_commands db) (pn_aggregate_id envelope) = Some c" "pc_tenant_id c = T"
    "pc_state c = APPLIED"
    using assms(2) by (auto simp: command_applied_def pg_get_memory_command_Some)
  from assms(1) c(2) obtain c' where "dict_get (td_commands db') (pn_aggregate_id envelope) = Some c'" "command_evolves c c'"
    by (rule evolves_commandE)
  with c show ?thesis by (auto simp: command_applied_def pg_get_memory_command_Some command_evolves_def)
qed

lemma acked_ok_evolves:
  "acked_ok T w \<Longrightarrow> evolves E (dw_db w) (dw_db w') \<Longrightarrow> dw_log w' = dw_log w \<Longrightarrow> acked_ok T w'"
  unfolding acked_ok_def using command_applied_evolves by metis

lemma acked_ok_settled:
  assumes "acked_ok T w" and "dw_db w' = dw_db w" and "set (dw_log w') \<subseteq> insert (body, acked) (set (dw_log w))"
    and "\<And>envelope. acked \<Longrightarrow> decode_envelope body = Inr envelope \<Longrightarrow> pn_event_type envelope = COMMAND_EVENT \<Longrightarrow>
      command_applied T envelope (dw_db w)"
  shows "acked_ok T w'"
  unfolding acked_ok_def using assms unfolding acked_ok_def by (metis insertE prod.inject subsetD)

lemma broker_log:
  "dv_ack (broker_delivery body) w = (r, w') \<Longrightarrow> set (dw_log w') \<subseteq> insert (body, True) (set (dw_log w))"
  "dv_reject (broker_delivery body) requeue w = (r, w') \<Longrightarrow> set (dw_log w') \<subseteq> insert (body, False) (set (dw_log w))"
  by (auto simp: broker_delivery_def elim!: faulty_cases)

definition worker_inv :: "string \<Rightarrow> delivery_world \<Rightarrow> bool" where
  "worker_inv T w \<longleftrightarrow> delivery_inv T w \<and> acked_ok T w"

lemma worker_inv_same: "worker_inv T w \<Longrightarrow> same_stores w w' \<Longrightarrow> dw_log w' = dw_log w \<Longrightarrow> worker_inv T w'"
  using delivery_inv_same [of w w' T] by (simp add: worker_inv_def acked_ok_def same_stores_def)

lemma worker_ack:
  assumes inv: "worker_inv T w"
    and applied: "\<And>envelope. decode_envelope body = Inr envelope \<Longrightarrow> pn_event_type envelope = COMMAND_EVENT \<Longrightarrow>
      command_applied T envelope (dw_db w)"
  shows "worker_inv T (snd (dv_ack (broker_delivery body) w))"
proof (rule snd_keeps)
  fix r w' assume run: "dv_ack (broker_delivery body) w = (r, w')"
  show "worker_inv T w'"
    using inv broker_same(1) [OF run] delivery_inv_same [of w w' T]
      acked_ok_settled [of T w w', OF _ _ broker_log(1) [OF run]] applied
    by (auto simp: worker_inv_def same_stores_def)
qed

lemma worker_reject:
  assumes inv: "worker_inv T w"
  shows "worker_inv T (snd (dv_reject (broker_delivery body) requeue w))"
proof (rule snd_keeps)
  fix r w' assume run: "dv_reject (broker_delivery body) requeue w = (r, w')"
  show "worker_inv T w'"
    using inv broker_same(2) [OF run] delivery_inv_same [of w w' T]
      acked_ok_settled [of T w w', OF _ _ broker_log(2) [OF run]]
    by (auto simp: worker_inv_def same_stores_def)
qed

lemma worker_evolves:
  assumes "worker_inv T w" and "delivery_inv T w'" and "evolves E (dw_db w) (dw_db w')" and "dw_log w' = dw_log w"
  shows "worker_inv T w'"
  using assms acked_ok_evolves by (auto simp: worker_inv_def)

lemma worker_calls:
  assumes inv: "worker_inv T w"
  shows "worker_inv T (snd (ps_get_publication (durable_state now) e t k w))"
    and "worker_inv T (snd (ps_get_candidate (durable_state now) t k w))"
    and "worker_inv T (snd (ps_mark_published (durable_state now) t k w))"
    and "worker_inv T (snd (project_candidate uid now candidate w))"
proof -
  have delivery: "delivery_inv T w" and ledger: "ledger_inv (dw_db w)" using inv by (simp_all add: worker_inv_def delivery_inv_def)
  have read: "worker_inv T (snd (faulty (on_db (reads f)) w))" for f :: "tenant_database \<Rightarrow> 'a"
    using faulty_read [of f w] worker_inv_same [OF inv] by (metis prod.collapse)
  show "worker_inv T (snd (ps_get_publication (durable_state now) e t k w))"
    "worker_inv T (snd (ps_get_candidate (durable_state now) t k w))"
    by (simp_all add: durable_state_def read)
  show "worker_inv T (snd (ps_mark_published (durable_state now) t k w))"
  proof (rule snd_keeps)
    fix r w' assume run: "ps_mark_published (durable_state now) t k w = (r, w')"
    note m = faulty_db [OF run [unfolded durable_state_def, simplified]]
    have "evolves UNIV (dw_db w) (dw_db w')"
      using m evolves_refl kept_mark_published [OF ledger, of UNIV now t k] by (auto simp: kept_def)
    then show "worker_inv T w'" using worker_evolves [OF inv inv_mark_published [OF delivery run]] m by simp
  qed
  show "worker_inv T (snd (project_candidate uid now candidate w))"
  proof (rule snd_keeps)
    fix r w' assume run: "project_candidate uid now candidate w = (r, w')"
    note m = faulty_stores [OF run [unfolded project_candidate_def]]
    show "worker_inv T w'"
      using worker_evolves [OF inv inv_project_candidate [OF delivery run], of UNIV] m evolves_refl by simp
  qed
qed


section \<open>One delivery\<close>

lemma worker_publication:
  assumes inv: "worker_inv T w" and body: "decode_envelope body = Inr envelope" "pn_event_type envelope \<noteq> COMMAND_EVENT"
  shows "worker_inv T (snd (handle_publication (project_candidate uid now) (broker_delivery body) (durable_state now) envelope w))"
  unfolding handle_publication_def
  by (auto simp: inv body split: sum.splits option.splits if_splits
      intro!: keeps_and_then [where P = "worker_inv T"] worker_calls worker_ack)

lemma memory_evolves:
  assumes inv: "delivery_inv T w" and run: "handle_memory (Some project_command) (durable_state now) envelope w = (r, w')"
  shows "evolves UNIV (dw_db w) (dw_db w')"
proof -
  let ?P = "\<lambda>w1. kept UNIV (dw_db w) (dw_db w1)"
  have start: "?P w" by (rule kept_refl) (use inv in \<open>simp add: delivery_inv_def\<close>)
  have read: "?P (snd (ps_get_memory_command (durable_state now) t k w1))" if "?P w1" for w1 t k
    using that faulty_read [of "pg_get_memory_command t k" w1]
    by (simp add: durable_state_def same_stores_def) (metis prod.collapse)
  have project: "?P (snd (project_command command w1))" if "?P w1" for w1 command
    using that faulty_stores [of _ w1] unfolding project_command_def by (metis prod.collapse)
  have mark: "?P (snd (ps_mark_memory_command_applied (durable_state now) t k w1))" if P: "?P w1" for w1 t k
  proof (rule snd_keeps)
    fix r1 w2 assume call: "ps_mark_memory_command_applied (durable_state now) t k w1 = (r1, w2)"
    note m = faulty_db [OF call [unfolded durable_state_def, simplified]]
    have "kept UNIV (dw_db w1) (dw_db w2)"
      using m kept_refl kept_mark_applied P by (auto simp: kept_def evolves_refl)
    with P show "?P w2" unfolding kept_def using evolves_trans by blast
  qed
  have "?P (snd (handle_memory (Some project_command) (durable_state now) envelope w))"
    unfolding handle_memory_def
    by (auto split: option.splits if_splits intro!: keeps_and_then [where P = ?P] read project mark start)
  with run show ?thesis by (simp add: kept_def)
qed

lemma worker_memory:
  assumes inv: "worker_inv T w" and T: "pn_tenant_id envelope = T"
    and run: "handle_memory (Some project_command) (durable_state now) envelope w = (r, w')"
  shows "worker_inv T w'" and "r = Inr u \<Longrightarrow> command_applied T envelope (dw_db w')"
proof -
  have delivery: "delivery_inv T w" using inv by (simp add: worker_inv_def)
  note m = inv_memory [OF delivery T run]
  show "worker_inv T w'" using worker_evolves [OF inv _ memory_evolves [OF delivery run]] m by simp
  show "command_applied T envelope (dw_db w')" if "r = Inr u" using m T that by (auto simp: command_applied_def)
qed

lemma worker_handle_delivery:
  assumes inv: "worker_inv T w"
    and run: "handle_delivery (SingleTenantPublicationRouter T (durable_state now)) (project_candidate uid now)
      (Some project_command) (broker_delivery body) w = (r, w')"
  shows "worker_inv T w'"
    and "r = Inr False \<Longrightarrow> decode_envelope body = Inr envelope \<Longrightarrow> pn_event_type envelope \<noteq> COMMAND_EVENT"
proof -
  have body: "dv_body (broker_delivery body) = body" by (simp add: broker_delivery_def)
  have memory: "worker_inv T (snd (and_then (handle_memory (Some project_command) (durable_state now) envelope w)
      (\<lambda>_ w1. and_then (dv_ack (broker_delivery body) w1) (\<lambda>_ w2. (Inr True, w2)))))"
    if "decode_envelope body = Inr envelope" "pn_tenant_id envelope = T" for envelope
  proof -
    obtain r1 w1 where run1: "handle_memory (Some project_command) (durable_state now) envelope w = (r1, w1)" by fastforce
    note m = worker_memory [OF inv that(2) run1]
    show ?thesis
    proof (cases r1)
      case (Inl e)
      then show ?thesis using run1 m(1) by (simp add: and_then_def)
    next
      case (Inr u)
      have "worker_inv T (snd (dv_ack (broker_delivery body) w1))"
        by (rule worker_ack [OF m(1)]) (use m(2) [OF Inr] that in auto)
      then show ?thesis
        using run1 Inr by (auto simp: and_then_def split: prod.splits sum.splits)
    qed
  qed
  have "worker_inv T (snd (handle_delivery (SingleTenantPublicationRouter T (durable_state now)) (project_candidate uid now)
      (Some project_command) (broker_delivery body) w))"
    using memory worker_publication [OF inv]
    by (auto simp: handle_delivery_def body inv SingleTenantPublicationRouter_def split: sum.splits)
  then show "worker_inv T w'" using run by simp
  show "pn_event_type envelope \<noteq> COMMAND_EVENT" if "r = Inr False" "decode_envelope body = Inr envelope"
    using run that
    by (auto simp: handle_delivery_def body and_then_def split: sum.splits prod.splits if_splits)
qed

lemma worker_deliver:
  assumes inv: "worker_inv T w"
  shows "worker_inv T (snd (deliver T uid now body w))"
proof -
  obtain r w1 where run: "handle_delivery (SingleTenantPublicationRouter T (durable_state now)) (project_candidate uid now)
      (Some project_command) (broker_delivery body) w = (r, w1)" by fastforce
  note h = worker_handle_delivery [OF inv run]
  have "worker_inv T (snd (dv_ack (broker_delivery body) w1))" if "r = Inr False"
    by (rule worker_ack [OF h(1)]) (use h(2) [OF that] in auto)
  then show ?thesis
    using h(1) worker_reject [OF h(1)]
    by (auto simp: deliver_def handle_def run split: sum.splits error.splits)
qed

lemma worker_step:
  assumes "delivery_step T w w'" and inv: "worker_inv T w"
  shows "worker_inv T w'"
  using assms(1)
proof cases
  case (client db')
  have "ledger_inv (dw_db w)" using inv by (simp add: worker_inv_def delivery_inv_def)
  then have kept: "kept E (dw_db w) db'" for E by (rule pg_client_step_kept [OF client(2)])
  have "delivery_inv T w" using inv by (simp add: worker_inv_def)
  moreover have "kept {} (dw_db w) (dw_db w')" "dw_graph w' = dw_graph w" using kept [of "{}"] client by simp_all
  ultimately have "delivery_inv T w'" by (rule inv_kept)
  moreover have "evolves UNIV (dw_db w) (dw_db w')" using kept [of UNIV] client by (simp add: kept_def)
  moreover have "dw_log w' = dw_log w" using client by simp
  ultimately show ?thesis by (rule worker_evolves [OF inv])
next
  case (deliver uid now body faults)
  have "worker_inv T (w\<lparr>dw_faults := faults\<rparr>)" by (rule worker_inv_same [OF inv]) (simp_all add: same_stores_def)
  then show ?thesis unfolding deliver by (rule worker_deliver)
qed

lemma worker_start: "worker_inv T (delivery_start T)"
proof -
  have "dw_db (delivery_start T) = empty_tenant_database" "dw_log (delivery_start T) = []"
    and "dict_get (dw_graph (delivery_start T)) T = Some empty_memory_store"
    by (simp_all add: delivery_start_def InMemoryTenantMemoryRouter_def dict_get_set)
  moreover have "graph_sound db T empty_memory_store" for db by (simp add: graph_sound_def empty_memory_store_def)
  moreover have "graph_complete empty_tenant_database T empty_memory_store"
    by (simp add: graph_complete_def empty_tenant_database_def)
  ultimately show ?thesis using ledger_inv_empty by (simp add: worker_inv_def delivery_inv_def acked_ok_def)
qed

lemma delivery_reachable_inv: "delivery_reachable T w \<Longrightarrow> worker_inv T w"
  unfolding delivery_reachable_def by (induction rule: rtranclp_induct) (auto intro: worker_start worker_step)


section \<open>Commands that lost their content\<close>

text \<open>
  A waiting command whose item was erased first: its delivery has nothing to project, and nothing
  but its delivery applies it.
\<close>

definition scrubbed :: "string \<Rightarrow> tenant_database \<Rightarrow> bool" where
  "scrubbed k db \<longleftrightarrow> (\<exists>c. dict_get (td_commands db) k = Some c \<and> pc_state c = ACCEPTED \<and>
     pc_command_type c \<noteq> ERASE_COMMAND \<and> pc_result_item c = None)"

lemma kept_trans: "kept E db db1 \<Longrightarrow> kept E db1 db2 \<Longrightarrow> kept E db db2"
  unfolding kept_def using evolves_trans by blast

lemma scrubbed_kept:
  assumes "kept (UNIV - {Inr k}) db db'" and "scrubbed k db"
  shows "scrubbed k db'"
proof -
  obtain c where c: "dict_get (td_commands db) k = Some c" "pc_state c = ACCEPTED" "pc_command_type c \<noteq> ERASE_COMMAND"
    "pc_result_item c = None"
    using assms(2) by (auto simp: scrubbed_def)
  have inv': "ledger_inv db'" and ev: "evolves (UNIV - {Inr k}) db db'" using assms(1) by (simp_all add: kept_def)
  from ev c(1) obtain c' where c': "dict_get (td_commands db') k = Some c'" "command_evolves c c'" by (rule evolves_commandE)
  have "pc_state c' \<noteq> APPLIED"
  proof
    assume "pc_state c' = APPLIED"
    from evolves_appliedE [OF ev c'(1) this] c(1,2) show False by auto
  qed
  then have "pc_state c' = ACCEPTED" using ledger_invD(5) [OF inv' c'(1)] by (auto simp: command_ok_def)
  with c c' show ?thesis by (auto simp: scrubbed_def command_evolves_def)
qed

lemma kept_reads:
  assumes "kept E db (dw_db w)"
  shows "kept E db (dw_db (snd (faulty (on_db (reads f)) w)))"
  using assms faulty_read [of f w] by (metis prod.collapse same_stores_def)

lemma kept_broker:
  assumes "kept E db (dw_db w)"
  shows "kept E db (dw_db (snd (dv_ack (broker_delivery body) w)))"
    and "kept E db (dw_db (snd (dv_reject (broker_delivery body) requeue w)))"
  using assms broker_same [of body] by (metis prod.collapse same_stores_def)+

lemma kept_publication:
  assumes "kept E db (dw_db w)"
  shows "kept E db (dw_db (snd (handle_publication (project_candidate uid now) (broker_delivery body) (durable_state now) envelope w)))"
proof -
  let ?P = "\<lambda>w1. kept E db (dw_db w1)"
  have project: "?P (snd (project_candidate uid now candidate w1))" if "?P w1" for w1 candidate
    using that faulty_stores [of _ w1] unfolding project_candidate_def by (metis prod.collapse)
  have mark: "?P (snd (ps_mark_published (durable_state now) t k w1))" if "?P w1" for w1 t k
  proof (rule snd_keeps)
    fix r1 w2 assume call: "ps_mark_published (durable_state now) t k w1 = (r1, w2)"
    have "ledger_inv (dw_db w1)" using that by (simp add: kept_def)
    then have "kept E (dw_db w1) (dw_db w2)"
      using faulty_db [OF call [unfolded durable_state_def, simplified]] kept_refl kept_mark_published by auto
    with that show "?P w2" by (rule kept_trans)
  qed
  show ?thesis
    unfolding handle_publication_def
    by (auto simp: assms durable_state_def split: sum.splits option.splits if_splits
        intro!: keeps_and_then [where P = ?P] kept_reads kept_broker project mark [unfolded durable_state_def, simplified])
qed

lemma project_scrubbed:
  assumes "pc_command_type command \<noteq> ERASE_COMMAND" and "pc_result_item command = None" and "project_command command w = (r, w')"
  shows "\<exists>e. r = Inl e \<and> dw_db w' = dw_db w"
  using faulty_stores [OF assms(3) [unfolded project_command_def]] assms(1,2)
  by (cases r) (auto simp: DurableMemoryGraphProjector_def for_tenant_def split: option.splits)

lemma kept_memory:
  assumes inv: "ledger_inv (dw_db w)" and stuck: "scrubbed k (dw_db w)"
  shows "kept (UNIV - {Inr k}) (dw_db w) (dw_db (snd (handle_memory (Some project_command) (durable_state now) envelope w)))"
proof -
  let ?E = "UNIV - {Inr k}" and ?t = "pn_tenant_id envelope" and ?a = "pn_aggregate_id envelope"
  obtain r1 w1 where get: "ps_get_memory_command (durable_state now) ?t ?a w = (r1, w1)" by fastforce
  then have same: "dw_db w1 = dw_db w" and r1: "\<forall>x. r1 = Inr x \<longrightarrow> x = pg_get_memory_command ?t ?a (dw_db w)"
    using faulty_read [of "pg_get_memory_command ?t ?a" w r1 w1] by (simp_all add: durable_state_def same_stores_def)
  have refl: "kept ?E (dw_db w) (dw_db w)" using inv by (rule kept_refl)
  show ?thesis
  proof (cases "\<exists>command. r1 = Inr (Some command) \<and> pc_state command = ACCEPTED")
    case False
    then show ?thesis
      using get same refl by (auto simp: handle_memory_def and_then_def split: sum.splits option.splits)
  next
    case True
    then obtain command where command: "r1 = Inr (Some command)" "pc_state command = ACCEPTED" by blast
    then have "pg_get_memory_command ?t ?a (dw_db w) = Some command" using r1 by simp
    then obtain c where c: "dict_get (td_commands (dw_db w)) ?a = Some c" "command = decode_memory_command c"
      by (auto simp: pg_get_memory_command_Some)
    have id: "pc_id command = ?a" using ledger_invD(1) [OF inv] c by (simp add: keyed_def)
    obtain r2 w2 where proj: "project_command command w1 = (r2, w2)" by fastforce
    have db2: "dw_db w2 = dw_db w" using faulty_stores [OF proj [unfolded project_command_def]] same by simp
    show ?thesis
    proof (cases "?a = k \<or> (\<exists>e. r2 = Inl e)")
      case True
      have "\<exists>e. r2 = Inl e"
        using True project_scrubbed [OF _ _ proj] stuck c by (auto simp: scrubbed_def)
      then show ?thesis using get command proj db2 refl by (auto simp: handle_memory_def and_then_def)
    next
      case False
      then obtain u where r2: "r2 = Inr u" by (cases r2) auto
      obtain r3 w3 where mark: "ps_mark_memory_command_applied (durable_state now) ?t ?a w2 = (r3, w3)" by fastforce
      have "evolves ?E (dw_db w) (snd (pg_mark_memory_command_applied now ?t ?a (dw_db w)))"
        using False by (intro evolves_mark_applied [OF inv]) auto
      then have "kept ?E (dw_db w) (dw_db w3)"
        using faulty_db [OF mark [unfolded durable_state_def, simplified]] db2 refl ledger_inv_mark_applied [OF inv, of now ?t ?a]
        by (auto simp: kept_def)
      then show ?thesis
        using get command proj r2 mark id by (auto simp: handle_memory_def and_then_def split: sum.splits)
    qed
  qed
qed

lemma kept_deliver:
  assumes inv: "ledger_inv (dw_db w)" and stuck: "scrubbed k (dw_db w)"
  shows "kept (UNIV - {Inr k}) (dw_db w) (dw_db (snd (deliver T uid now body w)))"
proof -
  let ?P = "\<lambda>w1. kept (UNIV - {Inr k}) (dw_db w) (dw_db w1)"
  have refl: "?P w" using inv by (rule kept_refl)
  have "?P (snd (handle_delivery (SingleTenantPublicationRouter T (durable_state now)) (project_candidate uid now)
      (Some project_command) (broker_delivery body) w))"
    unfolding handle_delivery_def
    by (auto simp: refl split: sum.splits if_splits
        intro!: keeps_and_then [where P = ?P] kept_memory [OF inv stuck] kept_broker kept_publication)
      (auto simp: SingleTenantPublicationRouter_def intro!: kept_memory [OF inv stuck] kept_publication refl split: if_splits)
  then show ?thesis
    by (auto simp: deliver_def handle_def split: prod.splits sum.splits error.splits intro: kept_broker)
qed


lemma scrubbed_step:
  assumes step: "delivery_step T w w'" and inv: "worker_inv T w" and stuck: "scrubbed k (dw_db w)"
  shows "scrubbed k (dw_db w')"
proof -
  have ledger: "ledger_inv (dw_db w)" using inv by (simp add: worker_inv_def delivery_inv_def)
  from step have "kept (UNIV - {Inr k}) (dw_db w) (dw_db w')"
  proof cases
    case (client db')
    then show ?thesis using pg_client_step_kept ledger by simp
  next
    case (deliver uid now body faults)
    have "kept (UNIV - {Inr k}) (dw_db (w\<lparr>dw_faults := faults\<rparr>)) (dw_db w')"
      unfolding deliver by (rule kept_deliver) (use ledger stuck in simp_all)
    then show ?thesis by simp
  qed
  from scrubbed_kept [OF this stuck] show ?thesis .
qed

section \<open>A fault-free commit\<close>

lemma mark_applied_succeeds:
  assumes "pg_get_memory_command T k db = Some command" and "pc_state command = ACCEPTED"
    and "pc_command_type command \<noteq> ERASE_COMMAND"
  shows "\<exists>applied db'. pg_mark_memory_command_applied now T k db = (Inr applied, db')"
proof -
  obtain c where c: "dict_get (td_commands db) k = Some c" "pc_tenant_id c = T"
    using assms(1) by (auto simp: pg_get_memory_command_Some)
  let ?c = "if pc_tenant_id c = T \<and> pc_id c = k then c\<lparr>pc_state := APPLIED\<rparr> else c"
  have "dict_get (td_commands (applied_in now T k db)) k = Some ?c" "pc_tenant_id ?c = T"
    using c by (simp_all add: applied_in_def mark_processed_def)
  then have "\<exists>applied. pg_get_memory_command T k (applied_in now T k db) = Some applied"
    unfolding pg_get_memory_command_Some by blast
  then show ?thesis
    using assms unfolding pg_mark_memory_command_applied_def transaction_def
    by (auto simp: and_then_def Let_def)
qed

end
