(* ===== verification/DurableProperties.thy ===== *)
theory DurableProperties
  imports DurableHistory
begin

text \<open>
  The properties of the durable store, and the databases that their witnesses evaluate.
\<close>

section \<open>Sample databases\<close>

text \<open>Alice retains an item (command \<open>c1\<close>, event \<open>e1\<close>); its erasure is approved (\<open>c2\<close>, \<open>e2\<close>) and applied.\<close>

definition sample_retain :: retain_memory where
  "sample_retain = \<lparr>rt_content = ''tea'', rt_kind = EXPLICIT, rt_confidence = 1, rt_idempotency_key = ''k''\<rparr>"

definition sample_retained_db :: tenant_database where
  "sample_retained_db = snd (pg_accept_retain ''m'' (''c1'', ''e1'') 0 ''t'' ''alice'' ''alice'' sample_retain empty_tenant_database)"

definition sample_erasing_db :: tenant_database where
  "sample_erasing_db = snd (pg_review_erasure ''v'' (''c2'', ''e2'') 0 ''t'' ''bob''
     \<lparr>ve_request_id = ''q'', ve_decision = APPROVE_ERASURE, ve_rationale = ''r'', ve_idempotency_key = ''k''\<rparr>
     (snd (pg_request ''q'' 0 ''t'' ''alice'' ''alice'' \<lparr>re_memory_id = ''m'', re_reason = ''r'', re_idempotency_key = ''k''\<rparr>
       sample_retained_db)))"

definition sample_erased_db :: tenant_database where
  "sample_erased_db = snd (pg_mark_memory_command_applied 1 ''t'' ''c2'' sample_erasing_db)"

definition sample_import :: memory_item where
  "sample_import = \<lparr>mi_id = ''m'', mi_owner_principal_id = Some ''alice'', mi_scope = PRIVATE, mi_content = ''tea'', mi_kind = EXPLICIT,
     mi_confidence = 1, mi_provenance = \<lparr>pv_actor_id = ''alice'', pv_source = ''explicit''\<rparr>, mi_created_at = 0,
     mi_state = ACTIVE_MEMORY, mi_supersedes_id = None\<rparr>"

lemma pg_reachable_client: "pg_reachable db \<Longrightarrow> pg_client_step db db' \<Longrightarrow> pg_reachable db'"
  unfolding pg_reachable_def by (auto intro: rtranclp.rtrancl_into_rtrancl pg_step.client)

lemma sample_retained_db_reachable: "pg_reachable sample_retained_db"
  unfolding sample_retained_db_def
  by (rule pg_reachable_client [OF _ pg_client_step.retain]) (simp add: pg_reachable_def)

lemma sample_erased_db_reachable: "pg_reachable sample_erased_db"
proof -
  have "pg_reachable sample_erasing_db"
    unfolding sample_erasing_db_def
    by (intro pg_reachable_client [OF _ pg_client_step.review_erasure] pg_reachable_client [OF _ pg_client_step.request]
        sample_retained_db_reachable)
  then show ?thesis
    unfolding sample_erased_db_def pg_reachable_def by (auto intro: rtranclp.rtrancl_into_rtrancl pg_step.mark_applied)
qed

lemma sample_retained_command: "\<exists>c. dict_get (td_commands sample_retained_db) ''c1'' = Some c \<and> pc_state c = ACCEPTED"
proof -
  have "map_option pc_state (dict_get (td_commands sample_retained_db) ''c1'') = Some ACCEPTED" by code_simp
  then show ?thesis by auto
qed

lemma sample_erased_row: "\<exists>row. dict_get (td_items sample_erased_db) ''m'' = Some row \<and> ir_state row = ERASED"
proof -
  have "map_option ir_state (dict_get (td_items sample_erased_db) ''m'') = Some ERASED" by code_simp
  then show ?thesis by auto
qed




section \<open>Claims of the outbox\<close>



section \<open>Properties\<close>

text \<open>
  C6. The outbox is transactional: in every reachable state each accepted or applied command has its
  event, and the event is unprocessed exactly as long as the command waits to be applied.
\<close>

theorem command_waits_with_its_event:
  assumes "pg_reachable db" and "dict_get (td_commands db) k = Some c"
  shows "pc_state c \<in> {ACCEPTED, APPLIED} \<and>
    (\<exists>e r. dict_get (td_outbox db) e = Some r \<and> ob_event_id r = e \<and> ob_event_type r = ''memory.command.accepted'' \<and>
       ob_aggregate_id r = k \<and> ob_tenant_id r = pc_tenant_id c \<and> (ob_processed_at r = None \<longleftrightarrow> pc_state c = ACCEPTED))"
proof -
  have inv: "ledger_inv db" using assms(1) by (rule pg_reachable_inv)
  have "has_event (td_outbox db) k" using ledger_invD(7) [OF inv, of k] assms(2) by simp
  then obtain e r where r: "dict_get (td_outbox db) e = Some r" "ob_event_type r = ''memory.command.accepted''" "ob_aggregate_id r = k"
    by (auto simp: has_event_def)
  have "ob_event_id r = e" using ledger_invD(3) [OF inv] r(1) by (simp add: keyed_def)
  moreover have "event_ok (td_commands db) r" using inv r(1) by (rule ledger_invD(6))
  moreover have "pc_state c \<in> {ACCEPTED, APPLIED}" using ledger_invD(5) [OF inv assms(2)] by (simp add: command_ok_def)
  ultimately show ?thesis using r assms(2) by (auto simp: event_ok_def)
qed

theorem command_waits_with_its_event_witness:
  "\<exists>e r. dict_get (td_outbox sample_retained_db) e = Some r \<and> ob_aggregate_id r = ''c1'' \<and> ob_processed_at r = None"
proof -
  obtain c where "dict_get (td_commands sample_retained_db) ''c1'' = Some c" "pc_state c = ACCEPTED"
    using sample_retained_command by blast
  with command_waits_with_its_event [OF sample_retained_db_reachable this(1)] show ?thesis by auto
qed

text \<open>
  C5. An erasure is permanent: once the row of an item is erased, no sequence of transactions (imports
  and redeliveries included) ever gives it content again, and no command keeps the content.
\<close>

theorem durable_erasure_is_permanent:
  assumes "pg_reachable db" and "dict_get (td_items db) m = Some row" and "ir_state row = ERASED" and "pg_step\<^sup>*\<^sup>* db db'"
  shows "\<exists>row'. dict_get (td_items db') m = Some row' \<and> ir_state row' = ERASED \<and> ir_item row' = None \<and>
    (\<forall>k c. dict_get (td_commands db') k = Some c \<longrightarrow> cr_result_memory_id c = Some m \<longrightarrow>
       pc_result_item c = None \<and> cr_payload c = JObject [])"
proof -
  have "kept UNIV db db'" using assms(4) pg_reachable_inv [OF assms(1)] by (rule pg_steps_kept)
  then have inv: "ledger_inv db'" and evolves: "evolves UNIV db db'" by (simp_all add: kept_def)
  obtain row' where row': "dict_get (td_items db') m = Some row'" "item_evolves UNIV row row'"
    using evolves assms(2) by (rule evolves_itemE)
  then have erased: "ir_state row' = ERASED" using assms(3) by (simp add: item_evolves_def)
  then have none: "ir_item row' = None" using ledger_invD(4) [OF inv row'(1)] by (simp add: item_ok_def)
  have "pc_result_item c = None \<and> cr_payload c = JObject []"
    if "dict_get (td_commands db') k = Some c" "cr_result_memory_id c = Some m" for k c
    using ledger_invD(5) [OF inv that(1)] that(2) row'(1) none by (auto simp: command_ok_def)
  with row'(1) erased none show ?thesis by blast
qed

theorem durable_erasure_is_permanent_witness:
  "\<exists>row. dict_get (td_items (snd (pg_accept_import (''c3'', ''e3'') 2 ''t'' ''alice'' ''alice'' sample_import sample_erased_db))) ''m'' =
     Some row \<and> ir_item row = None"
proof -
  obtain row where row: "dict_get (td_items sample_erased_db) ''m'' = Some row" "ir_state row = ERASED"
    using sample_erased_row by blast
  have "pg_step\<^sup>*\<^sup>* sample_erased_db (snd (pg_accept_import (''c3'', ''e3'') 2 ''t'' ''alice'' ''alice'' sample_import sample_erased_db))"
    by (intro r_into_rtranclp pg_step.client pg_client_step.import_item)
  from durable_erasure_is_permanent [OF sample_erased_db_reachable row this] show ?thesis by blast
qed



end
