(* ===== verification/DeliveryProperties.thy ===== *)
theory DeliveryProperties
  imports DeliveryInvariant DurableProperties
begin

text \<open>
  The properties of the worker over the durable store and the graph of a Tenant, and the worlds that
  their witnesses evaluate.
\<close>

section \<open>Sample worlds\<close>

text \<open>The events of Alice's command and of its erasure, and their deliveries.\<close>

definition sample_event :: "string \<Rightarrow> string \<Rightarrow> json option" where
  "sample_event event_id command_id = Some (JObject
     [(''aggregate_id'', JString command_id), (''aggregate_type'', JString ''private_memory_command''),
      (''event_id'', JString event_id), (''event_type'', JString ''memory.command.accepted''), (''tenant_id'', JString ''t''),
      (''version'', JInt 1)])"

definition sample_envelope :: "string \<Rightarrow> string \<Rightarrow> publication_envelope" where
  "sample_envelope event_id command_id = \<lparr>pn_event_id = event_id, pn_tenant_id = ''t'',
     pn_aggregate_type = ''private_memory_command'', pn_aggregate_id = command_id, pn_event_type = ''memory.command.accepted''\<rparr>"

lemma sample_event_decodes: "decode_envelope (sample_event e c) = Inr (sample_envelope e c)"
  by (simp add: sample_event_def sample_envelope_def decode_envelope_def decode_object_def COMMAND_EVENT_def APPROVED_EVENT_def
      expected_aggregate_def or_default_def)

definition sample_deliver :: "string \<Rightarrow> string \<Rightarrow> delivery_world \<Rightarrow> delivery_world" where
  "sample_deliver event_id command_id w = snd (deliver ''t'' ''u'' 1 (sample_event event_id command_id) (w\<lparr>dw_faults := []\<rparr>))"

definition sample_retained :: delivery_world where
  "sample_retained = (delivery_start ''t'')\<lparr>dw_db := sample_retained_db\<rparr>"

definition sample_erasing :: delivery_world where
  "sample_erasing = (delivery_start ''t'')\<lparr>dw_db := sample_erasing_db\<rparr>"

lemma delivery_reachable_start: "delivery_reachable T (delivery_start T)"
  by (simp add: delivery_reachable_def)

lemma delivery_reachable_client:
  assumes "delivery_reachable T (w\<lparr>dw_db := db\<rparr>)" and "pg_client_step db db'"
  shows "delivery_reachable T (w\<lparr>dw_db := db'\<rparr>)"
  using assms delivery_step.client [of "w\<lparr>dw_db := db\<rparr>" db' T] unfolding delivery_reachable_def
  by (auto intro: rtranclp.rtrancl_into_rtrancl)

lemma delivery_reachable_deliver:
  "delivery_reachable ''t'' w \<Longrightarrow> delivery_reachable ''t'' (sample_deliver e c w)"
  unfolding delivery_reachable_def sample_deliver_def by (auto intro: rtranclp.rtrancl_into_rtrancl delivery_step.deliver)

lemma sample_retained_reachable: "delivery_reachable ''t'' sample_retained"
proof -
  have "(delivery_start ''t'')\<lparr>dw_db := empty_tenant_database\<rparr> = delivery_start ''t''" by (simp add: delivery_start_def)
  then show ?thesis
    unfolding sample_retained_def sample_retained_db_def
    by (intro delivery_reachable_client [OF _ pg_client_step.retain]) (simp add: delivery_reachable_start)
qed

lemma sample_erasing_reachable: "delivery_reachable ''t'' sample_erasing"
  unfolding sample_erasing_def sample_erasing_db_def
  by (rule delivery_reachable_client [OF delivery_reachable_client [OF _ pg_client_step.request] pg_client_step.review_erasure])
    (use sample_retained_reachable in \<open>simp add: sample_retained_def\<close>)

text \<open>What the witnesses need of the worlds.\<close>

definition graph_items :: "delivery_world \<Rightarrow> (string \<times> memory_scope) list" where
  "graph_items w = (case dict_get (dw_graph w) ''t'' of None \<Rightarrow> [] | Some store \<Rightarrow> map (\<lambda>g. (mi_id g, mi_scope g)) (ms_items store))"

lemma graph_itemsE:
  assumes "(m, scope) \<in> set (graph_items w)"
  obtains store g where "dict_get (dw_graph w) ''t'' = Some store" "g \<in> set (ms_items store)" "mi_id g = m" "mi_scope g = scope"
  using assms by (cases "dict_get (dw_graph w) ''t''") (auto simp: graph_items_def intro: that)

lemma sample_delivered:
  "(''m'', PRIVATE) \<in> set (graph_items (sample_deliver ''e1'' ''c1'' sample_retained))"
  "(sample_event ''e1'' ''c1'', True) \<in> set (dw_log (sample_deliver ''e1'' ''c1'' sample_retained))"
  by code_simp+

definition command_facts :: "string \<Rightarrow> delivery_world \<Rightarrow> (mutation_state \<times> private_memory_command_type \<times> bool) option" where
  "command_facts k w = map_option (\<lambda>c. (pc_state c, pc_command_type c, pc_result_item c = None)) (dict_get (td_commands (dw_db w)) k)"

lemma sample_command_facts:
  "command_facts ''c1'' sample_retained = Some (ACCEPTED, RETAIN_COMMAND, False)"
  "command_facts ''c1'' (sample_deliver ''e2'' ''c2'' sample_erasing) = Some (ACCEPTED, RETAIN_COMMAND, True)"
  by code_simp+


section \<open>Properties\<close>

text \<open>
  C3. The graph follows the ledger: whatever the clients do, whichever calls of the worker fail and in
  whatever order and number the events are delivered, each private item of the graph has a row of the ledger
  that is not erased, has the same owner and holds the same content.
\<close>

theorem graph_follows_ledger:
  assumes "delivery_reachable T w" and "dict_get (dw_graph w) T = Some store"
    and "g \<in> set (ms_items store)" and "mi_scope g = PRIVATE"
  shows "\<exists>row x. dict_get (td_items (dw_db w)) (mi_id g) = Some row \<and> ir_state row \<noteq> ERASED \<and>
    mi_owner_principal_id g = Some (ir_owner_principal_id row) \<and> ir_item row = Some x \<and> mi_content x = mi_content g"
proof -
  have inv: "delivery_inv T w" using delivery_reachable_inv [OF assms(1)] by (simp add: worker_inv_def)
  then obtain row x where row: "dict_get (td_items (dw_db w)) (mi_id g) = Some row" "ir_item row = Some x"
    "mi_owner_principal_id g = Some (ir_owner_principal_id row)" "mi_content x = mi_content g"
    using assms(2-4) by (auto simp: delivery_inv_def graph_sound_def)
  have "ir_state row \<noteq> ERASED"
    using ledger_invD(4) [of "dw_db w", OF _ row(1)] inv row(2) by (auto simp: delivery_inv_def item_ok_def)
  with row show ?thesis by blast
qed

theorem graph_follows_ledger_witness:
  "\<exists>row x. dict_get (td_items (dw_db (sample_deliver ''e1'' ''c1'' sample_retained))) ''m'' = Some row \<and> ir_item row = Some x \<and>
     ir_state row \<noteq> ERASED"
proof -
  obtain store g where "dict_get (dw_graph (sample_deliver ''e1'' ''c1'' sample_retained)) ''t'' = Some store"
    "g \<in> set (ms_items store)" "mi_id g = ''m''" "mi_scope g = PRIVATE"
    using sample_delivered(1) by (rule graph_itemsE)
  with graph_follows_ledger [OF delivery_reachable_deliver [OF sample_retained_reachable] this(1,2,4)] show ?thesis by auto
qed

text \<open>
  C4. An acknowledged event is in effect: when the broker has dropped the event of a memory command, the command is
  applied and the graph shows it. The item that it accepted is there, unless its erasure was accepted since; the
  item that it erases is gone.
\<close>

theorem acknowledged_event_is_in_effect:
  assumes "delivery_reachable T w" and "(body, True) \<in> set (dw_log w)" and "decode_envelope body = Inr envelope"
    and "pn_event_type envelope = COMMAND_EVENT"
  shows "\<exists>c store. dict_get (td_commands (dw_db w)) (pn_aggregate_id envelope) = Some c \<and> pc_state c = APPLIED \<and>
    dict_get (dw_graph w) T = Some store \<and>
    (case cr_result_memory_id c of
       Some m \<Rightarrow> m \<in> mi_id ` set (ms_items store) \<or> erasure_accepted (dw_db w) m
     | None \<Rightarrow> (\<exists>m. pc_target_memory_id c = Some m \<and> m \<notin> mi_id ` {g \<in> set (ms_items store). mi_scope g = PRIVATE}))"
proof -
  have inv: "delivery_inv T w" and acked: "acked_ok T w" using delivery_reachable_inv [OF assms(1)] by (simp_all add: worker_inv_def)
  then obtain c where c: "dict_get (td_commands (dw_db w)) (pn_aggregate_id envelope) = Some c" "pc_state c = APPLIED" "pc_tenant_id c = T"
    using assms(2-4) unfolding acked_ok_def command_applied_def pg_get_memory_command_Some by fastforce
  obtain store where store: "dict_get (dw_graph w) T = Some store" "graph_sound (dw_db w) T store" "graph_complete (dw_db w) T store"
    using inv by (auto simp: delivery_inv_def)
  have ok: "command_ok (td_items (dw_db w)) c" by (rule ledger_invD(5) [OF _ c(1)]) (use inv in \<open>simp add: delivery_inv_def\<close>)
  show ?thesis
  proof (cases "cr_result_memory_id c")
    case None
    then obtain m row where "pc_target_memory_id c = Some m" "dict_get (td_items (dw_db w)) m = Some row" "ir_item row = None"
      using ok c(2) by (auto simp: command_ok_def)
    moreover from this have "m \<notin> mi_id ` {g \<in> set (ms_items store). mi_scope g = PRIVATE}"
      using store(2) by (auto simp: graph_sound_def)
    ultimately show ?thesis using c store None by auto
  next
    case (Some m)
    then show ?thesis using c store unfolding graph_complete_def by auto
  qed
qed


theorem acknowledged_event_is_in_effect_witness:
  "\<exists>c. dict_get (td_commands (dw_db (sample_deliver ''e1'' ''c1'' sample_retained))) ''c1'' = Some c \<and> pc_state c = APPLIED"
  using acknowledged_event_is_in_effect [OF delivery_reachable_deliver [OF sample_retained_reachable] sample_delivered(2)
      sample_event_decodes]
  by (auto simp: sample_envelope_def COMMAND_EVENT_def)



text \<open>
  C33. What the delivery of a stranded command comes to: when an item was erased before its retain,
  correction or import was applied, that command stays accepted for ever. No delivery of its event is ever
  acknowledged, so the broker keeps it until it is a dead letter, and a redrive only repeats this.
\<close>

theorem erasure_strands_a_waiting_command:
  assumes "delivery_reachable T w" and "dict_get (td_commands (dw_db w)) k = Some c" and "pc_state c = ACCEPTED"
    and "pc_command_type c \<noteq> ERASE_COMMAND" and "pc_result_item c = None" and "(delivery_step T)\<^sup>*\<^sup>* w w'"
  shows "(\<exists>c'. dict_get (td_commands (dw_db w')) k = Some c' \<and> pc_state c' = ACCEPTED \<and> pc_result_item c' = None) \<and>
    \<not> (\<exists>body envelope. (body, True) \<in> set (dw_log w') \<and> decode_envelope body = Inr envelope \<and>
       pn_event_type envelope = COMMAND_EVENT \<and> pn_aggregate_id envelope = k)"
proof -
  have start: "worker_inv T w \<and> scrubbed k (dw_db w)"
    using delivery_reachable_inv [OF assms(1)] assms(2-5) by (auto simp: scrubbed_def)
  from assms(6) start have last: "worker_inv T w' \<and> scrubbed k (dw_db w')"
    by (induction rule: rtranclp_induct) (auto intro: worker_step scrubbed_step)
  then obtain c' where c': "dict_get (td_commands (dw_db w')) k = Some c'" "pc_state c' = ACCEPTED" "pc_result_item c' = None"
    by (auto simp: scrubbed_def)
  moreover have "acked_ok T w'" using last by (simp add: worker_inv_def)
  ultimately show ?thesis
    unfolding acked_ok_def command_applied_def pg_get_memory_command_Some by fastforce
qed

theorem erasure_strands_a_waiting_command_witness:
  "\<exists>c'. dict_get (td_commands (dw_db (sample_deliver ''e1'' ''c1'' (sample_deliver ''e2'' ''c2'' sample_erasing)))) ''c1'' = Some c' \<and>
     pc_state c' = ACCEPTED"
proof -
  let ?w = "sample_deliver ''e2'' ''c2'' sample_erasing"
  obtain c where c: "dict_get (td_commands (dw_db ?w)) ''c1'' = Some c" "pc_state c = ACCEPTED"
    "pc_command_type c = RETAIN_COMMAND" "pc_result_item c = None"
    using sample_command_facts(2) by (auto simp: command_facts_def)
  have "(delivery_step ''t'')\<^sup>*\<^sup>* ?w (sample_deliver ''e1'' ''c1'' ?w)"
    unfolding sample_deliver_def [of "''e1''"] by (intro r_into_rtranclp delivery_step.deliver)
  from erasure_strands_a_waiting_command [OF delivery_reachable_deliver [OF sample_erasing_reachable] c(1,2) _ c(4) this] c(3)
  show ?thesis by auto
qed

end
