(* ===== verification/ControlTables.thy ===== *)
theory ControlTables
  imports DurableTables ControlStore
begin

text \<open>
  The schema of the durable Control Store (\<^verbatim>\<open>migrations/control/versions\<close>): the constraints that an
  inserted or updated row must satisfy. The tables are the dictionaries of \<open>control_store\<close>, keyed by
  primary key; Channel Bindings are keyed by their unique columns \<^verbatim>\<open>(channel, external_id)\<close>.
  The three dictionaries that exist only in memory (the two job indexes and the token lifetimes) are not used.

  A violation raises \<^verbatim>\<open>psycopg.IntegrityError\<close>. Statements run one at a time, \<^verbatim>\<open>ORDER BY\<close> on text compares
  characters, and the numbers of attempts stay below the bound of an \<^verbatim>\<open>integer\<close> column. Left out are the length of a digest, which
  SHA-256 fixes, and the shapes of JSON columns, which the encoding of a record fixes.
\<close>

section \<open>Columns\<close>

text \<open>\<^verbatim>\<open>length(btrim(x)) > 0\<close>, where \<^verbatim>\<open>btrim\<close> removes spaces only.\<close>

definition present :: "string \<Rightarrow> bool" where
  "present x \<longleftrightarrow> list_ex (\<lambda>c. c \<noteq> CHR '' '') x"

definition role_array :: "string set \<Rightarrow> string set \<Rightarrow> bool" where
  "role_array valid roles \<longleftrightarrow> roles \<noteq> {} \<and> roles \<subseteq> valid"

section \<open>Rows\<close>

definition operator_row_ok :: "operator_record \<Rightarrow> bool" where
  "operator_row_ok r \<longleftrightarrow> present (op_name r) \<and> op_roles r \<subseteq> VALID_OPERATOR_ROLES"

definition operator_token_row_ok :: "'v control_store \<Rightarrow> 'v operator_token \<Rightarrow> bool" where
  "operator_token_row_ok s r \<longleftrightarrow> dict_get (cs_operators s) (os_operator_id (tk_session r)) \<noteq> None \<and>
     role_array VALID_OPERATOR_ROLES (os_roles (tk_session r))"

definition admin_session_row_ok :: "'v control_store \<Rightarrow> 'v admin_session_record \<Rightarrow> bool" where
  "admin_session_row_ok s r \<longleftrightarrow> dict_get (cs_operators s) (os_operator_id (as_session r)) \<noteq> None \<and>
     (case os_token_id (as_session r) of None \<Rightarrow> True | Some token_id \<Rightarrow> dict_get (cs_operator_tokens s) token_id \<noteq> None) \<and>
     role_array VALID_OPERATOR_ROLES (os_roles (as_session r))"

definition audit_event_row_ok :: "'v control_store \<Rightarrow> operator_audit_event \<Rightarrow> bool" where
  "audit_event_row_ok s r \<longleftrightarrow> dict_get (cs_operators s) (ev_operator_id r) \<noteq> None \<and> present (ev_action r) \<and>
     present (ev_target_type r) \<and> present (ev_outcome r)"

definition tenant_row_ok :: "tenant_record \<Rightarrow> bool" where
  "tenant_row_ok r \<longleftrightarrow> present (tr_name r)"

definition principal_row_ok :: "principal_record \<Rightarrow> bool" where
  "principal_row_ok r \<longleftrightarrow> present (pr_name r)"

definition membership_row_ok :: "'v control_store \<Rightarrow> membership_record \<Rightarrow> bool" where
  "membership_row_ok s r \<longleftrightarrow> dict_get (cs_tenants s) (mb_tenant_id r) \<noteq> None \<and>
     dict_get (cs_principals s) (mb_principal_id r) \<noteq> None \<and> role_array VALID_ROLES (mb_roles r)"

definition delegation_row_ok :: "'v control_store \<Rightarrow> delegation_record \<Rightarrow> bool" where
  "delegation_row_ok s r \<longleftrightarrow> dict_get (cs_memberships s) (dg_tenant_id r, dg_agent_id r) \<noteq> None \<and>
     dict_get (cs_memberships s) (dg_tenant_id r, dg_subject_user_id r) \<noteq> None \<and> dg_agent_id r \<noteq> dg_subject_user_id r"

text \<open>\<^verbatim>\<open>REFERENCES control.delegations (delegation_id, tenant_id, agent_id, subject_user_id)\<close>\<close>

definition references_delegation :: "'v control_store \<Rightarrow> string \<Rightarrow> string \<Rightarrow> string \<Rightarrow> string \<Rightarrow> bool" where
  "references_delegation s delegation_id tenant_id agent_id subject_user_id \<longleftrightarrow>
     (case dict_get (cs_delegations s) delegation_id of
        None \<Rightarrow> False
      | Some d \<Rightarrow> dg_tenant_id d = tenant_id \<and> dg_agent_id d = agent_id \<and> dg_subject_user_id d = subject_user_id)"

definition channel_binding_row_ok :: "'v control_store \<Rightarrow> channel_binding_record \<Rightarrow> bool" where
  "channel_binding_row_ok s r \<longleftrightarrow> cb_channel r = ''telegram'' \<and> py_isdecimal (cb_external_id r) \<and>
     references_delegation s (cb_delegation_id r) (cb_tenant_id r) (cb_agent_id r) (cb_user_id r)"

definition route_row_ok :: "'v control_store \<Rightarrow> tenant_route_record \<Rightarrow> bool" where
  "route_row_ok s r \<longleftrightarrow> dict_get (cs_tenants s) (rt_tenant_id r) \<noteq> None \<and>
     \<not> list_ex (\<lambda>other. rt_tenant_id other \<noteq> rt_tenant_id r \<and>
         (rt_tenant_database_name other = rt_tenant_database_name r \<or>
          rt_tenant_database_role other = rt_tenant_database_role r)) (dict_values (cs_routes s))"

definition token_row_ok :: "'v control_store \<Rightarrow> 'v tenant_token \<Rightarrow> bool" where
  "token_row_ok s r \<longleftrightarrow>
     dict_get (cs_memberships s) (ts_tenant_id (tk_session r), ts_actor_id (tk_session r)) \<noteq> None \<and>
     role_array VALID_ROLES (ts_roles (tk_session r)) \<and>
     (case (ts_subject_user_id (tk_session r), ts_delegation_id (tk_session r)) of
        (None, None) \<Rightarrow> True
      | (Some subject, Some delegation_id) \<Rightarrow> ts_actor_kind (tk_session r) = AGENT \<and>
          references_delegation s delegation_id (ts_tenant_id (tk_session r)) (ts_actor_id (tk_session r)) subject
      | _ \<Rightarrow> False)"

text \<open>The partial unique index over the jobs that are not finished.\<close>

definition open_job_state :: "job_state \<Rightarrow> bool" where
  "open_job_state state \<longleftrightarrow> state \<in> {JOB_QUEUED, JOB_RUNNING, JOB_FAILED, JOB_CANCEL_REQUESTED, JOB_CANCELED,
     JOB_CLEANUP_REQUESTED}"

definition same_open_manifest :: "provisioning_job \<Rightarrow> provisioning_job \<Rightarrow> bool" where
  "same_open_manifest record job \<longleftrightarrow> jb_tenant_id job = jb_tenant_id record \<and>
     jb_manifest_fingerprint job = jb_manifest_fingerprint record \<and> open_job_state (jb_state job)"

definition job_row_ok :: "'v control_store \<Rightarrow> provisioning_job \<Rightarrow> bool" where
  "job_row_ok s r \<longleftrightarrow> dict_get (cs_operators s) (jb_requested_by r) \<noteq> None \<and> 0 \<le> jb_attempt r"

section \<open>Statements\<close>

text \<open>
  \<^verbatim>\<open>_write_once\<close>: an \<^verbatim>\<open>IntegrityError\<close> becomes a conflict with the given message. Where a
  statement is executed without this wrapper the driver's exception is raised.
\<close>

definition write_once :: "string \<Rightarrow> bool \<Rightarrow> 's \<Rightarrow> 's \<Rightarrow> (unit, 's) outcome" where
  "write_once conflict_message admitted s' s =
     (if admitted then (Inr (), s') else (Inl (ControlConflict conflict_message), s))"

definition checked :: "bool \<Rightarrow> ('a, 's) outcome \<Rightarrow> 's \<Rightarrow> ('a, 's) outcome" where
  "checked admitted m s = (if admitted then m else (Inl (AdapterError ''IntegrityError''), s))"

text \<open>\<^verbatim>\<open>COALESCE(revoked_at, %s)\<close> and \<^verbatim>\<open>GREATEST(COALESCE(last_used_at, %s), %s)\<close>\<close>

definition coalesce :: "'a option \<Rightarrow> 'a \<Rightarrow> 'a option" where
  "coalesce x y = (case x of None \<Rightarrow> Some y | Some v \<Rightarrow> Some v)"

definition latest :: "datetime option \<Rightarrow> datetime \<Rightarrow> datetime option" where
  "latest x t = (case x of None \<Rightarrow> Some t | Some u \<Rightarrow> Some (max u t))"

definition revoke_tokens :: "('v tenant_token \<Rightarrow> bool) \<Rightarrow> datetime \<Rightarrow> 'v control_store \<Rightarrow> 'v control_store" where
  "revoke_tokens P t s = s\<lparr>cs_tokens := update_where P (\<lambda>r. r\<lparr>tk_revoked_at := coalesce (tk_revoked_at r) t\<rparr>) (cs_tokens s)\<rparr>"

definition deactivate_delegations :: "(delegation_record \<Rightarrow> bool) \<Rightarrow> 'v control_store \<Rightarrow> 'v control_store" where
  "deactivate_delegations P s = s\<lparr>cs_delegations := update_where P (\<lambda>r. r\<lparr>dg_active := False\<rparr>) (cs_delegations s)\<rparr>"

definition deactivate_bindings :: "(channel_binding_record \<Rightarrow> bool) \<Rightarrow> 'v control_store \<Rightarrow> 'v control_store" where
  "deactivate_bindings P s = s\<lparr>cs_channel_bindings := update_where P (\<lambda>r. r\<lparr>cb_active := False\<rparr>) (cs_channel_bindings s)\<rparr>"

end
