(* ===== verification/DurableControl.thy ===== *)
theory DurableControl
  imports ControlTables
begin

text \<open>
  \<^verbatim>\<open>PostgresControlStore\<close> (\<^verbatim>\<open>stores/postgres_control.py\<close>): one definition \<open>sql_*\<close> per method. Every method is
  one transaction. A row that is read is decoded to the record that was encoded when it was written,
  except that the identifiers inside a session are taken from the columns (\<open>stored_*\<close>).
\<close>

section \<open>Operators\<close>

definition sql_add_operator :: "operator_record \<Rightarrow> 'v control_store \<Rightarrow> (unit, 'v control_store) outcome" where
  "sql_add_operator record s =
     write_once ''Operator already exists''
       (operator_row_ok record \<and> dict_get (cs_operators s) (op_operator_id record) = None)
       (s\<lparr>cs_operators := dict_set (op_operator_id record) record (cs_operators s)\<rparr>) s"

definition sql_get_operator :: "string \<Rightarrow> 'v control_store \<Rightarrow> operator_record option" where
  "sql_get_operator operator_id s = dict_get (cs_operators s) operator_id"

definition sql_list_operators :: "'v control_store \<Rightarrow> operator_record list" where
  "sql_list_operators s = sort_key op_operator_id (dict_values (cs_operators s))"

definition sql_update_operator ::
  "string \<Rightarrow> string \<Rightarrow> string set \<Rightarrow> bool \<Rightarrow> datetime \<Rightarrow> 'v control_store \<Rightarrow> (operator_record, 'v control_store) outcome" where
  "sql_update_operator operator_id name roles active changed_at s =
     (case dict_get (cs_operators s) operator_id of
        None \<Rightarrow> (Inl (ControlNotFound ''Operator not found''), s)
      | Some current \<Rightarrow>
          let updated = current\<lparr>op_name := name, op_roles := roles, op_active := active\<rparr>;
              s1 = s\<lparr>cs_operators := update_where (\<lambda>r. op_operator_id r = operator_id)
                     (\<lambda>r. r\<lparr>op_name := name, op_roles := roles, op_active := active\<rparr>) (cs_operators s)\<rparr>;
              s2 = (if op_roles current \<noteq> roles \<or> op_active current \<noteq> active
                    then s1\<lparr>cs_operator_tokens := update_where (\<lambda>r. os_operator_id (tk_session r) = operator_id)
                              (\<lambda>r. r\<lparr>tk_revoked_at := coalesce (tk_revoked_at r) changed_at\<rparr>) (cs_operator_tokens s1),
                            cs_admin_sessions := update_where (\<lambda>r. os_operator_id (as_session r) = operator_id)
                              (\<lambda>r. r\<lparr>as_revoked_at := coalesce (as_revoked_at r) changed_at\<rparr>) (cs_admin_sessions s1)\<rparr>
                    else s1)
          in checked (operator_row_ok updated) (Inr updated, s2) s)"

definition sql_count_active_operator_admins :: "'v control_store \<Rightarrow> nat" where
  "sql_count_active_operator_admins s =
     length (filter (\<lambda>r. op_active r \<and> ''operator_admin'' \<in> op_roles r) (dict_values (cs_operators s)))"

section \<open>Operator tokens\<close>

definition stored_operator_token :: "'v operator_token \<Rightarrow> 'v operator_token" where
  "stored_operator_token record =
     record\<lparr>tk_session := (tk_session record)\<lparr>os_token_id := Some (tk_token_id record), os_session_id := None\<rparr>\<rparr>"

definition sql_save_operator_token :: "'v operator_token \<Rightarrow> 'v control_store \<Rightarrow> (unit, 'v control_store) outcome" where
  "sql_save_operator_token record s =
     write_once ''Operator Access Token could not be saved''
       (operator_token_row_ok s record \<and> dict_get (cs_operator_tokens s) (tk_token_id record) = None)
       (s\<lparr>cs_operator_tokens := dict_set (tk_token_id record) (stored_operator_token record) (cs_operator_tokens s)\<rparr>) s"

definition sql_operator_active :: "'v control_store \<Rightarrow> string \<Rightarrow> bool" where
  "sql_operator_active s operator_id =
     (case dict_get (cs_operators s) operator_id of None \<Rightarrow> False | Some r \<Rightarrow> op_active r)"

definition sql_get_operator_token :: "string \<Rightarrow> 'v control_store \<Rightarrow> 'v operator_token option" where
  "sql_get_operator_token token_id s =
     (case dict_get (cs_operator_tokens s) token_id of
        None \<Rightarrow> None
      | Some r \<Rightarrow> if sql_operator_active s (os_operator_id (tk_session r)) then Some r else None)"

definition sql_revoke_operator_token :: "string \<Rightarrow> datetime \<Rightarrow> 'v control_store \<Rightarrow> bool \<times> 'v control_store" where
  "sql_revoke_operator_token token_id revoked_at s =
     (dict_get (cs_operator_tokens s) token_id \<noteq> None,
      s\<lparr>cs_operator_tokens := update_where (\<lambda>r. tk_token_id r = token_id)
        (\<lambda>r. r\<lparr>tk_revoked_at := coalesce (tk_revoked_at r) revoked_at\<rparr>) (cs_operator_tokens s)\<rparr>)"

definition sql_mark_operator_token_used :: "string \<Rightarrow> datetime \<Rightarrow> 'v control_store \<Rightarrow> 'v control_store" where
  "sql_mark_operator_token_used token_id used_at s =
     s\<lparr>cs_operator_tokens := update_where (\<lambda>r. tk_token_id r = token_id)
       (\<lambda>r. r\<lparr>tk_last_used_at := latest (tk_last_used_at r) used_at\<rparr>) (cs_operator_tokens s)\<rparr>"

definition sql_rotate_operator_token ::
  "string \<Rightarrow> 'v operator_token \<Rightarrow> datetime \<Rightarrow> datetime \<Rightarrow> 'v control_store \<Rightarrow> (bool, 'v control_store) outcome" where
  "sql_rotate_operator_token previous_token_id replacement previous_valid_until rotated_at s =
     (case dict_get (cs_operator_tokens s) previous_token_id of
        None \<Rightarrow> (Inr False, s)
      | Some previous \<Rightarrow>
          if tk_revoked_at previous \<noteq> None \<or> tk_expires_at previous \<le> rotated_at
             \<or> os_operator_id (tk_session previous) \<noteq> os_operator_id (tk_session replacement)
             \<or> \<not> sql_operator_active s (os_operator_id (tk_session replacement))
          then (Inr False, s)
          else if dict_get (cs_operator_tokens s) (tk_token_id replacement) \<noteq> None \<or> \<not> operator_token_row_ok s replacement
          then (Inl (ControlConflict ''Operator Access Token rotation conflicted''), s)
          else (Inr True, s\<lparr>cs_operator_tokens := dict_set (tk_token_id replacement) (stored_operator_token replacement)
                 (update_where (\<lambda>r. tk_token_id r = previous_token_id)
                    (\<lambda>r. r\<lparr>tk_expires_at := min (tk_expires_at r) previous_valid_until\<rparr>) (cs_operator_tokens s))\<rparr>))"

definition sql_list_operator_token_records :: "string \<Rightarrow> 'v control_store \<Rightarrow> 'v operator_token list" where
  "sql_list_operator_token_records operator_id s =
     sort_key (\<lambda>r. (tk_issued_at r, tk_token_id r))
       (filter (\<lambda>r. os_operator_id (tk_session r) = operator_id) (dict_values (cs_operator_tokens s)))"

section \<open>Admin Sessions and audit events\<close>

definition stored_admin_session :: "'v admin_session_record \<Rightarrow> 'v admin_session_record" where
  "stored_admin_session record = record\<lparr>as_session := (as_session record)\<lparr>os_session_id := Some (as_session_id record)\<rparr>\<rparr>"

definition sql_save_admin_session :: "'v admin_session_record \<Rightarrow> 'v control_store \<Rightarrow> (unit, 'v control_store) outcome" where
  "sql_save_admin_session record s =
     write_once ''Admin Session could not be saved''
       (admin_session_row_ok s record \<and> dict_get (cs_admin_sessions s) (as_session_id record) = None)
       (s\<lparr>cs_admin_sessions := dict_set (as_session_id record) (stored_admin_session record) (cs_admin_sessions s)\<rparr>) s"

definition sql_get_admin_session :: "string \<Rightarrow> 'v control_store \<Rightarrow> 'v admin_session_record option" where
  "sql_get_admin_session session_id s =
     (case dict_get (cs_admin_sessions s) session_id of
        None \<Rightarrow> None
      | Some r \<Rightarrow> if sql_operator_active s (os_operator_id (as_session r)) then Some r else None)"

definition sql_revoke_admin_session :: "string \<Rightarrow> datetime \<Rightarrow> 'v control_store \<Rightarrow> bool \<times> 'v control_store" where
  "sql_revoke_admin_session session_id revoked_at s =
     (dict_get (cs_admin_sessions s) session_id \<noteq> None,
      s\<lparr>cs_admin_sessions := update_where (\<lambda>r. as_session_id r = session_id)
        (\<lambda>r. r\<lparr>as_revoked_at := coalesce (as_revoked_at r) revoked_at\<rparr>) (cs_admin_sessions s)\<rparr>)"

definition sql_mark_admin_session_used ::
  "string \<Rightarrow> datetime \<Rightarrow> datetime \<Rightarrow> 'v control_store \<Rightarrow> 'v control_store" where
  "sql_mark_admin_session_used session_id used_at idle_expires_at s =
     s\<lparr>cs_admin_sessions := update_where (\<lambda>r. as_session_id r = session_id)
       (\<lambda>r. r\<lparr>as_last_used_at := latest (as_last_used_at r) used_at, as_idle_expires_at := idle_expires_at\<rparr>)
       (cs_admin_sessions s)\<rparr>"

text \<open>\<^verbatim>\<open>event.before_metadata or {}\<close>\<close>

definition stored_audit_event :: "operator_audit_event \<Rightarrow> operator_audit_event" where
  "stored_audit_event event =
     event\<lparr>ev_before_metadata := coalesce (ev_before_metadata event) [], ev_after_metadata := coalesce (ev_after_metadata event) []\<rparr>"

definition sql_save_operator_audit_event :: "operator_audit_event \<Rightarrow> 'v control_store \<Rightarrow> (unit, 'v control_store) outcome" where
  "sql_save_operator_audit_event event s =
     write_once ''Operator Audit Event could not be saved''
       (audit_event_row_ok s event \<and> dict_get (cs_operator_audit_events s) (ev_event_id event) = None)
       (s\<lparr>cs_operator_audit_events := dict_set (ev_event_id event) (stored_audit_event event) (cs_operator_audit_events s)\<rparr>) s"

definition sql_list_operator_audit_events :: "nat \<Rightarrow> 'v control_store \<Rightarrow> operator_audit_event list" where
  "sql_list_operator_audit_events limit s =
     take limit (sorted_desc (\<lambda>event. (ev_created_at event, ev_event_id event)) (dict_values (cs_operator_audit_events s)))"


section \<open>Tenants and Principals\<close>

definition sql_add_tenant :: "tenant_record \<Rightarrow> 'v control_store \<Rightarrow> (unit, 'v control_store) outcome" where
  "sql_add_tenant record s =
     write_once ''Tenant already exists'' (tenant_row_ok record \<and> dict_get (cs_tenants s) (tr_tenant_id record) = None)
       (s\<lparr>cs_tenants := dict_set (tr_tenant_id record) record (cs_tenants s)\<rparr>) s"

definition sql_get_tenant :: "string \<Rightarrow> 'v control_store \<Rightarrow> tenant_record option" where
  "sql_get_tenant tenant_id s = dict_get (cs_tenants s) tenant_id"

definition sql_list_tenants :: "'v control_store \<Rightarrow> tenant_record list" where
  "sql_list_tenants s = sort_key tr_tenant_id (dict_values (cs_tenants s))"

definition sql_add_principal :: "principal_record \<Rightarrow> 'v control_store \<Rightarrow> (unit, 'v control_store) outcome" where
  "sql_add_principal record s =
     write_once ''Principal already exists''
       (principal_row_ok record \<and> dict_get (cs_principals s) (pr_principal_id record) = None)
       (s\<lparr>cs_principals := dict_set (pr_principal_id record) record (cs_principals s)\<rparr>) s"

definition sql_get_principal :: "string \<Rightarrow> 'v control_store \<Rightarrow> principal_record option" where
  "sql_get_principal principal_id s = dict_get (cs_principals s) principal_id"

definition sql_list_principals :: "'v control_store \<Rightarrow> principal_record list" where
  "sql_list_principals s = sort_key pr_principal_id (dict_values (cs_principals s))"

text \<open>The statements after the update of the Principal itself, in the two methods that deactivate one.\<close>

definition cascade_principal :: "string \<Rightarrow> datetime \<Rightarrow> 'v control_store \<Rightarrow> 'v control_store" where
  "cascade_principal principal_id changed_at s =
     revoke_tokens (\<lambda>r. ts_actor_id (tk_session r) = principal_id \<or> ts_subject_user_id (tk_session r) = Some principal_id) changed_at
       (deactivate_bindings (\<lambda>r. cb_agent_id r = principal_id \<or> cb_user_id r = principal_id)
         (deactivate_delegations (\<lambda>r. dg_agent_id r = principal_id \<or> dg_subject_user_id r = principal_id)
           (s\<lparr>cs_memberships := update_where (\<lambda>r. mb_principal_id r = principal_id) (\<lambda>r. r\<lparr>mb_active := False\<rparr>)
              (cs_memberships s)\<rparr>)))"

definition sql_update_principal ::
  "string \<Rightarrow> string \<Rightarrow> bool \<Rightarrow> datetime \<Rightarrow> 'v control_store \<Rightarrow> (principal_record, 'v control_store) outcome" where
  "sql_update_principal principal_id name active changed_at s =
     (case dict_get (cs_principals s) principal_id of
        None \<Rightarrow> (Inl (ControlNotFound ''Principal not found''), s)
      | Some current \<Rightarrow>
          let updated = current\<lparr>pr_name := name, pr_active := active\<rparr>;
              s1 = s\<lparr>cs_principals := update_where (\<lambda>r. pr_principal_id r = principal_id)
                     (\<lambda>r. r\<lparr>pr_name := name, pr_active := active\<rparr>) (cs_principals s)\<rparr>
          in checked (principal_row_ok updated)
               (Inr updated, if \<not> active then cascade_principal principal_id changed_at s1 else s1) s)"

definition sql_disable_principal ::
  "string \<Rightarrow> datetime \<Rightarrow> 'v control_store \<Rightarrow> (principal_record, 'v control_store) outcome" where
  "sql_disable_principal principal_id disabled_at s =
     (case dict_get (cs_principals s) principal_id of
        None \<Rightarrow> (Inl (ControlNotFound ''Principal not found''), s)
      | Some current \<Rightarrow>
          (Inr (current\<lparr>pr_active := False\<rparr>),
           cascade_principal principal_id disabled_at
             (s\<lparr>cs_principals := update_where (\<lambda>r. pr_principal_id r = principal_id) (\<lambda>r. r\<lparr>pr_active := False\<rparr>)
                (cs_principals s)\<rparr>)))"

section \<open>Memberships\<close>

definition sql_save_membership :: "membership_record \<Rightarrow> 'v control_store \<Rightarrow> (unit, 'v control_store) outcome" where
  "sql_save_membership record s =
     write_once ''Tenant Membership could not be saved'' (membership_row_ok s record)
       (s\<lparr>cs_memberships := dict_set (mb_tenant_id record, mb_principal_id record) record (cs_memberships s)\<rparr>) s"

definition sql_get_membership :: "string \<Rightarrow> string \<Rightarrow> 'v control_store \<Rightarrow> membership_record option" where
  "sql_get_membership tenant_id principal_id s = dict_get (cs_memberships s) (tenant_id, principal_id)"

definition sql_list_memberships :: "string \<Rightarrow> 'v control_store \<Rightarrow> membership_record list" where
  "sql_list_memberships tenant_id s =
     sort_key mb_principal_id (filter (\<lambda>r. mb_tenant_id r = tenant_id) (dict_values (cs_memberships s)))"

definition at_membership :: "string \<Rightarrow> string \<Rightarrow> membership_record \<Rightarrow> bool" where
  "at_membership tenant_id principal_id r \<longleftrightarrow> mb_tenant_id r = tenant_id \<and> mb_principal_id r = principal_id"

definition sql_disable_membership ::
  "string \<Rightarrow> string \<Rightarrow> datetime \<Rightarrow> 'v control_store \<Rightarrow> (membership_record, 'v control_store) outcome" where
  "sql_disable_membership tenant_id principal_id disabled_at s =
     (case dict_get (cs_memberships s) (tenant_id, principal_id) of
        None \<Rightarrow> (Inl (ControlNotFound ''Tenant Membership not found''), s)
      | Some current \<Rightarrow>
          (Inr (current\<lparr>mb_active := False\<rparr>),
           revoke_tokens (\<lambda>r. ts_tenant_id (tk_session r) = tenant_id \<and>
               (ts_actor_id (tk_session r) = principal_id \<or> ts_subject_user_id (tk_session r) = Some principal_id)) disabled_at
             (deactivate_bindings (\<lambda>r. cb_tenant_id r = tenant_id \<and> (cb_agent_id r = principal_id \<or> cb_user_id r = principal_id))
               (deactivate_delegations
                 (\<lambda>r. dg_tenant_id r = tenant_id \<and> (dg_agent_id r = principal_id \<or> dg_subject_user_id r = principal_id))
                 (s\<lparr>cs_memberships := update_where (at_membership tenant_id principal_id) (\<lambda>r. r\<lparr>mb_active := False\<rparr>)
                    (cs_memberships s)\<rparr>)))))"

definition sql_update_membership ::
  "membership_record \<Rightarrow> datetime \<Rightarrow> 'v control_store \<Rightarrow> (membership_record, 'v control_store) outcome" where
  "sql_update_membership record changed_at s =
     (let tenant_id = mb_tenant_id record; principal_id = mb_principal_id record
      in case dict_get (cs_memberships s) (tenant_id, principal_id) of
           None \<Rightarrow> (Inl (ControlNotFound ''Tenant Membership not found''), s)
         | Some current \<Rightarrow>
             let s1 = (if \<not> mb_active record then snd (sql_disable_membership tenant_id principal_id changed_at s) else s);
                 s2 = s1\<lparr>cs_memberships := update_where (at_membership tenant_id principal_id)
                        (\<lambda>r. r\<lparr>mb_roles := mb_roles record, mb_active := mb_active record\<rparr>) (cs_memberships s1)\<rparr>;
                 s3 = (if mb_roles current \<noteq> mb_roles record \<or> mb_active current \<noteq> mb_active record
                       then revoke_tokens (\<lambda>r. ts_tenant_id (tk_session r) = tenant_id \<and> ts_actor_id (tk_session r) = principal_id)
                              changed_at s2
                       else s2)
             in checked (role_array VALID_ROLES (mb_roles record))
                  (Inr (current\<lparr>mb_roles := mb_roles record, mb_active := mb_active record\<rparr>), s3) s)"

definition sql_revoke_membership_role ::
  "string \<Rightarrow> string \<Rightarrow> string \<Rightarrow> datetime \<Rightarrow> 'v control_store \<Rightarrow> (membership_record, 'v control_store) outcome" where
  "sql_revoke_membership_role tenant_id principal_id role revoked_at s =
     (case dict_get (cs_memberships s) (tenant_id, principal_id) of
        None \<Rightarrow> (Inl (ControlNotFound ''Tenant Membership not found''), s)
      | Some current \<Rightarrow>
          if role \<notin> mb_roles current then (Inl (ControlNotFound ''Tenant Membership role not found''), s)
          else let remaining = mb_roles current - {role}
               in if remaining = {} then sql_disable_membership tenant_id principal_id revoked_at s
                  else (Inr (current\<lparr>mb_roles := remaining\<rparr>),
                    revoke_tokens (\<lambda>r. ts_tenant_id (tk_session r) = tenant_id \<and> ts_actor_id (tk_session r) = principal_id) revoked_at
                      (s\<lparr>cs_memberships := update_where (at_membership tenant_id principal_id) (\<lambda>r. r\<lparr>mb_roles := remaining\<rparr>)
                         (cs_memberships s)\<rparr>)))"

definition sql_list_active_human_member_ids :: "string \<Rightarrow> 'v control_store \<Rightarrow> string list" where
  "sql_list_active_human_member_ids tenant_id s =
     sort (map mb_principal_id (filter (\<lambda>m. mb_tenant_id m = tenant_id \<and> mb_active m \<and>
       (case dict_get (cs_principals s) (mb_principal_id m) of None \<Rightarrow> False | Some p \<Rightarrow> pr_active p \<and> pr_kind p = USER) \<and>
       (case dict_get (cs_tenants s) (mb_tenant_id m) of None \<Rightarrow> False | Some t \<Rightarrow> tr_active t)) (dict_values (cs_memberships s))))"


section \<open>Delegations and Channel Bindings\<close>

definition sql_save_delegation :: "delegation_record \<Rightarrow> 'v control_store \<Rightarrow> (unit, 'v control_store) outcome" where
  "sql_save_delegation record s =
     write_once ''Delegation already exists''
       (delegation_row_ok s record \<and> dict_get (cs_delegations s) (dg_delegation_id record) = None)
       (s\<lparr>cs_delegations := dict_set (dg_delegation_id record) record (cs_delegations s)\<rparr>) s"

definition sql_get_delegation :: "string \<Rightarrow> 'v control_store \<Rightarrow> delegation_record option" where
  "sql_get_delegation delegation_id s = dict_get (cs_delegations s) delegation_id"

definition sql_list_delegations :: "string \<Rightarrow> 'v control_store \<Rightarrow> delegation_record list" where
  "sql_list_delegations tenant_id s =
     sort_key dg_delegation_id (filter (\<lambda>r. dg_tenant_id r = tenant_id) (dict_values (cs_delegations s)))"

definition sql_revoke_delegation ::
  "string \<Rightarrow> datetime \<Rightarrow> 'v control_store \<Rightarrow> (delegation_record, 'v control_store) outcome" where
  "sql_revoke_delegation delegation_id revoked_at s =
     (case dict_get (cs_delegations s) delegation_id of
        None \<Rightarrow> (Inl (ControlNotFound ''Delegation not found''), s)
      | Some current \<Rightarrow>
          (Inr (current\<lparr>dg_active := False\<rparr>),
           revoke_tokens (\<lambda>r. ts_delegation_id (tk_session r) = Some delegation_id) revoked_at
             (deactivate_bindings (\<lambda>r. cb_delegation_id r = delegation_id)
               (deactivate_delegations (\<lambda>r. dg_delegation_id r = delegation_id) s))))"

definition sql_update_delegation_active ::
  "string \<Rightarrow> bool \<Rightarrow> datetime \<Rightarrow> 'v control_store \<Rightarrow> (delegation_record, 'v control_store) outcome" where
  "sql_update_delegation_active delegation_id active changed_at s =
     (if \<not> active then sql_revoke_delegation delegation_id changed_at s
      else case dict_get (cs_delegations s) delegation_id of
        None \<Rightarrow> (Inl (ControlNotFound ''Delegation not found''), s)
      | Some current \<Rightarrow>
          (Inr (current\<lparr>dg_active := True\<rparr>),
           s\<lparr>cs_delegations := update_where (\<lambda>r. dg_delegation_id r = delegation_id) (\<lambda>r. r\<lparr>dg_active := True\<rparr>)
              (cs_delegations s)\<rparr>))"

definition sql_save_channel_binding :: "channel_binding_record \<Rightarrow> 'v control_store \<Rightarrow> (unit, 'v control_store) outcome" where
  "sql_save_channel_binding record s =
     (let key = (cb_channel record, cb_external_id record)
      in write_once ''Channel Binding already exists''
           (channel_binding_row_ok s record \<and> dict_get (cs_channel_bindings s) key = None \<and>
            \<not> list_ex (\<lambda>r. cb_binding_id r = cb_binding_id record) (dict_values (cs_channel_bindings s)))
           (s\<lparr>cs_channel_bindings := dict_set key record (cs_channel_bindings s)\<rparr>) s)"

definition sql_get_channel_binding :: "string \<Rightarrow> string \<Rightarrow> 'v control_store \<Rightarrow> channel_binding_record option" where
  "sql_get_channel_binding channel external_id s = dict_get (cs_channel_bindings s) (channel, external_id)"

definition sql_update_channel_binding :: "channel_binding_record \<Rightarrow> 'v control_store \<Rightarrow> (unit, 'v control_store) outcome" where
  "sql_update_channel_binding record s =
     (case dict_get (cs_channel_bindings s) (cb_channel record, cb_external_id record) of
        None \<Rightarrow> (Inl (ControlNotFound ''Channel Binding not found''), s)
      | Some current \<Rightarrow>
          if cb_binding_id current \<noteq> cb_binding_id record
          then (Inl (ControlNotFound ''Channel Binding not found''), s)
          else write_once ''Channel Binding could not be updated'' (channel_binding_row_ok s record)
            (s\<lparr>cs_channel_bindings := dict_set (cb_channel record, cb_external_id record) record (cs_channel_bindings s)\<rparr>) s)"

definition sql_delete_channel_binding :: "string \<Rightarrow> string \<Rightarrow> 'v control_store \<Rightarrow> bool \<times> 'v control_store" where
  "sql_delete_channel_binding channel external_id s =
     (dict_get (cs_channel_bindings s) (channel, external_id) \<noteq> None,
      s\<lparr>cs_channel_bindings := dict_pop (channel, external_id) (cs_channel_bindings s)\<rparr>)"

section \<open>Routes\<close>

definition sql_save_tenant_route :: "tenant_route_record \<Rightarrow> 'v control_store \<Rightarrow> (unit, 'v control_store) outcome" where
  "sql_save_tenant_route record s =
     write_once ''Tenant route could not be saved'' (route_row_ok s record)
       (s\<lparr>cs_routes := dict_set (rt_tenant_id record) record (cs_routes s)\<rparr>) s"

definition sql_get_tenant_route :: "string \<Rightarrow> 'v control_store \<Rightarrow> tenant_route_record option" where
  "sql_get_tenant_route tenant_id s = dict_get (cs_routes s) tenant_id"

definition sql_list_tenant_routes :: "'v control_store \<Rightarrow> tenant_route_record list" where
  "sql_list_tenant_routes s = sort_key rt_tenant_id (dict_values (cs_routes s))"

section \<open>Access Tokens\<close>

definition stored_token :: "'v tenant_token \<Rightarrow> 'v tenant_token" where
  "stored_token record = record\<lparr>tk_session := (tk_session record)\<lparr>ts_token_id := Some (tk_token_id record)\<rparr>\<rparr>"

definition sql_save :: "'v tenant_token \<Rightarrow> 'v control_store \<Rightarrow> (unit, 'v control_store) outcome" where
  "sql_save record s =
     write_once ''Access Token could not be saved'' (token_row_ok s record \<and> dict_get (cs_tokens s) (tk_token_id record) = None)
       (s\<lparr>cs_tokens := dict_set (tk_token_id record) (stored_token record) (cs_tokens s)\<rparr>) s"

text \<open>The joins of \<^verbatim>\<open>get\<close>, and the first query of \<^verbatim>\<open>rotate\<close>.\<close>

definition sql_member_active :: "'v control_store \<Rightarrow> string \<Rightarrow> string \<Rightarrow> bool" where
  "sql_member_active s tenant_id principal_id \<longleftrightarrow>
     (case (dict_get (cs_tenants s) tenant_id, dict_get (cs_principals s) principal_id,
            dict_get (cs_memberships s) (tenant_id, principal_id)) of
        (Some t, Some p, Some m) \<Rightarrow> tr_active t \<and> pr_active p \<and> mb_active m
      | _ \<Rightarrow> False)"

definition sql_get :: "string \<Rightarrow> 'v control_store \<Rightarrow> 'v tenant_token option" where
  "sql_get token_id s =
     (case dict_get (cs_tokens s) token_id of
        None \<Rightarrow> None
      | Some r \<Rightarrow>
          if sql_member_active s (ts_tenant_id (tk_session r)) (ts_actor_id (tk_session r)) \<and>
             (case ts_delegation_id (tk_session r) of None \<Rightarrow> True
              | Some delegation_id \<Rightarrow> (case dict_get (cs_delegations s) delegation_id of None \<Rightarrow> False | Some d \<Rightarrow> dg_active d))
          then Some r else None)"

definition sql_revoke :: "string \<Rightarrow> datetime \<Rightarrow> 'v control_store \<Rightarrow> bool \<times> 'v control_store" where
  "sql_revoke token_id revoked_at s =
     (dict_get (cs_tokens s) token_id \<noteq> None, revoke_tokens (\<lambda>r. tk_token_id r = token_id) revoked_at s)"

definition sql_mark_used :: "string \<Rightarrow> datetime \<Rightarrow> 'v control_store \<Rightarrow> 'v control_store" where
  "sql_mark_used token_id used_at s =
     s\<lparr>cs_tokens := update_where (\<lambda>r. tk_token_id r = token_id) (\<lambda>r. r\<lparr>tk_last_used_at := latest (tk_last_used_at r) used_at\<rparr>)
       (cs_tokens s)\<rparr>"

definition sql_delegation_usable :: "'v control_store \<Rightarrow> tenant_session \<Rightarrow> bool" where
  "sql_delegation_usable s session \<longleftrightarrow>
     (case ts_delegation_id session of
        None \<Rightarrow> True
      | Some delegation_id \<Rightarrow>
          (case dict_get (cs_delegations s) delegation_id of
             None \<Rightarrow> False
           | Some d \<Rightarrow> dg_tenant_id d = ts_tenant_id session \<and> dg_agent_id d = ts_actor_id session \<and>
               Some (dg_subject_user_id d) = ts_subject_user_id session \<and> dg_active d \<and>
               (case dict_get (cs_principals s) (dg_subject_user_id d) of None \<Rightarrow> False | Some p \<Rightarrow> pr_active p) \<and>
               (case dict_get (cs_memberships s) (dg_tenant_id d, dg_subject_user_id d) of None \<Rightarrow> False | Some m \<Rightarrow> mb_active m)))"

definition same_holder :: "tenant_session \<Rightarrow> tenant_session \<Rightarrow> bool" where
  "same_holder a b \<longleftrightarrow> ts_tenant_id a = ts_tenant_id b \<and> ts_actor_id a = ts_actor_id b \<and>
     ts_subject_user_id a = ts_subject_user_id b \<and> ts_delegation_id a = ts_delegation_id b"

definition sql_rotate ::
  "string \<Rightarrow> 'v tenant_token \<Rightarrow> datetime \<Rightarrow> datetime \<Rightarrow> 'v control_store \<Rightarrow> (bool, 'v control_store) outcome" where
  "sql_rotate previous_token_id replacement previous_valid_until rotated_at s =
     (case dict_get (cs_tokens s) previous_token_id of
        None \<Rightarrow> (Inr False, s)
      | Some previous \<Rightarrow>
          if tk_revoked_at previous \<noteq> None \<or> tk_expires_at previous \<le> rotated_at
             \<or> \<not> same_holder (tk_session previous) (tk_session replacement)
             \<or> \<not> sql_member_active s (ts_tenant_id (tk_session replacement)) (ts_actor_id (tk_session replacement))
             \<or> \<not> sql_delegation_usable s (tk_session replacement)
          then (Inr False, s)
          else if dict_get (cs_tokens s) (tk_token_id replacement) \<noteq> None \<or> \<not> token_row_ok s replacement
          then (Inl (ControlConflict ''Access Token rotation conflicted''), s)
          else (Inr True, s\<lparr>cs_tokens := dict_set (tk_token_id replacement) (stored_token replacement)
                 (update_where (\<lambda>r. tk_token_id r = previous_token_id)
                    (\<lambda>r. r\<lparr>tk_expires_at := min (tk_expires_at r) previous_valid_until\<rparr>) (cs_tokens s))\<rparr>))"

definition sql_list_token_records :: "string \<Rightarrow> string \<Rightarrow> 'v control_store \<Rightarrow> 'v tenant_token list" where
  "sql_list_token_records tenant_id principal_id s =
     sort_key (\<lambda>r. (tk_issued_at r, tk_token_id r))
       (filter (\<lambda>r. ts_tenant_id (tk_session r) = tenant_id \<and> ts_actor_id (tk_session r) = principal_id)
         (dict_values (cs_tokens s)))"

definition sql_token_usage_signals :: "datetime \<Rightarrow> datetime \<Rightarrow> 'v control_store \<Rightarrow> nat \<times> nat" where
  "sql_token_usage_signals checked_at inactive_before s =
     (let live = filter (token_live checked_at) (dict_values (cs_tokens s))
      in (length (filter (\<lambda>r. tk_last_used_at r = None) live),
          length (filter (\<lambda>r. (case tk_last_used_at r of None \<Rightarrow> tk_issued_at r | Some used \<Rightarrow> used) < inactive_before) live)))"

end
