(* ===== verification/DurableJobs.thy ===== *)
theory DurableJobs
  imports DurableControl
begin

text \<open>
  The Provisioning Job queue and the token lifetimes of \<^verbatim>\<open>PostgresControlStore\<close>, which use two tables that
  the in-memory store does not have: the attempts of the jobs, and the policies of a provisioned Tenant.
\<close>

datatype attempt_state = ATTEMPT_RUNNING | ATTEMPT_SUCCEEDED | ATTEMPT_FAILED | ATTEMPT_CANCELED | ATTEMPT_CLEANED_UP

record job_attempt_row =
  ja_state :: attempt_state
  ja_started_at :: datetime
  ja_finished_at :: "datetime option"
  ja_failed_step :: "provisioning_step option"
  ja_failure_code :: "string option"

text \<open>\<open>cd_policies\<close>: whether the provisioning of a Tenant is \<^verbatim>\<open>active\<close>, and its policies.\<close>

record 'v control_database =
  cd_tables :: "'v control_store"
  cd_job_attempts :: "(string \<times> int, job_attempt_row) dict"
  cd_policies :: "(string, bool \<times> tenant_policies) dict"

section \<open>Jobs\<close>

definition requested_under :: "provisioning_job \<Rightarrow> provisioning_job \<Rightarrow> bool" where
  "requested_under record job \<longleftrightarrow> jb_requested_by job = jb_requested_by record \<and> jb_idempotency_key job = jb_idempotency_key record"

text \<open>
  \<^verbatim>\<open>ON CONFLICT (requested_by_operator_id, idempotency_key) DO NOTHING\<close>, which is decided after the check
  of the columns and before the foreign key; a violation of another constraint looks for the latest open job
  of the same manifest.
\<close>

definition sql_create_provisioning_job ::
  "provisioning_job \<Rightarrow> 'v control_store \<Rightarrow> (provisioning_job, 'v control_store) outcome" where
  "sql_create_provisioning_job record s =
     (case (if jb_attempt record < 0 then None else select_first (requested_under record) (cs_provisioning_jobs s)) of
        Some existing \<Rightarrow> (Inr existing, s)
      | None \<Rightarrow>
          if dict_get (cs_provisioning_jobs s) (jb_job_id record) \<noteq> None \<or> \<not> job_row_ok s record
             \<or> open_job_state (jb_state record) \<and> list_ex (same_open_manifest record) (dict_values (cs_provisioning_jobs s))
          then (case sorted_desc (\<lambda>job. (jb_created_at job, jb_job_id job))
                   (filter (same_open_manifest record) (dict_values (cs_provisioning_jobs s))) of
                  [] \<Rightarrow> (Inl (ControlConflict ''Provisioning Job could not be saved''), s)
                | existing # _ \<Rightarrow> (Inr existing, s))
          else (Inr record, set_job record (jb_job_id record) s))"

definition sql_get_provisioning_job :: "string \<Rightarrow> 'v control_store \<Rightarrow> provisioning_job option" where
  "sql_get_provisioning_job job_id s = dict_get (cs_provisioning_jobs s) job_id"

definition sql_list_provisioning_jobs :: "'v control_store \<Rightarrow> provisioning_job list" where
  "sql_list_provisioning_jobs s =
     sorted_desc (\<lambda>job. (jb_created_at job, jb_job_id job)) (dict_values (cs_provisioning_jobs s))"

definition with_job_state :: "job_state \<Rightarrow> datetime \<Rightarrow> provisioning_job \<Rightarrow> provisioning_job" where
  "with_job_state state changed_at job =
     (let queued = (state = JOB_QUEUED)
      in job\<lparr>jb_state := state, jb_updated_at := changed_at,
           jb_claimed_by := (if queued then None else jb_claimed_by job),
           jb_claimed_at := (if queued then None else jb_claimed_at job),
           jb_heartbeat_at := (if queued then None else jb_heartbeat_at job),
           jb_completed_steps := (if queued then [] else jb_completed_steps job),
           jb_failed_step := (if queued then None else jb_failed_step job),
           jb_failure_code := (if queued then None else jb_failure_code job),
           jb_cancel_requested_at := (if state = JOB_CANCEL_REQUESTED then coalesce (jb_cancel_requested_at job) changed_at
                                      else jb_cancel_requested_at job),
           jb_cleanup_requested_at := (if state = JOB_CLEANUP_REQUESTED then coalesce (jb_cleanup_requested_at job) changed_at
                                       else jb_cleanup_requested_at job),
           jb_cleanup_completed_at := (if state = JOB_CLEANED_UP then coalesce (jb_cleanup_completed_at job) changed_at
                                       else jb_cleanup_completed_at job)\<rparr>)"

definition sql_update_provisioning_job_state ::
  "string \<Rightarrow> job_state \<Rightarrow> datetime \<Rightarrow> 'v control_store \<Rightarrow> (provisioning_job, 'v control_store) outcome" where
  "sql_update_provisioning_job_state job_id state changed_at s =
     (case dict_get (cs_provisioning_jobs s) job_id of
        None \<Rightarrow> (Inl (ControlNotFound ''Provisioning Job not found''), s)
      | Some current \<Rightarrow>
          checked (\<not> (open_job_state state \<and>
              list_ex (\<lambda>job. jb_job_id job \<noteq> job_id \<and> same_open_manifest current job) (dict_values (cs_provisioning_jobs s))))
            (Inr (with_job_state state changed_at current),
             s\<lparr>cs_provisioning_jobs := update_where (\<lambda>job. jb_job_id job = job_id) (with_job_state state changed_at)
                (cs_provisioning_jobs s)\<rparr>) s)"

definition sql_claim_next_provisioning_job ::
  "string \<Rightarrow> datetime \<Rightarrow> 'v control_database \<Rightarrow> (provisioning_job option, 'v control_database) outcome" where
  "sql_claim_next_provisioning_job worker_id claimed_at db =
     (let s = cd_tables db
      in case select_ordered (\<lambda>job. jb_state job = JOB_QUEUED) (\<lambda>job. (jb_created_at job, jb_job_id job)) (cs_provisioning_jobs s) of
           [] \<Rightarrow> (Inr None, db)
         | candidate # _ \<Rightarrow>
             let claim = (\<lambda>job. job\<lparr>jb_state := JOB_RUNNING, jb_attempt := jb_attempt job + 1, jb_claimed_by := Some worker_id,
                   jb_claimed_at := Some claimed_at, jb_heartbeat_at := Some claimed_at, jb_updated_at := claimed_at\<rparr>);
                 job = claim candidate
             in checked (dict_get (cd_job_attempts db) (jb_job_id job, jb_attempt job) = None \<and> 0 < jb_attempt job)
                  (Inr (Some job),
                   db\<lparr>cd_tables := s\<lparr>cs_provisioning_jobs := update_where (\<lambda>j. jb_job_id j = jb_job_id candidate) claim
                         (cs_provisioning_jobs s)\<rparr>,
                      cd_job_attempts := dict_set (jb_job_id job, jb_attempt job)
                        \<lparr>ja_state = ATTEMPT_RUNNING, ja_started_at = claimed_at, ja_finished_at = None, ja_failed_step = None,
                         ja_failure_code = None\<rparr> (cd_job_attempts db)\<rparr>) db)"

text \<open>\<^verbatim>\<open>UPDATE ... WHERE job_id = %s AND claimed_by = %s AND state = 'running' RETURNING\<close>, then the row of the attempt.\<close>

definition finish_attempt ::
  "string \<Rightarrow> string \<Rightarrow> (provisioning_job \<Rightarrow> provisioning_job) \<Rightarrow> (job_attempt_row \<Rightarrow> job_attempt_row) \<Rightarrow>
   'v control_database \<Rightarrow> (provisioning_job, 'v control_database) outcome" where
  "finish_attempt job_id worker_id f g db =
     (let s = cd_tables db;
          running = (\<lambda>job. jb_job_id job = job_id \<and> jb_claimed_by job = Some worker_id \<and> jb_state job = JOB_RUNNING)
      in case dict_get (cs_provisioning_jobs s) job_id of
           None \<Rightarrow> (Inl (ControlConflict ''Provisioning Job is not claimed by this worker''), db)
         | Some current \<Rightarrow>
             if \<not> running current
             then (Inl (ControlConflict ''Provisioning Job is not claimed by this worker''), db)
             else (Inr (f current),
               db\<lparr>cd_tables := s\<lparr>cs_provisioning_jobs := update_where running f (cs_provisioning_jobs s)\<rparr>,
                  cd_job_attempts := dict_map_keyed (\<lambda>k row. if k = (job_id, jb_attempt current) then g row else row)
                    (cd_job_attempts db)\<rparr>))"

definition sql_complete_provisioning_job ::
  "string \<Rightarrow> string \<Rightarrow> provisioning_step list \<Rightarrow> datetime \<Rightarrow> 'v control_database \<Rightarrow>
   (provisioning_job, 'v control_database) outcome" where
  "sql_complete_provisioning_job job_id worker_id completed_steps completed_at =
     finish_attempt job_id worker_id
       (\<lambda>job. job\<lparr>jb_state := JOB_SUCCEEDED, jb_completed_steps := completed_steps, jb_failed_step := None,
          jb_failure_code := None, jb_updated_at := completed_at\<rparr>)
       (\<lambda>row. row\<lparr>ja_state := ATTEMPT_SUCCEEDED, ja_finished_at := Some completed_at, ja_failed_step := None,
          ja_failure_code := None\<rparr>)"

definition sql_fail_provisioning_job ::
  "string \<Rightarrow> string \<Rightarrow> provisioning_step option \<Rightarrow> string \<Rightarrow> datetime \<Rightarrow> 'v control_database \<Rightarrow>
   (provisioning_job, 'v control_database) outcome" where
  "sql_fail_provisioning_job job_id worker_id failed_step failure_code failed_at =
     finish_attempt job_id worker_id
       (\<lambda>job. job\<lparr>jb_state := JOB_FAILED, jb_failed_step := failed_step, jb_failure_code := Some failure_code,
          jb_updated_at := failed_at\<rparr>)
       (\<lambda>row. row\<lparr>ja_state := ATTEMPT_FAILED, ja_finished_at := Some failed_at, ja_failed_step := failed_step,
          ja_failure_code := Some failure_code\<rparr>)"

section \<open>Token lifetimes\<close>

definition lifetime_policy :: "principal_kind \<Rightarrow> bool \<Rightarrow> tenant_policies \<Rightarrow> int" where
  "lifetime_policy actor_kind delegated =
     (if actor_kind = USER then tp_user_token_lifetime_days
      else if delegated then tp_delegated_agent_token_lifetime_days
      else tp_autonomous_agent_token_lifetime_days)"

definition sql_token_lifetime_days ::
  "string \<Rightarrow> principal_kind \<Rightarrow> bool \<Rightarrow> 'v control_database \<Rightarrow> int option result" where
  "sql_token_lifetime_days tenant_id actor_kind delegated db =
     (case dict_get (cd_policies db) tenant_id of
        None \<Rightarrow> Inr None
      | Some (active, policies) \<Rightarrow>
          if \<not> active then Inr None
          else let lifetime = lifetime_policy actor_kind delegated policies
               in if lifetime < 1 then Inl (ValueError ''Control Store contains an invalid token lifetime policy'')
                  else Inr (Some lifetime))"

end
