(* ===== verification/DurableControlInvariant.thy ===== *)
theory DurableControlInvariant
  imports DurableJobs
begin

text \<open>
  The constraints that the tables of the durable Control Store satisfy in every state that its methods reach:
  primary keys, the references of Memberships, Delegations, tokens, sessions and Channel Bindings, one
  database per Tenant, one open job per manifest.
\<close>

section \<open>The constraints\<close>

definition table_ok :: "('r \<Rightarrow> 'k) \<Rightarrow> ('k, 'r) dict \<Rightarrow> bool" where
  "table_ok key t \<longleftrightarrow> dict_ok t \<and> (\<forall>k r. dict_get t k = Some r \<longrightarrow> key r = k)"

definition all_rows :: "('r \<Rightarrow> bool) \<Rightarrow> ('k, 'r) dict \<Rightarrow> bool" where
  "all_rows P t \<longleftrightarrow> (\<forall>k r. dict_get t k = Some r \<longrightarrow> P r)"

text \<open>No two rows are related.\<close>

definition unrelated :: "('r \<Rightarrow> 'r \<Rightarrow> bool) \<Rightarrow> ('k, 'r) dict \<Rightarrow> bool" where
  "unrelated R t \<longleftrightarrow> (\<forall>k r k' r'. dict_get t k = Some r \<longrightarrow> dict_get t k' = Some r' \<longrightarrow> k \<noteq> k' \<longrightarrow> \<not> R r r')"

definition same_database :: "tenant_route_record \<Rightarrow> tenant_route_record \<Rightarrow> bool" where
  "same_database r r' \<longleftrightarrow> rt_tenant_database_name r = rt_tenant_database_name r' \<or>
     rt_tenant_database_role r = rt_tenant_database_role r'"

definition competing_jobs :: "provisioning_job \<Rightarrow> provisioning_job \<Rightarrow> bool" where
  "competing_jobs j j' \<longleftrightarrow> requested_under j j' \<or> open_job_state (jb_state j) \<and> same_open_manifest j j'"

definition keys_ok :: "'v control_store \<Rightarrow> bool" where
  "keys_ok s \<longleftrightarrow> table_ok op_operator_id (cs_operators s) \<and> table_ok tk_token_id (cs_operator_tokens s) \<and>
     table_ok as_session_id (cs_admin_sessions s) \<and> table_ok tr_tenant_id (cs_tenants s) \<and>
     table_ok pr_principal_id (cs_principals s) \<and> table_ok (\<lambda>m. (mb_tenant_id m, mb_principal_id m)) (cs_memberships s) \<and>
     table_ok dg_delegation_id (cs_delegations s) \<and> table_ok (\<lambda>b. (cb_channel b, cb_external_id b)) (cs_channel_bindings s) \<and>
     table_ok rt_tenant_id (cs_routes s) \<and> table_ok tk_token_id (cs_tokens s) \<and> table_ok jb_job_id (cs_provisioning_jobs s)"

definition control_schema :: "'v control_store \<Rightarrow> bool" where
  "control_schema s \<longleftrightarrow> keys_ok s \<and>
     all_rows (membership_row_ok s) (cs_memberships s) \<and> all_rows (delegation_row_ok s) (cs_delegations s) \<and>
     all_rows (channel_binding_row_ok s) (cs_channel_bindings s) \<and> all_rows (token_row_ok s) (cs_tokens s) \<and>
     all_rows (operator_token_row_ok s) (cs_operator_tokens s) \<and> all_rows (admin_session_row_ok s) (cs_admin_sessions s) \<and>
     unrelated same_database (cs_routes s) \<and> unrelated competing_jobs (cs_provisioning_jobs s)"

lemma table_okD: "table_ok key t \<Longrightarrow> dict_get t k = Some r \<Longrightarrow> key r = k"
  by (simp add: table_ok_def)

lemma table_ok_set: "table_ok key t \<Longrightarrow> key r = k \<Longrightarrow> table_ok key (dict_set k r t)"
  by (auto simp: table_ok_def dict_get_set)

lemma dict_get_update [simp]:
  "dict_get (update_where P f t) k = map_option (\<lambda>r. if P r then f r else r) (dict_get t k)"
  by (simp add: update_where_def)

lemma dict_ok_update [simp]: "dict_ok (update_where P f t) = dict_ok t"
  by (simp add: update_where_def)

lemma table_ok_update: "table_ok key t \<Longrightarrow> (\<And>r. key (f r) = key r) \<Longrightarrow> table_ok key (update_where P f t)"
  by (auto simp: table_ok_def)

lemma table_ok_pop: "table_ok key t \<Longrightarrow> table_ok key (dict_pop k t)"
  by (auto simp: table_ok_def dict_get_pop split: if_splits)

section \<open>References\<close>

text \<open>Every row that another row may refer to is kept.\<close>

definition keeps_keys :: "('k, 'r) dict \<Rightarrow> ('k, 'r) dict \<Rightarrow> bool" where
  "keeps_keys t t' \<longleftrightarrow> (\<forall>k. dict_get t k \<noteq> None \<longrightarrow> dict_get t' k \<noteq> None)"

definition keeps_delegations :: "'v control_store \<Rightarrow> 'v control_store \<Rightarrow> bool" where
  "keeps_delegations s s' \<longleftrightarrow> (\<forall>k d. dict_get (cs_delegations s) k = Some d \<longrightarrow> (\<exists>d'. dict_get (cs_delegations s') k = Some d' \<and>
     dg_tenant_id d' = dg_tenant_id d \<and> dg_agent_id d' = dg_agent_id d \<and> dg_subject_user_id d' = dg_subject_user_id d))"

definition grows :: "'v control_store \<Rightarrow> 'v control_store \<Rightarrow> bool" where
  "grows s s' \<longleftrightarrow> keeps_keys (cs_tenants s) (cs_tenants s') \<and> keeps_keys (cs_principals s) (cs_principals s') \<and>
     keeps_keys (cs_memberships s) (cs_memberships s') \<and> keeps_keys (cs_operators s) (cs_operators s') \<and>
     keeps_keys (cs_operator_tokens s) (cs_operator_tokens s') \<and> keeps_delegations s s'"

lemma keeps_keys_simps [simp]: "keeps_keys t t" "keeps_keys t (dict_set k r t)" "keeps_keys t (update_where P f t)"
  by (auto simp: keeps_keys_def dict_get_set)

lemma keeps_keysD: "keeps_keys t t' \<Longrightarrow> dict_get t k = Some r \<Longrightarrow> \<exists>r'. dict_get t' k = Some r'"
  by (auto simp: keeps_keys_def)

lemma references_grows: "keeps_delegations s s' \<Longrightarrow> references_delegation s d t a u \<Longrightarrow> references_delegation s' d t a u"
  by (fastforce simp: keeps_delegations_def references_delegation_def split: option.splits)

lemma row_ok_grows:
  assumes "grows s s'"
  shows "membership_row_ok s m \<Longrightarrow> membership_row_ok s' m" and "delegation_row_ok s d \<Longrightarrow> delegation_row_ok s' d"
    and "channel_binding_row_ok s b \<Longrightarrow> channel_binding_row_ok s' b" and "token_row_ok s t \<Longrightarrow> token_row_ok s' t"
    and "operator_token_row_ok s ot \<Longrightarrow> operator_token_row_ok s' ot" and "admin_session_row_ok s a \<Longrightarrow> admin_session_row_ok s' a"
  using assms references_grows [of s s']
  by (auto simp: grows_def membership_row_ok_def delegation_row_ok_def channel_binding_row_ok_def token_row_ok_def
      operator_token_row_ok_def admin_session_row_ok_def dest: keeps_keysD split: option.splits)

lemma all_rows_set: "all_rows P t \<Longrightarrow> P r \<Longrightarrow> all_rows P (dict_set k r t)"
  by (auto simp: all_rows_def dict_get_set)

lemma all_rows_update: "all_rows P t \<Longrightarrow> (\<And>r. P r \<Longrightarrow> Q r \<Longrightarrow> P (f r)) \<Longrightarrow> all_rows P (update_where Q f t)"
  by (auto simp: all_rows_def)

lemma all_rows_mono: "all_rows P t \<Longrightarrow> (\<And>r. P r \<Longrightarrow> P' r) \<Longrightarrow> all_rows P' t"
  by (auto simp: all_rows_def)

lemma all_rows_pop: "all_rows P t \<Longrightarrow> all_rows P (dict_pop k t)"
  by (auto simp: all_rows_def dict_get_pop split: if_splits)

text \<open>
  The constraints of a state whose rows satisfy the constraints of the state before: the form in which
  every statement is checked.
\<close>

definition rows_admitted :: "'v control_store \<Rightarrow> 'v control_store \<Rightarrow> bool" where
  "rows_admitted s s' \<longleftrightarrow> keys_ok s' \<and> all_rows (membership_row_ok s) (cs_memberships s') \<and>
     all_rows (delegation_row_ok s) (cs_delegations s') \<and> all_rows (channel_binding_row_ok s) (cs_channel_bindings s') \<and>
     all_rows (token_row_ok s) (cs_tokens s') \<and> all_rows (operator_token_row_ok s) (cs_operator_tokens s') \<and>
     all_rows (admin_session_row_ok s) (cs_admin_sessions s') \<and>
     unrelated same_database (cs_routes s') \<and> unrelated competing_jobs (cs_provisioning_jobs s')"

lemma rows_admitted_refl: "control_schema s \<Longrightarrow> rows_admitted s s"
  by (simp add: control_schema_def rows_admitted_def)

lemma control_schemaI: "rows_admitted s s' \<Longrightarrow> grows s s' \<Longrightarrow> control_schema s'"
  unfolding control_schema_def rows_admitted_def by (auto intro: all_rows_mono row_ok_grows)


section \<open>Columns without constraints\<close>

lemma row_ok_columns [simp]:
  "token_row_ok s (r\<lparr>tk_revoked_at := x\<rparr>) = token_row_ok s r" "token_row_ok s (r\<lparr>tk_last_used_at := x\<rparr>) = token_row_ok s r"
  "token_row_ok s (r\<lparr>tk_expires_at := y\<rparr>) = token_row_ok s r" "token_row_ok s (stored_token r) = token_row_ok s r"
  "operator_token_row_ok s (ro\<lparr>tk_revoked_at := x\<rparr>) = operator_token_row_ok s ro"
  "operator_token_row_ok s (ro\<lparr>tk_last_used_at := x\<rparr>) = operator_token_row_ok s ro"
  "operator_token_row_ok s (ro\<lparr>tk_expires_at := y\<rparr>) = operator_token_row_ok s ro"
  "operator_token_row_ok s (stored_operator_token ro) = operator_token_row_ok s ro"
  "admin_session_row_ok s (a\<lparr>as_revoked_at := x\<rparr>) = admin_session_row_ok s a"
  "admin_session_row_ok s (a\<lparr>as_last_used_at := x, as_idle_expires_at := y\<rparr>) = admin_session_row_ok s a"
  "admin_session_row_ok s (stored_admin_session a) = admin_session_row_ok s a"
  "membership_row_ok s (m\<lparr>mb_active := b\<rparr>) = membership_row_ok s m"
  "delegation_row_ok s (d\<lparr>dg_active := b\<rparr>) = delegation_row_ok s d"
  "channel_binding_row_ok s (c\<lparr>cb_active := b\<rparr>) = channel_binding_row_ok s c"
  by (simp_all add: token_row_ok_def operator_token_row_ok_def admin_session_row_ok_def membership_row_ok_def delegation_row_ok_def
      channel_binding_row_ok_def stored_token_def stored_operator_token_def stored_admin_session_def cong: option.case_cong)

lemma membership_roles_ok:
  "membership_row_ok s m \<Longrightarrow> role_array VALID_ROLES roles \<Longrightarrow> membership_row_ok s (m\<lparr>mb_roles := roles\<rparr>)"
  "membership_row_ok s m \<Longrightarrow> role_array VALID_ROLES roles \<Longrightarrow> membership_row_ok s (m\<lparr>mb_roles := roles, mb_active := b\<rparr>)"
  by (simp_all add: membership_row_ok_def)

lemma stored_keys [simp]: "tk_token_id (stored_token r) = tk_token_id r" "tk_token_id (stored_operator_token ro) = tk_token_id ro"
  "as_session_id (stored_admin_session a) = as_session_id a"
  by (simp_all add: stored_token_def stored_operator_token_def stored_admin_session_def)

lemmas schema_intros =
  table_ok_set table_ok_update table_ok_pop all_rows_set all_rows_update all_rows_pop

lemmas schema_defs = rows_admitted_def keys_ok_def

text \<open>The statements that several methods share.\<close>

lemma admitted_revoke_tokens: "rows_admitted s s1 \<Longrightarrow> rows_admitted s (revoke_tokens P t s1)"
  by (auto simp: schema_defs revoke_tokens_def intro: schema_intros)

lemma admitted_deactivate:
  "rows_admitted s s1 \<Longrightarrow> rows_admitted s (deactivate_delegations P s1)" "rows_admitted s s1 \<Longrightarrow> rows_admitted s (deactivate_bindings Q s1)"
  by (auto simp: schema_defs deactivate_delegations_def deactivate_bindings_def intro: schema_intros)

lemma admitted_memberships:
  "rows_admitted s s1 \<Longrightarrow> (\<And>r. membership_row_ok s r \<Longrightarrow> P r \<Longrightarrow> membership_row_ok s (f r)) \<Longrightarrow>
   (\<And>r. mb_tenant_id (f r) = mb_tenant_id r \<and> mb_principal_id (f r) = mb_principal_id r) \<Longrightarrow>
   rows_admitted s (s1\<lparr>cs_memberships := update_where P f (cs_memberships s1)\<rparr>)"
  by (auto simp: schema_defs intro: schema_intros)

lemma grows_refl [simp]: "grows s s"
  by (auto simp: grows_def keeps_delegations_def)

lemma keeps_delegations_trans: "keeps_delegations s s1 \<Longrightarrow> keeps_delegations s1 s2 \<Longrightarrow> keeps_delegations s s2"
  unfolding keeps_delegations_def by metis

lemma grows_trans: "grows s s1 \<Longrightarrow> grows s1 s2 \<Longrightarrow> grows s s2"
  unfolding grows_def using keeps_delegations_trans by (auto simp: keeps_keys_def)

lemma grows_statements [simp]:
  "grows s (revoke_tokens P t s)" "grows s (deactivate_delegations Q s)" "grows s (deactivate_bindings B s)"
  "grows s (s\<lparr>cs_memberships := update_where M f (cs_memberships s)\<rparr>)" "grows s (s\<lparr>cs_principals := update_where N g (cs_principals s)\<rparr>)"
  by (auto simp: grows_def revoke_tokens_def deactivate_delegations_def deactivate_bindings_def keeps_delegations_def)

section \<open>Each method\<close>

lemma snd_write_once: "snd (write_once m admitted s' s) = (if admitted then s' else s)"
  by (simp add: write_once_def)

lemma snd_checked: "snd (checked admitted m s) = (if admitted then snd m else s)"
  by (simp add: checked_def)

lemmas method_simps = snd_write_once snd_checked Let_def

lemma unrelated_set:
  assumes "unrelated R t" and "\<And>k' r'. dict_get t k' = Some r' \<Longrightarrow> k' \<noteq> k \<Longrightarrow> \<not> R r r' \<and> \<not> R r' r"
  shows "unrelated R (dict_set k r t)"
  using assms by (auto simp: unrelated_def dict_get_set)

lemma unrelated_update:
  assumes t: "unrelated R t" and R: "\<And>r r'. R (if P r then f r else r) (if P r' then f r' else r') \<Longrightarrow> R r r'"
  shows "unrelated R (update_where P f t)"
  unfolding unrelated_def
proof (intro allI impI notI)
  fix k r k' r' assume "dict_get (update_where P f t) k = Some r" "dict_get (update_where P f t) k' = Some r'"
    and ne: "k \<noteq> k'" and rel: "R r r'"
  then obtain q q' where q: "dict_get t k = Some q" "dict_get t k' = Some q'" "r = (if P q then f q else q)"
    "r' = (if P q' then f q' else q')"
    by auto
  with R rel have "R q q'" by blast
  with t q(1,2) ne show False by (simp add: unrelated_def)
qed


lemma control_schemaD:
  assumes "control_schema s"
  shows "keys_ok s" and "all_rows (membership_row_ok s) (cs_memberships s)" and "all_rows (delegation_row_ok s) (cs_delegations s)"
    and "all_rows (channel_binding_row_ok s) (cs_channel_bindings s)" and "all_rows (token_row_ok s) (cs_tokens s)"
    and "unrelated same_database (cs_routes s)" and "unrelated competing_jobs (cs_provisioning_jobs s)"
  using assms by (simp_all add: control_schema_def)

inductive sql_table_step :: "'v control_store \<Rightarrow> 'v control_store \<Rightarrow> bool" where
  add_operator: "sql_table_step s (snd (sql_add_operator o' s))"
| update_operator: "sql_table_step s (snd (sql_update_operator i name roles active t s))"
| save_operator_token: "sql_table_step s (snd (sql_save_operator_token ot s))"
| revoke_operator_token: "sql_table_step s (snd (sql_revoke_operator_token i t s))"
| mark_operator_token_used: "sql_table_step s (sql_mark_operator_token_used i t s)"
| rotate_operator_token: "sql_table_step s (snd (sql_rotate_operator_token i ot v t s))"
| save_admin_session: "sql_table_step s (snd (sql_save_admin_session a s))"
| revoke_admin_session: "sql_table_step s (snd (sql_revoke_admin_session i t s))"
| mark_admin_session_used: "sql_table_step s (sql_mark_admin_session_used i t v s)"
| save_operator_audit_event: "sql_table_step s (snd (sql_save_operator_audit_event ev s))"
| add_tenant: "sql_table_step s (snd (sql_add_tenant tr s))"
| add_principal: "sql_table_step s (snd (sql_add_principal pr s))"
| update_principal: "sql_table_step s (snd (sql_update_principal i name active t s))"
| disable_principal: "sql_table_step s (snd (sql_disable_principal i t s))"
| save_membership: "sql_table_step s (snd (sql_save_membership m s))"
| update_membership: "sql_table_step s (snd (sql_update_membership m t s))"
| disable_membership: "sql_table_step s (snd (sql_disable_membership i p t s))"
| revoke_membership_role: "sql_table_step s (snd (sql_revoke_membership_role i p role t s))"
| save_delegation: "sql_table_step s (snd (sql_save_delegation d s))"
| revoke_delegation: "sql_table_step s (snd (sql_revoke_delegation i t s))"
| update_delegation_active: "sql_table_step s (snd (sql_update_delegation_active i active t s))"
| save_channel_binding: "sql_table_step s (snd (sql_save_channel_binding b s))"
| update_channel_binding: "sql_table_step s (snd (sql_update_channel_binding b s))"
| delete_channel_binding: "sql_table_step s (snd (sql_delete_channel_binding c e s))"
| save_tenant_route: "sql_table_step s (snd (sql_save_tenant_route r s))"
| save: "sql_table_step s (snd (sql_save tk s))"
| revoke: "sql_table_step s (snd (sql_revoke i t s))"
| mark_used: "sql_table_step s (sql_mark_used i t s)"
| rotate: "sql_table_step s (snd (sql_rotate i tk v t s))"
| create_provisioning_job: "sql_table_step s (snd (sql_create_provisioning_job j s))"
| update_provisioning_job_state: "sql_table_step s (snd (sql_update_provisioning_job_state i state t s))"

definition schema_kept :: "'v control_store \<Rightarrow> 'v control_store \<Rightarrow> bool" where
  "schema_kept s s' \<longleftrightarrow> rows_admitted s s' \<and> grows s s'"

lemma schema_kept_refl: "control_schema s \<Longrightarrow> schema_kept s s"
  by (simp add: schema_kept_def rows_admitted_refl)

lemma schema_keptI: "rows_admitted s s' \<Longrightarrow> grows s s' \<Longrightarrow> schema_kept s s'"
  by (simp add: schema_kept_def)

lemma kept_operator_methods:
  assumes "control_schema s"
  shows "schema_kept s (snd (sql_add_operator o' s))" and "schema_kept s (snd (sql_update_operator i name roles active t s))"
    and "schema_kept s (snd (sql_save_operator_token ot s))" and "schema_kept s (snd (sql_revoke_operator_token i t s))"
    and "schema_kept s (sql_mark_operator_token_used i t s)"
    and "schema_kept s (snd (sql_save_admin_session a s))" and "schema_kept s (snd (sql_revoke_admin_session i t s))"
    and "schema_kept s (sql_mark_admin_session_used i t v s)" and "schema_kept s (snd (sql_save_operator_audit_event ev s))"
  using rows_admitted_refl [OF assms]
  unfolding sql_add_operator_def sql_update_operator_def sql_save_operator_token_def sql_revoke_operator_token_def
    sql_mark_operator_token_used_def sql_save_admin_session_def sql_revoke_admin_session_def sql_mark_admin_session_used_def
    sql_save_operator_audit_event_def
  by (auto simp: method_simps schema_kept_def schema_defs grows_def keeps_delegations_def split: option.splits intro: schema_intros)

lemma kept_rotate_operator_token:
  assumes "control_schema s"
  shows "schema_kept s (snd (sql_rotate_operator_token i ot v t s))"
  using rows_admitted_refl [OF assms]
  by (auto simp: sql_rotate_operator_token_def schema_kept_def schema_defs grows_def keeps_delegations_def keeps_keys_def dict_get_set
      split: option.splits intro!: schema_intros)

lemma kept_insertions:
  assumes "control_schema s"
  shows "schema_kept s (snd (sql_add_tenant tr s))" and "schema_kept s (snd (sql_add_principal pr s))"
    and "schema_kept s (snd (sql_save_membership m s))" and "schema_kept s (snd (sql_save_delegation d s))"
    and "schema_kept s (snd (sql_save_channel_binding b s))" and "schema_kept s (snd (sql_update_channel_binding b s))"
    and "schema_kept s (snd (sql_delete_channel_binding c e s))" and "schema_kept s (snd (sql_save tk s))"
  using rows_admitted_refl [OF assms]
  unfolding sql_add_tenant_def sql_add_principal_def sql_save_membership_def sql_save_delegation_def sql_save_channel_binding_def
    sql_update_channel_binding_def sql_delete_channel_binding_def sql_save_def
  by (auto simp: method_simps schema_kept_def schema_defs grows_def keeps_delegations_def dict_get_set split: option.splits
      intro: schema_intros)


lemma grows_step: "grows s s1 \<Longrightarrow> grows s (revoke_tokens P t s1)" "grows s s1 \<Longrightarrow> grows s (deactivate_delegations Q s1)"
  "grows s s1 \<Longrightarrow> grows s (deactivate_bindings B s1)"
  "grows s s1 \<Longrightarrow> grows s (s1\<lparr>cs_memberships := update_where M f (cs_memberships s1)\<rparr>)"
  by (erule grows_trans, simp)+

text \<open>The statements of the methods that deactivate: each keeps what the state before admits.\<close>

lemma kept_statements:
  "schema_kept s s1 \<Longrightarrow> schema_kept s (revoke_tokens P t s1)" "schema_kept s s1 \<Longrightarrow> schema_kept s (deactivate_delegations Q s1)"
  "schema_kept s s1 \<Longrightarrow> schema_kept s (deactivate_bindings B s1)"
  "schema_kept s s1 \<Longrightarrow> schema_kept s (s1\<lparr>cs_memberships := update_where M (\<lambda>r. r\<lparr>mb_active := b\<rparr>) (cs_memberships s1)\<rparr>)"
  "schema_kept s s1 \<Longrightarrow> role_array VALID_ROLES roles \<Longrightarrow>
   schema_kept s (s1\<lparr>cs_memberships := update_where M (\<lambda>r. r\<lparr>mb_roles := roles\<rparr>) (cs_memberships s1)\<rparr>)"
  "schema_kept s s1 \<Longrightarrow> role_array VALID_ROLES roles \<Longrightarrow>
   schema_kept s (s1\<lparr>cs_memberships := update_where M (\<lambda>r. r\<lparr>mb_roles := roles, mb_active := b\<rparr>) (cs_memberships s1)\<rparr>)"
  unfolding schema_kept_def
  by (auto intro: admitted_revoke_tokens admitted_deactivate admitted_memberships grows_step membership_roles_ok)

lemma kept_principal_update:
  assumes "control_schema s" and "\<And>r. pr_principal_id (f r) = pr_principal_id r"
  shows "schema_kept s (s\<lparr>cs_principals := update_where P f (cs_principals s)\<rparr>)"
  using rows_admitted_refl [OF assms(1)] assms(2)
  by (auto simp: schema_kept_def schema_defs grows_def keeps_delegations_def intro: schema_intros)

lemma kept_cascade: "schema_kept s s1 \<Longrightarrow> schema_kept s (cascade_principal i t s1)"
  by (simp add: cascade_principal_def kept_statements)

lemma kept_principal_methods:
  assumes "control_schema s"
  shows "schema_kept s (snd (sql_update_principal i name active t s))" and "schema_kept s (snd (sql_disable_principal i t s))"
  using schema_kept_refl [OF assms] kept_principal_update [OF assms]
  by (auto simp: sql_update_principal_def sql_disable_principal_def method_simps split: option.splits intro: kept_cascade)

lemma kept_disable_membership:
  assumes "control_schema s"
  shows "schema_kept s (snd (sql_disable_membership i p t s))"
  using schema_kept_refl [OF assms] by (simp add: sql_disable_membership_def kept_statements split: option.split)

lemma kept_update_membership:
  assumes "control_schema s"
  shows "schema_kept s (snd (sql_update_membership m t s))"
  using schema_kept_refl [OF assms] kept_disable_membership [OF assms]
  by (simp add: sql_update_membership_def method_simps kept_statements split: option.split)

lemma kept_revoke_membership_role:
  assumes s: "control_schema s"
  shows "schema_kept s (snd (sql_revoke_membership_role i p role t s))"
proof (cases "dict_get (cs_memberships s) (i, p)")
  case None
  with schema_kept_refl [OF s] show ?thesis by (simp add: sql_revoke_membership_role_def)
next
  case (Some m)
  with control_schemaD(2) [OF s] have "role_array VALID_ROLES (mb_roles m)"
    by (simp add: all_rows_def membership_row_ok_def)
  then have "role_array VALID_ROLES (mb_roles m - {role})" if "mb_roles m - {role} \<noteq> {}"
    using that by (auto simp: role_array_def)
  with Some schema_kept_refl [OF s] kept_disable_membership [OF s] show ?thesis
    by (simp add: sql_revoke_membership_role_def Let_def kept_statements)
qed

lemma kept_delegation_methods:
  assumes s: "control_schema s"
  shows "schema_kept s (snd (sql_revoke_delegation d t s))" and "schema_kept s (snd (sql_update_delegation_active d active t s))"
proof -
  show r: "schema_kept s (snd (sql_revoke_delegation d t s))" for d t
    using schema_kept_refl [OF s] by (simp add: sql_revoke_delegation_def kept_statements split: option.split)
  have "schema_kept s (s\<lparr>cs_delegations := update_where P (\<lambda>r. r\<lparr>dg_active := True\<rparr>) (cs_delegations s)\<rparr>)" for P
    using rows_admitted_refl [OF s]
    by (auto simp: schema_kept_def schema_defs grows_def keeps_delegations_def intro: schema_intros)
  with r schema_kept_refl [OF s] show "schema_kept s (snd (sql_update_delegation_active d active t s))"
    by (simp add: sql_update_delegation_active_def split: option.split)
qed


text \<open>A statement that writes to one table.\<close>

lemma kept_table:
  "schema_kept s s1 \<Longrightarrow> table_ok rt_tenant_id r \<Longrightarrow> unrelated same_database r \<Longrightarrow> schema_kept s (s1\<lparr>cs_routes := r\<rparr>)"
  "schema_kept s s1 \<Longrightarrow> table_ok jb_job_id j \<Longrightarrow> unrelated competing_jobs j \<Longrightarrow> schema_kept s (s1\<lparr>cs_provisioning_jobs := j\<rparr>)"
  "schema_kept s s1 \<Longrightarrow> table_ok tk_token_id t \<Longrightarrow> all_rows (token_row_ok s) t \<Longrightarrow> schema_kept s (s1\<lparr>cs_tokens := t\<rparr>)"
  by (simp_all add: schema_kept_def schema_defs grows_def keeps_delegations_def)

lemma schema_keys:
  assumes "control_schema s"
  shows "table_ok rt_tenant_id (cs_routes s)" and "table_ok jb_job_id (cs_provisioning_jobs s)"
    and "table_ok tk_token_id (cs_tokens s)" and "table_ok dg_delegation_id (cs_delegations s)"
    and "table_ok pr_principal_id (cs_principals s)" and "table_ok (\<lambda>m. (mb_tenant_id m, mb_principal_id m)) (cs_memberships s)"
    and "table_ok (\<lambda>b. (cb_channel b, cb_external_id b)) (cs_channel_bindings s)"
  using control_schemaD(1) [OF assms] by (simp_all add: keys_ok_def)

lemma kept_save_tenant_route:
  assumes s: "control_schema s"
  shows "schema_kept s (snd (sql_save_tenant_route r s))"
proof (cases "route_row_ok s r")
  case False
  with schema_kept_refl [OF s] show ?thesis by (simp add: sql_save_tenant_route_def method_simps)
next
  case True
  have "unrelated same_database (dict_set (rt_tenant_id r) r (cs_routes s))"
  proof (rule unrelated_set [OF control_schemaD(6) [OF s]])
    fix k' r' assume r': "dict_get (cs_routes s) k' = Some r'" "k' \<noteq> rt_tenant_id r"
    from dict_values_memI [OF r'(1)] True table_okD [OF schema_keys(1) [OF s] r'(1)] r'(2)
    show "\<not> same_database r r' \<and> \<not> same_database r' r"
      by (auto simp: route_row_ok_def same_database_def list_ex_iff)
  qed
  with True kept_table(1) [OF schema_kept_refl [OF s] table_ok_set [OF schema_keys(1) [OF s] refl]] show ?thesis
    by (simp add: sql_save_tenant_route_def method_simps)
qed

lemma kept_token_methods:
  assumes s: "control_schema s"
  shows "schema_kept s (snd (sql_revoke i t s))" and "schema_kept s (sql_mark_used i t s)"
    and "schema_kept s (snd (sql_rotate i tk v t s))"
  using schema_kept_refl [OF s] schema_keys(3) [OF s] control_schemaD(5) [OF s]
  by (auto simp: sql_revoke_def sql_mark_used_def sql_rotate_def kept_statements split: option.split
      intro!: kept_table(3) schema_intros)

text \<open>Two jobs compete when they have the same idempotency key of one requester, or the same manifest while the first is open.\<close>

lemma kept_create_provisioning_job:
  assumes s: "control_schema s"
  shows "schema_kept s (snd (sql_create_provisioning_job j s))"
proof (cases "snd (sql_create_provisioning_job j s) = s")
  case True
  with schema_kept_refl [OF s] show ?thesis by simp
next
  case False
  then have none: "select_first (requested_under j) (cs_provisioning_jobs s) = None"
    and free: "\<not> (open_job_state (jb_state j) \<and> list_ex (same_open_manifest j) (dict_values (cs_provisioning_jobs s)))"
    and s': "snd (sql_create_provisioning_job j s) = set_job j (jb_job_id j) s"
    by (auto simp: sql_create_provisioning_job_def job_row_ok_def split: option.splits list.splits if_splits)
  have "unrelated competing_jobs (dict_set (jb_job_id j) j (cs_provisioning_jobs s))"
  proof (rule unrelated_set [OF control_schemaD(7) [OF s]])
    fix k' r' assume r': "dict_get (cs_provisioning_jobs s) k' = Some r'"
    from dict_values_memI [OF r'] none free show "\<not> competing_jobs j r' \<and> \<not> competing_jobs r' j"
      by (auto simp: competing_jobs_def select_first_def find_None_iff requested_under_def same_open_manifest_def list_ex_iff)
  qed
  with kept_table(2) [OF schema_kept_refl [OF s] table_ok_set [OF schema_keys(2) [OF s] refl]] s' show ?thesis
    by (simp add: set_job_def)
qed


definition same_request :: "provisioning_job \<Rightarrow> provisioning_job \<Rightarrow> bool" where
  "same_request j j' \<longleftrightarrow> jb_job_id j' = jb_job_id j \<and> jb_tenant_id j' = jb_tenant_id j \<and>
     jb_manifest_fingerprint j' = jb_manifest_fingerprint j \<and> jb_requested_by j' = jb_requested_by j \<and>
     jb_idempotency_key j' = jb_idempotency_key j"

lemma same_request_refl [simp]: "same_request j j"
  by (simp add: same_request_def)

lemma competing_jobs_mono:
  "competing_jobs q q' \<Longrightarrow> same_request r q \<Longrightarrow> same_request r' q' \<Longrightarrow> (open_job_state (jb_state q) \<Longrightarrow> open_job_state (jb_state r)) \<Longrightarrow>
   (open_job_state (jb_state q') \<Longrightarrow> open_job_state (jb_state r')) \<Longrightarrow> competing_jobs r r'"
  by (auto simp: competing_jobs_def requested_under_def same_open_manifest_def same_request_def)

text \<open>An update of jobs that does not open one.\<close>

lemma unrelated_jobs_update:
  assumes t: "unrelated competing_jobs t" and f: "\<And>j. P j \<Longrightarrow> same_request j (f j)"
    and closed: "\<And>j. P j \<Longrightarrow> open_job_state (jb_state (f j)) \<Longrightarrow> open_job_state (jb_state j)"
  shows "unrelated competing_jobs (update_where P f t)"
proof (rule unrelated_update [OF t])
  fix r r' assume c: "competing_jobs (if P r then f r else r) (if P r' then f r' else r')"
  show "competing_jobs r r'"
    by (rule competing_jobs_mono [OF c]) (auto simp: f split: if_splits dest: closed)
qed

text \<open>An update of one job, which may open it when no other job of the manifest is open.\<close>

lemma unrelated_job_update:
  assumes t: "unrelated competing_jobs t" and key: "table_ok jb_job_id t" and f: "\<And>j. same_request j (f j)"
    and free: "\<And>k j r. dict_get t k = Some j \<Longrightarrow> dict_get t i = Some r \<Longrightarrow> k \<noteq> i \<Longrightarrow> open_job_state (jb_state (f r)) \<Longrightarrow> \<not> same_open_manifest r j"
  shows "unrelated competing_jobs (update_where (\<lambda>j. jb_job_id j = i) f t)"
  unfolding unrelated_def
proof (intro allI impI notI)
  fix k r k' r' assume "dict_get (update_where (\<lambda>j. jb_job_id j = i) f t) k = Some r"
    "dict_get (update_where (\<lambda>j. jb_job_id j = i) f t) k' = Some r'" and ne: "k \<noteq> k'" and c: "competing_jobs r r'"
  then obtain q q' where q: "dict_get t k = Some q" "dict_get t k' = Some q'" "r = (if k = i then f q else q)"
    "r' = (if k' = i then f q' else q')"
    using key by (auto simp: table_ok_def)
  have nc: "\<not> competing_jobs q q'" "\<not> competing_jobs q' q"
    using t q(1,2) ne by (auto simp: unrelated_def)
  then have "\<not> requested_under q q'" "\<not> requested_under q' q" by (simp_all add: competing_jobs_def)
  with c ne q f have both: "open_job_state (jb_state r) \<and> same_open_manifest r r'"
    by (auto simp: competing_jobs_def requested_under_def same_request_def split: if_splits)
  show False
  proof (cases "k = i \<or> k' = i")
    case False
    with both nc(1) q(3,4) show False by (simp add: competing_jobs_def)
  next
    case True
    from free [of k q q'] free [of k' q' q] f [of q] f [of q'] True both ne q show False
      by (auto simp: same_open_manifest_def same_request_def split: if_splits)
  qed
qed

lemma same_request_state [simp]: "same_request j (with_job_state state t j)"
  by (simp add: same_request_def with_job_state_def Let_def)

lemma jb_state_with [simp]: "jb_state (with_job_state state t j) = state"
  by (simp add: with_job_state_def Let_def)

lemma same_request_key: "(\<And>j. same_request j (f j)) \<Longrightarrow> jb_job_id (f j) = jb_job_id j"
  by (simp add: same_request_def)

lemma kept_update_provisioning_job_state:
  assumes s: "control_schema s"
  shows "schema_kept s (snd (sql_update_provisioning_job_state i state t s))"
proof (cases "snd (sql_update_provisioning_job_state i state t s) = s")
  case True
  with schema_kept_refl [OF s] show ?thesis by simp
next
  case False
  let ?jobs = "cs_provisioning_jobs s"
  from False obtain current where current: "dict_get ?jobs i = Some current"
    and s': "snd (sql_update_provisioning_job_state i state t s) =
      s\<lparr>cs_provisioning_jobs := update_where (\<lambda>job. jb_job_id job = i) (with_job_state state t) ?jobs\<rparr>"
    and free: "open_job_state state \<Longrightarrow> j \<in> set (dict_values ?jobs) \<Longrightarrow> jb_job_id j \<noteq> i \<Longrightarrow> \<not> same_open_manifest current j" for j
    by (auto simp: sql_update_provisioning_job_state_def method_simps list_ex_iff split: option.splits if_splits)
  have "unrelated competing_jobs (update_where (\<lambda>j. jb_job_id j = i) (with_job_state state t) ?jobs)"
    by (rule unrelated_job_update [OF control_schemaD(7) [OF s] schema_keys(2) [OF s] same_request_state])
      (use current free table_okD [OF schema_keys(2) [OF s]] in \<open>auto dest: dict_values_memI\<close>)
  moreover have "table_ok jb_job_id (update_where (\<lambda>j. jb_job_id j = i) (with_job_state state t) ?jobs)"
    by (rule table_ok_update [OF schema_keys(2) [OF s]]) (rule same_request_key, rule same_request_state)
  ultimately show ?thesis
    unfolding s' by (intro kept_table(2) schema_kept_refl [OF s])
qed

section \<open>Reachable states\<close>

lemma table_step_schema:
  assumes "sql_table_step s s'" and "control_schema s"
  shows "control_schema s'"
proof -
  from assms have "schema_kept s s'"
    by (induction rule: sql_table_step.induct)
      (simp_all only: kept_operator_methods kept_rotate_operator_token kept_insertions kept_principal_methods kept_disable_membership
        kept_update_membership kept_revoke_membership_role kept_delegation_methods kept_save_tenant_route kept_token_methods
        kept_create_provisioning_job kept_update_provisioning_job_state)
  then show ?thesis unfolding schema_kept_def by (elim conjE) (rule control_schemaI)
qed

text \<open>
  The steps of the whole database: a method on the tables, the three methods of the job queue, and the
  writes of the provisioning adapter to the policies, which this class only reads.
\<close>

inductive sql_step :: "'v control_database \<Rightarrow> 'v control_database \<Rightarrow> bool" where
  table: "sql_table_step (cd_tables db) s' \<Longrightarrow> sql_step db (db\<lparr>cd_tables := s'\<rparr>)"
| claim: "sql_step db (snd (sql_claim_next_provisioning_job worker_id t db))"
| complete: "sql_step db (snd (sql_complete_provisioning_job job_id worker_id steps t db))"
| fail: "sql_step db (snd (sql_fail_provisioning_job job_id worker_id step code t db))"
| policies: "sql_step db (db\<lparr>cd_policies := p\<rparr>)"

definition empty_control_database :: "'v control_database" where
  "empty_control_database = \<lparr>cd_tables = empty_control_store, cd_job_attempts = [], cd_policies = []\<rparr>"

inductive sql_reachable :: "'v control_database \<Rightarrow> bool" where
  start: "sql_reachable empty_control_database"
| step: "sql_reachable db \<Longrightarrow> sql_step db db' \<Longrightarrow> sql_reachable db'"

lemma kept_jobs_update:
  assumes s: "control_schema s" and f: "\<And>j. same_request j (f j)"
    and closed: "\<And>j. P j \<Longrightarrow> open_job_state (jb_state (f j)) \<Longrightarrow> open_job_state (jb_state j)"
  shows "control_schema (s\<lparr>cs_provisioning_jobs := update_where P f (cs_provisioning_jobs s)\<rparr>)"
proof -
  have "schema_kept s (s\<lparr>cs_provisioning_jobs := update_where P f (cs_provisioning_jobs s)\<rparr>)"
    using unrelated_jobs_update [of "cs_provisioning_jobs s" P f, OF control_schemaD(7) [OF s] f closed]
    by (intro kept_table(2) schema_kept_refl [OF s] table_ok_update [OF schema_keys(2) [OF s]] same_request_key [of f] f)
  then show ?thesis unfolding schema_kept_def by (elim conjE) (rule control_schemaI)
qed

lemma finish_attempt_schema:
  assumes s: "control_schema (cd_tables db)" and f: "\<And>j. same_request j (f j)"
  shows "control_schema (cd_tables (snd (finish_attempt i w f g db)))"
proof -
  let ?running = "\<lambda>job. jb_job_id job = i \<and> jb_claimed_by job = Some w \<and> jb_state job = JOB_RUNNING"
  have "control_schema (cd_tables db\<lparr>cs_provisioning_jobs := update_where ?running f (cs_provisioning_jobs (cd_tables db))\<rparr>)"
    by (rule kept_jobs_update [OF s f]) (simp add: open_job_state_def)
  with s show ?thesis by (simp add: finish_attempt_def Let_def split: option.split)
qed

lemma claim_schema:
  assumes s: "control_schema (cd_tables db)"
  shows "control_schema (cd_tables (snd (sql_claim_next_provisioning_job w t db)))"
proof (cases "select_ordered (\<lambda>job. jb_state job = JOB_QUEUED) (\<lambda>job. (jb_created_at job, jb_job_id job)) (cs_provisioning_jobs (cd_tables db))")
  case Nil
  with s show ?thesis by (simp add: sql_claim_next_provisioning_job_def Let_def)
next
  case (Cons candidate rest)
  let ?jobs = "cs_provisioning_jobs (cd_tables db)"
  have "candidate \<in> set (select_ordered (\<lambda>job. jb_state job = JOB_QUEUED) (\<lambda>job. (jb_created_at job, jb_job_id job)) ?jobs)"
    by (simp add: Cons)
  then obtain k where k: "dict_get ?jobs k = Some candidate" "jb_state candidate = JOB_QUEUED"
    using schema_keys(2) [OF s] by (auto simp: select_ordered_def dict_values_mem table_ok_def)
  let ?P = "\<lambda>j. jb_job_id j = jb_job_id candidate"
  let ?f = "\<lambda>job. job\<lparr>jb_state := JOB_RUNNING, jb_attempt := jb_attempt job + 1, jb_claimed_by := Some w,
                   jb_claimed_at := Some t, jb_heartbeat_at := Some t, jb_updated_at := t\<rparr>"
  have same: "same_request j (?f j)" for j by (simp add: same_request_def)
  have key: "jb_job_id candidate = k" using table_okD [OF schema_keys(2) [OF s] k(1)] .
  have "unrelated competing_jobs (update_where ?P ?f ?jobs)"
  proof (rule unrelated_job_update [OF control_schemaD(7) [OF s] schema_keys(2) [OF s] same])
    fix k' j r assume j: "dict_get ?jobs k' = Some j" "dict_get ?jobs (jb_job_id candidate) = Some r" "k' \<noteq> jb_job_id candidate"
    have "\<not> competing_jobs candidate j"
      using control_schemaD(7) [OF s] j(1,3) k(1) key unfolding unrelated_def by metis
    with j(2) k key show "\<not> same_open_manifest r j"
      by (simp add: competing_jobs_def open_job_state_def)
  qed
  then have "schema_kept (cd_tables db) (cd_tables db\<lparr>cs_provisioning_jobs := update_where ?P ?f ?jobs\<rparr>)"
    by (intro kept_table(2) schema_kept_refl [OF s] table_ok_update [OF schema_keys(2) [OF s]] same_request_key [of ?f] same)
  then have "control_schema (cd_tables db\<lparr>cs_provisioning_jobs := update_where ?P ?f ?jobs\<rparr>)"
    unfolding schema_kept_def by (elim conjE) (rule control_schemaI)
  with Cons s show ?thesis
    by (simp add: sql_claim_next_provisioning_job_def method_simps)
qed

lemma sql_step_schema:
  assumes "sql_step db db'" and "control_schema (cd_tables db)"
  shows "control_schema (cd_tables db')"
  using assms
proof (induction rule: sql_step.induct)
  case (table db s')
  then show ?case by (simp add: table_step_schema)
next
  case (claim db w t)
  then show ?case by (rule claim_schema)
next
  case (complete db i w steps t)
  then show ?case
    unfolding sql_complete_provisioning_job_def by (rule finish_attempt_schema) (simp add: same_request_def)
next
  case (fail db i w step code t)
  then show ?case
    unfolding sql_fail_provisioning_job_def by (rule finish_attempt_schema) (simp add: same_request_def)
qed simp

lemma empty_schema: "control_schema empty_control_store"
  by (simp add: control_schema_def keys_ok_def table_ok_def all_rows_def unrelated_def empty_control_store_def dict_ok_def)

lemma reachable_schema: "sql_reachable db \<Longrightarrow> control_schema (cd_tables db)"
  by (induction rule: sql_reachable.induct) (auto simp: empty_control_database_def empty_schema intro: sql_step_schema)

end
