(* ===== verification/DurableControlAgreement.thy ===== *)
theory DurableControlAgreement
  imports DurableControlInvariant
begin

text \<open>
  The methods that withdraw authority do the same in both adapters: on tables that satisfy the schema, the
  \<^verbatim>\<open>UPDATE\<close> statements of \<^verbatim>\<open>PostgresControlStore\<close> and the loops of \<^verbatim>\<open>InMemoryControlStore\<close> compute
  the same outcome. The loops follow Delegations to their Channel Bindings, the statements compare the
  columns of the binding; the foreign key of the binding makes the two agree.
\<close>

section \<open>Statements and loops\<close>

lemma update_where_cong:
  "(\<And>r. r \<in> set (dict_values t) \<Longrightarrow> (if P r then f r else r) = (if Q r then g r else r)) \<Longrightarrow> update_where P f t = update_where Q g t"
  unfolding update_where_def dict_map_def by (rule map_cong [OF refl]) (force simp: dict_values_def)

lemma set_is_update:
  assumes "table_ok key t" and "dict_get t k = Some r"
  shows "dict_set k (f r) t = update_where (\<lambda>x. key x = k) f t"
proof -
  have entries: "distinct (map fst t)" "\<forall>(k, x) \<in> set t. key x = k"
    using assms(1) by (auto simp: table_ok_def dict_ok_def)
  from entries assms(2) show ?thesis
  proof (induction t)
    case Nil
    then show ?case by simp
  next
    case (Cons e t)
    obtain j x where e: "e = (j, x)" by fastforce
    show ?case
    proof (cases "j = k")
      case True
      have "update_where (\<lambda>x. key x = k) f t = update_where (\<lambda>_. False) f t"
        by (rule update_where_cong) (use Cons.prems e True in \<open>force simp: dict_values_def\<close>)
      then have "update_where (\<lambda>x. key x = k) f t = t"
        by (simp add: update_where_def dict_map_def split_def)
      with True e Cons.prems show ?thesis
        by (simp add: update_where_def dict_map_def)
    next
      case False
      with Cons e show ?thesis by (simp add: update_where_def dict_map_def)
    qed
  qed
qed

lemma keyed_is_update:
  assumes "dict_ok t"
  shows "dict_map_keyed (\<lambda>k x. if k \<in> keys_where P t then f x else x) t = update_where P f t"
  unfolding dict_map_keyed_def update_where_def dict_map_def
proof (rule map_cong [OF refl])
  fix e assume "e \<in> set t"
  with assms have "dict_get t (fst e) = Some (snd e)" by (simp add: dict_ok_def)
  with keys_where_iff [OF assms, of "fst e" P]
  show "(case e of (k, x) \<Rightarrow> (k, if k \<in> keys_where P t then f x else x)) = (case e of (k, x) \<Rightarrow> (k, if P x then f x else x))"
    by (simp add: split_def)
qed

lemma map_is_update: "dict_map (\<lambda>x. if P x then f x else x) t = update_where P f t"
  by (simp add: update_where_def)

lemma matching_is_revoke: "revoke_matching_tokens P t s = revoke_tokens P t s"
proof -
  have "r = r\<lparr>tk_revoked_at := tk_revoked_at r\<rparr>" for r :: "'a tenant_token" by simp
  then show ?thesis
    unfolding revoke_matching_tokens_def revoke_tokens_def map_is_update
    by (intro arg_cong [where f = "\<lambda>x. s\<lparr>cs_tokens := x\<rparr>"] update_where_cong)
      (auto simp: coalesce_def split: option.splits)
qed

lemmas loops_are_statements = map_is_update matching_is_revoke

text \<open>The columns of a binding are those of its Delegation.\<close>

lemma binding_columns:
  assumes s: "control_schema s" and b: "b \<in> set (dict_values (cs_channel_bindings s))"
  obtains d where "dict_get (cs_delegations s) (cb_delegation_id b) = Some d" and "dg_tenant_id d = cb_tenant_id b"
    and "dg_agent_id d = cb_agent_id b" and "dg_subject_user_id d = cb_user_id b"
proof -
  from b schema_keys(7) [OF s] obtain k where "dict_get (cs_channel_bindings s) k = Some b"
    by (auto simp: dict_values_mem table_ok_def)
  with control_schemaD(4) [OF s] have "channel_binding_row_ok s b" unfolding all_rows_def by blast
  then show thesis
    by (auto simp: channel_binding_row_ok_def references_delegation_def split: option.splits intro: that)
qed

lemma bindings_of_delegations:
  assumes s: "control_schema s"
    and P: "\<And>b d. dg_tenant_id d = cb_tenant_id b \<Longrightarrow> dg_agent_id d = cb_agent_id b \<Longrightarrow> dg_subject_user_id d = cb_user_id b \<Longrightarrow> P d = Q b"
  shows "update_where (\<lambda>b. cb_delegation_id b \<in> keys_where P (cs_delegations s)) f (cs_channel_bindings s) =
    update_where Q f (cs_channel_bindings s)"
    and "update_where (\<lambda>b. Q1 b \<or> Q2 b \<or> cb_delegation_id b \<in> keys_where P (cs_delegations s)) f (cs_channel_bindings s) =
    update_where (\<lambda>b. Q1 b \<or> Q2 b \<or> Q b) f (cs_channel_bindings s)"
proof -
  have "cb_delegation_id b \<in> keys_where P (cs_delegations s) \<longleftrightarrow> Q b" if b: "b \<in> set (dict_values (cs_channel_bindings s))" for b
  proof -
    obtain d where "dict_get (cs_delegations s) (cb_delegation_id b) = Some d" "dg_tenant_id d = cb_tenant_id b"
      "dg_agent_id d = cb_agent_id b" "dg_subject_user_id d = cb_user_id b"
      using binding_columns [OF s b] .
    moreover from this P [of d b] have "P d = Q b" by blast
    ultimately show ?thesis
      using schema_keys(4) [OF s] by (simp add: keys_where_iff table_ok_def)
  qed
  note agree = this
  show "update_where (\<lambda>b. cb_delegation_id b \<in> keys_where P (cs_delegations s)) f (cs_channel_bindings s) =
    update_where Q f (cs_channel_bindings s)"
    and "update_where (\<lambda>b. Q1 b \<or> Q2 b \<or> cb_delegation_id b \<in> keys_where P (cs_delegations s)) f (cs_channel_bindings s) =
    update_where (\<lambda>b. Q1 b \<or> Q2 b \<or> Q b) f (cs_channel_bindings s)"
    by (simp_all add: agree cong: update_where_cong) 
qed

section \<open>The methods\<close>

lemma disable_principal_agrees:
  assumes s: "control_schema s"
  shows "sql_disable_principal p t s = mem_disable_principal p t s"
proof (cases "dict_get (cs_principals s) p")
  case None
  then show ?thesis by (simp add: sql_disable_principal_def mem_disable_principal_def)
next
  case (Some r)
  have d: "dict_ok (cs_delegations s)" using schema_keys(4) [OF s] by (simp add: table_ok_def)
  show ?thesis
    using Some set_is_update [OF schema_keys(5) [OF s] Some, of "\<lambda>r. r\<lparr>pr_active := False\<rparr>"]
      bindings_of_delegations(2) [OF s, of "\<lambda>d. dg_agent_id d = p \<or> dg_subject_user_id d = p" "\<lambda>b. cb_agent_id b = p \<or> cb_user_id b = p"
        "\<lambda>b. cb_agent_id b = p" "\<lambda>b. cb_user_id b = p" "\<lambda>b. b\<lparr>cb_active := False\<rparr>"]
    by (simp add: sql_disable_principal_def mem_disable_principal_def cascade_principal_def Let_def loops_are_statements
        keyed_is_update [OF d] deactivate_delegations_def deactivate_bindings_def disj_ac)
qed


lemma update_update: "update_where P f (update_where P g t) = update_where P (\<lambda>r. if P (g r) then f (g r) else g r) t"
  by (simp add: update_where_def dict_map_def split_def if_distrib cong: if_cong)

lemma disable_membership_agrees:
  assumes s: "control_schema s"
  shows "sql_disable_membership i p t s = mem_disable_membership i p t s"
proof (cases "dict_get (cs_memberships s) (i, p)")
  case None
  then show ?thesis by (simp add: sql_disable_membership_def mem_disable_membership_def)
next
  case (Some r)
  have d: "dict_ok (cs_delegations s)" using schema_keys(4) [OF s] by (simp add: table_ok_def)
  have at: "at_membership i p = (\<lambda>m. (mb_tenant_id m, mb_principal_id m) = (i, p))"
    by (simp add: fun_eq_iff at_membership_def)
  show ?thesis
    using Some set_is_update [OF schema_keys(6) [OF s] Some, of "\<lambda>r. r\<lparr>mb_active := False\<rparr>"]
      bindings_of_delegations(1) [OF s, of "\<lambda>d. dg_tenant_id d = i \<and> (dg_agent_id d = p \<or> dg_subject_user_id d = p)"
        "\<lambda>b. cb_tenant_id b = i \<and> (cb_agent_id b = p \<or> cb_user_id b = p)" "\<lambda>b. b\<lparr>cb_active := False\<rparr>"]
    by (simp add: sql_disable_membership_def mem_disable_membership_def Let_def loops_are_statements at
        keyed_is_update [OF d] deactivate_delegations_def deactivate_bindings_def)
qed

lemma revoke_membership_role_agrees:
  assumes s: "control_schema s"
  shows "sql_revoke_membership_role i p role t s = mem_revoke_membership_role i p role t s"
proof (cases "dict_get (cs_memberships s) (i, p)")
  case None
  then show ?thesis by (simp add: sql_revoke_membership_role_def mem_revoke_membership_role_def)
next
  case (Some r)
  have at: "at_membership i p = (\<lambda>m. (mb_tenant_id m, mb_principal_id m) = (i, p))"
    by (simp add: fun_eq_iff at_membership_def)
  show ?thesis
    using Some set_is_update [OF schema_keys(6) [OF s] Some, of "\<lambda>m. m\<lparr>mb_roles := mb_roles r - {role}\<rparr>"]
    by (simp add: sql_revoke_membership_role_def mem_revoke_membership_role_def Let_def loops_are_statements at
        disable_membership_agrees [OF s])
qed

lemma revoke_delegation_agrees:
  assumes s: "control_schema s"
  shows "sql_revoke_delegation d t s = mem_revoke_delegation d t s"
proof (cases "dict_get (cs_delegations s) d")
  case None
  then show ?thesis by (simp add: sql_revoke_delegation_def mem_revoke_delegation_def)
next
  case (Some r)
  then show ?thesis
    using set_is_update [OF schema_keys(4) [OF s] Some, of "\<lambda>r. r\<lparr>dg_active := False\<rparr>"]
    by (simp add: sql_revoke_delegation_def mem_revoke_delegation_def Let_def loops_are_statements
        deactivate_delegations_def deactivate_bindings_def)
qed

lemma update_delegation_agrees:
  assumes s: "control_schema s"
  shows "sql_update_delegation_active d active t s = mem_update_delegation_active d active t s"
proof (cases "dict_get (cs_delegations s) d")
  case None
  then show ?thesis
    by (simp add: sql_update_delegation_active_def mem_update_delegation_active_def sql_revoke_delegation_def)
next
  case (Some r)
  then show ?thesis
    using set_is_update [OF schema_keys(4) [OF s] Some, of "\<lambda>r. r\<lparr>dg_active := True\<rparr>"]
    by (simp add: sql_update_delegation_active_def mem_update_delegation_active_def Let_def revoke_delegation_agrees [OF s])
qed

lemma revoke_agrees:
  assumes s: "control_schema s"
  shows "sql_revoke k t s = mem_revoke k t s"
proof (cases "dict_get (cs_tokens s) k")
  case None
  have "update_where (\<lambda>r. tk_token_id r = k) f (cs_tokens s) = update_where (\<lambda>_. False) f (cs_tokens s)" for f
  proof (rule update_where_cong)
    fix r assume "r \<in> set (dict_values (cs_tokens s))"
    with schema_keys(3) [OF s] obtain j where "dict_get (cs_tokens s) j = Some r" by (auto simp: dict_values_mem table_ok_def)
    with None table_okD [OF schema_keys(3) [OF s] this]
    show "(if tk_token_id r = k then f r else r) = (if False then f r else r)" by auto
  qed
  moreover have "update_where (\<lambda>_. False) f (cs_tokens s) = cs_tokens s" for f
    by (simp add: update_where_def dict_map_def)
  ultimately show ?thesis using None by (simp add: sql_revoke_def mem_revoke_def revoke_tokens_def)
next
  case (Some r)
  have sql: "snd (sql_revoke k t s) = s\<lparr>cs_tokens := dict_set k (r\<lparr>tk_revoked_at := coalesce (tk_revoked_at r) t\<rparr>) (cs_tokens s)\<rparr>"
    using set_is_update [OF schema_keys(3) [OF s] Some, of "\<lambda>r. r\<lparr>tk_revoked_at := coalesce (tk_revoked_at r) t\<rparr>"]
    by (simp add: sql_revoke_def revoke_tokens_def)
  show ?thesis
  proof (cases "tk_revoked_at r")
    case None
    with Some sql show ?thesis by (simp add: prod_eq_iff mem_revoke_def sql_revoke_def coalesce_def)
  next
    case (Some t')
    then have "r\<lparr>tk_revoked_at := coalesce (tk_revoked_at r) t\<rparr> = r" by (cases r) (simp add: coalesce_def)
    with Some \<open>dict_get (cs_tokens s) k = Some r\<close> sql show ?thesis
      by (simp add: prod_eq_iff mem_revoke_def sql_revoke_def update_triv)
  qed
qed

lemma get_agrees: "sql_get k s = mem_get k s"
  by (auto simp: sql_get_def mem_get_def sql_member_active_def session_admitted_def split: option.split)

text \<open>The methods that write a row given by the caller agree when the row satisfies its constraints.\<close>

lemma update_principal_agrees:
  assumes s: "control_schema s" and name: "present name"
  shows "sql_update_principal p name active t s = mem_update_principal p name active t s"
proof (cases "dict_get (cs_principals s) p")
  case None
  then show ?thesis by (simp add: sql_update_principal_def mem_update_principal_def)
next
  case (Some r)
  let ?off = "\<lambda>r. r\<lparr>pr_active := False\<rparr>" and ?new = "\<lambda>r. r\<lparr>pr_name := name, pr_active := active\<rparr>"
  have off: "dict_set p (?off r) (cs_principals s) = update_where (\<lambda>x. pr_principal_id x = p) ?off (cs_principals s)"
    and new: "dict_set p (?new r) (cs_principals s) = update_where (\<lambda>x. pr_principal_id x = p) ?new (cs_principals s)"
    by (rule set_is_update [OF schema_keys(5) [OF s] Some])+
  have ok: "principal_row_ok (?new r)" using name by (simp add: principal_row_ok_def)
  show ?thesis
  proof (cases active)
    case True
    with Some new ok show ?thesis
      by (simp add: sql_update_principal_def mem_update_principal_def checked_def Let_def and_then_def)
  next
    case False
    have m: "mem_disable_principal p t s = (Inr (?off r), cascade_principal p t (s\<lparr>cs_principals := dict_set p (?off r) (cs_principals s)\<rparr>))"
      using disable_principal_agrees [OF s, of p t] Some off by (simp add: sql_disable_principal_def)
    have c: "cascade_principal p t (x\<lparr>cs_principals := y\<rparr>) = cascade_principal p t x\<lparr>cs_principals := y\<rparr>" for x :: "'a control_store" and y
      by (simp add: cascade_principal_def revoke_tokens_def deactivate_delegations_def deactivate_bindings_def)
    have "r\<lparr>pr_active := False, pr_name := name\<rparr> = r\<lparr>pr_name := name, pr_active := False\<rparr>" by simp
    with False Some new ok show ?thesis
      by (simp add: sql_update_principal_def mem_update_principal_def checked_def Let_def and_then_def m c)
  qed
qed


lemma update_membership_agrees:
  assumes s: "control_schema s" and roles: "role_array VALID_ROLES (mb_roles m)"
  shows "sql_update_membership m t s = mem_update_membership m t s"
proof (cases "dict_get (cs_memberships s) (mb_tenant_id m, mb_principal_id m)")
  case None
  then show ?thesis by (simp add: sql_update_membership_def mem_update_membership_def Let_def)
next
  case (Some r)
  let ?i = "mb_tenant_id m" and ?p = "mb_principal_id m"
  let ?new = "\<lambda>r. r\<lparr>mb_roles := mb_roles m, mb_active := mb_active m\<rparr>"
  define s1 where "s1 = (if \<not> mb_active m then snd (sql_disable_membership ?i ?p t s) else s)"
  have s1: "control_schema s1"
    using kept_disable_membership [OF s, of ?i ?p t] s by (auto simp: s1_def schema_kept_def intro: control_schemaI)
  have "\<exists>r1. dict_get (cs_memberships s1) (?i, ?p) = Some r1 \<and> ?new r1 = ?new r"
    using Some by (cases "mb_active m")
      (simp_all add: s1_def sql_disable_membership_def revoke_tokens_def deactivate_bindings_def deactivate_delegations_def)
  then obtain r1 where r1: "dict_get (cs_memberships s1) (?i, ?p) = Some r1" "?new r1 = ?new r"
    by blast
  have at: "at_membership ?i ?p = (\<lambda>m. (mb_tenant_id m, mb_principal_id m) = (?i, ?p))"
    by (simp add: fun_eq_iff at_membership_def)
  have set: "dict_set (?i, ?p) (?new r) (cs_memberships s1) = update_where (at_membership ?i ?p) ?new (cs_memberships s1)"
    using set_is_update [OF schema_keys(6) [OF s1] r1(1), of ?new] by (simp add: at r1(2))
  have key: "mb_tenant_id r = ?i" "mb_principal_id r = ?p" using table_okD [OF schema_keys(6) [OF s] Some] by simp_all
  have same: "?new r = m" using key by simp
  have mem: "mem_disable_membership ?i ?p t s = (Inr (r\<lparr>mb_active := False\<rparr>), s1)" if "\<not> mb_active m"
    using that disable_membership_agrees [OF s, of ?i ?p t] Some by (simp add: s1_def prod_eq_iff sql_disable_membership_def)
  have off: "r\<lparr>mb_active := False, mb_roles := mb_roles m\<rparr> = ?new r" if "\<not> mb_active m" using that by simp
  have sql: "sql_update_membership m t s = (Inr (?new r), (if mb_roles r \<noteq> mb_roles m \<or> mb_active r \<noteq> mb_active m
      then revoke_tokens (\<lambda>r. ts_tenant_id (tk_session r) = ?i \<and> ts_actor_id (tk_session r) = ?p) t
        (s1\<lparr>cs_memberships := dict_set (?i, ?p) (?new r) (cs_memberships s1)\<rparr>)
      else s1\<lparr>cs_memberships := dict_set (?i, ?p) (?new r) (cs_memberships s1)\<rparr>))"
    unfolding set unfolding s1_def using Some roles by (simp add: sql_update_membership_def checked_def Let_def)
  show ?thesis
  proof (cases "mb_active m")
    case True
    with Some sql same show ?thesis
      by (simp add: mem_update_membership_def and_then_def Let_def matching_is_revoke s1_def eq_commute [of "mb_roles m"])
  next
    case False
    with Some sql mem [OF False] off [OF False] show ?thesis
      by (cases r) (simp add: mem_update_membership_def and_then_def Let_def matching_is_revoke eq_commute [of "mb_roles m"])
  qed
qed

end
