(* ===== verification/DurableControlHistory.thy ===== *)
theory DurableControlHistory
  imports DurableControlAgreement CredentialHistory
begin

text \<open>
  What the statements of \<^verbatim>\<open>PostgresControlStore\<close> do to the stored Access Tokens and to the rows of the job
  attempts over time.
\<close>

section \<open>Reading a token\<close>

text \<open>
  What authentication asks of a store: \<open>get\<close> returns a stored record exactly when its session is admitted.
  Every \<open>token_store\<close> gives it; the durable adapter gives only this part, since its inserts may conflict.
\<close>

locale token_reader =
  fixes get :: "string \<Rightarrow> 's \<Rightarrow> ('v, 'ses) token_record option"
    and lookup :: "string \<Rightarrow> 's \<Rightarrow> ('v, 'ses) token_record option"
    and admits :: "'s \<Rightarrow> 'ses \<Rightarrow> bool"
  assumes reads: "get k s = (case lookup k s of None \<Rightarrow> None | Some r \<Rightarrow> if admits s (tk_session r) then Some r else None)"
begin

lemma dead_rejected:
  assumes "store_get ops = get" and "lookup k s = Some r" and "\<not> token_live now r" and "token_parts prefix tok = Some (k, secret)"
  shows "\<exists>m. authenticate_with im em prefix H ops tok now s = (Inl (AuthenticationError m), s)"
  using assms by (auto simp: authenticate_with_alt reads split: option.splits)

end

sublocale token_store \<subseteq> token_reader "store_get ops" lookup admits
  by unfold_locales (rule get_law)

interpretation durable_tokens: token_reader sql_get token_at session_admitted
  by unfold_locales (auto simp: get_agrees mem_get_def split: option.split)

interpretation durable_operator_tokens: token_reader sql_get_operator_token operator_token_at
  "\<lambda>s session. sql_operator_active s (os_operator_id session)"
  by unfold_locales (auto simp: sql_get_operator_token_def split: option.split)

section \<open>Access Tokens only get weaker\<close>

lemma weaker_update:
  assumes "\<And>r. token_weaker r (f r)"
  shows "tokens_weaker s (s\<lparr>cs_tokens := update_where P f (cs_tokens s)\<rparr>)"
  using assms by (simp add: tokens_weaker_def)

lemma weaker_fresh:
  assumes "dict_get (cs_tokens s) k = None" and "tokens_weaker s (s\<lparr>cs_tokens := t\<rparr>)"
  shows "tokens_weaker s (s\<lparr>cs_tokens := dict_set k r t\<rparr>)"
  unfolding tokens_weaker_def
proof (intro allI impI)
  fix j x assume x: "token_at j s = Some x"
  with assms(1) have "j \<noteq> k" by auto
  with assms(2) x show "\<exists>x'. token_at j (s\<lparr>cs_tokens := dict_set k r t\<rparr>) = Some x' \<and> token_weaker x x'"
    by (simp add: tokens_weaker_def)
qed

lemma weaker_revoke_tokens: "tokens_weaker s s1 \<Longrightarrow> tokens_weaker s (revoke_tokens P t s1)"
  unfolding matching_is_revoke [symmetric] by (rule tokens_weaker_revoke)

lemma weaker_statements:
  "tokens_weaker s s1 \<Longrightarrow> tokens_weaker s (deactivate_delegations D s1)" "tokens_weaker s s1 \<Longrightarrow> tokens_weaker s (deactivate_bindings B s1)"
  "tokens_weaker s s1 \<Longrightarrow> tokens_weaker s (s1\<lparr>cs_memberships := m\<rparr>)" "tokens_weaker s s1 \<Longrightarrow> tokens_weaker s (s1\<lparr>cs_principals := p\<rparr>)"
  by (simp_all add: tokens_weaker_def deactivate_delegations_def deactivate_bindings_def)

lemma weaker_disable_membership: "tokens_weaker s (snd (sql_disable_membership i p t s))"
  by (auto simp: sql_disable_membership_def intro!: weaker_revoke_tokens weaker_statements split: option.split)

lemma table_step_weaker:
  assumes "sql_table_step s s'"
  shows "tokens_weaker s s'"
  using assms
proof (induction rule: sql_table_step.induct)
  case (update_principal s i name active t)
  show ?case
    by (auto simp: sql_update_principal_def method_simps cascade_principal_def split: option.split
        intro!: weaker_revoke_tokens weaker_statements)
next
  case (disable_principal s i t)
  show ?case
    by (auto simp: sql_disable_principal_def cascade_principal_def split: option.split intro!: weaker_revoke_tokens weaker_statements)
next
  case (update_membership s m t)
  show ?case
    by (auto simp: sql_update_membership_def method_simps split: option.split
        intro!: weaker_revoke_tokens weaker_statements weaker_disable_membership)
next
  case (disable_membership s i p t)
  show ?case by (rule weaker_disable_membership)
next
  case (revoke_membership_role s i p role t)
  show ?case
    by (auto simp: sql_revoke_membership_role_def method_simps split: option.split
        intro!: weaker_revoke_tokens weaker_statements weaker_disable_membership)
next
  case (revoke_delegation s i t)
  show ?case
    by (auto simp: sql_revoke_delegation_def split: option.split intro!: weaker_revoke_tokens weaker_statements)
next
  case (update_delegation_active s i active t)
  show ?case
    by (auto simp: sql_update_delegation_active_def sql_revoke_delegation_def tokens_weaker_same split: option.split
        intro!: weaker_revoke_tokens weaker_statements)
next
  case (save s tk)
  show ?case by (auto simp: sql_save_def method_simps intro!: weaker_fresh)
next
  case (revoke s i t)
  show ?case by (simp add: sql_revoke_def weaker_revoke_tokens)
next
  case (mark_used s i t)
  show ?case unfolding sql_mark_used_def by (rule weaker_update) (simp add: token_weaker_def)
next
  case (rotate s i tk v t)
  have "token_weaker r (r\<lparr>tk_expires_at := min (tk_expires_at r) v\<rparr>)" for r :: "'a tenant_token"
    by (simp add: token_weaker_def)
  then show ?case by (auto simp: sql_rotate_def split: option.split intro!: weaker_fresh weaker_update)
next
  case (update_operator s i name roles active t)
  show ?case
    by (rule tokens_weaker_same) (simp add: sql_update_operator_def method_simps split: option.split)
next
  case (rotate_operator_token s i ot v t)
  show ?case
    by (rule tokens_weaker_same) (simp add: sql_rotate_operator_token_def split: option.split)
next
  case (create_provisioning_job s j)
  show ?case
    by (rule tokens_weaker_same) (auto simp: sql_create_provisioning_job_def set_job_def split: option.split list.split)
next
  case (update_provisioning_job_state s i state t)
  show ?case
    by (rule tokens_weaker_same) (simp add: sql_update_provisioning_job_state_def method_simps split: option.split)
qed (simp_all add: tokens_weaker_same method_simps sql_add_operator_def sql_save_operator_token_def sql_revoke_operator_token_def
    sql_mark_operator_token_used_def sql_save_admin_session_def sql_revoke_admin_session_def sql_mark_admin_session_used_def
    sql_save_operator_audit_event_def sql_add_tenant_def sql_add_principal_def sql_save_membership_def sql_save_delegation_def
    sql_save_channel_binding_def sql_update_channel_binding_def sql_delete_channel_binding_def sql_save_tenant_route_def
    split: option.split)

lemma sql_step_weaker:
  assumes "sql_step db db'"
  shows "tokens_weaker (cd_tables db) (cd_tables db')"
  using assms
proof (induction rule: sql_step.induct)
  case (table db s')
  then show ?case by (simp add: table_step_weaker)
next
  case (claim db w t)
  show ?case
    by (rule tokens_weaker_same) (simp add: sql_claim_next_provisioning_job_def method_simps split: list.split)
qed (auto intro!: tokens_weaker_same simp: sql_complete_provisioning_job_def sql_fail_provisioning_job_def finish_attempt_def Let_def
    split: option.split)

lemma sql_steps_weaker:
  assumes "sql_step\<^sup>*\<^sup>* db db'"
  shows "tokens_weaker (cd_tables db) (cd_tables db')"
  using assms by (induction rule: rtranclp_induct) (auto intro: tokens_weaker_trans sql_step_weaker)


section \<open>Job attempts\<close>

text \<open>Every recorded attempt belongs to a job that has had at least as many attempts.\<close>

definition attempts_ok :: "'v control_database \<Rightarrow> bool" where
  "attempts_ok db \<longleftrightarrow> all_rows (\<lambda>j. 0 \<le> jb_attempt j) (cs_provisioning_jobs (cd_tables db)) \<and>
     (\<forall>i n row. dict_get (cd_job_attempts db) (i, n) = Some row \<longrightarrow>
        (\<exists>j. dict_get (cs_provisioning_jobs (cd_tables db)) i = Some j \<and> n \<le> jb_attempt j))"

definition jobs_kept :: "(string, provisioning_job) dict \<Rightarrow> (string, provisioning_job) dict \<Rightarrow> bool" where
  "jobs_kept t t' \<longleftrightarrow> (all_rows (\<lambda>j. 0 \<le> jb_attempt j) t \<longrightarrow> all_rows (\<lambda>j. 0 \<le> jb_attempt j) t') \<and>
     (\<forall>i j. dict_get t i = Some j \<longrightarrow> (\<exists>j'. dict_get t' i = Some j' \<and> jb_attempt j \<le> jb_attempt j'))"

lemma jobs_kept_refl [simp]: "jobs_kept t t"
  by (simp add: jobs_kept_def)

lemma jobs_kept_update: "(\<And>j. jb_attempt j \<le> jb_attempt (f j)) \<Longrightarrow> jobs_kept t (update_where P f t)"
  unfolding jobs_kept_def all_rows_def by (auto intro: order_trans)

lemma kept_attempts:
  "attempts_ok db \<Longrightarrow> jobs_kept (cs_provisioning_jobs (cd_tables db)) (cs_provisioning_jobs s') \<Longrightarrow> attempts_ok (db\<lparr>cd_tables := s'\<rparr>)"
  unfolding attempts_ok_def jobs_kept_def by (auto intro: order_trans) (meson order_trans)

lemma jobs_statements [simp]:
  "cs_provisioning_jobs (revoke_tokens P t s) = cs_provisioning_jobs s"
  "cs_provisioning_jobs (deactivate_delegations D s) = cs_provisioning_jobs s"
  "cs_provisioning_jobs (deactivate_bindings B s) = cs_provisioning_jobs s"
  "cs_provisioning_jobs (cascade_principal i t s) = cs_provisioning_jobs s"
  by (simp_all add: revoke_tokens_def deactivate_delegations_def deactivate_bindings_def cascade_principal_def)

lemma jobs_disable_membership [simp]: "cs_provisioning_jobs (snd (sql_disable_membership i p t s)) = cs_provisioning_jobs s"
  by (simp add: sql_disable_membership_def split: option.split)

lemma jobs_revoke_delegation [simp]: "cs_provisioning_jobs (snd (sql_revoke_delegation d t s)) = cs_provisioning_jobs s"
  by (simp add: sql_revoke_delegation_def split: option.split)

lemma create_keeps_jobs:
  "jobs_kept (cs_provisioning_jobs s) (cs_provisioning_jobs (snd (sql_create_provisioning_job j s)))"
  by (auto simp: sql_create_provisioning_job_def set_job_def jobs_kept_def job_row_ok_def all_rows_def dict_get_set
      split: option.split list.split)

lemma table_step_jobs:
  assumes "sql_table_step s s'"
  shows "jobs_kept (cs_provisioning_jobs s) (cs_provisioning_jobs s')"
  using assms
proof (induction rule: sql_table_step.induct)
  case (create_provisioning_job s j)
  show ?case by (rule create_keeps_jobs)
next
  case (update_provisioning_job_state s i state t)
  show ?case
    by (auto simp: sql_update_provisioning_job_state_def method_simps with_job_state_def split: option.split intro!: jobs_kept_update)
qed (simp_all add: method_simps sql_add_operator_def sql_update_operator_def sql_save_operator_token_def sql_revoke_operator_token_def
    sql_mark_operator_token_used_def sql_rotate_operator_token_def sql_save_admin_session_def sql_revoke_admin_session_def
    sql_mark_admin_session_used_def sql_save_operator_audit_event_def sql_add_tenant_def sql_add_principal_def sql_update_principal_def
    sql_disable_principal_def sql_save_membership_def sql_update_membership_def sql_revoke_membership_role_def
    sql_save_delegation_def sql_update_delegation_active_def sql_save_channel_binding_def sql_update_channel_binding_def
    sql_delete_channel_binding_def sql_save_tenant_route_def sql_save_def sql_revoke_def sql_mark_used_def sql_rotate_def
    split: option.split)

lemma finish_attempt_attempts:
  assumes a: "attempts_ok db" and f: "\<And>j. jb_attempt (f j) = jb_attempt j"
  shows "attempts_ok (snd (finish_attempt i w f g db))"
proof -
  have rows: "attempts_ok (db'\<lparr>cd_job_attempts := dict_map_keyed h (cd_job_attempts db')\<rparr>)" if "attempts_ok db'" for db' :: "'a control_database" and h
    using that by (auto simp: attempts_ok_def)
  have "attempts_ok (db\<lparr>cd_tables := (cd_tables db)\<lparr>cs_provisioning_jobs := update_where P f (cs_provisioning_jobs (cd_tables db))\<rparr>\<rparr>)" for P
    by (rule kept_attempts [OF a]) (simp add: jobs_kept_update f)
  from rows [OF this] a show ?thesis
    by (simp add: finish_attempt_def Let_def split: option.split)
qed

abbreviation queue :: "'v control_database \<Rightarrow> provisioning_job list" where
  "queue db \<equiv> select_ordered (\<lambda>job. jb_state job = JOB_QUEUED) (\<lambda>job. (jb_created_at job, jb_job_id job))
     (cs_provisioning_jobs (cd_tables db))"

definition claimed :: "string \<Rightarrow> datetime \<Rightarrow> provisioning_job \<Rightarrow> provisioning_job" where
  "claimed worker_id t job = job\<lparr>jb_state := JOB_RUNNING, jb_attempt := jb_attempt job + 1, jb_claimed_by := Some worker_id,
     jb_claimed_at := Some t, jb_heartbeat_at := Some t, jb_updated_at := t\<rparr>"

lemma queue_rows:
  assumes "table_ok jb_job_id (cs_provisioning_jobs (cd_tables db))"
  shows "j \<in> set (queue db) \<longleftrightarrow> dict_get (cs_provisioning_jobs (cd_tables db)) (jb_job_id j) = Some j \<and> jb_state j = JOB_QUEUED"
  using assms by (auto simp: select_ordered_def dict_values_mem table_ok_def)

text \<open>In a state that satisfies the schema the new attempt is always free, so a claim finds no conflict.\<close>

lemma claim_succeeds:
  assumes s: "control_schema (cd_tables db)" and a: "attempts_ok db" and q: "queue db = j # rest"
  shows "dict_get (cd_job_attempts db) (jb_job_id j, jb_attempt j + 1) = None"
    and "sql_claim_next_provisioning_job w t db = (Inr (Some (claimed w t j)),
      db\<lparr>cd_tables := (cd_tables db)\<lparr>cs_provisioning_jobs := update_where (\<lambda>x. jb_job_id x = jb_job_id j) (claimed w t)
           (cs_provisioning_jobs (cd_tables db))\<rparr>,
         cd_job_attempts := dict_set (jb_job_id j, jb_attempt j + 1)
           \<lparr>ja_state = ATTEMPT_RUNNING, ja_started_at = t, ja_finished_at = None, ja_failed_step = None, ja_failure_code = None\<rparr>
           (cd_job_attempts db)\<rparr>)"
proof -
  have j: "dict_get (cs_provisioning_jobs (cd_tables db)) (jb_job_id j) = Some j"
    using queue_rows [OF schema_keys(2) [OF s], of j] q by simp
  then have "0 \<le> jb_attempt j" using a by (simp add: attempts_ok_def all_rows_def)
  moreover show free: "dict_get (cd_job_attempts db) (jb_job_id j, jb_attempt j + 1) = None"
  proof (rule ccontr)
    assume "dict_get (cd_job_attempts db) (jb_job_id j, jb_attempt j + 1) \<noteq> None"
    with a j show False unfolding attempts_ok_def by fastforce
  qed
  ultimately show "sql_claim_next_provisioning_job w t db = (Inr (Some (claimed w t j)),
      db\<lparr>cd_tables := (cd_tables db)\<lparr>cs_provisioning_jobs := update_where (\<lambda>x. jb_job_id x = jb_job_id j) (claimed w t)
           (cs_provisioning_jobs (cd_tables db))\<rparr>,
         cd_job_attempts := dict_set (jb_job_id j, jb_attempt j + 1)
           \<lparr>ja_state = ATTEMPT_RUNNING, ja_started_at = t, ja_finished_at = None, ja_failed_step = None, ja_failure_code = None\<rparr>
           (cd_job_attempts db)\<rparr>)"
    using q by (simp add: sql_claim_next_provisioning_job_def Let_def checked_def claimed_def [abs_def])
qed

lemma claim_attempts:
  assumes s: "control_schema (cd_tables db)" and a: "attempts_ok db"
  shows "attempts_ok (snd (sql_claim_next_provisioning_job w t db))"
proof (cases "queue db")
  case Nil
  with a show ?thesis by (simp add: sql_claim_next_provisioning_job_def Let_def)
next
  case (Cons j rest)
  let ?jobs = "update_where (\<lambda>x. jb_job_id x = jb_job_id j) (claimed w t) (cs_provisioning_jobs (cd_tables db))"
  have j: "dict_get (cs_provisioning_jobs (cd_tables db)) (jb_job_id j) = Some j"
    using queue_rows [OF schema_keys(2) [OF s], of j] Cons by simp
  have "attempts_ok (db\<lparr>cd_tables := (cd_tables db)\<lparr>cs_provisioning_jobs := ?jobs\<rparr>\<rparr>)"
    by (rule kept_attempts [OF a]) (simp add: jobs_kept_update claimed_def)
  then show ?thesis
    unfolding claim_succeeds(2) [OF s a Cons] using j
    by (auto simp: attempts_ok_def dict_get_set claimed_def)
qed

lemma sql_step_attempts:
  assumes "sql_step db db'" and "control_schema (cd_tables db)" and "attempts_ok db"
  shows "attempts_ok db'"
  using assms
proof (induction rule: sql_step.induct)
  case (table db s')
  then show ?case by (intro kept_attempts table_step_jobs)
next
  case (claim db w t)
  then show ?case by (rule claim_attempts)
next
  case (policies db p)
  then show ?case by (simp add: attempts_ok_def)
qed (auto simp: sql_complete_provisioning_job_def sql_fail_provisioning_job_def intro: finish_attempt_attempts)

lemma reachable_attempts: "sql_reachable db \<Longrightarrow> attempts_ok db"
proof (induction rule: sql_reachable.induct)
  case start
  show ?case by (simp add: attempts_ok_def empty_control_database_def all_rows_def)
next
  case (step db db')
  then show ?case using sql_step_attempts reachable_schema by blast
qed

end
