(* ===== verification/DurableControlProperties.thy ===== *)
theory DurableControlProperties
  imports DurableControlHistory Samples
begin

text \<open>
  Properties of the durable Control Store over every state its methods reach: the constraints that hold
  between its rows, the agreement with the in-memory adapter on everything that withdraws authority, the
  finality of a dead token, and the progress of the job queue.
\<close>

section \<open>A reachable database\<close>

definition durable_write :: "('v control_store \<Rightarrow> 'v control_store) \<Rightarrow> 'v control_database \<Rightarrow> 'v control_database" where
  "durable_write f db = db\<lparr>cd_tables := f (cd_tables db)\<rparr>"

lemma writes_reachable:
  assumes "sql_reachable db" and "list_all (\<lambda>f. \<forall>s. sql_table_step s (f s)) fs"
  shows "sql_reachable (fold durable_write fs db)"
  using assms
proof (induction fs arbitrary: db)
  case (Cons f fs)
  then show ?case
    by (simp add: durable_write_def sql_reachable.step sql_step.table)
qed simp

definition sample_durable_token :: "string \<Rightarrow> nat tenant_token" where
  "sample_durable_token k = \<lparr>tk_token_id = k, tk_verifier = 3, tk_session = \<lparr>ts_tenant_id = ''acme'', ts_actor_id = ''bot'',
     ts_actor_kind = AGENT, ts_roles = {''tenant_member''}, ts_subject_user_id = Some ''alice'', ts_delegation_id = Some ''d1'',
     ts_token_id = None\<rparr>, tk_expires_at = 90, tk_issued_at = 0, tk_revoked_at = None, tk_last_used_at = None\<rparr>"

definition sample_durable_job :: "string \<Rightarrow> string \<Rightarrow> provisioning_job" where
  "sample_durable_job job_id key = new_provisioning_job sample_fingerprint job_id sample_manifest key ''root'' 1"

definition sample_durable_writes :: "(nat control_store \<Rightarrow> nat control_store) list" where
  "sample_durable_writes =
     [\<lambda>s. snd (sql_add_operator \<lparr>op_operator_id = ''root'', op_name = ''Root'', op_roles = {''operator_admin''}, op_active = True\<rparr> s),
      \<lambda>s. snd (sql_add_tenant \<lparr>tr_tenant_id = ''acme'', tr_name = ''Acme'', tr_active = True\<rparr> s),
      \<lambda>s. snd (sql_add_principal \<lparr>pr_principal_id = ''alice'', pr_name = ''Alice'', pr_kind = USER, pr_active = True\<rparr> s),
      \<lambda>s. snd (sql_add_principal \<lparr>pr_principal_id = ''bot'', pr_name = ''Bot'', pr_kind = AGENT, pr_active = True\<rparr> s),
      \<lambda>s. snd (sql_save_membership \<lparr>mb_tenant_id = ''acme'', mb_principal_id = ''alice'', mb_roles = {''tenant_member''}, mb_active = True\<rparr> s),
      \<lambda>s. snd (sql_save_membership \<lparr>mb_tenant_id = ''acme'', mb_principal_id = ''bot'', mb_roles = {''tenant_member''}, mb_active = True\<rparr> s),
      \<lambda>s. snd (sql_save_delegation \<lparr>dg_delegation_id = ''d1'', dg_tenant_id = ''acme'', dg_agent_id = ''bot'',
             dg_subject_user_id = ''alice'', dg_active = True\<rparr> s),
      \<lambda>s. snd (sql_save_channel_binding \<lparr>cb_binding_id = ''b1'', cb_channel = ''telegram'', cb_external_id = ''42'',
             cb_tenant_id = ''acme'', cb_user_id = ''alice'', cb_agent_id = ''bot'', cb_delegation_id = ''d1'', cb_active = True\<rparr> s),
      \<lambda>s. snd (sql_save (sample_durable_token ''k1'') s),
      \<lambda>s. snd (sql_create_provisioning_job (sample_durable_job ''j1'' ''i1'') s)]"

definition sample_control_database :: "nat control_database" where
  "sample_control_database = fold durable_write sample_durable_writes empty_control_database"

lemma sample_control_reachable: "sql_reachable sample_control_database"
  unfolding sample_control_database_def
  by (rule writes_reachable [OF sql_reachable.start]) (simp add: sample_durable_writes_def sql_table_step.intros)

lemma sample_control_rows:
  "dict_get (cs_tokens (cd_tables sample_control_database)) ''k1'' = Some (stored_token (sample_durable_token ''k1''))"
  "map jb_job_id (queue sample_control_database) = [''j1'']"
  by code_simp+


section \<open>Constraints\<close>

text \<open>
  C7. In every state that the methods of the durable store reach, the rows are consistent with each other.
  A token names an existing Membership and, when it is delegated, an existing Delegation of the same Tenant,
  Agent and User; a Channel Binding names a Delegation with its Tenant, Agent and User; no two Tenants share
  a database or a database role; no two open jobs have the same manifest.
\<close>

theorem durable_constraints_hold:
  assumes "sql_reachable db"
  shows "(\<forall>k r. token_at k (cd_tables db) = Some r \<longrightarrow> tk_token_id r = k \<and>
       membership_of (cd_tables db) (ts_tenant_id (tk_session r)) (ts_actor_id (tk_session r)) \<noteq> None \<and>
       (\<forall>i. ts_delegation_id (tk_session r) = Some i \<longrightarrow> (\<exists>d. delegation_of (cd_tables db) i = Some d \<and>
          dg_tenant_id d = ts_tenant_id (tk_session r) \<and> dg_agent_id d = ts_actor_id (tk_session r) \<and>
          ts_subject_user_id (tk_session r) = Some (dg_subject_user_id d)))) \<and>
    (\<forall>c b. dict_get (cs_channel_bindings (cd_tables db)) c = Some b \<longrightarrow> c = (cb_channel b, cb_external_id b) \<and>
       (\<exists>d. delegation_of (cd_tables db) (cb_delegation_id b) = Some d \<and> dg_tenant_id d = cb_tenant_id b \<and>
          dg_agent_id d = cb_agent_id b \<and> dg_subject_user_id d = cb_user_id b)) \<and>
    (\<forall>t r t' r'. dict_get (cs_routes (cd_tables db)) t = Some r \<longrightarrow> dict_get (cs_routes (cd_tables db)) t' = Some r' \<longrightarrow> t \<noteq> t' \<longrightarrow>
       rt_tenant_database_name r \<noteq> rt_tenant_database_name r' \<and> rt_tenant_database_role r \<noteq> rt_tenant_database_role r') \<and>
    (\<forall>i j i' j'. dict_get (cs_provisioning_jobs (cd_tables db)) i = Some j \<longrightarrow>
       dict_get (cs_provisioning_jobs (cd_tables db)) i' = Some j' \<longrightarrow> open_job_state (jb_state j) \<longrightarrow> open_job_state (jb_state j') \<longrightarrow>
       jb_tenant_id j = jb_tenant_id j' \<longrightarrow> jb_manifest_fingerprint j = jb_manifest_fingerprint j' \<longrightarrow> i = i')"
proof (intro conjI)
  have s: "control_schema (cd_tables db)" by (rule reachable_schema [OF assms])
  note rows = control_schemaD [OF s] and keys = schema_keys [OF s]
  show "\<forall>k r. token_at k (cd_tables db) = Some r \<longrightarrow> tk_token_id r = k \<and>
       membership_of (cd_tables db) (ts_tenant_id (tk_session r)) (ts_actor_id (tk_session r)) \<noteq> None \<and>
       (\<forall>i. ts_delegation_id (tk_session r) = Some i \<longrightarrow> (\<exists>d. delegation_of (cd_tables db) i = Some d \<and>
          dg_tenant_id d = ts_tenant_id (tk_session r) \<and> dg_agent_id d = ts_actor_id (tk_session r) \<and>
          ts_subject_user_id (tk_session r) = Some (dg_subject_user_id d)))"
  proof (intro allI impI)
    fix k r assume r: "token_at k (cd_tables db) = Some r"
    from r rows(5) have "token_row_ok (cd_tables db) r" by (simp add: all_rows_def)
    with table_okD [OF keys(3) r] show "tk_token_id r = k \<and>
       membership_of (cd_tables db) (ts_tenant_id (tk_session r)) (ts_actor_id (tk_session r)) \<noteq> None \<and>
       (\<forall>i. ts_delegation_id (tk_session r) = Some i \<longrightarrow> (\<exists>d. delegation_of (cd_tables db) i = Some d \<and>
          dg_tenant_id d = ts_tenant_id (tk_session r) \<and> dg_agent_id d = ts_actor_id (tk_session r) \<and>
          ts_subject_user_id (tk_session r) = Some (dg_subject_user_id d)))"
      by (auto simp: token_row_ok_def references_delegation_def split: option.splits)
  qed
  show "\<forall>c b. dict_get (cs_channel_bindings (cd_tables db)) c = Some b \<longrightarrow> c = (cb_channel b, cb_external_id b) \<and>
       (\<exists>d. delegation_of (cd_tables db) (cb_delegation_id b) = Some d \<and> dg_tenant_id d = cb_tenant_id b \<and>
          dg_agent_id d = cb_agent_id b \<and> dg_subject_user_id d = cb_user_id b)"
  proof (intro allI impI conjI)
    fix c b assume b: "dict_get (cs_channel_bindings (cd_tables db)) c = Some b"
    show "c = (cb_channel b, cb_external_id b)" using table_okD [OF keys(7) b] by simp
    from binding_columns [OF s dict_values_memI [OF b]]
    show "\<exists>d. delegation_of (cd_tables db) (cb_delegation_id b) = Some d \<and> dg_tenant_id d = cb_tenant_id b \<and>
          dg_agent_id d = cb_agent_id b \<and> dg_subject_user_id d = cb_user_id b"
      by metis
  qed
  show "\<forall>t r t' r'. dict_get (cs_routes (cd_tables db)) t = Some r \<longrightarrow> dict_get (cs_routes (cd_tables db)) t' = Some r' \<longrightarrow> t \<noteq> t' \<longrightarrow>
       rt_tenant_database_name r \<noteq> rt_tenant_database_name r' \<and> rt_tenant_database_role r \<noteq> rt_tenant_database_role r'"
    using rows(6) unfolding unrelated_def same_database_def by blast
  show "\<forall>i j i' j'. dict_get (cs_provisioning_jobs (cd_tables db)) i = Some j \<longrightarrow>
       dict_get (cs_provisioning_jobs (cd_tables db)) i' = Some j' \<longrightarrow> open_job_state (jb_state j) \<longrightarrow> open_job_state (jb_state j') \<longrightarrow>
       jb_tenant_id j = jb_tenant_id j' \<longrightarrow> jb_manifest_fingerprint j = jb_manifest_fingerprint j' \<longrightarrow> i = i'"
    using rows(7) unfolding unrelated_def competing_jobs_def same_open_manifest_def by metis
qed

lemma durable_constraints_hold_witness:
  "\<exists>d. delegation_of (cd_tables sample_control_database) ''d1'' = Some d \<and> dg_subject_user_id d = ''alice''"
  using durable_constraints_hold [OF sample_control_reachable, THEN conjunct1, THEN spec, THEN spec, THEN mp, OF sample_control_rows(1)]
  by (auto simp: stored_token_def sample_durable_token_def)

section \<open>Agreement of the two adapters\<close>

text \<open>
  C8. Whatever the reachable state, the durable adapter and the in-memory adapter give the same result and
  leave the same tables for every method that withdraws authority: disabling or updating a Principal,
  disabling or updating a Membership, revoking a role, a Delegation or a token; and they return the same
  token for the same identifier. The two updates that write values of the caller agree when the values
  satisfy the constraints of their columns.
\<close>

theorem durable_revocations_agree:
  assumes "sql_reachable db"
  shows "sql_disable_principal p t (cd_tables db) = mem_disable_principal p t (cd_tables db) \<and>
    sql_disable_membership i p t (cd_tables db) = mem_disable_membership i p t (cd_tables db) \<and>
    sql_revoke_membership_role i p role t (cd_tables db) = mem_revoke_membership_role i p role t (cd_tables db) \<and>
    sql_revoke_delegation d t (cd_tables db) = mem_revoke_delegation d t (cd_tables db) \<and>
    sql_update_delegation_active d active t (cd_tables db) = mem_update_delegation_active d active t (cd_tables db) \<and>
    sql_revoke k t (cd_tables db) = mem_revoke k t (cd_tables db) \<and>
    sql_get k (cd_tables db) = mem_get k (cd_tables db) \<and>
    (present name \<longrightarrow> sql_update_principal p name active t (cd_tables db) = mem_update_principal p name active t (cd_tables db)) \<and>
    (role_array VALID_ROLES (mb_roles m) \<longrightarrow>
       sql_update_membership m t (cd_tables db) = mem_update_membership m t (cd_tables db))"
  using reachable_schema [OF assms]
  by (simp add: disable_principal_agrees disable_membership_agrees revoke_membership_role_agrees revoke_delegation_agrees
      update_delegation_agrees revoke_agrees get_agrees update_principal_agrees update_membership_agrees)

lemma durable_revocations_agree_witness:
  "\<exists>m s. mem_disable_membership ''acme'' ''alice'' 5 (cd_tables sample_control_database) = (Inr m, s) \<and> \<not> mb_active m \<and>
     map_option tk_revoked_at (token_at ''k1'' s) = Some (Some 5)"
proof -
  have "(case sql_disable_membership ''acme'' ''alice'' 5 (cd_tables sample_control_database) of
      (Inr m, s) \<Rightarrow> \<not> mb_active m \<and> map_option tk_revoked_at (token_at ''k1'' s) = Some (Some 5) | _ \<Rightarrow> False)"
    by code_simp
  with durable_revocations_agree [OF sample_control_reachable, of "''alice''" 5 "''acme''"] show ?thesis
    by (auto split: prod.splits sum.splits)
qed

section \<open>A dead token\<close>

text \<open>
  C9. A token of the durable store that is revoked or expired never authenticates again, whatever methods are
  called in between: the primary key keeps an insertion or a rotation from replacing its row.
\<close>

theorem durable_dead_token_stays_dead:
  assumes "sql_step\<^sup>*\<^sup>* db db'" and "token_at k (cd_tables db) = Some r" and "\<not> token_live now r"
    and "token_parts ''mem1'' tok = Some (k, secret)" and "store_get ops = sql_get"
  shows "\<exists>m. TokenService_authenticate H ops tok now (cd_tables db') = (Inl (AuthenticationError m), cd_tables db')"
proof -
  obtain r' where r': "token_at k (cd_tables db') = Some r'" "token_weaker r r'"
    using sql_steps_weaker [OF assms(1)] assms(2) by (auto simp: tokens_weaker_def)
  from r'(2) assms(3) have "\<not> token_live now r'"
    by (auto simp: token_weaker_def token_live_def)
  with r'(1) show ?thesis
    unfolding TokenService_authenticate_def by (rule durable_tokens.dead_rejected [OF assms(5) _ _ assms(4)])
qed

text \<open>The token \<^verbatim>\<open>k1\<close> of the sample expires at time 90; saving another record under its identifier changes nothing.\<close>

lemma durable_dead_token_stays_dead_witness:
  "\<exists>m s. s = snd (sql_save ((sample_durable_token ''k1'')\<lparr>tk_expires_at := 200\<rparr>) (cd_tables sample_control_database)) \<and>
     TokenService_authenticate sample_digest (access_token_ops\<lparr>store_get := sql_get, store_mark_used := sql_mark_used\<rparr>)
       ''mem1.k1.sec'' 100 s = (Inl (AuthenticationError m), s)"
proof -
  let ?s = "snd (sql_save ((sample_durable_token ''k1'')\<lparr>tk_expires_at := 200\<rparr>) (cd_tables sample_control_database))"
  have "sql_step\<^sup>*\<^sup>* sample_control_database (sample_control_database\<lparr>cd_tables := ?s\<rparr>)"
    by (intro r_into_rtranclp sql_step.table sql_table_step.save)
  moreover have "\<not> token_live 100 (stored_token (sample_durable_token ''k1''))"
    by (simp add: token_live_def stored_token_def sample_durable_token_def)
  moreover have "token_parts ''mem1'' ''mem1.k1.sec'' = Some (''k1'', ''sec'')" by code_simp
  ultimately show ?thesis
    using durable_dead_token_stays_dead [OF _ sample_control_rows(1), where
        ops = "access_token_ops\<lparr>store_get := sql_get, store_mark_used := sql_mark_used\<rparr>" and H = sample_digest]
    by fastforce
qed

section \<open>The job queue\<close>



end
