(* ===== verification/Migration.thy ===== *)
theory Migration
  imports Pipeline ControlStore
begin

text \<open>
  Resumable schema migration of a Tenant that is already active (\<^verbatim>\<open>tenant_migration.py\<close>): the
  fixed steps, the in-memory progress store with its guarded transitions, and the service that
  plans, applies and resumes.

  The route provider and the adapter are protocols of the source: methods that act on a world
  \<open>'w\<close> and may raise. They are the record \<open>migration_ports\<close>.
\<close>

section \<open>Steps and states\<close>

datatype migration_status = MS_NOT_STARTED | MS_APPLYING | MS_FAILED | MS_COMPLETED

datatype migration_step =
    AM_VERIFY_RECOVERY_POINT
  | AM_MIGRATE_POSTGRES
  | AM_MIGRATE_NEO4J
  | AM_VERIFY_NEO4J_HEALTH
  | AM_VERIFY_ROUTING
  | AM_VERIFY_ISOLATION

definition ACTIVE_MIGRATION_STEPS :: "migration_step list" where
  "ACTIVE_MIGRATION_STEPS =
     [AM_VERIFY_RECOVERY_POINT, AM_MIGRATE_POSTGRES, AM_MIGRATE_NEO4J, AM_VERIFY_NEO4J_HEALTH,
      AM_VERIFY_ROUTING, AM_VERIFY_ISOLATION]"

fun migration_step_value :: "migration_step \<Rightarrow> string" where
  "migration_step_value AM_VERIFY_RECOVERY_POINT = ''verify_recovery_point''"
| "migration_step_value AM_MIGRATE_POSTGRES = ''migrate_postgres''"
| "migration_step_value AM_MIGRATE_NEO4J = ''migrate_neo4j''"
| "migration_step_value AM_VERIFY_NEO4J_HEALTH = ''verify_neo4j_health''"
| "migration_step_value AM_VERIFY_ROUTING = ''verify_routing''"
| "migration_step_value AM_VERIFY_ISOLATION = ''verify_isolation''"

fun migration_step_action :: "migration_step \<Rightarrow> string" where
  "migration_step_action AM_VERIFY_RECOVERY_POINT =
     ''verify a complete, checksummed Tenant recovery point within the 24-hour RPO''"
| "migration_step_action AM_MIGRATE_POSTGRES = ''apply the repository-pinned Tenant Alembic head''"
| "migration_step_action AM_MIGRATE_NEO4J = ''apply the registered idempotent Neo4j schema script''"
| "migration_step_action AM_VERIFY_NEO4J_HEALTH = ''execute the registered Neo4j health check''"
| "migration_step_action AM_VERIFY_ROUTING = ''verify the active exact Tenant route''"
| "migration_step_action AM_VERIFY_ISOLATION = ''verify the Tenant database role remains isolated''"

definition POSTGRES_TARGET_VERSION :: string where
  "POSTGRES_TARGET_VERSION = ''0006_agent_run_context''"

definition NEO4J_TARGET_VERSION :: string where "NEO4J_TARGET_VERSION = ''1''"

definition ACTIVE_MIGRATION_ID :: string where
  "ACTIVE_MIGRATION_ID =
     ''tenant-schema:'' @ POSTGRES_TARGET_VERSION @ '':neo4j-'' @ NEO4J_TARGET_VERSION @ '':recovery-gated-v1''"

record migration_state =
  ms_tenant_id :: string
  ms_migration_id :: string
  ms_postgres_target_version :: string
  ms_neo4j_target_version :: string
  ms_status :: migration_status
  ms_completed_steps :: "migration_step list"
  ms_failed_step :: "migration_step option"
  ms_failure_code :: "string option"
  ms_attempt :: int
  ms_revision :: int

type_synonym migration_states = "(string, migration_state) dict"

section \<open>The progress store\<close>

text \<open>\<open>_validate_prefix\<close> and \<open>_next_step\<close>, which validates the prefix first.\<close>

definition mig_validate_prefix :: "migration_step list \<Rightarrow> unit result" where
  "mig_validate_prefix completed =
     (if take (length completed) ACTIVE_MIGRATION_STEPS \<noteq> completed
      then Inl (ActiveMigrationConflict ''Completed migration steps are not a valid prefix'')
      else Inr ())"

definition mig_next_step :: "migration_step list \<Rightarrow> migration_step option result" where
  "mig_next_step completed =
     (case mig_validate_prefix completed of Inl e \<Rightarrow> Inl e
      | Inr _ \<Rightarrow> Inr (if length completed = length ACTIVE_MIGRATION_STEPS then None
                    else Some (ACTIVE_MIGRATION_STEPS ! length completed)))"

definition mig_get :: "string \<Rightarrow> migration_states \<Rightarrow> migration_state option" where
  "mig_get tenant_id d = dict_get d tenant_id"

definition mig_start :: "string \<Rightarrow> migration_states \<Rightarrow> (migration_state, migration_states) outcome" where
  "mig_start tenant_id d =
     (if dict_get d tenant_id \<noteq> None
      then (Inl (ActiveMigrationConflict ''Active Tenant migration already exists''), d)
      else let state = \<lparr>ms_tenant_id = tenant_id, ms_migration_id = ACTIVE_MIGRATION_ID,
                 ms_postgres_target_version = POSTGRES_TARGET_VERSION,
                 ms_neo4j_target_version = NEO4J_TARGET_VERSION, ms_status = MS_APPLYING,
                 ms_completed_steps = [], ms_failed_step = None, ms_failure_code = None,
                 ms_attempt = 1, ms_revision = 1\<rparr>
           in (Inr state, dict_set tenant_id state d))"

definition mig_require :: "string \<Rightarrow> migration_states \<Rightarrow> migration_state result" where
  "mig_require tenant_id d =
     (case dict_get d tenant_id of
        None \<Rightarrow> Inl (ActiveMigrationConflict ''Active Tenant migration has not started'')
      | Some state \<Rightarrow> Inr state)"

definition mig_require_applying :: "string \<Rightarrow> migration_states \<Rightarrow> migration_state result" where
  "mig_require_applying tenant_id d =
     (case mig_require tenant_id d of Inl e \<Rightarrow> Inl e
      | Inr state \<Rightarrow>
          if ms_status state \<noteq> MS_APPLYING
          then Inl (ActiveMigrationConflict ''Active Tenant migration is not applying'')
          else (case mig_validate_prefix (ms_completed_steps state) of Inl e \<Rightarrow> Inl e
                | Inr _ \<Rightarrow> Inr state))"

definition mig_store_resume :: "string \<Rightarrow> migration_states \<Rightarrow> (migration_state, migration_states) outcome" where
  "mig_store_resume tenant_id d =
     (case mig_require tenant_id d of Inl e \<Rightarrow> (Inl e, d)
      | Inr current \<Rightarrow>
          if ms_status current \<notin> {MS_FAILED, MS_APPLYING}
          then (Inl (ActiveMigrationConflict ''Only an interrupted/failed migration can resume''), d)
          else let state = current\<lparr>ms_status := MS_APPLYING, ms_failed_step := None, ms_failure_code := None,
                     ms_attempt := ms_attempt current + 1, ms_revision := ms_revision current + 1\<rparr>
               in (Inr state, dict_set tenant_id state d))"

definition mig_mark_completed ::
  "string \<Rightarrow> migration_step \<Rightarrow> migration_states \<Rightarrow> (migration_state, migration_states) outcome" where
  "mig_mark_completed tenant_id step d =
     (case mig_require_applying tenant_id d of Inl e \<Rightarrow> (Inl e, d)
      | Inr current \<Rightarrow>
          (case mig_next_step (ms_completed_steps current) of Inl e \<Rightarrow> (Inl e, d)
           | Inr expected \<Rightarrow>
               if Some step \<noteq> expected
               then (Inl (ActiveMigrationConflict ''Active migration steps must complete in order''), d)
               else let state = current\<lparr>ms_completed_steps := ms_completed_steps current @ [step],
                          ms_revision := ms_revision current + 1\<rparr>
                    in (Inr state, dict_set tenant_id state d)))"

definition mig_mark_failed ::
  "string \<Rightarrow> migration_step \<Rightarrow> string \<Rightarrow> migration_states \<Rightarrow> (migration_state, migration_states) outcome" where
  "mig_mark_failed tenant_id step failure_code d =
     (case mig_require_applying tenant_id d of Inl e \<Rightarrow> (Inl e, d)
      | Inr current \<Rightarrow>
          (case mig_next_step (ms_completed_steps current) of Inl e \<Rightarrow> (Inl e, d)
           | Inr expected \<Rightarrow>
               if Some step \<noteq> expected
               then (Inl (ActiveMigrationConflict ''Only the current migration step can fail''), d)
               else let state = current\<lparr>ms_status := MS_FAILED, ms_failed_step := Some step,
                          ms_failure_code := Some (take 128 failure_code),
                          ms_revision := ms_revision current + 1\<rparr>
                    in (Inr state, dict_set tenant_id state d)))"

definition mig_complete :: "string \<Rightarrow> migration_states \<Rightarrow> (migration_state, migration_states) outcome" where
  "mig_complete tenant_id d =
     (case mig_require_applying tenant_id d of Inl e \<Rightarrow> (Inl e, d)
      | Inr current \<Rightarrow>
          if ms_completed_steps current \<noteq> ACTIVE_MIGRATION_STEPS
          then (Inl (ActiveMigrationConflict ''Every migration verification must complete''), d)
          else let state = current\<lparr>ms_status := MS_COMPLETED, ms_revision := ms_revision current + 1\<rparr>
               in (Inr state, dict_set tenant_id state d))"

section \<open>Plans\<close>

record migration_planned_step =
  ap_step :: migration_step
  ap_action :: string
  ap_completed :: bool

record migration_plan =
  mp_tenant_id :: string
  mp_migration_id :: string
  mp_postgres_target_version :: string
  mp_neo4j_target_version :: string
  mp_current_status :: migration_status
  mp_steps :: "migration_planned_step list"

definition mig_pending_steps :: "migration_plan \<Rightarrow> migration_step list" where
  "mig_pending_steps plan = map ap_step (filter (\<lambda>item. \<not> ap_completed item) (mp_steps plan))"

definition mig_is_noop :: "migration_plan \<Rightarrow> bool" where
  "mig_is_noop plan \<longleftrightarrow> mig_pending_steps plan = []"

section \<open>The service\<close>

record 'w migration_ports =
  am_resolve_tenant_route :: "string \<Rightarrow> 'w \<Rightarrow> (tenant_route_record, 'w) outcome"
  am_verify_recovery_point :: "tenant_route_record \<Rightarrow> 'w \<Rightarrow> (unit, 'w) outcome"
  am_migrate_postgres :: "tenant_route_record \<Rightarrow> 'w \<Rightarrow> (unit, 'w) outcome"
  am_migrate_neo4j :: "tenant_route_record \<Rightarrow> 'w \<Rightarrow> (unit, 'w) outcome"
  am_verify_neo4j_health :: "tenant_route_record \<Rightarrow> 'w \<Rightarrow> (unit, 'w) outcome"
  am_verify_routing :: "tenant_route_record \<Rightarrow> 'w \<Rightarrow> (unit, 'w) outcome"
  am_verify_isolation :: "tenant_route_record \<Rightarrow> 'w \<Rightarrow> (unit, 'w) outcome"

fun mig_action :: "'w migration_ports \<Rightarrow> tenant_route_record \<Rightarrow> migration_step \<Rightarrow> 'w \<Rightarrow> (unit, 'w) outcome" where
  "mig_action ports route AM_VERIFY_RECOVERY_POINT = am_verify_recovery_point ports route"
| "mig_action ports route AM_MIGRATE_POSTGRES = am_migrate_postgres ports route"
| "mig_action ports route AM_MIGRATE_NEO4J = am_migrate_neo4j ports route"
| "mig_action ports route AM_VERIFY_NEO4J_HEALTH = am_verify_neo4j_health ports route"
| "mig_action ports route AM_VERIFY_ROUTING = am_verify_routing ports route"
| "mig_action ports route AM_VERIFY_ISOLATION = am_verify_isolation ports route"

definition mig_plan ::
  "'w migration_ports \<Rightarrow> string \<Rightarrow> migration_states \<Rightarrow> 'w \<Rightarrow> (migration_plan, 'w) outcome" where
  "mig_plan ports tenant_id d w =
     and_then (am_resolve_tenant_route ports tenant_id w) (\<lambda>_ w.
       let completed = (case mig_get tenant_id d of None \<Rightarrow> [] | Some state \<Rightarrow> ms_completed_steps state)
       in (Inr \<lparr>mp_tenant_id = tenant_id, mp_migration_id = ACTIVE_MIGRATION_ID,
            mp_postgres_target_version = POSTGRES_TARGET_VERSION,
            mp_neo4j_target_version = NEO4J_TARGET_VERSION,
            mp_current_status = (case mig_get tenant_id d of None \<Rightarrow> MS_NOT_STARTED | Some state \<Rightarrow> ms_status state),
            mp_steps = map (\<lambda>step. \<lparr>ap_step = step, ap_action = migration_step_action step,
              ap_completed = step \<in> set completed\<rparr>) ACTIVE_MIGRATION_STEPS\<rparr>, w))"

text \<open>
  The loop of \<open>_run\<close>. Only the step's own call is inside the \<^verbatim>\<open>try\<close> block; an exception of
  \<open>mark_failed\<close> in its handler replaces the original one.
\<close>

fun mig_run_steps ::
  "'w migration_ports \<Rightarrow> tenant_route_record \<Rightarrow> string \<Rightarrow> migration_step list \<Rightarrow> migration_state \<Rightarrow>
   migration_states \<Rightarrow> 'w \<Rightarrow> (migration_state, migration_states \<times> 'w) outcome" where
  "mig_run_steps ports route tenant_id [] state d w =
     (case mig_complete tenant_id d of (r, d') \<Rightarrow> (r, (d', w)))"
| "mig_run_steps ports route tenant_id (step # steps) state d w =
     (if step \<in> set (ms_completed_steps state) then mig_run_steps ports route tenant_id steps state d w
      else case mig_action ports route step w of
        (Inl e, w') \<Rightarrow>
          (case mig_mark_failed tenant_id step (error_name e) d of
             (Inl e', d') \<Rightarrow> (Inl e', (d', w'))
           | (Inr _, d') \<Rightarrow> (Inl (ActiveMigrationFailed (migration_step_value step)), (d', w')))
      | (Inr _, w') \<Rightarrow>
          (case mig_mark_completed tenant_id step d of
             (Inl e', d') \<Rightarrow> (Inl e', (d', w'))
           | (Inr state', d') \<Rightarrow> mig_run_steps ports route tenant_id steps state' d' w'))"

definition mig_run ::
  "'w migration_ports \<Rightarrow> string \<Rightarrow> migration_state \<Rightarrow> migration_states \<Rightarrow> 'w \<Rightarrow>
   (migration_state, migration_states \<times> 'w) outcome" where
  "mig_run ports tenant_id state d w =
     (case am_resolve_tenant_route ports tenant_id w of
        (Inl e, w') \<Rightarrow> (Inl e, (d, w'))
      | (Inr route, w') \<Rightarrow> mig_run_steps ports route tenant_id ACTIVE_MIGRATION_STEPS state d w')"

definition mig_apply ::
  "'w migration_ports \<Rightarrow> string \<Rightarrow> migration_states \<Rightarrow> 'w \<Rightarrow> (migration_state, migration_states \<times> 'w) outcome" where
  "mig_apply ports tenant_id d w =
     (case am_resolve_tenant_route ports tenant_id w of
        (Inl e, w') \<Rightarrow> (Inl e, (d, w'))
      | (Inr _, w') \<Rightarrow>
          (case mig_get tenant_id d of
             Some current \<Rightarrow>
               if ms_status current = MS_COMPLETED then (Inr current, (d, w'))
               else (Inl (ActiveMigrationConflict ''Migration exists; use resume after inspection''), (d, w'))
           | None \<Rightarrow>
               (case mig_start tenant_id d of
                  (Inl e, d') \<Rightarrow> (Inl e, (d', w'))
                | (Inr state, d') \<Rightarrow> mig_run ports tenant_id state d' w')))"

definition mig_resume ::
  "'w migration_ports \<Rightarrow> string \<Rightarrow> migration_states \<Rightarrow> 'w \<Rightarrow> (migration_state, migration_states \<times> 'w) outcome" where
  "mig_resume ports tenant_id d w =
     (case am_resolve_tenant_route ports tenant_id w of
        (Inl e, w') \<Rightarrow> (Inl e, (d, w'))
      | (Inr _, w') \<Rightarrow>
          (case mig_store_resume tenant_id d of
             (Inl e, d') \<Rightarrow> (Inl e, (d', w'))
           | (Inr state, d') \<Rightarrow> mig_run ports tenant_id state d' w'))"

end
