(* ===== verification/MigrationProperties.thy ===== *)
theory MigrationProperties
  imports Migration
begin

text \<open>
  Active-Tenant migration over any history of calls: the recorded progress is always a prefix
  of the fixed steps, one call of \<^verbatim>\<open>apply\<close> or \<^verbatim>\<open>resume\<close> is one run of the steps that are left,
  and nothing is migrated before the recovery point was verified.
\<close>

section \<open>The steps form a pipeline\<close>

interpretation mig: step_pipeline ACTIVE_MIGRATION_STEPS
  by unfold_locales (simp add: ACTIVE_MIGRATION_STEPS_def)

lemma mig_validate_prefix_ok:
  "valid_prefix ACTIVE_MIGRATION_STEPS completed \<Longrightarrow> mig_validate_prefix completed = Inr ()"
  by (simp add: mig_validate_prefix_def valid_prefix_def)

lemma mig_next_step_prefix:
  assumes "valid_prefix ACTIVE_MIGRATION_STEPS completed"
  shows "mig_next_step completed = Inr (next_step ACTIVE_MIGRATION_STEPS completed)"
proof -
  have "length completed \<le> length ACTIVE_MIGRATION_STEPS"
    using assms by (metis length_take min.bounded_iff valid_prefix_def order_refl)
  then show ?thesis
    using assms by (auto simp: mig_next_step_def mig_validate_prefix_ok next_step_def)
qed

lemma all_steps [simp]: "step \<in> set ACTIVE_MIGRATION_STEPS"
  by (cases step) (simp_all add: ACTIVE_MIGRATION_STEPS_def)

section \<open>Well-formed progress\<close>

definition migration_wf :: "string \<Rightarrow> migration_state \<Rightarrow> bool" where
  "migration_wf tenant_id st \<longleftrightarrow>
     ms_tenant_id st = tenant_id \<and> ms_migration_id st = ACTIVE_MIGRATION_ID \<and>
     1 \<le> ms_attempt st \<and> ms_attempt st \<le> ms_revision st \<and>
     valid_prefix ACTIVE_MIGRATION_STEPS (ms_completed_steps st) \<and> ms_status st \<noteq> MS_NOT_STARTED \<and>
     (ms_status st = MS_COMPLETED \<longrightarrow> ms_completed_steps st = ACTIVE_MIGRATION_STEPS) \<and>
     (if ms_status st = MS_FAILED
      then ms_failed_step st = next_step ACTIVE_MIGRATION_STEPS (ms_completed_steps st) \<and>
        ms_failed_step st \<noteq> None \<and> (\<exists>code. ms_failure_code st = Some code \<and> length code \<le> 128)
      else ms_failed_step st = None \<and> ms_failure_code st = None)"

definition mig_inv :: "migration_states \<Rightarrow> bool" where
  "mig_inv d \<longleftrightarrow> (\<forall>k st. dict_get d k = Some st \<longrightarrow> migration_wf k st)"

lemma mig_invD: "mig_inv d \<Longrightarrow> dict_get d k = Some st \<Longrightarrow> migration_wf k st"
  by (simp add: mig_inv_def)

lemma mig_inv_set [intro]: "mig_inv d \<Longrightarrow> migration_wf k st \<Longrightarrow> mig_inv (dict_set k st d)"
  by (simp add: mig_inv_def dict_get_set)

text \<open>A state that is applying, and what each store operation does to it.\<close>

definition applying :: "migration_states \<Rightarrow> string \<Rightarrow> migration_state \<Rightarrow> bool" where
  "applying d k st \<longleftrightarrow> mig_inv d \<and> dict_get d k = Some st \<and> ms_status st = MS_APPLYING"

lemma applying_wf: "applying d k st \<Longrightarrow> migration_wf k st"
  by (auto simp: applying_def dest: mig_invD)

lemma applying_prefix: "applying d k st \<Longrightarrow> valid_prefix ACTIVE_MIGRATION_STEPS (ms_completed_steps st)"
  by (auto dest: applying_wf simp: migration_wf_def)

lemma applying_require: "applying d k st \<Longrightarrow> mig_require_applying k d = Inr st"
  using applying_prefix [of d k st]
  by (simp add: mig_require_applying_def mig_require_def applying_def mig_validate_prefix_ok)

lemma applying_set:
  "mig_inv d \<Longrightarrow> migration_wf k st \<Longrightarrow> ms_status st = MS_APPLYING \<Longrightarrow> applying (dict_set k st d) k st"
  by (auto simp: applying_def)

lemma applying_mark:
  assumes "applying d k st" and "next_step ACTIVE_MIGRATION_STEPS (ms_completed_steps st) = Some x"
  defines "st' \<equiv> st\<lparr>ms_completed_steps := ms_completed_steps st @ [x], ms_revision := ms_revision st + 1\<rparr>"
  shows "mig_mark_completed k x d = (Inr st', dict_set k st' d)"
    and "applying (dict_set k st' d) k st'"
proof -
  show "mig_mark_completed k x d = (Inr st', dict_set k st' d)"
    using assms by (simp add: mig_mark_completed_def applying_require mig_next_step_prefix [OF applying_prefix] Let_def)
  have "migration_wf k st'"
    using applying_wf [OF assms(1)] mig.valid_prefix_next(1) [OF applying_prefix [OF assms(1)] assms(2)] assms(1)
    by (auto simp: st'_def migration_wf_def applying_def)
  then show "applying (dict_set k st' d) k st'"
    using assms(1) by (intro applying_set) (auto simp: st'_def applying_def)
qed

definition failed_at :: "migration_state \<Rightarrow> migration_step \<Rightarrow> error \<Rightarrow> migration_state" where
  "failed_at st x e = st\<lparr>ms_status := MS_FAILED, ms_failed_step := Some x,
     ms_failure_code := Some (take 128 (error_name e)), ms_revision := ms_revision st + 1\<rparr>"

lemma applying_fail:
  assumes "applying d k st" and "next_step ACTIVE_MIGRATION_STEPS (ms_completed_steps st) = Some x"
  shows "mig_mark_failed k x (error_name e) d = (Inr (failed_at st x e), dict_set k (failed_at st x e) d)"
    and "mig_inv (dict_set k (failed_at st x e) d)"
proof -
  show "mig_mark_failed k x (error_name e) d = (Inr (failed_at st x e), dict_set k (failed_at st x e) d)"
    using assms
    by (simp add: mig_mark_failed_def applying_require mig_next_step_prefix [OF applying_prefix] Let_def failed_at_def)
  have "migration_wf k (failed_at st x e)"
    using applying_wf [OF assms(1)] assms(2) by (auto simp: failed_at_def migration_wf_def)
  then show "mig_inv (dict_set k (failed_at st x e) d)" using assms(1) by (auto simp: applying_def)
qed

lemma applying_complete:
  assumes "applying d k st" and "ms_completed_steps st = ACTIVE_MIGRATION_STEPS"
  defines "st' \<equiv> st\<lparr>ms_status := MS_COMPLETED, ms_revision := ms_revision st + 1\<rparr>"
  shows "mig_complete k d = (Inr st', dict_set k st' d)" and "mig_inv (dict_set k st' d)"
proof -
  show "mig_complete k d = (Inr st', dict_set k st' d)"
    using assms by (simp add: mig_complete_def applying_require Let_def)
  have "migration_wf k st'"
    using applying_wf [OF assms(1)] assms(1,2) by (auto simp: st'_def migration_wf_def applying_def)
  then show "mig_inv (dict_set k st' d)" using assms(1) by (auto simp: applying_def)
qed

section \<open>One call is one run of the steps that are left\<close>

definition run_migration_record ::
  "migration_state \<Rightarrow> migration_step list \<Rightarrow> (migration_step \<times> error) option \<Rightarrow> migration_state" where
  "run_migration_record st finished failure =
     (let reached = st\<lparr>ms_completed_steps := ms_completed_steps st @ finished,
            ms_revision := ms_revision st + int (length finished)\<rparr>
      in case failure of
           None \<Rightarrow> reached\<lparr>ms_status := MS_COMPLETED, ms_revision := ms_revision reached + 1\<rparr>
         | Some (x, e) \<Rightarrow> failed_at reached x e)"

definition run_migration_result ::
  "migration_state \<Rightarrow> (migration_step \<times> error) option \<Rightarrow> migration_state result" where
  "run_migration_result st' failure =
     (case failure of None \<Rightarrow> Inr st' | Some (x, e) \<Rightarrow> Inl (ActiveMigrationFailed (migration_step_value x)))"

lemma run_migration_record_Cons:
  "run_migration_record (st\<lparr>ms_completed_steps := ms_completed_steps st @ [x], ms_revision := ms_revision st + 1\<rparr>)
     finished failure = run_migration_record st (x # finished) failure"
  by (simp add: run_migration_record_def failed_at_def Let_def split: option.split)

lemma mig_run_steps_skip:
  "set xs \<subseteq> set (ms_completed_steps st) \<Longrightarrow>
   mig_run_steps ports route k (xs @ ys) st d w = mig_run_steps ports route k ys st d w"
  by (induction xs) auto

lemma mig_run_steps_run:
  assumes "applying d k st" and "ACTIVE_MIGRATION_STEPS = ms_completed_steps st @ rest"
    and "run_pending (mig_action ports route) rest w = (finished, failure, w')"
  shows "\<exists>d'. mig_run_steps ports route k rest st d w =
      (run_migration_result (run_migration_record st finished failure) failure, (d', w')) \<and> mig_inv d' \<and>
    (\<forall>j. dict_get d' j = (if j = k then Some (run_migration_record st finished failure) else dict_get d j))"
  using assms
proof (induction rest arbitrary: st d w finished)
  case Nil
  then show ?case
    using applying_complete [of d k st]
    by (simp add: run_migration_result_def run_migration_record_def dict_get_set)
next
  case (Cons x xs)
  let ?c = "ms_completed_steps st"
  note nxt = mig.next_step_split [OF Cons.prems(2)]
  have notin: "x \<notin> set ?c" by (rule mig.split_disjoint [OF Cons.prems(2)]) simp
  obtain r w1 where act: "mig_action ports route x w = (r, w1)" by (rule prod.exhaust)
  show ?case
  proof (cases r)
    case (Inl e)
    have "finished = []" "failure = Some (x, e)" "w' = w1" using Cons.prems(3) act Inl by auto
    then show ?thesis
      using notin act Inl applying_fail [OF Cons.prems(1) nxt, of e]
      by (simp add: run_migration_result_def run_migration_record_def Let_def dict_get_set)
  next
    case (Inr u)
    let ?st = "st\<lparr>ms_completed_steps := ?c @ [x], ms_revision := ms_revision st + 1\<rparr>"
    note mark = applying_mark [OF Cons.prems(1) nxt]
    obtain fin where run: "run_pending (mig_action ports route) xs w1 = (fin, failure, w')" "finished = x # fin"
      using Cons.prems(3) act Inr by (auto split: prod.splits)
    have "ACTIVE_MIGRATION_STEPS = ms_completed_steps ?st @ xs" using Cons.prems(2) by simp
    from Cons.IH [OF mark(2) this run(1)] show ?thesis
      using notin act Inr mark(1) by (auto simp: run(2) run_migration_record_Cons dict_get_set)
  qed
qed

text \<open>The record a call starts from: the fresh one of \<open>start\<close>, or the one \<open>resume\<close> reopens.\<close>

definition begun :: "string \<Rightarrow> migration_states \<Rightarrow> migration_state" where
  "begun k d =
     (case dict_get d k of
        None \<Rightarrow> \<lparr>ms_tenant_id = k, ms_migration_id = ACTIVE_MIGRATION_ID,
          ms_postgres_target_version = POSTGRES_TARGET_VERSION, ms_neo4j_target_version = NEO4J_TARGET_VERSION,
          ms_status = MS_APPLYING, ms_completed_steps = [], ms_failed_step = None, ms_failure_code = None,
          ms_attempt = 1, ms_revision = 1\<rparr>
      | Some st \<Rightarrow> st\<lparr>ms_status := MS_APPLYING, ms_failed_step := None, ms_failure_code := None,
          ms_attempt := ms_attempt st + 1, ms_revision := ms_revision st + 1\<rparr>)"

definition migration_open :: "string \<Rightarrow> migration_states \<Rightarrow> bool" where
  "migration_open k d = (case dict_get d k of None \<Rightarrow> True | Some st \<Rightarrow> ms_status st \<noteq> MS_COMPLETED)"

text \<open>\<open>apply\<close> for a Tenant without a record, \<open>resume\<close> for one with a record.\<close>

definition migrate ::
  "'w migration_ports \<Rightarrow> string \<Rightarrow> migration_states \<Rightarrow> 'w \<Rightarrow> (migration_state, migration_states \<times> 'w) outcome" where
  "migrate ports k d w = (if dict_get d k = None then mig_apply ports k d w else mig_resume ports k d w)"

definition steps_left :: "string \<Rightarrow> migration_states \<Rightarrow> migration_step list" where
  "steps_left k d = drop (length (ms_completed_steps (begun k d))) ACTIVE_MIGRATION_STEPS"

lemma begun_applying:
  assumes "mig_inv d" and "migration_open k d"
  shows "applying (dict_set k (begun k d) d) k (begun k d)"
proof (rule applying_set [OF assms(1)])
  show "migration_wf k (begun k d)"
  proof (cases "dict_get d k")
    case None
    then show ?thesis by (simp add: begun_def migration_wf_def mig.valid_prefix_Nil)
  next
    case (Some st)
    then show ?thesis
      using mig_invD [OF assms(1) Some] assms(2) by (auto simp: begun_def migration_wf_def migration_open_def)
  qed
  show "ms_status (begun k d) = MS_APPLYING" by (simp add: begun_def split: option.split)
qed

lemma migrate_is_run:
  assumes "mig_inv d" and "migration_open k d" and "am_resolve_tenant_route ports k w = (Inr r, w0)"
  shows "migrate ports k d w = mig_run ports k (begun k d) (dict_set k (begun k d) d) w0"
proof (cases "dict_get d k")
  case None
  then show ?thesis
    by (simp add: migrate_def mig_apply_def assms(3) mig_get_def mig_start_def begun_def Let_def)
next
  case (Some st)
  have "ms_status st \<in> {MS_FAILED, MS_APPLYING}"
    using assms(2) Some mig_invD [OF assms(1) Some]
    by (cases "ms_status st") (auto simp: migration_open_def migration_wf_def)
  then show ?thesis
    using Some by (auto simp: migrate_def mig_resume_def assms(3) mig_store_resume_def mig_require_def begun_def Let_def)
qed

lemma migrate_run:
  assumes "mig_inv d" and "migration_open k d"
    and "am_resolve_tenant_route ports k w = (Inr r, w0)" and "am_resolve_tenant_route ports k w0 = (Inr route, w1)"
    and "run_pending (mig_action ports route) (steps_left k d) w1 = (finished, failure, w')"
  shows "\<exists>d'. migrate ports k d w =
      (run_migration_result (run_migration_record (begun k d) finished failure) failure, (d', w')) \<and> mig_inv d' \<and>
    (\<forall>j. dict_get d' j =
       (if j = k then Some (run_migration_record (begun k d) finished failure) else dict_get d j))"
proof -
  let ?st = "begun k d"
  note app = begun_applying [OF assms(1,2)]
  have steps: "ACTIVE_MIGRATION_STEPS = ms_completed_steps ?st @ steps_left k d"
    unfolding steps_left_def by (rule mig.valid_prefix_pending [OF applying_prefix [OF app]])
  have "mig_run_steps ports route k ACTIVE_MIGRATION_STEPS ?st (dict_set k ?st d) w1 =
      mig_run_steps ports route k (steps_left k d) ?st (dict_set k ?st d) w1"
    by (subst steps) (rule mig_run_steps_skip, simp)
  then show ?thesis
    using mig_run_steps_run [OF app steps assms(5)]
    by (auto simp: migrate_is_run [OF assms(1-3)] mig_run_def assms(4) dict_get_set)
qed

section \<open>Histories of calls\<close>

inductive migrated :: "'w itself \<Rightarrow> migration_states \<Rightarrow> bool" for world where
  init: "migrated world []"
| applied: "migrated world d \<Longrightarrow> migrated world (fst (snd (mig_apply (ports :: 'w migration_ports) k d w)))"
| resumed: "migrated world d \<Longrightarrow> migrated world (fst (snd (mig_resume (ports :: 'w migration_ports) k d w)))"

lemma migrate_inv:
  assumes "mig_inv d" and "migration_open k d"
  shows "mig_inv (fst (snd (migrate ports k d w)))"
proof (cases "am_resolve_tenant_route ports k w")
  case (Pair r w0)
  show ?thesis
  proof (cases r)
    case (Inl e)
    then show ?thesis using Pair assms(1) by (simp add: migrate_def mig_apply_def mig_resume_def)
  next
    case (Inr r0)
    obtain r1 w1 where second: "am_resolve_tenant_route ports k w0 = (r1, w1)" by (rule prod.exhaust)
    show ?thesis
    proof (cases r1)
      case (Inl e)
      then show ?thesis
        using migrate_is_run [OF assms Pair [unfolded Inr]] begun_applying [OF assms] second
        by (simp add: mig_run_def applying_def)
    next
      case (Inr route)
      obtain finished failure w' where
        "run_pending (mig_action ports route) (steps_left k d) w1 = (finished, failure, w')" by (rule prod_cases3)
      then show ?thesis
        using migrate_run [OF assms Pair [unfolded \<open>r = Inr r0\<close>] second [unfolded Inr]] by fastforce
    qed
  qed
qed

lemma mig_apply_inv: "mig_inv d \<Longrightarrow> mig_inv (fst (snd (mig_apply ports k d w)))"
  using migrate_inv [of d k ports w]
  by (cases "dict_get d k")
    (auto simp: migrate_def migration_open_def mig_apply_def mig_get_def split: prod.splits sum.splits)

lemma mig_resume_inv: "mig_inv d \<Longrightarrow> mig_inv (fst (snd (mig_resume ports k d w)))"
  using migrate_inv [of d k ports w]
  by (cases "dict_get d k")
    (auto simp: migrate_def migration_open_def mig_resume_def mig_store_resume_def mig_require_def
      split: prod.splits sum.splits if_splits)

lemma migrated_inv: "migrated world d \<Longrightarrow> mig_inv d"
  by (induction rule: migrated.induct) (auto simp: mig_inv_def [of "[]"] mig_apply_inv mig_resume_inv)

section \<open>Properties\<close>

text \<open>
  One call of \<^verbatim>\<open>apply\<close>, or of \<^verbatim>\<open>resume\<close> when the Tenant has a record, refines one run of
  the abstract pipeline on the route that the provider resolves: the steps after the recorded
  prefix are executed in order until one raises, the record holds the steps that completed, the
  step and the class of the exception when one raised, and is completed only after all six; no
  other Tenant's record changes.
\<close>

lemma migration_refines_pipeline_run:
  assumes "migrated world d" and "migration_open k d"
    and "am_resolve_tenant_route ports k w = (Inr r, w0)" and "am_resolve_tenant_route ports k w0 = (Inr route, w1)"
  shows "\<exists>d' w' finished failure.
    run_pending (mig_action ports route) (steps_left k d) w1 = (finished, failure, w') \<and>
    (if dict_get d k = None then mig_apply ports k d w else mig_resume ports k d w) =
      (run_migration_result (run_migration_record (begun k d) finished failure) failure, (d', w')) \<and>
    (\<forall>j. dict_get d' j =
       (if j = k then Some (run_migration_record (begun k d) finished failure) else dict_get d j))"
proof -
  obtain finished failure w' where
    run: "run_pending (mig_action ports route) (steps_left k d) w1 = (finished, failure, w')" by (rule prod_cases3)
  then show ?thesis
    using migrate_run [OF migrated_inv [OF assms(1)] assms(2-4) run] unfolding migrate_def by blast
qed

lemma steps_left_gate:
  assumes "mig_inv d" and "migration_open k d" and "AM_VERIFY_RECOVERY_POINT \<notin> set (ms_completed_steps (begun k d))"
  shows "\<exists>rest. steps_left k d = AM_VERIFY_RECOVERY_POINT # rest" and "ms_completed_steps (begun k d) = []"
proof -
  let ?c = "ms_completed_steps (begun k d)"
  have "take (length ?c) ACTIVE_MIGRATION_STEPS = ?c"
    using applying_prefix [OF begun_applying [OF assms(1,2)]] by (simp add: valid_prefix_def)
  then show "?c = []" using assms(3) by (cases ?c) (auto simp: ACTIVE_MIGRATION_STEPS_def)
  then show "\<exists>rest. steps_left k d = AM_VERIFY_RECOVERY_POINT # rest"
    by (simp add: steps_left_def ACTIVE_MIGRATION_STEPS_def)
qed

lemma mig_inv_first:
  assumes "mig_inv d" and "dict_get d j = Some st" and "ms_completed_steps st \<noteq> []"
  shows "hd (ms_completed_steps st) = AM_VERIFY_RECOVERY_POINT"
proof -
  have "take (length (ms_completed_steps st)) ACTIVE_MIGRATION_STEPS = ms_completed_steps st"
    using mig_invD [OF assms(1,2)] by (simp add: migration_wf_def valid_prefix_def)
  then show ?thesis using assms(3) by (cases "ms_completed_steps st") (auto simp: ACTIVE_MIGRATION_STEPS_def)
qed

text \<open>
  No schema is touched without a verified recovery point: as long as the record does not
  hold that step, a call in which \<^verbatim>\<open>verify_recovery_point\<close> raises calls nothing after it (the
  world is as that call left it), records no completed step and raises; and no record ever
  holds a completed step without that verification as its first.
\<close>

lemma recovery_point_gates_migration:
  assumes "migrated world d" and "migration_open k d"
    and "am_resolve_tenant_route ports k w = (Inr r, w0)" and "am_resolve_tenant_route ports k w0 = (Inr route, w1)"
    and "AM_VERIFY_RECOVERY_POINT \<notin> set (ms_completed_steps (begun k d))"
    and "am_verify_recovery_point ports route w1 = (Inl e, w2)"
  shows "\<exists>d'. (if dict_get d k = None then mig_apply ports k d w else mig_resume ports k d w) =
      (Inl (ActiveMigrationFailed ''verify_recovery_point''), (d', w2)) \<and>
    map_option ms_completed_steps (dict_get d' k) = Some [] \<and>
    (\<forall>j st. dict_get d' j = Some st \<longrightarrow> ms_completed_steps st \<noteq> [] \<longrightarrow>
       hd (ms_completed_steps st) = AM_VERIFY_RECOVERY_POINT)"
proof -
  note inv = migrated_inv [OF assms(1)]
  note gate = steps_left_gate [OF inv assms(2,5)]
  have run: "run_pending (mig_action ports route) (steps_left k d) w1 = ([], Some (AM_VERIFY_RECOVERY_POINT, e), w2)"
    using gate(1) assms(6) by auto
  obtain d' where d': "migrate ports k d w = (run_migration_result (run_migration_record (begun k d) []
        (Some (AM_VERIFY_RECOVERY_POINT, e))) (Some (AM_VERIFY_RECOVERY_POINT, e)), (d', w2))" "mig_inv d'"
      "dict_get d' k = Some (run_migration_record (begun k d) [] (Some (AM_VERIFY_RECOVERY_POINT, e)))"
    using migrate_run [OF inv assms(2-4) run] by auto
  have "\<forall>j st. dict_get d' j = Some st \<longrightarrow> ms_completed_steps st \<noteq> [] \<longrightarrow>
      hd (ms_completed_steps st) = AM_VERIFY_RECOVERY_POINT"
    by (intro allI impI) (rule mig_inv_first [OF d'(2)])
  then show ?thesis
    using d'(1,3) gate(2)
    by (intro exI [of _ d'])
      (simp add: migrate_def run_migration_result_def run_migration_record_def failed_at_def Let_def)
qed

section \<open>Instances\<close>

text \<open>
  Adapters over a log of their calls. The step \<open>broken\<close> raises \<^verbatim>\<open>OSError\<close>.
\<close>

definition sample_route :: tenant_route_record where
  "sample_route = \<lparr>rt_tenant_id = ''acme'', rt_neo4j_service_address = ''bolt://acme:7687'',
     rt_neo4j_secret_name = ''acme-neo4j'', rt_tenant_database_name = ''tenant_acme'',
     rt_tenant_database_role = ''tenant_acme_rw'', rt_healthy = True\<rparr>"

definition sample_call :: "migration_step option \<Rightarrow> migration_step \<Rightarrow> migration_step list \<Rightarrow> (unit, migration_step list) outcome" where
  "sample_call broken step w = (if broken = Some step then Inl (AdapterError ''OSError'') else Inr (), w @ [step])"

definition sample_migration_ports :: "migration_step option \<Rightarrow> migration_step list migration_ports" where
  "sample_migration_ports broken =
     \<lparr>am_resolve_tenant_route = (\<lambda>_ w. (Inr sample_route, w)),
      am_verify_recovery_point = (\<lambda>_. sample_call broken AM_VERIFY_RECOVERY_POINT),
      am_migrate_postgres = (\<lambda>_. sample_call broken AM_MIGRATE_POSTGRES),
      am_migrate_neo4j = (\<lambda>_. sample_call broken AM_MIGRATE_NEO4J),
      am_verify_neo4j_health = (\<lambda>_. sample_call broken AM_VERIFY_NEO4J_HEALTH),
      am_verify_routing = (\<lambda>_. sample_call broken AM_VERIFY_ROUTING),
      am_verify_isolation = (\<lambda>_. sample_call broken AM_VERIFY_ISOLATION)\<rparr>"

definition sample_broken_migration :: migration_states where
  "sample_broken_migration = fst (snd (mig_apply (sample_migration_ports (Some AM_MIGRATE_NEO4J)) ''acme'' [] []))"

lemma sample_broken_migrated: "migrated TYPE(migration_step list) sample_broken_migration"
  unfolding sample_broken_migration_def by (intro migrated.intros)

lemma sample_resolves: "am_resolve_tenant_route (sample_migration_ports broken) k w = (Inr sample_route, w)"
  by (simp add: sample_migration_ports_def)

end
