(* ===== verification/Decommission.thy ===== *)
theory Decommission
  imports Pipeline Manifest
begin

text \<open>
  Tenant decommissioning (\<^verbatim>\<open>decommission.py\<close>): the captured resources of a Tenant and their
  validation, the persisted request and its states, the in-memory store with its revision
  check, and the service that requests, confirms, cancels and finalizes.

  The access, protection, reactivation and destruction ports are protocols of the source:
  methods that act on a world \<open>'w\<close> and may raise. They are fields of the record
  \<open>decommission_service\<close>, with the two periods the service is built with. A timestamp of the
  model always has a time zone, so the tests for it are always passed.
\<close>

section \<open>States, steps and evidence\<close>

datatype decommission_state =
    DS_SUSPENDING
  | DS_SUSPENDED
  | DS_GRACE_PERIOD
  | DS_FINALIZING
  | DS_CANCELLED

fun decommission_state_value :: "decommission_state \<Rightarrow> string" where
  "decommission_state_value DS_SUSPENDING = ''suspending''"
| "decommission_state_value DS_SUSPENDED = ''suspended''"
| "decommission_state_value DS_GRACE_PERIOD = ''grace-period''"
| "decommission_state_value DS_FINALIZING = ''finalizing''"
| "decommission_state_value DS_CANCELLED = ''cancelled''"

datatype suspension_step = SUSPEND_SESSIONS | BLOCK_TOKEN_ISSUANCE | REVOKE_ACTIVE_CREDENTIALS

fun suspension_step_value :: "suspension_step \<Rightarrow> string" where
  "suspension_step_value SUSPEND_SESSIONS = ''suspend-sessions''"
| "suspension_step_value BLOCK_TOKEN_ISSUANCE = ''block-token-issuance''"
| "suspension_step_value REVOKE_ACTIVE_CREDENTIALS = ''revoke-active-credentials''"

definition SUSPENSION_ORDER :: "suspension_step list" where
  "SUSPENSION_ORDER = [SUSPEND_SESSIONS, BLOCK_TOKEN_ISSUANCE, REVOKE_ACTIVE_CREDENTIALS]"

datatype destruction_step =
    REMOVE_COMPOSE_PROJECT
  | REMOVE_NEO4J_VOLUME
  | REMOVE_TENANT_DATABASE_AND_ROLE
  | REMOVE_ROUTE
  | REMOVE_TENANT_SECRET_FILES
  | PURGE_TENANT_DOMAIN_RECORDS

fun destruction_step_value :: "destruction_step \<Rightarrow> string" where
  "destruction_step_value REMOVE_COMPOSE_PROJECT = ''remove-compose-project''"
| "destruction_step_value REMOVE_NEO4J_VOLUME = ''remove-neo4j-volume''"
| "destruction_step_value REMOVE_TENANT_DATABASE_AND_ROLE = ''remove-tenant-database-and-role''"
| "destruction_step_value REMOVE_ROUTE = ''remove-route''"
| "destruction_step_value REMOVE_TENANT_SECRET_FILES = ''remove-tenant-secret-files''"
| "destruction_step_value PURGE_TENANT_DOMAIN_RECORDS = ''purge-tenant-domain-records''"

definition DESTRUCTION_ORDER :: "destruction_step list" where
  "DESTRUCTION_ORDER =
     [REMOVE_COMPOSE_PROJECT, REMOVE_NEO4J_VOLUME, REMOVE_TENANT_DATABASE_AND_ROLE, REMOVE_ROUTE,
      REMOVE_TENANT_SECRET_FILES, PURGE_TENANT_DOMAIN_RECORDS]"

datatype protection_kind = PK_BACKUP | PK_ACCEPTED_EXPORT

section \<open>The resources of a Tenant\<close>

record tenant_resources =
  rs_tenant_id :: string
  rs_compose_project :: string
  rs_neo4j_volume :: string
  rs_database_name :: string
  rs_database_role :: string
  rs_route_id :: string
  rs_tenant_secret_ref :: string

text \<open>
  \<^verbatim>\<open>^[A-Za-z0-9][A-Za-z0-9._-]*$\<close> and its relatives: the characters a name may start with and
  those it may go on with.
\<close>

definition is_upper :: "char \<Rightarrow> bool" where
  "is_upper c \<longleftrightarrow> CHR ''A'' \<le> c \<and> c \<le> CHR ''Z''"

definition is_alnum :: "char \<Rightarrow> bool" where
  "is_alnum c \<longleftrightarrow> is_upper c \<or> is_lower c \<or> is_digit c"

definition name_pattern :: "string \<Rightarrow> string \<Rightarrow> bool" where
  "name_pattern extra s \<longleftrightarrow>
     s \<noteq> [] \<and> is_alnum (hd s) \<and> list_all (\<lambda>c. is_alnum c \<or> c \<in> set extra) (tl s)"

definition sql_name_pattern :: "string \<Rightarrow> bool" where
  "sql_name_pattern s \<longleftrightarrow>
     s \<noteq> [] \<and> (is_upper (hd s) \<or> is_lower (hd s) \<or> hd s = CHR ''_'') \<and>
     list_all (\<lambda>c. is_alnum c \<or> c = CHR ''_'') (tl s)"

text \<open>
  The components of a \<^verbatim>\<open>PurePosixPath\<close> after the root: the parts between slashes, without
  empty ones and without \<^verbatim>\<open>.\<close>; the name is the last of them.
\<close>

definition posix_parts :: "string \<Rightarrow> string list" where
  "posix_parts path =
     filter (\<lambda>part. part \<noteq> [] \<and> part \<noteq> ''.'') (py_split CHR ''/'' (length path) path)"

definition posix_name :: "string \<Rightarrow> string" where
  "posix_name path = (if posix_parts path = [] then [] else last (posix_parts path))"

definition posix_is_absolute :: "string \<Rightarrow> bool" where
  "posix_is_absolute path \<longleftrightarrow> path \<noteq> [] \<and> hd path = CHR ''/''"

definition validate_tenant_derived_targets :: "tenant_resources \<Rightarrow> tenant_resources result" where
  "validate_tenant_derived_targets r =
     (let tid = rs_tenant_id r;
          normalized = py_replace CHR ''.'' CHR ''_'' (py_replace CHR ''-'' CHR ''_'' tid)
      in if rs_compose_project r \<noteq> ''memory-tenant-'' @ tid
         then Inl (ValueError ''compose_project must be derived from tenant_id'')
         else if rs_neo4j_volume r \<noteq> ''memory-tenant-'' @ tid @ ''-neo4j-data''
         then Inl (ValueError ''neo4j_volume must be derived from tenant_id'')
         else if rs_database_name r \<noteq> ''tenant_'' @ normalized
         then Inl (ValueError ''database_name must be derived from tenant_id'')
         else if rs_database_role r \<noteq> ''tenant_'' @ normalized @ ''_rw''
         then Inl (ValueError ''database_role must be derived from tenant_id'')
         else if rs_route_id r \<noteq> ''route:'' @ tid
         then Inl (ValueError ''route_id must be derived from tenant_id'')
         else if \<not> posix_is_absolute (rs_tenant_secret_ref r) \<or>
                 ''..'' \<in> set (posix_parts (rs_tenant_secret_ref r)) \<or>
                 posix_name (rs_tenant_secret_ref r) \<noteq> tid
         then Inl (ValueError ''tenant_secret_ref must be an exact absolute tenant path'')
         else Inr r)"

text \<open>The constructor: every field is stripped, then checked, then the validator runs.\<close>

definition TenantResourceIdentity :: "tenant_resources \<Rightarrow> tenant_resources result" where
  "TenantResourceIdentity raw =
     (let r = \<lparr>rs_tenant_id = py_strip (rs_tenant_id raw), rs_compose_project = py_strip (rs_compose_project raw),
            rs_neo4j_volume = py_strip (rs_neo4j_volume raw), rs_database_name = py_strip (rs_database_name raw),
            rs_database_role = py_strip (rs_database_role raw), rs_route_id = py_strip (rs_route_id raw),
            rs_tenant_secret_ref = py_strip (rs_tenant_secret_ref raw)\<rparr>
      in if \<not> (length_between 3 40 (rs_tenant_id r) \<and> name_pattern ''._-'' (rs_tenant_id r))
         then Inl (ValueError ''tenant_id'')
         else if \<not> (length_between 1 160 (rs_compose_project r) \<and> name_pattern ''._-'' (rs_compose_project r))
         then Inl (ValueError ''compose_project'')
         else if \<not> (length_between 1 160 (rs_neo4j_volume r) \<and> name_pattern ''._-'' (rs_neo4j_volume r))
         then Inl (ValueError ''neo4j_volume'')
         else if \<not> (length_between 1 63 (rs_database_name r) \<and> sql_name_pattern (rs_database_name r))
         then Inl (ValueError ''database_name'')
         else if \<not> (length_between 1 63 (rs_database_role r) \<and> sql_name_pattern (rs_database_role r))
         then Inl (ValueError ''database_role'')
         else if \<not> (length_between 1 160 (rs_route_id r) \<and> name_pattern ''._:-'' (rs_route_id r))
         then Inl (ValueError ''route_id'')
         else if \<not> length_between 1 512 (rs_tenant_secret_ref r) then Inl (ValueError ''tenant_secret_ref'')
         else validate_tenant_derived_targets r)"

section \<open>Evidence, requests and tombstones\<close>

record protection_evidence =
  pf_kind :: protection_kind
  pf_artifact_id :: string
  pf_created_at :: datetime
  pf_verified_at :: datetime
  pf_verified_by :: string
  pf_integrity_verified :: bool
  pf_complete :: bool
  pf_export_explicitly_accepted :: bool

definition ProtectionEvidence :: "protection_evidence \<Rightarrow> protection_evidence result" where
  "ProtectionEvidence e =
     (if \<not> (length_between 1 160 (pf_artifact_id e) \<and> name_pattern ''._:-'' (pf_artifact_id e))
      then Inl (ValueError ''artifact_id'')
      else if \<not> length_between 1 128 (pf_verified_by e) then Inl (ValueError ''verified_by'')
      else if pf_verified_at e < pf_created_at e
      then Inl (ValueError ''verified_at cannot precede created_at'')
      else Inr e)"

record decommission_record =
  dr_request_id :: string
  dr_resources :: tenant_resources
  dr_requested_by :: string
  dr_reason :: string
  dr_requested_at :: datetime
  dr_protection_policy :: string
  dr_state :: decommission_state
  dr_suspension_steps :: "suspension_step list"
  dr_confirmed_by :: "string option"
  dr_confirmed_at :: "datetime option"
  dr_grace_ends_at :: "datetime option"
  dr_protection_evidence :: "protection_evidence option"
  dr_destruction_steps :: "destruction_step list"
  dr_cancelled_by :: "string option"
  dr_cancelled_at :: "datetime option"
  dr_last_failed_action :: "string option"
  dr_revision :: int

definition DecommissionRecord ::
  "string \<Rightarrow> tenant_resources \<Rightarrow> string \<Rightarrow> string \<Rightarrow> datetime \<Rightarrow> string \<Rightarrow> decommission_record result" where
  "DecommissionRecord request_id resources actor_id reason requested_at protection_policy =
     (if \<not> length_between 1 160 request_id then Inl (ValueError ''request_id'')
      else if \<not> length_between 1 128 actor_id then Inl (ValueError ''requested_by'')
      else if \<not> length_between 1 500 reason then Inl (ValueError ''reason'')
      else if \<not> length_between 1 160 protection_policy then Inl (ValueError ''protection_policy'')
      else Inr \<lparr>dr_request_id = request_id, dr_resources = resources, dr_requested_by = actor_id,
        dr_reason = reason, dr_requested_at = requested_at, dr_protection_policy = protection_policy,
        dr_state = DS_SUSPENDING, dr_suspension_steps = [], dr_confirmed_by = None, dr_confirmed_at = None,
        dr_grace_ends_at = None, dr_protection_evidence = None, dr_destruction_steps = [],
        dr_cancelled_by = None, dr_cancelled_at = None, dr_last_failed_action = None, dr_revision = 0\<rparr>)"

record decommission_tombstone =
  dt_request_id :: string
  dt_tenant_id :: string
  dt_requested_by :: string
  dt_confirmed_by :: string
  dt_destroyed_at :: datetime
  dt_status :: string

section \<open>The store\<close>

record decommission_store =
  ds_records :: "(string, decommission_record) dict"
  ds_tombstones :: "(string, decommission_tombstone) dict"

definition empty_decommission_store :: decommission_store where
  "empty_decommission_store = \<lparr>ds_records = [], ds_tombstones = []\<rparr>"

definition dec_get_record :: "string \<Rightarrow> decommission_store \<Rightarrow> decommission_record option" where
  "dec_get_record request_id s = dict_get (ds_records s) request_id"

definition dec_find_open_for_tenant :: "string \<Rightarrow> decommission_store \<Rightarrow> decommission_record option" where
  "dec_find_open_for_tenant tenant_id s =
     find (\<lambda>record. rs_tenant_id (dr_resources record) = tenant_id \<and> dr_state record \<noteq> DS_CANCELLED)
       (dict_values (ds_records s))"

definition dec_save_record ::
  "decommission_record \<Rightarrow> decommission_store \<Rightarrow> (decommission_record, decommission_store) outcome" where
  "dec_save_record record s =
     (let write = (let saved = record\<lparr>dr_revision := dr_revision record + 1\<rparr>
                   in (Inr saved, s\<lparr>ds_records := dict_set (dr_request_id record) saved (ds_records s)\<rparr>))
      in case dict_get (ds_records s) (dr_request_id record) of
           None \<Rightarrow>
             if dr_revision record \<noteq> 0
             then (Inl (DecommissionConflict ''new request must start at revision zero''), s) else write
         | Some current \<Rightarrow>
             if dr_revision current \<noteq> dr_revision record
             then (Inl (DecommissionConflict ''decommission request changed concurrently''), s) else write)"

definition dec_get_tombstone :: "string \<Rightarrow> decommission_store \<Rightarrow> decommission_tombstone option" where
  "dec_get_tombstone request_id s = dict_get (ds_tombstones s) request_id"

definition dec_replace_with_tombstone ::
  "decommission_record \<Rightarrow> decommission_tombstone \<Rightarrow> decommission_store \<Rightarrow> (unit, decommission_store) outcome" where
  "dec_replace_with_tombstone record tombstone s =
     (if dict_get (ds_records s) (dr_request_id record) \<noteq> Some record
      then (Inl (DecommissionConflict ''record changed before tombstone replacement''), s)
      else (Inr (), s\<lparr>ds_records := dict_pop (dr_request_id record) (ds_records s),
                      ds_tombstones := dict_set (dt_request_id tombstone) tombstone (ds_tombstones s)\<rparr>))"

section \<open>The service\<close>

record 'w decommission_service =
  dv_suspend_sessions :: "tenant_resources \<Rightarrow> 'w \<Rightarrow> (unit, 'w) outcome"
  dv_block_token_issuance :: "tenant_resources \<Rightarrow> 'w \<Rightarrow> (unit, 'w) outcome"
  dv_revoke_active_credentials :: "tenant_resources \<Rightarrow> 'w \<Rightarrow> (unit, 'w) outcome"
  dv_reactivate_without_issuing_tokens :: "tenant_resources \<Rightarrow> 'w \<Rightarrow> (unit, 'w) outcome"
  dv_verify_evidence :: "string \<Rightarrow> protection_evidence \<Rightarrow> 'w \<Rightarrow> (bool, 'w) outcome"
  dv_verify_route :: "tenant_resources \<Rightarrow> 'w \<Rightarrow> (bool, 'w) outcome"
  dv_verify_schema :: "tenant_resources \<Rightarrow> 'w \<Rightarrow> (bool, 'w) outcome"
  dv_verify_isolation :: "tenant_resources \<Rightarrow> 'w \<Rightarrow> (bool, 'w) outcome"
  dv_verify_credentials :: "tenant_resources \<Rightarrow> 'w \<Rightarrow> (bool, 'w) outcome"
  dv_verify_health :: "tenant_resources \<Rightarrow> 'w \<Rightarrow> (bool, 'w) outcome"
  dv_remove_compose_project :: "tenant_resources \<Rightarrow> 'w \<Rightarrow> (unit, 'w) outcome"
  dv_remove_neo4j_volume :: "tenant_resources \<Rightarrow> 'w \<Rightarrow> (unit, 'w) outcome"
  dv_remove_tenant_database_and_role :: "tenant_resources \<Rightarrow> 'w \<Rightarrow> (unit, 'w) outcome"
  dv_remove_route :: "tenant_resources \<Rightarrow> 'w \<Rightarrow> (unit, 'w) outcome"
  dv_remove_tenant_secret_files :: "tenant_resources \<Rightarrow> 'w \<Rightarrow> (unit, 'w) outcome"
  dv_purge_tenant_domain_records :: "tenant_resources \<Rightarrow> 'w \<Rightarrow> (unit, 'w) outcome"
  dv_grace_period :: timedelta
  dv_backup_max_age :: timedelta

definition DEFAULT_GRACE_PERIOD :: timedelta where "DEFAULT_GRACE_PERIOD = days 30"

definition DEFAULT_BACKUP_MAX_AGE :: timedelta where "DEFAULT_BACKUP_MAX_AGE = hours 24"

fun suspension_action :: "'w decommission_service \<Rightarrow> suspension_step \<Rightarrow> tenant_resources \<Rightarrow> 'w \<Rightarrow> (unit, 'w) outcome" where
  "suspension_action sv SUSPEND_SESSIONS = dv_suspend_sessions sv"
| "suspension_action sv BLOCK_TOKEN_ISSUANCE = dv_block_token_issuance sv"
| "suspension_action sv REVOKE_ACTIVE_CREDENTIALS = dv_revoke_active_credentials sv"

fun destruction_action :: "'w decommission_service \<Rightarrow> destruction_step \<Rightarrow> tenant_resources \<Rightarrow> 'w \<Rightarrow> (unit, 'w) outcome" where
  "destruction_action sv REMOVE_COMPOSE_PROJECT = dv_remove_compose_project sv"
| "destruction_action sv REMOVE_NEO4J_VOLUME = dv_remove_neo4j_volume sv"
| "destruction_action sv REMOVE_TENANT_DATABASE_AND_ROLE = dv_remove_tenant_database_and_role sv"
| "destruction_action sv REMOVE_ROUTE = dv_remove_route sv"
| "destruction_action sv REMOVE_TENANT_SECRET_FILES = dv_remove_tenant_secret_files sv"
| "destruction_action sv PURGE_TENANT_DOMAIN_RECORDS = dv_purge_tenant_domain_records sv"

text \<open>
  The loop that \<^verbatim>\<open>request\<close> and \<^verbatim>\<open>finalize\<close> both run over their fixed order of steps: skip a
  completed step, run the action, and save the record with the step added, or with the name of
  the failed action when it raised. \<open>put completed\<close> stores the completed steps in the record.
  An exception of \<open>save_record\<close> in the handler replaces the original one.
\<close>

fun persisted_steps ::
  "('s \<Rightarrow> 'w \<Rightarrow> (unit, 'w) outcome) \<Rightarrow> ('s \<Rightarrow> string) \<Rightarrow> ('s list \<Rightarrow> decommission_record \<Rightarrow> decommission_record) \<Rightarrow>
   's list \<Rightarrow> 's list \<Rightarrow> decommission_record \<Rightarrow> decommission_store \<Rightarrow> 'w \<Rightarrow>
   (decommission_record, decommission_store \<times> 'w) outcome" where
  "persisted_steps act value put [] completed record s w = (Inr record, (s, w))"
| "persisted_steps act value put (step # steps) completed record s w =
     (if step \<in> set completed then persisted_steps act value put steps completed record s w
      else case act step w of
        (Inl e, w') \<Rightarrow>
          (case dec_save_record ((put completed record)\<lparr>dr_last_failed_action := Some (value step)\<rparr>) s of
             (Inl e', s') \<Rightarrow> (Inl e', (s', w'))
           | (Inr _, s') \<Rightarrow> (Inl (DecommissionOperationFailed (value step)), (s', w')))
      | (Inr _, w') \<Rightarrow>
          (case dec_save_record ((put (completed @ [step]) record)\<lparr>dr_last_failed_action := None\<rparr>) s of
             (Inl e', s') \<Rightarrow> (Inl e', (s', w'))
           | (Inr saved, s') \<Rightarrow> persisted_steps act value put steps (completed @ [step]) saved s' w'))"

definition put_suspension :: "suspension_step list \<Rightarrow> decommission_record \<Rightarrow> decommission_record" where
  "put_suspension completed record = record\<lparr>dr_suspension_steps := completed\<rparr>"

definition put_destruction :: "destruction_step list \<Rightarrow> decommission_record \<Rightarrow> decommission_record" where
  "put_destruction completed record = record\<lparr>dr_destruction_steps := completed\<rparr>"

definition run_suspension ::
  "'w decommission_service \<Rightarrow> tenant_resources \<Rightarrow> decommission_record \<Rightarrow> decommission_store \<Rightarrow> 'w \<Rightarrow>
   (decommission_record, decommission_store \<times> 'w) outcome" where
  "run_suspension sv resources record =
     persisted_steps (\<lambda>step. suspension_action sv step resources) suspension_step_value put_suspension
       SUSPENSION_ORDER (dr_suspension_steps record) record"

definition run_destruction ::
  "'w decommission_service \<Rightarrow> decommission_record \<Rightarrow> decommission_store \<Rightarrow> 'w \<Rightarrow>
   (decommission_record, decommission_store \<times> 'w) outcome" where
  "run_destruction sv record =
     persisted_steps (\<lambda>step. destruction_action sv step (dr_resources record)) destruction_step_value put_destruction
       DESTRUCTION_ORDER (dr_destruction_steps record) record"

section \<open>Requesting\<close>

definition save_and_return ::
  "decommission_record \<Rightarrow> decommission_store \<Rightarrow> 'w \<Rightarrow> (decommission_record, decommission_store \<times> 'w) outcome" where
  "save_and_return record s w = (case dec_save_record record s of (r, s') \<Rightarrow> (r, (s', w)))"

definition accept_request ::
  "string \<Rightarrow> tenant_resources \<Rightarrow> string \<Rightarrow> string \<Rightarrow> datetime \<Rightarrow> string \<Rightarrow> decommission_store \<Rightarrow>
   (decommission_record, decommission_store) outcome" where
  "accept_request request_id resources actor_id reason requested_at protection_policy s =
     (case dec_get_record request_id s of
        None \<Rightarrow>
          if dec_get_tombstone request_id s \<noteq> None
          then (Inl (DecommissionConflict ''request has already been finalized''), s)
          else if dec_find_open_for_tenant (rs_tenant_id resources) s \<noteq> None
          then (Inl (DecommissionConflict ''tenant already has an open decommission request''), s)
          else (case DecommissionRecord request_id resources actor_id reason requested_at protection_policy of
                  Inl e \<Rightarrow> (Inl e, s)
                | Inr record \<Rightarrow> dec_save_record record s)
      | Some record \<Rightarrow>
          if dr_resources record \<noteq> resources \<or> dr_requested_by record \<noteq> actor_id \<or>
             dr_reason record \<noteq> reason \<or> dr_protection_policy record \<noteq> protection_policy
          then (Inl (DecommissionConflict ''idempotent request payload does not match''), s)
          else (Inr record, s))"

definition dec_request ::
  "'w decommission_service \<Rightarrow> string \<Rightarrow> tenant_resources \<Rightarrow> string \<Rightarrow> string \<Rightarrow> datetime \<Rightarrow> string \<Rightarrow>
   decommission_store \<Rightarrow> 'w \<Rightarrow> (decommission_record, decommission_store \<times> 'w) outcome" where
  "dec_request sv request_id resources actor_id reason requested_at protection_policy s w =
     (case accept_request request_id resources actor_id reason requested_at protection_policy s of
        (Inl e, s') \<Rightarrow> (Inl e, (s', w))
      | (Inr record, s') \<Rightarrow>
          if dr_state record \<noteq> DS_SUSPENDING then (Inr record, (s', w))
          else (case run_suspension sv resources record s' w of
                  (Inl e, sw) \<Rightarrow> (Inl e, sw)
                | (Inr record', (s'', w')) \<Rightarrow>
                    save_and_return (record'\<lparr>dr_state := DS_SUSPENDED, dr_last_failed_action := None\<rparr>) s'' w'))"

section \<open>Confirming\<close>

definition require_exact_record :: "string \<Rightarrow> string \<Rightarrow> decommission_store \<Rightarrow> decommission_record result" where
  "require_exact_record request_id tenant_id s =
     (case dec_get_record request_id s of
        None \<Rightarrow> Inl (DecommissionConflict ''decommission request does not exist'')
      | Some record \<Rightarrow>
          if rs_tenant_id (dr_resources record) \<noteq> tenant_id
          then Inl (DecommissionConflict ''tenant_id does not match request'') else Inr record)"

definition validate_protection ::
  "'w decommission_service \<Rightarrow> decommission_record \<Rightarrow> protection_evidence \<Rightarrow> datetime \<Rightarrow> 'w \<Rightarrow> (unit, 'w) outcome" where
  "validate_protection sv record evidence now w =
     (if \<not> pf_complete evidence \<or> \<not> pf_integrity_verified evidence
      then (Inl (DecommissionNotReady ''recovery evidence is incomplete or unverified''), w)
      else if pf_kind evidence = PK_BACKUP \<and> dv_backup_max_age sv < now - pf_created_at evidence
      then (Inl (DecommissionNotReady ''backup is older than the accepted recovery window''), w)
      else if pf_kind evidence = PK_BACKUP \<and> now < pf_created_at evidence
      then (Inl (DecommissionNotReady ''backup evidence is from the future''), w)
      else if pf_kind evidence \<noteq> PK_BACKUP \<and> \<not> pf_export_explicitly_accepted evidence
      then (Inl (DecommissionNotReady ''export policy has not been explicitly accepted''), w)
      else if now < pf_verified_at evidence
      then (Inl (DecommissionNotReady ''evidence verification is from the future''), w)
      else case dv_verify_evidence sv (rs_tenant_id (dr_resources record)) evidence w of
             (Inl e, w') \<Rightarrow> (Inl (DecommissionOperationFailed ''verify-protection-evidence''), w')
           | (Inr valid, w') \<Rightarrow>
               (if \<not> valid then Inl (DecommissionNotReady ''recovery artifact could not be verified'') else Inr (), w'))"

definition dec_confirm ::
  "'w decommission_service \<Rightarrow> string \<Rightarrow> string \<Rightarrow> string \<Rightarrow> protection_evidence \<Rightarrow> datetime \<Rightarrow>
   decommission_store \<Rightarrow> 'w \<Rightarrow> (decommission_record, decommission_store \<times> 'w) outcome" where
  "dec_confirm sv request_id tenant_id actor_id evidence confirmed_at s w =
     (case require_exact_record request_id tenant_id s of
        Inl e \<Rightarrow> (Inl e, (s, w))
      | Inr record \<Rightarrow>
          if actor_id = dr_requested_by record
          then (Inl (DecommissionConflict ''requester cannot confirm their own request''), (s, w))
          else if dr_state record = DS_GRACE_PERIOD
          then (if dr_confirmed_by record = Some actor_id \<and> dr_protection_evidence record = Some evidence
                then (Inr record, (s, w))
                else (Inl (DecommissionConflict ''request already has a different confirmation''), (s, w)))
          else if dr_state record \<noteq> DS_SUSPENDED
          then (Inl (DecommissionConflict
                  (''cannot confirm request in '' @ decommission_state_value (dr_state record))), (s, w))
          else if confirmed_at < dr_requested_at record
          then (Inl (DecommissionConflict ''confirmation cannot precede the request''), (s, w))
          else (case validate_protection sv record evidence confirmed_at w of
                  (Inl e, w') \<Rightarrow> (Inl e, (s, w'))
                | (Inr _, w') \<Rightarrow>
                    save_and_return (record\<lparr>dr_state := DS_GRACE_PERIOD, dr_confirmed_by := Some actor_id,
                      dr_confirmed_at := Some confirmed_at,
                      dr_grace_ends_at := Some (confirmed_at + dv_grace_period sv),
                      dr_protection_evidence := Some evidence, dr_last_failed_action := None\<rparr>) s w'))"

section \<open>Cancelling\<close>

text \<open>\<open>_save_failure\<close>, then the exception; an exception of the save replaces it.\<close>

definition fail_with ::
  "error \<Rightarrow> string \<Rightarrow> decommission_record \<Rightarrow> decommission_store \<Rightarrow> 'w \<Rightarrow> ('a, decommission_store \<times> 'w) outcome" where
  "fail_with error action record s w =
     (case dec_save_record (record\<lparr>dr_last_failed_action := Some action\<rparr>) s of
        (Inl e, s') \<Rightarrow> (Inl e, (s', w))
      | (Inr _, s') \<Rightarrow> (Inl error, (s', w)))"

definition reactivation_checks ::
  "'w decommission_service \<Rightarrow> (string \<times> (tenant_resources \<Rightarrow> 'w \<Rightarrow> (bool, 'w) outcome)) list" where
  "reactivation_checks sv =
     [(''verify-route'', dv_verify_route sv), (''verify-schema'', dv_verify_schema sv),
      (''verify-isolation'', dv_verify_isolation sv), (''verify-credentials'', dv_verify_credentials sv),
      (''verify-health'', dv_verify_health sv)]"

fun run_checks ::
  "(string \<times> (tenant_resources \<Rightarrow> 'w \<Rightarrow> (bool, 'w) outcome)) list \<Rightarrow> decommission_record \<Rightarrow> decommission_store \<Rightarrow> 'w \<Rightarrow>
   (unit, decommission_store \<times> 'w) outcome" where
  "run_checks [] record s w = (Inr (), (s, w))"
| "run_checks ((name, check) # checks) record s w =
     (case check (dr_resources record) w of
        (Inl e, w') \<Rightarrow> fail_with (DecommissionOperationFailed name) name record s w'
      | (Inr passed, w') \<Rightarrow>
          if \<not> passed
          then fail_with (DecommissionNotReady (''reactivation check failed: '' @ name)) name record s w'
          else run_checks checks record s w')"

definition dec_cancel ::
  "'w decommission_service \<Rightarrow> string \<Rightarrow> string \<Rightarrow> string \<Rightarrow> datetime \<Rightarrow> decommission_store \<Rightarrow> 'w \<Rightarrow>
   (decommission_record, decommission_store \<times> 'w) outcome" where
  "dec_cancel sv request_id tenant_id actor_id cancelled_at s w =
     (case require_exact_record request_id tenant_id s of
        Inl e \<Rightarrow> (Inl e, (s, w))
      | Inr record \<Rightarrow>
          if dr_state record = DS_CANCELLED then (Inr record, (s, w))
          else if dr_state record \<noteq> DS_GRACE_PERIOD
          then (Inl (DecommissionConflict
                  (''cannot cancel request in '' @ decommission_state_value (dr_state record))), (s, w))
          else if (case dr_grace_ends_at record of None \<Rightarrow> True | Some ends \<Rightarrow> ends \<le> cancelled_at)
          then (Inl (DecommissionConflict ''cancellation is allowed only during the grace period''), (s, w))
          else (case run_checks (reactivation_checks sv) record s w of
                  (Inl e, sw) \<Rightarrow> (Inl e, sw)
                | (Inr _, (s', w')) \<Rightarrow>
                    (case dv_reactivate_without_issuing_tokens sv (dr_resources record) w' of
                       (Inl e, w'') \<Rightarrow>
                         fail_with (DecommissionOperationFailed ''reactivate-without-tokens'')
                           ''reactivate-without-tokens'' record s' w''
                     | (Inr _, w'') \<Rightarrow>
                         save_and_return (record\<lparr>dr_state := DS_CANCELLED, dr_cancelled_by := Some actor_id,
                           dr_cancelled_at := Some cancelled_at, dr_last_failed_action := None\<rparr>) s' w'')))"

section \<open>Finalizing\<close>

definition begin_finalizing ::
  "decommission_record \<Rightarrow> datetime \<Rightarrow> decommission_store \<Rightarrow> (decommission_record, decommission_store) outcome" where
  "begin_finalizing record finalized_at s =
     (if dr_state record = DS_GRACE_PERIOD
      then if (case dr_grace_ends_at record of None \<Rightarrow> True | Some ends \<Rightarrow> finalized_at < ends)
           then (Inl (DecommissionNotReady ''30-day grace period has not elapsed''), s)
           else dec_save_record (record\<lparr>dr_state := DS_FINALIZING, dr_last_failed_action := None\<rparr>) s
      else if dr_state record \<noteq> DS_FINALIZING
      then (Inl (DecommissionConflict
              (''cannot finalize request in '' @ decommission_state_value (dr_state record))), s)
      else (Inr record, s))"

definition finish ::
  "datetime \<Rightarrow> decommission_record \<Rightarrow> decommission_store \<Rightarrow> (decommission_tombstone, decommission_store) outcome" where
  "finish finalized_at record s =
     (case dr_confirmed_by record of
        None \<Rightarrow> (Inl (DecommissionConflict ''finalization requires a confirming operator''), s)
      | Some confirmed_by \<Rightarrow>
          let tombstone = \<lparr>dt_request_id = dr_request_id record, dt_tenant_id = rs_tenant_id (dr_resources record),
                dt_requested_by = dr_requested_by record, dt_confirmed_by = confirmed_by,
                dt_destroyed_at = finalized_at, dt_status = ''destroyed''\<rparr>
          in (case dec_replace_with_tombstone record tombstone s of
                (Inl e, s') \<Rightarrow> (Inl e, s')
              | (Inr _, s') \<Rightarrow> (Inr tombstone, s')))"

definition dec_finalize ::
  "'w decommission_service \<Rightarrow> string \<Rightarrow> string \<Rightarrow> datetime \<Rightarrow> decommission_store \<Rightarrow> 'w \<Rightarrow>
   (decommission_tombstone, decommission_store \<times> 'w) outcome" where
  "dec_finalize sv request_id tenant_id finalized_at s w =
     (case dec_get_tombstone request_id s of
        Some tombstone \<Rightarrow>
          if dt_tenant_id tombstone \<noteq> tenant_id
          then (Inl (DecommissionConflict ''tenant_id does not match finalized request''), (s, w))
          else (Inr tombstone, (s, w))
      | None \<Rightarrow>
          (case require_exact_record request_id tenant_id s of
             Inl e \<Rightarrow> (Inl e, (s, w))
           | Inr record \<Rightarrow>
               (case begin_finalizing record finalized_at s of
                  (Inl e, s') \<Rightarrow> (Inl e, (s', w))
                | (Inr record', s') \<Rightarrow>
                    (case run_destruction sv record' s' w of
                       (Inl e, sw) \<Rightarrow> (Inl e, sw)
                     | (Inr record'', (s'', w')) \<Rightarrow>
                         (case finish finalized_at record'' s'' of (r, t) \<Rightarrow> (r, (t, w')))))))"

end
