(* ===== verification/DecommissionProperties.thy ===== *)
theory DecommissionProperties
  imports Decommission
begin

text \<open>
  Tenant decommissioning over any history of calls: what every stored request has gone through,
  that one call of \<^verbatim>\<open>finalize\<close> is one run of the destruction steps that are left on exactly the
  captured resources, and that nothing is destroyed before a second Operator confirmed the
  request with recovery evidence.
\<close>

section \<open>Records held by the store\<close>

text \<open>The store holds this very record, so a save of a copy with the same revision succeeds.\<close>

definition held :: "decommission_store \<Rightarrow> decommission_record \<Rightarrow> bool" where
  "held s r \<longleftrightarrow> dict_ok (ds_records s) \<and> dict_get (ds_records s) (dr_request_id r) = Some r"

definition replaced ::
  "decommission_store \<Rightarrow> string \<Rightarrow> decommission_record \<Rightarrow> decommission_store \<Rightarrow> bool" where
  "replaced s k r s' \<longleftrightarrow>
     dict_ok (ds_records s') \<and> ds_tombstones s' = ds_tombstones s \<and>
     (\<forall>j. dict_get (ds_records s') j = (if j = k then Some r else dict_get (ds_records s) j))"

lemma replaced_refl: "held s r \<Longrightarrow> replaced s (dr_request_id r) r s"
  by (auto simp: held_def replaced_def)

lemma replaced_trans: "replaced s k r s' \<Longrightarrow> replaced s' k r' s'' \<Longrightarrow> replaced s k r' s''"
  by (auto simp: replaced_def)

lemma replaced_held: "replaced s (dr_request_id r) r s' \<Longrightarrow> held s' r"
  by (auto simp: held_def replaced_def)

definition bumped :: "decommission_record \<Rightarrow> decommission_record" where
  "bumped r = r\<lparr>dr_revision := dr_revision r + 1\<rparr>"

lemma save_held:
  assumes "held s r" and "dr_request_id r' = dr_request_id r" and "dr_revision r' = dr_revision r"
  shows "\<exists>s'. dec_save_record r' s = (Inr (bumped r'), s') \<and> replaced s (dr_request_id r) (bumped r') s'"
  using assms
  by (auto simp: held_def replaced_def dec_save_record_def bumped_def Let_def dict_get_set dict_ok_def distinct_update)

section \<open>The persisted loop is a run of the steps that are left\<close>

text \<open>
  The interface of a column of completed steps in the record: an order of distinct steps and a
  setter that is independent of the revision and of the last failed action.
\<close>

locale persisted_column = step_pipeline steps for steps :: "'s list" +
  fixes put :: "'s list \<Rightarrow> decommission_record \<Rightarrow> decommission_record"
    and col :: "decommission_record \<Rightarrow> 's list"
  assumes put_col: "put (col r) r = r"
    and col_put [simp]: "col (put a r) = a"
    and col_other [simp]: "col (r\<lparr>dr_last_failed_action := x, dr_revision := y\<rparr>) = col r"
    and put_other: "put a ((put b r)\<lparr>dr_last_failed_action := x, dr_revision := y\<rparr>) =
      (put a r)\<lparr>dr_last_failed_action := x, dr_revision := y\<rparr>"
    and put_id [simp]: "dr_request_id (put a r) = dr_request_id r" "dr_revision (put a r) = dr_revision r"
begin

lemma skip_completed:
  "set xs \<subseteq> set completed \<Longrightarrow>
   persisted_steps act value put (xs @ ys) completed r s w = persisted_steps act value put ys completed r s w"
  by (induction xs) auto

definition after :: "decommission_record \<Rightarrow> 's list \<Rightarrow> string option \<Rightarrow> int \<Rightarrow> decommission_record" where
  "after r finished x y = (put (col r @ finished) r)\<lparr>dr_last_failed_action := x, dr_revision := y\<rparr>"

lemma after_simps [simp]:
  "dr_request_id (after r finished x y) = dr_request_id r"
  "col (after r finished x y) = col r @ finished"
  "dr_revision (after r finished x y) = y"
  "dr_last_failed_action (after r finished x y) = x"
  by (simp_all add: after_def)

lemma after_Nil: "after r [] (dr_last_failed_action r) (dr_revision r) = r"
  by (simp add: after_def put_col)

lemma after_after: "after (after r a x y) b x' y' = after r (a @ b) x' y'"
  using put_other [where a = "col r @ a @ b" and b = "col r @ a" and r = r and x = x and y = y] by (simp add: after_def)

lemma save_after:
  assumes "held s r"
  shows "\<exists>s' y. dec_save_record ((put (col r @ finished) r)\<lparr>dr_last_failed_action := x\<rparr>) s = (Inr (after r finished x y), s') \<and>
    replaced s (dr_request_id r) (after r finished x y) s'"
proof -
  let ?r = "(put (col r @ finished) r)\<lparr>dr_last_failed_action := x\<rparr>"
  have "bumped ?r = after r finished x (dr_revision r + 1)" by (simp add: bumped_def after_def)
  then show ?thesis using save_held [OF assms, of ?r] by fastforce
qed

lemma persisted_run:
  assumes "held s r" and "steps = col r @ rest" and "run_pending act rest w = (finished, failure, w')"
  shows "\<exists>x y s'. persisted_steps act value put rest (col r) r s w =
      (case failure of None \<Rightarrow> Inr (after r finished x y)
        | Some (step, e) \<Rightarrow> Inl (DecommissionOperationFailed (value step)), (s', w')) \<and>
    replaced s (dr_request_id r) (after r finished x y) s' \<and>
    (\<forall>step e. failure = Some (step, e) \<longrightarrow> x = Some (value step))"
  using assms
proof (induction rest arbitrary: r s w finished)
  case Nil
  then have "finished = []" "failure = None" "w' = w" by auto
  then show ?case using after_Nil [of r] replaced_refl [OF Nil.prems(1)] by (simp, metis)
next
  case (Cons x xs)
  have notin: "x \<notin> set (col r)" by (rule split_disjoint [OF Cons.prems(2)]) simp
  obtain res w1 where act: "act x w = (res, w1)" by (rule prod.exhaust)
  show ?case
  proof (cases res)
    case (Inl e)
    then have "finished = []" "failure = Some (x, e)" "w' = w1" using Cons.prems(3) act by auto
    then show ?thesis
      using notin act Inl save_after [OF Cons.prems(1), where finished = "[]" and x = "Some (value x)"] by fastforce
  next
    case (Inr u)
    obtain fin where fin: "run_pending act xs w1 = (fin, failure, w')" "finished = x # fin"
      using Cons.prems(3) act Inr by (auto split: prod.splits)
    obtain s1 y1 where saved: "dec_save_record ((put (col r @ [x]) r)\<lparr>dr_last_failed_action := None\<rparr>) s =
        (Inr (after r [x] None y1), s1)" and rep: "replaced s (dr_request_id r) (after r [x] None y1) s1"
      using save_after [OF Cons.prems(1)] by blast
    have h: "held s1 (after r [x] None y1)" using rep replaced_held [of s "after r [x] None y1"] by simp
    have st: "steps = col (after r [x] None y1) @ xs" using Cons.prems(2) by simp
    from Cons.IH [OF h st fin(1)] obtain x2 y2 s2 where
      run: "persisted_steps act value put xs (col r @ [x]) (after r [x] None y1) s1 w1 =
        (case failure of None \<Rightarrow> Inr (after r (x # fin) x2 y2)
          | Some (step, e) \<Rightarrow> Inl (DecommissionOperationFailed (value step)), (s2, w'))"
      and rep2: "replaced s1 (dr_request_id r) (after r (x # fin) x2 y2) s2"
      and last: "\<forall>step e. failure = Some (step, e) \<longrightarrow> x2 = Some (value step)"
      by (simp only: after_after after_simps append_Cons append_Nil) blast
    have "persisted_steps act value put (x # xs) (col r) r s w =
        (case failure of None \<Rightarrow> Inr (after r finished x2 y2)
          | Some (step, e) \<Rightarrow> Inl (DecommissionOperationFailed (value step)), (s2, w'))"
      unfolding fin(2) using notin act Inr saved run by simp
    moreover have "replaced s (dr_request_id r) (after r finished x2 y2) s2"
      using replaced_trans [OF rep rep2] by (simp add: fin(2))
    ultimately show ?thesis using last by blast
  qed
qed

end

interpretation suspension: persisted_column SUSPENSION_ORDER put_suspension dr_suspension_steps
  by unfold_locales (simp_all add: SUSPENSION_ORDER_def put_suspension_def)

interpretation destruction: persisted_column DESTRUCTION_ORDER put_destruction dr_destruction_steps
  by unfold_locales (simp_all add: DESTRUCTION_ORDER_def put_destruction_def)

section \<open>What a stored request has gone through\<close>

definition acceptable :: "timedelta \<Rightarrow> protection_evidence \<Rightarrow> datetime \<Rightarrow> bool" where
  "acceptable max_age ev now \<longleftrightarrow>
     pf_complete ev \<and> pf_integrity_verified ev \<and> pf_verified_at ev \<le> now \<and>
     (if pf_kind ev = PK_BACKUP then pf_created_at ev \<le> now \<and> now - pf_created_at ev \<le> max_age
      else pf_export_explicitly_accepted ev)"

definition confirmed :: "timedelta \<Rightarrow> timedelta \<Rightarrow> decommission_record \<Rightarrow> bool" where
  "confirmed grace max_age r \<longleftrightarrow>
     (\<exists>c at ev. dr_confirmed_by r = Some c \<and> c \<noteq> dr_requested_by r \<and> dr_confirmed_at r = Some at \<and>
        dr_requested_at r \<le> at \<and> dr_grace_ends_at r = Some (at + grace) \<and>
        dr_protection_evidence r = Some ev \<and> acceptable max_age ev at)"

definition grace_ended :: "(string \<times> datetime) set \<Rightarrow> decommission_record \<Rightarrow> bool" where
  "grace_ended calls r \<longleftrightarrow>
     (\<exists>t ends. (dr_request_id r, t) \<in> calls \<and> dr_grace_ends_at r = Some ends \<and> ends \<le> t)"

definition is_open :: "decommission_record \<Rightarrow> bool" where
  "is_open r \<longleftrightarrow> dr_state r \<noteq> DS_CANCELLED"

definition record_ok ::
  "timedelta \<Rightarrow> timedelta \<Rightarrow> (string \<times> datetime) set \<Rightarrow> decommission_record \<Rightarrow> bool" where
  "record_ok grace max_age calls r \<longleftrightarrow>
     valid_prefix SUSPENSION_ORDER (dr_suspension_steps r) \<and>
     (dr_state r \<noteq> DS_SUSPENDING \<longrightarrow> dr_suspension_steps r = SUSPENSION_ORDER) \<and>
     (dr_state r \<notin> {DS_SUSPENDING, DS_SUSPENDED} \<longrightarrow> confirmed grace max_age r) \<and>
     valid_prefix DESTRUCTION_ORDER (dr_destruction_steps r) \<and>
     (dr_state r \<noteq> DS_FINALIZING \<longrightarrow> dr_destruction_steps r = []) \<and>
     (dr_state r = DS_FINALIZING \<longrightarrow> grace_ended calls r)"

definition dec_inv :: "timedelta \<Rightarrow> timedelta \<Rightarrow> (string \<times> datetime) set \<Rightarrow> decommission_store \<Rightarrow> bool" where
  "dec_inv grace max_age calls s \<longleftrightarrow>
     dict_ok (ds_records s) \<and>
     (\<forall>k r. dict_get (ds_records s) k = Some r \<longrightarrow>
        dr_request_id r = k \<and> record_ok grace max_age calls r \<and> dict_get (ds_tombstones s) k = None) \<and>
     (\<forall>j k p q. dict_get (ds_records s) j = Some p \<longrightarrow> dict_get (ds_records s) k = Some q \<longrightarrow> is_open p \<longrightarrow> is_open q \<longrightarrow>
        rs_tenant_id (dr_resources p) = rs_tenant_id (dr_resources q) \<longrightarrow> j = k) \<and>
     (\<forall>k t. dict_get (ds_tombstones s) k = Some t \<longrightarrow> dt_request_id t = k \<and> dt_requested_by t \<noteq> dt_confirmed_by t)"

lemma dec_inv_ok: "dec_inv grace max_age calls s \<Longrightarrow> dict_ok (ds_records s)"
  by (simp add: dec_inv_def)

lemma dec_invD:
  assumes "dec_inv grace max_age calls s" and "dict_get (ds_records s) k = Some r"
  shows "held s r" and "dr_request_id r = k" and "record_ok grace max_age calls r"
    and "dict_get (ds_tombstones s) k = None"
  using assms by (simp_all add: dec_inv_def held_def)

lemma dec_inv_heldD:
  "dec_inv grace max_age calls s \<Longrightarrow> held s r \<Longrightarrow> record_ok grace max_age calls r"
  by (auto simp: held_def dest: dec_invD(3))

lemma dec_inv_unique:
  assumes "dec_inv grace max_age calls s"
    and "dict_get (ds_records s) j = Some p" and "dict_get (ds_records s) k = Some q" and "is_open p" and "is_open q"
    and "rs_tenant_id (dr_resources p) = rs_tenant_id (dr_resources q)"
  shows "j = k"
  using assms unfolding dec_inv_def by blast

lemma record_ok_mono: "record_ok grace max_age calls r \<Longrightarrow> calls \<subseteq> calls' \<Longrightarrow> record_ok grace max_age calls' r"
  by (auto simp: record_ok_def grace_ended_def)

lemma dec_inv_mono: "dec_inv grace max_age calls s \<Longrightarrow> calls \<subseteq> calls' \<Longrightarrow> dec_inv grace max_age calls' s"
  unfolding dec_inv_def using record_ok_mono by blast

lemma dec_inv_replaced:
  assumes inv: "dec_inv grace max_age calls s" and rep: "replaced s (dr_request_id r) r s'"
    and ok: "record_ok grace max_age calls r" and tomb: "dict_get (ds_tombstones s) (dr_request_id r) = None"
    and only: "\<And>j p. is_open r \<Longrightarrow> dict_get (ds_records s) j = Some p \<Longrightarrow> is_open p \<Longrightarrow>
      rs_tenant_id (dr_resources p) = rs_tenant_id (dr_resources r) \<Longrightarrow> j = dr_request_id r"
  shows "dec_inv grace max_age calls s'"
proof -
  have get: "dict_get (ds_records s') j = (if j = dr_request_id r then Some r else dict_get (ds_records s) j)" for j
    using rep by (simp add: replaced_def)
  have t: "ds_tombstones s' = ds_tombstones s" "dict_ok (ds_records s')" using rep by (simp_all add: replaced_def)
  have unique: "j = k" if "dict_get (ds_records s') j = Some p" "dict_get (ds_records s') k = Some q" "is_open p" "is_open q"
    "rs_tenant_id (dr_resources p) = rs_tenant_id (dr_resources q)" for j k p q
  proof (cases "j = dr_request_id r \<or> k = dr_request_id r")
    case True
    have at_j: "j = dr_request_id r \<Longrightarrow> p = r" and at_k: "k = dr_request_id r \<Longrightarrow> q = r" using that(1,2) by (simp_all add: get)
    have "k = dr_request_id r" if j: "j = dr_request_id r"
    proof (rule ccontr)
      assume "k \<noteq> dr_request_id r"
      then have "dict_get (ds_records s) k = Some q" using \<open>dict_get (ds_records s') k = Some q\<close> by (simp add: get)
      then show False
        using only [of k q] at_j [OF j] \<open>is_open p\<close> \<open>is_open q\<close> \<open>k \<noteq> dr_request_id r\<close>
          \<open>rs_tenant_id (dr_resources p) = rs_tenant_id (dr_resources q)\<close> by metis
    qed
    moreover have "j = dr_request_id r" if k: "k = dr_request_id r"
    proof (rule ccontr)
      assume "j \<noteq> dr_request_id r"
      then have "dict_get (ds_records s) j = Some p" using \<open>dict_get (ds_records s') j = Some p\<close> by (simp add: get)
      then show False
        using only [of j p] at_k [OF k] \<open>is_open p\<close> \<open>is_open q\<close> \<open>j \<noteq> dr_request_id r\<close>
          \<open>rs_tenant_id (dr_resources p) = rs_tenant_id (dr_resources q)\<close> by metis
    qed
    ultimately show ?thesis using True by blast
  next
    case False
    then have "dict_get (ds_records s) j = Some p" "dict_get (ds_records s) k = Some q" using that(1,2) by (simp_all add: get)
    then show ?thesis using dec_inv_unique [OF inv] that(3-5) by blast
  qed
  have records: "dr_request_id p = k \<and> record_ok grace max_age calls p \<and> dict_get (ds_tombstones s') k = None"
    if "dict_get (ds_records s') k = Some p" for k p
    using that ok tomb dec_invD [OF inv, of k p] by (simp add: get t(1) split: if_splits)
  have "dt_request_id d = k \<and> dt_requested_by d \<noteq> dt_confirmed_by d" if "dict_get (ds_tombstones s') k = Some d" for k d
    using that inv by (simp add: t(1) dec_inv_def)
  then show ?thesis unfolding dec_inv_def using t(2) records unique by blast
qed

lemma dec_inv_update:
  assumes "dec_inv grace max_age calls s" and "held s r"
    and "replaced s (dr_request_id r) r' s'" and "dr_request_id r' = dr_request_id r"
    and "dr_resources r' = dr_resources r" and "is_open r' \<Longrightarrow> is_open r" and "record_ok grace max_age calls r'"
  shows "dec_inv grace max_age calls s'" and "held s' r'"
proof -
  have r: "dict_get (ds_records s) (dr_request_id r) = Some r" using assms(2) by (simp add: held_def)
  show "dec_inv grace max_age calls s'"
  proof (rule dec_inv_replaced [OF assms(1) _ assms(7)])
    show "replaced s (dr_request_id r') r' s'" using assms(3,4) by simp
    show "dict_get (ds_tombstones s) (dr_request_id r') = None"
      using dec_invD(4) [OF assms(1) r] assms(4) by simp
    show "j = dr_request_id r'" if "is_open r'" "dict_get (ds_records s) j = Some p" "is_open p"
      "rs_tenant_id (dr_resources p) = rs_tenant_id (dr_resources r')" for j p
      using dec_inv_unique [OF assms(1) that(2) r that(3)] that assms(4-6) by simp
  qed
  show "held s' r'" using assms(3,4) by (auto simp: held_def replaced_def)
qed

text \<open>Saving a changed copy of a held record.\<close>

lemma save_inv:
  assumes "dec_inv grace max_age calls s" and "held s r"
    and "dr_request_id r' = dr_request_id r" and "dr_revision r' = dr_revision r"
    and "dr_resources r' = dr_resources r" and "is_open r' \<Longrightarrow> is_open r" and "record_ok grace max_age calls (bumped r')"
  shows "\<exists>s'. dec_save_record r' s = (Inr (bumped r'), s') \<and> replaced s (dr_request_id r) (bumped r') s' \<and>
    dec_inv grace max_age calls s' \<and> held s' (bumped r')"
proof -
  obtain s' where s': "dec_save_record r' s = (Inr (bumped r'), s')" "replaced s (dr_request_id r) (bumped r') s'"
    using save_held [OF assms(2-4)] by blast
  moreover have "dec_inv grace max_age calls s'" "held s' (bumped r')"
    using dec_inv_update [OF assms(1,2) s'(2)] assms(3,5,6,7) by (simp_all add: bumped_def is_open_def)
  ultimately show ?thesis by blast
qed

lemma record_ok_bumped [simp]: "record_ok grace max_age calls (bumped r) = record_ok grace max_age calls r"
  by (simp add: record_ok_def bumped_def confirmed_def grace_ended_def)

lemma record_ok_last [simp]:
  "record_ok grace max_age calls (r\<lparr>dr_last_failed_action := x\<rparr>) = record_ok grace max_age calls r"
  by (simp add: record_ok_def confirmed_def grace_ended_def)

lemma find_open_None:
  "dict_ok (ds_records s) \<Longrightarrow> dec_find_open_for_tenant t s = None \<longleftrightarrow>
   (\<forall>k r. dict_get (ds_records s) k = Some r \<longrightarrow> is_open r \<longrightarrow> rs_tenant_id (dr_resources r) \<noteq> t)"
  by (auto simp: dec_find_open_for_tenant_def find_None_iff dict_values_def dict_ok_def is_open_def)
    (metis image_eqI map_of_eq_Some_iff snd_conv)+

section \<open>Every operation keeps it\<close>

lemma valid_prefix_ends [simp]: "valid_prefix steps []" "valid_prefix steps steps"
  by (simp_all add: valid_prefix_def)

lemma run_pending_reaches:
  assumes "steps = done @ rest" and "run_pending act rest w = (finished, failure, w')"
  shows "valid_prefix steps (done @ finished)" and "failure = None \<Longrightarrow> done @ finished = steps"
  using run_pending_prefix [OF assms(2)] assms(1)
  by (auto simp: valid_prefix_def split: option.splits prod.splits)

definition suspension_left :: "decommission_record \<Rightarrow> suspension_step list" where
  "suspension_left r = drop (length (dr_suspension_steps r)) SUSPENSION_ORDER"

definition destruction_left :: "decommission_record \<Rightarrow> destruction_step list" where
  "destruction_left r = drop (length (dr_destruction_steps r)) DESTRUCTION_ORDER"

lemma suspension_split:
  "valid_prefix SUSPENSION_ORDER (dr_suspension_steps r) \<Longrightarrow> SUSPENSION_ORDER = dr_suspension_steps r @ suspension_left r"
  unfolding suspension_left_def by (rule suspension.valid_prefix_pending)

lemma destruction_split:
  "valid_prefix DESTRUCTION_ORDER (dr_destruction_steps r) \<Longrightarrow> DESTRUCTION_ORDER = dr_destruction_steps r @ destruction_left r"
  unfolding destruction_left_def by (rule destruction.valid_prefix_pending)

lemma run_suspension_run:
  assumes "held s r" and "valid_prefix SUSPENSION_ORDER (dr_suspension_steps r)"
    and "run_pending (\<lambda>step. suspension_action sv step resources) (suspension_left r) w = (finished, failure, w')"
  shows "\<exists>x y s'. run_suspension sv resources r s w =
      (case failure of None \<Rightarrow> Inr (suspension.after r finished x y)
        | Some (step, e) \<Rightarrow> Inl (DecommissionOperationFailed (suspension_step_value step)), (s', w')) \<and>
    replaced s (dr_request_id r) (suspension.after r finished x y) s' \<and>
    (\<forall>step e. failure = Some (step, e) \<longrightarrow> x = Some (suspension_step_value step))"
proof -
  note split = suspension_split [OF assms(2)]
  have "run_suspension sv resources r s w =
      persisted_steps (\<lambda>step. suspension_action sv step resources) suspension_step_value put_suspension
        (suspension_left r) (dr_suspension_steps r) r s w"
    unfolding run_suspension_def by (subst split) (rule suspension.skip_completed, simp)
  then show ?thesis using suspension.persisted_run [OF assms(1) split assms(3)] by simp
qed

lemma run_destruction_run:
  assumes "held s r" and "valid_prefix DESTRUCTION_ORDER (dr_destruction_steps r)"
    and "run_pending (\<lambda>step. destruction_action sv step (dr_resources r)) (destruction_left r) w = (finished, failure, w')"
  shows "\<exists>x y s'. run_destruction sv r s w =
      (case failure of None \<Rightarrow> Inr (destruction.after r finished x y)
        | Some (step, e) \<Rightarrow> Inl (DecommissionOperationFailed (destruction_step_value step)), (s', w')) \<and>
    replaced s (dr_request_id r) (destruction.after r finished x y) s' \<and>
    (\<forall>step e. failure = Some (step, e) \<longrightarrow> x = Some (destruction_step_value step))"
proof -
  note split = destruction_split [OF assms(2)]
  have "run_destruction sv r s w =
      persisted_steps (\<lambda>step. destruction_action sv step (dr_resources r)) destruction_step_value put_destruction
        (destruction_left r) (dr_destruction_steps r) r s w"
    unfolding run_destruction_def by (subst split) (rule destruction.skip_completed, simp)
  then show ?thesis using destruction.persisted_run [OF assms(1) split assms(3)] by simp
qed

lemma suspension_after [simp]:
  "dr_state (suspension.after r f x y) = dr_state r" "dr_resources (suspension.after r f x y) = dr_resources r"
  "is_open (suspension.after r f x y) = is_open r"
  by (simp_all add: suspension.after_def put_suspension_def is_open_def)

lemma destruction_after [simp]:
  "dr_state (destruction.after r f x y) = dr_state r" "dr_resources (destruction.after r f x y) = dr_resources r"
  "dr_confirmed_by (destruction.after r f x y) = dr_confirmed_by r"
  "dr_requested_by (destruction.after r f x y) = dr_requested_by r"
  "is_open (destruction.after r f x y) = is_open r"
  by (simp_all add: destruction.after_def put_destruction_def is_open_def)

lemma suspension_after_ok:
  assumes "record_ok grace max_age calls r" and "dr_state r = DS_SUSPENDING"
    and "valid_prefix SUSPENSION_ORDER (dr_suspension_steps r @ f)"
  shows "record_ok grace max_age calls (suspension.after r f x y)"
  using assms by (simp add: record_ok_def suspension.after_def put_suspension_def)

lemma destruction_after_ok:
  assumes "record_ok grace max_age calls r" and "dr_state r = DS_FINALIZING"
    and "valid_prefix DESTRUCTION_ORDER (dr_destruction_steps r @ f)"
  shows "record_ok grace max_age calls (destruction.after r f x y)"
  using assms by (simp add: record_ok_def destruction.after_def put_destruction_def confirmed_def grace_ended_def)

lemma run_suspension_inv:
  assumes inv: "dec_inv grace max_age calls s" and h: "held s r" and st: "dr_state r = DS_SUSPENDING"
    and run: "run_suspension sv resources r s w = (out, (s', w'))"
  shows "dec_inv grace max_age calls s'"
    and "out = Inr r' \<Longrightarrow> held s' r' \<and> dr_state r' = DS_SUSPENDING \<and> dr_suspension_steps r' = SUSPENSION_ORDER"
proof -
  note ok = dec_inv_heldD [OF inv h]
  have prefix: "valid_prefix SUSPENSION_ORDER (dr_suspension_steps r)" using ok by (simp add: record_ok_def)
  obtain f fl w1 where p: "run_pending (\<lambda>step. suspension_action sv step resources) (suspension_left r) w = (f, fl, w1)"
    by (rule prod_cases3)
  note reach = run_pending_reaches [OF suspension_split [OF prefix] p]
  obtain x y where rep: "replaced s (dr_request_id r) (suspension.after r f x y) s'"
    and out: "out = (case fl of None \<Rightarrow> Inr (suspension.after r f x y)
        | Some (step, e) \<Rightarrow> Inl (DecommissionOperationFailed (suspension_step_value step)))"
    using run_suspension_run [OF h prefix p] run by auto
  have ok': "record_ok grace max_age calls (suspension.after r f x y)"
    by (rule suspension_after_ok [OF ok st reach(1)])
  note upd = dec_inv_update [OF inv h rep _ _ _ ok']
  show "dec_inv grace max_age calls s'" by (rule upd(1)) simp_all
  show "held s' r' \<and> dr_state r' = DS_SUSPENDING \<and> dr_suspension_steps r' = SUSPENSION_ORDER" if "out = Inr r'"
    using that out upd(2) reach(2) st by (auto split: option.splits)
qed

lemma DecommissionRecord_ok:
  assumes "DecommissionRecord k res actor reason at policy = Inr r"
  shows "dr_request_id r = k \<and> dr_resources r = res \<and> dr_requested_by r = actor \<and> dr_state r = DS_SUSPENDING \<and>
    dr_revision r = 0 \<and> record_ok grace max_age calls r"
  using assms by (auto simp: DecommissionRecord_def record_ok_def split: if_splits)

lemma accept_request_inv:
  assumes inv: "dec_inv grace max_age calls s"
    and acc: "accept_request k res actor reason at policy s = (out, s')"
  shows "dec_inv grace max_age calls s'" and "out = Inr r \<Longrightarrow> held s' r"
proof -
  have "dec_inv grace max_age calls s' \<and> (\<forall>r. out = Inr r \<longrightarrow> held s' r)"
  proof (cases "dict_get (ds_records s) k")
    case (Some r)
    then show ?thesis
      using acc inv dec_invD(1) [OF inv Some] by (auto simp: accept_request_def dec_get_record_def split: if_splits)
  next
    case None
    show ?thesis
    proof (cases "is_ok out")
      case False
      have "s' = s" using acc None False
        by (auto simp: accept_request_def dec_get_record_def dec_save_record_def Let_def
            split: if_splits sum.splits option.splits dest: DecommissionRecord_ok)
      then show ?thesis using inv False by auto
    next
      case True
      obtain new where new: "DecommissionRecord k res actor reason at policy = Inr new"
        and tomb: "dict_get (ds_tombstones s) k = None" and free: "dec_find_open_for_tenant (rs_tenant_id res) s = None"
        and save: "dec_save_record new s = (out, s')"
        using acc None True
        by (auto simp: accept_request_def dec_get_record_def dec_get_tombstone_def is_ok_def split: if_splits sum.splits)
      note ok = DecommissionRecord_ok [OF new, of grace max_age calls]
      have out: "out = Inr (bumped new)" and rep: "replaced s k (bumped new) s'"
        using save None ok inv
        by (auto simp: dec_save_record_def bumped_def Let_def replaced_def dict_get_set dec_inv_def dict_ok_def distinct_update)
      have id: "dr_request_id (bumped new) = k" using ok by (simp add: bumped_def)
      have "dec_inv grace max_age calls s'"
      proof (rule dec_inv_replaced [OF inv])
        show "replaced s (dr_request_id (bumped new)) (bumped new) s'" using rep id by simp
        show "record_ok grace max_age calls (bumped new)" using ok by simp
        show "dict_get (ds_tombstones s) (dr_request_id (bumped new)) = None" using tomb id by simp
        show "j = dr_request_id (bumped new)" if "dict_get (ds_records s) j = Some p" "is_open p"
          "rs_tenant_id (dr_resources p) = rs_tenant_id (dr_resources (bumped new))" for j p
          using free find_open_None [OF dec_inv_ok [OF inv]] that ok by (simp add: bumped_def)
      qed
      then show ?thesis using out rep id by (auto simp: held_def replaced_def)
    qed
  qed
  then show "dec_inv grace max_age calls s'" "out = Inr r \<Longrightarrow> held s' r" by blast+
qed

lemma save_and_return_inv:
  assumes "dec_inv grace max_age calls s" and "held s r"
    and "dr_request_id r' = dr_request_id r" and "dr_revision r' = dr_revision r"
    and "dr_resources r' = dr_resources r" and "is_open r' \<Longrightarrow> is_open r" and "record_ok grace max_age calls (bumped r')"
  shows "dec_inv grace max_age calls (fst (snd (save_and_return r' s w)))"
  using save_inv [OF assms] by (auto simp: save_and_return_def)

lemma dec_request_inv:
  assumes inv: "dec_inv grace max_age calls s"
  shows "dec_inv grace max_age calls (fst (snd (dec_request sv k res actor reason at policy s w)))"
proof -
  obtain out s1 where acc: "accept_request k res actor reason at policy s = (out, s1)" by (rule prod.exhaust)
  note a = accept_request_inv [OF inv acc]
  show ?thesis
  proof (cases out)
    case (Inl e)
    then show ?thesis using a by (simp add: dec_request_def acc)
  next
    case (Inr r)
    show ?thesis
    proof (cases "dr_state r = DS_SUSPENDING")
      case True
      obtain out2 s2 w2 where run: "run_suspension sv res r s1 w = (out2, (s2, w2))" by (rule prod_cases3)
      note b = run_suspension_inv [OF a(1) a(2) [OF Inr] True run]
      show ?thesis
      proof (cases out2)
        case (Inl e)
        then show ?thesis using b(1) by (simp add: dec_request_def acc Inr True run)
      next
        case (Inr r2)
        have ok: "record_ok grace max_age calls (r2\<lparr>dr_state := DS_SUSPENDED, dr_last_failed_action := None\<rparr>)"
          using dec_inv_heldD [OF b(1)] b(2) [OF Inr] by (simp add: record_ok_def)
        have "dec_inv grace max_age calls
            (fst (snd (save_and_return (r2\<lparr>dr_state := DS_SUSPENDED, dr_last_failed_action := None\<rparr>) s2 w2)))"
          by (rule save_and_return_inv [OF b(1), of r2]) (use ok b(2) [OF Inr] in \<open>simp_all add: is_open_def\<close>)
        then show ?thesis by (simp add: dec_request_def acc \<open>out = Inr r\<close> True run Inr)
      qed
    next
      case False
      then show ?thesis using a by (simp add: dec_request_def acc Inr)
    qed
  qed
qed

lemma require_exact_held:
  assumes "dec_inv grace max_age calls s" and "require_exact_record k t s = Inr r"
  shows "held s r" and "dr_request_id r = k" and "rs_tenant_id (dr_resources r) = t"
    and "record_ok grace max_age calls r"
  using assms dec_invD [OF assms(1), of k r]
  by (auto simp: require_exact_record_def dec_get_record_def split: option.splits if_splits)

lemma validate_protection_acceptable:
  "validate_protection sv r ev now w = (Inr u, w') \<Longrightarrow> acceptable (dv_backup_max_age sv) ev now"
  by (cases "pf_kind ev") (auto simp: validate_protection_def acceptable_def split: if_splits prod.splits sum.splits)

lemma dec_confirm_inv:
  assumes inv: "dec_inv (dv_grace_period sv) (dv_backup_max_age sv) calls s"
  shows "dec_inv (dv_grace_period sv) (dv_backup_max_age sv) calls (fst (snd (dec_confirm sv k t actor ev at s w)))"
proof (cases "require_exact_record k t s")
  case (Inl e)
  then show ?thesis using inv by (simp add: dec_confirm_def)
next
  case (Inr r)
  note h = require_exact_held [OF inv Inr]
  obtain v w1 where v: "validate_protection sv r ev at w = (v, w1)" by (rule prod.exhaust)
  let ?r = "r\<lparr>dr_state := DS_GRACE_PERIOD, dr_confirmed_by := Some actor, dr_confirmed_at := Some at,
    dr_grace_ends_at := Some (at + dv_grace_period sv), dr_protection_evidence := Some ev, dr_last_failed_action := None\<rparr>"
  show ?thesis
  proof (cases "actor \<noteq> dr_requested_by r \<and> dr_state r = DS_SUSPENDED \<and> dr_requested_at r \<le> at \<and> is_ok v")
    case True
    have "acceptable (dv_backup_max_age sv) ev at"
      using True v by (auto simp: is_ok_def split: sum.splits intro: validate_protection_acceptable)
    then have "record_ok (dv_grace_period sv) (dv_backup_max_age sv) calls ?r"
      using h(4) True by (simp add: record_ok_def confirmed_def)
    then have "dec_inv (dv_grace_period sv) (dv_backup_max_age sv) calls (fst (snd (save_and_return ?r s w1)))"
      using True by (intro save_and_return_inv [OF inv h(1)]) (simp_all add: is_open_def)
    then show ?thesis using True v by (auto simp: dec_confirm_def Inr is_ok_def split: sum.splits)
  next
    case False
    then show ?thesis using inv v by (auto simp: dec_confirm_def Inr split: sum.splits)
  qed
qed

lemma fail_with_inv:
  assumes "dec_inv grace max_age calls s" and "held s r"
  shows "dec_inv grace max_age calls (fst (snd (fail_with error action r s w)))"
proof -
  obtain s' where "dec_save_record (r\<lparr>dr_last_failed_action := Some action\<rparr>) s =
      (Inr (bumped (r\<lparr>dr_last_failed_action := Some action\<rparr>)), s')" "dec_inv grace max_age calls s'"
    using save_inv [OF assms, of "r\<lparr>dr_last_failed_action := Some action\<rparr>"] dec_inv_heldD [OF assms]
    by (auto simp: is_open_def)
  then show ?thesis by (simp add: fail_with_def)
qed

lemma fail_with_Inr: "fail_with error action r s w \<noteq> (Inr x, y)"
  by (auto simp: fail_with_def split: prod.splits sum.splits)

lemma run_checks_inv:
  assumes "dec_inv grace max_age calls s" and "held s r"
  shows "dec_inv grace max_age calls (fst (snd (run_checks checks r s w)))"
    and "run_checks checks r s w = (Inr u, (s', w')) \<Longrightarrow> s' = s"
proof -
  have "dec_inv grace max_age calls (fst (snd (run_checks checks r s w))) \<and>
      (\<forall>u s' w'. run_checks checks r s w = (Inr u, (s', w')) \<longrightarrow> s' = s)"
  proof (induction checks arbitrary: w)
    case (Cons c cs)
    obtain name check where c: "c = (name, check)" by (rule prod.exhaust)
    obtain p w1 where "check (dr_resources r) w = (p, w1)" by (rule prod.exhaust)
    then show ?case
      using Cons.IH [of w1] fail_with_inv [OF assms] by (cases p) (auto simp: c fail_with_Inr)
  qed (simp add: assms)
  then show "dec_inv grace max_age calls (fst (snd (run_checks checks r s w)))"
    "run_checks checks r s w = (Inr u, (s', w')) \<Longrightarrow> s' = s" by blast+
qed

lemma dec_cancel_inv:
  assumes inv: "dec_inv grace max_age calls s"
  shows "dec_inv grace max_age calls (fst (snd (dec_cancel sv k t actor at s w)))"
proof (cases "require_exact_record k t s")
  case (Inl e)
  then show ?thesis using inv by (simp add: dec_cancel_def)
next
  case (Inr r)
  note h = require_exact_held [OF inv Inr]
  obtain out s1 w1 where run: "run_checks (reactivation_checks sv) r s w = (out, (s1, w1))" by (rule prod_cases3)
  note c = run_checks_inv [OF inv h(1), of "reactivation_checks sv" w, unfolded run]
  obtain out2 w2 where re: "dv_reactivate_without_issuing_tokens sv (dr_resources r) w1 = (out2, w2)" by (rule prod.exhaust)
  let ?r = "r\<lparr>dr_state := DS_CANCELLED, dr_cancelled_by := Some actor, dr_cancelled_at := Some at, dr_last_failed_action := None\<rparr>"
  have cancelled: "dec_inv grace max_age calls (fst (snd (save_and_return ?r s w2)))" if "dr_state r = DS_GRACE_PERIOD"
    using that h(4) by (intro save_and_return_inv [OF inv h(1)]) (simp_all add: is_open_def record_ok_def confirmed_def bumped_def)
  show ?thesis
    using inv run re c(1) c(2) cancelled fail_with_inv [OF inv h(1)]
    by (cases out; cases out2) (auto simp: dec_cancel_def Inr)
qed

text \<open>A record that \<^verbatim>\<open>finalize\<close> may go on with at the stated time.\<close>

definition finalizable :: "datetime \<Rightarrow> decommission_record \<Rightarrow> bool" where
  "finalizable at r \<longleftrightarrow> dr_state r = DS_FINALIZING \<or>
     dr_state r = DS_GRACE_PERIOD \<and> (\<exists>ends. dr_grace_ends_at r = Some ends \<and> ends \<le> at)"

lemma begin_finalizing_blocked:
  assumes "dec_inv grace max_age calls s" and "held s r" and "\<not> finalizable at r"
  shows "\<exists>e. begin_finalizing r at s = (Inl e, s)"
  using assms by (auto simp: begin_finalizing_def finalizable_def split: option.splits)

lemma begin_finalizing_inv:
  assumes inv: "dec_inv grace max_age calls s" and h: "held s r"
    and can: "finalizable at r" and called: "(dr_request_id r, at) \<in> calls"
  shows "\<exists>y x s'. begin_finalizing r at s =
      (Inr (r\<lparr>dr_state := DS_FINALIZING, dr_last_failed_action := x, dr_revision := y\<rparr>), s') \<and>
    replaced s (dr_request_id r) (r\<lparr>dr_state := DS_FINALIZING, dr_last_failed_action := x, dr_revision := y\<rparr>) s' \<and>
    dec_inv grace max_age calls s'"
proof (cases "dr_state r = DS_FINALIZING")
  case True
  have same: "r\<lparr>dr_state := DS_FINALIZING, dr_last_failed_action := dr_last_failed_action r, dr_revision := dr_revision r\<rparr> = r"
    using True by (cases r) simp
  show ?thesis
    by (rule exI [of _ "dr_revision r"], rule exI [of _ "dr_last_failed_action r"], rule exI [of _ s], unfold same)
      (simp add: begin_finalizing_def True inv replaced_refl [OF h])
next
  case False
  let ?r = "r\<lparr>dr_state := DS_FINALIZING, dr_last_failed_action := None\<rparr>"
  obtain ends where ends: "dr_state r = DS_GRACE_PERIOD" "dr_grace_ends_at r = Some ends" "ends \<le> at"
    using can False by (auto simp: finalizable_def)
  have "record_ok grace max_age calls ?r"
    using dec_inv_heldD [OF inv h] ends called by (auto simp: record_ok_def confirmed_def grace_ended_def)
  then obtain s' where "dec_save_record ?r s = (Inr (bumped ?r), s')" "replaced s (dr_request_id r) (bumped ?r) s'"
    "dec_inv grace max_age calls s'"
    using save_inv [OF inv h, of ?r] ends(1) by (auto simp: is_open_def)
  then show ?thesis using ends by (auto simp: begin_finalizing_def bumped_def)
qed

definition tombstone_of :: "datetime \<Rightarrow> decommission_record \<Rightarrow> decommission_tombstone" where
  "tombstone_of at r = \<lparr>dt_request_id = dr_request_id r, dt_tenant_id = rs_tenant_id (dr_resources r),
     dt_requested_by = dr_requested_by r,
     dt_confirmed_by = (case dr_confirmed_by r of None \<Rightarrow> [] | Some c \<Rightarrow> c),
     dt_destroyed_at = at, dt_status = ''destroyed''\<rparr>"

lemma finish_inv:
  assumes inv: "dec_inv grace max_age calls s" and h: "held s r" and st: "dr_state r = DS_FINALIZING"
  shows "\<exists>s'. finish at r s = (Inr (tombstone_of at r), s') \<and> dec_inv grace max_age calls s' \<and>
    dict_ok (ds_records s') \<and>
    (\<forall>j. dict_get (ds_records s') j = (if j = dr_request_id r then None else dict_get (ds_records s) j)) \<and>
    (\<forall>j. dict_get (ds_tombstones s') j =
       (if j = dr_request_id r then Some (tombstone_of at r) else dict_get (ds_tombstones s) j))"
proof -
  have conf: "confirmed grace max_age r" using dec_inv_heldD [OF inv h] st by (simp add: record_ok_def)
  then obtain c where c: "dr_confirmed_by r = Some c" "c \<noteq> dr_requested_by r" by (auto simp: confirmed_def)
  let ?k = "dr_request_id r"
  let ?s = "s\<lparr>ds_records := dict_pop ?k (ds_records s), ds_tombstones := dict_set ?k (tombstone_of at r) (ds_tombstones s)\<rparr>"
  have fin: "finish at r s = (Inr (tombstone_of at r), ?s)"
    using h c by (simp add: finish_def dec_replace_with_tombstone_def held_def tombstone_of_def Let_def)
  have get: "dict_get (ds_records ?s) j = (if j = ?k then None else dict_get (ds_records s) j)" for j
    by (simp add: delete_conv')
  have tomb: "dict_get (ds_tombstones ?s) j = (if j = ?k then Some (tombstone_of at r) else dict_get (ds_tombstones s) j)" for j
    by (simp add: dict_get_set)
  have ok: "dict_ok (ds_records ?s)" using dec_inv_ok [OF inv] by (simp add: dict_ok_def distinct_delete)
  have kept: "j \<noteq> ?k \<and> dict_get (ds_records s) j = Some p" if "dict_get (ds_records ?s) j = Some p" for j p
    using that by (cases "j = ?k") (simp_all only: get if_True if_False option.distinct simp_thms)
  have "dr_request_id p = j \<and> record_ok grace max_age calls p \<and> dict_get (ds_tombstones ?s) j = None"
    if "dict_get (ds_records ?s) j = Some p" for j p
    using dec_invD [OF inv, of j p] kept [OF that] by (simp only: tomb if_False)
  moreover have "i = j" if "dict_get (ds_records ?s) i = Some p" "dict_get (ds_records ?s) j = Some q" "is_open p" "is_open q"
    "rs_tenant_id (dr_resources p) = rs_tenant_id (dr_resources q)" for i j p q
    using dec_inv_unique [OF inv] kept [OF that(1)] kept [OF that(2)] that(3-5) by blast
  moreover have "dt_request_id d = j \<and> dt_requested_by d \<noteq> dt_confirmed_by d" if "dict_get (ds_tombstones ?s) j = Some d" for j d
    using that inv c by (auto simp: dec_inv_def tombstone_of_def dict_get_set split: if_splits)
  ultimately have "dec_inv grace max_age calls ?s" unfolding dec_inv_def using ok by blast
  then show ?thesis using fin get tomb ok by blast
qed

text \<open>
  A call of \<^verbatim>\<open>finalize\<close> that may go on is one run of the destruction steps that are left.
\<close>

lemma dec_finalize_run:
  assumes inv: "dec_inv grace max_age calls s" and r: "require_exact_record k t s = Inr r"
    and can: "finalizable at r" and called: "(k, at) \<in> calls"
    and run: "run_pending (\<lambda>step. destruction_action sv step (dr_resources r)) (destruction_left r) w = (finished, failure, w')"
  shows "\<exists>s'. dec_inv grace max_age calls s' \<and>
    (\<forall>j. j \<noteq> k \<longrightarrow> dec_get_record j s' = dec_get_record j s \<and> dec_get_tombstone j s' = dec_get_tombstone j s) \<and>
    (case failure of
       None \<Rightarrow> dec_finalize sv k t at s w = (Inr (tombstone_of at r), (s', w')) \<and>
         dec_get_record k s' = None \<and> dec_get_tombstone k s' = Some (tombstone_of at r)
     | Some (step, e) \<Rightarrow>
         dec_finalize sv k t at s w = (Inl (DecommissionOperationFailed (destruction_step_value step)), (s', w')) \<and>
         (\<exists>y. dec_get_record k s' = Some (r\<lparr>dr_state := DS_FINALIZING,
            dr_destruction_steps := dr_destruction_steps r @ finished,
            dr_last_failed_action := Some (destruction_step_value step), dr_revision := y\<rparr>) \<and>
            dec_get_tombstone k s' = None))"
proof -
  note h = require_exact_held [OF inv r]
  have tomb: "dict_get (ds_tombstones s) k = None"
    using dec_invD(4) [OF inv, of k r] h(1,2) by (simp add: held_def)
  obtain y x s1 where b: "begin_finalizing r at s =
      (Inr (r\<lparr>dr_state := DS_FINALIZING, dr_last_failed_action := x, dr_revision := y\<rparr>), s1)"
    and rep1: "replaced s k (r\<lparr>dr_state := DS_FINALIZING, dr_last_failed_action := x, dr_revision := y\<rparr>) s1"
    and inv1: "dec_inv grace max_age calls s1"
    using begin_finalizing_inv [OF inv h(1) can] called h(2) by auto
  let ?q = "r\<lparr>dr_state := DS_FINALIZING, dr_last_failed_action := x, dr_revision := y\<rparr>"
  have held1: "held s1 ?q" using rep1 h(2) by (auto simp: held_def replaced_def)
  note ok1 = dec_inv_heldD [OF inv1 held1]
  have prefix: "valid_prefix DESTRUCTION_ORDER (dr_destruction_steps ?q)" using ok1 by (simp add: record_ok_def)
  have run': "run_pending (\<lambda>step. destruction_action sv step (dr_resources ?q)) (destruction_left ?q) w = (finished, failure, w')"
    using run by (simp add: destruction_left_def)
  obtain x2 y2 s2 where d: "run_destruction sv ?q s1 w =
      (case failure of None \<Rightarrow> Inr (destruction.after ?q finished x2 y2)
        | Some (step, e) \<Rightarrow> Inl (DecommissionOperationFailed (destruction_step_value step)), (s2, w'))"
    and rep2: "replaced s1 (dr_request_id ?q) (destruction.after ?q finished x2 y2) s2"
    and x2: "\<forall>step e. failure = Some (step, e) \<longrightarrow> x2 = Some (destruction_step_value step)"
    using run_destruction_run [OF held1 prefix run'] by blast
  let ?a = "destruction.after ?q finished x2 y2"
  have ok2: "record_ok grace max_age calls ?a"
    by (rule destruction_after_ok [OF ok1])
      (simp_all add: run_pending_reaches(1) [OF destruction_split [OF prefix] run', simplified])
  have upd: "dec_inv grace max_age calls s2" "held s2 ?a"
    by (rule dec_inv_update [OF inv1 held1 rep2 _ _ _ ok2]; simp)+
  have same: "j \<noteq> k \<Longrightarrow> dict_get (ds_records s2) j = dict_get (ds_records s) j"
    "ds_tombstones s2 = ds_tombstones s" for j
    using rep1 rep2 h(2) by (simp_all add: replaced_def)
  have begun: "dec_finalize sv k t at s w = (case run_destruction sv ?q s1 w of
      (Inl e, sw) \<Rightarrow> (Inl e, sw)
    | (Inr record'', (s'', w')) \<Rightarrow> (case finish at record'' s'' of (res, t) \<Rightarrow> (res, (t, w'))))"
    by (simp add: dec_finalize_def dec_get_tombstone_def tomb r b)
  show ?thesis
  proof (cases failure)
    case None
    have toa: "tombstone_of at ?a = tombstone_of at r"
      by (simp add: tombstone_of_def destruction.after_def put_destruction_def)
    have id: "dr_request_id ?a = k" using h(2) by simp
    obtain s3 where s3: "finish at ?a s2 = (Inr (tombstone_of at r), s3)" "dec_inv grace max_age calls s3"
      "\<forall>j. dict_get (ds_records s3) j = (if j = k then None else dict_get (ds_records s2) j)"
      "\<forall>j. dict_get (ds_tombstones s3) j = (if j = k then Some (tombstone_of at r) else dict_get (ds_tombstones s2) j)"
      using finish_inv [OF upd, of at] unfolding toa id by auto
    have "dec_finalize sv k t at s w = (Inr (tombstone_of at r), (s3, w'))"
      unfolding begun d using None s3(1) by simp
    then show ?thesis using s3 same None by (simp add: dec_get_record_def dec_get_tombstone_def)
  next
    case (Some f)
    obtain step e where f: "f = (step, e)" by (rule prod.exhaust)
    have "dec_finalize sv k t at s w = (Inl (DecommissionOperationFailed (destruction_step_value step)), (s2, w'))"
      unfolding begun d using Some f by simp
    moreover have "dict_get (ds_records s2) k = Some (r\<lparr>dr_state := DS_FINALIZING,
        dr_destruction_steps := dr_destruction_steps r @ finished,
        dr_last_failed_action := Some (destruction_step_value step), dr_revision := y2\<rparr>)"
      using rep2 h(2) x2 Some f by (simp add: replaced_def destruction.after_def put_destruction_def)
    ultimately show ?thesis
      using upd(1) same tomb Some f by (simp add: dec_get_record_def dec_get_tombstone_def) blast
  qed
qed

lemma dec_finalize_blocked:
  assumes inv: "dec_inv grace max_age calls s"
    and "\<not> (\<exists>r. require_exact_record k t s = Inr r \<and> finalizable at r)"
  shows "\<exists>out. dec_finalize sv k t at s w = (out, (s, w))"
proof (cases "require_exact_record k t s")
  case (Inr r)
  then show ?thesis
    using begin_finalizing_blocked [OF inv require_exact_held(1) [OF inv Inr]] assms(2)
    by (fastforce simp: dec_finalize_def split: option.splits)
qed (simp add: dec_finalize_def split: option.split)

lemma dec_finalize_inv:
  assumes inv: "dec_inv grace max_age calls s"
  shows "dec_inv grace max_age (insert (k, at) calls) (fst (snd (dec_finalize sv k t at s w)))"
proof -
  have inv': "dec_inv grace max_age (insert (k, at) calls) s" using dec_inv_mono [OF inv] by blast
  show ?thesis
  proof (cases "\<exists>r. require_exact_record k t s = Inr r \<and> finalizable at r")
    case False
    then show ?thesis using dec_finalize_blocked [OF inv, of k t at sv w] inv' by auto
  next
    case True
    then obtain r where r: "require_exact_record k t s = Inr r" "finalizable at r" by blast
    obtain f fl w1 where run: "run_pending (\<lambda>step. destruction_action sv step (dr_resources r)) (destruction_left r) w = (f, fl, w1)"
      by (rule prod_cases3)
    show ?thesis
      using dec_finalize_run [OF inv' r _ run] by (cases fl) auto
  qed
qed

section \<open>Histories of calls\<close>

text \<open>
  Any sequence of calls by any Operators, with adapters that behave differently each time, of a
  service built with the two periods. \<open>calls\<close> are the calls of \<^verbatim>\<open>finalize\<close> so far: the request
  each named and the time it stated.
\<close>

inductive decommissioned ::
  "'w itself \<Rightarrow> timedelta \<Rightarrow> timedelta \<Rightarrow> (string \<times> datetime) set \<Rightarrow> decommission_store \<Rightarrow> bool"
  for world grace max_age where
  init: "decommissioned world grace max_age {} empty_decommission_store"
| request: "decommissioned world grace max_age calls s \<Longrightarrow>
    decommissioned world grace max_age calls
      (fst (snd (dec_request (sv :: 'w decommission_service) k resources actor reason at policy s w)))"
| confirm: "decommissioned world grace max_age calls s \<Longrightarrow> dv_grace_period sv = grace \<Longrightarrow> dv_backup_max_age sv = max_age \<Longrightarrow>
    decommissioned world grace max_age calls
      (fst (snd (dec_confirm (sv :: 'w decommission_service) k t actor evidence at s w)))"
| cancel: "decommissioned world grace max_age calls s \<Longrightarrow>
    decommissioned world grace max_age calls (fst (snd (dec_cancel (sv :: 'w decommission_service) k t actor at s w)))"
| finalize: "decommissioned world grace max_age calls s \<Longrightarrow>
    decommissioned world grace max_age (insert (k, at) calls)
      (fst (snd (dec_finalize (sv :: 'w decommission_service) k t at s w)))"

lemma decommissioned_inv: "decommissioned world grace max_age calls s \<Longrightarrow> dec_inv grace max_age calls s"
proof (induction rule: decommissioned.induct)
  case init
  show ?case by (simp add: dec_inv_def empty_decommission_store_def dict_ok_def)
next
  case (confirm calls s sv k t actor evidence at w)
  then show ?case using dec_confirm_inv [of sv calls s] by simp
qed (simp_all add: dec_request_inv dec_cancel_inv dec_finalize_inv)

section \<open>Properties\<close>

text \<open>
  C12. Nothing is destroyed without two Operators and a recovery artifact: a call of
  \<^verbatim>\<open>finalize\<close> that touches the world names a request of exactly that Tenant whose access was
  suspended in full, that somebody other than the requester confirmed with complete, verified
  and acceptable evidence, and for which this or an earlier call stated a time at least the
  grace period after the time of the confirmation; and what it does to the world is a run of
  the remaining destruction steps on the captured resources and nothing else.
\<close>

theorem destruction_is_authorized:
  assumes "decommissioned TYPE('w) grace max_age calls s"
    and "dec_finalize (sv :: 'w decommission_service) k t at s w = (out, (s', w'))" and "w' \<noteq> w"
  shows "\<exists>r c confirmed_at ev stated finished failure. dec_get_record k s = Some r \<and> rs_tenant_id (dr_resources r) = t \<and>
    dr_suspension_steps r = SUSPENSION_ORDER \<and>
    dr_confirmed_by r = Some c \<and> c \<noteq> dr_requested_by r \<and> dr_confirmed_at r = Some confirmed_at \<and>
    dr_requested_at r \<le> confirmed_at \<and> dr_protection_evidence r = Some ev \<and> acceptable max_age ev confirmed_at \<and>
    (k, stated) \<in> insert (k, at) calls \<and> confirmed_at + grace \<le> stated \<and>
    run_pending (\<lambda>step. destruction_action sv step (dr_resources r)) (destruction_left r) w = (finished, failure, w')"
proof -
  note inv = decommissioned_inv [OF assms(1)]
  have inv': "dec_inv grace max_age (insert (k, at) calls) s" using dec_inv_mono [OF inv] by blast
  obtain r where r: "require_exact_record k t s = Inr r" "finalizable at r"
    using dec_finalize_blocked [OF inv, of k t at sv w] assms(2,3) by auto
  note h = require_exact_held [OF inv r(1)]
  obtain f fl w1 where run: "run_pending (\<lambda>step. destruction_action sv step (dr_resources r)) (destruction_left r) w = (f, fl, w1)"
    by (rule prod_cases3)
  have "w1 = w'" using dec_finalize_run [OF inv' r _ run] assms(2) by (cases fl) auto
  moreover have "dr_state r \<notin> {DS_SUSPENDING, DS_SUSPENDED}" using r(2) by (auto simp: finalizable_def)
  then have "confirmed grace max_age r" "dr_suspension_steps r = SUSPENSION_ORDER"
    using h(4) by (auto simp: record_ok_def)
  moreover have "\<exists>stated ends. (k, stated) \<in> insert (k, at) calls \<and> dr_grace_ends_at r = Some ends \<and> ends \<le> stated"
    using r(2) h(2,4) by (auto simp: finalizable_def record_ok_def grace_ended_def)
  moreover have "dec_get_record k s = Some r" using h(1,2) by (simp add: held_def dec_get_record_def)
  ultimately show ?thesis using h(3) run unfolding confirmed_def by fastforce
qed

text \<open>
  C16. A call of \<^verbatim>\<open>finalize\<close> that may go on refines one run of the abstract pipeline: the
  destruction steps after the recorded ones are executed in order on the captured resources
  until one raises. When one raised, the record keeps exactly the steps that completed and the
  name of the failed action, so a retry resumes there; when none did, the record is replaced by
  the tombstone. No other request changes.
\<close>

theorem finalize_refines_pipeline_run:
  assumes "decommissioned TYPE('w) grace max_age calls s"
    and "dec_get_record k s = Some r" and "rs_tenant_id (dr_resources r) = t" and "finalizable at r"
    and "run_pending (\<lambda>step. destruction_action (sv :: 'w decommission_service) step (dr_resources r)) (destruction_left r) w =
      (finished, failure, w')"
  shows "\<exists>s'. (\<forall>j. j \<noteq> k \<longrightarrow> dec_get_record j s' = dec_get_record j s \<and> dec_get_tombstone j s' = dec_get_tombstone j s) \<and>
    (case failure of
       None \<Rightarrow> dec_finalize sv k t at s w = (Inr (tombstone_of at r), (s', w')) \<and>
         dec_get_record k s' = None \<and> dec_get_tombstone k s' = Some (tombstone_of at r)
     | Some (step, e) \<Rightarrow>
         dec_finalize sv k t at s w = (Inl (DecommissionOperationFailed (destruction_step_value step)), (s', w')) \<and>
         (\<exists>y. dec_get_record k s' = Some (r\<lparr>dr_state := DS_FINALIZING,
            dr_destruction_steps := dr_destruction_steps r @ finished,
            dr_last_failed_action := Some (destruction_step_value step), dr_revision := y\<rparr>) \<and>
            dec_get_tombstone k s' = None))"
proof -
  have "dec_inv grace max_age (insert (k, at) calls) s"
    using dec_inv_mono [OF decommissioned_inv [OF assms(1)]] by blast
  moreover have "require_exact_record k t s = Inr r" using assms(2,3) by (simp add: require_exact_record_def)
  ultimately show ?thesis using dec_finalize_run [OF _ _ assms(4) _ assms(5)] by blast
qed

text \<open>
  A Tenant never has two open requests, a request is either open to change or finalized and
  never both, and every tombstone names two different Operators.
\<close>

lemma one_open_request_per_tenant:
  assumes "decommissioned world grace max_age calls s"
  shows "(\<nexists>j k p q. j \<noteq> k \<and> dec_get_record j s = Some p \<and> dec_get_record k s = Some q \<and>
      dr_state p \<noteq> DS_CANCELLED \<and> dr_state q \<noteq> DS_CANCELLED \<and>
      rs_tenant_id (dr_resources p) = rs_tenant_id (dr_resources q)) \<and>
    (\<nexists>k r d. dec_get_record k s = Some r \<and> dec_get_tombstone k s = Some d) \<and>
    (\<nexists>k d. dec_get_tombstone k s = Some d \<and> (dt_request_id d \<noteq> k \<or> dt_requested_by d = dt_confirmed_by d))"
proof -
  note inv = decommissioned_inv [OF assms]
  have unique: "j = k" if "dec_get_record j s = Some p" "dec_get_record k s = Some q" "dr_state p \<noteq> DS_CANCELLED"
    "dr_state q \<noteq> DS_CANCELLED" "rs_tenant_id (dr_resources p) = rs_tenant_id (dr_resources q)" for j k p q
    using dec_inv_unique [OF inv] that by (simp add: dec_get_record_def is_open_def)
  have none: "dec_get_tombstone k s = None" if "dec_get_record k s = Some r" for k r
    using dec_invD(4) [OF inv] that by (simp add: dec_get_record_def dec_get_tombstone_def)
  have two: "dt_request_id d = k \<and> dt_requested_by d \<noteq> dt_confirmed_by d" if "dec_get_tombstone k s = Some d" for k d
    using inv that by (simp add: dec_inv_def dec_get_tombstone_def)
  show ?thesis by (intro conjI) (use unique in blast, use none in fastforce, use two in blast)
qed

section \<open>The resources of different Tenants\<close>

lemma TenantResourceIdentity_Inr:
  assumes "TenantResourceIdentity raw = Inr r"
  defines "tid \<equiv> rs_tenant_id r"
  defines "normalized \<equiv> py_replace CHR ''.'' CHR ''_'' (py_replace CHR ''-'' CHR ''_'' tid)"
  shows "rs_compose_project r = ''memory-tenant-'' @ tid \<and> rs_neo4j_volume r = ''memory-tenant-'' @ tid @ ''-neo4j-data'' \<and>
    rs_database_name r = ''tenant_'' @ normalized \<and> rs_database_role r = ''tenant_'' @ normalized @ ''_rw'' \<and>
    rs_route_id r = ''route:'' @ tid \<and> posix_name (rs_tenant_secret_ref r) = tid"
  using assms(1) unfolding tid_def normalized_def
  by (auto simp: TenantResourceIdentity_def validate_tenant_derived_targets_def Let_def split: if_splits)

lemma normalized_injective:
  assumes "safe_id_pattern a" and "safe_id_pattern b"
    and "py_replace CHR ''.'' CHR ''_'' (py_replace CHR ''-'' CHR ''_'' a) =
      py_replace CHR ''.'' CHR ''_'' (py_replace CHR ''-'' CHR ''_'' b)"
  shows "a = b"
proof -
  let ?f = "\<lambda>c. if (if c = CHR ''-'' then CHR ''_'' else c) = CHR ''.'' then CHR ''_''
    else if c = CHR ''-'' then CHR ''_'' else c"
  have eq: "py_replace CHR ''.'' CHR ''_'' (py_replace CHR ''-'' CHR ''_'' s) = map ?f s" for s
    by (simp add: py_replace_def comp_def)
  have allowed: "c \<noteq> CHR ''_'' \<and> c \<noteq> CHR ''.''" if "safe_id_pattern s" "c \<in> set s" for s c
    using that by (force simp: safe_id_pattern_def list_all_iff is_lower_def is_digit_def less_eq_char_def)
  have "inj_on ?f (set a \<union> set b)"
    using allowed [OF assms(1)] allowed [OF assms(2)] by (auto simp: inj_on_def split: if_splits)
  then show ?thesis using assms(3) unfolding eq by (simp add: inj_on_map_eq_map)
qed

text \<open>
  Different Tenants with the identifiers that a Tenant Manifest admits never share a target:
  their accepted resources differ in every field, so removing those of one removes nothing of
  the other.
\<close>

lemma targets_are_disjoint:
  assumes "TenantResourceIdentity raw = Inr r" and "TenantResourceIdentity raw' = Inr r'"
    and "rs_tenant_id r \<noteq> rs_tenant_id r'" and "safe_id_pattern (rs_tenant_id r)" and "safe_id_pattern (rs_tenant_id r')"
  shows "rs_compose_project r \<noteq> rs_compose_project r' \<and> rs_neo4j_volume r \<noteq> rs_neo4j_volume r' \<and>
    rs_database_name r \<noteq> rs_database_name r' \<and> rs_database_role r \<noteq> rs_database_role r' \<and>
    rs_route_id r \<noteq> rs_route_id r' \<and> rs_tenant_secret_ref r \<noteq> rs_tenant_secret_ref r'"
  using TenantResourceIdentity_Inr [OF assms(1)] TenantResourceIdentity_Inr [OF assms(2)]
    normalized_injective [OF assms(4,5)] assms(3) by auto

text \<open>
  The validator itself admits identifiers with a dot, an underscore or a hyphen and maps all
  three to an underscore: it accepts resources of two different Tenants that name the same
  database and the same role.
\<close>

lemma targets_can_collide:
  "\<exists>raw raw' r r'. TenantResourceIdentity raw = Inr r \<and> TenantResourceIdentity raw' = Inr r' \<and>
     rs_tenant_id r \<noteq> rs_tenant_id r' \<and> rs_database_name r = rs_database_name r' \<and>
     rs_database_role r = rs_database_role r'"
proof -
  let ?r = "\<lambda>tid. \<lparr>rs_tenant_id = tid, rs_compose_project = ''memory-tenant-'' @ tid,
      rs_neo4j_volume = ''memory-tenant-'' @ tid @ ''-neo4j-data'', rs_database_name = ''tenant_acme_eu'',
      rs_database_role = ''tenant_acme_eu_rw'', rs_route_id = ''route:'' @ tid,
      rs_tenant_secret_ref = ''/run/secrets/'' @ tid\<rparr>"
  have "TenantResourceIdentity (?r ''acme-eu'') = Inr (?r ''acme-eu'')"
    "TenantResourceIdentity (?r ''acme.eu'') = Inr (?r ''acme.eu'')"
    by code_simp+
  then show ?thesis by fastforce
qed

section \<open>Instances\<close>

text \<open>Adapters over a log of their calls. The action named \<open>broken\<close> raises.\<close>

definition sample_service :: "string \<Rightarrow> string list decommission_service" where
  "sample_service broken =
     (let act = (\<lambda>name (_ :: tenant_resources) w. (if name = broken then Inl (AdapterError ''OSError'') else Inr (), w @ [name]));
          check = (\<lambda>name (_ :: tenant_resources) w. (Inr True, w @ [name]))
      in \<lparr>dv_suspend_sessions = act ''suspend-sessions'', dv_block_token_issuance = act ''block-token-issuance'',
          dv_revoke_active_credentials = act ''revoke-active-credentials'',
          dv_reactivate_without_issuing_tokens = act ''reactivate'',
          dv_verify_evidence = (\<lambda>_ _ w. (Inr True, w)),
          dv_verify_route = check ''route'', dv_verify_schema = check ''schema'', dv_verify_isolation = check ''isolation'',
          dv_verify_credentials = check ''credentials'', dv_verify_health = check ''health'',
          dv_remove_compose_project = act ''compose'', dv_remove_neo4j_volume = act ''volume'',
          dv_remove_tenant_database_and_role = act ''database'', dv_remove_route = act ''route'',
          dv_remove_tenant_secret_files = act ''secrets'', dv_purge_tenant_domain_records = act ''records'',
          dv_grace_period = DEFAULT_GRACE_PERIOD, dv_backup_max_age = DEFAULT_BACKUP_MAX_AGE\<rparr>)"

definition sample_resources :: tenant_resources where
  "sample_resources = \<lparr>rs_tenant_id = ''acme'', rs_compose_project = ''memory-tenant-acme'',
     rs_neo4j_volume = ''memory-tenant-acme-neo4j-data'', rs_database_name = ''tenant_acme'',
     rs_database_role = ''tenant_acme_rw'', rs_route_id = ''route:acme'', rs_tenant_secret_ref = ''/secrets/acme''\<rparr>"

definition sample_evidence :: protection_evidence where
  "sample_evidence = \<lparr>pf_kind = PK_BACKUP, pf_artifact_id = ''b1'', pf_created_at = hours 1, pf_verified_at = hours 2,
     pf_verified_by = ''opB'', pf_integrity_verified = True, pf_complete = True, pf_export_explicitly_accepted = False\<rparr>"

definition sample_requested :: decommission_store where
  "sample_requested = fst (snd (dec_request (sample_service []) ''d1'' sample_resources ''opA'' ''closed'' 0
     ''recent-valid-backup-or-accepted-export'' empty_decommission_store []))"

definition sample_confirmed :: decommission_store where
  "sample_confirmed = fst (snd (dec_confirm (sample_service []) ''d1'' ''acme'' ''opB'' sample_evidence (hours 3) sample_requested []))"

definition sample_record :: decommission_record where
  "sample_record = the (dec_get_record ''d1'' sample_confirmed)"

lemma sample_decommissioned:
  "decommissioned TYPE(string list) DEFAULT_GRACE_PERIOD DEFAULT_BACKUP_MAX_AGE {} sample_confirmed"
  unfolding sample_confirmed_def sample_requested_def
  by (intro decommissioned.intros) (simp_all add: sample_service_def Let_def)

lemma sample_record_facts:
  "dec_get_record ''d1'' sample_confirmed = Some sample_record" "rs_tenant_id (dr_resources sample_record) = ''acme''"
  "dr_state sample_record = DS_GRACE_PERIOD" "dr_grace_ends_at sample_record = Some (days 30 + hours 3)"
  "dr_destruction_steps sample_record = []"
  by code_simp+

lemma sample_finalizable: "finalizable (days 31) sample_record"
  by (simp add: finalizable_def sample_record_facts days_def hours_def)

theorem destruction_is_authorized_witness:
  "\<exists>out s' w' r c. dec_finalize (sample_service ''volume'') ''d1'' ''acme'' (days 31) sample_confirmed [] = (out, (s', w')) \<and>
     w' \<noteq> [] \<and> dec_get_record ''d1'' sample_confirmed = Some r \<and> dr_confirmed_by r = Some c \<and> c \<noteq> dr_requested_by r"
proof -
  let ?f = "dec_finalize (sample_service ''volume'') ''d1'' ''acme'' (days 31) sample_confirmed []"
  obtain out s' w' where f: "?f = (out, (s', w'))" by (rule prod_cases3)
  have "snd (snd ?f) \<noteq> []" by code_simp
  then have "w' \<noteq> []" by (simp add: f)
  then show ?thesis using destruction_is_authorized [OF sample_decommissioned f] f by blast
qed

theorem finalize_refines_pipeline_run_witness:
  "\<exists>s' y. dec_finalize (sample_service ''volume'') ''d1'' ''acme'' (days 31) sample_confirmed [] =
      (Inl (DecommissionOperationFailed ''remove-neo4j-volume''), (s', [''compose'', ''volume''])) \<and>
     dec_get_record ''d1'' s' = Some (sample_record\<lparr>dr_state := DS_FINALIZING,
       dr_destruction_steps := [REMOVE_COMPOSE_PROJECT], dr_last_failed_action := Some ''remove-neo4j-volume'', dr_revision := y\<rparr>)"
proof -
  have "run_pending (\<lambda>step. destruction_action (sample_service ''volume'') step (dr_resources sample_record))
      (destruction_left sample_record) [] =
      ([REMOVE_COMPOSE_PROJECT], Some (REMOVE_NEO4J_VOLUME, AdapterError ''OSError''), [''compose'', ''volume''])"
    by (simp add: destruction_left_def sample_record_facts DESTRUCTION_ORDER_def sample_service_def Let_def)
  from finalize_refines_pipeline_run [OF sample_decommissioned sample_record_facts(1,2) sample_finalizable this]
  show ?thesis by (auto simp: sample_record_facts)
qed

end
