(* ===== verification/ManifestProperties.thy ===== *)
theory ManifestProperties
  imports Manifest Samples
begin

text \<open>
  What the construction of a Tenant Manifest guarantees: the result is well formed, and validating
  the document written from it gives the same manifest again.
\<close>

section \<open>Well-formed manifests\<close>

definition principal_wf :: "manifest_principal \<Rightarrow> bool" where
  "principal_wf p \<longleftrightarrow>
     length_between 3 63 (mp_principal_id p) \<and> safe_id_pattern (mp_principal_id p) \<and> length_between 1 200 (mp_name p)"

definition membership_wf :: "manifest_membership \<Rightarrow> bool" where
  "membership_wf m \<longleftrightarrow>
     length_between 3 63 (mm_principal_id m) \<and> safe_id_pattern (mm_principal_id m) \<and> mm_roles m \<noteq> [] \<and>
     sorted (mm_roles m) \<and> distinct (mm_roles m) \<and> set (mm_roles m) \<subseteq> VALID_ROLES"

definition policies_wf :: "tenant_policies \<Rightarrow> bool" where
  "policies_wf p \<longleftrightarrow>
     tp_user_token_lifetime_days p \<in> {1..90} \<and> tp_delegated_agent_token_lifetime_days p \<in> {1..90} \<and>
     tp_autonomous_agent_token_lifetime_days p \<in> {1..30} \<and>
     tp_promotion_requires_human_review p \<and> tp_erasure_requires_admin_approval p"

definition manifest_wf :: "tenant_manifest \<Rightarrow> bool" where
  "manifest_wf m \<longleftrightarrow>
     tm_version m = 1 \<and> length_between 3 40 (tm_tenant_id m) \<and> safe_id_pattern (tm_tenant_id m) \<and>
     length_between 1 200 (tm_name m) \<and>
     tm_database_name m = tenant_database_name (tm_tenant_id m) \<and> postgres_name_pattern (tm_database_name m) \<and>
     tm_database_role m = tenant_database_role (tm_tenant_id m) \<and> postgres_name_pattern (tm_database_role m) \<and>
     tm_neo4j_service_name m = tenant_neo4j_service_name (tm_tenant_id m) \<and>
     list_all principal_wf (tm_principals m) \<and> distinct (map mp_principal_id (tm_principals m)) \<and>
     list_all membership_wf (tm_memberships m) \<and> distinct (map mm_principal_id (tm_memberships m)) \<and>
     (\<forall>mm\<in>set (tm_memberships m). \<exists>p\<in>set (tm_principals m). mp_principal_id p = mm_principal_id mm \<and>
        (mp_kind p = AGENT \<longrightarrow> set (mm_roles mm) = {''tenant_member''})) \<and>
     policies_wf (tm_policies m)"

section \<open>The parts\<close>

text \<open>A string without blanks at its ends is its own strip, and a strip has none.\<close>

lemma py_strip_fixed:
  assumes "s \<noteq> [] \<Longrightarrow> \<not> py_isspace (hd s) \<and> \<not> py_isspace (last s)"
  shows "py_strip s = s"
proof (cases "s = []")
  case False
  then have "dropWhile py_isspace s = s" "dropWhile py_isspace (rev s) = rev s"
    using assms by (simp_all add: dropWhile_eq_self_iff hd_rev)
  then show ?thesis by (simp add: py_strip_def)
qed (simp add: py_strip_def)

lemma py_strip_ends:
  assumes "py_strip s \<noteq> []"
  shows "\<not> py_isspace (hd (py_strip s)) \<and> \<not> py_isspace (last (py_strip s))"
proof -
  let ?left = "dropWhile py_isspace s"
  have strip: "rev (py_strip s) = dropWhile py_isspace (rev ?left)" by (simp add: py_strip_def)
  then have right: "\<not> py_isspace (hd (rev (py_strip s)))" using assms by (metis hd_dropWhile rev_is_Nil_conv)
  have "rev ?left = takeWhile py_isspace (rev ?left) @ rev (py_strip s)" by (simp add: strip)
  then have "?left = py_strip s @ rev (takeWhile py_isspace (rev ?left))" by (metis rev_append rev_rev_ident)
  then have "hd ?left = hd (py_strip s)" and "?left \<noteq> []" using assms by (metis hd_append2, metis append_is_Nil_conv)
  then have "\<not> py_isspace (hd (py_strip s))" using hd_dropWhile [of py_isspace s] by simp
  with right assms show ?thesis by (simp add: hd_rev)
qed

lemma py_strip_idem [simp]: "py_strip (py_strip s) = py_strip s"
  using py_strip_fixed py_strip_ends by blast

text \<open>Validation accepts what it returns, and returns it unchanged.\<close>

lemma validate_all_stable:
  assumes "validate_all f xs = Inr ys" and "\<And>x y. f x = Inr y \<Longrightarrow> f y = Inr y"
  shows "validate_all f ys = Inr ys"
  using assms
proof (induction xs arbitrary: ys)
  case (Cons x xs)
  then show ?case by (auto split: sum.splits)
qed simp

lemma validate_all_members:
  assumes "validate_all f xs = Inr ys" and "\<And>x y. f x = Inr y \<Longrightarrow> Q y"
  shows "list_all Q ys"
  using assms
proof (induction xs arbitrary: ys)
  case (Cons x xs)
  then show ?case by (auto split: sum.splits)
qed simp

lemma ManifestPrincipal_ok:
  assumes "ManifestPrincipal x = Inr p"
  shows "principal_wf p" and "ManifestPrincipal p = Inr p"
  using assms by (auto simp: ManifestPrincipal_def principal_wf_def Let_def split: if_splits)

lemma validate_roles_ok:
  assumes "validate_roles roles = Inr unique"
  shows "sorted unique \<and> distinct unique \<and> set unique \<subseteq> VALID_ROLES \<and> length unique = length roles"
    and "validate_roles unique = Inr unique"
  using assms by (auto simp: validate_roles_def Let_def sorted_list_of_set.idem_if_sorted_distinct split: if_splits)

lemma membership_roles_strip: "set roles \<subseteq> VALID_ROLES \<Longrightarrow> map py_strip roles = roles"
proof (rule map_idI)
  fix r assume "set roles \<subseteq> VALID_ROLES" and "r \<in> set roles"
  then have "r \<in> VALID_ROLES" by blast
  then show "py_strip r = r" by (auto simp: VALID_ROLES_def py_strip_def py_isspace_def)
qed

lemma ManifestMembership_ok:
  assumes "ManifestMembership x = Inr m"
  shows "membership_wf m" and "ManifestMembership m = Inr m"
proof -
  let ?pid = "py_strip (mm_principal_id x)" and ?roles = "map py_strip (mm_roles x)"
  obtain unique where u: "validate_roles ?roles = Inr unique" "m = \<lparr>mm_principal_id = ?pid, mm_roles = unique\<rparr>"
    "length_between 3 63 ?pid" "safe_id_pattern ?pid" "length_between 1 (card VALID_ROLES) ?roles"
    using assms by (auto simp: ManifestMembership_def Let_def split: if_splits sum.splits)
  note roles = validate_roles_ok [OF u(1)]
  have "unique \<noteq> []" using roles(1) u(5) by (auto simp: length_between_def)
  with u roles show "membership_wf m" by (simp add: membership_wf_def)
  have "length_between 1 (card VALID_ROLES) unique" using roles(1) u(5) by (simp add: length_between_def)
  then show "ManifestMembership m = Inr m"
    using u roles membership_roles_strip [of unique] by (simp add: ManifestMembership_def Let_def)
qed

lemma TenantPolicies_ok:
  assumes "TenantPolicies x = Inr p"
  shows "policies_wf p" and "TenantPolicies p = Inr p"
  using assms by (auto simp: TenantPolicies_def policies_wf_def split: if_splits)

section \<open>Links\<close>

lemma map_of_rev_distinct:
  assumes "distinct (map f xs)" and "x \<in> set xs"
  shows "map_of (map (\<lambda>y. (f y, y)) (rev xs)) (f x) = Some x"
proof (rule map_of_is_SomeI)
  have "map fst (map (\<lambda>y. (f y, y)) (rev xs)) = rev (map f xs)" by (simp add: rev_map comp_def)
  then show "distinct (map fst (map (\<lambda>y. (f y, y)) (rev xs)))" using assms(1) by simp
qed (use assms(2) in simp)

lemma card_set_distinct: "card (set xs) = length xs \<longleftrightarrow> distinct xs"
  by (metis card_distinct distinct_card)

lemma links_ok:
  assumes "validate_manifest_links_and_names m = Inr m'" and "list_all membership_wf (tm_memberships m)"
  shows "m' = m" and "tm_database_name m = tenant_database_name (tm_tenant_id m)"
    and "tm_database_role m = tenant_database_role (tm_tenant_id m)"
    and "tm_neo4j_service_name m = tenant_neo4j_service_name (tm_tenant_id m)"
    and "distinct (map mp_principal_id (tm_principals m))" and "distinct (map mm_principal_id (tm_memberships m))"
    and "\<forall>mm\<in>set (tm_memberships m). \<exists>p\<in>set (tm_principals m). mp_principal_id p = mm_principal_id mm \<and>
        (mp_kind p = AGENT \<longrightarrow> set (mm_roles mm) = {''tenant_member''})"
proof -
  let ?by_id = "map_of (map (\<lambda>p. (mp_principal_id p, p)) (rev (tm_principals m)))"
  have checks: "m' = m" "tm_database_name m = tenant_database_name (tm_tenant_id m)"
    "tm_database_role m = tenant_database_role (tm_tenant_id m)"
    "tm_neo4j_service_name m = tenant_neo4j_service_name (tm_tenant_id m)"
    "card (set (map mp_principal_id (tm_principals m))) = length (map mp_principal_id (tm_principals m))"
    "card (set (map mm_principal_id (tm_memberships m))) = length (map mm_principal_id (tm_memberships m))"
    "set (map mm_principal_id (tm_memberships m)) - set (map mp_principal_id (tm_principals m)) = {}"
    "\<not> list_ex (\<lambda>mm. (case ?by_id (mm_principal_id mm) of None \<Rightarrow> False | Some p \<Rightarrow> mp_kind p = AGENT) \<and>
       list_ex (\<lambda>r. r \<noteq> ''tenant_member'') (mm_roles mm)) (tm_memberships m)"
    using assms(1) unfolding validate_manifest_links_and_names_def Let_def
    by (simp_all only: sum.inject sum.distinct not_False_eq_True simp_thms split: if_splits)
  show "m' = m" "tm_database_name m = tenant_database_name (tm_tenant_id m)"
    "tm_database_role m = tenant_database_role (tm_tenant_id m)"
    "tm_neo4j_service_name m = tenant_neo4j_service_name (tm_tenant_id m)" by fact+
  show ids: "distinct (map mp_principal_id (tm_principals m))" and "distinct (map mm_principal_id (tm_memberships m))"
    using checks(5,6) by (simp_all only: card_set_distinct)
  show "\<forall>mm\<in>set (tm_memberships m). \<exists>p\<in>set (tm_principals m). mp_principal_id p = mm_principal_id mm \<and>
      (mp_kind p = AGENT \<longrightarrow> set (mm_roles mm) = {''tenant_member''})"
  proof
    fix mm assume mm: "mm \<in> set (tm_memberships m)"
    then have "mm_principal_id mm \<in> set (map mp_principal_id (tm_principals m))" using checks(7) by auto
    then obtain p where p: "p \<in> set (tm_principals m)" "mp_principal_id p = mm_principal_id mm" by auto
    have by_id: "?by_id (mm_principal_id mm) = Some p" using map_of_rev_distinct [OF ids p(1)] p(2) by simp
    have roles: "mm_roles mm \<noteq> []" using assms(2) mm by (auto simp: list_all_iff membership_wf_def)
    have "set (mm_roles mm) = {''tenant_member''}" if "mp_kind p = AGENT"
    proof -
      have "\<not> list_ex (\<lambda>r. r \<noteq> ''tenant_member'') (mm_roles mm)" using checks(8) mm by_id that by (auto simp: list_ex_iff)
      then have "\<forall>r\<in>set (mm_roles mm). r = ''tenant_member''" by (simp add: list_ex_iff)
      with roles show ?thesis by (cases "mm_roles mm") auto
    qed
    with p show "\<exists>p\<in>set (tm_principals m). mp_principal_id p = mm_principal_id mm \<and>
        (mp_kind p = AGENT \<longrightarrow> set (mm_roles mm) = {''tenant_member''})" by blast
  qed
qed

section \<open>Properties\<close>

text \<open>The fields that the construction accepts, before the links are checked.\<close>

lemma TenantManifest_fields:
  assumes "TenantManifest raw = Inr m"
  shows "validate_manifest_links_and_names m = Inr m" and "tm_version m = 1"
    and "length_between 3 40 (tm_tenant_id m) \<and> safe_id_pattern (tm_tenant_id m)" and "length_between 1 200 (tm_name m)"
    and "length_between 3 63 (tm_database_name m) \<and> postgres_name_pattern (tm_database_name m)"
    and "length_between 3 63 (tm_database_role m) \<and> postgres_name_pattern (tm_database_role m)"
    and "length_between 3 63 (tm_neo4j_service_name m) \<and> safe_id_pattern (tm_neo4j_service_name m)"
    and "py_strip (tm_tenant_id m) = tm_tenant_id m \<and> py_strip (tm_name m) = tm_name m \<and>
      py_strip (tm_database_name m) = tm_database_name m \<and> py_strip (tm_database_role m) = tm_database_role m \<and>
      py_strip (tm_neo4j_service_name m) = tm_neo4j_service_name m"
    and "\<exists>ps. validate_all ManifestPrincipal ps = Inr (tm_principals m)"
    and "\<exists>ms. validate_all ManifestMembership ms = Inr (tm_memberships m)"
    and "\<exists>p. TenantPolicies p = Inr (tm_policies m)"
proof -
  let ?v = "derive_infrastructure_names raw"
  let ?dbn = "py_strip (or_string (rm_database_name ?v) [])" and ?dbr = "py_strip (or_string (rm_database_role ?v) [])"
    and ?neo = "py_strip (or_string (rm_neo4j_service_name ?v) [])"
  obtain ps ms pol where parts: "validate_all ManifestPrincipal (rm_principals ?v) = Inr ps"
      "validate_all ManifestMembership (rm_memberships ?v) = Inr ms" "TenantPolicies (rm_policies ?v) = Inr pol"
    and links: "validate_manifest_links_and_names \<lparr>tm_version = rm_version ?v, tm_tenant_id = py_strip (rm_tenant_id ?v),
        tm_name = py_strip (rm_name ?v), tm_database_name = ?dbn, tm_database_role = ?dbr, tm_neo4j_service_name = ?neo,
        tm_principals = ps, tm_memberships = ms, tm_policies = pol\<rparr> = Inr m"
    and checks: "rm_version ?v = 1" "length_between 3 40 (py_strip (rm_tenant_id ?v)) \<and> safe_id_pattern (py_strip (rm_tenant_id ?v))"
      "length_between 1 200 (py_strip (rm_name ?v))" "length_between 3 63 ?dbn \<and> postgres_name_pattern ?dbn"
      "length_between 3 63 ?dbr \<and> postgres_name_pattern ?dbr" "length_between 3 63 ?neo \<and> safe_id_pattern ?neo"
    using assms unfolding TenantManifest_def Let_def by (auto split: if_splits sum.splits)
  have "list_all membership_wf ms" by (rule validate_all_members [OF parts(2)]) (rule ManifestMembership_ok)
  with links_ok(1) [OF links] have m: "m = \<lparr>tm_version = rm_version ?v, tm_tenant_id = py_strip (rm_tenant_id ?v),
        tm_name = py_strip (rm_name ?v), tm_database_name = ?dbn, tm_database_role = ?dbr, tm_neo4j_service_name = ?neo,
        tm_principals = ps, tm_memberships = ms, tm_policies = pol\<rparr>" by simp
  show "validate_manifest_links_and_names m = Inr m" using links by (simp only: m [symmetric])
  show "tm_version m = 1" "length_between 3 40 (tm_tenant_id m) \<and> safe_id_pattern (tm_tenant_id m)"
    "length_between 1 200 (tm_name m)" "length_between 3 63 (tm_database_name m) \<and> postgres_name_pattern (tm_database_name m)"
    "length_between 3 63 (tm_database_role m) \<and> postgres_name_pattern (tm_database_role m)"
    "length_between 3 63 (tm_neo4j_service_name m) \<and> safe_id_pattern (tm_neo4j_service_name m)"
    using checks by (simp_all add: m)
  show "py_strip (tm_tenant_id m) = tm_tenant_id m \<and> py_strip (tm_name m) = tm_name m \<and>
      py_strip (tm_database_name m) = tm_database_name m \<and> py_strip (tm_database_role m) = tm_database_role m \<and>
      py_strip (tm_neo4j_service_name m) = tm_neo4j_service_name m" by (simp add: m)
  show "\<exists>ps. validate_all ManifestPrincipal ps = Inr (tm_principals m)"
    "\<exists>ms. validate_all ManifestMembership ms = Inr (tm_memberships m)" "\<exists>p. TenantPolicies p = Inr (tm_policies m)"
    using parts by (auto simp: m)
qed

text \<open>
  C25. Every manifest that the construction returns is well formed: its identifiers and names match
  their patterns and lengths, its infrastructure names are the ones derived from the Tenant
  identifier, its Principals and its Memberships are distinct, each Membership belongs to a
  declared Principal and holds sorted, distinct, known roles, an Agent only that of a plain
  member, and the policies lie within the platform maxima.
\<close>

theorem manifest_is_well_formed:
  assumes "TenantManifest raw = Inr m"
  shows "manifest_wf m"
proof -
  note f = TenantManifest_fields [OF assms]
  obtain ps ms p where parts: "validate_all ManifestPrincipal ps = Inr (tm_principals m)"
      "validate_all ManifestMembership ms = Inr (tm_memberships m)" "TenantPolicies p = Inr (tm_policies m)"
    using f(9-11) by blast
  have principals: "list_all principal_wf (tm_principals m)" by (rule validate_all_members [OF parts(1)]) (rule ManifestPrincipal_ok)
  have memberships: "list_all membership_wf (tm_memberships m)" by (rule validate_all_members [OF parts(2)]) (rule ManifestMembership_ok)
  note links = links_ok [OF f(1) memberships]
  show ?thesis
    unfolding manifest_wf_def
    by (intro conjI principals memberships links(5,6,7) TenantPolicies_ok(1) [OF parts(3)] links(2,3,4) f(2,4)
        f(3) [THEN conjunct1] f(3) [THEN conjunct2] f(5) [THEN conjunct2] f(6) [THEN conjunct2])
qed

lemma sample_manifest_constructed: "TenantManifest sample_raw_manifest = Inr sample_manifest"
  by code_simp

theorem manifest_is_well_formed_witness: "manifest_wf sample_manifest"
  by (rule manifest_is_well_formed [OF sample_manifest_constructed])

text \<open>The document that \<^verbatim>\<open>model_dump\<close> writes spells every name out.\<close>

definition document_of :: "tenant_manifest \<Rightarrow> raw_manifest" where
  "document_of m = \<lparr>rm_version = tm_version m, rm_tenant_id = tm_tenant_id m, rm_name = tm_name m,
     rm_database_name = Some (tm_database_name m), rm_database_role = Some (tm_database_role m),
     rm_neo4j_service_name = Some (tm_neo4j_service_name m), rm_principals = tm_principals m,
     rm_memberships = tm_memberships m, rm_policies = tm_policies m\<rparr>"

text \<open>
  C26. Round trip: validating the document of a manifest that the construction returned gives
  exactly this manifest, so an exported manifest is imported unchanged.
\<close>

theorem manifest_document_round_trip:
  assumes "TenantManifest raw = Inr m"
  shows "TenantManifest (document_of m) = Inr m"
proof -
  note f = TenantManifest_fields [OF assms]
  obtain ps ms p where given: "validate_all ManifestPrincipal ps = Inr (tm_principals m)"
      "validate_all ManifestMembership ms = Inr (tm_memberships m)" "TenantPolicies p = Inr (tm_policies m)"
    using f(9-11) by blast
  have principals: "validate_all ManifestPrincipal (tm_principals m) = Inr (tm_principals m)"
    by (rule validate_all_stable [OF given(1)]) (rule ManifestPrincipal_ok(2))
  have memberships: "validate_all ManifestMembership (tm_memberships m) = Inr (tm_memberships m)"
    by (rule validate_all_stable [OF given(2)]) (rule ManifestMembership_ok(2))
  note parts = principals memberships TenantPolicies_ok(2) [OF given(3)]
  have names: "derive_infrastructure_names (document_of m) = document_of m"
    by (simp add: derive_infrastructure_names_def document_of_def Let_def)
  have whole: "\<lparr>tm_version = 1, tm_tenant_id = tm_tenant_id m, tm_name = tm_name m, tm_database_name = tm_database_name m,
      tm_database_role = tm_database_role m, tm_neo4j_service_name = tm_neo4j_service_name m, tm_principals = tm_principals m,
      tm_memberships = tm_memberships m, tm_policies = tm_policies m\<rparr> = m"
    using f(2) by (cases m) simp
  show ?thesis
    unfolding TenantManifest_def names Let_def using f(1-8) parts by (simp add: document_of_def or_string_def whole)
qed

theorem manifest_document_round_trip_witness: "TenantManifest (document_of sample_manifest) = Inr sample_manifest"
  by (rule manifest_document_round_trip [OF sample_manifest_constructed])

end
