(* ===== verification/AgentRuntime.thy ===== *)
theory AgentRuntime
  imports AgentRuns
begin

text \<open>
  \<^verbatim>\<open>AgentRuntimeModule\<close> of \<^verbatim>\<open>agents/runtime.py\<close> without an ActiveGraph event store
  (\<^verbatim>\<open>activegraph_store_factory=None\<close>): the record of a run, the accounting of its budget, one
  quantum of execution with its error handlers, and the replay of the event log.

  A run is not alone: between any two accesses to the repository other workers and clients may
  have changed it. \<open>wo_time\<close> counts the interactions of the run with the outside, and the
  environment says what each one meets: \<open>en_others t\<close> is what others did to the repository
  before interaction \<open>t\<close>, \<open>en_now t\<close> and \<open>en_monotonic t\<close> are the clocks, \<open>en_model t\<close> is the
  answer of the model provider. The ActiveGraph backend (third-party) is \<open>en_backend\<close>, which
  returns or raises.
\<close>

section \<open>Capabilities\<close>

text \<open>
  A capability sees a run only through \<^verbatim>\<open>AgentRunContext\<close>. Its \<^verbatim>\<open>execute\<close> is therefore the tree of
  the calls it makes, each continued with the value returned or the exception raised, which it
  may catch. A tool operation answers by the interaction count; what it does elsewhere is not
  part of a run. \<open>FinishOther\<close> is a result that is neither a Pydantic model nor a dict.
\<close>

datatype agent_program =
    Finish json_object
  | FinishOther
  | Fail error
  | CallModel string string "json \<Rightarrow> json result" "json result \<Rightarrow> agent_program"
  | CallTool string "nat \<Rightarrow> json result" "json result \<Rightarrow> agent_program"
  | Emit string json_object "unit result \<Rightarrow> agent_program"

text \<open>\<open>ca_validate\<close> is \<^verbatim>\<open>input_model.model_validate\<close>; a command is written as its JSON dump.\<close>

record agent_capability =
  ca_validate :: "json_object \<Rightarrow> json_object result"
  ca_execute :: "tenant_session \<Rightarrow> string \<Rightarrow> agent_model_settings \<Rightarrow> json_object \<Rightarrow> agent_program"

record model_request =
  rq_system :: string
  rq_user :: string
  rq_model :: string
  rq_max_tokens :: int
  rq_temperature :: rat
  rq_top_p :: rat
  rq_timeout_seconds :: rat
  rq_structured_output_mode :: string

record model_response =
  rp_parsed :: "json option"
  rp_cost_usd :: rat
  rp_model :: string
  rp_input_tokens :: int
  rp_output_tokens :: int

section \<open>The record of a run\<close>

text \<open>\<open>rr_claim\<close> is the lease that the \<^verbatim>\<open>persist\<close> callback of the record was bound to, if any.\<close>

record agent_run_record =
  rr_id :: string
  rr_session :: tenant_session
  rr_invocation :: agent_invocation
  rr_command :: json_object
  rr_settings :: agent_model_settings
  rr_budget :: agent_budget
  rr_state :: agent_run_state
  rr_model_calls :: int
  rr_tool_calls :: int
  rr_cost_usd :: rat
  rr_events :: "agent_run_event list"
  rr_output :: "json_object option"
  rr_failure :: "string option"
  rr_resumable :: bool
  rr_started_monotonic :: "rat option"
  rr_claim :: "agent_run_claim option"

record agent_world =
  wo_time :: nat
  wo_repository :: agent_repository

type_synonym run_state = "agent_run_record \<times> agent_world"

record agent_env =
  en_capabilities :: "(string, agent_capability) dict"
  en_settings :: agent_model_settings
  en_budget :: agent_budget
  en_others :: "nat \<Rightarrow> agent_repository \<Rightarrow> agent_repository"
  en_now :: "nat \<Rightarrow> datetime"
  en_monotonic :: "nat \<Rightarrow> rat"
  en_model :: "nat \<Rightarrow> model_request \<Rightarrow> model_response result"
  en_backend :: "agent_run_record \<Rightarrow> unit result"

definition run_usage :: "agent_run_record \<Rightarrow> agent_budget_usage" where
  "run_usage r = \<lparr>us_model_calls = rr_model_calls r, us_tool_calls = rr_tool_calls r,
     us_events = int (length (rr_events r)), us_cost_usd = rr_cost_usd r\<rparr>"

definition run_snapshot :: "agent_run_record \<Rightarrow> agent_run_snapshot" where
  "run_snapshot r =
     \<lparr>sn_run_id = rr_id r, sn_tenant_id = ts_tenant_id (rr_session r), sn_actor_id = ts_actor_id (rr_session r),
      sn_actor_kind = ts_actor_kind (rr_session r), sn_roles = sorted_list_of_set (ts_roles (rr_session r)),
      sn_subject_user_id = ts_subject_user_id (rr_session r), sn_delegation_id = ts_delegation_id (rr_session r),
      sn_invocation = rr_invocation r, sn_command = rr_command r, sn_settings = rr_settings r,
      sn_budget = rr_budget r, sn_state = rr_state r, sn_model_calls = rr_model_calls r,
      sn_tool_calls = rr_tool_calls r, sn_cost_usd = rr_cost_usd r, sn_events = rr_events r,
      sn_output = rr_output r, sn_failure = rr_failure r, sn_resumable = rr_resumable r\<rparr>"

definition run_view :: "agent_run_record \<Rightarrow> agent_run_view" where
  "run_view r =
     \<lparr>vw_id = rr_id r, vw_tenant_id = ts_tenant_id (rr_session r), vw_actor_id = ts_actor_id (rr_session r),
      vw_capability = iv_capability (rr_invocation r), vw_state = rr_state r, vw_settings = rr_settings r,
      vw_budget = rr_budget r, vw_usage = run_usage r, vw_events = rr_events r, vw_output = rr_output r,
      vw_failure = rr_failure r, vw_resumable = rr_resumable r\<rparr>"

section \<open>Event payloads\<close>

text \<open>\<^verbatim>\<open>model_dump(mode="json")\<close> of the settings, the budget and the usage.\<close>

definition dump_settings :: "agent_model_settings \<Rightarrow> json" where
  "dump_settings s = JObject
     [(''provider'', JString (se_provider s)), (''adapter'', JString (se_adapter s)),
      (''model'', JString (se_model s)), (''max_tokens'', JInt (se_max_tokens s)),
      (''temperature'', JFloat (se_temperature s)), (''top_p'', JFloat (se_top_p s)),
      (''timeout_seconds'', JFloat (se_timeout_seconds s)),
      (''structured_output_mode'', JString (se_structured_output_mode s))]"

definition dump_budget :: "agent_budget \<Rightarrow> json" where
  "dump_budget b = JObject
     [(''max_model_calls'', JInt (bg_max_model_calls b)), (''max_tool_calls'', JInt (bg_max_tool_calls b)),
      (''max_events'', JInt (bg_max_events b)), (''max_seconds'', JFloat (bg_max_seconds b)),
      (''max_cost_usd'', JDecimal (bg_max_cost_usd b))]"

definition dump_usage :: "agent_budget_usage \<Rightarrow> json" where
  "dump_usage u = JObject
     [(''model_calls'', JInt (us_model_calls u)), (''tool_calls'', JInt (us_tool_calls u)),
      (''events'', JInt (us_events u)), (''cost_usd'', JDecimal (us_cost_usd u))]"

definition dump_output :: "json_object option \<Rightarrow> json" where
  "dump_output output = (case output of None \<Rightarrow> JNull | Some payload \<Rightarrow> JObject payload)"

section \<open>Events and persistence\<close>

text \<open>Before an access to the repository others may have used it.\<close>

definition meet_others :: "agent_env \<Rightarrow> agent_world \<Rightarrow> agent_world" where
  "meet_others env w =
     w\<lparr>wo_time := wo_time w + 1, wo_repository := en_others env (wo_time w) (wo_repository w)\<rparr>"

definition persist_run :: "agent_env \<Rightarrow> run_state \<Rightarrow> (unit, run_state) outcome" where
  "persist_run env st =
     (let r = fst st; w = meet_others env (snd st)
      in case repo_save (en_now env (wo_time w)) (run_snapshot r) (rr_claim r) (wo_repository w) of
           (res, repository) \<Rightarrow> (res, (r, w\<lparr>wo_repository := repository\<rparr>)))"

text \<open>Without an event store the event stays in the record when persisting it raises.\<close>

definition append_event :: "agent_env \<Rightarrow> bool \<Rightarrow> string \<Rightarrow> json_object \<Rightarrow> run_state \<Rightarrow> (unit, run_state) outcome" where
  "append_event env force event_type data st =
     (let r = fst st; w = snd st
      in if \<not> force \<and> bg_max_events (rr_budget r) \<le> int (length (rr_events r))
         then (Inl (AgentBudgetExceeded ''events''), st)
         else persist_run env
           (r\<lparr>rr_events := rr_events r @
                [\<lparr>ae_sequence = int (length (rr_events r)) + 1, ae_type = event_type, ae_data = data,
                  ae_created_at = en_now env (wo_time w)\<rparr>]\<rparr>, w))"

definition refresh_cancellation :: "agent_env \<Rightarrow> run_state \<Rightarrow> bool \<times> run_state" where
  "refresh_cancellation env st =
     (let r = fst st; w = meet_others env (snd st);
          unchanged = (rr_state r = RUN_CANCEL_REQUESTED, (r, w))
      in case repo_get (ts_tenant_id (rr_session r)) (rr_id r) (wo_repository w) of
           None \<Rightarrow> unchanged
         | Some sn \<Rightarrow>
             if sn_state sn = RUN_CANCEL_REQUESTED
             then (True,
               (r\<lparr>rr_state := RUN_CANCEL_REQUESTED,
                  rr_model_calls := max (rr_model_calls r) (sn_model_calls sn),
                  rr_tool_calls := max (rr_tool_calls r) (sn_tool_calls sn),
                  rr_cost_usd := max (rr_cost_usd r) (sn_cost_usd sn),
                  rr_events := sn_events sn, rr_output := sn_output sn, rr_failure := sn_failure sn,
                  rr_resumable := sn_resumable sn\<rparr>, w))
             else unchanged)"

definition read_monotonic :: "agent_env \<Rightarrow> run_state \<Rightarrow> rat \<times> run_state" where
  "read_monotonic env st =
     (en_monotonic env (wo_time (snd st)), (fst st, (snd st)\<lparr>wo_time := wo_time (snd st) + 1\<rparr>))"

section \<open>The context of a capability\<close>

definition check_time :: "agent_env \<Rightarrow> run_state \<Rightarrow> (unit, run_state) outcome" where
  "check_time env st =
     (if rr_state (fst st) = RUN_CANCEL_REQUESTED then (Inl AgentCancellationRequested, st)
      else case refresh_cancellation env st of
        (True, st1) \<Rightarrow> (Inl AgentCancellationRequested, st1)
      | (False, st1) \<Rightarrow>
          (case rr_started_monotonic (fst st1) of
             None \<Rightarrow> (Inr (), st1)
           | Some started \<Rightarrow>
               (case read_monotonic env st1 of
                  (now, st2) \<Rightarrow>
                    if bg_max_seconds (rr_budget (fst st2)) \<le> now - started
                    then (Inl (AgentBudgetExceeded ''seconds''), st2)
                    else (Inr (), st2))))"

definition model_request_of :: "agent_run_record \<Rightarrow> string \<Rightarrow> string \<Rightarrow> model_request" where
  "model_request_of r system user =
     \<lparr>rq_system = system, rq_user = user, rq_model = se_model (rr_settings r),
      rq_max_tokens = se_max_tokens (rr_settings r), rq_temperature = se_temperature (rr_settings r),
      rq_top_p = se_top_p (rr_settings r), rq_timeout_seconds = se_timeout_seconds (rr_settings r),
      rq_structured_output_mode = se_structured_output_mode (rr_settings r)\<rparr>"

text \<open>
  What \<open>complete\<close> does with the answer of the provider. \<open>validate\<close> is the output schema: it returns
  an instance of the schema as it is, and what \<^verbatim>\<open>model_validate\<close> makes of anything else.
\<close>

definition accept_response ::
  "agent_env \<Rightarrow> (json \<Rightarrow> json result) \<Rightarrow> model_response \<Rightarrow> run_state \<Rightarrow> (json, run_state) outcome" where
  "accept_response env validate response st =
     (let r = (fst st)\<lparr>rr_cost_usd := rr_cost_usd (fst st) + rp_cost_usd response\<rparr>
      in if bg_max_cost_usd (rr_budget r) < rr_cost_usd r
         then (Inl (AgentBudgetExceeded ''cost_usd''), (r, snd st))
         else and_then (check_time env (r, snd st)) (\<lambda>_ st1.
           case rp_parsed response of
             None \<Rightarrow> (Inl (ValueError ''Model provider returned no structured output''), st1)
           | Some value \<Rightarrow>
               (case validate value of
                  Inl e \<Rightarrow> (Inl e, st1)
                | Inr parsed \<Rightarrow>
                    and_then (append_event env False ''agent.model.completed''
                        [(''call'', JInt (rr_model_calls (fst st1))), (''model'', JString (rp_model response)),
                         (''input_tokens'', JInt (rp_input_tokens response)),
                         (''output_tokens'', JInt (rp_output_tokens response)),
                         (''cost_usd'', JDecimal (rp_cost_usd response))] st1)
                      (\<lambda>_ st2. (Inr parsed, st2)))))"

definition context_complete ::
  "agent_env \<Rightarrow> string \<Rightarrow> string \<Rightarrow> (json \<Rightarrow> json result) \<Rightarrow> run_state \<Rightarrow> (json, run_state) outcome" where
  "context_complete env system user validate st =
     and_then (check_time env st) (\<lambda>_ st1.
       let r = fst st1
       in if bg_max_model_calls (rr_budget r) \<le> rr_model_calls r
          then (Inl (AgentBudgetExceeded ''model_calls''), st1)
          else and_then (append_event env False ''agent.model.requested''
              [(''call'', JInt (rr_model_calls r + 1)), (''model'', JString (se_model (rr_settings r)))]
              (r\<lparr>rr_model_calls := rr_model_calls r + 1\<rparr>, snd st1))
            (\<lambda>_ st2.
              let t = wo_time (snd st2); st3 = (fst st2, (snd st2)\<lparr>wo_time := t + 1\<rparr>)
              in case en_model env t (model_request_of (fst st2) system user) of
                   Inl e \<Rightarrow> (Inl e, st3)
                 | Inr response \<Rightarrow> accept_response env validate response st3))"

definition context_tool :: "agent_env \<Rightarrow> string \<Rightarrow> (nat \<Rightarrow> json result) \<Rightarrow> run_state \<Rightarrow> (json, run_state) outcome" where
  "context_tool env name operation st =
     and_then (check_time env st) (\<lambda>_ st1.
       let r = fst st1
       in if bg_max_tool_calls (rr_budget r) \<le> rr_tool_calls r
          then (Inl (AgentBudgetExceeded ''tool_calls''), st1)
          else and_then (append_event env False ''agent.tool.requested''
              [(''call'', JInt (rr_tool_calls r + 1)), (''tool'', JString name)]
              (r\<lparr>rr_tool_calls := rr_tool_calls r + 1\<rparr>, snd st1))
            (\<lambda>_ st2.
              let t = wo_time (snd st2); st3 = (fst st2, (snd st2)\<lparr>wo_time := t + 1\<rparr>)
              in case operation t of
                   Inl e \<Rightarrow> (Inl e, st3)
                 | Inr value \<Rightarrow>
                     and_then (check_time env st3) (\<lambda>_ st4.
                       and_then (append_event env False ''agent.tool.completed''
                           [(''call'', JInt (rr_tool_calls (fst st4))), (''tool'', JString name)] st4)
                         (\<lambda>_ st5. (Inr value, st5)))))"

definition context_emit :: "agent_env \<Rightarrow> string \<Rightarrow> json_object \<Rightarrow> run_state \<Rightarrow> (unit, run_state) outcome" where
  "context_emit env event_type data st =
     and_then (check_time env st) (\<lambda>_ st1. append_event env False event_type data st1)"

primrec run_program :: "agent_program \<Rightarrow> agent_env \<Rightarrow> run_state \<Rightarrow> (json_object, run_state) outcome" where
  "run_program (Finish payload) env st = (Inr payload, st)"
| "run_program FinishOther env st =
     (Inl (TypeError ''Agent capability output must be a Pydantic model or dict''), st)"
| "run_program (Fail e) env st = (Inl e, st)"
| "run_program (CallModel system user validate k) env st =
     (case context_complete env system user validate st of (res, st') \<Rightarrow> run_program (k res) env st')"
| "run_program (CallTool name operation k) env st =
     (case context_tool env name operation st of (res, st') \<Rightarrow> run_program (k res) env st')"
| "run_program (Emit event_type data k) env st =
     (case context_emit env event_type data st of (res, st') \<Rightarrow> run_program (k res) env st')"

section \<open>One quantum\<close>

definition usage_data :: "agent_run_record \<Rightarrow> string \<times> json" where
  "usage_data r = (''usage'', dump_usage (run_usage r))"

definition record_cancelled :: "agent_env \<Rightarrow> run_state \<Rightarrow> (unit, run_state) outcome" where
  "record_cancelled env st =
     (let r = (fst st)\<lparr>rr_state := RUN_CANCELLED, rr_resumable := True\<rparr>
      in append_event env True ''agent.run.cancelled'' [usage_data r] (r, snd st))"

definition complete_cancellation :: "agent_env \<Rightarrow> run_state \<Rightarrow> (unit, run_state) outcome" where
  "complete_cancellation env st = record_cancelled env (snd (refresh_cancellation env st))"

text \<open>
  The \<^verbatim>\<open>try\<close> block of \<^verbatim>\<open>run_quantum\<close>. The output is set before the event is appended and stays set
  when appending it raises.
\<close>

definition attempt_quantum :: "agent_env \<Rightarrow> run_state \<Rightarrow> (unit, run_state) outcome" where
  "attempt_quantum env st =
     and_then (append_event env False ''agent.run.started'' [] st) (\<lambda>_ st1.
       case en_backend env (fst st1) of
         Inl e \<Rightarrow> (Inl e, st1)
       | Inr _ \<Rightarrow>
           (case dict_get (en_capabilities env) (iv_capability (rr_invocation (fst st1))) of
              None \<Rightarrow> (Inl KeyError, st1)
            | Some capability \<Rightarrow>
                and_then
                  (run_program (ca_execute capability (rr_session (fst st1)) (rr_id (fst st1)) (rr_settings (fst st1))
                     (rr_command (fst st1))) env st1)
                  (\<lambda>payload st2.
                    let r = (fst st2)\<lparr>rr_output := Some payload, rr_state := RUN_COMPLETED\<rparr>
                    in append_event env False ''agent.run.completed''
                         [(''output'', JObject payload), usage_data r] (r, snd st2))))"

text \<open>A cancellation that arrives while the outcome is recorded wins over the outcome.\<close>

definition or_cancelled :: "agent_env \<Rightarrow> (unit, run_state) outcome \<Rightarrow> (unit, run_state) outcome" where
  "or_cancelled env recorded =
     (case recorded of
        (Inl (AgentRunCancellationRequested _), st) \<Rightarrow> complete_cancellation env st
      | other \<Rightarrow> other)"

definition record_exhausted :: "agent_env \<Rightarrow> string \<Rightarrow> run_state \<Rightarrow> (unit, run_state) outcome" where
  "record_exhausted env dimension st =
     (let r = (fst st)\<lparr>rr_state := RUN_BUDGET_EXHAUSTED, rr_resumable := True\<rparr>
      in append_event env True ''agent.run.budget_exhausted''
           [(''dimension'', JString dimension), usage_data r, (''output'', dump_output (rr_output r))] (r, snd st))"

definition record_failed :: "agent_env \<Rightarrow> error \<Rightarrow> run_state \<Rightarrow> (unit, run_state) outcome" where
  "record_failed env e st =
     (let r = (fst st)\<lparr>rr_state := RUN_FAILED, rr_failure := Some (error_name e), rr_resumable := True\<rparr>
      in append_event env True ''agent.run.failed'' [(''error_type'', JString (error_name e)), usage_data r] (r, snd st))"

definition handle_exception :: "agent_env \<Rightarrow> error \<Rightarrow> run_state \<Rightarrow> (unit, run_state) outcome" where
  "handle_exception env e st =
     (case e of
        AgentCancellationRequested \<Rightarrow> complete_cancellation env st
      | AgentBudgetExceeded dimension \<Rightarrow> or_cancelled env (record_exhausted env dimension st)
      | AgentRunCancellationRequested _ \<Rightarrow> complete_cancellation env st
      | AgentRunLeaseLost _ \<Rightarrow> (Inl e, st)
      | _ \<Rightarrow> or_cancelled env (record_failed env e st))"

definition settle :: "agent_env \<Rightarrow> (unit, run_state) outcome \<Rightarrow> (unit, run_state) outcome" where
  "settle env attempted = (case fst attempted of Inl e \<Rightarrow> handle_exception env e (snd attempted) | Inr _ \<Rightarrow> attempted)"

text \<open>The start of the time budget is set once for a record.\<close>

definition begin_quantum :: "agent_env \<Rightarrow> run_state \<Rightarrow> run_state" where
  "begin_quantum env st =
     (case rr_started_monotonic (fst st) of
        Some _ \<Rightarrow> ((fst st)\<lparr>rr_state := RUN_RUNNING\<rparr>, snd st)
      | None \<Rightarrow>
          (case read_monotonic env st of
             (now, st1) \<Rightarrow> ((fst st1)\<lparr>rr_started_monotonic := Some now, rr_state := RUN_RUNNING\<rparr>, snd st1)))"

definition quantum :: "agent_env \<Rightarrow> run_state \<Rightarrow> (agent_run_view, run_state) outcome" where
  "quantum env st =
     (case refresh_cancellation env st of
        (_, st1) \<Rightarrow>
          if terminal (rr_state (fst st1)) then (Inr (run_view (fst st1)), st1)
          else and_then
            (if rr_state (fst st1) = RUN_CANCEL_REQUESTED then record_cancelled env st1
             else settle env (attempt_quantum env (begin_quantum env st1)))
            (\<lambda>_ st2. (Inr (run_view (fst st2)), st2)))"

section \<open>Replay\<close>

text \<open>
  \<open>int(value)\<close> and \<open>Decimal(str(value))\<close> on the values an event can hold. \<open>JString\<close> is text that
  is not a number.
\<close>

definition json_int :: "json \<Rightarrow> int result" where
  "json_int j =
     (case j of
        JInt n \<Rightarrow> Inr n
      | JBool b \<Rightarrow> Inr (if b then 1 else 0)
      | JFloat x \<Rightarrow> Inr (if 0 \<le> x then \<lfloor>x\<rfloor> else \<lceil>x\<rceil>)
      | JDecimal x \<Rightarrow> (if x = of_int \<lfloor>x\<rfloor> then Inr \<lfloor>x\<rfloor> else Inl (ValueError ''invalid literal for int()''))
      | JString s \<Rightarrow> Inl (ValueError ''invalid literal for int()'')
      | _ \<Rightarrow> Inl (TypeError ''int() argument''))"

definition json_decimal :: "json \<Rightarrow> rat result" where
  "json_decimal j =
     (case j of
        JInt n \<Rightarrow> Inr (of_int n)
      | JFloat x \<Rightarrow> Inr x
      | JDecimal x \<Rightarrow> Inr x
      | _ \<Rightarrow> Inl InvalidOperation)"

definition json_item :: "json_object \<Rightarrow> string \<Rightarrow> json result" where
  "json_item payload key = (case dict_get payload key of None \<Rightarrow> Inl KeyError | Some j \<Rightarrow> Inr j)"

definition dict_or_none :: "json option \<Rightarrow> json_object option" where
  "dict_or_none value = (case value of Some (JObject payload) \<Rightarrow> Some payload | _ \<Rightarrow> None)"

text \<open>
  What pydantic makes of the settings and the budget in the queued event, and \<open>str\<close> of a value
  that is not a string, are parameters of the replay.
\<close>

record replay_ops =
  ro_settings :: "json \<Rightarrow> agent_model_settings result"
  ro_budget :: "json \<Rightarrow> agent_budget result"
  ro_str :: "json \<Rightarrow> string"

definition json_str :: "replay_ops \<Rightarrow> json \<Rightarrow> string" where
  "json_str ops j = (case j of JString s \<Rightarrow> s | _ \<Rightarrow> ro_str ops j)"

record replay_state =
  rs_state :: agent_run_state
  rs_settings :: agent_model_settings
  rs_budget :: agent_budget
  rs_output :: "json_object option"
  rs_failure :: "string option"
  rs_resumable :: bool
  rs_model_calls :: int
  rs_tool_calls :: int
  rs_cost_usd :: rat
  rs_terminal_usage :: "json_object option"

definition bind_result :: "'a result \<Rightarrow> ('a \<Rightarrow> 'b result) \<Rightarrow> 'b result" where
  "bind_result m f = (case m of Inl e \<Rightarrow> Inl e | Inr x \<Rightarrow> f x)"

definition replay_event :: "replay_ops \<Rightarrow> agent_run_event \<Rightarrow> replay_state \<Rightarrow> replay_state result" where
  "replay_event ops event s =
     (let data = ae_data event
      in if ae_type event = ''agent.run.queued''
         then bind_result (bind_result (json_item data ''settings'') (ro_settings ops)) (\<lambda>settings.
              bind_result (bind_result (json_item data ''budget'') (ro_budget ops)) (\<lambda>budget.
              Inr (s\<lparr>rs_settings := settings, rs_budget := budget\<rparr>)))
         else if ae_type event = ''agent.run.started'' then Inr (s\<lparr>rs_state := RUN_RUNNING\<rparr>)
         else if ae_type event = ''agent.run.cancellation_requested'' then Inr (s\<lparr>rs_state := RUN_CANCEL_REQUESTED\<rparr>)
         else if ae_type event = ''agent.model.requested'' then Inr (s\<lparr>rs_model_calls := rs_model_calls s + 1\<rparr>)
         else if ae_type event = ''agent.model.completed''
         then bind_result (bind_result (json_item data ''cost_usd'') json_decimal) (\<lambda>cost.
              Inr (s\<lparr>rs_cost_usd := rs_cost_usd s + cost\<rparr>))
         else if ae_type event = ''agent.tool.requested'' then Inr (s\<lparr>rs_tool_calls := rs_tool_calls s + 1\<rparr>)
         else if ae_type event = ''agent.run.completed''
         then Inr (s\<lparr>rs_state := RUN_COMPLETED, rs_output := dict_or_none (dict_get data ''output''),
                     rs_terminal_usage := dict_or_none (dict_get data ''usage'')\<rparr>)
         else if ae_type event = ''agent.run.cancelled''
         then Inr (s\<lparr>rs_state := RUN_CANCELLED, rs_resumable := True,
                     rs_terminal_usage := dict_or_none (dict_get data ''usage'')\<rparr>)
         else if ae_type event = ''agent.run.budget_exhausted''
         then Inr (s\<lparr>rs_state := RUN_BUDGET_EXHAUSTED, rs_resumable := True,
                     rs_output := dict_or_none (dict_get data ''output''),
                     rs_terminal_usage := dict_or_none (dict_get data ''usage'')\<rparr>)
         else if ae_type event = ''agent.run.failed''
         then bind_result (json_item data ''error_type'') (\<lambda>name.
              Inr (s\<lparr>rs_state := RUN_FAILED, rs_resumable := True, rs_failure := Some (json_str ops name),
                     rs_terminal_usage := dict_or_none (dict_get data ''usage'')\<rparr>))
         else Inr s)"

fun replay_events :: "replay_ops \<Rightarrow> agent_run_event list \<Rightarrow> replay_state \<Rightarrow> replay_state result" where
  "replay_events ops [] s = Inr s"
| "replay_events ops (event # events) s = bind_result (replay_event ops event s) (replay_events ops events)"

definition replay_start :: "agent_run_record \<Rightarrow> replay_state" where
  "replay_start r = \<lparr>rs_state = RUN_QUEUED, rs_settings = rr_settings r, rs_budget = rr_budget r, rs_output = None,
     rs_failure = None, rs_resumable = False, rs_model_calls = 0, rs_tool_calls = 0, rs_cost_usd = 0,
     rs_terminal_usage = None\<rparr>"

text \<open>The usage that the last terminal event recorded replaces what was counted.\<close>

definition replay_usage :: "replay_state \<Rightarrow> replay_state result" where
  "replay_usage s =
     (case rs_terminal_usage s of
        None \<Rightarrow> Inr s
      | Some usage \<Rightarrow>
          bind_result (bind_result (json_item usage ''model_calls'') json_int) (\<lambda>model_calls.
          bind_result (bind_result (json_item usage ''tool_calls'') json_int) (\<lambda>tool_calls.
          bind_result (bind_result (json_item usage ''cost_usd'') json_decimal) (\<lambda>cost.
          Inr (s\<lparr>rs_model_calls := model_calls, rs_tool_calls := tool_calls, rs_cost_usd := cost\<rparr>)))))"

definition replay_view :: "replay_ops \<Rightarrow> agent_run_record \<Rightarrow> agent_run_view result" where
  "replay_view ops r =
     bind_result (bind_result (replay_events ops (rr_events r) (replay_start r)) replay_usage) (\<lambda>s.
       Inr \<lparr>vw_id = rr_id r, vw_tenant_id = ts_tenant_id (rr_session r), vw_actor_id = ts_actor_id (rr_session r),
            vw_capability = iv_capability (rr_invocation r), vw_state = rs_state s, vw_settings = rs_settings s,
            vw_budget = rs_budget s,
            vw_usage = \<lparr>us_model_calls = rs_model_calls s, us_tool_calls = rs_tool_calls s,
              us_events = int (length (rr_events r)), us_cost_usd = rs_cost_usd s\<rparr>,
            vw_events = rr_events r, vw_output = rs_output s, vw_failure = rs_failure s,
            vw_resumable = rs_resumable s\<rparr>)"

section \<open>The operations of the module\<close>

text \<open>\<^verbatim>\<open>_require_run_context\<close>: None when it returns.\<close>

definition require_run_context :: "tenant_session \<Rightarrow> tenant_session \<Rightarrow> error option" where
  "require_run_context session owner =
     (if ts_tenant_id session = ts_tenant_id owner \<and> ts_actor_id session = ts_actor_id owner
         \<and> ts_actor_kind session = ts_actor_kind owner \<and> ts_subject_user_id session = ts_subject_user_id owner
         \<and> ts_delegation_id session = ts_delegation_id owner
      then None else Some (LookupError ''Agent Run not found''))"

definition record_from_snapshot ::
  "agent_env \<Rightarrow> agent_run_claim option \<Rightarrow> agent_run_snapshot \<Rightarrow> agent_run_record result" where
  "record_from_snapshot env claim sn =
     (case dict_get (en_capabilities env) (iv_capability (sn_invocation sn)) of
        None \<Rightarrow> Inl (ValueError ''Persisted Agent capability is not registered'')
      | Some capability \<Rightarrow>
          bind_result (snapshot_session sn) (\<lambda>session.
          bind_result (ca_validate capability (sn_command sn)) (\<lambda>command.
          Inr \<lparr>rr_id = sn_run_id sn, rr_session = session, rr_invocation = sn_invocation sn, rr_command = command,
               rr_settings = sn_settings sn, rr_budget = sn_budget sn, rr_state = sn_state sn,
               rr_model_calls = sn_model_calls sn, rr_tool_calls = sn_tool_calls sn, rr_cost_usd = sn_cost_usd sn,
               rr_events = sn_events sn, rr_output = sn_output sn, rr_failure = sn_failure sn,
               rr_resumable = sn_resumable sn, rr_started_monotonic = None, rr_claim = claim\<rparr>)))"

text \<open>\<^verbatim>\<open>_record\<close> for a run that this process is not executing.\<close>

definition find_record :: "agent_env \<Rightarrow> tenant_session \<Rightarrow> string \<Rightarrow> agent_world \<Rightarrow> (agent_run_record, agent_world) outcome" where
  "find_record env session run_id w =
     (let w1 = meet_others env w
      in (case repo_get (ts_tenant_id session) run_id (wo_repository w1) of
            None \<Rightarrow> Inl (LookupError ''Agent Run not found'')
          | Some sn \<Rightarrow>
              bind_result (snapshot_session sn) (\<lambda>owner.
                case require_run_context session owner of
                  Some e \<Rightarrow> Inl e
                | None \<Rightarrow> record_from_snapshot env None sn), w1))"

definition agent_status :: "agent_env \<Rightarrow> tenant_session \<Rightarrow> string \<Rightarrow> agent_world \<Rightarrow> (agent_run_view, agent_world) outcome" where
  "agent_status env session run_id w =
     and_then (find_record env session run_id w) (\<lambda>r w1. (Inr (run_view r), w1))"

definition agent_replay ::
  "replay_ops \<Rightarrow> agent_env \<Rightarrow> tenant_session \<Rightarrow> string \<Rightarrow> agent_world \<Rightarrow> (agent_run_view, agent_world) outcome" where
  "agent_replay ops env session run_id w =
     and_then (find_record env session run_id w) (\<lambda>r w1. (replay_view ops r, w1))"

definition agent_cancel :: "agent_env \<Rightarrow> tenant_session \<Rightarrow> string \<Rightarrow> agent_world \<Rightarrow> (agent_run_view, agent_world) outcome" where
  "agent_cancel env session run_id w =
     (let w1 = meet_others env w
      in case repo_request_cancellation (en_now env (wo_time w1)) session run_id (wo_repository w1) of
           (None, repository) \<Rightarrow> (Inl (LookupError ''Agent Run not found''), w1\<lparr>wo_repository := repository\<rparr>)
         | (Some sn, repository) \<Rightarrow>
             (bind_result (record_from_snapshot env None sn) (\<lambda>r. Inr (run_view r)), w1\<lparr>wo_repository := repository\<rparr>))"

definition new_record ::
  "agent_env \<Rightarrow> string \<Rightarrow> datetime \<Rightarrow> tenant_session \<Rightarrow> agent_invocation \<Rightarrow> json_object \<Rightarrow> agent_run_record" where
  "new_record env run_id now session invocation command =
     \<lparr>rr_id = run_id, rr_session = session, rr_invocation = invocation, rr_command = command,
      rr_settings = en_settings env, rr_budget = en_budget env, rr_state = RUN_QUEUED, rr_model_calls = 0,
      rr_tool_calls = 0, rr_cost_usd = 0,
      rr_events = [\<lparr>ae_sequence = 1, ae_type = ''agent.run.queued'',
        ae_data = [(''capability'', JString (iv_capability invocation)),
          (''provider'', JString (se_provider (en_settings env))), (''adapter'', JString (se_adapter (en_settings env))),
          (''model'', JString (se_model (en_settings env))), (''settings'', dump_settings (en_settings env)),
          (''budget'', dump_budget (en_budget env))],
        ae_created_at = now\<rparr>],
      rr_output = None, rr_failure = None, rr_resumable = False, rr_started_monotonic = None, rr_claim = None\<rparr>"

definition start_agent_run ::
  "agent_env \<Rightarrow> string \<Rightarrow> tenant_session \<Rightarrow> agent_invocation \<Rightarrow> agent_world \<Rightarrow> (agent_run_view, agent_world) outcome" where
  "start_agent_run env run_id session invocation w =
     (case dict_get (en_capabilities env) (iv_capability invocation) of
        None \<Rightarrow> (Inl (ValueError ''Agent capability is not registered''), w)
      | Some capability \<Rightarrow>
          (case ca_validate capability (iv_input invocation) of
             Inl e \<Rightarrow> (Inl e, w)
           | Inr command \<Rightarrow>
               (let r = new_record env run_id (en_now env (wo_time w)) session invocation command;
                    w1 = meet_others env w
                in case repo_create_or_get (run_snapshot r) (wo_repository w1) of
                     (Inl e, repository) \<Rightarrow> (Inl e, w1\<lparr>wo_repository := repository\<rparr>)
                   | (Inr accepted, repository) \<Rightarrow>
                       ((if sn_run_id accepted \<noteq> run_id
                         then bind_result (snapshot_session accepted) (\<lambda>owner.
                           case require_run_context session owner of
                             Some e \<Rightarrow> Inl e
                           | None \<Rightarrow> bind_result (record_from_snapshot env None accepted) (\<lambda>d. Inr (run_view d)))
                         else Inr (run_view r)),
                        w1\<lparr>wo_repository := repository\<rparr>))))"

definition run_quantum ::
  "agent_env \<Rightarrow> tenant_session \<Rightarrow> string \<Rightarrow> agent_world \<Rightarrow> (agent_run_view, agent_world) outcome" where
  "run_quantum env session run_id w =
     and_then (find_record env session run_id w) (\<lambda>r w1.
       case quantum env (r, w1) of (res, st) \<Rightarrow> (res, snd st))"

text \<open>
  The loop of \<^verbatim>\<open>_run_until_terminal\<close>: without a claim every quantum loads the record again;
  under a claim the record that \<^verbatim>\<open>run_claimed\<close> cached is used throughout.
\<close>

partial_function (option) quanta_until_terminal ::
  "agent_env \<Rightarrow> tenant_session \<Rightarrow> string \<Rightarrow> agent_run_view \<Rightarrow> agent_world \<Rightarrow>
   (agent_run_view, agent_world) outcome option" where
  "quanta_until_terminal env session run_id view w =
     (if terminal (vw_state view) then Some (Inr view, w)
      else case run_quantum env session run_id w of
             (Inl e, w1) \<Rightarrow> Some (Inl e, w1)
           | (Inr view1, w1) \<Rightarrow> quanta_until_terminal env session run_id view1 w1)"

definition run_until_terminal ::
  "agent_env \<Rightarrow> tenant_session \<Rightarrow> string \<Rightarrow> agent_world \<Rightarrow> (agent_run_view, agent_world) outcome option" where
  "run_until_terminal env session run_id w =
     (case agent_status env session run_id w of
        (Inl e, w1) \<Rightarrow> Some (Inl e, w1)
      | (Inr view, w1) \<Rightarrow> quanta_until_terminal env session run_id view w1)"

partial_function (option) claimed_quanta ::
  "agent_env \<Rightarrow> agent_run_view \<Rightarrow> run_state \<Rightarrow> (agent_run_view, agent_world) outcome option" where
  "claimed_quanta env view st =
     (if terminal (vw_state view) then Some (Inr view, snd st)
      else case quantum env st of
             (Inl e, st1) \<Rightarrow> Some (Inl e, snd st1)
           | (Inr view1, st1) \<Rightarrow> claimed_quanta env view1 st1)"

definition run_claimed :: "agent_env \<Rightarrow> agent_run_claim \<Rightarrow> agent_world \<Rightarrow> (agent_run_view, agent_world) outcome option" where
  "run_claimed env claim w =
     (case record_from_snapshot env (Some claim) (lc_snapshot claim) of
        Inl e \<Rightarrow> Some (Inl e, w)
      | Inr r \<Rightarrow> claimed_quanta env (run_view r) (r, w))"

definition agent_run_pending ::
  "agent_env \<Rightarrow> string \<Rightarrow> string \<Rightarrow> string \<Rightarrow> agent_world \<Rightarrow> (agent_run_view, agent_world) outcome option" where
  "agent_run_pending env uid tenant_id run_id w =
     (let w1 = meet_others env w
      in case repo_claim_run uid (en_now env (wo_time w1)) tenant_id run_id 300 (wo_repository w1) of
           (Inl e, repository) \<Rightarrow> Some (Inl e, w1\<lparr>wo_repository := repository\<rparr>)
         | (Inr (Some claim), repository) \<Rightarrow> run_claimed env claim (w1\<lparr>wo_repository := repository\<rparr>)
         | (Inr None, repository) \<Rightarrow>
             let w2 = meet_others env (w1\<lparr>wo_repository := repository\<rparr>)
             in (case repo_get tenant_id run_id (wo_repository w2) of
                   None \<Rightarrow> Some (Inl (LookupError ''Agent Run not found''), w2)
                 | Some sn \<Rightarrow> Some (bind_result (record_from_snapshot env None sn) (\<lambda>r. Inr (run_view r)), w2)))"

declare quanta_until_terminal.simps [code] and claimed_quanta.simps [code]

end
