(* ===== verification/AgentRunProperties.thy ===== *)
theory AgentRunProperties
  imports AgentRuns
begin

text \<open>
  What the repository of Agent Runs promises to concurrent workers: there is one run per
  idempotency key, a run that ended never changes, a requested cancellation is never lost, and a
  worker whose lease was taken over cannot write.
\<close>

section \<open>Steps of the repository\<close>

text \<open>
  Any interleaving of the operations. A run is created under an identifier that is not in use,
  and later snapshots of a run keep its idempotency context, as every snapshot the runtime
  writes does.
\<close>

inductive run_step :: "agent_repository \<Rightarrow> agent_repository \<Rightarrow> bool" where
  create: "dict_get (ar_runs s) (snapshot_key sn) = None \<Longrightarrow> run_step s (snd (repo_create_or_get sn s))"
| save: "dict_get (ar_runs s) (snapshot_key sn) = Some old \<Longrightarrow>
    idempotency_context_of sn = idempotency_context_of old \<Longrightarrow> run_step s (snd (repo_save now sn claim s))"
| cancel: "run_step s (snd (repo_request_cancellation now session run_id s))"
| claim: "run_step s (snd (repo_claim_run uid now tenant_id run_id lease_seconds s))"
| claim_any: "run_step s (snd (repo_claim_runnable uid now tenant_id lease_seconds s))"
| listing: "run_step s (snd (repo_list_runnable now tenant_id limit s))"

definition runs_reachable :: "agent_repository \<Rightarrow> bool" where
  "runs_reachable s \<longleftrightarrow> run_step\<^sup>*\<^sup>* empty_agent_repository s"

section \<open>The invariant\<close>

definition version_at :: "agent_repository \<Rightarrow> run_key \<Rightarrow> int" where
  "version_at s key = (case dict_get (ar_lease_versions s) key of None \<Rightarrow> 0 | Some v \<Rightarrow> v)"

definition runs_inv :: "agent_repository \<Rightarrow> bool" where
  "runs_inv s \<longleftrightarrow>
     (\<forall>key sn. dict_get (ar_runs s) key = Some sn \<longrightarrow>
        snapshot_key sn = key \<and> dict_get (ar_idempotency s) (idempotency_context_of sn) = Some (sn_run_id sn)) \<and>
     (\<forall>context run_id. dict_get (ar_idempotency s) context = Some run_id \<longrightarrow>
        (\<exists>sn. dict_get (ar_runs s) (fst context, run_id) = Some sn \<and> idempotency_context_of sn = context)) \<and>
     (\<forall>key claim. dict_get (ar_leases s) key = Some claim \<longrightarrow>
        claim_key claim = key \<and> lc_lease_version claim = version_at s key)"

lemma runs_invI:
  assumes "\<And>key sn. dict_get (ar_runs s) key = Some sn \<Longrightarrow>
      snapshot_key sn = key \<and> dict_get (ar_idempotency s) (idempotency_context_of sn) = Some (sn_run_id sn)"
    and "\<And>context run_id. dict_get (ar_idempotency s) context = Some run_id \<Longrightarrow>
      \<exists>sn. dict_get (ar_runs s) (fst context, run_id) = Some sn \<and> idempotency_context_of sn = context"
    and "\<And>key claim. dict_get (ar_leases s) key = Some claim \<Longrightarrow>
      claim_key claim = key \<and> lc_lease_version claim = version_at s key"
  shows "runs_inv s"
  unfolding runs_inv_def using assms by blast

lemma runs_invD:
  assumes "runs_inv s"
  shows "dict_get (ar_runs s) key = Some sn \<Longrightarrow>
      snapshot_key sn = key \<and> dict_get (ar_idempotency s) (idempotency_context_of sn) = Some (sn_run_id sn)"
    and "dict_get (ar_idempotency s) context = Some run_id \<Longrightarrow>
      \<exists>sn. dict_get (ar_runs s) (fst context, run_id) = Some sn \<and> idempotency_context_of sn = context"
    and "dict_get (ar_leases s) key = Some claim \<Longrightarrow>
      claim_key claim = key \<and> lc_lease_version claim = version_at s key"
  using assms unfolding runs_inv_def by blast+

text \<open>What a step may do to a run: keep what it is, and only move it forward.\<close>

definition run_advances :: "agent_run_snapshot \<Rightarrow> agent_run_snapshot \<Rightarrow> bool" where
  "run_advances old new \<longleftrightarrow>
     snapshot_key new = snapshot_key old \<and> idempotency_context_of new = idempotency_context_of old \<and>
     (terminal (sn_state old) \<longrightarrow> new = old) \<and>
     (sn_state old = RUN_CANCEL_REQUESTED \<longrightarrow> sn_state new \<in> {RUN_CANCEL_REQUESTED, RUN_CANCELLED})"

definition repo_advances :: "agent_repository \<Rightarrow> agent_repository \<Rightarrow> bool" where
  "repo_advances s s' \<longleftrightarrow>
     (\<forall>key old. dict_get (ar_runs s) key = Some old \<longrightarrow>
        (\<exists>new. dict_get (ar_runs s') key = Some new \<and> run_advances old new)) \<and>
     (\<forall>key. version_at s key \<le> version_at s' key)"

lemma run_advances_refl [simp]: "run_advances sn sn"
  by (simp add: run_advances_def)

lemma run_advances_trans: "run_advances a b \<Longrightarrow> run_advances b c \<Longrightarrow> run_advances a c"
  by (auto simp: run_advances_def terminal_def)

lemma repo_advances_refl [simp]: "repo_advances s s"
  by (simp add: repo_advances_def)

lemma repo_advances_trans: "repo_advances s t \<Longrightarrow> repo_advances t u \<Longrightarrow> repo_advances s u"
  unfolding repo_advances_def by (meson order_trans run_advances_trans)

section \<open>Every operation keeps it\<close>

text \<open>Dropping an expired lease.\<close>

lemma active_claim_cases:
  assumes "repo_active_claim now key s = (active, s')"
  shows "ar_runs s' = ar_runs s \<and> ar_idempotency s' = ar_idempotency s \<and> ar_lease_versions s' = ar_lease_versions s \<and>
    (\<forall>j claim. dict_get (ar_leases s') j = Some claim \<longrightarrow> dict_get (ar_leases s) j = Some claim) \<and>
    (\<forall>claim. active = Some claim \<longleftrightarrow> dict_get (ar_leases s) key = Some claim \<and> now < lc_expires_at claim) \<and>
    (active = None \<longrightarrow> dict_get (ar_leases s') key = None) \<and> (active \<noteq> None \<longrightarrow> s' = s)"
  using assms by (auto simp: repo_active_claim_def delete_conv' split: option.splits if_splits)

text \<open>Changes of the leases alone: every lease left was there before.\<close>

lemma inv_fewer_leases:
  assumes "runs_inv s" and "ar_runs s' = ar_runs s" and "ar_idempotency s' = ar_idempotency s"
    and "ar_lease_versions s' = ar_lease_versions s"
    and "\<And>j claim. dict_get (ar_leases s') j = Some claim \<Longrightarrow> dict_get (ar_leases s) j = Some claim"
  shows "runs_inv s'" and "repo_advances s s'"
proof -
  have v: "version_at s' key = version_at s key" for key by (simp add: version_at_def assms(4))
  show "runs_inv s'"
    using assms(1) assms(5) unfolding runs_inv_def assms(2,3) v by blast
  show "repo_advances s s'" by (auto simp: repo_advances_def v assms(2))
qed

lemma active_claim_inv:
  assumes "runs_inv s" and "repo_active_claim now key s = (active, s')"
  shows "runs_inv s'" and "repo_advances s s'"
proof -
  note c = active_claim_cases [OF assms(2)]
  show "runs_inv s'" by (rule inv_fewer_leases(1) [OF assms(1)]) (use c in blast)+
  show "repo_advances s s'" by (rule inv_fewer_leases(2) [OF assms(1)]) (use c in blast)+
qed

text \<open>Operations that leave the runs and their keys alone.\<close>

lemma inv_same_runs:
  assumes "runs_inv s" and runs: "ar_runs s' = ar_runs s" "ar_idempotency s' = ar_idempotency s"
    and leases: "\<And>key claim. dict_get (ar_leases s') key = Some claim \<Longrightarrow>
      claim_key claim = key \<and> lc_lease_version claim = version_at s' key"
  shows "runs_inv s'"
  using assms(1) unfolding runs_inv_def runs by (blast dest: leases)

lemma advances_same_runs:
  assumes "ar_runs s' = ar_runs s" and "\<And>key. version_at s key \<le> version_at s' key"
  shows "repo_advances s s'"
  unfolding repo_advances_def assms(1) using assms(2) run_advances_refl by blast

lemma repo_claim_inv:
  assumes inv: "runs_inv s" and claim: "repo_claim uid now sn lease_seconds s = (claim, s')"
  shows "runs_inv s'" and "repo_advances s s'"
    and "claim = Some c \<Longrightarrow> lc_lease_version c = version_at s (snapshot_key sn) + 1 \<and>
      version_at s' (snapshot_key sn) = lc_lease_version c \<and> claim_key c = snapshot_key sn \<and>
      dict_get (ar_leases s') (snapshot_key sn) = Some c"
proof -
  let ?k = "snapshot_key sn"
  obtain active s1 where a: "repo_active_claim now ?k s = (active, s1)" by (rule prod.exhaust)
  note old = active_claim_cases [OF a] and inv1 = active_claim_inv [OF inv a]
  have same: "version_at s1 j = version_at s j" for j using old by (simp add: version_at_def)
  have "runs_inv s' \<and> repo_advances s s' \<and> (\<forall>c. claim = Some c \<longrightarrow> lc_lease_version c = version_at s ?k + 1 \<and>
      version_at s' ?k = lc_lease_version c \<and> claim_key c = ?k \<and> dict_get (ar_leases s') ?k = Some c)"
  proof (cases active)
    case (Some c)
    then show ?thesis using claim a inv1 by (auto simp: repo_claim_def)
  next
    case None
    let ?v = "version_at s ?k + 1"
    let ?c = "\<lparr>lc_lease_token = uid, lc_lease_version = ?v, lc_expires_at = now + seconds lease_seconds, lc_snapshot = sn\<rparr>"
    have s': "claim = Some ?c" "s' = s1\<lparr>ar_lease_versions := dict_set ?k ?v (ar_lease_versions s1),
        ar_leases := dict_set ?k ?c (ar_leases s1)\<rparr>"
      using claim a None old by (auto simp: repo_claim_def Let_def version_at_def)
    have version: "version_at s' j = (if j = ?k then ?v else version_at s j)" for j
      using old by (simp add: s'(2) version_at_def dict_get_set)
    have leases: "dict_get (ar_leases s') j = (if j = ?k then Some ?c else dict_get (ar_leases s1) j)" for j
      by (simp add: s'(2) dict_get_set)
    have key: "claim_key ?c = ?k" by (simp add: claim_key_def snapshot_key_def)
    have "claim_key l = j \<and> lc_lease_version l = version_at s' j" if "dict_get (ar_leases s') j = Some l" for j l
    proof (cases "j = ?k")
      case True
      then have "l = ?c" using that by (simp add: leases)
      then show ?thesis using True key by (simp add: version)
    next
      case False
      then have "dict_get (ar_leases s1) j = Some l" using that by (simp add: leases)
      then have "dict_get (ar_leases s) j = Some l" using old by blast
      from runs_invD(3) [OF inv this] show ?thesis using False by (simp add: version)
    qed
    note lease_ok = this
    have runs: "ar_runs s' = ar_runs s" "ar_idempotency s' = ar_idempotency s" using old by (simp_all add: s'(2))
    have i: "runs_inv s'" by (rule inv_same_runs [OF inv runs lease_ok])
    have a: "repo_advances s s'" by (rule advances_same_runs [OF runs(1)]) (simp add: version)
    show ?thesis using key i a by (simp add: s'(1) version leases)
  qed
  then show "runs_inv s'" "repo_advances s s'"
    "claim = Some c \<Longrightarrow> lc_lease_version c = version_at s (snapshot_key sn) + 1 \<and>
      version_at s' (snapshot_key sn) = lc_lease_version c \<and> claim_key c = snapshot_key sn \<and>
      dict_get (ar_leases s') (snapshot_key sn) = Some c"
    by blast+
qed

text \<open>Writing a snapshot of a run that is stored, and storing a new one.\<close>

lemma update_run:
  assumes inv: "runs_inv s" and old: "dict_get (ar_runs s) key = Some old" and advances: "run_advances old new"
    and runs: "\<And>j. dict_get (ar_runs s') j = (if j = key then Some new else dict_get (ar_runs s) j)"
    and keys: "\<And>context. dict_get (ar_idempotency s') context = dict_get (ar_idempotency s) context"
    and leases: "ar_leases s' = ar_leases s" "ar_lease_versions s' = ar_lease_versions s"
  shows "runs_inv s'" and "repo_advances s s'"
proof -
  have new: "snapshot_key new = key" "idempotency_context_of new = idempotency_context_of old" "sn_run_id new = sn_run_id old"
    "sn_tenant_id new = sn_tenant_id old"
    using advances runs_invD(1) [OF inv old] by (auto simp: run_advances_def snapshot_key_def)
  have v: "version_at s' j = version_at s j" for j by (simp add: version_at_def leases)
  show "runs_inv s'"
  proof (rule runs_invI)
    show "snapshot_key x = j \<and> dict_get (ar_idempotency s') (idempotency_context_of x) = Some (sn_run_id x)"
      if "dict_get (ar_runs s') j = Some x" for j x
      using that runs_invD(1) [OF inv old] runs_invD(1) [OF inv, of j x] new
      unfolding runs keys by (cases "j = key") auto
  next
    fix c run_id assume "dict_get (ar_idempotency s') c = Some run_id"
    then obtain x where x: "dict_get (ar_runs s) (fst c, run_id) = Some x" "idempotency_context_of x = c"
      using runs_invD(2) [OF inv] unfolding keys by blast
    show "\<exists>y. dict_get (ar_runs s') (fst c, run_id) = Some y \<and> idempotency_context_of y = c"
      using x old new(2) unfolding runs by (cases "(fst c, run_id) = key") auto
  next
    show "claim_key claim = j \<and> lc_lease_version claim = version_at s' j"
      if "dict_get (ar_leases s') j = Some claim" for j claim
      using runs_invD(3) [OF inv, of j claim] that unfolding leases v by blast
  qed
  show "repo_advances s s'" unfolding repo_advances_def v runs
    using old advances run_advances_refl by (auto split: if_splits)
qed

lemma fst_context [simp]: "fst (idempotency_context_of sn) = sn_tenant_id sn"
  by (simp add: idempotency_context_of_def)

lemma add_run:
  assumes inv: "runs_inv s" and "dict_get (ar_runs s) (snapshot_key sn) = None"
    and "dict_get (ar_idempotency s) (idempotency_context_of sn) = None"
    and runs: "\<And>j. dict_get (ar_runs s') j = (if j = snapshot_key sn then Some sn else dict_get (ar_runs s) j)"
    and keys: "\<And>c. dict_get (ar_idempotency s') c =
      (if c = idempotency_context_of sn then Some (sn_run_id sn) else dict_get (ar_idempotency s) c)"
    and leases: "ar_leases s' = ar_leases s" "ar_lease_versions s' = ar_lease_versions s"
  shows "runs_inv s'" and "repo_advances s s'"
proof -
  have v: "version_at s' j = version_at s j" for j by (simp add: version_at_def leases)
  show "runs_inv s'"
  proof (rule runs_invI)
    show "snapshot_key x = j \<and> dict_get (ar_idempotency s') (idempotency_context_of x) = Some (sn_run_id x)"
      if "dict_get (ar_runs s') j = Some x" for j x
    proof (cases "j = snapshot_key sn")
      case True
      then have "x = sn" using that by (simp add: runs)
      then show ?thesis using True by (simp add: keys)
    next
      case False
      then have "dict_get (ar_runs s) j = Some x" using that by (simp add: runs)
      from runs_invD(1) [OF inv this] assms(3) show ?thesis unfolding keys by auto
    qed
  next
    fix c run_id assume c: "dict_get (ar_idempotency s') c = Some run_id"
    show "\<exists>y. dict_get (ar_runs s') (fst c, run_id) = Some y \<and> idempotency_context_of y = c"
    proof (cases "c = idempotency_context_of sn")
      case True
      then have "run_id = sn_run_id sn" using c by (simp add: keys)
      then show ?thesis using True by (simp add: runs snapshot_key_def)
    next
      case False
      then have "dict_get (ar_idempotency s) c = Some run_id" using c by (simp add: keys)
      from runs_invD(2) [OF inv this] assms(2) show ?thesis unfolding runs by (auto simp del: split_paired_Ex)
    qed
  next
    show "claim_key claim = j \<and> lc_lease_version claim = version_at s' j"
      if "dict_get (ar_leases s') j = Some claim" for j claim
      using runs_invD(3) [OF inv, of j claim] that unfolding leases v by blast
  qed
  show "repo_advances s s'" unfolding repo_advances_def v runs
    using assms(2) run_advances_refl by (auto split: if_splits)
qed

lemma repo_store_inv:
  assumes inv: "runs_inv s" and old: "dict_get (ar_runs s) (snapshot_key sn) = Some old"
    and same_context: "idempotency_context_of sn = idempotency_context_of old"
  shows "runs_inv (repo_store sn s)" and "repo_advances s (repo_store sn s)"
proof -
  have "runs_inv (repo_store sn s) \<and> repo_advances s (repo_store sn s)"
  proof (cases "reject_state_regression (sn_state old) (sn_state sn)")
    case True
    then show ?thesis using inv old by (simp add: repo_store_def)
  next
    case False
    let ?s = "repo_store sn s"
    have s': "?s = s\<lparr>ar_runs := dict_set (snapshot_key sn) sn (ar_runs s),
        ar_idempotency := dict_set (idempotency_context_of sn) (sn_run_id sn) (ar_idempotency s)\<rparr>"
      using False old by (simp add: repo_store_def)
    have key: "snapshot_key old = snapshot_key sn" using runs_invD(1) [OF inv old] by blast
    have advances: "run_advances old sn"
      using False same_context key by (auto simp: run_advances_def reject_state_regression_def)
    have runs: "dict_get (ar_runs ?s) j = (if j = snapshot_key sn then Some sn else dict_get (ar_runs s) j)" for j
      by (simp add: s' dict_get_set)
    have keys: "dict_get (ar_idempotency ?s) c = dict_get (ar_idempotency s) c" for c
      using runs_invD(1) [OF inv old] same_context key by (auto simp: s' dict_get_set snapshot_key_def)
    show ?thesis
      using update_run [OF inv old advances runs keys] by (simp add: s')
  qed
  then show "runs_inv (repo_store sn s)" "repo_advances s (repo_store sn s)" by blast+
qed
lemma drop_lease_inv:
  assumes "runs_inv s"
  shows "runs_inv (s\<lparr>ar_leases := dict_pop key (ar_leases s)\<rparr>)"
    and "repo_advances s (s\<lparr>ar_leases := dict_pop key (ar_leases s)\<rparr>)"
  by (rule inv_fewer_leases [OF assms]; simp add: dict_get_pop split: if_splits)+

text \<open>A save either writes the snapshot or only looks the lease up.\<close>

lemma repo_save_cases:
  assumes "repo_save now sn claim s = (r, s')" and "repo_active_claim now (snapshot_key sn) s = (active, s1)"
  shows "(r \<noteq> Inr () \<and> s' = s1) \<or>
    (r = Inr () \<and> (case claim of None \<Rightarrow> True | Some c \<Rightarrow> same_lease active c) \<and>
     s' = (if terminal (sn_state sn)
       then (repo_store sn s1)\<lparr>ar_leases := dict_pop (snapshot_key sn) (ar_leases (repo_store sn s1))\<rparr>
       else repo_store sn s1))"
  using assms by (cases claim) (auto simp: repo_save_def Let_def split: if_splits)

lemma repo_save_inv:
  assumes inv: "runs_inv s" and old: "dict_get (ar_runs s) (snapshot_key sn) = Some old"
    and same_context: "idempotency_context_of sn = idempotency_context_of old" and save: "repo_save now sn claim s = (r, s')"
  shows "runs_inv s'" and "repo_advances s s'"
proof -
  obtain active s1 where a: "repo_active_claim now (snapshot_key sn) s = (active, s1)" by (rule prod.exhaust)
  note inv1 = active_claim_inv [OF inv a]
  have "ar_runs s1 = ar_runs s" using active_claim_cases [OF a] by blast
  then have old1: "dict_get (ar_runs s1) (snapshot_key sn) = Some old" using old by simp
  note stored = repo_store_inv [OF inv1(1) old1 same_context]
  note dropped = drop_lease_inv [OF stored(1)]
  have written: "repo_advances s (repo_store sn s1)" by (rule repo_advances_trans [OF inv1(2) stored(2)])
  note dropped_advances = repo_advances_trans [OF written dropped(2)]
  from repo_save_cases [OF save a] have "s' = s1 \<or> s' = repo_store sn s1 \<or>
      s' = (repo_store sn s1)\<lparr>ar_leases := dict_pop (snapshot_key sn) (ar_leases (repo_store sn s1))\<rparr>"
    by (metis (full_types))
  then show "runs_inv s'" "repo_advances s s'"
    using inv1 stored(1) written dropped(1) dropped_advances by metis+
qed

lemma repo_create_inv:
  assumes inv: "runs_inv s" and fresh: "dict_get (ar_runs s) (snapshot_key sn) = None"
    and create: "repo_create_or_get sn s = (r, s')"
  shows "runs_inv s'" and "repo_advances s s'" and "\<exists>sn'. r = Inr sn'"
proof -
  have "runs_inv s' \<and> repo_advances s s' \<and> (\<exists>sn'. r = Inr sn')"
  proof (cases "dict_get (ar_idempotency s) (idempotency_context_of sn)")
    case None
    have s': "r = Inr sn" "s' = s\<lparr>ar_runs := dict_set (snapshot_key sn) sn (ar_runs s),
        ar_idempotency := dict_set (idempotency_context_of sn) (sn_run_id sn) (ar_idempotency s)\<rparr>"
      using create None fresh by (auto simp: repo_create_or_get_def repo_store_def)
    have runs: "dict_get (ar_runs s') j = (if j = snapshot_key sn then Some sn else dict_get (ar_runs s) j)" for j
      by (simp add: s' dict_get_set)
    have keys: "dict_get (ar_idempotency s') c =
        (if c = idempotency_context_of sn then Some (sn_run_id sn) else dict_get (ar_idempotency s) c)" for c
      by (simp add: s' dict_get_set)
    show ?thesis using add_run [OF inv fresh None runs keys] by (simp add: s')
  next
    case (Some run_id)
    then obtain x where "dict_get (ar_runs s) (sn_tenant_id sn, run_id) = Some x"
      using runs_invD(2) [OF inv Some] by auto
    then have "r = Inr x" "s' = s" using create Some by (simp_all add: repo_create_or_get_def)
    then show ?thesis using inv by simp
  qed
  then show "runs_inv s'" "repo_advances s s'" "\<exists>sn'. r = Inr sn'" by blast+
qed

lemma with_cancellation_requested_simps [simp]:
  "sn_state (with_cancellation_requested now sn) = RUN_CANCEL_REQUESTED"
  "snapshot_key (with_cancellation_requested now sn) = snapshot_key sn"
  "idempotency_context_of (with_cancellation_requested now sn) = idempotency_context_of sn"
  by (simp_all add: with_cancellation_requested_def snapshot_key_def idempotency_context_of_def)

lemma repo_request_cancellation_inv:
  assumes inv: "runs_inv s" and cancel: "repo_request_cancellation now session run_id s = (r, s')"
  shows "runs_inv s'" and "repo_advances s s'"
proof -
  let ?key = "(ts_tenant_id session, run_id)"
  have "runs_inv s' \<and> repo_advances s s'"
  proof (cases "s' = s")
    case True
    then show ?thesis using inv by simp
  next
    case False
    then obtain sn where sn: "dict_get (ar_runs s) ?key = Some sn" "\<not> terminal (sn_state sn)"
        "s' = s\<lparr>ar_runs := dict_set ?key (with_cancellation_requested now sn) (ar_runs s)\<rparr>"
      using cancel by (auto simp: repo_request_cancellation_def Let_def split: option.splits if_splits)
    have advances: "run_advances sn (with_cancellation_requested now sn)" using sn(2) by (simp add: run_advances_def)
    have runs: "dict_get (ar_runs s') j = (if j = ?key then Some (with_cancellation_requested now sn) else dict_get (ar_runs s) j)"
      for j by (simp add: sn(3) dict_get_set)
    show ?thesis using update_run [OF inv sn(1) advances runs] by (simp add: sn(3))
  qed
  then show "runs_inv s'" "repo_advances s s'" by blast+
qed

lemma claim_first_inv:
  assumes "runs_inv s" and "claim_first uid now tenant_id lease_seconds sns s = (claim, s')"
  shows "runs_inv s' \<and> repo_advances s s'"
  using assms
proof (induction sns arbitrary: s)
  case (Cons sn sns)
  show ?case
  proof (cases "sn_tenant_id sn = tenant_id \<and> is_runnable (sn_state sn)")
    case True
    obtain c s1 where c: "repo_claim uid now sn lease_seconds s = (c, s1)" by (rule prod.exhaust)
    note inv1 = repo_claim_inv(1,2) [OF Cons.prems(1) c]
    show ?thesis
    proof (cases c)
      case None
      then have "claim_first uid now tenant_id lease_seconds sns s1 = (claim, s')" using Cons.prems(2) True c by simp
      from Cons.IH [OF inv1(1) this] inv1(2) show ?thesis using repo_advances_trans by blast
    next
      case (Some l)
      then have "s' = s1" using Cons.prems(2) True c by simp
      then show ?thesis using inv1 by simp
    qed
  next
    case False
    then have "claim_first uid now tenant_id lease_seconds sns s = (claim, s')" using Cons.prems(2) by auto
    from Cons.IH [OF Cons.prems(1) this] show ?thesis .
  qed
qed simp

lemma list_unclaimed_inv:
  assumes "runs_inv s" and "list_unclaimed now tenant_id sns s = (ids, s')"
  shows "runs_inv s' \<and> repo_advances s s'"
  using assms
proof (induction sns arbitrary: s ids)
  case (Cons sn sns)
  show ?case
  proof (cases "sn_tenant_id sn = tenant_id \<and> is_runnable (sn_state sn)")
    case True
    obtain active s1 where c: "repo_active_claim now (snapshot_key sn) s = (active, s1)" by (rule prod.exhaust)
    obtain rest s2 where r: "list_unclaimed now tenant_id sns s1 = (rest, s2)" by (rule prod.exhaust)
    have "s2 = s'" using Cons.prems(2) True c r by simp
    with Cons.IH [OF active_claim_inv(1) [OF Cons.prems(1) c]] r have "runs_inv s' \<and> repo_advances s1 s'" by blast
    then show ?thesis using active_claim_inv(2) [OF Cons.prems(1) c] repo_advances_trans by blast
  next
    case False
    then have "list_unclaimed now tenant_id sns s = (ids, s')" using Cons.prems(2) by auto
    from Cons.IH [OF Cons.prems(1) this] show ?thesis .
  qed
qed simp

text \<open>A claim by name: which run it leases, and to which version.\<close>

lemma repo_claim_run_cases:
  assumes "repo_claim_run uid now tenant_id run_id lease_seconds s = (r, s')"
  shows "(s' = s \<and> r \<noteq> Inr None) \<or> (s' = s \<and> r = Inr None) \<or>
    (\<exists>sn claim. dict_get (ar_runs s) (tenant_id, run_id) = Some sn \<and>
       repo_claim uid now sn lease_seconds s = (claim, s') \<and> r = Inr claim)"
  using assms by (auto simp: repo_claim_run_def split: sum.splits option.splits if_splits prod.splits)

lemma repo_claim_run_leases:
  assumes inv: "runs_inv s" and "repo_claim_run uid now tenant_id run_id lease_seconds s = (Inr (Some c), s')"
  shows "lc_lease_version c = version_at s (tenant_id, run_id) + 1" and "version_at s' (tenant_id, run_id) = lc_lease_version c"
proof -
  obtain sn where sn: "dict_get (ar_runs s) (tenant_id, run_id) = Some sn"
    "repo_claim uid now sn lease_seconds s = (Some c, s')"
    using assms(2) by (auto simp: repo_claim_run_def split: sum.splits option.splits if_splits prod.splits)
  have "snapshot_key sn = (tenant_id, run_id)" using runs_invD(1) [OF inv sn(1)] by blast
  with repo_claim_inv(3) [OF inv sn(2) refl] show "lc_lease_version c = version_at s (tenant_id, run_id) + 1"
    "version_at s' (tenant_id, run_id) = lc_lease_version c" by simp_all
qed

lemma run_step_inv:
  assumes "run_step s s'" and "runs_inv s"
  shows "runs_inv s' \<and> repo_advances s s'"
  using assms
proof (cases rule: run_step.cases)
  case (create sn)
  obtain r t where "repo_create_or_get sn s = (r, t)" by (rule prod.exhaust)
  with create repo_create_inv(1,2) [OF assms(2) create(2) this] show ?thesis by simp
next
  case (save sn old now claim)
  obtain r t where "repo_save now sn claim s = (r, t)" by (rule prod.exhaust)
  with save repo_save_inv [OF assms(2) save(2,3) this] show ?thesis by simp
next
  case (cancel now session run_id)
  obtain r t where "repo_request_cancellation now session run_id s = (r, t)" by (rule prod.exhaust)
  with cancel repo_request_cancellation_inv [OF assms(2) this] show ?thesis by simp
next
  case (claim uid now tenant_id run_id lease_seconds)
  obtain r t where t: "repo_claim_run uid now tenant_id run_id lease_seconds s = (r, t)" by (rule prod.exhaust)
  from repo_claim_run_cases [OF t] have "runs_inv t \<and> repo_advances s t"
    using repo_claim_inv(1,2) [OF assms(2)] assms(2) repo_advances_refl by blast
  with claim t show ?thesis by simp
next
  case (claim_any uid now tenant_id lease_seconds)
  obtain r t where t: "claim_first uid now tenant_id lease_seconds (dict_values (ar_runs s)) s = (r, t)" by (rule prod.exhaust)
  have "s' = s \<or> s' = t" using claim_any t by (auto simp: repo_claim_runnable_def split: sum.splits)
  with claim_first_inv [OF assms(2) t] assms(2) show ?thesis using repo_advances_refl by blast
next
  case (listing now tenant_id limit)
  obtain r t where t: "list_unclaimed now tenant_id (dict_values (ar_runs s)) s = (r, t)" by (rule prod.exhaust)
  have "s' = t" using listing t by (simp add: repo_list_runnable_def)
  with list_unclaimed_inv [OF assms(2) t] show ?thesis by simp
qed

lemma run_steps_inv:
  assumes "run_step\<^sup>*\<^sup>* s s'" and "runs_inv s"
  shows "runs_inv s' \<and> repo_advances s s'"
  using assms
proof (induction rule: rtranclp_induct)
  case (step t u)
  then show ?case using run_step_inv [of t u] repo_advances_trans by blast
qed simp

lemma empty_agent_repository_inv: "runs_inv empty_agent_repository"
  by (simp add: runs_inv_def empty_agent_repository_def)

lemma runs_reachable_inv: "runs_reachable s \<Longrightarrow> runs_inv s"
  unfolding runs_reachable_def using run_steps_inv empty_agent_repository_inv by blast

section \<open>Samples\<close>

definition sample_run :: agent_run_snapshot where
  "sample_run = \<lparr>sn_run_id = ''run-1'', sn_tenant_id = ''acme'', sn_actor_id = ''alice'', sn_actor_kind = USER,
     sn_roles = [''member''], sn_subject_user_id = None, sn_delegation_id = None,
     sn_invocation = \<lparr>iv_capability = ''knowledge_synthesis'', iv_input = [], iv_idempotency_key = ''key-1'',
       iv_reply_context = None\<rparr>,
     sn_command = [],
     sn_settings = \<lparr>se_provider = ''fake'', se_adapter = ''fake'', se_model = ''m'', se_max_tokens = 100,
       se_temperature = 0, se_top_p = 1, se_timeout_seconds = 30, se_structured_output_mode = ''json''\<rparr>,
     sn_budget = default_budget, sn_state = RUN_QUEUED, sn_model_calls = 0, sn_tool_calls = 0, sn_cost_usd = 0,
     sn_events = [], sn_output = None, sn_failure = None, sn_resumable = False\<rparr>"

definition sample_repository :: agent_repository where
  "sample_repository = snd (repo_create_or_get sample_run empty_agent_repository)"

lemma sample_repository_reachable: "runs_reachable sample_repository"
  unfolding runs_reachable_def sample_repository_def
  by (rule r_into_rtranclp, rule run_step.create) (simp add: empty_agent_repository_def)

lemmas agent_sample_eval = sample_run_def sample_repository_def empty_agent_repository_def
  repo_create_or_get_def repo_store_def snapshot_key_def idempotency_context_of_def or_string_def
  repo_claim_run_def repo_claim_def repo_active_claim_def require_lease_seconds_def is_runnable_def
  repo_save_def same_lease_def seconds_def terminal_def reject_state_regression_def Let_def

section \<open>Properties\<close>

text \<open>
  C27. Fencing: once a run was claimed a second time, a save under the first claim raises
  \<^verbatim>\<open>AgentRunLeaseLost\<close> and leaves every stored run as it is, whatever operations of whichever
  workers and clients happened between the two claims and the save, and even if the second
  claim has ended too.
\<close>

theorem stale_worker_is_fenced:
  assumes "runs_reachable s"
    and first: "repo_claim_run u1 now1 tenant_id run_id seconds1 s = (Inr (Some stale), s1)" and "run_step\<^sup>*\<^sup>* s1 s2"
    and second: "repo_claim_run u2 now2 tenant_id run_id seconds2 s2 = (Inr (Some current), s3)" and "run_step\<^sup>*\<^sup>* s3 s4"
    and key: "snapshot_key sn = (tenant_id, run_id)"
  shows "\<exists>s5. repo_save now sn (Some stale) s4 = (Inl (AgentRunLeaseLost ''Agent Run lease is no longer owned''), s5) \<and>
    ar_runs s5 = ar_runs s4"
proof -
  let ?k = "(tenant_id, run_id)"
  have inv: "runs_inv s" by (rule runs_reachable_inv) fact
  have "runs_inv s1" using run_step_inv [OF run_step.claim inv] first by (metis snd_conv)
  with run_steps_inv [OF assms(3)] have 2: "runs_inv s2" "repo_advances s1 s2" by blast+
  have "runs_inv s3" using run_step_inv [OF run_step.claim 2(1)] second by (metis snd_conv)
  with run_steps_inv [OF assms(5)] have 4: "runs_inv s4" "repo_advances s3 s4" by blast+
  have "lc_lease_version stale = version_at s1 ?k" "lc_lease_version current = version_at s2 ?k + 1"
    "version_at s3 ?k = lc_lease_version current"
    using repo_claim_run_leases [OF inv first] repo_claim_run_leases [OF 2(1) second] by simp_all
  moreover have "version_at s1 ?k \<le> version_at s2 ?k" "version_at s3 ?k \<le> version_at s4 ?k"
    using 2(2) 4(2) by (simp_all add: repo_advances_def)
  ultimately have older: "lc_lease_version stale < version_at s4 ?k" by simp
  obtain active s5 where a: "repo_active_claim now ?k s4 = (active, s5)" by (rule prod.exhaust)
  have "\<not> same_lease active stale"
  proof
    assume same: "same_lease active stale"
    then obtain c where c: "active = Some c" "lc_lease_version c = lc_lease_version stale"
      by (auto simp: same_lease_def split: option.splits)
    then have "dict_get (ar_leases s4) ?k = Some c" using active_claim_cases [OF a] by blast
    from runs_invD(3) [OF 4(1) this] c(2) older show False by simp
  qed
  with a key have "repo_save now sn (Some stale) s4 = (Inl (AgentRunLeaseLost ''Agent Run lease is no longer owned''), s5)"
    by (simp add: repo_save_def)
  moreover have "ar_runs s5 = ar_runs s4" using active_claim_cases [OF a] by blast
  ultimately show ?thesis by blast
qed

theorem stale_worker_is_fenced_witness:
  "\<exists>s5. repo_save 100000002 sample_run
      (Some \<lparr>lc_lease_token = ''u1'', lc_lease_version = 1, lc_expires_at = 60000000, lc_snapshot = sample_run\<rparr>)
      (snd (repo_claim_run ''u2'' 100000000 ''acme'' ''run-1'' 60
        (snd (repo_claim_run ''u1'' 0 ''acme'' ''run-1'' 60 sample_repository)))) =
      (Inl (AgentRunLeaseLost ''Agent Run lease is no longer owned''), s5) \<and>
    ar_runs s5 = ar_runs sample_repository"
proof -
  let ?s1 = "snd (repo_claim_run ''u1'' 0 ''acme'' ''run-1'' 60 sample_repository)"
  let ?s2 = "snd (repo_claim_run ''u2'' 100000000 ''acme'' ''run-1'' 60 ?s1)"
  let ?first = "\<lparr>lc_lease_token = ''u1'', lc_lease_version = 1, lc_expires_at = 60000000, lc_snapshot = sample_run\<rparr>"
  let ?second = "\<lparr>lc_lease_token = ''u2'', lc_lease_version = 2, lc_expires_at = 160000000, lc_snapshot = sample_run\<rparr>"
  have "repo_claim_run ''u1'' 0 ''acme'' ''run-1'' 60 sample_repository = (Inr (Some ?first), ?s1)"
    "repo_claim_run ''u2'' 100000000 ''acme'' ''run-1'' 60 ?s1 = (Inr (Some ?second), ?s2)"
    "snapshot_key sample_run = (''acme'', ''run-1'')" "ar_runs ?s2 = ar_runs sample_repository"
    by (simp_all add: agent_sample_eval)
  with stale_worker_is_fenced [OF sample_repository_reachable, of "''u1''" 0 "''acme''" "''run-1''" 60 ?first ?s1 ?s1
      "''u2''" 100000000 60 ?second ?s2 ?s2 sample_run 100000002]
  show ?thesis by simp
qed

text \<open>
  C28. The snapshot of a run that ended is the same in every later state of the repository:
  no save, cancellation, claim or creation changes it, whatever their order.
\<close>

theorem ended_runs_never_change:
  assumes "runs_reachable s" and "dict_get (ar_runs s) key = Some sn" and "terminal (sn_state sn)"
    and "run_step\<^sup>*\<^sup>* s s'"
  shows "dict_get (ar_runs s') key = Some sn"
  using run_steps_inv [OF assms(4) runs_reachable_inv [OF assms(1)]] assms(2,3)
  unfolding repo_advances_def run_advances_def by metis

definition ended_repository :: agent_repository where
  "ended_repository = snd (repo_save 0 (sample_run\<lparr>sn_state := RUN_COMPLETED\<rparr>) None sample_repository)"

lemma ended_repository_runs: "dict_get (ar_runs ended_repository) (''acme'', ''run-1'') = Some (sample_run\<lparr>sn_state := RUN_COMPLETED\<rparr>)"
  by (simp add: ended_repository_def agent_sample_eval)

lemma ended_repository_reachable: "runs_reachable ended_repository"
proof -
  have "run_step sample_repository ended_repository"
    unfolding ended_repository_def by (rule run_step.save [where old = sample_run]) (simp_all add: agent_sample_eval)
  with sample_repository_reachable show ?thesis unfolding runs_reachable_def by (rule rtranclp.rtrancl_into_rtrancl)
qed

theorem ended_runs_never_change_witness:
  "dict_get (ar_runs (snd (repo_save 1 sample_run None ended_repository))) (''acme'', ''run-1'') =
     Some (sample_run\<lparr>sn_state := RUN_COMPLETED\<rparr>)"
proof (rule ended_runs_never_change [OF ended_repository_reachable ended_repository_runs])
  show "terminal (sn_state (sample_run\<lparr>sn_state := RUN_COMPLETED\<rparr>))" by (simp add: terminal_def)
  show "run_step\<^sup>*\<^sup>* ended_repository (snd (repo_save 1 sample_run None ended_repository))"
    by (rule r_into_rtranclp, rule run_step.save [where old = "sample_run\<lparr>sn_state := RUN_COMPLETED\<rparr>"])
      (use ended_repository_runs in \<open>simp_all add: sample_run_def snapshot_key_def idempotency_context_of_def\<close>)
qed

text \<open>
  C29. A requested cancellation is not lost: whatever happens after it, the run is still
  waiting to be cancelled or is cancelled; it never goes back to running and never completes.
\<close>

theorem requested_cancellation_is_not_lost:
  assumes "runs_reachable s" and "repo_request_cancellation now session run_id s = (Some sn, s1)"
    and "\<not> terminal (sn_state sn)" and "run_step\<^sup>*\<^sup>* s1 s2"
  shows "\<exists>new. dict_get (ar_runs s2) (ts_tenant_id session, run_id) = Some new \<and>
    sn_state new \<in> {RUN_CANCEL_REQUESTED, RUN_CANCELLED}"
proof -
  have inv: "runs_inv s" by (rule runs_reachable_inv) fact
  have at: "dict_get (ar_runs s1) (ts_tenant_id session, run_id) = Some sn \<and> sn_state sn = RUN_CANCEL_REQUESTED"
    using assms(2,3) by (auto simp: repo_request_cancellation_def Let_def split: option.splits if_splits)
  have "runs_inv s1" by (rule repo_request_cancellation_inv [OF inv assms(2)])
  from run_steps_inv [OF assms(4) this] at show ?thesis
    unfolding repo_advances_def run_advances_def by metis
qed

definition sample_run_session :: tenant_session where
  "sample_run_session = \<lparr>ts_tenant_id = ''acme'', ts_actor_id = ''alice'', ts_actor_kind = USER, ts_roles = {''member''},
     ts_subject_user_id = None, ts_delegation_id = None, ts_token_id = None\<rparr>"

theorem requested_cancellation_is_not_lost_witness:
  "\<exists>new. dict_get (ar_runs (snd (repo_request_cancellation 5 sample_run_session ''run-1'' sample_repository)))
     (''acme'', ''run-1'') = Some new \<and> sn_state new \<in> {RUN_CANCEL_REQUESTED, RUN_CANCELLED}"
proof -
  let ?r = "repo_request_cancellation 5 sample_run_session ''run-1'' sample_repository"
  have r: "?r = (Some (with_cancellation_requested 5 sample_run), snd ?r)"
    by (simp add: agent_sample_eval repo_request_cancellation_def same_run_context_def sample_run_session_def)
  have "ts_tenant_id sample_run_session = ''acme''" by (simp add: sample_run_session_def)
  with requested_cancellation_is_not_lost [OF sample_repository_reachable r _ rtranclp.rtrancl_refl]
  show ?thesis by (simp add: terminal_def)
qed

text \<open>
  An invocation starts one run per idempotency key: creating a run whose Tenant, Actor,
  Subject, Delegation and key were used before returns the run of the first creation as it
  stands now, under its first identifier, and stores nothing.
\<close>

lemma one_run_per_idempotency_key:
  assumes "runs_reachable s" and "dict_get (ar_runs s) (snapshot_key first) = None"
    and "repo_create_or_get first s = (Inr accepted, s1)" and "run_step\<^sup>*\<^sup>* s1 s2"
    and "idempotency_context_of second = idempotency_context_of first"
  shows "\<exists>current. repo_create_or_get second s2 = (Inr current, s2) \<and> snapshot_key current = snapshot_key accepted \<and>
    dict_get (ar_runs s2) (snapshot_key accepted) = Some current"
proof -
  have inv: "runs_inv s" by (rule runs_reachable_inv) fact
  note create = repo_create_inv [OF inv assms(2,3)]
  have "dict_get (ar_runs s1) (snapshot_key accepted) = Some accepted \<and>
      idempotency_context_of accepted = idempotency_context_of first"
  proof (cases "dict_get (ar_idempotency s) (idempotency_context_of first)")
    case None
    then have "accepted = first \<and> s1 = repo_store first s" using assms(3) by (auto simp: repo_create_or_get_def)
    then show ?thesis using assms(2) by (simp add: repo_store_def)
  next
    case (Some run_id)
    from runs_invD(2) [OF inv this] obtain x where x: "dict_get (ar_runs s) (sn_tenant_id first, run_id) = Some x"
      "idempotency_context_of x = idempotency_context_of first" by auto
    then have "accepted = x" "s1 = s" using Some assms(3) by (simp_all add: repo_create_or_get_def)
    then show ?thesis using x runs_invD(1) [OF inv x(1)] by simp
  qed
  with run_steps_inv [OF assms(4) create(1)] obtain current where
    current: "dict_get (ar_runs s2) (snapshot_key accepted) = Some current" "runs_inv s2"
      "snapshot_key current = snapshot_key accepted" "idempotency_context_of current = idempotency_context_of first"
    unfolding repo_advances_def run_advances_def by metis
  have tenant: "sn_tenant_id current = sn_tenant_id second"
    using current(4) assms(5) by (simp add: idempotency_context_of_def)
  have "dict_get (ar_idempotency s2) (idempotency_context_of second) = Some (sn_run_id current)"
    using runs_invD(1) [OF current(2,1)] current(4) assms(5) by simp
  moreover have "dict_get (ar_runs s2) (sn_tenant_id second, sn_run_id current) = Some current"
    using current(1,3) tenant by (simp add: snapshot_key_def)
  ultimately show ?thesis using current(1,3) by (simp add: repo_create_or_get_def)
qed

text \<open>
  What a worker can take: with a lease of 1 to 900 seconds, a claim of a run returns a lease
  exactly if the run is stored, has not ended, and no lease on it is unexpired; so a run whose
  worker died can be taken over as soon as the lease has expired, and not before.
\<close>

lemma claimable_iff_no_live_lease:
  assumes "1 \<le> lease_seconds" and "lease_seconds \<le> 900"
  shows "(\<exists>claim s'. repo_claim_run uid now tenant_id run_id lease_seconds s = (Inr (Some claim), s')) \<longleftrightarrow>
    (\<exists>sn. dict_get (ar_runs s) (tenant_id, run_id) = Some sn \<and> \<not> terminal (sn_state sn) \<and>
      \<not> (\<exists>lease. dict_get (ar_leases s) (snapshot_key sn) = Some lease \<and> now < lc_expires_at lease))"
proof -
  have runnable: "is_runnable st \<longleftrightarrow> \<not> terminal st" for st by (cases st) (simp_all add: is_runnable_def terminal_def)
  have got: "(\<exists>claim. fst (repo_claim uid now sn lease_seconds s) = Some claim) \<longleftrightarrow>
      \<not> (\<exists>lease. dict_get (ar_leases s) (snapshot_key sn) = Some lease \<and> now < lc_expires_at lease)" for sn
    by (auto simp: repo_claim_def repo_active_claim_def Let_def split: option.splits)
  have "(\<exists>claim s'. repo_claim_run uid now tenant_id run_id lease_seconds s = (Inr (Some claim), s')) \<longleftrightarrow>
      (\<exists>sn. dict_get (ar_runs s) (tenant_id, run_id) = Some sn \<and> \<not> terminal (sn_state sn) \<and>
        (\<exists>claim. fst (repo_claim uid now sn lease_seconds s) = Some claim))"
    using assms by (auto simp: repo_claim_run_def require_lease_seconds_def runnable split: option.splits prod.splits)
  then show ?thesis unfolding got .
qed

end
