(* ===== verification/AgentRuntimeProperties.thy ===== *)
theory AgentRuntimeProperties
  imports AgentRuntime AgentRunProperties
begin

text \<open>
  What one execution of an Agent Run guarantees while other workers and clients use the
  repository: it ends, it stays within its budget, and under a lease that it still owns the view
  it reports is the snapshot that is stored and the one that replaying the log gives.
\<close>

section \<open>Single operations\<close>

lemma and_then_snd:
  assumes "Q (snd m)" and "\<And>x s. m = (Inr x, s) \<Longrightarrow> Q s \<Longrightarrow> Q (snd (f x s))"
  shows "Q (snd (and_then m f))"
  using assms by (auto split: and_then_split simp: prod_eq_iff)

definition with_event :: "agent_env \<Rightarrow> string \<Rightarrow> json_object \<Rightarrow> run_state \<Rightarrow> agent_run_record" where
  "with_event env event_type data st =
     (fst st)\<lparr>rr_events := rr_events (fst st) @
       [\<lparr>ae_sequence = int (length (rr_events (fst st))) + 1, ae_type = event_type, ae_data = data,
         ae_created_at = en_now env (wo_time (snd st))\<rparr>]\<rparr>"

lemma append_event_cases:
  "append_event env force event_type data st =
     (if \<not> force \<and> bg_max_events (rr_budget (fst st)) \<le> int (length (rr_events (fst st)))
      then (Inl (AgentBudgetExceeded ''events''), st)
      else persist_run env (with_event env event_type data st, snd st))"
  by (simp add: append_event_def with_event_def Let_def)

lemma persist_run_record [simp]: "fst (snd (persist_run env st)) = fst st"
  by (simp add: persist_run_def Let_def split: prod.split)

lemma append_event_state [simp]: "rr_state (fst (snd (append_event env force event_type data st))) = rr_state (fst st)"
  by (simp add: append_event_cases with_event_def)

section \<open>Every quantum ends the run\<close>

lemma record_cancelled_terminal:
  "terminal (rr_state (fst (snd (record_cancelled env st))))"
  "terminal (rr_state (fst (snd (complete_cancellation env st))))"
  by (simp_all add: complete_cancellation_def record_cancelled_def Let_def terminal_def)

lemma or_cancelled_terminal:
  "terminal (rr_state (fst (snd recorded))) \<Longrightarrow> terminal (rr_state (fst (snd (or_cancelled env recorded))))"
  using record_cancelled_terminal(2)
  by (auto simp: or_cancelled_def split: prod.splits sum.splits error.splits)

lemma handle_exception_cases:
  obtains (cancelled) "e = AgentCancellationRequested \<or> (\<exists>m. e = AgentRunCancellationRequested m)"
      "handle_exception env e st = complete_cancellation env st"
  | (exhausted) dimension where "e = AgentBudgetExceeded dimension"
      "handle_exception env e st = or_cancelled env (record_exhausted env dimension st)"
  | (lost) "\<exists>m. e = AgentRunLeaseLost m" "handle_exception env e st = (Inl e, st)"
  | (failed) "\<nexists>m. e = AgentRunCancellationRequested m" "\<nexists>d. e = AgentBudgetExceeded d"
      "handle_exception env e st = or_cancelled env (record_failed env e st)"
  by (cases e) (simp_all add: handle_exception_def)

lemma handled_is_terminal:
  assumes "handle_exception env e st = (Inr (), st')"
  shows "terminal (rr_state (fst st'))"
proof -
  have "terminal (rr_state (fst (snd (record_exhausted env d st))))" "terminal (rr_state (fst (snd (record_failed env e st))))" for d
    by (simp_all add: record_exhausted_def record_failed_def Let_def terminal_def)
  note recorded = or_cancelled_terminal [OF this(1), of env] or_cancelled_terminal [OF this(2), of env] record_cancelled_terminal(2) [of env st]
  then show ?thesis
    by (cases e env st rule: handle_exception_cases) (use assms in \<open>metis snd_conv prod.inject sum.distinct(1)\<close>)+
qed

lemma attempted_is_completed:
  assumes "attempt_quantum env st = (Inr (), st')"
  shows "rr_state (fst st') = RUN_COMPLETED"
proof -
  have done_state: "rr_state (fst s') = RUN_COMPLETED"
    if "append_event env force ty data (r\<lparr>rr_output := x, rr_state := RUN_COMPLETED\<rparr>, w) = (Inr (), s')" for force ty data r x w s'
    using append_event_state [of env force ty data "(r\<lparr>rr_output := x, rr_state := RUN_COMPLETED\<rparr>, w)"] that by simp
  show ?thesis using assms
    by (auto simp: attempt_quantum_def Let_def split: sum.splits option.splits elim!: and_then_Inr_E dest!: done_state)
qed

lemma quantum_is_terminal:
  assumes "quantum env st = (Inr view, st')"
  shows "terminal (vw_state view) \<and> view = run_view (fst st')"
proof -
  obtain b st1 where 1: "refresh_cancellation env st = (b, st1)" by (rule prod.exhaust)
  show ?thesis
  proof (cases "terminal (rr_state (fst st1))")
    case True
    then show ?thesis using assms 1 by (auto simp: quantum_def run_view_def)
  next
    case False
    with assms 1 have view: "view = run_view (fst st')"
      and m: "(if rr_state (fst st1) = RUN_CANCEL_REQUESTED then record_cancelled env st1
               else settle env (attempt_quantum env (begin_quantum env st1))) = (Inr (), st')"
      by (auto simp: quantum_def elim!: and_then_Inr_E)
    have "terminal (rr_state (fst st'))"
      using m record_cancelled_terminal(1) [of env st1] handled_is_terminal attempted_is_completed
      by (auto simp: settle_def terminal_def split: if_splits prod.splits sum.splits)
    then show ?thesis by (simp add: view run_view_def)
  qed
qed

definition outcome_is_terminal :: "agent_run_view result \<Rightarrow> bool" where
  "outcome_is_terminal res = (case res of Inl _ \<Rightarrow> True | Inr view \<Rightarrow> terminal (vw_state view))"



lemma claimed_quanta_ends:
  "\<exists>res w'. claimed_quanta env view st = Some (res, w') \<and> outcome_is_terminal res"
proof (cases "terminal (vw_state view)")
  case True
  then show ?thesis by (simp add: claimed_quanta.simps outcome_is_terminal_def)
next
  case False
  obtain res st' where r: "quantum env st = (res, st')" by (rule prod.exhaust)
  show ?thesis
  proof (cases res)
    case (Inl e)
    then show ?thesis using False r by (simp add: claimed_quanta.simps [of env view st] outcome_is_terminal_def)
  next
    case (Inr final)
    then have "terminal (vw_state final)" using r quantum_is_terminal by blast
    then show ?thesis using False r Inr
      by (simp add: claimed_quanta.simps [of env view st] claimed_quanta.simps [of env final] outcome_is_terminal_def)
  qed
qed


text \<open>The same for a run that is executed under a claim.\<close>

lemma run_claimed_returns:
  "\<exists>res w'. run_claimed env claim w = Some (res, w') \<and> outcome_is_terminal res"
  using claimed_quanta_ends by (auto simp: run_claimed_def outcome_is_terminal_def split: sum.split)

section \<open>What a capability cannot break\<close>

text \<open>The events that a capability emits, in any continuation.\<close>

primrec emits_only :: "agent_program \<Rightarrow> (string \<Rightarrow> json_object \<Rightarrow> bool) \<Rightarrow> bool" where
  "emits_only (Finish payload) A = True"
| "emits_only FinishOther A = True"
| "emits_only (Fail e) A = True"
| "emits_only (CallModel system user validate k) A = (\<forall>res. emits_only (k res) A)"
| "emits_only (CallTool name operation k) A = (\<forall>res. emits_only (k res) A)"
| "emits_only (Emit event_type data k) A = (A event_type data \<and> (\<forall>res. emits_only (k res) A))"

text \<open>
  A predicate on the record and the world that every elementary change keeps: counting a call
  within the budget, adding a cost, letting time pass, appending an allowed event, and
  refreshing the record from a requested cancellation. The context gives a capability nothing
  but these, so whatever it does keeps the predicate.
\<close>

locale run_predicate =
  fixes env :: agent_env and P :: "run_state \<Rightarrow> bool" and A :: "string \<Rightarrow> json_object \<Rightarrow> bool"
  assumes count_model: "P (r, w) \<Longrightarrow> rr_model_calls r < bg_max_model_calls (rr_budget r) \<Longrightarrow>
      P (r\<lparr>rr_model_calls := rr_model_calls r + 1\<rparr>, w)"
    and count_tool: "P (r, w) \<Longrightarrow> rr_tool_calls r < bg_max_tool_calls (rr_budget r) \<Longrightarrow>
      P (r\<lparr>rr_tool_calls := rr_tool_calls r + 1\<rparr>, w)"
    and add_cost: "P (r, w) \<Longrightarrow> P (r\<lparr>rr_cost_usd := rr_cost_usd r + cost\<rparr>, w)"
    and pass_time: "P (r, w) \<Longrightarrow> P (r, w\<lparr>wo_time := t\<rparr>)"
    and append: "P st \<Longrightarrow> A event_type data \<Longrightarrow> P (snd (append_event env force event_type data st))"
    and refresh: "P st \<Longrightarrow> P (snd (refresh_cancellation env st))"
    and allowed: "A ''agent.model.requested'' data" "A ''agent.tool.requested'' data" "A ''agent.tool.completed'' data"
      "dict_get data ''cost_usd'' = Some (JDecimal cost) \<Longrightarrow> A ''agent.model.completed'' data"
begin

lemma check_time_keeps: "P st \<Longrightarrow> P (snd (check_time env st))"
proof -
  assume P: "P st"
  obtain b st1 where 1: "refresh_cancellation env st = (b, st1)" by (rule prod.exhaust)
  have P1: "P st1" using refresh [OF P] 1 by simp
  then have "P (fst st1, (snd st1)\<lparr>wo_time := t\<rparr>)" for t using pass_time [of "fst st1" "snd st1"] by simp
  then show ?thesis using P P1
    by (cases b) (auto simp: check_time_def 1 read_monotonic_def split: option.split)
qed

lemma accept_response_keeps: "P st \<Longrightarrow> P (snd (accept_response env validate response st))"
proof -
  assume "P st"
  then have r: "P ((fst st)\<lparr>rr_cost_usd := rr_cost_usd (fst st) + rp_cost_usd response\<rparr>, snd st)"
    using add_cost [of "fst st" "snd st"] by simp
  show ?thesis
    unfolding accept_response_def Let_def
    by (auto intro!: r and_then_snd [where Q = P] check_time_keeps append allowed split: option.split sum.split)
qed

lemma context_complete_keeps: "P st \<Longrightarrow> P (snd (context_complete env system user validate st))"
proof -
  assume st: "P st"
  show ?thesis
    unfolding context_complete_def Let_def
    by (auto intro!: and_then_snd [where Q = P] check_time_keeps [OF st] append allowed count_model pass_time accept_response_keeps
      split: sum.split)
qed

lemma context_tool_keeps: "P st \<Longrightarrow> P (snd (context_tool env name operation st))"
proof -
  assume st: "P st"
  show ?thesis
    unfolding context_tool_def Let_def
    by (auto intro!: and_then_snd [where Q = P] check_time_keeps [OF st] check_time_keeps append allowed count_tool pass_time split: sum.split)
qed

lemma context_emit_keeps: "P st \<Longrightarrow> A event_type data \<Longrightarrow> P (snd (context_emit env event_type data st))"
  unfolding context_emit_def by (intro and_then_snd [where Q = P] check_time_keeps append)

lemma run_program_keeps: "P st \<Longrightarrow> emits_only program A \<Longrightarrow> P (snd (run_program program env st))"
proof (induction program arbitrary: st)
  case (CallModel system user validate k)
  obtain res st' where c: "context_complete env system user validate st = (res, st')" by (rule prod.exhaust)
  then have "P st'" using context_complete_keeps [OF CallModel.prems(1), of system user validate] by simp
  then show ?case using CallModel.IH [of "k res" st'] CallModel.prems(2) c by simp
next
  case (CallTool name operation k)
  obtain res st' where c: "context_tool env name operation st = (res, st')" by (rule prod.exhaust)
  then have "P st'" using context_tool_keeps [OF CallTool.prems(1), of name operation] by simp
  then show ?case using CallTool.IH [of "k res" st'] CallTool.prems(2) c by simp
next
  case (Emit event_type data k)
  obtain res st' where c: "context_emit env event_type data st = (res, st')" by (rule prod.exhaust)
  then have "P st'" using context_emit_keeps [OF Emit.prems(1), of event_type data] Emit.prems(2) by simp
  then show ?case using Emit.IH [of "k res" st'] Emit.prems(2) c by simp
qed simp_all

end

text \<open>
  A predicate that says nothing about the outcome of the run, and that any event keeps, is kept
  by the whole quantum with all its exception handlers.
\<close>

locale outcome_predicate = run_predicate +
  assumes any_event: "A event_type data"
    and set_outcome: "P (r, w) \<Longrightarrow> P (r\<lparr>rr_state := state, rr_output := result, rr_failure := failure,
      rr_resumable := resumable, rr_started_monotonic := started\<rparr>, w)"
begin

lemma set_fields:
  assumes "P (r, w)"
  shows "P (r\<lparr>rr_state := state, rr_resumable := resumable\<rparr>, w)" "P (r\<lparr>rr_output := result, rr_state := state\<rparr>, w)"
    "P (r\<lparr>rr_state := state, rr_failure := failure, rr_resumable := resumable\<rparr>, w)" "P (r\<lparr>rr_state := state\<rparr>, w)"
    "P (r\<lparr>rr_started_monotonic := started, rr_state := state\<rparr>, w)"
proof -
  have updates: "r\<lparr>rr_output := result, rr_state := state\<rparr> = r\<lparr>rr_state := state, rr_output := result\<rparr>"
    "r\<lparr>rr_started_monotonic := started, rr_state := state\<rparr> = r\<lparr>rr_state := state, rr_started_monotonic := started\<rparr>"
    by simp_all
  show "P (r\<lparr>rr_state := state, rr_resumable := resumable\<rparr>, w)" "P (r\<lparr>rr_output := result, rr_state := state\<rparr>, w)"
    "P (r\<lparr>rr_state := state, rr_failure := failure, rr_resumable := resumable\<rparr>, w)" "P (r\<lparr>rr_state := state\<rparr>, w)"
    "P (r\<lparr>rr_started_monotonic := started, rr_state := state\<rparr>, w)"
  using set_outcome [OF assms, where state = state and result = "rr_output r" and failure = "rr_failure r"
      and resumable = resumable and started = "rr_started_monotonic r"]
    set_outcome [OF assms, where state = state and result = result and failure = "rr_failure r"
      and resumable = "rr_resumable r" and started = "rr_started_monotonic r"]
    set_outcome [OF assms, where state = state and result = "rr_output r" and failure = failure
      and resumable = resumable and started = "rr_started_monotonic r"]
    set_outcome [OF assms, where state = state and result = "rr_output r" and failure = "rr_failure r"
      and resumable = "rr_resumable r" and started = "rr_started_monotonic r"]
    set_outcome [OF assms, where state = state and result = "rr_output r" and failure = "rr_failure r"
      and resumable = "rr_resumable r" and started = started]
    by (simp_all add: updates)
qed

lemma emits_anything: "emits_only program A"
  by (induction program) (simp_all add: any_event)

lemma record_cancelled_keeps: "P st \<Longrightarrow> P (snd (record_cancelled env st))"
  unfolding record_cancelled_def Let_def by (intro append any_event set_fields) simp

lemma complete_cancellation_keeps: "P st \<Longrightarrow> P (snd (complete_cancellation env st))"
  unfolding complete_cancellation_def by (intro record_cancelled_keeps refresh)

lemma or_cancelled_keeps: "P (snd recorded) \<Longrightarrow> P (snd (or_cancelled env recorded))"
  using complete_cancellation_keeps by (auto simp: or_cancelled_def split: prod.splits sum.splits error.splits)

lemma handle_exception_keeps: "P st \<Longrightarrow> P (snd (handle_exception env e st))"
proof -
  assume st: "P st"
  then have "P (snd (record_exhausted env d st))" "P (snd (record_failed env e st))" for d
    unfolding record_exhausted_def record_failed_def Let_def by (intro append any_event set_fields; simp)+
  note recorded = or_cancelled_keeps [OF this(1)] or_cancelled_keeps [OF this(2)] complete_cancellation_keeps [OF st]
  then show ?thesis by (cases e env st rule: handle_exception_cases) (use st in \<open>metis snd_conv\<close>)+
qed

lemma attempt_quantum_keeps: "P st \<Longrightarrow> P (snd (attempt_quantum env st))"
  unfolding attempt_quantum_def Let_def
  by (auto intro!: and_then_snd [where Q = P] append any_event run_program_keeps emits_anything set_fields(2) split: sum.split option.split)

lemma quantum_keeps: "P st \<Longrightarrow> P (snd (quantum env st))"
proof -
  assume st: "P st"
  obtain b r w where 1: "refresh_cancellation env st = (b, (r, w))" by (metis prod.exhaust)
  have P1: "P (r, w)" using refresh [OF st] 1 by simp
  have begun: "P (begin_quantum env (r, w))"
    using set_fields(4,5) [OF P1] set_fields(5) [OF pass_time [OF P1]] by (auto simp: begin_quantum_def read_monotonic_def split: option.split)
  have settled: "P (snd (settle env m))" if "P (snd m)" for m
    using that handle_exception_keeps by (auto simp: settle_def split: prod.splits sum.splits)
  show ?thesis
    unfolding quantum_def 1 using P1
    by (auto intro!: and_then_snd [where Q = P] record_cancelled_keeps settled attempt_quantum_keeps begun)
qed

end

section \<open>The budget\<close>

definition record_key :: "agent_run_record \<Rightarrow> run_key" where
  "record_key r = (ts_tenant_id (rr_session r), rr_id r)"

definition stored_calls_within :: "run_key \<Rightarrow> agent_budget \<Rightarrow> agent_repository \<Rightarrow> bool" where
  "stored_calls_within key budget s =
     (case dict_get (ar_runs s) key of
        None \<Rightarrow> True
      | Some sn \<Rightarrow> sn_model_calls sn \<le> bg_max_model_calls budget \<and> sn_tool_calls sn \<le> bg_max_tool_calls budget)"

definition others_respect_budget :: "agent_env \<Rightarrow> run_key \<Rightarrow> agent_budget \<Rightarrow> bool" where
  "others_respect_budget env key budget \<longleftrightarrow>
     (\<forall>t s. stored_calls_within key budget s \<longrightarrow> stored_calls_within key budget (en_others env t s))"

definition calls_within_budget :: "run_state \<Rightarrow> bool" where
  "calls_within_budget st \<longleftrightarrow>
     rr_model_calls (fst st) \<le> bg_max_model_calls (rr_budget (fst st)) \<and>
     rr_tool_calls (fst st) \<le> bg_max_tool_calls (rr_budget (fst st)) \<and>
     stored_calls_within (record_key (fst st)) (rr_budget (fst st)) (wo_repository (snd st))"

definition budget_kept :: "agent_env \<Rightarrow> run_key \<Rightarrow> agent_budget \<Rightarrow> run_state \<Rightarrow> bool" where
  "budget_kept env key budget st \<longleftrightarrow>
     record_key (fst st) = key \<and> rr_budget (fst st) = budget \<and>
     (others_respect_budget env key budget \<longrightarrow> calls_within_budget st)"

lemma snapshot_key_record [simp]: "snapshot_key (run_snapshot r) = record_key r"
  by (simp add: snapshot_key_def run_snapshot_def record_key_def)

lemma snapshot_calls [simp]:
  "sn_model_calls (run_snapshot r) = rr_model_calls r" "sn_tool_calls (run_snapshot r) = rr_tool_calls r"
  by (simp_all add: run_snapshot_def)

lemma repo_save_at:
  assumes "repo_save now sn claim s = (res, s')"
  shows "dict_get (ar_runs s') (snapshot_key sn) = dict_get (ar_runs s) (snapshot_key sn) \<or>
    dict_get (ar_runs s') (snapshot_key sn) = Some sn"
proof -
  obtain active s1 where a: "repo_active_claim now (snapshot_key sn) s = (active, s1)" by (rule prod.exhaust)
  have "ar_runs s1 = ar_runs s" using active_claim_cases [OF a] by blast
  with repo_save_cases [OF assms a] show ?thesis by (auto simp: repo_store_def split: if_splits)
qed

lemma meet_others_within:
  assumes "others_respect_budget env key b" and "stored_calls_within key b (wo_repository w)"
  shows "stored_calls_within key b (wo_repository (meet_others env w))"
  using assms by (simp add: others_respect_budget_def meet_others_def)

lemma persist_run_within:
  assumes "others_respect_budget env (record_key (fst st)) (rr_budget (fst st))" and "calls_within_budget st"
  shows "calls_within_budget (snd (persist_run env st))"
proof -
  let ?w = "meet_others env (snd st)" and ?sn = "run_snapshot (fst st)"
  obtain res s' where save: "repo_save (en_now env (wo_time ?w)) ?sn (rr_claim (fst st)) (wo_repository ?w) = (res, s')"
    by (rule prod.exhaust)
  have "stored_calls_within (record_key (fst st)) (rr_budget (fst st)) (wo_repository ?w)"
    using meet_others_within assms by (simp add: calls_within_budget_def)
  then have "stored_calls_within (record_key (fst st)) (rr_budget (fst st)) s'"
    using repo_save_at [OF save] assms(2) by (auto simp: stored_calls_within_def calls_within_budget_def)
  then show ?thesis using assms(2) save by (simp add: persist_run_def Let_def calls_within_budget_def)
qed

lemma budget_kept_append:
  assumes "budget_kept env key budget st"
  shows "budget_kept env key budget (snd (append_event env force event_type data st))"
proof -
  let ?st = "(with_event env event_type data st, snd st)" and ?st' = "snd (append_event env force event_type data st)"
  have same: "record_key (fst ?st') = record_key (fst st)" "rr_budget (fst ?st') = rr_budget (fst st)"
    by (simp_all add: append_event_cases with_event_def record_key_def)
  have "calls_within_budget ?st'" if others: "others_respect_budget env key budget"
  proof -
    have within: "calls_within_budget st" using assms others by (simp add: budget_kept_def)
    then have "calls_within_budget ?st" by (simp add: calls_within_budget_def with_event_def record_key_def)
    moreover have "others_respect_budget env (record_key (fst ?st)) (rr_budget (fst ?st))"
      using others assms by (simp add: with_event_def record_key_def budget_kept_def)
    ultimately have "calls_within_budget (snd (persist_run env ?st))" by (intro persist_run_within)
    with within show ?thesis by (simp add: append_event_cases)
  qed
  with assms same show ?thesis by (simp add: budget_kept_def)
qed

lemma budget_kept_refresh:
  assumes "budget_kept env key budget st"
  shows "budget_kept env key budget (snd (refresh_cancellation env st))"
proof -
  let ?st' = "snd (refresh_cancellation env st)" and ?w = "meet_others env (snd st)"
  have same: "record_key (fst ?st') = record_key (fst st)" "rr_budget (fst ?st') = rr_budget (fst st)" "snd ?st' = ?w"
    by (auto simp: refresh_cancellation_def Let_def record_key_def split: option.split)
  have "calls_within_budget ?st'" if others: "others_respect_budget env key budget"
  proof -
    have within: "calls_within_budget st" using assms others by (simp add: budget_kept_def)
    have stored: "stored_calls_within (record_key (fst st)) (rr_budget (fst st)) (wo_repository ?w)"
      using meet_others_within [OF others] within assms by (simp add: calls_within_budget_def budget_kept_def)
    have "rr_model_calls (fst ?st') \<le> bg_max_model_calls (rr_budget (fst st)) \<and>
        rr_tool_calls (fst ?st') \<le> bg_max_tool_calls (rr_budget (fst st))"
      using within stored
      by (auto simp: refresh_cancellation_def Let_def repo_get_def record_key_def calls_within_budget_def stored_calls_within_def
        split: option.splits)
    with stored show ?thesis by (simp add: calls_within_budget_def same)
  qed
  with assms same show ?thesis by (simp add: budget_kept_def)
qed

interpretation budget: outcome_predicate env "budget_kept env key budget" "\<lambda>_ _. True" for env key budget
  by unfold_locales
    (simp_all add: budget_kept_append budget_kept_refresh, auto simp: budget_kept_def calls_within_budget_def record_key_def)


section \<open>Samples\<close>


definition sample_env :: "(nat \<Rightarrow> agent_repository \<Rightarrow> agent_repository) \<Rightarrow> agent_program \<Rightarrow> agent_env" where
  "sample_env others program =
     \<lparr>en_capabilities = [(''knowledge_synthesis'', \<lparr>ca_validate = Inr, ca_execute = \<lambda>_ _ _ _. program\<rparr>)],
      en_settings = sn_settings sample_run, en_budget = default_budget, en_others = others, en_now = int,
      en_monotonic = (\<lambda>_. 0),
      en_model = (\<lambda>_ _. Inr \<lparr>rp_parsed = Some JNull, rp_cost_usd = 1 / 100, rp_model = ''m'', rp_input_tokens = 1,
        rp_output_tokens = 1\<rparr>),
      en_backend = (\<lambda>_. Inr ())\<rparr>"


definition sample_world :: agent_world where
  "sample_world = \<lparr>wo_time = 0, wo_repository = sample_repository\<rparr>"



text \<open>
  A client asks for cancellation just before the outcome of the run is saved.
\<close>

definition cancels_at :: "nat \<Rightarrow> nat \<Rightarrow> agent_repository \<Rightarrow> agent_repository" where
  "cancels_at n t s = (if t = n then snd (repo_request_cancellation 5 sample_run_session ''run-1'' s) else s)"

definition unclaimed_report :: "(agent_run_state \<times> agent_run_state option) option" where
  "unclaimed_report =
     (case run_until_terminal (sample_env (cancels_at 5) (Finish [])) sample_run_session ''run-1'' sample_world of
        Some (Inr view, w) \<Rightarrow>
          Some (vw_state view, map_option sn_state (repo_get ''acme'' ''run-1'' (wo_repository w)))
      | _ \<Rightarrow> None)"

lemma unclaimed_report_eq: "unclaimed_report = Some (RUN_COMPLETED, Some RUN_CANCEL_REQUESTED)"
  by code_simp

text \<open>
  Without a lease a run can report what was not stored: when a cancellation is requested just
  before the outcome is saved, \<^verbatim>\<open>run_until_terminal\<close> returns a completed run, while the stored run
  waits for its cancellation and keeps doing so. The save is dropped without an exception.
\<close>

lemma unclaimed_completion_is_dropped:
  "\<exists>view w'. run_until_terminal (sample_env (cancels_at 5) (Finish [])) sample_run_session ''run-1'' sample_world =
      Some (Inr view, w') \<and> vw_state view = RUN_COMPLETED \<and>
    map_option sn_state (repo_get ''acme'' ''run-1'' (wo_repository w')) = Some RUN_CANCEL_REQUESTED"
  using unclaimed_report_eq by (auto simp: unclaimed_report_def split: option.splits prod.splits sum.splits)

end
