(* ===== verification/AgentReport.thy ===== *)
theory AgentReport
  imports AgentRuntimeProperties
begin

text \<open>
  A run that is executed under a lease: while others may request its cancellation at any moment
  and may take the lease over once it has expired, a view that the runtime returns is exactly
  what the repository stores, and replaying the stored log gives the same view.
\<close>

section \<open>The lease and the log\<close>

definition lease_held :: "agent_run_record \<Rightarrow> agent_repository \<Rightarrow> bool" where
  "lease_held r s =
     (case rr_claim r of None \<Rightarrow> False | Some claim \<Rightarrow> same_lease (dict_get (ar_leases s) (record_key r)) claim)"

text \<open>A log from which a run that has not ended is replayed.\<close>

definition log_open :: "replay_ops \<Rightarrow> agent_run_record \<Rightarrow> agent_run_event list \<Rightarrow> bool" where
  "log_open ops r events \<longleftrightarrow>
     (\<exists>s. replay_events ops events (replay_start r) = Inr s \<and> rs_settings s = rr_settings r \<and> rs_budget s = rr_budget r \<and>
        rs_output s = None \<and> rs_failure s = None \<and> \<not> rs_resumable s)"

definition record_open :: "replay_ops \<Rightarrow> agent_run_record \<Rightarrow> bool" where
  "record_open ops r \<longleftrightarrow>
     \<not> terminal (rr_state r) \<and> log_open ops r (rr_events r) \<and> rr_output r = None \<and> rr_failure r = None \<and> \<not> rr_resumable r"

definition snapshot_open :: "replay_ops \<Rightarrow> agent_run_record \<Rightarrow> agent_run_snapshot \<Rightarrow> bool" where
  "snapshot_open ops r sn \<longleftrightarrow>
     \<not> terminal (sn_state sn) \<and> log_open ops r (sn_events sn) \<and> sn_output sn = None \<and> sn_failure sn = None \<and> \<not> sn_resumable sn"

definition stored_open :: "replay_ops \<Rightarrow> agent_run_record \<Rightarrow> agent_repository \<Rightarrow> bool" where
  "stored_open ops r s \<longleftrightarrow> (\<exists>sn. dict_get (ar_runs s) (record_key r) = Some sn \<and> snapshot_open ops r sn)"

text \<open>
  What others do before an interaction: they do not give a lost lease back, and while the lease
  is held they leave the stored run alone or request its cancellation.
\<close>

definition others_only_cancel :: "agent_env \<Rightarrow> agent_run_record \<Rightarrow> bool" where
  "others_only_cancel env r \<longleftrightarrow>
     (\<forall>t s. lease_held r (en_others env t s) \<longrightarrow>
        lease_held r s \<and>
        (dict_get (ar_runs (en_others env t s)) (record_key r) = dict_get (ar_runs s) (record_key r) \<or>
         (\<exists>now sn. dict_get (ar_runs s) (record_key r) = Some sn \<and>
            dict_get (ar_runs (en_others env t s)) (record_key r) = Some (with_cancellation_requested now sn))))"

text \<open>What a run keeps of its record throughout.\<close>

definition same_run :: "agent_run_record \<Rightarrow> agent_run_record \<Rightarrow> bool" where
  "same_run r0 r \<longleftrightarrow>
     rr_id r = rr_id r0 \<and> rr_session r = rr_session r0 \<and> rr_claim r = rr_claim r0 \<and>
     rr_settings r = rr_settings r0 \<and> rr_budget r = rr_budget r0"

lemma same_run_eqs:
  assumes "same_run r0 r"
  shows "record_key r = record_key r0" "rr_claim r = rr_claim r0" "replay_start r = replay_start r0"
    "log_open ops r = log_open ops r0" "snapshot_open ops r = snapshot_open ops r0"
  using assms by (auto simp: same_run_def record_key_def replay_start_def log_open_def snapshot_open_def fun_eq_iff)

lemma same_run_updates [simp]:
  "same_run r0 (r\<lparr>rr_model_calls := n\<rparr>) = same_run r0 r" "same_run r0 (r\<lparr>rr_tool_calls := n\<rparr>) = same_run r0 r"
  "same_run r0 (r\<lparr>rr_cost_usd := c\<rparr>) = same_run r0 r" "same_run r0 (r\<lparr>rr_state := x\<rparr>) = same_run r0 r"
  "same_run r0 (r\<lparr>rr_resumable := b\<rparr>) = same_run r0 r" "same_run r0 (r\<lparr>rr_output := y\<rparr>) = same_run r0 r"
  "same_run r0 (r\<lparr>rr_failure := z\<rparr>) = same_run r0 r" "same_run r0 (r\<lparr>rr_events := e\<rparr>) = same_run r0 r"
  "same_run r0 (r\<lparr>rr_started_monotonic := t\<rparr>) = same_run r0 r"
  by (simp_all add: same_run_def)

lemma same_run_with_event [simp]: "same_run r0 (with_event env event_type data st) = same_run r0 (fst st)"
  by (simp add: with_event_def)

text \<open>Events that leave the outcome of the replay open.\<close>

definition neutral_event :: "replay_ops \<Rightarrow> string \<Rightarrow> json_object \<Rightarrow> bool" where
  "neutral_event ops event_type data \<longleftrightarrow>
     (\<forall>event s. ae_type event = event_type \<and> ae_data event = data \<longrightarrow>
        (\<exists>s'. replay_event ops event s = Inr s' \<and> rs_settings s' = rs_settings s \<and> rs_budget s' = rs_budget s \<and>
           rs_output s' = rs_output s \<and> rs_failure s' = rs_failure s \<and> rs_resumable s' = rs_resumable s))"

lemma bind_result_simps [simp]: "bind_result (Inl e) f = Inl e" "bind_result (Inr x) f = f x"
  by (simp_all add: bind_result_def)

lemma replay_events_append:
  "replay_events ops (events @ later) s = bind_result (replay_events ops events s) (replay_events ops later)"
proof (induction events arbitrary: s)
  case (Cons event events)
  then show ?case by (cases "replay_event ops event s") simp_all
qed simp

lemma log_open_append:
  assumes "log_open ops r events" and "neutral_event ops (ae_type event) (ae_data event)"
  shows "log_open ops r (events @ [event])"
proof -
  obtain s where s: "replay_events ops events (replay_start r) = Inr s" "rs_settings s = rr_settings r" "rs_budget s = rr_budget r"
    "rs_output s = None" "rs_failure s = None" "\<not> rs_resumable s"
    using assms(1) unfolding log_open_def by blast
  obtain s' where "replay_event ops event s = Inr s'" "rs_settings s' = rs_settings s" "rs_budget s' = rs_budget s"
    "rs_output s' = rs_output s" "rs_failure s' = rs_failure s" "rs_resumable s' = rs_resumable s"
    using assms(2) unfolding neutral_event_def by blast
  with s show ?thesis by (simp add: log_open_def replay_events_append)
qed

lemma neutral_events:
  "neutral_event ops ''agent.model.requested'' data" "neutral_event ops ''agent.tool.requested'' data"
  "neutral_event ops ''agent.tool.completed'' data" "neutral_event ops ''agent.run.started'' data"
  "neutral_event ops ''agent.run.cancellation_requested'' data"
  "dict_get data ''cost_usd'' = Some (JDecimal cost) \<Longrightarrow> neutral_event ops ''agent.model.completed'' data"
  by (simp_all add: neutral_event_def replay_event_def Let_def json_item_def json_decimal_def)

lemma snapshot_open_cancellation:
  assumes "snapshot_open ops r sn"
  shows "snapshot_open ops r (with_cancellation_requested now sn)"
proof -
  have "log_open ops r (sn_events sn @ [event])" if "ae_type event = ''agent.run.cancellation_requested''" for event
    using assms that neutral_events(5) by (intro log_open_append) (simp_all add: snapshot_open_def)
  then show ?thesis using assms by (simp add: snapshot_open_def with_cancellation_requested_def terminal_def)
qed

section \<open>The invariant of a running quantum\<close>

definition report_kept :: "replay_ops \<Rightarrow> agent_env \<Rightarrow> agent_run_record \<Rightarrow> run_state \<Rightarrow> bool" where
  "report_kept ops env r0 st \<longleftrightarrow>
     same_run r0 (fst st) \<and>
     (others_only_cancel env r0 \<longrightarrow> lease_held r0 (wo_repository (snd st)) \<longrightarrow>
        record_open ops (fst st) \<and> stored_open ops r0 (wo_repository (snd st)))"

lemma meet_others_held:
  assumes "others_only_cancel env r0" and "lease_held r0 (wo_repository (meet_others env w))"
  shows "lease_held r0 (wo_repository w)"
    and "dict_get (ar_runs (wo_repository (meet_others env w))) (record_key r0) = dict_get (ar_runs (wo_repository w)) (record_key r0) \<or>
      (\<exists>now sn. dict_get (ar_runs (wo_repository w)) (record_key r0) = Some sn \<and>
         dict_get (ar_runs (wo_repository (meet_others env w))) (record_key r0) = Some (with_cancellation_requested now sn))"
  using assms by (simp_all add: others_only_cancel_def meet_others_def)

lemma meet_others_open:
  assumes "others_only_cancel env r0" and "lease_held r0 (wo_repository (meet_others env w))" and "stored_open ops r0 (wo_repository w)"
  shows "stored_open ops r0 (wo_repository (meet_others env w))"
proof -
  obtain sn where sn: "dict_get (ar_runs (wo_repository w)) (record_key r0) = Some sn" "snapshot_open ops r0 sn"
    using assms(3) unfolding stored_open_def by blast
  from meet_others_held(2) [OF assms(1,2)] show ?thesis
    using sn snapshot_open_cancellation [OF sn(2)] unfolding stored_open_def by auto
qed

lemma repo_save_leases:
  assumes "repo_save now sn claim s = (res, s')" and "dict_get (ar_leases s') key = Some lease"
  shows "dict_get (ar_leases s) key = Some lease"
proof -
  obtain active s1 where a: "repo_active_claim now (snapshot_key sn) s = (active, s1)" by (rule prod.exhaust)
  have "ar_leases (repo_store sn s1) = ar_leases s1" by (simp add: repo_store_def)
  with repo_save_cases [OF assms(1) a] assms(2) have "dict_get (ar_leases s1) key = Some lease"
    by (auto simp: dict_get_pop split: if_splits)
  then show ?thesis using active_claim_cases [OF a] by blast
qed

lemma persist_run_held:
  assumes "same_run r0 (fst st)" and "lease_held r0 (wo_repository (snd (snd (persist_run env st))))"
  shows "lease_held r0 (wo_repository (meet_others env (snd st)))"
proof -
  let ?w = "meet_others env (snd st)"
  obtain res s' where save: "repo_save (en_now env (wo_time ?w)) (run_snapshot (fst st)) (rr_claim (fst st)) (wo_repository ?w) = (res, s')"
    by (rule prod.exhaust)
  have "lease_held r0 s'" using assms(2) save by (simp add: persist_run_def Let_def)
  then show ?thesis using repo_save_leases [OF save] by (auto simp: lease_held_def same_lease_def split: option.splits)
qed

text \<open>What a save does to a stored run that is still open.\<close>

lemma persist_run_open:
  assumes "others_only_cancel env r0" and same: "same_run r0 (fst st)" and "stored_open ops r0 (wo_repository (snd st))"
    and held: "lease_held r0 (wo_repository (snd (snd (persist_run env st))))"
    and "snapshot_open ops r0 (run_snapshot (fst st))"
  shows "stored_open ops r0 (wo_repository (snd (snd (persist_run env st))))"
proof -
  let ?w = "meet_others env (snd st)"
  obtain res s' where save: "repo_save (en_now env (wo_time ?w)) (run_snapshot (fst st)) (rr_claim (fst st)) (wo_repository ?w) = (res, s')"
    by (rule prod.exhaust)
  have "stored_open ops r0 (wo_repository ?w)"
    using meet_others_open [OF assms(1) persist_run_held [OF same held] assms(3)] .
  then have "stored_open ops r0 s'"
    using repo_save_at [OF save] assms(5) same_run_eqs(1) [OF same] by (auto simp: stored_open_def)
  then show ?thesis using save by (simp add: persist_run_def Let_def)
qed

lemma snapshot_open_record: "record_open ops r \<Longrightarrow> snapshot_open ops r (run_snapshot r)"
  by (simp add: record_open_def snapshot_open_def run_snapshot_def)

lemma record_open_event:
  assumes "record_open ops (fst st)" and "neutral_event ops event_type data"
  shows "record_open ops (with_event env event_type data st)"
proof -
  let ?event = "\<lparr>ae_sequence = int (length (rr_events (fst st))) + 1, ae_type = event_type, ae_data = data,
    ae_created_at = en_now env (wo_time (snd st))\<rparr>"
  have "log_open ops (fst st) (rr_events (fst st) @ [?event])"
    using assms by (intro log_open_append) (simp_all add: record_open_def)
  moreover have "log_open ops (with_event env event_type data st) = log_open ops (fst st)"
    by (simp add: with_event_def log_open_def replay_start_def fun_eq_iff)
  ultimately show ?thesis using assms(1) by (simp add: record_open_def) (simp add: with_event_def)
qed

lemma report_kept_append:
  assumes kept: "report_kept ops env r0 st" and "neutral_event ops event_type data"
  shows "report_kept ops env r0 (snd (append_event env force event_type data st))"
proof (cases "\<not> force \<and> bg_max_events (rr_budget (fst st)) \<le> int (length (rr_events (fst st)))")
  case True
  then show ?thesis using kept by (simp add: append_event_cases)
next
  case False
  let ?st = "(with_event env event_type data st, snd st)"
  have eq: "snd (append_event env force event_type data st) = snd (persist_run env ?st)" unfolding append_event_cases if_not_P [OF False] ..
  have same: "same_run r0 (fst ?st)" using kept by (simp add: report_kept_def)
  have "record_open ops (fst ?st) \<and> stored_open ops r0 (wo_repository (snd (snd (persist_run env ?st))))"
    if others: "others_only_cancel env r0" and held: "lease_held r0 (wo_repository (snd (snd (persist_run env ?st))))"
  proof -
    have "lease_held r0 (wo_repository (snd st))"
      using meet_others_held(1) [OF others persist_run_held [OF same held]] by simp
    then have now: "record_open ops (fst st)" "stored_open ops r0 (wo_repository (snd st))"
      using kept others by (simp_all add: report_kept_def)
    have r: "record_open ops (fst ?st)" using record_open_event [OF now(1) assms(2)] by simp
    have "snapshot_open ops r0 (run_snapshot (fst ?st))"
      using snapshot_open_record [OF r] same_run_eqs(5) [OF same] by simp
    with r show ?thesis using persist_run_open [OF others same _ held] now(2) by simp
  qed
  then show ?thesis using same by (simp add: eq report_kept_def)
qed

lemma refresh_cancellation_cases:
  obtains (cancel) sn where
      "repo_get (ts_tenant_id (rr_session (fst st))) (rr_id (fst st)) (wo_repository (meet_others env (snd st))) = Some sn"
      "sn_state sn = RUN_CANCEL_REQUESTED"
      "refresh_cancellation env st = (True,
        ((fst st)\<lparr>rr_state := RUN_CANCEL_REQUESTED,
           rr_model_calls := max (rr_model_calls (fst st)) (sn_model_calls sn),
           rr_tool_calls := max (rr_tool_calls (fst st)) (sn_tool_calls sn),
           rr_cost_usd := max (rr_cost_usd (fst st)) (sn_cost_usd sn),
           rr_events := sn_events sn, rr_output := sn_output sn, rr_failure := sn_failure sn,
           rr_resumable := sn_resumable sn\<rparr>, meet_others env (snd st)))"
  | (same) "\<nexists>sn. repo_get (ts_tenant_id (rr_session (fst st))) (rr_id (fst st)) (wo_repository (meet_others env (snd st))) = Some sn \<and>
        sn_state sn = RUN_CANCEL_REQUESTED"
      "refresh_cancellation env st = (rr_state (fst st) = RUN_CANCEL_REQUESTED, (fst st, meet_others env (snd st)))"
proof (cases "repo_get (ts_tenant_id (rr_session (fst st))) (rr_id (fst st)) (wo_repository (meet_others env (snd st)))")
  case None
  then show ?thesis by (intro same) (simp_all add: refresh_cancellation_def Let_def)
next
  case (Some sn)
  then show ?thesis
    by (cases "sn_state sn = RUN_CANCEL_REQUESTED"; intro cancel [of sn] same) (simp_all add: refresh_cancellation_def Let_def)
qed

text \<open>After a refresh the record is open if it was, or if a requested cancellation is stored.\<close>

lemma refresh_opens:
  assumes others: "others_only_cancel env r0" and same: "same_run r0 (fst st)"
    and held: "lease_held r0 (wo_repository (snd (snd (refresh_cancellation env st))))"
    and stored: "stored_open ops r0 (wo_repository (snd st))"
    and "record_open ops (fst st) \<or>
      (\<exists>sn. dict_get (ar_runs (wo_repository (snd st))) (record_key r0) = Some sn \<and> sn_state sn = RUN_CANCEL_REQUESTED)"
  shows "record_open ops (fst (snd (refresh_cancellation env st))) \<and>
    stored_open ops r0 (wo_repository (snd (snd (refresh_cancellation env st))))"
proof -
  let ?w = "meet_others env (snd st)"
  have held': "lease_held r0 (wo_repository ?w)" using held by (cases env st rule: refresh_cancellation_cases) simp_all
  have open': "stored_open ops r0 (wo_repository ?w)" by (rule meet_others_open [OF others held' stored])
  have key: "repo_get (ts_tenant_id (rr_session (fst st))) (rr_id (fst st)) s = dict_get (ar_runs s) (record_key r0)" for s
    using same_run_eqs(1) [OF same] by (simp add: repo_get_def record_key_def)
  show ?thesis
  proof (cases env st rule: refresh_cancellation_cases)
    case (cancel sn)
    then have "snapshot_open ops r0 sn" using open' by (simp add: key stored_open_def)
    then have "record_open ops (fst (snd (refresh_cancellation env st)))"
      unfolding cancel(3) record_open_def snapshot_open_def
      using same_run_eqs(4) [OF same] by (simp add: terminal_def log_open_def replay_start_def fun_eq_iff)
    with open' show ?thesis by (simp add: cancel(3))
  next
    case same
    from assms(5) show ?thesis
    proof
      assume "record_open ops (fst st)"
      with open' show ?thesis by (simp add: same(2))
    next
      assume "\<exists>sn. dict_get (ar_runs (wo_repository (snd st))) (record_key r0) = Some sn \<and> sn_state sn = RUN_CANCEL_REQUESTED"
      then have "\<exists>sn. dict_get (ar_runs (wo_repository ?w)) (record_key r0) = Some sn \<and> sn_state sn = RUN_CANCEL_REQUESTED"
        using meet_others_held(2) [OF others held'] by auto
      then show ?thesis using same(1) by (simp add: key)
    qed
  qed
qed

lemma refresh_same_run [simp]: "same_run r0 (fst (snd (refresh_cancellation env st))) = same_run r0 (fst st)"
  by (cases env st rule: refresh_cancellation_cases) simp_all

lemma refresh_held:
  assumes "others_only_cancel env r0" and "lease_held r0 (wo_repository (snd (snd (refresh_cancellation env st))))"
  shows "lease_held r0 (wo_repository (snd st))"
proof (rule meet_others_held(1) [OF assms(1)])
  show "lease_held r0 (wo_repository (meet_others env (snd st)))"
    using assms(2) by (cases env st rule: refresh_cancellation_cases) simp_all
qed

lemma report_kept_refresh:
  assumes "report_kept ops env r0 st"
  shows "report_kept ops env r0 (snd (refresh_cancellation env st))"
  using assms refresh_opens [of env r0 st ops] refresh_held [of env r0 st] by (simp add: report_kept_def)

interpretation report: run_predicate env "report_kept ops env r0" "neutral_event ops" for env ops r0
proof unfold_locales
  fix r w st event_type data force n and cost :: rat
  show "report_kept ops env r0 (r, w) \<Longrightarrow> report_kept ops env r0 (r\<lparr>rr_model_calls := rr_model_calls r + 1\<rparr>, w)"
    "report_kept ops env r0 (r, w) \<Longrightarrow> report_kept ops env r0 (r\<lparr>rr_tool_calls := rr_tool_calls r + 1\<rparr>, w)"
    "report_kept ops env r0 (r, w) \<Longrightarrow> report_kept ops env r0 (r\<lparr>rr_cost_usd := rr_cost_usd r + cost\<rparr>, w)"
    "report_kept ops env r0 (r, w) \<Longrightarrow> report_kept ops env r0 (r, w\<lparr>wo_time := n\<rparr>)"
    by (simp_all add: report_kept_def record_open_def log_open_def replay_start_def)
  show "report_kept ops env r0 st \<Longrightarrow> neutral_event ops event_type data \<Longrightarrow>
      report_kept ops env r0 (snd (append_event env force event_type data st))"
    by (rule report_kept_append)
  show "report_kept ops env r0 st \<Longrightarrow> report_kept ops env r0 (snd (refresh_cancellation env st))"
    by (rule report_kept_refresh)
qed (rule neutral_events; assumption?)+

section \<open>Recording the outcome\<close>

text \<open>Persisting under a lease: how it can fail, and what success means.\<close>

lemma lease_after_lookup:
  assumes "repo_active_claim now key s = (active, s1)" and "\<not> same_lease active claim"
  shows "\<not> same_lease (dict_get (ar_leases s1) key) claim"
  using assms by (auto simp: repo_active_claim_def same_lease_def dict_get_pop split: option.splits if_splits)

lemma repo_save_claimed_cases:
  assumes "repo_save now sn (Some claim) s = (res, s')"
  obtains (lost) m where "res = Inl (AgentRunLeaseLost m)" "\<not> same_lease (dict_get (ar_leases s') (snapshot_key sn)) claim"
  | (cancelled) m current where "res = Inl (AgentRunCancellationRequested m)"
      "dict_get (ar_runs s) (snapshot_key sn) = Some current" "sn_state current = RUN_CANCEL_REQUESTED" "ar_runs s' = ar_runs s"
  | (saved) "res = Inr ()" "same_lease (dict_get (ar_leases s) (snapshot_key sn)) claim"
      "\<And>current. dict_get (ar_runs s) (snapshot_key sn) = Some current \<Longrightarrow> \<not> terminal (sn_state current) \<Longrightarrow>
        dict_get (ar_runs s') (snapshot_key sn) = Some sn"
proof -
  let ?k = "snapshot_key sn"
  obtain active s1 where a: "repo_active_claim now ?k s = (active, s1)" by (rule prod.exhaust)
  have runs: "ar_runs s1 = ar_runs s" using active_claim_cases [OF a] by blast
  have found: "active = Some c \<Longrightarrow> dict_get (ar_leases s) ?k = Some c" for c using active_claim_cases [OF a] by blast
  show thesis
  proof (cases "same_lease active claim")
    case False
    then have "res = Inl (AgentRunLeaseLost ''Agent Run lease is no longer owned'')" "s' = s1"
      using assms a by (simp_all add: repo_save_def)
    with lost lease_after_lookup [OF a False] show thesis by blast
  next
    case True
    then have held: "same_lease (dict_get (ar_leases s) ?k) claim" using found by (auto simp: same_lease_def split: option.splits)
    show thesis
    proof (cases "\<exists>current. dict_get (ar_runs s) ?k = Some current \<and> sn_state current = RUN_CANCEL_REQUESTED \<and>
        sn_state sn \<notin> {RUN_CANCEL_REQUESTED, RUN_CANCELLED}")
      case refused: True
      then obtain current where c: "dict_get (ar_runs s) ?k = Some current" "sn_state current = RUN_CANCEL_REQUESTED"
          "sn_state sn \<notin> {RUN_CANCEL_REQUESTED, RUN_CANCELLED}" by blast
      then have "res = Inl (AgentRunCancellationRequested ''Agent Run cancellation was requested'')" "s' = s1"
        using assms a True by (simp_all add: repo_save_def runs)
      with cancelled c runs show thesis by blast
    next
      case False
      then have "res = Inr () \<and> s' = (let s2 = repo_store sn s1
          in if terminal (sn_state sn) then s2\<lparr>ar_leases := dict_pop ?k (ar_leases s2)\<rparr> else s2)"
        using assms a True by (auto simp: repo_save_def runs Let_def split: option.splits)
      then have r: "res = Inr ()" "ar_runs s' = ar_runs (repo_store sn s1)" by (simp_all add: Let_def)
      have "dict_get (ar_runs s') ?k = Some sn" if "dict_get (ar_runs s) ?k = Some current" "\<not> terminal (sn_state current)" for current
        using that False r(2) by (auto simp: repo_store_def runs reject_state_regression_def)
      with saved r(1) held show thesis by blast
    qed
  qed
qed

text \<open>The record and the repository agree, and the log replays to the same view.\<close>

definition reported :: "replay_ops \<Rightarrow> run_state \<Rightarrow> bool" where
  "reported ops st \<longleftrightarrow>
     dict_get (ar_runs (wo_repository (snd st))) (record_key (fst st)) = Some (run_snapshot (fst st)) \<and>
     replay_view ops (fst st) = Inr (run_view (fst st))"

text \<open>A stored cancellation, with a record that may already carry another outcome.\<close>

definition cancel_pending :: "replay_ops \<Rightarrow> agent_run_record \<Rightarrow> run_state \<Rightarrow> bool" where
  "cancel_pending ops r0 st \<longleftrightarrow>
     same_run r0 (fst st) \<and>
     (lease_held r0 (wo_repository (snd st)) \<longrightarrow>
        stored_open ops r0 (wo_repository (snd st)) \<and>
        (record_open ops (fst st) \<or>
         (\<exists>sn. dict_get (ar_runs (wo_repository (snd st))) (record_key r0) = Some sn \<and> sn_state sn = RUN_CANCEL_REQUESTED)))"

lemma append_outcome:
  assumes others: "others_only_cancel env r0" and same: "same_run r0 r" and claim: "rr_claim r0 = Some claim"
    and open': "lease_held r0 (wo_repository w) \<longrightarrow> stored_open ops r0 (wo_repository w)"
    and append: "append_event env force event_type data (r, w) = (res, st')"
  shows "(res = Inl (AgentBudgetExceeded ''events'') \<and> st' = (r, w)) \<or>
    (\<exists>m. res = Inl (AgentRunLeaseLost m) \<and> same_run r0 (fst st') \<and> \<not> lease_held r0 (wo_repository (snd st'))) \<or>
    (\<exists>m. res = Inl (AgentRunCancellationRequested m) \<and> cancel_pending ops r0 st') \<or>
    (res = Inr () \<and> lease_held r0 (wo_repository w) \<and> fst st' = with_event env event_type data (r, w) \<and>
     dict_get (ar_runs (wo_repository (snd st'))) (record_key (fst st')) = Some (run_snapshot (fst st')))"
proof (cases "\<not> force \<and> bg_max_events (rr_budget r) \<le> int (length (rr_events r))")
  case True
  then show ?thesis using append by (simp add: append_event_cases)
next
  case False
  let ?r = "with_event env event_type data (r, w)" and ?w = "meet_others env w"
  have same': "same_run r0 ?r" using same by simp
  note eqs = same_run_eqs [OF same']
  obtain s' where save: "repo_save (en_now env (wo_time ?w)) (run_snapshot ?r) (Some claim) (wo_repository ?w) = (res, s')"
    and st': "st' = (?r, ?w\<lparr>wo_repository := s'\<rparr>)"
    using append False claim eqs(2) by (auto simp: append_event_cases persist_run_def Let_def split: prod.splits)
  have held_iff: "lease_held r0 s \<longleftrightarrow> same_lease (dict_get (ar_leases s) (record_key r0)) claim" for s
    by (simp add: lease_held_def claim)
  have open_w: "lease_held r0 (wo_repository w) \<and> stored_open ops r0 (wo_repository ?w)" if "lease_held r0 (wo_repository ?w)"
    using meet_others_open [OF others that] meet_others_held(1) [OF others that] open' by blast
  from save show ?thesis
  proof (cases rule: repo_save_claimed_cases)
    case (lost m)
    then have "\<not> lease_held r0 s'" by (simp add: held_iff eqs)
    with lost same' show ?thesis by (simp add: st')
  next
    case (cancelled m current)
    have "stored_open ops r0 s'" if "lease_held r0 s'"
    proof -
      have "lease_held r0 (wo_repository ?w)"
        using that repo_save_leases [OF save] by (auto simp: held_iff same_lease_def split: option.splits)
      then show ?thesis using open_w cancelled(4) by (simp add: stored_open_def)
    qed
    with cancelled same' have "cancel_pending ops r0 st'" by (simp add: cancel_pending_def st' eqs)
    with cancelled(1) show ?thesis by blast
  next
    case saved
    then have "lease_held r0 (wo_repository ?w)" by (simp add: held_iff eqs)
    then have held: "lease_held r0 (wo_repository w)" and "stored_open ops r0 (wo_repository ?w)" using open_w by blast+
    then have "dict_get (ar_runs s') (record_key ?r) = Some (run_snapshot ?r)"
      using saved(3) by (auto simp: stored_open_def snapshot_open_def eqs)
    with held saved(1) show ?thesis by (simp add: st')
  qed
qed

section \<open>Replaying the outcome\<close>

definition usage_payload :: "agent_run_record \<Rightarrow> json_object" where
  "usage_payload r =
     [(''model_calls'', JInt (rr_model_calls r)), (''tool_calls'', JInt (rr_tool_calls r)),
      (''events'', JInt (int (length (rr_events r)))), (''cost_usd'', JDecimal (rr_cost_usd r))]"

lemma usage_data_payload: "usage_data r = (''usage'', JObject (usage_payload r))"
  by (simp add: usage_data_def dump_usage_def run_usage_def usage_payload_def)

text \<open>An event that closes the log with the outcome of the record.\<close>

definition closing_event :: "replay_ops \<Rightarrow> agent_run_record \<Rightarrow> string \<Rightarrow> json_object \<Rightarrow> bool" where
  "closing_event ops r event_type data \<longleftrightarrow>
     (\<forall>event s. ae_type event = event_type \<and> ae_data event = data \<and> rs_output s = None \<and> rs_failure s = None \<and> \<not> rs_resumable s \<longrightarrow>
        (\<exists>s'. replay_event ops event s = Inr s' \<and> rs_settings s' = rs_settings s \<and> rs_budget s' = rs_budget s \<and>
           rs_state s' = rr_state r \<and> rs_output s' = rr_output r \<and> rs_failure s' = rr_failure r \<and>
           rs_resumable s' = rr_resumable r \<and> rs_terminal_usage s' = Some (usage_payload r)))"

lemma closing_events:
  "rr_state r = RUN_CANCELLED \<Longrightarrow> rr_resumable r \<Longrightarrow> rr_output r = None \<Longrightarrow> rr_failure r = None \<Longrightarrow>
    closing_event ops r ''agent.run.cancelled'' [usage_data r]"
  "rr_state r = RUN_COMPLETED \<Longrightarrow> \<not> rr_resumable r \<Longrightarrow> rr_output r = Some payload \<Longrightarrow> rr_failure r = None \<Longrightarrow>
    closing_event ops r ''agent.run.completed'' [(''output'', JObject payload), usage_data r]"
  "rr_state r = RUN_BUDGET_EXHAUSTED \<Longrightarrow> rr_resumable r \<Longrightarrow> rr_failure r = None \<Longrightarrow>
    closing_event ops r ''agent.run.budget_exhausted''
      [(''dimension'', JString dimension), usage_data r, (''output'', dump_output (rr_output r))]"
  "rr_state r = RUN_FAILED \<Longrightarrow> rr_resumable r \<Longrightarrow> rr_output r = None \<Longrightarrow> rr_failure r = Some name \<Longrightarrow>
    closing_event ops r ''agent.run.failed'' [(''error_type'', JString name), usage_data r]"
  by (simp_all add: closing_event_def replay_event_def Let_def usage_data_payload dict_or_none_def dump_output_def
      json_item_def json_str_def split: option.split)

lemma replay_closed:
  assumes "log_open ops r (rr_events r)" and "closing_event ops r event_type data"
  shows "replay_view ops (with_event env event_type data (r, w)) = Inr (run_view (with_event env event_type data (r, w)))"
proof -
  let ?r = "with_event env event_type data (r, w)"
  obtain event where event: "rr_events ?r = rr_events r @ [event]" "ae_type event = event_type" "ae_data event = data"
    by (simp add: with_event_def)
  obtain s where s: "replay_events ops (rr_events r) (replay_start r) = Inr s" "rs_settings s = rr_settings r" "rs_budget s = rr_budget r"
      "rs_output s = None" "rs_failure s = None" "\<not> rs_resumable s"
    using assms(1) unfolding log_open_def by blast
  obtain s' where s': "replay_event ops event s = Inr s'" "rs_settings s' = rs_settings s" "rs_budget s' = rs_budget s"
      "rs_state s' = rr_state r" "rs_output s' = rr_output r" "rs_failure s' = rr_failure r" "rs_resumable s' = rr_resumable r"
      "rs_terminal_usage s' = Some (usage_payload r)"
    using assms(2) event(2,3) s(4-6) unfolding closing_event_def by blast
  have start: "replay_start ?r = replay_start r" by (simp add: with_event_def replay_start_def)
  have "replay_usage s' = Inr (s'\<lparr>rs_model_calls := rr_model_calls r, rs_tool_calls := rr_tool_calls r, rs_cost_usd := rr_cost_usd r\<rparr>)"
    by (simp add: replay_usage_def s'(8) usage_payload_def json_item_def json_int_def json_decimal_def)
  then have "replay_view ops ?r = Inr \<lparr>vw_id = rr_id ?r, vw_tenant_id = ts_tenant_id (rr_session ?r),
      vw_actor_id = ts_actor_id (rr_session ?r), vw_capability = iv_capability (rr_invocation ?r), vw_state = rr_state r,
      vw_settings = rr_settings r, vw_budget = rr_budget r,
      vw_usage = \<lparr>us_model_calls = rr_model_calls r, us_tool_calls = rr_tool_calls r,
        us_events = int (length (rr_events ?r)), us_cost_usd = rr_cost_usd r\<rparr>,
      vw_events = rr_events ?r, vw_output = rr_output r, vw_failure = rr_failure r, vw_resumable = rr_resumable r\<rparr>"
    by (simp add: replay_view_def start event(1) replay_events_append s(1-3) s'(1-7))
  then show ?thesis by (simp add: run_view_def run_usage_def) (simp add: with_event_def)
qed

text \<open>Recording an outcome in a record that carries it.\<close>

lemma record_outcome:
  assumes others: "others_only_cancel env r0" and same: "same_run r0 r" and claim: "rr_claim r0 = Some claim"
    and open': "lease_held r0 (wo_repository w) \<Longrightarrow> stored_open ops r0 (wo_repository w) \<and> log_open ops r (rr_events r) \<and>
      closing_event ops r event_type data"
    and append: "append_event env force event_type data (r, w) = (Inr (), st')"
  shows "reported ops st'"
proof -
  have stored: "lease_held r0 (wo_repository w) \<longrightarrow> stored_open ops r0 (wo_repository w)" using open' by blast
  from append_outcome [OF others same claim stored append]
  have held: "lease_held r0 (wo_repository w)" and r: "fst st' = with_event env event_type data (r, w)"
    and saved: "dict_get (ar_runs (wo_repository (snd st'))) (record_key (fst st')) = Some (run_snapshot (fst st'))"
    by blast+
  then show ?thesis using replay_closed [of ops r event_type data env w] open' by (simp add: reported_def)
qed

lemma record_cancelled_reports:
  assumes "others_only_cancel env r0" and "rr_claim r0 = Some claim" and "same_run r0 (fst st)"
    and "lease_held r0 (wo_repository (snd st)) \<Longrightarrow> record_open ops (fst st) \<and> stored_open ops r0 (wo_repository (snd st))"
    and "record_cancelled env st = (Inr (), st')"
  shows "reported ops st'"
proof -
  let ?r = "(fst st)\<lparr>rr_state := RUN_CANCELLED, rr_resumable := True\<rparr>"
  have log: "log_open ops ?r (rr_events ?r)" if "record_open ops (fst st)"
    using that by (simp add: record_open_def log_open_def replay_start_def)
  have closing: "closing_event ops ?r ''agent.run.cancelled'' [usage_data ?r]" if "record_open ops (fst st)"
    using that by (intro closing_events) (simp_all add: record_open_def)
  show ?thesis
  proof (rule record_outcome [OF assms(1) _ assms(2)])
    show "append_event env True ''agent.run.cancelled'' [usage_data ?r] (?r, snd st) = (Inr (), st')"
      using assms(5) by (simp add: record_cancelled_def Let_def)
    show "same_run r0 ?r" using assms(3) by simp
    show "stored_open ops r0 (wo_repository (snd st)) \<and> log_open ops ?r (rr_events ?r) \<and>
        closing_event ops ?r ''agent.run.cancelled'' [usage_data ?r]" if "lease_held r0 (wo_repository (snd st))"
      using assms(4) that log closing by blast
  qed
qed

lemma complete_cancellation_reports:
  assumes others: "others_only_cancel env r0" and claim: "rr_claim r0 = Some claim" and pending: "cancel_pending ops r0 st"
    and complete: "complete_cancellation env st = (Inr (), st')"
  shows "reported ops st'"
proof (rule record_cancelled_reports [OF others claim])
  let ?st = "snd (refresh_cancellation env st)"
  have same: "same_run r0 (fst st)" using pending by (simp add: cancel_pending_def)
  then show "same_run r0 (fst ?st)" by simp
  show "record_open ops (fst ?st) \<and> stored_open ops r0 (wo_repository (snd ?st))" if "lease_held r0 (wo_repository (snd ?st))"
    using refresh_opens [OF others same that] pending refresh_held [OF others that] by (simp add: cancel_pending_def)
  show "record_cancelled env ?st = (Inr (), st')" using complete by (simp add: complete_cancellation_def)
qed

text \<open>An outcome that could not be recorded because a cancellation is stored.\<close>

lemma record_or_cancel:
  assumes others: "others_only_cancel env r0" and claim: "rr_claim r0 = Some claim" and same: "same_run r0 r"
    and open': "lease_held r0 (wo_repository w) \<Longrightarrow> stored_open ops r0 (wo_repository w) \<and> log_open ops r (rr_events r) \<and>
      closing_event ops r event_type data"
    and recorded: "or_cancelled env (append_event env True event_type data (r, w)) = (Inr (), st')"
  shows "reported ops st'"
proof -
  obtain res st1 where append: "append_event env True event_type data (r, w) = (res, st1)" by (rule prod.exhaust)
  have stored: "lease_held r0 (wo_repository w) \<longrightarrow> stored_open ops r0 (wo_repository w)" using open' by blast
  from append_outcome [OF others same claim stored append] show ?thesis
  proof (elim disjE exE conjE)
    fix m assume "res = Inl (AgentRunCancellationRequested m)" and pending: "cancel_pending ops r0 st1"
    then have "complete_cancellation env st1 = (Inr (), st')" using recorded append by (simp add: or_cancelled_def)
    from complete_cancellation_reports [OF others claim pending this] show ?thesis .
  next
    assume "res = Inr ()"
    then have "st1 = st'" using recorded append by (simp add: or_cancelled_def)
    with record_outcome [OF others same claim open'] append \<open>res = Inr ()\<close> show ?thesis by simp
  qed (use recorded append in \<open>simp_all add: or_cancelled_def\<close>)
qed

text \<open>The state in which the handler of an exception finds the run.\<close>

definition handler_ready :: "replay_ops \<Rightarrow> agent_run_record \<Rightarrow> error \<Rightarrow> run_state \<Rightarrow> bool" where
  "handler_ready ops r0 e st \<longleftrightarrow>
     same_run r0 (fst st) \<and>
     (lease_held r0 (wo_repository (snd st)) \<longrightarrow>
        stored_open ops r0 (wo_repository (snd st)) \<and>
        (record_open ops (fst st) \<or>
         (\<exists>d. e = AgentBudgetExceeded d) \<and> log_open ops (fst st) (rr_events (fst st)) \<and> rr_failure (fst st) = None \<or>
         (\<exists>m. e = AgentRunCancellationRequested m) \<and> cancel_pending ops r0 st))"

lemma kept_handler_ready:
  "others_only_cancel env r0 \<Longrightarrow> report_kept ops env r0 st \<Longrightarrow> handler_ready ops r0 e st"
  by (simp add: report_kept_def handler_ready_def)

lemma handler_reports:
  assumes others: "others_only_cancel env r0" and claim: "rr_claim r0 = Some claim" and ready: "handler_ready ops r0 e st"
    and handled: "handle_exception env e st = (Inr (), st')"
  shows "reported ops st'"
proof (cases e env st rule: handle_exception_cases)
  case cancelled
  have "cancel_pending ops r0 st"
    using ready cancelled(1) by (auto simp: handler_ready_def cancel_pending_def)
  then show ?thesis using complete_cancellation_reports [OF others claim] handled cancelled(2) by simp
next
  case (exhausted dimension)
  let ?r = "(fst st)\<lparr>rr_state := RUN_BUDGET_EXHAUSTED, rr_resumable := True\<rparr>"
  let ?data = "[(''dimension'', JString dimension), usage_data ?r, (''output'', dump_output (rr_output ?r))]"
  have same: "same_run r0 ?r" using ready by (simp add: handler_ready_def)
  have recorded: "or_cancelled env (append_event env True ''agent.run.budget_exhausted'' ?data (?r, snd st)) = (Inr (), st')"
    using handled exhausted(2) by (simp add: record_exhausted_def Let_def)
  have "stored_open ops r0 (wo_repository (snd st)) \<and> log_open ops ?r (rr_events ?r) \<and>
      closing_event ops ?r ''agent.run.budget_exhausted'' ?data" if "lease_held r0 (wo_repository (snd st))"
  proof -
    have "log_open ops (fst st) (rr_events (fst st)) \<and> rr_failure (fst st) = None"
      using ready that exhausted(1) by (auto simp: handler_ready_def record_open_def)
    then have "log_open ops ?r (rr_events ?r) \<and> rr_failure ?r = None" by (simp add: log_open_def replay_start_def)
    with ready that show ?thesis using closing_events(3) [of ?r ops dimension] by (simp add: handler_ready_def)
  qed
  from record_or_cancel [OF others claim same this recorded] show ?thesis .
next
  case lost
  then show ?thesis using handled by simp
next
  case failed
  let ?r = "(fst st)\<lparr>rr_state := RUN_FAILED, rr_failure := Some (error_name e), rr_resumable := True\<rparr>"
  let ?data = "[(''error_type'', JString (error_name e)), usage_data ?r]"
  have same: "same_run r0 ?r" using ready by (simp add: handler_ready_def)
  have recorded: "or_cancelled env (append_event env True ''agent.run.failed'' ?data (?r, snd st)) = (Inr (), st')"
    using handled failed(3) by (simp add: record_failed_def Let_def)
  have "stored_open ops r0 (wo_repository (snd st)) \<and> log_open ops ?r (rr_events ?r) \<and>
      closing_event ops ?r ''agent.run.failed'' ?data" if "lease_held r0 (wo_repository (snd st))"
  proof -
    have "record_open ops (fst st)" using ready that failed(1,2) by (auto simp: handler_ready_def)
    then have "log_open ops ?r (rr_events ?r) \<and> rr_output ?r = None" by (simp add: record_open_def log_open_def replay_start_def)
    with ready that show ?thesis using closing_events(4) [of ?r "error_name e" ops] by (simp add: handler_ready_def)
  qed
  from record_or_cancel [OF others claim same this recorded] show ?thesis .
qed

text \<open>The \<^verbatim>\<open>try\<close> block ends with a report or leaves the run to the handlers.\<close>

definition emits_neutral :: "replay_ops \<Rightarrow> agent_env \<Rightarrow> bool" where
  "emits_neutral ops env \<longleftrightarrow>
     (\<forall>name capability session run_id settings command. dict_get (en_capabilities env) name = Some capability \<longrightarrow>
        emits_only (ca_execute capability session run_id settings command) (neutral_event ops))"

lemma completion_outcome:
  assumes others: "others_only_cancel env r0" and claim: "rr_claim r0 = Some claim" and kept: "report_kept ops env r0 st"
    and completed: "append_event env False ''agent.run.completed''
        [(''output'', JObject payload), usage_data ((fst st)\<lparr>rr_output := Some payload, rr_state := RUN_COMPLETED\<rparr>)]
        ((fst st)\<lparr>rr_output := Some payload, rr_state := RUN_COMPLETED\<rparr>, snd st) = (res, st')"
  shows "case res of Inr _ \<Rightarrow> reported ops st' | Inl e \<Rightarrow> handler_ready ops r0 e st'"
proof -
  let ?r = "(fst st)\<lparr>rr_output := Some payload, rr_state := RUN_COMPLETED\<rparr>"
  let ?data = "[(''output'', JObject payload), usage_data ?r]"
  have same: "same_run r0 ?r" using kept by (simp add: report_kept_def)
  have now: "record_open ops (fst st) \<and> stored_open ops r0 (wo_repository (snd st))" if "lease_held r0 (wo_repository (snd st))"
    using kept others that by (simp add: report_kept_def)
  have open': "stored_open ops r0 (wo_repository (snd st)) \<and> log_open ops ?r (rr_events ?r) \<and> rr_failure ?r = None \<and>
      closing_event ops ?r ''agent.run.completed'' ?data" if "lease_held r0 (wo_repository (snd st))"
    using now [OF that] closing_events(2) [of ?r payload ops]
    by (simp add: record_open_def log_open_def replay_start_def)
  have stored: "lease_held r0 (wo_repository (snd st)) \<longrightarrow> stored_open ops r0 (wo_repository (snd st))" using now by blast
  from append_outcome [OF others same claim stored completed] show ?thesis
  proof (elim disjE exE conjE)
    assume "res = Inr ()"
    then have "reported ops st'"
      using record_outcome [OF others same claim _ completed [unfolded \<open>res = Inr ()\<close>]] open' by blast
    then show ?thesis by (simp add: \<open>res = Inr ()\<close>)
  qed (use open' same in \<open>auto simp: handler_ready_def cancel_pending_def\<close>)
qed

lemma attempt_outcome:
  assumes others: "others_only_cancel env r0" and claim: "rr_claim r0 = Some claim" and neutral: "emits_neutral ops env"
    and kept: "report_kept ops env r0 st" and attempt: "attempt_quantum env st = (res, st')"
  shows "case res of Inr _ \<Rightarrow> reported ops st' | Inl e \<Rightarrow> handler_ready ops r0 e st'"
proof -
  note ready = kept_handler_ready [OF others]
  obtain res1 st1 where started: "append_event env False ''agent.run.started'' [] st = (res1, st1)" by (rule prod.exhaust)
  have 1: "report_kept ops env r0 st1" using report_kept_append [OF kept neutral_events(4), of False "[]"] started by simp
  show ?thesis
  proof (cases "\<exists>capability. res1 = Inr () \<and> en_backend env (fst st1) = Inr () \<and>
      dict_get (en_capabilities env) (iv_capability (rr_invocation (fst st1))) = Some capability")
    case False
    then have "\<exists>e. attempt_quantum env st = (Inl e, st1)"
      using started
      by (cases res1; cases "en_backend env (fst st1)"; cases "dict_get (en_capabilities env) (iv_capability (rr_invocation (fst st1)))")
        (simp_all add: attempt_quantum_def)
    then show ?thesis using attempt ready [OF 1] by auto
  next
    case True
    then obtain capability where c: "res1 = Inr ()" "en_backend env (fst st1) = Inr ()"
      "dict_get (en_capabilities env) (iv_capability (rr_invocation (fst st1))) = Some capability" by blast
    let ?program = "ca_execute capability (rr_session (fst st1)) (rr_id (fst st1)) (rr_settings (fst st1)) (rr_command (fst st1))"
    obtain res2 st2 where run: "run_program ?program env st1 = (res2, st2)" by (rule prod.exhaust)
    have "emits_only ?program (neutral_event ops)" using neutral c(3) unfolding emits_neutral_def by blast
    then have 2: "report_kept ops env r0 st2" using report.run_program_keeps [OF 1] run by (metis snd_conv)
    show ?thesis
    proof (cases res2)
      case (Inl e)
      then have "res = Inl e \<and> st' = st2" using attempt started c run by (simp add: attempt_quantum_def)
      then show ?thesis using ready [OF 2] by simp
    next
      case (Inr payload)
      then show ?thesis using completion_outcome [OF others claim 2, of payload res st'] attempt started c run
        by (simp add: attempt_quantum_def Let_def)
    qed
  qed
qed

lemma refresh_state: "terminal (rr_state (fst (snd (refresh_cancellation env st)))) \<Longrightarrow> terminal (rr_state (fst st))"
  by (cases env st rule: refresh_cancellation_cases) (simp_all add: terminal_def)

text \<open>A quantum never changes which run its record is.\<close>

lemma append_same_run [simp]: "same_run r0 (fst (snd (append_event env force event_type data st))) = same_run r0 (fst st)"
  by (simp add: append_event_cases)

interpretation identity: outcome_predicate env "\<lambda>st. same_run r0 (fst st)" "\<lambda>_ _. True" for env r0
  by unfold_locales simp_all

lemma quantum_reports:
  assumes others: "others_only_cancel env r0" and claim: "rr_claim r0 = Some claim" and neutral: "emits_neutral ops env"
    and kept: "report_kept ops env r0 st" and running: "\<not> terminal (rr_state (fst st))"
    and returns: "quantum env st = (Inr view, st')"
  shows "reported ops st' \<and> view = run_view (fst st') \<and> same_run r0 (fst st')"
proof -
  obtain b st1 where 1: "refresh_cancellation env st = (b, st1)" by (rule prod.exhaust)
  have kept1: "report_kept ops env r0 st1" using report_kept_refresh [OF kept] 1 by simp
  have running1: "\<not> terminal (rr_state (fst st1))" using refresh_state [of env st] running 1 by auto
  let ?st3 = "begin_quantum env st1"
  have kept3: "report_kept ops env r0 ?st3"
    using kept1
    by (simp add: report_kept_def begin_quantum_def read_monotonic_def record_open_def log_open_def replay_start_def terminal_def
        split: option.split)
  obtain res st4 where 4: "attempt_quantum env ?st3 = (res, st4)" by (rule prod.exhaust)
  note attempted = attempt_outcome [OF others claim neutral kept3 4]
  have view: "view = run_view (fst st')" using quantum_is_terminal [OF returns] by blast
  have same1: "same_run r0 (fst st1)" using kept1 by (simp add: report_kept_def)
  have same: "same_run r0 (fst st')"
    using identity.quantum_keeps [of r0 st env] kept returns by (simp add: report_kept_def)
  show ?thesis
  proof (cases "rr_state (fst st1) = RUN_CANCEL_REQUESTED")
    case True
    then have "record_cancelled env st1 = (Inr (), st')"
      using returns running1 1 by (auto simp: quantum_def elim!: and_then_Inr_E)
    from record_cancelled_reports [OF others claim same1 _ this] kept1 others have "reported ops st'"
      by (simp add: report_kept_def)
    with view same show ?thesis by blast
  next
    case False
    then have "settle env (res, st4) = (Inr (), st')"
      using returns running1 1 4 by (auto simp: quantum_def elim!: and_then_Inr_E)
    then have "reported ops st'"
      using attempted handler_reports [OF others claim] by (cases res) (auto simp: settle_def)
    with view same show ?thesis by blast
  qed
qed

lemma start_report_kept:
  "record_open ops r \<Longrightarrow> stored_open ops r (wo_repository w) \<Longrightarrow> report_kept ops env r (r, w)"
  by (simp add: report_kept_def same_run_def)

section \<open>Samples\<close>

text \<open>
  A claimed run whose capability calls the model, emits an event and finishes, while a client
  requests its cancellation just before the outcome is saved.
\<close>

definition sample_ops :: replay_ops where
  "sample_ops = \<lparr>ro_settings = \<lambda>_. Inr (sn_settings sample_run), ro_budget = \<lambda>_. Inr default_budget, ro_str = \<lambda>_. []\<rparr>"

definition noting_program :: agent_program where
  "noting_program = CallModel ''s'' ''u'' Inr (\<lambda>res.
     case res of Inl e \<Rightarrow> Fail e | Inr _ \<Rightarrow> Emit ''synthesis.noted'' [] (\<lambda>_. Finish [(''answer'', JInt 1)]))"

definition sample_queued :: agent_run_record where
  "sample_queued = (new_record (sample_env (\<lambda>_ s. s) noting_program) ''run-1'' 0 sample_run_session (sn_invocation sample_run) [])
     \<lparr>rr_events := [\<lparr>ae_sequence = 1, ae_type = ''agent.run.queued'',
       ae_data = [(''settings'', JNull), (''budget'', JNull)], ae_created_at = 0\<rparr>]\<rparr>"

definition sample_claim :: agent_run_claim where
  "sample_claim = \<lparr>lc_lease_token = ''u'', lc_lease_version = 1, lc_expires_at = 300000000, lc_snapshot = run_snapshot sample_queued\<rparr>"

definition claimed_world :: agent_world where
  "claimed_world = \<lparr>wo_time = 0, wo_repository = snd (repo_claim_run ''u'' 0 ''acme'' ''run-1'' 300
     (snd (repo_create_or_get (run_snapshot sample_queued) empty_agent_repository)))\<rparr>"

definition claimed_record :: agent_run_record where
  "claimed_record = sample_queued\<lparr>rr_claim := Some sample_claim\<rparr>"

definition claimed_env :: agent_env where
  "claimed_env = sample_env (cancels_at 13) noting_program"

lemma cancels_only: "others_only_cancel (sample_env (cancels_at n) program) r"
proof -
  have "ar_leases (cancels_at n t s) = ar_leases s \<and>
      (dict_get (ar_runs (cancels_at n t s)) key = dict_get (ar_runs s) key \<or>
       (\<exists>now sn. dict_get (ar_runs s) key = Some sn \<and> dict_get (ar_runs (cancels_at n t s)) key = Some (with_cancellation_requested now sn)))"
    for t s key
    by (auto simp: cancels_at_def repo_request_cancellation_def Let_def dict_get_set split: option.splits)
  note cancels = this
  have kept: "ar_leases (cancels_at n t s) = ar_leases s" for t s using cancels by blast
  have leases: "lease_held r (cancels_at n t s) = lease_held r s" for t s unfolding lease_held_def kept ..
  have "en_others (sample_env (cancels_at n) program) = cancels_at n" by (simp add: sample_env_def)
  then show ?thesis using cancels leases unfolding others_only_cancel_def by metis
qed

lemma noting_neutral: "emits_neutral sample_ops (sample_env others noting_program)"
  by (simp add: emits_neutral_def sample_env_def noting_program_def neutral_event_def replay_event_def Let_def split: sum.split)

lemma claimed_record_open: "record_open sample_ops claimed_record"
  by (simp add: record_open_def claimed_record_def sample_queued_def new_record_def log_open_def replay_start_def terminal_def
      replay_event_def Let_def json_item_def sample_ops_def sample_env_def)

lemma claimed_stored_open: "stored_open sample_ops claimed_record (wo_repository claimed_world)"
proof -
  have "dict_get (ar_runs (wo_repository claimed_world)) (record_key claimed_record) = Some (run_snapshot sample_queued)"
    by code_simp
  moreover have "snapshot_open sample_ops claimed_record (run_snapshot sample_queued)"
    using claimed_record_open
    by (simp add: snapshot_open_def record_open_def run_snapshot_def claimed_record_def log_open_def replay_start_def)
  ultimately show ?thesis by (simp add: stored_open_def)
qed

lemma claimed_record_loaded: "record_from_snapshot claimed_env (Some sample_claim) (lc_snapshot sample_claim) = Inr claimed_record"
  by (simp add: record_from_snapshot_def claimed_env_def sample_env_def sample_claim_def claimed_record_def snapshot_session_def
      sample_queued_def new_record_def run_snapshot_def sample_run_session_def sample_run_def TenantSession_def)

definition claimed_outcome :: "(agent_run_state \<times> int) option" where
  "claimed_outcome =
     (case run_claimed claimed_env sample_claim claimed_world of
        Some (Inr view, w) \<Rightarrow> Some (vw_state view, us_model_calls (vw_usage view))
      | _ \<Rightarrow> None)"

lemma claimed_outcome_eq: "claimed_outcome = Some (RUN_CANCELLED, 1)"
  by code_simp

section \<open>Properties\<close>



text \<open>
  C21. What a worker reports is what is stored: if executing a claimed run returns a view, then the
  repository holds a snapshot of the run whose view it is, although cancellations may have been
  requested and the lease may have been lost at any moment in between.
\<close>

theorem claimed_report_is_stored:
  assumes "record_from_snapshot env (Some claim) (lc_snapshot claim) = Inr r"
    and "record_open ops r" and "stored_open ops r (wo_repository w)"
    and "others_only_cancel env r" and "emits_neutral ops env"
    and "run_claimed env claim w = Some (Inr view, w')"
  shows "\<exists>final. dict_get (ar_runs (wo_repository w')) (record_key r) = Some (run_snapshot final) \<and>
    run_view final = view \<and> terminal (vw_state view)"
proof -
  have claim: "rr_claim r = Some claim"
    using assms(1) by (auto simp: record_from_snapshot_def bind_result_def split: option.splits sum.splits)
  have running: "\<not> terminal (rr_state (fst (r, w)))" using assms(2) by (simp add: record_open_def)
  then have first: "\<not> terminal (vw_state (run_view r))" by (simp add: run_view_def)
  obtain res st' where q: "quantum env (r, w) = (res, st')" by (rule prod.exhaust)
  have "claimed_quanta env (run_view r) (r, w) = Some (Inr view, w')" using assms(1,6) by (simp add: run_claimed_def)
  then obtain final where final: "res = Inr final" "claimed_quanta env final st' = Some (Inr view, w')"
    using first q by (cases res) (simp_all add: claimed_quanta.simps [of env "run_view r"])
  with q have terminal: "terminal (vw_state final)" using quantum_is_terminal by blast
  then have "final = view" "w' = snd st'" using final(2) by (simp_all add: claimed_quanta.simps [of env final])
  moreover from quantum_reports [OF assms(4) claim assms(5) start_report_kept [OF assms(2,3)] running] q final(1)
  have "reported ops st' \<and> final = run_view (fst st') \<and> same_run r (fst st')" by simp
  ultimately show ?thesis using terminal same_run_eqs(1) [of r "fst st'"] by (auto simp: reported_def)
qed

theorem claimed_report_is_stored_witness:
  "\<exists>view w' final. run_claimed claimed_env sample_claim claimed_world = Some (Inr view, w') \<and>
     dict_get (ar_runs (wo_repository w')) (record_key claimed_record) = Some (run_snapshot final) \<and>
     run_view final = view \<and> vw_state view = RUN_CANCELLED"
proof -
  obtain view w' where r: "run_claimed claimed_env sample_claim claimed_world = Some (Inr view, w')" "vw_state view = RUN_CANCELLED"
    using claimed_outcome_eq by (auto simp: claimed_outcome_def split: option.splits prod.splits sum.splits)
  from claimed_report_is_stored [OF claimed_record_loaded claimed_record_open claimed_stored_open
      cancels_only [of 13 noting_program, folded claimed_env_def] noting_neutral [of "cancels_at 13", folded claimed_env_def] r(1)] r
  show ?thesis by blast
qed

end
